(* ===== verification/Prelude.thy ===== *)
theory Prelude
  imports Main "HOL-Library.Sublist"
begin

text \<open>
  Shared vocabulary of the CloudCore development: the collections of rewrite rules that the
  component theories extend, results of Python code that may raise, the parts of Python's
  string library that the sources call (\<^verbatim>\<open>str.split\<close>, \<^verbatim>\<open>str.strip\<close>, \<^verbatim>\<open>int()\<close>,
  \<^verbatim>\<open>str()\<close> of an integer), and generic list facts.  Strings are lists of characters
  restricted to one byte each, so the whitespace and digit classes are Python's on that
  range.
\<close>

section \<open>Collections of rewrite rules\<close>

named_theorems py_defs \<open>definitions of the Python library model\<close>
named_theorems cal_simps \<open>calendar facts\<close>
named_theorems tbl_simps \<open>facts about database tables\<close>
named_theorems route_defs \<open>definitions of request handlers\<close>

section \<open>Results that may be an exception\<close>

definition raise_bind :: "'e + 'a \<Rightarrow> ('a \<Rightarrow> 'e + 'b) \<Rightarrow> 'e + 'b" where
  "raise_bind r f = (case r of Inl e \<Rightarrow> Inl e | Inr x \<Rightarrow> f x)"

lemma raise_bind_simps [simp]:
  "raise_bind (Inl e) f = Inl e"
  "raise_bind (Inr x) f = f x"
  by (simp_all add: raise_bind_def)

lemma raise_bind_Inr_iff:
  "raise_bind r f = Inr y \<longleftrightarrow> (\<exists>x. r = Inr x \<and> f x = Inr y)"
  by (cases r) simp_all

lemma raise_bind_Inl_iff:
  "raise_bind r f = Inl e \<longleftrightarrow> r = Inl e \<or> (\<exists>x. r = Inr x \<and> f x = Inl e)"
  by (cases r) simp_all

text \<open>A loop over a list that stops at the first exception and collects its results.\<close>

fun raise_map :: "('a \<Rightarrow> 'e + 'b) \<Rightarrow> 'a list \<Rightarrow> 'e + 'b list" where
  "raise_map f [] = Inr []"
| "raise_map f (x # xs) = raise_bind (f x) (\<lambda>y. raise_bind (raise_map f xs) (\<lambda>ys. Inr (y # ys)))"

lemma raise_map_Inr_length: "raise_map f xs = Inr ys \<Longrightarrow> length ys = length xs"
  by (induction xs arbitrary: ys) (auto simp: raise_bind_Inr_iff)

lemma raise_map_Inr_set:
  "raise_map f xs = Inr ys \<Longrightarrow> y \<in> set ys \<Longrightarrow> \<exists>x \<in> set xs. f x = Inr y"
  by (induction xs arbitrary: ys) (auto simp: raise_bind_Inr_iff)

section \<open>Python strings\<close>

text \<open>\<^verbatim>\<open>str.isspace\<close> on one-byte characters: tab, newline, vertical tab, form feed, carriage
  return, the four separators 28--31, space, 133 and 160.\<close>

definition is_space :: "char \<Rightarrow> bool" where
  "is_space c \<longleftrightarrow> (let n = (of_char c :: nat) in
     (9 \<le> n \<and> n \<le> 13) \<or> (28 \<le> n \<and> n \<le> 32) \<or> n = 133 \<or> n = 160)"

definition is_digit :: "char \<Rightarrow> bool" where
  "is_digit c \<longleftrightarrow> (let n = (of_char c :: nat) in 48 \<le> n \<and> n \<le> 57)"

definition digit_val :: "char \<Rightarrow> nat" where
  "digit_val c = of_char c - 48"

definition digit_char :: "nat \<Rightarrow> char" where
  "digit_char n = char_of (48 + n)"

text \<open>\<^verbatim>\<open>s.split(c)\<close> with a one-character separator: always at least one piece.\<close>

fun split_on :: "char \<Rightarrow> string \<Rightarrow> string list" where
  "split_on c [] = [[]]"
| "split_on c (x # xs) =
     (if x = c then [] # split_on c xs
      else (case split_on c xs of [] \<Rightarrow> [[x]] | p # ps \<Rightarrow> (x # p) # ps))"

text \<open>\<^verbatim>\<open>s.split(c, 1)\<close> where \<^verbatim>\<open>c\<close> is known to occur in \<^verbatim>\<open>s\<close>: before and after the
  first occurrence.\<close>

definition split_once :: "char \<Rightarrow> string \<Rightarrow> string \<times> string" where
  "split_once c s = (takeWhile (\<lambda>x. x \<noteq> c) s, tl (dropWhile (\<lambda>x. x \<noteq> c) s))"

text \<open>\<^verbatim>\<open>s.split()\<close>: the maximal runs of characters that are not white space.\<close>

fun split_ws_all :: "string \<Rightarrow> string list" where
  "split_ws_all [] = [[]]"
| "split_ws_all (x # xs) =
     (if is_space x then [] # split_ws_all xs
      else (case split_ws_all xs of [] \<Rightarrow> [[x]] | p # ps \<Rightarrow> (x # p) # ps))"

definition py_split :: "string \<Rightarrow> string list" where
  "py_split s = filter (\<lambda>w. w \<noteq> []) (split_ws_all s)"

definition py_strip :: "string \<Rightarrow> string" where
  "py_strip s = rev (dropWhile is_space (rev (dropWhile is_space s)))"

text \<open>\<^verbatim>\<open>int(s)\<close>: white space around, an optional sign, digits with single underscores
  between them.  \<open>None\<close> is \<^verbatim>\<open>ValueError\<close>.\<close>

fun int_tail :: "nat \<Rightarrow> string \<Rightarrow> nat option" where
  "int_tail acc [] = Some acc"
| "int_tail acc (c # cs) =
     (if is_digit c then int_tail (acc * 10 + digit_val c) cs
      else if c = CHR ''_'' then
        (case cs of [] \<Rightarrow> None
         | d # ds \<Rightarrow> if is_digit d then int_tail (acc * 10 + digit_val d) ds else None)
      else None)"

definition int_body :: "string \<Rightarrow> nat option" where
  "int_body s = (case s of [] \<Rightarrow> None
     | c # cs \<Rightarrow> if is_digit c then int_tail (digit_val c) cs else None)"

definition py_int :: "string \<Rightarrow> int option" where
  "py_int s = (case py_strip s of [] \<Rightarrow> None
     | c # cs \<Rightarrow>
        if c = CHR ''-'' then map_option (\<lambda>n. - int n) (int_body cs)
        else if c = CHR ''+'' then map_option int (int_body cs)
        else map_option int (int_body (c # cs)))"

text \<open>\<^verbatim>\<open>str(n)\<close> of an integer.\<close>

fun show_nat :: "nat \<Rightarrow> string" where
  "show_nat n = (if n < 10 then [digit_char n] else show_nat (n div 10) @ [digit_char (n mod 10)])"

declare show_nat.simps [simp del]

definition show_int :: "int \<Rightarrow> string" where
  "show_int i = (if i < 0 then CHR ''-'' # show_nat (nat (- i)) else show_nat (nat i))"

subsection \<open>Reading back a printed integer\<close>

lemma digit_char_facts:
  assumes "n < 10"
  shows "is_digit (digit_char n)" "digit_val (digit_char n) = n" "\<not> is_space (digit_char n)"
    "digit_char n \<noteq> CHR ''-''" "digit_char n \<noteq> CHR ''+''" "digit_char n \<noteq> CHR ''_''"
    "digit_char n \<noteq> CHR '',''" "digit_char n \<noteq> CHR ''/''" "digit_char n \<noteq> CHR ''*''"
proof -
  have "n \<in> set [0, 1, 2, 3, 4, 5, 6, 7, 8, 9]" using assms by auto
  then show "is_digit (digit_char n)" "digit_val (digit_char n) = n" "\<not> is_space (digit_char n)"
    "digit_char n \<noteq> CHR ''-''" "digit_char n \<noteq> CHR ''+''" "digit_char n \<noteq> CHR ''_''"
    "digit_char n \<noteq> CHR '',''" "digit_char n \<noteq> CHR ''/''" "digit_char n \<noteq> CHR ''*''"
    by (auto simp: is_digit_def digit_val_def digit_char_def is_space_def char_of_eq_iff)
qed

lemma show_nat_digits: "c \<in> set (show_nat n) \<Longrightarrow> \<exists>d < 10. c = digit_char d"
proof (induction n rule: show_nat.induct)
  case (1 n)
  show ?case
  proof (cases "n < 10")
    case True
    with 1 show ?thesis by (auto simp: show_nat.simps)
  next
    case False
    with 1 show ?thesis
      by (subst (asm) (2) show_nat.simps) (auto intro: exI [of _ "n mod 10"])
  qed
qed

lemma show_nat_nonempty [simp]: "show_nat n \<noteq> []"
  by (subst show_nat.simps) simp

lemma int_tail_snoc:
  assumes "\<forall>c \<in> set xs. is_digit c" and "is_digit d"
  shows "int_tail acc (xs @ [d]) = map_option (\<lambda>a. a * 10 + digit_val d) (int_tail acc xs)"
  using assms by (induction xs arbitrary: acc) auto

lemma show_nat_all_digits: "\<forall>c \<in> set (show_nat n). is_digit c"
  using show_nat_digits digit_char_facts(1) by blast

lemma int_body_snoc:
  assumes "\<forall>c \<in> set xs. is_digit c" and "is_digit d" and "xs \<noteq> []"
  shows "int_body (xs @ [d]) = map_option (\<lambda>a. a * 10 + digit_val d) (int_body xs)"
  using assms int_tail_snoc [of "tl xs" d "digit_val (hd xs)"]
  by (cases xs) (auto simp: int_body_def)

lemma int_body_show_nat: "int_body (show_nat n) = Some n"
proof (induction n rule: show_nat.induct)
  case (1 n)
  show ?case
  proof (cases "n < 10")
    case True
    then show ?thesis
      by (subst show_nat.simps) (simp add: int_body_def digit_char_facts)
  next
    case False
    then have "int_body (show_nat n) =
        map_option (\<lambda>a. a * 10 + digit_val (digit_char (n mod 10))) (int_body (show_nat (n div 10)))"
      by (subst show_nat.simps) (simp add: int_body_snoc show_nat_all_digits digit_char_facts)
    with 1 [OF False] show ?thesis by (simp add: digit_char_facts)
  qed
qed

lemma dropWhile_none: "\<forall>c \<in> set s. \<not> P c \<Longrightarrow> dropWhile P s = s"
  by (cases s) auto

lemma py_strip_id: "\<forall>c \<in> set s. \<not> is_space c \<Longrightarrow> py_strip s = s"
  by (simp add: py_strip_def dropWhile_none)

lemma show_nat_no_space: "\<forall>c \<in> set (show_nat n). \<not> is_space c"
  using show_nat_digits digit_char_facts(3) by blast

lemma show_int_no_space: "\<forall>c \<in> set (show_int i). \<not> is_space c"
proof -
  have "\<not> is_space (CHR ''-'')" by (simp add: is_space_def)
  then show ?thesis using show_nat_no_space by (auto simp: show_int_def)
qed

lemma show_nat_hd: "\<exists>d cs. d < 10 \<and> show_nat n = digit_char d # cs"
proof -
  have "hd (show_nat n) \<in> set (show_nat n)" by simp
  then obtain d where "d < 10" "hd (show_nat n) = digit_char d" using show_nat_digits by blast
  then show ?thesis by (metis list.collapse show_nat_nonempty)
qed

lemma py_int_show_nat: "py_int (show_nat n) = Some (int n)"
proof -
  obtain d cs where d: "d < 10" and eq: "show_nat n = digit_char d # cs"
    using show_nat_hd by blast
  have "py_strip (digit_char d # cs) = digit_char d # cs"
    using py_strip_id [OF show_nat_no_space, of n] eq by simp
  then show ?thesis
    using int_body_show_nat [of n] d by (simp add: py_int_def digit_char_facts eq)
qed

lemma py_int_show_int: "py_int (show_int i) = Some i"
proof (cases "i < 0")
  case True
  have "py_strip (show_int i) = show_int i" by (rule py_strip_id [OF show_int_no_space])
  with True show ?thesis by (simp add: py_int_def show_int_def int_body_show_nat)
next
  case False
  then show ?thesis by (simp add: show_int_def py_int_show_nat)
qed

section \<open>Splitting\<close>

lemma split_on_nonempty [simp]: "split_on c s \<noteq> []"
  by (induction s) (auto split: list.split)

lemma split_on_none: "c \<notin> set s \<Longrightarrow> split_on c s = [s]"
  by (induction s) auto

lemma split_ws_all_nonempty [simp]: "split_ws_all s \<noteq> []"
  by (induction s) (auto split: list.split)

lemma split_ws_all_word: "\<forall>c \<in> set w. \<not> is_space c \<Longrightarrow> split_ws_all w = [w]"
  by (induction w) auto

lemma split_ws_all_append:
  "\<forall>c \<in> set w. \<not> is_space c \<Longrightarrow> is_space x \<Longrightarrow> split_ws_all (w @ x # s) = w # split_ws_all s"
  by (induction w) auto

definition word :: "string \<Rightarrow> bool" where
  "word w \<longleftrightarrow> w \<noteq> [] \<and> (\<forall>c \<in> set w. \<not> is_space c)"

lemma py_split_word: "word w \<Longrightarrow> py_split w = [w]"
  by (simp add: word_def py_split_def split_ws_all_word)

lemma py_split_Cons_word: "word w \<Longrightarrow> is_space x \<Longrightarrow> py_split (w @ x # s) = w # py_split s"
  by (simp add: word_def py_split_def split_ws_all_append)

lemma show_int_nonempty [simp]: "show_int i \<noteq> []"
  by (simp add: show_int_def)

lemma word_show_int [simp]: "word (show_int i)"
  using show_int_no_space by (simp add: word_def)

lemma word_Cons: "\<not> is_space c \<Longrightarrow> w = [] \<or> word w \<Longrightarrow> word (c # w)"
  by (auto simp: word_def)

lemma is_space_blank [simp]: "is_space (CHR '' '')"
  by (simp add: is_space_def)

section \<open>Lists of results\<close>

fun all_some :: "'a option list \<Rightarrow> 'a list option" where
  "all_some [] = Some []"
| "all_some (x # xs) = (case x of None \<Rightarrow> None | Some y \<Rightarrow> map_option (Cons y) (all_some xs))"

lemma all_some_in: "all_some xs = Some ys \<Longrightarrow> y \<in> set ys \<Longrightarrow> Some y \<in> set xs"
  by (induction xs arbitrary: ys) (auto split: option.splits)

definition inls :: "('a + 'b) list \<Rightarrow> 'a list" where
  "inls xs = List.map_filter (\<lambda>x. case x of Inl a \<Rightarrow> Some a | Inr b \<Rightarrow> None) xs"
definition inrs :: "('a + 'b) list \<Rightarrow> 'b list" where
  "inrs xs = List.map_filter (\<lambda>x. case x of Inl a \<Rightarrow> None | Inr b \<Rightarrow> Some b) xs"

lemma inrs_in: "x \<in> set (inrs xs) \<Longrightarrow> Inr x \<in> set xs"
  by (auto simp: inrs_def map_filter_def split: sum.splits)

end
