(* ===== verification/Civil.thy ===== *)
theory Civil
  imports Prelude
begin

text \<open>
  The part of Python's \<^verbatim>\<open>datetime\<close> that \<^verbatim>\<open>api/croncalc.py\<close> relies on: naive datetimes cut to
  whole minutes in the proleptic Gregorian calendar, their order, adding minutes, hours and
  days, and the day of the week.  A datetime is valid when its fields are in range; the
  arithmetic keeps it valid, and \<open>minute_index\<close> numbers the minutes consecutively, so that
  adding one minute is adding one to the index.  Years are unbounded (Python stops at 9999).
\<close>

section \<open>Dates\<close>

record datetime =
  year :: nat
  month :: nat
  day :: nat
  hour :: nat
  minute :: nat

definition is_leap :: "nat \<Rightarrow> bool" where
  "is_leap y \<longleftrightarrow> y mod 4 = 0 \<and> (y mod 100 \<noteq> 0 \<or> y mod 400 = 0)"

definition days_in_month :: "nat \<Rightarrow> nat \<Rightarrow> nat" where
  "days_in_month y m =
     (if m = 2 then (if is_leap y then 29 else 28)
      else if m \<in> {4, 6, 9, 11} then 30 else 31)"

definition valid_dt :: "datetime \<Rightarrow> bool" where
  "valid_dt d \<longleftrightarrow> 1 \<le> year d \<and> 1 \<le> month d \<and> month d \<le> 12 \<and> 1 \<le> day d
     \<and> day d \<le> days_in_month (year d) (month d) \<and> hour d < 24 \<and> minute d < 60"

text \<open>Python's \<^verbatim>\<open>_days_before_year\<close>, \<^verbatim>\<open>_days_before_month\<close> and \<^verbatim>\<open>toordinal\<close>.\<close>

definition days_before_year :: "nat \<Rightarrow> nat" where
  "days_before_year y = (let p = y - 1 in p * 365 + p div 4 + p div 400 - p div 100)"

fun days_before_month :: "nat \<Rightarrow> nat \<Rightarrow> nat" where
  "days_before_month y 0 = 0"
| "days_before_month y (Suc m) = (if m = 0 then 0 else days_before_month y m + days_in_month y m)"

definition toordinal :: "datetime \<Rightarrow> nat" where
  "toordinal d = days_before_year (year d) + days_before_month (year d) (month d) + day d"

definition weekday :: "datetime \<Rightarrow> nat" where
  "weekday d = (toordinal d + 6) mod 7"

definition minute_index :: "datetime \<Rightarrow> nat" where
  "minute_index d = (toordinal d * 24 + hour d) * 60 + minute d"

text \<open>The order of datetimes compares the fields from the year down.\<close>

definition dt_less :: "datetime \<Rightarrow> datetime \<Rightarrow> bool" where
  "dt_less a b \<longleftrightarrow>
     year a < year b \<or> (year a = year b \<and>
      (month a < month b \<or> (month a = month b \<and>
       (day a < day b \<or> (day a = day b \<and>
        (hour a < hour b \<or> (hour a = hour b \<and> minute a < minute b)))))))"

section \<open>Adding a minute, an hour, a day\<close>

definition next_month :: "datetime \<Rightarrow> datetime" where
  "next_month d = (if month d + 1 > 12 then d\<lparr>year := year d + 1, month := 1, day := 1\<rparr>
                   else d\<lparr>month := month d + 1, day := 1\<rparr>)"

definition add_day :: "datetime \<Rightarrow> datetime" where
  "add_day d = (if day d < days_in_month (year d) (month d) then d\<lparr>day := day d + 1\<rparr>
                else next_month d)"

definition add_hour :: "datetime \<Rightarrow> datetime" where
  "add_hour d = (if hour d < 23 then d\<lparr>hour := hour d + 1\<rparr> else add_day (d\<lparr>hour := 0\<rparr>))"

definition add_minute :: "datetime \<Rightarrow> datetime" where
  "add_minute d = (if minute d < 59 then d\<lparr>minute := minute d + 1\<rparr> else add_hour (d\<lparr>minute := 0\<rparr>))"

fun add_days :: "nat \<Rightarrow> datetime \<Rightarrow> datetime" where
  "add_days 0 d = d"
| "add_days (Suc n) d = add_days n (add_day d)"

section \<open>Facts\<close>

lemma days_in_month_bounds:
  "28 \<le> days_in_month y m" "days_in_month y m \<le> 31" "Suc 0 \<le> days_in_month y m"
  by (simp_all add: days_in_month_def)

lemma mod_0_down: "n mod k = 0 \<Longrightarrow> m dvd k \<Longrightarrow> n mod m = (0::nat)"
  by (rule dvd_imp_mod_0) (rule dvd_trans [OF _ mod_0_imp_dvd])

lemma mixed_radix_inj:
  assumes "(a * 24 + h) * 60 + m = (b * 24 + k) * 60 + (n::nat)"
    and "h < 24" "k < 24" "m < 60" "n < 60"
  shows "a = b \<and> h = k \<and> m = n"
proof -
  have m: "(x * 60 + m) mod 60 = m" and n: "(x * 60 + n) mod 60 = n" for x :: nat
    using assms(4,5) by simp_all
  have mn: "m = n" using m [of "a * 24 + h"] n [of "b * 24 + k"] assms(1) by metis
  then have "(a * 24 + h) * 60 = (b * 24 + k) * 60" using assms(1) by (simp only: add_right_cancel)
  then have e: "a * 24 + h = b * 24 + k" by (simp only: mult_cancel2) simp
  have h: "(x * 24 + h) mod 24 = h" and k: "(x * 24 + k) mod 24 = k" for x :: nat
    using assms(2,3) by simp_all
  have "h = k" using h [of a] k [of b] e by metis
  with e mn show ?thesis by simp
qed

lemma leap_step:
  assumes "a' = a + (if A then 1 else 0)" "b' = b + (if B then 1 else 0)"
    "c' = c + (if C then 1 else 0)" "b \<le> a" "C \<Longrightarrow> B" "B \<Longrightarrow> A"
  shows "Suc p * 365 + a' + c' - b' =
    (p * 365 + a + c - b) + (if A \<and> (\<not> B \<or> C) then 366 else (365::nat))"
proof -
  have "b \<le> p * 365 + a + c" using assms(4) by (simp add: trans_le_add1 trans_le_add2)
  then show ?thesis
    using assms by (cases A; cases B; cases C) (simp_all add: algebra_simps Suc_diff_le)
qed

lemma days_before_year_Suc:
  assumes "1 \<le> y"
  shows "days_before_year (Suc y) = days_before_year y + (if is_leap y then 366 else 365)"
proof -
  obtain p where y: "y = Suc p" using assms by (cases y) auto
  have "Suc p * 365 + Suc p div 4 + Suc p div 400 - Suc p div 100 =
      (p * 365 + p div 4 + p div 400 - p div 100) +
      (if Suc p mod 4 = 0 \<and> (\<not> Suc p mod 100 = 0 \<or> Suc p mod 400 = 0) then 366 else 365)"
  proof (rule leap_step)
    show "Suc p div 4 = p div 4 + (if Suc p mod 4 = 0 then 1 else 0)" by (simp add: div_Suc)
    show "Suc p div 100 = p div 100 + (if Suc p mod 100 = 0 then 1 else 0)" by (simp add: div_Suc)
    show "Suc p div 400 = p div 400 + (if Suc p mod 400 = 0 then 1 else 0)" by (simp add: div_Suc)
    show "p div 100 \<le> p div 4" by (simp add: div_le_mono2)
    show "Suc p mod 100 = 0" if "Suc p mod 400 = 0" by (rule mod_0_down [OF that]) simp
    show "Suc p mod 4 = 0" if "Suc p mod 100 = 0" by (rule mod_0_down [OF that]) simp
  qed
  then show ?thesis by (simp only: days_before_year_def is_leap_def y Let_def diff_Suc_1)
qed

lemma days_before_month_12:
  "days_before_month y 12 + days_in_month y 12 = (if is_leap y then 366 else 365)"
  by (simp add: numeral_eq_Suc days_in_month_def)

lemma days_before_month_Suc:
  "1 \<le> m \<Longrightarrow> days_before_month y (Suc m) = days_before_month y m + days_in_month y m"
  by simp

declare days_before_month.simps(2) [simp del]

lemma days_before_month_1 [simp]: "days_before_month y 1 = 0" "days_before_month y (Suc 0) = 0"
  by (simp_all add: days_before_month.simps)

lemma toordinal_next_month:
  assumes "1 \<le> year d" "1 \<le> month d" "month d \<le> 12"
  shows "toordinal (next_month d) =
    days_before_year (year d) + days_before_month (year d) (month d)
      + days_in_month (year d) (month d) + 1"
proof (cases "month d = 12")
  case True
  then show ?thesis
    using assms days_before_month_12 [of "year d"]
    by (simp add: next_month_def toordinal_def days_before_year_Suc)
next
  case False
  with assms show ?thesis
    by (simp add: next_month_def toordinal_def days_before_month_Suc)
qed

lemma valid_next_month: "valid_dt d \<Longrightarrow> valid_dt (next_month d)"
  using days_in_month_bounds(3) by (auto simp: valid_dt_def next_month_def)

lemma valid_add_day: "valid_dt d \<Longrightarrow> valid_dt (add_day d)"
  using valid_next_month [of d] by (auto simp: add_day_def) (auto simp: valid_dt_def)

lemma toordinal_add_day: "valid_dt d \<Longrightarrow> toordinal (add_day d) = toordinal d + 1"
  using toordinal_next_month [of d]
  by (auto simp: add_day_def valid_dt_def) (auto simp: toordinal_def)

lemma add_day_hm [simp]: "hour (add_day d) = hour d" "minute (add_day d) = minute d"
  by (simp_all add: add_day_def next_month_def)

lemma toordinal_upd [simp]:
  "toordinal (d\<lparr>hour := h\<rparr>) = toordinal d" "toordinal (d\<lparr>minute := m\<rparr>) = toordinal d"
  by (simp_all add: toordinal_def)

lemma valid_dt_upd [simp]:
  "valid_dt d \<Longrightarrow> h < 24 \<Longrightarrow> valid_dt (d\<lparr>hour := h\<rparr>)"
  "valid_dt d \<Longrightarrow> m < 60 \<Longrightarrow> valid_dt (d\<lparr>minute := m\<rparr>)"
  by (simp_all add: valid_dt_def)

lemma valid_add_hour: "valid_dt d \<Longrightarrow> valid_dt (add_hour d)"
  by (auto simp: add_hour_def intro!: valid_add_day)

lemma valid_add_minute: "valid_dt d \<Longrightarrow> valid_dt (add_minute d)"
  by (auto simp: add_minute_def intro!: valid_add_hour)

lemma minute_index_add_day: "valid_dt d \<Longrightarrow> minute_index (add_day d) = minute_index d + 1440"
  by (simp add: minute_index_def toordinal_add_day)

lemma minute_index_add_hour: "valid_dt d \<Longrightarrow> minute_index (add_hour d) = minute_index d + 60"
  by (auto simp: add_hour_def minute_index_def toordinal_add_day) (simp add: valid_dt_def)

lemma minute_index_add_minute:
  "valid_dt d \<Longrightarrow> minute_index (add_minute d) = minute_index d + 1"
  using minute_index_add_hour [of "d\<lparr>minute := 0\<rparr>"]
  by (auto simp: add_minute_def) (auto simp: minute_index_def valid_dt_def)

lemma valid_add_days: "valid_dt d \<Longrightarrow> valid_dt (add_days n d)"
  by (induction n arbitrary: d) (auto intro: valid_add_day)

lemma minute_index_add_days:
  "valid_dt d \<Longrightarrow> minute_index (add_days n d) = minute_index d + 1440 * n"
  by (induction n arbitrary: d) (auto simp: minute_index_add_day valid_add_day)

subsection \<open>The order of datetimes is the order of the minute indices\<close>

lemma days_before_month_mono:
  "1 \<le> m \<Longrightarrow> m < m' \<Longrightarrow> days_before_month y m + days_in_month y m \<le> days_before_month y m'"
proof (induction m')
  case (Suc k)
  then show ?case
    by (cases "m = k") (auto simp: days_before_month_Suc)
qed simp

lemma days_before_month_year:
  "1 \<le> m \<Longrightarrow> m \<le> 12 \<Longrightarrow> days_before_month y m + days_in_month y m \<le> (if is_leap y then 366 else 365)"
  using days_before_month_mono [of m 12 y] days_before_month_12 [of y]
  by (cases "m = 12") auto

lemma days_before_year_mono:
  "1 \<le> y \<Longrightarrow> y < y' \<Longrightarrow> days_before_year y + (if is_leap y then 366 else 365) \<le> days_before_year y'"
proof (induction y')
  case (Suc k)
  show ?case
  proof (cases "y = k")
    case True
    with Suc.prems show ?thesis by (simp add: days_before_year_Suc)
  next
    case False
    with Suc show ?thesis by (auto simp: days_before_year_Suc)
  qed
qed simp

lemma toordinal_less_date:
  assumes "valid_dt a" "valid_dt b"
    and "year a < year b \<or> year a = year b \<and> (month a < month b \<or> month a = month b \<and> day a < day b)"
  shows "toordinal a < toordinal b"
proof -
  have va: "1 \<le> year a" "1 \<le> month a" "month a \<le> 12" "day a \<le> days_in_month (year a) (month a)"
    and vb: "1 \<le> year b" "1 \<le> month b" "1 \<le> day b"
    using assms(1,2) by (auto simp: valid_dt_def)
  consider "year a < year b" | "year a = year b" "month a < month b"
    | "year a = year b" "month a = month b" "day a < day b" using assms(3) by blast
  then show ?thesis
  proof cases
    case 1
    then show ?thesis
      using days_before_year_mono [OF va(1) 1] days_before_month_year [OF va(2,3), of "year a"] va vb
      by (simp add: toordinal_def)
  next
    case 2
    then show ?thesis
      using days_before_month_mono [OF va(2) 2(2), of "year a"] va vb by (simp add: toordinal_def)
  next
    case 3
    then show ?thesis by (simp add: toordinal_def)
  qed
qed

lemma toordinal_inj:
  assumes "valid_dt a" "valid_dt b" "toordinal a = toordinal b"
  shows "year a = year b \<and> month a = month b \<and> day a = day b"
  using toordinal_less_date [OF assms(1,2)] toordinal_less_date [OF assms(2,1)] assms(3)
  by (metis less_irrefl linorder_neqE_nat)

lemma dt_less_minute_index:
  assumes "valid_dt a" "valid_dt b"
  shows "dt_less a b \<longleftrightarrow> minute_index a < minute_index b"
proof -
  have hm: "hour a < 24" "minute a < 60" "hour b < 24" "minute b < 60"
    using assms by (auto simp: valid_dt_def)
  consider (lt) "toordinal a < toordinal b" | (gt) "toordinal b < toordinal a"
    | (eq) "toordinal a = toordinal b" by linarith
  then show ?thesis
  proof cases
    case lt
    then have "minute_index a < minute_index b" using hm by (simp add: minute_index_def)
    moreover have "dt_less a b"
      using toordinal_less_date [OF assms(2,1)] lt toordinal_def
      by (metis dt_less_def less_imp_not_less linorder_neqE_nat order_less_irrefl)
    ultimately show ?thesis by simp
  next
    case gt
    then have "minute_index b < minute_index a" using hm by (simp add: minute_index_def)
    moreover have "\<not> dt_less a b"
      using toordinal_less_date [OF assms] gt by (auto simp: dt_less_def toordinal_def)
    ultimately show ?thesis by simp
  next
    case eq
    with toordinal_inj [OF assms] have "year a = year b" "month a = month b" "day a = day b" by auto
    with eq hm show ?thesis by (auto simp: dt_less_def minute_index_def)
  qed
qed

lemma minute_index_inj:
  "valid_dt a \<Longrightarrow> valid_dt b \<Longrightarrow> minute_index a = minute_index b \<Longrightarrow> a = b"
proof -
  assume v: "valid_dt a" "valid_dt b" and eq: "minute_index a = minute_index b"
  have "hour a < 24" "minute a < 60" "hour b < 24" "minute b < 60" using v by (auto simp: valid_dt_def)
  then have "toordinal a = toordinal b \<and> hour a = hour b \<and> minute a = minute b"
    using eq unfolding minute_index_def by (intro mixed_radix_inj)
  then show "a = b" using toordinal_inj [OF v] by simp
qed

end
