(* ===== verification/Cron_Search.thy ===== *)
theory Cron_Search
  imports Croncalc
begin

text \<open>
  Correctness of \<^verbatim>\<open>croncalc.next_fire\<close> against its specification, the first minute after the
  given one on which the expression fires, and liveness of the schedules that the recurrence
  picker builds.
\<close>

section \<open>Specification\<close>

text \<open>The minutes an expression fires on, as a predicate on single minutes.\<close>

definition fires :: "cron \<Rightarrow> datetime \<Rightarrow> bool" where
  "fires cr t \<longleftrightarrow> int (month t) \<in> months cr \<and> day_ok cr t
     \<and> int (hour t) \<in> hours cr \<and> int (minute t) \<in> minutes cr"

section \<open>The jumps skip only minutes that do not fire\<close>

lemma same_ordinal_day_ok:
  assumes "valid_dt a" "valid_dt b" "toordinal a = toordinal b"
  shows "day_ok cr a = day_ok cr b"
  using toordinal_inj [OF assms] assms(3)
  by (simp add: day_ok_def cron_dow_def weekday_def)

lemma skip_month:
  assumes c: "valid_dt c" and u: "valid_dt u"
    and lo: "minute_index c \<le> minute_index u" and hi: "minute_index u < minute_index (jump_month c)"
  shows "month u = month c"
proof -
  have "\<not> dt_less u c" using lo dt_less_minute_index [OF u c] by simp
  moreover have "dt_less u (jump_month c)"
    using hi dt_less_minute_index [OF u jump_valid(1) [OF c]] by simp
  ultimately show ?thesis
    using c u by (auto simp: dt_less_def jump_month_def next_month_def valid_dt_def split: if_splits)
qed

lemma skip_day:
  assumes c: "valid_dt c" and u: "valid_dt u"
    and lo: "minute_index c \<le> minute_index u" and hi: "minute_index u < minute_index (jump_day c)"
  shows "toordinal u = toordinal c"
proof -
  have "toordinal c * 1440 < (toordinal u + 1) * 1440"
    using minute_index_bounds(1) [OF c] minute_index_bounds(2) [OF u] lo by linarith
  moreover have "toordinal u * 1440 < (toordinal c + 1) * 1440"
    using minute_index_bounds(1) [OF u] hi by (simp add: minute_index_jump_day c)
  ultimately show ?thesis by simp
qed

lemma skip_hour:
  assumes c: "valid_dt c" and u: "valid_dt u"
    and lo: "minute_index c \<le> minute_index u" and hi: "minute_index u < minute_index (jump_hour c)"
  shows "hour u = hour c"
proof -
  let ?h = "\<lambda>d. toordinal d * 24 + hour d"
  have "?h c * 60 < (?h u + 1) * 60"
    using minute_index_bounds(3) [OF c] minute_index_bounds(4) [OF u] lo by linarith
  moreover have "?h u * 60 < (?h c + 1) * 60"
    using minute_index_bounds(3) [OF u] hi by (simp add: minute_index_jump_hour c)
  ultimately have eq: "?h u = ?h c" by simp
  have "hour u < 24" "hour c < 24" using c u by (simp_all add: valid_dt_def)
  then have "?h u mod 24 = hour u" "?h c mod 24 = hour c" by simp_all
  with eq show ?thesis by simp
qed

lemma skip_minute:
  assumes c: "valid_dt c" and u: "valid_dt u"
    and "minute_index c \<le> minute_index u" "minute_index u < minute_index (add_minute c)"
  shows "u = c"
  using assms minute_index_inj [OF u c] by (simp add: minute_index_add_minute)

text \<open>One statement for the four jumps: \<open>c'\<close> is a jump from \<open>c\<close> when every minute in between
  is one that does not fire.\<close>

definition skips :: "cron \<Rightarrow> datetime \<Rightarrow> datetime \<Rightarrow> bool" where
  "skips cr c c' \<longleftrightarrow> (\<forall>u. valid_dt u \<longrightarrow> minute_index c \<le> minute_index u
      \<longrightarrow> minute_index u < minute_index c' \<longrightarrow> \<not> fires cr u)"

lemma skips_jumps:
  assumes c: "valid_dt c"
  shows "int (month c) \<notin> months cr \<Longrightarrow> skips cr c (jump_month c)"
    and "\<not> day_ok cr c \<Longrightarrow> skips cr c (jump_day c)"
    and "int (hour c) \<notin> hours cr \<Longrightarrow> skips cr c (jump_hour c)"
    and "int (minute c) \<notin> minutes cr \<Longrightarrow> skips cr c (add_minute c)"
proof -
  show "skips cr c (jump_month c)" if "int (month c) \<notin> months cr"
    using skip_month [OF c] that by (auto simp: skips_def fires_def)
  show "skips cr c (jump_day c)" if "\<not> day_ok cr c"
    using skip_day [OF c] same_ordinal_day_ok [OF _ c] that by (auto simp: skips_def fires_def)
  show "skips cr c (jump_hour c)" if "int (hour c) \<notin> hours cr"
    using skip_hour [OF c] that by (auto simp: skips_def fires_def)
  show "skips cr c (add_minute c)" if "int (minute c) \<notin> minutes cr"
    using skip_minute [OF c] that by (auto simp: skips_def fires_def)
qed

lemma skips_trans:
  "skips cr a b \<Longrightarrow> skips cr b d \<Longrightarrow> skips cr a d"
  unfolding skips_def by (meson not_le)

section \<open>The loop is a first-match search\<close>

definition first_fire :: "cron \<Rightarrow> datetime \<Rightarrow> datetime \<Rightarrow> cron_error + datetime \<Rightarrow> bool" where
  "first_fire cr limit c r =
     (case r of Inr t \<Rightarrow> valid_dt t \<and> minute_index c \<le> minute_index t
          \<and> minute_index t < minute_index limit \<and> fires cr t \<and> skips cr c t
      | Inl e \<Rightarrow> e = NoFire \<and> skips cr c limit)"

lemma first_fire_jump:
  assumes "skips cr c c'" "minute_index c < minute_index c'" "first_fire cr limit c' r"
  shows "first_fire cr limit c r"
  using assms skips_trans [OF assms(1)] by (auto simp: first_fire_def split: sum.splits)

lemma fire_loop_first:
  assumes "valid_dt limit" "valid_dt c"
  shows "first_fire cr limit c (fire_loop cr limit c)"
  using assms
proof (induction cr limit c rule: fire_loop.induct)
  case (1 cr limit c)
  note v = \<open>valid_dt limit\<close> \<open>valid_dt c\<close>
  note jump = skips_jumps [OF v(2), of cr] and later = minute_index_jumps [OF v(2)]
    and vj = jump_valid [OF v(2)] valid_add_minute [OF v(2)]
  consider (out) "\<not> in_search limit c"
    | (month) "in_search limit c" "int (month c) \<notin> months cr"
    | (day) "in_search limit c" "int (month c) \<in> months cr" "\<not> day_ok cr c"
    | (hour) "in_search limit c" "int (month c) \<in> months cr" "day_ok cr c" "int (hour c) \<notin> hours cr"
    | (minute) "in_search limit c" "int (month c) \<in> months cr" "day_ok cr c" "int (hour c) \<in> hours cr"
        "int (minute c) \<notin> minutes cr"
    | (fire) "in_search limit c" "fires cr c"
    by (auto simp: fires_def)
  then show ?case
  proof cases
    case out
    then have "\<not> minute_index c < minute_index limit"
      using v by (simp add: in_search_def dt_less_minute_index)
    with out show ?thesis by (simp add: fire_loop.simps [of cr limit c] first_fire_def skips_def)
  next
    case month
    then have "first_fire cr limit (jump_month c) (fire_loop cr limit (jump_month c))"
      using "1.IH"(1) v vj by simp
    from first_fire_jump [OF jump(1) later(1) this] month show ?thesis
      by (simp add: fire_loop.simps [of cr limit c])
  next
    case day
    then have "first_fire cr limit (jump_day c) (fire_loop cr limit (jump_day c))"
      using "1.IH"(2) v vj by simp
    from first_fire_jump [OF jump(2) later(2) this] day show ?thesis
      by (simp add: fire_loop.simps [of cr limit c])
  next
    case hour
    then have "first_fire cr limit (jump_hour c) (fire_loop cr limit (jump_hour c))"
      using "1.IH"(3) v vj by simp
    from first_fire_jump [OF jump(3) later(3) this] hour show ?thesis
      by (simp add: fire_loop.simps [of cr limit c])
  next
    case minute
    then have "first_fire cr limit (add_minute c) (fire_loop cr limit (add_minute c))"
      using "1.IH"(4) v vj by simp
    from first_fire_jump [OF jump(4) later(4) this] minute show ?thesis
      by (simp add: fire_loop.simps [of cr limit c])
  next
    case fire
    then have "minute_index c < minute_index limit"
      using dt_less_minute_index [OF v(2,1)] by (simp add: in_search_def)
    with fire v show ?thesis
      by (simp add: fire_loop.simps [of cr limit c] first_fire_def fires_def skips_def)
  qed
qed

lemma search_valid:
  assumes "valid_dt after"
  shows "valid_dt (search_start after)" "valid_dt (search_limit after)"
    "minute_index (search_start after) = minute_index after + 1"
    "minute_index (search_limit after) = minute_index after + 1 + 1440 * 1855"
  using assms
  by (simp_all add: search_start_def search_limit_def valid_add_minute valid_add_days
      minute_index_add_minute minute_index_add_days)

lemma next_fire_first:
  assumes "valid_dt after" "parse e = Inr cr"
  shows "first_fire cr (search_limit after) (search_start after) (next_fire e after)"
  using fire_loop_first [OF search_valid(2,1) [OF assms(1)]] assms(2) by (simp add: next_fire_def)

lemma first_fire_unique:
  assumes "first_fire cr limit c r" "valid_dt t" "minute_index c \<le> minute_index t"
    "minute_index t < minute_index limit" "fires cr t" "skips cr c t"
  shows "r = Inr t"
proof (cases r)
  case (Inl e)
  with assms show ?thesis by (auto simp: first_fire_def skips_def)
next
  case (Inr t')
  then have t': "valid_dt t'" "minute_index c \<le> minute_index t'" "fires cr t'" "skips cr c t'"
    using assms(1) by (simp_all add: first_fire_def)
  have "\<not> minute_index t < minute_index t'" using t'(4) assms(2,3,5) by (auto simp: skips_def)
  moreover have "\<not> minute_index t' < minute_index t" using t' assms(6) by (auto simp: skips_def)
  ultimately show ?thesis using minute_index_inj [OF t'(1) assms(2)] Inr by simp
qed

lemma first_fire_found:
  assumes "first_fire cr limit c r" "valid_dt u" "minute_index c \<le> minute_index u"
    "minute_index u < minute_index limit" "fires cr u"
  shows "\<exists>t. r = Inr t \<and> minute_index t \<le> minute_index u"
proof (cases r)
  case (Inl e)
  with assms show ?thesis by (auto simp: first_fire_def skips_def)
next
  case (Inr t)
  with assms show ?thesis by (auto simp: first_fire_def skips_def not_le [symmetric])
qed

text \<open>
  C20: For a well-formed expression and a valid time, \<^verbatim>\<open>next_fire\<close> returns a minute exactly when
  that minute is the first one strictly after the given time, and before the search limit,
  on which the expression fires: the jumps over excluded months, days and hours lose nothing.
\<close>

theorem next_fire_first_match:
  assumes "valid_dt after" and "parse e = Inr cr"
  shows "next_fire e after = Inr t \<longleftrightarrow>
    valid_dt t \<and> dt_less after t \<and> dt_less t (search_limit after) \<and> fires cr t
    \<and> (\<forall>u. valid_dt u \<and> dt_less after u \<and> dt_less u t \<longrightarrow> \<not> fires cr u)"
proof -
  note v = assms(1) search_valid [OF assms(1)]
  have "next_fire e after = Inr t \<longleftrightarrow> valid_dt t \<and> minute_index after < minute_index t
      \<and> minute_index t < minute_index (search_limit after) \<and> fires cr t
      \<and> skips cr (search_start after) t"
    using next_fire_first [OF assms] first_fire_unique [OF next_fire_first [OF assms], of t] v(4)
    by (auto simp: first_fire_def)
  also have "\<dots> \<longleftrightarrow> valid_dt t \<and> dt_less after t \<and> dt_less t (search_limit after) \<and> fires cr t
      \<and> (\<forall>u. valid_dt u \<and> dt_less after u \<and> dt_less u t \<longrightarrow> \<not> fires cr u)"
    using v by (auto simp: dt_less_minute_index skips_def Suc_le_eq)
  finally show ?thesis .
qed

definition eve :: datetime where
  "eve = \<lparr>year = 2026, month = 2, day = 28, hour = 23, minute = 58\<rparr>"

definition march_first :: datetime where
  "march_first = \<lparr>year = 2026, month = 3, day = 1, hour = 0, minute = 0\<rparr>"

lemma valid_eve: "valid_dt eve" "valid_dt march_first"
  by (simp_all add: valid_dt_def eve_def march_first_def days_in_month_def is_leap_def)

lemma in_search_limit:
  "valid_dt after \<Longrightarrow>
     in_search (search_limit after) c \<longleftrightarrow> valid_dt c \<and> minute_index c < minute_index after + 1 + 1440 * 1855"
  using search_valid [of after] by (auto simp: in_search_def dt_less_minute_index)

lemma days_before_month_eval:
  "days_before_month y 2 = 31" "days_before_month y 3 = 31 + days_in_month y 2"
  by (simp_all add: numeral_eq_Suc days_before_month.simps days_in_month_def)

lemma minute_index_eve: "minute_index eve = 1065133438" "minute_index march_first = 1065133440"
  by (simp_all add: minute_index_def toordinal_def days_before_year_def days_before_month_eval
      eve_def march_first_def days_in_month_def is_leap_def)

lemma jump_hour_eve: "jump_hour (add_minute eve) = march_first"
  by (simp add: jump_hour_def add_minute_def add_hour_def add_day_def next_month_def eve_def
      march_first_def days_in_month_def is_leap_def)

lemma eve_fields:
  "int (month march_first) \<in> full_month" "hour march_first = 0" "minute march_first = 0"
  "int (month (add_minute eve)) \<in> full_month" "hour (add_minute eve) = 23"
  by (simp_all add: march_first_def eve_def add_minute_def full_month_def)

lemma next_fire_midnight:
  "next_fire (show_int 0 @ '' '' @ show_int 0 @ '' * * *'') eve = Inr march_first"
proof -
  let ?cr = "\<lparr>minutes = {0}, hours = {0}, doms = full_dom, months = full_month, dows = full_dow\<rparr>"
  have p: "parse (show_int 0 @ '' '' @ show_int 0 @ '' * * *'') = Inr ?cr"
    by (rule parse_daily) simp_all
  have day: "day_ok ?cr d" for d by (simp add: day_ok_def full_dom_def full_dow_def)
  have "fire_loop ?cr (search_limit eve) march_first = Inr march_first"
    by (subst fire_loop.simps) (simp add: in_search_limit valid_eve minute_index_eve day eve_fields)
  then have "fire_loop ?cr (search_limit eve) (add_minute eve) = Inr march_first"
    by (subst fire_loop.simps)
      (simp add: in_search_limit valid_eve valid_add_minute minute_index_add_minute minute_index_eve
        day jump_hour_eve eve_fields)
  with p show ?thesis by (simp add: next_fire_def search_start_def)
qed

theorem next_fire_first_match_witness:
  "valid_dt eve \<and> (\<exists>cr. parse (show_int 0 @ '' '' @ show_int 0 @ '' * * *'') = Inr cr
     \<and> dt_less eve march_first \<and> fires cr march_first
     \<and> (\<forall>u. valid_dt u \<and> dt_less eve u \<and> dt_less u march_first \<longrightarrow> \<not> fires cr u))"
proof -
  have p: "parse (show_int 0 @ '' '' @ show_int 0 @ '' * * *'') =
      Inr \<lparr>minutes = {0}, hours = {0}, doms = full_dom, months = full_month, dows = full_dow\<rparr>"
    by (rule parse_daily) simp_all
  show ?thesis
    using valid_eve(1) p next_fire_first_match [OF valid_eve(1) p, of march_first] next_fire_midnight
    by blast
qed

text \<open>
  \<^verbatim>\<open>next_fire\<close> raises on a well-formed expression exactly when no minute of its search
  window, 1855 days from the minute after the given time, fires.
\<close>

theorem next_fire_gives_up:
  assumes "valid_dt after" and "parse e = Inr cr"
  shows "(\<exists>err. next_fire e after = Inl err) \<longleftrightarrow>
    (\<forall>u. valid_dt u \<and> dt_less after u \<and> minute_index u \<le> minute_index after + 1440 * 1855
       \<longrightarrow> \<not> fires cr u)"
proof -
  note v = assms(1) search_valid [OF assms(1)]
  note ff = next_fire_first [OF assms]
  have "(\<exists>err. next_fire e after = Inl err) \<longleftrightarrow> skips cr (search_start after) (search_limit after)"
  proof (cases "next_fire e after")
    case (Inl err)
    with ff show ?thesis by (simp add: first_fire_def)
  next
    case (Inr t)
    with ff show ?thesis by (auto simp: first_fire_def skips_def)
  qed
  then show ?thesis
    using v by (auto simp: skips_def dt_less_minute_index Suc_le_eq less_Suc_eq_le)
qed

theorem next_fire_gives_up_witness:
  "valid_dt eve \<and> (\<exists>cr. parse (show_int 0 @ '' '' @ show_int 0 @ '' * * *'') = Inr cr
     \<and> \<not> (\<forall>u. valid_dt u \<and> dt_less eve u \<and> minute_index u \<le> minute_index eve + 1440 * 1855
           \<longrightarrow> \<not> fires cr u))"
proof -
  have p: "parse (show_int 0 @ '' '' @ show_int 0 @ '' * * *'') =
      Inr \<lparr>minutes = {0}, hours = {0}, doms = full_dom, months = full_month, dows = full_dow\<rparr>"
    by (rule parse_daily) simp_all
  show ?thesis
    using valid_eve(1) p next_fire_gives_up [OF valid_eve(1) p] next_fire_midnight by auto
qed

section \<open>The picker's schedules fire\<close>

lemma fires_found:
  assumes "valid_dt after" "parse e = Inr cr" "valid_dt u" "minute_index after < minute_index u"
    "minute_index u \<le> minute_index after + 1440 * n" "n \<le> 1855" "fires cr u"
  shows "\<exists>t. next_fire e after = Inr t \<and> minute_index t \<le> minute_index after + 1440 * n"
proof -
  have "minute_index u \<le> minute_index after + 1440 * 1855"
    using assms(5) mult_le_mono2 [OF assms(6), of 1440] by linarith
  then have "\<exists>t. next_fire e after = Inr t \<and> minute_index t \<le> minute_index u"
    using first_fire_found [OF next_fire_first [OF assms(1,2)] assms(3) _ _ assms(7)]
      search_valid(3,4) [OF assms(1)] assms(4) by simp
  with assms(5) show ?thesis using order_trans by blast
qed

lemma toordinal_add_days: "valid_dt c \<Longrightarrow> toordinal (add_days k c) = toordinal c + k"
  by (induction k arbitrary: c) (simp_all add: valid_add_day toordinal_add_day)

lemma weekday_add_days: "valid_dt d \<Longrightarrow> weekday (add_days k d) = (weekday d + k) mod 7"
  using mod_add_left_eq [of "toordinal d + 6" 7 k]
  by (simp add: weekday_def toordinal_add_days add.commute add.left_commute add.assoc)

text \<open>A time of day \<open>h:m\<close> on the \<open>k\<close>-th day after \<open>c\<close>.\<close>

definition at_time :: "nat \<Rightarrow> nat \<Rightarrow> nat \<Rightarrow> datetime \<Rightarrow> datetime" where
  "at_time k h m c = (add_days k c)\<lparr>hour := h, minute := m\<rparr>"

lemma at_time:
  assumes "valid_dt c" "h < 24" "m < 60"
  shows "valid_dt (at_time k h m c)"
    "minute_index (at_time k h m c) = (toordinal c + k) * 1440 + h * 60 + m"
    "hour (at_time k h m c) = h" "minute (at_time k h m c) = m"
    "cron_dow (at_time k h m c) = (cron_dow c + int k) mod 7"
proof -
  have v: "valid_dt (add_days k c)" by (rule valid_add_days [OF assms(1)])
  show "valid_dt (at_time k h m c)" "hour (at_time k h m c) = h" "minute (at_time k h m c) = m"
    using v assms(2,3) by (simp_all add: at_time_def valid_dt_def)
  show "minute_index (at_time k h m c) = (toordinal c + k) * 1440 + h * 60 + m"
    by (simp add: at_time_def minute_index_def toordinal_add_days [OF assms(1)])
  have "weekday (at_time k h m c) = (weekday c + k) mod 7"
    using weekday_add_days [OF assms(1), of k] by (simp add: at_time_def weekday_def)
  then show "cron_dow (at_time k h m c) = (cron_dow c + int k) mod 7"
    by (simp add: cron_dow_def zmod_int) presburger
qed

lemma month_in_full: "valid_dt d \<Longrightarrow> int (month d) \<in> full_month"
  by (simp add: valid_dt_def full_month_def)

lemma day_ok_full: "doms cr = full_dom \<Longrightarrow> dows cr = full_dow \<Longrightarrow> day_ok cr d"
  by (simp add: day_ok_def full_dom_def full_dow_def)

lemma day_ok_dow: "doms cr = full_dom \<Longrightarrow> dows cr = {w} \<Longrightarrow> day_ok cr d \<longleftrightarrow> cron_dow d = w"
  by (simp add: day_ok_def full_dom_def)

text \<open>Some day within the week carries the wanted weekday, and the wanted time of that day,
  or of the same weekday a week later, lies in the future.\<close>

lemma weekly_slot:
  assumes "valid_dt c" "h < 24" "m < 60" "0 \<le> w" "w \<le> 6"
  shows "\<exists>k. cron_dow (at_time k h m c) = w \<and> minute_index c < minute_index (at_time k h m c)
     \<and> minute_index (at_time k h m c) \<le> minute_index c + 1440 * 7"
proof -
  let ?k = "nat ((w - cron_dow c) mod 7)"
  note t = at_time [OF assms(1-3)]
  have c: "0 \<le> cron_dow c" "cron_dow c < 7" by (simp_all add: cron_dow_def)
  have k: "?k < 7" by (simp add: nat_less_iff)
  have "(x + (w - x) mod 7) mod 7 = w" "(x + ((w - x) mod 7 + 7)) mod 7 = w" for x :: int
    using mod_add_right_eq [of x "w - x" 7] mod_add_right_eq [of x "(w - x) mod 7 + 7" 7] assms(4,5)
    by (simp_all add: mod_add_right_eq)
  then have dow: "cron_dow (at_time ?k h m c) = w" "cron_dow (at_time (?k + 7) h m c) = w"
    by (simp_all add: t)
  have b: "toordinal c * 1440 \<le> minute_index c" "h * 60 + m < 1440"
    using minute_index_bounds(1) [OF assms(1)] assms(2,3) by simp_all
  show ?thesis
  proof (cases "minute_index c < minute_index (at_time ?k h m c)")
    case True
    then show ?thesis using dow(1) b k by (intro exI [of _ ?k]) (simp add: t)
  next
    case False
    then have "minute_index (at_time (?k + 7) h m c) \<le> minute_index c + 1440 * 7"
      "minute_index c < minute_index (at_time (?k + 7) h m c)"
      using minute_index_bounds(2) [OF assms(1)] by (simp_all add: t(2))
    with dow(2) show ?thesis by blast
  qed
qed

lemma daily_slot:
  assumes "valid_dt c" "h < 24" "m < 60"
  shows "\<exists>k. minute_index c < minute_index (at_time k h m c)
     \<and> minute_index (at_time k h m c) \<le> minute_index c + 1440"
proof -
  note t = at_time [OF assms]
  show ?thesis
  proof (cases "minute_index c < minute_index (at_time 0 h m c)")
    case True
    then show ?thesis
      using minute_index_bounds(1) [OF assms(1)] assms(2,3) by (intro exI [of _ 0]) (simp add: t)
  next
    case False
    then show ?thesis
      using minute_index_bounds(2) [OF assms(1)] by (intro exI [of _ 1]) (simp add: t)
  qed
qed

text \<open>What the dashboard's picker asks for, minute by minute.\<close>

definition param_val :: "(string \<rightharpoonup> param) \<Rightarrow> string \<Rightarrow> int option" where
  "param_val params name = (case params name of None \<Rightarrow> None | Some p \<Rightarrow> param_int p)"

definition recurs :: "string \<Rightarrow> (string \<rightharpoonup> param) \<Rightarrow> datetime \<Rightarrow> bool" where
  "recurs mode params t =
     (if mode = ''daily'' then
        param_val params ''hour'' = Some (int (hour t)) \<and> param_val params ''minute'' = Some (int (minute t))
      else if mode = ''weekly'' then
        param_val params ''hour'' = Some (int (hour t)) \<and> param_val params ''minute'' = Some (int (minute t))
        \<and> param_val params ''weekday'' = Some (cron_dow t)
      else if mode = ''interval_minutes'' then
        (\<exists>n. param_val params ''minutes'' = Some n \<and> int (minute t) mod n = 0)
      else if mode = ''interval_hours'' then
        minute t = 0 \<and> (\<exists>n. param_val params ''hours'' = Some n \<and> int (hour t) mod n = 0)
      else False)"

lemma int_param_val:
  "int_param params name lo hi = Inr v \<Longrightarrow> param_val params name = Some v \<and> lo \<le> v \<and> v \<le> hi"
  by (auto simp: int_param_def param_val_def split: option.splits if_splits)

text \<open>The four shapes \<^verbatim>\<open>build_cron\<close> returns, with the parameters' ranges.\<close>

lemma build_cron_cases:
  assumes "build_cron mode params = Inr e"
  obtains (daily) h m where "mode = ''daily''" "param_val params ''hour'' = Some h"
      "param_val params ''minute'' = Some m" "0 \<le> h" "h \<le> 23" "0 \<le> m" "m \<le> 59"
      "e = show_int m @ '' '' @ show_int h @ '' * * *''"
    | (weekly) h m w where "mode = ''weekly''" "param_val params ''hour'' = Some h"
      "param_val params ''minute'' = Some m" "param_val params ''weekday'' = Some w"
      "0 \<le> h" "h \<le> 23" "0 \<le> m" "m \<le> 59" "0 \<le> w" "w \<le> 6"
      "e = show_int m @ '' '' @ show_int h @ '' * * '' @ show_int w"
    | (minutes) n where "mode = ''interval_minutes''" "param_val params ''minutes'' = Some n"
      "1 \<le> n" "n \<le> 59" "e = ''*/'' @ show_int n @ '' * * * *''"
    | (hours) n where "mode = ''interval_hours''" "param_val params ''hours'' = Some n"
      "1 \<le> n" "n \<le> 23" "e = ''0 */'' @ show_int n @ '' * * *''"
  using assms
  by (auto simp: build_cron_def raise_bind_Inr_iff dest!: int_param_val split: if_splits)

lemma valid_hm: "valid_dt t \<Longrightarrow> hour t \<le> 23 \<and> minute t \<le> 59"
  by (simp add: valid_dt_def less_Suc_eq_le flip: Suc_le_eq)

lemma build_cron_roundtrip_shape:
  assumes "build_cron mode params = Inr e"
  shows "\<exists>cr. parse e = Inr cr \<and> (\<forall>t. valid_dt t \<longrightarrow> (fires cr t \<longleftrightarrow> recurs mode params t))"
  using assms
proof (cases rule: build_cron_cases)
  case (daily h m)
  then show ?thesis
    using parse_daily [of h m]
    by (auto simp: fires_def recurs_def day_ok_full month_in_full)
next
  case (weekly h m w)
  then show ?thesis
    using parse_weekly [of h m w]
    by (auto simp: fires_def recurs_def day_ok_dow month_in_full)
next
  case (minutes n)
  then show ?thesis
    using parse_interval_minutes [of n] valid_hm
    by (force simp: fires_def recurs_def day_ok_full month_in_full)
next
  case (hours n)
  then show ?thesis
    using parse_interval_hours [of n] valid_hm
    by (force simp: fires_def recurs_def day_ok_full month_in_full)
qed

lemma recurs_within_week:
  assumes v: "valid_dt c" and b: "build_cron mode params = Inr e"
  shows "\<exists>u. valid_dt u \<and> recurs mode params u \<and> minute_index c < minute_index u
    \<and> minute_index u \<le> minute_index c + 1440 * 7"
  using b
proof (cases rule: build_cron_cases)
  case (daily h m)
  then have hm: "nat h < 24" "nat m < 60" by (simp_all add: nat_less_iff)
  obtain k where "minute_index c < minute_index (at_time k (nat h) (nat m) c)"
    "minute_index (at_time k (nat h) (nat m) c) \<le> minute_index c + 1440"
    using daily_slot [OF v hm] by blast
  with daily hm show ?thesis
    by (intro exI [of _ "at_time k (nat h) (nat m) c"]) (simp add: recurs_def at_time(1,3,4) [OF v])
next
  case (weekly h m w)
  then have hm: "nat h < 24" "nat m < 60" by (simp_all add: nat_less_iff)
  obtain k where "cron_dow (at_time k (nat h) (nat m) c) = w"
    "minute_index c < minute_index (at_time k (nat h) (nat m) c)"
    "minute_index (at_time k (nat h) (nat m) c) \<le> minute_index c + 1440 * 7"
    using weekly_slot [OF v hm weekly(9,10)] by blast
  with weekly hm show ?thesis
    by (intro exI [of _ "at_time k (nat h) (nat m) c"]) (simp add: recurs_def at_time(1,3,4) [OF v])
next
  case (minutes n)
  then show ?thesis
    using minute_index_bounds [OF v]
    by (intro exI [of _ "at_time 1 0 0 c"]) (simp add: recurs_def at_time [OF v])
next
  case (hours n)
  then show ?thesis
    using minute_index_bounds [OF v]
    by (intro exI [of _ "at_time 1 0 0 c"]) (simp add: recurs_def at_time [OF v])
qed

text \<open>
  C32: Round trip of the recurrence picker.  Every expression \<^verbatim>\<open>build_cron\<close> returns parses, and it
  fires on exactly the minutes the picker's mode and parameters ask for.
\<close>

theorem build_cron_roundtrip:
  assumes "build_cron mode params = Inr e"
  shows "\<exists>cr. parse e = Inr cr \<and> (\<forall>t. valid_dt t \<longrightarrow> (fires cr t \<longleftrightarrow> recurs mode params t))"
  using assms by (rule build_cron_roundtrip_shape)

definition weekly_params :: "string \<rightharpoonup> param" where
  "weekly_params = [''hour'' \<mapsto> PInt 6, ''minute'' \<mapsto> PStr ''30'', ''weekday'' \<mapsto> PInt 0]"

lemma build_cron_weekly_params:
  "\<exists>e. build_cron ''weekly'' weekly_params = Inr e"
  by (simp add: build_cron_def int_param_def weekly_params_def param_int_def py_int_def py_strip_def
      is_space_def int_body_def is_digit_def digit_val_def)

theorem build_cron_roundtrip_witness:
  "\<exists>e cr. build_cron ''weekly'' weekly_params = Inr e \<and> parse e = Inr cr
     \<and> (\<forall>t. valid_dt t \<longrightarrow> (fires cr t \<longleftrightarrow> recurs ''weekly'' weekly_params t))"
  using build_cron_weekly_params build_cron_roundtrip [of "''weekly''" weekly_params] by blast

text \<open>
  C33: Liveness of the picker's schedules.  An expression built by \<^verbatim>\<open>build_cron\<close> always has a next
  fire time, and it is at most a week after the given time.
\<close>

theorem build_cron_fires_within_week:
  assumes "build_cron mode params = Inr e" and "valid_dt after"
  shows "\<exists>t. next_fire e after = Inr t \<and> minute_index t \<le> minute_index after + 1440 * 7"
proof -
  obtain cr where p: "parse e = Inr cr" and cr: "\<And>t. valid_dt t \<Longrightarrow> fires cr t \<longleftrightarrow> recurs mode params t"
    using build_cron_roundtrip_shape [OF assms(1)] by blast
  have "\<exists>u. valid_dt u \<and> recurs mode params u \<and> minute_index after < minute_index u
      \<and> minute_index u \<le> minute_index after + 1440 * 7"
    using assms(1) by (rule recurs_within_week [OF assms(2)])
  then show ?thesis using fires_found [OF assms(2) p, of _ 7] cr by auto
qed

theorem build_cron_fires_within_week_witness:
  "\<exists>e t. build_cron ''weekly'' weekly_params = Inr e \<and> valid_dt eve \<and> next_fire e eve = Inr t
     \<and> minute_index t \<le> minute_index eve + 1440 * 7"
  using build_cron_weekly_params build_cron_fires_within_week [OF _ valid_eve(1)] valid_eve(1) by blast

end
