(* ===== verification/Models.thy ===== *)
theory Models
  imports Prelude
begin

text \<open>
  The resource classes of \<^verbatim>\<open>api/models.py\<close>, one record per dataclass with the fields in the
  order of the source, and the status enumerations.  Every field name carries a prefix for
  its class.  Timestamps are instants (microseconds); the ISO strings of
  \<^verbatim>\<open>now_iso()\<close> are ordered like the instants they show.  Identifiers are strings; JSON
  columns are stored decoded.  \<open>inst_to_dict\<close> is the only \<^verbatim>\<open>to_dict\<close> that computes: the others
  list the fields of the record.
\<close>

type_synonym instant = int
type_synonym tags = "(string \<times> string) list"

section \<open>Statuses\<close>

datatype res_status = Active | Deleted

definition status_value :: "res_status \<Rightarrow> string" where
  "status_value s = (case s of Active \<Rightarrow> ''active'' | Deleted \<Rightarrow> ''deleted'')"

datatype instance_status = Pending | Running | Stopped | IDeleted | Error | Unreachable_host

definition inst_status_value :: "instance_status \<Rightarrow> string" where
  "inst_status_value s = (case s of Pending \<Rightarrow> ''pending'' | Running \<Rightarrow> ''running''
     | Stopped \<Rightarrow> ''stopped'' | IDeleted \<Rightarrow> ''deleted'' | Error \<Rightarrow> ''error''
     | Unreachable_host \<Rightarrow> ''unreachable'')"

text \<open>\<^verbatim>\<open>InstanceStatus(value)\<close>: \<open>None\<close> is \<^verbatim>\<open>ValueError\<close>.\<close>

definition inst_status_of :: "string \<Rightarrow> instance_status option" where
  "inst_status_of v = find (\<lambda>s. inst_status_value s = v)
     [Pending, Running, Stopped, IDeleted, Error, Unreachable_host]"

lemma inst_status_of_value [simp]: "inst_status_of (inst_status_value s) = Some s"
  by (cases s) (simp_all add: inst_status_of_def inst_status_value_def)

section \<open>Resources\<close>

record sg_rule =
  sr_protocol :: "string option"
  sr_cidr :: "string option"
  sr_cidr_ipv6 :: "string option"
  sr_source_sg_id :: "string option"
  sr_from_port :: "int option"
  sr_to_port :: "int option"

record security_group =
  g_id :: string
  g_name :: string
  g_description :: string
  g_vpc_id :: string
  g_ingress_rules :: "sg_rule list"
  g_egress_rules :: "sg_rule list"
  g_status :: res_status
  g_created_at :: instant
  g_tags :: tags
  g_host_id :: "string option"

record vpc =
  v_id :: string
  v_name :: string
  v_cidr_block :: string
  v_dns_support :: bool
  v_status :: res_status
  v_created_at :: instant
  v_tags :: tags
  v_host_id :: "string option"

record subnet =
  s_id :: string
  s_name :: string
  s_vpc_id :: string
  s_cidr_block :: string
  s_public :: bool
  s_zone :: string
  s_status :: res_status
  s_created_at :: instant
  s_tags :: tags
  s_host_id :: "string option"

record internet_gateway =
  w_id :: string
  w_name :: string
  w_vpc_id :: string
  w_status :: res_status
  w_created_at :: instant
  w_tags :: tags

record rt_route =
  ro_destination_cidr :: string
  ro_gateway_id :: string

record route_table =
  r_id :: string
  r_name :: string
  r_vpc_id :: string
  r_subnet_ids :: "string list"
  r_routes :: "rt_route list"
  r_status :: res_status
  r_created_at :: instant
  r_tags :: tags

record inst_user =
  u_username :: string
  u_sudo :: bool
  u_ssh_keys :: "string list"
  u_password_hash :: string

record inst =
  i_id :: string
  i_name :: string
  i_image_id :: string
  i_flavor :: string
  i_vpc_id :: string
  i_subnet_id :: string
  i_security_group_ids :: "string list"
  i_usb_device_ids :: "string list"
  i_user_data :: "string option"
  i_private_ip :: string
  i_public_ip :: string
  i_status :: instance_status
  i_error_message :: string
  i_created_at :: instant
  i_tags :: tags
  i_domain_name :: string
  i_ssh_host_port :: int
  i_http_host_port :: int
  i_ssh_user :: string
  i_users :: "inst_user list"
  i_host_id :: "string option"

record backend =
  b_name :: string
  b_address :: string
  b_port :: int

record tg_target =
  tt_instance_id :: string
  tt_port :: "int option"

record lb_health_check =
  h_protocol :: string
  h_path :: string
  h_interval :: int
  h_healthy_threshold :: int
  h_unhealthy_threshold :: int

record tg_health_check =
  th_path :: string
  th_interval :: int
  th_healthy_threshold :: int
  th_unhealthy_threshold :: int

record routing_rule =
  rr_priority :: "int option"
  rr_path_pattern :: string
  rr_host_header :: string
  rr_target_group_id :: "string option"

record listener =
  l_id :: string
  l_lb_id :: string
  l_port :: int
  l_protocol :: string
  l_target_group_id :: string
  l_routing_rules :: "routing_rule list"
  l_default_action :: string
  l_status :: string

record target_group =
  t_id :: string
  t_lb_id :: string
  t_name :: string
  t_port :: int
  t_protocol :: string
  t_targets :: "tg_target list"
  t_health_check :: tg_health_check
  t_status :: string

record load_balancer =
  lb_id :: string
  lb_name :: string
  lb_type :: string
  lb_vpc_id :: string
  lb_subnet_ids :: "string list"
  lb_internal :: bool
  lb_dns_name :: string
  lb_listen_port :: int
  lb_backends :: "backend list"
  lb_listeners :: "listener list"
  lb_health_check :: "lb_health_check option"
  lb_target_groups :: "target_group list"
  lb_sticky_sessions :: bool
  lb_cookie_name :: string
  lb_deletion_protection :: bool
  lb_status :: res_status
  lb_created_at :: instant
  lb_tags :: tags

section \<open>The dictionary of an instance\<close>

record inst_view =
  iv_inst :: inst
  iv_public_ip :: string
  iv_ssh_endpoint :: string

definition str_or :: "string \<Rightarrow> string \<Rightarrow> string" where
  "str_or a b = (if a = [] then b else a)"

definition inst_to_dict :: "inst \<Rightarrow> inst_view" where
  "inst_to_dict i =
     (if i_ssh_host_port i \<noteq> 0 then
        \<lparr>iv_inst = i, iv_public_ip = str_or (i_public_ip i) ''127.0.0.1'',
         iv_ssh_endpoint = i_ssh_user i @ ''@127.0.0.1 -p '' @ show_int (i_ssh_host_port i)\<rparr>
      else if i_private_ip i \<noteq> [] then
        \<lparr>iv_inst = i, iv_public_ip = str_or (i_public_ip i) (i_private_ip i),
         iv_ssh_endpoint = i_ssh_user i @ ''@'' @ i_private_ip i\<rparr>
      else
        \<lparr>iv_inst = i, iv_public_ip = str_or (i_public_ip i) [], iv_ssh_endpoint = []\<rparr>)"

lemma inst_to_dict_inst [simp]: "iv_inst (inst_to_dict i) = i"
  by (simp add: inst_to_dict_def)

end
