(* ===== verification/Tables.thy ===== *)
theory Tables
  imports Prelude
begin

text \<open>
  SQLite tables as the sources use them.  A table is the list of its rows in insertion
  (rowid) order.  \<open>find\<close> and \<open>filter\<close> are \<^verbatim>\<open>SELECT\<close> with \<^verbatim>\<open>fetchone\<close> and \<^verbatim>\<open>fetchall\<close>;
  \<open>update_where\<close> is \<^verbatim>\<open>UPDATE ... WHERE\<close> with its row count; \<open>upsert\<close> is
  \<^verbatim>\<open>INSERT ... ON CONFLICT(id) DO UPDATE\<close>, whose \<open>merge\<close> argument says which columns the
  update clause leaves alone.  Resources are soft-deleted: \<open>live\<close> is \<^verbatim>\<open>status != 'deleted'\<close>.

  The locale \<open>resource_store\<close> is the contract between the stores (\<^verbatim>\<open>api/store.py\<close>,
  \<^verbatim>\<open>api/sg_store.py\<close>) and the request handlers: seen through its \<open>get\<close>, a table is a partial
  map from identifiers to live rows.  It is interpreted for every resource table in
  \<open>Store\<close>.
\<close>

section \<open>Statements\<close>

definition update_where :: "('r \<Rightarrow> bool) \<Rightarrow> ('r \<Rightarrow> 'r) \<Rightarrow> 'r list \<Rightarrow> 'r list \<times> nat" where
  "update_where P f t = (map (\<lambda>r. if P r then f r else r) t, length (filter P t))"

definition upsert :: "('r \<Rightarrow> 'k) \<Rightarrow> ('r \<Rightarrow> 'r \<Rightarrow> 'r) \<Rightarrow> 'r \<Rightarrow> 'r list \<Rightarrow> 'r list" where
  "upsert key merge r t =
     (if \<exists>x \<in> set t. key x = key r then map (\<lambda>x. if key x = key r then merge x r else x) t
      else t @ [r])"

definition wf_table :: "('r \<Rightarrow> 'k) \<Rightarrow> 'r list \<Rightarrow> bool" where
  "wf_table key t \<longleftrightarrow> distinct (map key t)"

lemma wf_table_Nil [simp]: "wf_table key []"
  by (simp add: wf_table_def)

lemma map_key_update:
  "(\<And>r. key (f r) = key r) \<Longrightarrow> map key (fst (update_where P f t)) = map key t"
  by (simp add: update_where_def)

lemma wf_update_where:
  "(\<And>r. key (f r) = key r) \<Longrightarrow> wf_table key (fst (update_where P f t)) = wf_table key t"
  by (simp add: wf_table_def map_key_update)

lemma wf_upsert:
  assumes "\<And>x. key (merge x r) = key r" "wf_table key t"
  shows "wf_table key (upsert key merge r t)"
proof -
  let ?u = "map (\<lambda>x. if key x = key r then merge x r else x) t"
  have "map key ?u = map key t" using assms(1) by auto
  then have "distinct (map key ?u)" using assms(2) by (simp only: wf_table_def)
  then show ?thesis
    using assms(2) by (auto simp: wf_table_def upsert_def simp del: map_map)
qed

lemma update_where_other:
  assumes "\<And>x. key (f x) = key x" "key y \<noteq> i"
  shows "y \<in> set (fst (update_where (\<lambda>r. key r = i) f t)) \<longleftrightarrow> y \<in> set t"
  using assms by (auto simp: update_where_def)

lemma update_where_hit:
  assumes "y \<in> set (fst (update_where (\<lambda>r. key r = i) f t))" "key y = i"
  shows "\<exists>x \<in> set t. y = f x \<and> key x = i"
  using assms by (auto simp: update_where_def)

lemma update_where_count: "snd (update_where P f t) = 0 \<longleftrightarrow> find P t = None"
  by (auto simp: update_where_def find_None_iff filter_empty_conv)

lemma find_wf:
  assumes "wf_table key t"
  shows "find (\<lambda>r. key r = i \<and> Q r) t = Some r \<longleftrightarrow> r \<in> set t \<and> key r = i \<and> Q r"
  using assms by (induction t) (auto simp: wf_table_def)

lemma find_Some_in: "find P t = Some r \<Longrightarrow> r \<in> set t \<and> P r"
  by (auto simp: find_Some_iff)

section \<open>Soft-deleted resource tables\<close>

definition live_get :: "('r \<Rightarrow> 'k) \<Rightarrow> ('r \<Rightarrow> bool) \<Rightarrow> 'r list \<Rightarrow> 'k \<Rightarrow> 'r option" where
  "live_get key live t i = find (\<lambda>r. key r = i \<and> live r) t"

definition live_delete ::
    "('r \<Rightarrow> 'k) \<Rightarrow> ('r \<Rightarrow> bool) \<Rightarrow> ('r \<Rightarrow> 'r) \<Rightarrow> 'r list \<Rightarrow> 'k \<Rightarrow> 'r list \<times> bool" where
  "live_delete key live kill t i =
     (let u = update_where (\<lambda>r. key r = i \<and> live r) kill t in (fst u, snd u > 0))"

text \<open>The row that \<open>upsert\<close> leaves behind for \<open>r\<close>.\<close>

definition stored_row :: "('r \<Rightarrow> 'k) \<Rightarrow> ('r \<Rightarrow> 'r \<Rightarrow> 'r) \<Rightarrow> 'r list \<Rightarrow> 'r \<Rightarrow> 'r" where
  "stored_row key merge t r = (case find (\<lambda>x. key x = key r) t of None \<Rightarrow> r | Some x \<Rightarrow> merge x r)"

lemma find_key_None: "find (\<lambda>x. key x = i) t = None \<longleftrightarrow> i \<notin> key ` set t"
  by (auto simp: find_None_iff)

lemma live_get_Some:
  "wf_table key t \<Longrightarrow> live_get key live t i = Some r \<longleftrightarrow> r \<in> set t \<and> key r = i \<and> live r"
  by (simp add: live_get_def find_wf)

lemma option_eqI: "(\<And>x. a = Some x \<longleftrightarrow> b = Some x) \<Longrightarrow> a = b"
  by (cases a; cases b) auto

lemma wf_key_unique: "wf_table key t \<Longrightarrow> x \<in> set t \<Longrightarrow> y \<in> set t \<Longrightarrow> key x = key y \<Longrightarrow> x = y"
  by (auto simp: wf_table_def distinct_map inj_on_def)

lemma upsert_same_key:
  assumes wf: "wf_table key t" and m: "\<And>x. key (merge x r) = key r"
  shows "y \<in> set (upsert key merge r t) \<and> key y = key r \<longleftrightarrow> y = stored_row key merge t r"
proof (cases "find (\<lambda>x. key x = key r) t")
  case None
  then have no: "\<forall>x \<in> set t. key x \<noteq> key r" by (auto simp: find_None_iff)
  then have "upsert key merge r t = t @ [r]" by (simp add: upsert_def)
  with None no show ?thesis by (auto simp: stored_row_def)
next
  case (Some x)
  then have x: "x \<in> set t" "key x = key r" using find_Some_in by fastforce+
  have u: "upsert key merge r t = map (\<lambda>x. if key x = key r then merge x r else x) t"
    using x by (auto simp: upsert_def)
  have st: "stored_row key merge t r = merge x r" using Some by (simp add: stored_row_def)
  have one: "z = x" if "z \<in> set t" "key z = key r" for z
    using wf_key_unique [OF wf that(1) x(1)] that(2) x(2) by simp
  show ?thesis
  proof
    assume "y \<in> set (upsert key merge r t) \<and> key y = key r"
    then obtain z where z: "z \<in> set t" "y = (if key z = key r then merge z r else z)" "key y = key r"
      unfolding u by auto
    then have "key z = key r" by (auto split: if_splits)
    with one z st show "y = stored_row key merge t r" by simp
  next
    assume "y = stored_row key merge t r"
    then show "y \<in> set (upsert key merge r t) \<and> key y = key r"
      using st m x unfolding u by (auto simp: image_iff intro: bexI [of _ x])
  qed
qed

lemma upsert_other_key:
  assumes "\<And>x. key (merge x r) = key r" "key y \<noteq> key r"
  shows "y \<in> set (upsert key merge r t) \<longleftrightarrow> y \<in> set t"
  using assms by (auto simp: upsert_def)

lemma stored_row_key_live:
  assumes "\<And>x. key (merge x r) = key r" "\<And>x. live (merge x r) = live r"
  shows "key (stored_row key merge t r) = key r" "live (stored_row key merge t r) = live r"
  using assms by (simp_all add: stored_row_def split: option.split)

lemma live_get_upsert:
  assumes wf: "wf_table key t" and m: "\<And>x. key (merge x r) = key r"
    and l: "\<And>x. live (merge x r) = live r"
  shows "live_get key live (upsert key merge r t) =
    (live_get key live t)(key r := if live r then Some (stored_row key merge t r) else None)"
proof (intro ext option_eqI)
  fix i y
  have wf': "wf_table key (upsert key merge r t)" using m wf by (rule wf_upsert)
  show "live_get key live (upsert key merge r t) i = Some y \<longleftrightarrow>
    ((live_get key live t)(key r := if live r then Some (stored_row key merge t r) else None)) i = Some y"
  proof (cases "i = key r")
    case True
    then show ?thesis
      using upsert_same_key [where merge = merge, OF wf m, of y]
        stored_row_key_live(2) [of key merge r live t, OF m l]
      by (auto simp: live_get_Some [OF wf'])
  next
    case False
    then show ?thesis
      using upsert_other_key [of key merge r y t, OF m]
      by (auto simp: live_get_Some [OF wf'] live_get_Some [OF wf])
  qed
qed

lemma set_live_delete:
  assumes "\<And>r. \<not> live (kill r)"
  shows "y \<in> set (fst (live_delete key live kill t i)) \<and> live y \<longleftrightarrow> y \<in> set t \<and> live y \<and> key y \<noteq> i"
  using assms by (auto simp: live_delete_def Let_def update_where_def image_iff)

lemma wf_live_delete:
  "(\<And>r. key (kill r) = key r) \<Longrightarrow> wf_table key (fst (live_delete key live kill t i)) = wf_table key t"
  by (simp add: live_delete_def Let_def wf_update_where)

lemma live_get_delete:
  assumes wf: "wf_table key t" and k: "\<And>r. key (kill r) = key r" and d: "\<And>r. \<not> live (kill r)"
  shows "live_get key live (fst (live_delete key live kill t i)) = (live_get key live t)(i := None)"
proof (intro ext option_eqI)
  fix j y
  have wf': "wf_table key (fst (live_delete key live kill t i))"
    using wf k by (simp add: wf_live_delete)
  show "live_get key live (fst (live_delete key live kill t i)) j = Some y \<longleftrightarrow>
      ((live_get key live t)(i := None)) j = Some y"
    using set_live_delete [of live kill y key t i, OF d]
    by (auto simp: live_get_Some [OF wf'] live_get_Some [OF wf])
qed

lemma live_delete_found: "snd (live_delete key live kill t i) \<longleftrightarrow> live_get key live t i \<noteq> None"
  using update_where_count [of "\<lambda>r. key r = i \<and> live r" kill t]
  by (auto simp: live_delete_def Let_def live_get_def)

section \<open>The contract of a resource store\<close>

locale resource_store =
  fixes key :: "'r \<Rightarrow> string"
    and live :: "'r \<Rightarrow> bool"
    and get :: "'r list \<Rightarrow> string \<Rightarrow> 'r option"
    and lst :: "'r list \<Rightarrow> 'r list"
    and put :: "'r list \<Rightarrow> 'r \<Rightarrow> 'r list"
    and del :: "'r list \<Rightarrow> string \<Rightarrow> 'r list \<times> bool"
    and stored :: "'r list \<Rightarrow> 'r \<Rightarrow> 'r"
  assumes get_put: "wf_table key t \<Longrightarrow>
      get (put t r) = (get t)(key r := if live r then Some (stored t r) else None)"
    and get_del: "wf_table key t \<Longrightarrow> get (fst (del t i)) = (get t)(i := None)"
    and del_found: "snd (del t i) \<longleftrightarrow> get t i \<noteq> None"
    and get_Some: "wf_table key t \<Longrightarrow> get t i = Some r \<longleftrightarrow> r \<in> set t \<and> key r = i \<and> live r"
    and lst_set: "set (lst t) = {r \<in> set t. live r}"
    and wf_put: "wf_table key t \<Longrightarrow> wf_table key (put t r)"
    and wf_del: "wf_table key t \<Longrightarrow> wf_table key (fst (del t i))"
    and stored_fresh: "key r \<notin> key ` set t \<Longrightarrow> stored t r = r"
begin

lemma get_put_same: "wf_table key t \<Longrightarrow> live r \<Longrightarrow> get (put t r) (key r) = Some (stored t r)"
  by (simp add: get_put)

lemma get_put_fresh:
  "wf_table key t \<Longrightarrow> live r \<Longrightarrow> key r \<notin> key ` set t \<Longrightarrow> get (put t r) (key r) = Some r"
  by (simp add: get_put stored_fresh)

lemma get_put_other: "wf_table key t \<Longrightarrow> i \<noteq> key r \<Longrightarrow> get (put t r) i = get t i"
  by (simp add: get_put)

lemma get_put_dead: "wf_table key t \<Longrightarrow> \<not> live r \<Longrightarrow> get (put t r) (key r) = None"
  by (simp add: get_put)

lemma get_del_same: "wf_table key t \<Longrightarrow> get (fst (del t i)) i = None"
  by (simp add: get_del)

lemma get_del_other: "wf_table key t \<Longrightarrow> i \<noteq> j \<Longrightarrow> get (fst (del t i)) j = get t j"
  by (simp add: get_del)

lemma del_again: "wf_table key t \<Longrightarrow> \<not> snd (del (fst (del t i)) i)"
  by (simp add: del_found get_del wf_del)

lemma get_dead: "get t i = Some r \<Longrightarrow> wf_table key t \<Longrightarrow> live r \<and> key r = i"
  by (simp add: get_Some)

lemma lst_get: "wf_table key t \<Longrightarrow> r \<in> set (lst t) \<longleftrightarrow> get t (key r) = Some r"
  by (auto simp: lst_set get_Some)

end

text \<open>The statements above, for any key, liveness and tombstone functions that fit together,
  are such a store.\<close>

lemma resource_store_live:
  assumes "\<And>x r. key (merge x r) = key r" "\<And>x r. live (merge x r) = live r"
    and "\<And>r. key (kill r) = key r" "\<And>r. \<not> live (kill r)"
  shows "resource_store key live (live_get key live) (filter live)
    (\<lambda>t r. upsert key merge r t) (live_delete key live kill) (stored_row key merge)"
proof
  fix t :: "'a list" and r i
  show "set (filter live t) = {r \<in> set t. live r}" by auto
  show "snd (live_delete key live kill t i) \<longleftrightarrow> live_get key live t i \<noteq> None"
    by (rule live_delete_found)
  show "stored_row key merge t r = r" if "key r \<notin> key ` set t"
  proof -
    have "find (\<lambda>x. key x = key r) t = None" using that by (simp add: find_key_None)
    then show ?thesis by (simp add: stored_row_def)
  qed
  assume wf: "wf_table key t"
  show "live_get key live (upsert key merge r t) =
      (live_get key live t)(key r := if live r then Some (stored_row key merge t r) else None)"
    using wf assms by (intro live_get_upsert)
  show "live_get key live (fst (live_delete key live kill t i)) = (live_get key live t)(i := None)"
    using wf assms by (intro live_get_delete)
  show "live_get key live t i = Some r \<longleftrightarrow> r \<in> set t \<and> key r = i \<and> live r"
    using wf by (rule live_get_Some)
  show "wf_table key (upsert key merge r t)" using wf assms(1) by (intro wf_upsert)
  show "wf_table key (fst (live_delete key live kill t i))" using wf assms(3) by (simp add: wf_live_delete)
qed

end
