(* ===== verification/Store.thy ===== *)
theory Store
  imports Models Tables
begin

text \<open>
  \<^verbatim>\<open>api/store.py\<close> and \<^verbatim>\<open>api/sg_store.py\<close>: the tables of the resource catalogue and the
  operations on them.  A \<^verbatim>\<open>put\<close> updates every column of an existing row except \<^verbatim>\<open>created_at\<close>
  (the update clause does not list it); a \<^verbatim>\<open>delete\<close> is the soft delete of the live row.  Every
  table is interpreted as a \<open>resource_store\<close>, and the request handlers rest on the facts this
  gives.  Reading a row back and writing it loses nothing because the JSON columns and the
  enumerations are stored decoded.
\<close>

section \<open>VPCs\<close>

definition v_live :: "vpc \<Rightarrow> bool" where "v_live v \<longleftrightarrow> v_status v \<noteq> Deleted"

definition store_list_vpcs :: "vpc list \<Rightarrow> vpc list" where
  "store_list_vpcs t = filter v_live t"

definition store_get_vpc :: "vpc list \<Rightarrow> string \<Rightarrow> vpc option" where
  "store_get_vpc t i = live_get v_id v_live t i"

definition find_vpc_by_name :: "vpc list \<Rightarrow> string \<Rightarrow> vpc option" where
  "find_vpc_by_name t n = find (\<lambda>v. v_name v = n \<and> v_live v) t"

definition put_vpc :: "vpc list \<Rightarrow> vpc \<Rightarrow> vpc list" where
  "put_vpc t v = upsert v_id (\<lambda>old new. new\<lparr>v_created_at := v_created_at old\<rparr>) v t"

definition store_delete_vpc :: "vpc list \<Rightarrow> string \<Rightarrow> vpc list \<times> bool" where
  "store_delete_vpc t i = live_delete v_id v_live (\<lambda>v. v\<lparr>v_status := Deleted\<rparr>) t i"

definition stored_vpc :: "vpc list \<Rightarrow> vpc \<Rightarrow> vpc" where
  "stored_vpc = stored_row v_id (\<lambda>old new. new\<lparr>v_created_at := v_created_at old\<rparr>)"

interpretation vpcs: resource_store v_id v_live store_get_vpc store_list_vpcs put_vpc store_delete_vpc stored_vpc
  unfolding store_get_vpc_def [abs_def] store_list_vpcs_def [abs_def] put_vpc_def [abs_def]
    store_delete_vpc_def [abs_def] stored_vpc_def
  by (rule resource_store_live) (simp_all add: v_live_def)

section \<open>Subnets\<close>

definition s_live :: "subnet \<Rightarrow> bool" where "s_live x \<longleftrightarrow> s_status x \<noteq> Deleted"

definition store_list_subnets :: "subnet list \<Rightarrow> subnet list" where
  "store_list_subnets t = filter s_live t"

definition store_get_subnet :: "subnet list \<Rightarrow> string \<Rightarrow> subnet option" where
  "store_get_subnet t i = live_get s_id s_live t i"

definition find_subnet_by_name :: "subnet list \<Rightarrow> string \<Rightarrow> subnet option" where
  "find_subnet_by_name t n = find (\<lambda>x. s_name x = n \<and> s_live x) t"

definition put_subnet :: "subnet list \<Rightarrow> subnet \<Rightarrow> subnet list" where
  "put_subnet t x = upsert s_id (\<lambda>old new. new\<lparr>s_created_at := s_created_at old\<rparr>) x t"

definition store_delete_subnet :: "subnet list \<Rightarrow> string \<Rightarrow> subnet list \<times> bool" where
  "store_delete_subnet t i = live_delete s_id s_live (\<lambda>x. x\<lparr>s_status := Deleted\<rparr>) t i"

definition stored_subnet :: "subnet list \<Rightarrow> subnet \<Rightarrow> subnet" where
  "stored_subnet = stored_row s_id (\<lambda>old new. new\<lparr>s_created_at := s_created_at old\<rparr>)"

definition store_list_subnets_by_vpc :: "subnet list \<Rightarrow> string \<Rightarrow> subnet list" where
  "store_list_subnets_by_vpc t v = filter (\<lambda>x. s_vpc_id x = v \<and> s_live x) t"

interpretation subnets: resource_store s_id s_live store_get_subnet store_list_subnets put_subnet store_delete_subnet stored_subnet
  unfolding store_get_subnet_def [abs_def] store_list_subnets_def [abs_def] put_subnet_def [abs_def]
    store_delete_subnet_def [abs_def] stored_subnet_def
  by (rule resource_store_live) (simp_all add: s_live_def)

section \<open>Internet gateways\<close>

definition w_live :: "internet_gateway \<Rightarrow> bool" where "w_live x \<longleftrightarrow> w_status x \<noteq> Deleted"

definition store_list_igws :: "internet_gateway list \<Rightarrow> internet_gateway list" where
  "store_list_igws t = filter w_live t"

definition store_get_igw :: "internet_gateway list \<Rightarrow> string \<Rightarrow> internet_gateway option" where
  "store_get_igw t i = live_get w_id w_live t i"

definition find_igw_by_name :: "internet_gateway list \<Rightarrow> string \<Rightarrow> internet_gateway option" where
  "find_igw_by_name t n = find (\<lambda>x. w_name x = n \<and> w_live x) t"

definition put_igw :: "internet_gateway list \<Rightarrow> internet_gateway \<Rightarrow> internet_gateway list" where
  "put_igw t x = upsert w_id (\<lambda>old new. new\<lparr>w_created_at := w_created_at old\<rparr>) x t"

definition store_delete_igw :: "internet_gateway list \<Rightarrow> string \<Rightarrow> internet_gateway list \<times> bool" where
  "store_delete_igw t i = live_delete w_id w_live (\<lambda>x. x\<lparr>w_status := Deleted\<rparr>) t i"

definition stored_igw :: "internet_gateway list \<Rightarrow> internet_gateway \<Rightarrow> internet_gateway" where
  "stored_igw = stored_row w_id (\<lambda>old new. new\<lparr>w_created_at := w_created_at old\<rparr>)"

definition store_list_igws_by_vpc :: "internet_gateway list \<Rightarrow> string \<Rightarrow> internet_gateway list" where
  "store_list_igws_by_vpc t v = filter (\<lambda>x. w_vpc_id x = v \<and> w_live x) t"

interpretation igws: resource_store w_id w_live store_get_igw store_list_igws put_igw store_delete_igw stored_igw
  unfolding store_get_igw_def [abs_def] store_list_igws_def [abs_def] put_igw_def [abs_def]
    store_delete_igw_def [abs_def] stored_igw_def
  by (rule resource_store_live) (simp_all add: w_live_def)

section \<open>Route tables\<close>

definition r_live :: "route_table \<Rightarrow> bool" where "r_live x \<longleftrightarrow> r_status x \<noteq> Deleted"

definition store_list_route_tables :: "route_table list \<Rightarrow> route_table list" where
  "store_list_route_tables t = filter r_live t"

definition store_get_route_table :: "route_table list \<Rightarrow> string \<Rightarrow> route_table option" where
  "store_get_route_table t i = live_get r_id r_live t i"

definition find_route_table_by_name :: "route_table list \<Rightarrow> string \<Rightarrow> route_table option" where
  "find_route_table_by_name t n = find (\<lambda>x. r_name x = n \<and> r_live x) t"

definition put_route_table :: "route_table list \<Rightarrow> route_table \<Rightarrow> route_table list" where
  "put_route_table t x = upsert r_id (\<lambda>old new. new\<lparr>r_created_at := r_created_at old\<rparr>) x t"

definition store_delete_route_table :: "route_table list \<Rightarrow> string \<Rightarrow> route_table list \<times> bool" where
  "store_delete_route_table t i = live_delete r_id r_live (\<lambda>x. x\<lparr>r_status := Deleted\<rparr>) t i"

definition stored_route_table :: "route_table list \<Rightarrow> route_table \<Rightarrow> route_table" where
  "stored_route_table = stored_row r_id (\<lambda>old new. new\<lparr>r_created_at := r_created_at old\<rparr>)"

definition store_list_route_tables_by_vpc :: "route_table list \<Rightarrow> string \<Rightarrow> route_table list" where
  "store_list_route_tables_by_vpc t v = filter (\<lambda>x. r_vpc_id x = v \<and> r_live x) t"

interpretation route_tables: resource_store r_id r_live store_get_route_table store_list_route_tables put_route_table store_delete_route_table stored_route_table
  unfolding store_get_route_table_def [abs_def] store_list_route_tables_def [abs_def] put_route_table_def [abs_def]
    store_delete_route_table_def [abs_def] stored_route_table_def
  by (rule resource_store_live) (simp_all add: r_live_def)

section \<open>Instances\<close>

definition i_live :: "inst \<Rightarrow> bool" where "i_live x \<longleftrightarrow> i_status x \<noteq> IDeleted"

definition store_list_instances :: "inst list \<Rightarrow> inst list" where
  "store_list_instances t = filter i_live t"

definition store_get_instance :: "inst list \<Rightarrow> string \<Rightarrow> inst option" where
  "store_get_instance t i = live_get i_id i_live t i"

definition find_instance_by_name :: "inst list \<Rightarrow> string \<Rightarrow> inst option" where
  "find_instance_by_name t n = find (\<lambda>x. i_name x = n \<and> i_live x) t"

definition put_instance :: "inst list \<Rightarrow> inst \<Rightarrow> inst list" where
  "put_instance t x = upsert i_id (\<lambda>old new. new\<lparr>i_created_at := i_created_at old\<rparr>) x t"

definition delete_instance_record :: "inst list \<Rightarrow> string \<Rightarrow> inst list \<times> bool" where
  "delete_instance_record t i = live_delete i_id i_live (\<lambda>x. x\<lparr>i_status := IDeleted\<rparr>) t i"

definition stored_instance :: "inst list \<Rightarrow> inst \<Rightarrow> inst" where
  "stored_instance = stored_row i_id (\<lambda>old new. new\<lparr>i_created_at := i_created_at old\<rparr>)"

definition list_instances_by_vpc :: "inst list \<Rightarrow> string \<Rightarrow> inst list" where
  "list_instances_by_vpc t v =
     filter (\<lambda>x. i_vpc_id x = v \<and> i_status x \<notin> {IDeleted, Error}) t"

interpretation instances: resource_store i_id i_live store_get_instance store_list_instances put_instance delete_instance_record stored_instance
  unfolding store_get_instance_def [abs_def] store_list_instances_def [abs_def] put_instance_def [abs_def]
    delete_instance_record_def [abs_def] stored_instance_def
  by (rule resource_store_live) (simp_all add: i_live_def)

section \<open>Load balancers\<close>

definition lb_live :: "load_balancer \<Rightarrow> bool" where "lb_live x \<longleftrightarrow> lb_status x \<noteq> Deleted"

definition store_list_lbs :: "load_balancer list \<Rightarrow> load_balancer list" where
  "store_list_lbs t = filter lb_live t"

definition store_get_lb :: "load_balancer list \<Rightarrow> string \<Rightarrow> load_balancer option" where
  "store_get_lb t i = live_get lb_id lb_live t i"

definition find_lb_by_name :: "load_balancer list \<Rightarrow> string \<Rightarrow> load_balancer option" where
  "find_lb_by_name t n = find (\<lambda>x. lb_name x = n \<and> lb_live x) t"

definition put_lb :: "load_balancer list \<Rightarrow> load_balancer \<Rightarrow> load_balancer list" where
  "put_lb t x = upsert lb_id (\<lambda>old new. new\<lparr>lb_created_at := lb_created_at old\<rparr>) x t"

definition store_delete_lb :: "load_balancer list \<Rightarrow> string \<Rightarrow> load_balancer list \<times> bool" where
  "store_delete_lb t i = live_delete lb_id lb_live (\<lambda>x. x\<lparr>lb_status := Deleted\<rparr>) t i"

definition stored_lb :: "load_balancer list \<Rightarrow> load_balancer \<Rightarrow> load_balancer" where
  "stored_lb = stored_row lb_id (\<lambda>old new. new\<lparr>lb_created_at := lb_created_at old\<rparr>)"

interpretation lbs: resource_store lb_id lb_live store_get_lb store_list_lbs put_lb store_delete_lb stored_lb
  unfolding store_get_lb_def [abs_def] store_list_lbs_def [abs_def] put_lb_def [abs_def]
    store_delete_lb_def [abs_def] stored_lb_def
  by (rule resource_store_live) (simp_all add: lb_live_def)

section \<open>Security groups\<close>

definition g_live :: "security_group \<Rightarrow> bool" where "g_live x \<longleftrightarrow> g_status x \<noteq> Deleted"

definition store_list_sgs :: "security_group list \<Rightarrow> security_group list" where
  "store_list_sgs t = filter g_live t"

definition store_get_sg :: "security_group list \<Rightarrow> string \<Rightarrow> security_group option" where
  "store_get_sg t i = live_get g_id g_live t i"

definition find_sg_by_name :: "security_group list \<Rightarrow> string \<Rightarrow> security_group option" where
  "find_sg_by_name t n = find (\<lambda>x. g_name x = n \<and> g_live x) t"

definition put_sg :: "security_group list \<Rightarrow> security_group \<Rightarrow> security_group list" where
  "put_sg t x = upsert g_id (\<lambda>old new. new\<lparr>g_created_at := g_created_at old\<rparr>) x t"

definition store_delete_sg :: "security_group list \<Rightarrow> string \<Rightarrow> security_group list \<times> bool" where
  "store_delete_sg t i = live_delete g_id g_live (\<lambda>x. x\<lparr>g_status := Deleted\<rparr>) t i"

definition stored_sg :: "security_group list \<Rightarrow> security_group \<Rightarrow> security_group" where
  "stored_sg = stored_row g_id (\<lambda>old new. new\<lparr>g_created_at := g_created_at old\<rparr>)"

interpretation sgs: resource_store g_id g_live store_get_sg store_list_sgs put_sg store_delete_sg stored_sg
  unfolding store_get_sg_def [abs_def] store_list_sgs_def [abs_def] put_sg_def [abs_def]
    store_delete_sg_def [abs_def] stored_sg_def
  by (rule resource_store_live) (simp_all add: g_live_def)

end
