(* ===== verification/Pytext.thy ===== *)
theory Pytext
  imports Prelude
begin

text \<open>
  More of Python's string methods, as the sources call them.
\<close>

section \<open>Parts of a text\<close>

text \<open>\<^verbatim>\<open>s.startswith(p)\<close> and \<^verbatim>\<open>s.removeprefix(p)\<close>.\<close>

definition startswith :: "string \<Rightarrow> string \<Rightarrow> bool" where
  "startswith s p \<longleftrightarrow> take (length p) s = p"

definition removeprefix :: "string \<Rightarrow> string \<Rightarrow> string" where
  "removeprefix s p = (if startswith s p then drop (length p) s else s)"

lemma startswith_append [simp]: "startswith (p @ s) p"
  by (simp add: startswith_def)

lemma removeprefix_append [simp]: "removeprefix (p @ s) p = s"
  by (simp add: removeprefix_def)

lemma startswith_iff: "startswith s p \<longleftrightarrow> (\<exists>r. s = p @ r)"
  by (metis append_eq_conv_conj append_take_drop_id startswith_def)

text \<open>\<^verbatim>\<open>p in s\<close> for strings, and \<^verbatim>\<open>s.lower()\<close>.\<close>

definition py_in :: "string \<Rightarrow> string \<Rightarrow> bool" where
  "py_in p s \<longleftrightarrow> list_ex (\<lambda>i. take (length p) (drop i s) = p) [0..<Suc (length s)]"

definition to_lower :: "char \<Rightarrow> char" where
  "to_lower c = (let n = (of_char c :: nat) in if 65 \<le> n \<and> n \<le> 90 \<or> 192 \<le> n \<and> n \<le> 222 \<and> n \<noteq> 215 then char_of (n + 32) else c)"

definition py_lower :: "string \<Rightarrow> string" where
  "py_lower s = map to_lower s"

lemma py_in_iff: "py_in p s \<longleftrightarrow> (\<exists>a b. s = a @ p @ b)"
proof
  assume "py_in p s"
  then obtain i where i: "i < Suc (length s)" "take (length p) (drop i s) = p"
    by (auto simp: py_in_def list_ex_iff simp del: upt_Suc)
  have "s = take i s @ take (length p) (drop i s) @ drop (length p) (drop i s)" by (metis append_take_drop_id)
  then show "\<exists>a b. s = a @ p @ b" using i(2) by metis
next
  assume "\<exists>a b. s = a @ p @ b"
  then obtain a b where "s = a @ p @ b" by blast
  then have "length a < Suc (length s) \<and> take (length p) (drop (length a) s) = p" by simp
  then show "py_in p s" unfolding py_in_def list_ex_iff by (metis atLeastLessThan_iff le0 set_upt)
qed

text \<open>\<^verbatim>\<open>s.endswith(p)\<close>.\<close>

definition endswith :: "string \<Rightarrow> string \<Rightarrow> bool" where
  "endswith s p \<longleftrightarrow> length p \<le> length s \<and> drop (length s - length p) s = p"

text \<open>\<^verbatim>\<open>s.strip(cs)\<close>, \<^verbatim>\<open>s.lstrip(cs)\<close> and \<^verbatim>\<open>s.rstrip(cs)\<close>.\<close>

definition strip_chars :: "char list \<Rightarrow> string \<Rightarrow> string" where
  "strip_chars cs s = rev (dropWhile (\<lambda>c. c \<in> set cs) (rev (dropWhile (\<lambda>c. c \<in> set cs) s)))"

definition lstrip_chars :: "char list \<Rightarrow> string \<Rightarrow> string" where
  "lstrip_chars cs s = dropWhile (\<lambda>c. c \<in> set cs) s"

definition rstrip_chars :: "char list \<Rightarrow> string \<Rightarrow> string" where
  "rstrip_chars cs s = rev (dropWhile (\<lambda>c. c \<in> set cs) (rev s))"

definition py_lstrip :: "string \<Rightarrow> string" where "py_lstrip s = dropWhile is_space s"
definition py_rstrip :: "string \<Rightarrow> string" where "py_rstrip s = rev (dropWhile is_space (rev s))"

section \<open>Joining, splitting, replacing\<close>

fun join :: "string \<Rightarrow> string list \<Rightarrow> string" where
  "join sep [] = []"
| "join sep [x] = x"
| "join sep (x # y # ys) = x @ sep @ join sep (y # ys)"

text \<open>\<^verbatim>\<open>s.rsplit(c, 1)[-1]\<close>: what follows the last \<open>c\<close>.\<close>

definition after_last :: "char \<Rightarrow> string \<Rightarrow> string" where
  "after_last c s = rev (takeWhile (\<lambda>x. x \<noteq> c) (rev s))"

text \<open>\<^verbatim>\<open>s.replace(p, q)\<close> for a nonempty \<open>p\<close>, left to right.\<close>

fun replace_fuel :: "nat \<Rightarrow> string \<Rightarrow> string \<Rightarrow> string \<Rightarrow> string" where
  "replace_fuel 0 p q s = s"
| "replace_fuel (Suc k) p q s =
     (if s = [] then []
      else if startswith s p then q @ replace_fuel k p q (drop (length p) s)
      else hd s # replace_fuel k p q (tl s))"

definition py_replace :: "string \<Rightarrow> string \<Rightarrow> string \<Rightarrow> string" where
  "py_replace p q s = replace_fuel (length s) p q s"

text \<open>\<^verbatim>\<open>s.splitlines()\<close>, on the line ends newline, carriage return, both together, vertical tab, form feed, the
  separators 28--30 and 133.\<close>

definition line_end :: "char \<Rightarrow> bool" where
  "line_end c \<longleftrightarrow> (of_char c :: nat) \<in> {10, 11, 12, 13, 28, 29, 30, 133}"

fun lines_acc :: "string \<Rightarrow> string \<Rightarrow> string list" where
  "lines_acc acc [] = (if acc = [] then [] else [rev acc])"
| "lines_acc acc (c # cs) =
     (if c = CHR 0x0D then rev acc # (case cs of d # ds \<Rightarrow> if d = CHR 0x0A then lines_acc [] ds else lines_acc [] cs | [] \<Rightarrow> [])
      else if line_end c then rev acc # lines_acc [] cs
      else lines_acc (c # acc) cs)"

definition splitlines :: "string \<Rightarrow> string list" where
  "splitlines s = lines_acc [] s"

text \<open>\<^verbatim>\<open>s.isdigit()\<close>, which superscript digits satisfy too.\<close>

definition py_isdigit :: "string \<Rightarrow> bool" where
  "py_isdigit s \<longleftrightarrow> s \<noteq> [] \<and> list_all (\<lambda>c. is_digit c \<or> (of_char c :: nat) \<in> {178, 179, 185}) s"

text \<open>\<^verbatim>\<open>"...".join(lines)\<close> with a newline, and \<^verbatim>\<open>s.partition(c)\<close>.\<close>

definition join_lines :: "string list \<Rightarrow> string" where
  "join_lines ls = join [CHR 0x0A] ls"

definition partition_at :: "char \<Rightarrow> string \<Rightarrow> string \<times> string" where
  "partition_at c s = (takeWhile (\<lambda>x. x \<noteq> c) s, tl (dropWhile (\<lambda>x. x \<noteq> c) s))"

end
