(* ===== verification/Host.thy ===== *)
theory Host
  imports Store Pytext
begin

text \<open>
  What the request handlers share: requests and replies, the outcome of a call to another
  host (\<^verbatim>\<open>api/peer_client.py\<close>), the rows of the peering and token tables (\<^verbatim>\<open>api/db.py\<close>,
  \<^verbatim>\<open>api/authz.py\<close>) and the state of the API process: its tables and the two in-memory
  dictionaries of the peering code.

  A request carries what the sources read of it; JSON bodies are records of their own beside
  each handler, with an option for a key that may be absent.  A reply keeps the status, the
  title of a problem and the body; the texts of the \<^verbatim>\<open>detail\<close> fields are left out.
\<close>

section \<open>Requests and replies\<close>

record request =
  q_method :: string
  q_endpoint :: "string option"
  q_rule :: "string option"
  q_auth :: string
  q_token_arg :: string
  q_server_port :: string
  q_remote_addr :: "string option"
  q_path :: string

datatype 'b reply = Problem nat string | Reply nat 'b | NoContent nat

fun reply_status :: "'b reply \<Rightarrow> nat" where
  "reply_status (Problem s t) = s"
| "reply_status (Reply s b) = s"
| "reply_status (NoContent s) = s"

definition bearer_prefix :: string where "bearer_prefix = ''Bearer ''"

text \<open>A string column or JSON value used as a condition: \<^verbatim>\<open>None\<close> and \<^verbatim>\<open>""\<close> are false.\<close>

definition truthy :: "string option \<Rightarrow> bool" where
  "truthy s \<longleftrightarrow> (case s of None \<Rightarrow> False | Some x \<Rightarrow> x \<noteq> [])"

lemma truthy_Some: "truthy s \<longleftrightarrow> (\<exists>x. s = Some x \<and> x \<noteq> [])"
  by (auto simp: truthy_def split: option.splits)

section \<open>Calls to a peer\<close>

datatype 'b peer_result = PeerUnreachable | PeerResponse nat 'b

section \<open>Peering tables\<close>

datatype peer_status = PendingOutbound | Approved | Revoked

datatype peer_direction = Outbound | Inbound

record peer =
  p_id :: string
  p_hostname :: string
  p_pubkey :: string
  p_pubkey_fpr :: string
  p_api_url :: string
  p_direction :: peer_direction
  p_status :: peer_status
  p_local_token :: "string option"
  p_remote_token :: "string option"
  p_wg_pubkey :: "string option"
  p_wg_endpoint :: "string option"
  p_wg_bridge_subnet :: "string option"
  p_wg_transit_ip :: "string option"
  p_wg_tunnel_status :: string
  p_created_at :: instant
  p_approved_at :: "instant option"

datatype pairing_status = RPending | RApproved | RRejected | RExpired

record pairing_request =
  pr_id :: string
  pr_hostname :: string
  pr_pubkey :: string
  pr_pubkey_fpr :: string
  pr_signature :: string
  pr_callback_token :: string
  pr_callback_url :: string
  pr_wg_pubkey :: string
  pr_wg_endpoint :: string
  pr_wg_bridge_subnet :: string
  pr_status :: pairing_status
  pr_created_at :: instant
  pr_expires_at :: instant

section \<open>Token tables\<close>

record api_token =
  k_id :: string
  k_name :: string
  k_scope :: string
  k_token_sha256 :: string
  k_created_at :: instant
  k_expires_at :: "instant option"
  k_revoked_at :: "instant option"
  k_last_used_at :: "instant option"

record audit_row =
  a_ts :: instant
  a_identity :: string
  a_identity_id :: string
  a_method :: string
  a_path :: string
  a_endpoint :: string
  a_status :: nat
  a_source :: string

record llm_client_token =
  c_id :: string
  c_label :: string
  c_token_sha256 :: string
  c_created_at :: instant
  c_revoked_at :: "instant option"

section \<open>DNS tables\<close>

record dns_zone =
  z_name :: string
  z_created_at :: instant
  z_builtin :: bool

record dns_record =
  d_id :: string
  d_zone_name :: string
  d_name :: string
  d_fqdn :: string
  d_type :: string
  d_value :: string
  d_ttl :: int
  d_resource_type :: string
  d_resource_id :: string
  d_created_at :: instant

section \<open>Effects outside the database\<close>

text \<open>Calls to HAProxy, libvirt, iptables and the DNS server, in the order they are made.  Their
  failures are caught where they are called (or are arguments of the handler).\<close>

datatype effect =
    LbReload string "string list"
  | LbStart string
  | LbStop string
  | DnsReload
  | SgApply string "sg_rule list" "sg_rule list"
  | SgRemove string
  | DomainLaunch string
  | DomainStop string
  | DomainStart string
  | DomainDestroy string
  | DomainReboot string
  | SshRun string string
  | UsbSync string

section \<open>The state of the API process\<close>

record host =
  vpc_tbl :: "vpc list"
  subnet_tbl :: "subnet list"
  igw_tbl :: "internet_gateway list"
  route_table_tbl :: "route_table list"
  instance_tbl :: "inst list"
  lb_tbl :: "load_balancer list"
  sg_tbl :: "security_group list"
  peer_tbl :: "peer list"
  pairing_tbl :: "pairing_request list"
  api_token_tbl :: "api_token list"
  audit_tbl :: "audit_row list"
  client_token_tbl :: "llm_client_token list"
  dns_zone_tbl :: "dns_zone list"
  dns_record_tbl :: "dns_record list"
  rate_limit_hits :: "string \<rightharpoonup> int list"
  backoff :: "string \<rightharpoonup> int"
  effects :: "effect list"

definition emit :: "effect \<Rightarrow> host \<Rightarrow> host" where
  "emit e h = h\<lparr>effects := effects h @ [e]\<rparr>"

lemma emit_simps [simp]:
  "effects (emit e h) = effects h @ [e]"
  "vpc_tbl (emit e h) = vpc_tbl h" "subnet_tbl (emit e h) = subnet_tbl h" "igw_tbl (emit e h) = igw_tbl h"
  "route_table_tbl (emit e h) = route_table_tbl h" "instance_tbl (emit e h) = instance_tbl h" "lb_tbl (emit e h) = lb_tbl h"
  "sg_tbl (emit e h) = sg_tbl h" "peer_tbl (emit e h) = peer_tbl h"
  "dns_zone_tbl (emit e h) = dns_zone_tbl h" "dns_record_tbl (emit e h) = dns_record_tbl h"
  by (simp_all add: emit_def)

end
