(* ===== verification/Peers.thy ===== *)
theory Peers
  imports Host
begin

text \<open>
  \<^verbatim>\<open>api/peers_store.py\<close>: the rows of the peering handshake.  Fresh identifiers and the
  clock are arguments (\<open>nid\<close>, \<open>now\<close>) of the operations that call \<^verbatim>\<open>new_id()\<close> and
  \<^verbatim>\<open>now_iso()\<close>.
\<close>

section \<open>Peers\<close>

definition list_peers :: "host \<Rightarrow> peer_status option \<Rightarrow> peer list" where
  "list_peers h st = sort_key p_created_at
     (case st of None \<Rightarrow> peer_tbl h | Some s \<Rightarrow> filter (\<lambda>p. p_status p = s) (peer_tbl h))"

definition get_peer :: "host \<Rightarrow> string \<Rightarrow> peer option" where
  "get_peer h i = find (\<lambda>p. p_id p = i) (peer_tbl h)"

definition find_peer_by_local_token :: "host \<Rightarrow> string \<Rightarrow> peer option" where
  "find_peer_by_local_token h tok =
     find (\<lambda>p. p_local_token p = Some tok \<and> p_status p = Approved) (peer_tbl h)"

definition find_pending_outbound_by_local_token :: "host \<Rightarrow> string \<Rightarrow> peer option" where
  "find_pending_outbound_by_local_token h tok =
     find (\<lambda>p. p_local_token p = Some tok \<and> p_status p = PendingOutbound) (peer_tbl h)"

definition insert_peer :: "peer \<Rightarrow> host \<Rightarrow> host" where
  "insert_peer p h = h\<lparr>peer_tbl := peer_tbl h @ [p]\<rparr>"

definition update_peer :: "string \<Rightarrow> (peer \<Rightarrow> peer) \<Rightarrow> host \<Rightarrow> host" where
  "update_peer i f h = h\<lparr>peer_tbl := fst (update_where (\<lambda>p. p_id p = i) f (peer_tbl h))\<rparr>"

definition store_revoke_peer :: "string \<Rightarrow> host \<Rightarrow> host" where
  "store_revoke_peer i h =
     update_peer i (\<lambda>p. p\<lparr>p_status := Revoked, p_local_token := None, p_remote_token := None\<rparr>) h"

text \<open>The public view of a row: every column except the two tokens.\<close>

record public_peer =
  pp_id :: string
  pp_hostname :: string
  pp_pubkey :: string
  pp_pubkey_fpr :: string
  pp_api_url :: string
  pp_direction :: peer_direction
  pp_status :: peer_status
  pp_wg_pubkey :: "string option"
  pp_wg_endpoint :: "string option"
  pp_wg_bridge_subnet :: "string option"
  pp_wg_transit_ip :: "string option"
  pp_wg_tunnel_status :: string
  pp_created_at :: instant
  pp_approved_at :: "instant option"

definition to_public_dict :: "peer \<Rightarrow> public_peer" where
  "to_public_dict p = \<lparr>pp_id = p_id p, pp_hostname = p_hostname p, pp_pubkey = p_pubkey p,
     pp_pubkey_fpr = p_pubkey_fpr p, pp_api_url = p_api_url p, pp_direction = p_direction p,
     pp_status = p_status p, pp_wg_pubkey = p_wg_pubkey p, pp_wg_endpoint = p_wg_endpoint p,
     pp_wg_bridge_subnet = p_wg_bridge_subnet p, pp_wg_transit_ip = p_wg_transit_ip p,
     pp_wg_tunnel_status = p_wg_tunnel_status p, pp_created_at = p_created_at p,
     pp_approved_at = p_approved_at p\<rparr>"

section \<open>Re-pointing resources after a new pairing\<close>

definition migrate_ref :: "string list \<Rightarrow> string \<Rightarrow> string option \<Rightarrow> string option" where
  "migrate_ref old_ids new_id r = (if r \<in> Some ` set old_ids then Some new_id else r)"

definition migrate_table ::
    "('r \<Rightarrow> string option) \<Rightarrow> ((string option \<Rightarrow> string option) \<Rightarrow> 'r \<Rightarrow> 'r) \<Rightarrow>
     string list \<Rightarrow> string \<Rightarrow> 'r list \<Rightarrow> 'r list \<times> nat" where
  "migrate_table ref upd old_ids new_id t =
     update_where (\<lambda>r. ref r \<in> Some ` set old_ids) (upd (\<lambda>_. Some new_id)) t"

definition old_peer_ids :: "string \<Rightarrow> string \<Rightarrow> host \<Rightarrow> string list" where
  "old_peer_ids fpr new_id h =
     map p_id (filter (\<lambda>p. p_pubkey_fpr p = fpr \<and> p_id p \<noteq> new_id) (list_peers h None))"

definition migrate_host_id_references :: "string \<Rightarrow> string \<Rightarrow> host \<Rightarrow> host \<times> nat" where
  "migrate_host_id_references fpr new_id h =
     (let old_ids = old_peer_ids fpr new_id h in
      if old_ids = [] then (h, 0)
      else (let (it, n1) = migrate_table i_host_id i_host_id_update old_ids new_id (instance_tbl h);
                (vt, n2) = migrate_table v_host_id v_host_id_update old_ids new_id (vpc_tbl h);
                (st, n3) = migrate_table s_host_id s_host_id_update old_ids new_id (subnet_tbl h);
                (gt, n4) = migrate_table g_host_id g_host_id_update old_ids new_id (sg_tbl h)
            in (h\<lparr>instance_tbl := it, vpc_tbl := vt, subnet_tbl := st, sg_tbl := gt\<rparr>, n1 + n2 + n3 + n4)))"

section \<open>Pairing requests\<close>

definition store_list_pairing_requests :: "host \<Rightarrow> pairing_status option \<Rightarrow> pairing_request list" where
  "store_list_pairing_requests h st = sort_key pr_created_at
     (case st of None \<Rightarrow> pairing_tbl h | Some s \<Rightarrow> filter (\<lambda>r. pr_status r = s) (pairing_tbl h))"

definition get_pairing_request :: "host \<Rightarrow> string \<Rightarrow> pairing_request option" where
  "get_pairing_request h i = find (\<lambda>r. pr_id r = i) (pairing_tbl h)"

definition count_pending_pairing_requests :: "host \<Rightarrow> nat" where
  "count_pending_pairing_requests h = length (filter (\<lambda>r. pr_status r = RPending) (pairing_tbl h))"

definition expire_stale_pairing_requests :: "instant \<Rightarrow> host \<Rightarrow> host" where
  "expire_stale_pairing_requests now h =
     h\<lparr>pairing_tbl := fst (update_where (\<lambda>r. pr_status r = RPending \<and> pr_expires_at r < now)
        (\<lambda>r. r\<lparr>pr_status := RExpired\<rparr>) (pairing_tbl h))\<rparr>"

definition insert_pairing_request :: "pairing_request \<Rightarrow> host \<Rightarrow> host" where
  "insert_pairing_request r h = h\<lparr>pairing_tbl := pairing_tbl h @ [r]\<rparr>"

definition update_pairing_request :: "string \<Rightarrow> (pairing_request \<Rightarrow> pairing_request) \<Rightarrow> host \<Rightarrow> host" where
  "update_pairing_request i f h =
     h\<lparr>pairing_tbl := fst (update_where (\<lambda>r. pr_id r = i) f (pairing_tbl h))\<rparr>"

section \<open>Facts about the store\<close>

lemma list_peers_set:
  "set (list_peers h st) = {p \<in> set (peer_tbl h). case st of None \<Rightarrow> True | Some s \<Rightarrow> p_status p = s}"
  by (auto simp: list_peers_def split: option.splits)

lemma find_peer_by_local_token_Some:
  "find_peer_by_local_token h tok = Some p \<Longrightarrow>
     p \<in> set (peer_tbl h) \<and> p_local_token p = Some tok \<and> p_status p = Approved"
  using find_Some_in [of _ "peer_tbl h" p] by (auto simp: find_peer_by_local_token_def)

lemma find_peer_by_local_token_None:
  "find_peer_by_local_token h tok = None \<longleftrightarrow>
     (\<forall>p \<in> set (peer_tbl h). p_local_token p = Some tok \<longrightarrow> p_status p \<noteq> Approved)"
  by (auto simp: find_peer_by_local_token_def find_None_iff)

lemma get_peer_Some: "get_peer h i = Some p \<Longrightarrow> p \<in> set (peer_tbl h) \<and> p_id p = i"
  using find_Some_in [of _ "peer_tbl h" p] by (auto simp: get_peer_def)

lemma get_peer_None: "get_peer h i = None \<longleftrightarrow> i \<notin> p_id ` set (peer_tbl h)"
  by (auto simp: get_peer_def find_None_iff)

lemma find_map_key:
  assumes "\<And>x. k (f x) = k x"
  shows "find (\<lambda>x. k x = i) (map (\<lambda>x. if k x = j then f x else x) t) =
    (if i = j then map_option f (find (\<lambda>x. k x = i) t) else find (\<lambda>x. k x = i) t)"
  using assms by (induction t) auto

lemma get_update_peer:
  assumes "\<And>p. p_id (f p) = p_id p"
  shows "get_peer (update_peer j f h) i = (if i = j then map_option f (get_peer h i) else get_peer h i)"
  using assms by (simp add: get_peer_def update_peer_def update_where_def find_map_key)

lemma find_append: "find P (xs @ ys) = (case find P xs of None \<Rightarrow> find P ys | Some x \<Rightarrow> Some x)"
  by (induction xs) auto

lemma get_insert_peer:
  "get_peer (insert_peer p h) i = (case get_peer h i of Some q \<Rightarrow> Some q | None \<Rightarrow> if p_id p = i then Some p else None)"
  by (auto simp: get_peer_def insert_peer_def find_append split: option.split)

lemma get_pairing_insert:
  "get_pairing_request (insert_pairing_request r h) i =
     (case get_pairing_request h i of Some q \<Rightarrow> Some q | None \<Rightarrow> if pr_id r = i then Some r else None)"
  by (auto simp: get_pairing_request_def insert_pairing_request_def find_append split: option.split)

lemma get_update_pairing:
  assumes "\<And>p. pr_id (f p) = pr_id p"
  shows "get_pairing_request (update_pairing_request j f h) i =
    (if i = j then map_option f (get_pairing_request h i) else get_pairing_request h i)"
  using assms by (simp add: get_pairing_request_def update_pairing_request_def update_where_def find_map_key)

lemma migrate_table_rows:
  assumes "\<And>r. ref (upd (\<lambda>_. Some n) r) = Some n"
  shows "map ref (fst (migrate_table ref upd old n t)) = map (migrate_ref old n) (map ref t)"
  using assms by (simp add: migrate_table_def update_where_def migrate_ref_def)

end
