(* ===== verification/Authz.thy ===== *)
theory Authz
  imports Peers
begin

text \<open>
  Authorisation: the tokens of \<^verbatim>\<open>api/cc_token.py\<close>, the default-deny gate, the audit log and the
  named tokens of \<^verbatim>\<open>api/authz.py\<close>, the llm-chat client tokens of
  \<^verbatim>\<open>api/llm_client_capture.py\<close> that the gate reads, and the per-bind gate and
  \<^verbatim>\<open>require_auth\<close> of \<^verbatim>\<open>api/server.py\<close>.  The endpoint sets are those of the blueprints.
  \<open>sha\<close> stands for the hex digest of SHA-256, \<open>rand\<close> for \<^verbatim>\<open>secrets.token_urlsafe(32)\<close>;
  \<open>None\<close> as the answer of a gate lets the request through.
\<close>

section \<open>Configured tokens\<close>

text \<open>The file is a list of lines, \<open>None\<close> when it cannot be read.\<close>

definition env_line :: "string \<Rightarrow> (string \<times> string) option" where
  "env_line l = (let s = py_strip l in
     if CHR ''='' \<in> set s then Some (split_once (CHR ''='') s) else None)"

definition from_file :: "string list option \<Rightarrow> string \<Rightarrow> string" where
  "from_file file name =
     (case file of None \<Rightarrow> []
      | Some ls \<Rightarrow>
         (case find (\<lambda>kv. fst kv = name) (List.map_filter env_line ls) of
            None \<Rightarrow> [] | Some (k, v) \<Rightarrow> strip_chars [CHR 0x27, CHR 0x22] (py_strip v)))"

definition cc_get :: "(string \<rightharpoonup> string) \<Rightarrow> string list option \<Rightarrow> string \<Rightarrow> string" where
  "cc_get environ file name =
     py_strip (case environ name of None \<Rightarrow> from_file file name
       | Some v \<Rightarrow> if v = [] then from_file file name else v)"

definition is_retired :: "string \<Rightarrow> bool" where
  "is_retired token \<longleftrightarrow> token = ''dev-token''"

text \<open>\<open>None\<close> is the \<^verbatim>\<open>RuntimeError\<close> that stops the API from starting.\<close>

definition master_token :: "(string \<rightharpoonup> string) \<Rightarrow> string list option \<Rightarrow> string option" where
  "master_token environ file =
     (let token = cc_get environ file ''CLOUDCORE_API_TOKEN'' in
      if token = [] \<or> (is_retired token \<and> environ ''CLOUDCORE_ALLOW_DEV_TOKEN'' \<noteq> Some ''1'')
      then None else Some token)"

definition labvm_token :: "(string \<rightharpoonup> string) \<Rightarrow> string list option \<Rightarrow> string" where
  "labvm_token environ file = cc_get environ file ''CLOUDCORE_LABVM_TOKEN''"

definition examples_token :: "(string \<rightharpoonup> string) \<Rightarrow> string list option \<Rightarrow> string" where
  "examples_token environ file = cc_get environ file ''CLOUDCORE_EXAMPLES_TOKEN''"

record tokens =
  tk_master :: string
  tk_examples :: string
  tk_labvm :: string

section \<open>Endpoint sets\<close>

definition PUBLIC :: "string set" where
  "PUBLIC = {''ui'', ''ui_vendor'', ''static'', ''llm_examples.list_published'',
     ''peers.pairing_request_bootstrap'', ''peers.self_info'', ''peers.complete_pairing'',
     ''instance_vnc_websocket''}"

definition QUERY_TOKEN_RULES :: "string set" where
  "QUERY_TOKEN_RULES = {''/v1/builds/<build_id>/log'', ''/v1/tofu/builds/<build_id>/log''}"

definition PEER_REACHABLE_ENDPOINTS :: "string set" where
  "PEER_REACHABLE_ENDPOINTS = {''peers.pairing_request_bootstrap'', ''peers.complete_pairing'', ''peers.self_info'',
     ''sg.list_sgs'', ''sg.create_sg'', ''sg.get_sg'', ''sg.update_sg'', ''sg.delete_sg'',
     ''stats.get_system_stats'', ''peers.sentinel_relay''}"

definition PEER_REACHABLE_LOCAL_ENDPOINTS :: "string set" where
  "PEER_REACHABLE_LOCAL_ENDPOINTS = {''resize_instance_disk'',
     ''create_instance'', ''get_instance'', ''update_instance'', ''delete_instance'',
     ''list_vpcs'', ''list_subnets'', ''create_vpc'', ''get_vpc'', ''update_vpc'', ''delete_vpc'',
     ''create_subnet'', ''get_subnet'', ''update_subnet'', ''delete_subnet''}"

definition LABNET_PEER_REACHABLE :: "string set" where
  "LABNET_PEER_REACHABLE = {''labnet.add_pair'', ''labnet.remove_ip''}"

definition EXAMPLES_REACHABLE_ENDPOINTS :: "string set" where
  "EXAMPLES_REACHABLE_ENDPOINTS = {''llm_examples.ingest_example'', ''llm_examples.list_published''}"

definition LLM_DEPLOYMENTS_REACHABLE_ENDPOINTS :: "string set" where
  "LLM_DEPLOYMENTS_REACHABLE_ENDPOINTS = {''llm_deployments.register_deployment_endpoint''}"

definition CLIENT_REACHABLE_ENDPOINTS :: "string set" where
  "CLIENT_REACHABLE_ENDPOINTS = {''llm_client_capture.submit'', ''llm_client_capture.submission_status''}"

definition LAB_VM_REACHABLE_ENDPOINTS :: "string set" where
  "LAB_VM_REACHABLE_ENDPOINTS = {''lab_vms.create_lab_vm'', ''lab_vms.list_lab_vms'', ''lab_vms.get_lab_vm'',
     ''lab_vms.touch_lab_vm'', ''lab_vms.delete_lab_vm'', ''lab_vms.pair_lab_vm'', ''lab_vms.grow_lab_vm_disk'',
     ''lab_vms.set_control_key'', ''lab_vms.list_build_snapshots'', ''lab_vms.take_build_snapshot'',
     ''lab_vms.restore_build_snapshot''}"

definition LFS_ENDPOINTS :: "string set" where
  "LFS_ENDPOINTS = {''lfs.create_build'', ''lfs.list_builds'', ''lfs.get_build'', ''lfs.update_build'', ''lfs.list_tasks'',
     ''lfs.next_task'', ''lfs.get_task'', ''lfs.set_task_state'', ''lfs.add_journal'', ''lfs.journal_markdown'',
     ''lfs.heartbeat''}"

lemmas endpoint_sets = PUBLIC_def PEER_REACHABLE_ENDPOINTS_def PEER_REACHABLE_LOCAL_ENDPOINTS_def
  LABNET_PEER_REACHABLE_def EXAMPLES_REACHABLE_ENDPOINTS_def LLM_DEPLOYMENTS_REACHABLE_ENDPOINTS_def
  CLIENT_REACHABLE_ENDPOINTS_def LAB_VM_REACHABLE_ENDPOINTS_def LFS_ENDPOINTS_def

section \<open>Access\<close>

definition grant :: "string set \<Rightarrow> string set \<Rightarrow> (string \<rightharpoonup> string set) \<Rightarrow> (string \<rightharpoonup> string set)" where
  "grant eps scopes m = (\<lambda>e. if e \<in> eps - PUBLIC then Some scopes else m e)"

definition configure ::
    "string set \<Rightarrow> string set \<Rightarrow> string set \<Rightarrow> string set \<Rightarrow> string set \<Rightarrow> (string \<rightharpoonup> string set) \<Rightarrow> (string \<rightharpoonup> string set)" where
  "configure peer_eps capture_eps student_eps labvm_eps lab_or_admin_eps m =
     grant lab_or_admin_eps {''admin'', ''labvm''} (grant labvm_eps {''labvm''} (grant student_eps {''student''}
       (grant capture_eps {''admin'', ''capture''} (grant peer_eps {''admin'', ''peer''} m))))"

definition allowed :: "(string \<rightharpoonup> string set) \<Rightarrow> string \<Rightarrow> string set option" where
  "allowed access endpoint =
     (if endpoint \<in> PUBLIC then None
      else Some (case access endpoint of None \<Rightarrow> {''admin''} | Some s \<Rightarrow> s))"

text \<open>The call of \<^verbatim>\<open>configure\<close> in \<^verbatim>\<open>server.py\<close>.\<close>

definition peer_bind_endpoints :: "string set" where
  "peer_bind_endpoints = PEER_REACHABLE_ENDPOINTS \<union> PEER_REACHABLE_LOCAL_ENDPOINTS \<union> LABNET_PEER_REACHABLE"

definition examples_bind_endpoints :: "string set" where
  "examples_bind_endpoints = EXAMPLES_REACHABLE_ENDPOINTS \<union> LLM_DEPLOYMENTS_REACHABLE_ENDPOINTS \<union>
     CLIENT_REACHABLE_ENDPOINTS \<union> LAB_VM_REACHABLE_ENDPOINTS \<union> LFS_ENDPOINTS"

definition server_access :: "string \<rightharpoonup> string set" where
  "server_access = configure peer_bind_endpoints
     (EXAMPLES_REACHABLE_ENDPOINTS \<union> LLM_DEPLOYMENTS_REACHABLE_ENDPOINTS) CLIENT_REACHABLE_ENDPOINTS
     LAB_VM_REACHABLE_ENDPOINTS LFS_ENDPOINTS Map.empty"

section \<open>Identities\<close>

record identity =
  id_scope :: string
  id_id :: string
  id_name :: string

definition token_live :: "instant \<Rightarrow> api_token \<Rightarrow> bool" where
  "token_live now k \<longleftrightarrow> (case k_expires_at k of None \<Rightarrow> True | Some e \<Rightarrow> e > now)"

definition find_api_token :: "string \<Rightarrow> host \<Rightarrow> api_token option" where
  "find_api_token hash h = find (\<lambda>k. k_token_sha256 k = hash \<and> k_revoked_at k = None) (api_token_tbl h)"

definition find_client_token :: "string \<Rightarrow> host \<Rightarrow> llm_client_token option" where
  "find_client_token hash h = find (\<lambda>c. c_token_sha256 c = hash \<and> c_revoked_at c = None) (client_token_tbl h)"

definition touch_api_token :: "instant \<Rightarrow> string \<Rightarrow> host \<Rightarrow> host" where
  "touch_api_token now i h = h\<lparr>api_token_tbl :=
     fst (update_where (\<lambda>k. k_id k = i) (\<lambda>k. k\<lparr>k_last_used_at := Some now\<rparr>) (api_token_tbl h))\<rparr>"

definition identify ::
    "(string \<Rightarrow> string) \<Rightarrow> tokens \<Rightarrow> instant \<Rightarrow> string \<Rightarrow> host \<Rightarrow> host \<times> identity option" where
  "identify sha tk now token h =
     (if token = [] then (h, None)
      else if token = tk_master tk then
        (h, Some \<lparr>id_scope = ''admin'', id_id = ''master'', id_name = ''master token (api.env)''\<rparr>)
      else
        (case (case find_api_token (sha token) h of
                 Some k \<Rightarrow> if token_live now k then Some k else None | None \<Rightarrow> None) of
           Some k \<Rightarrow> (touch_api_token now (k_id k) h,
               Some \<lparr>id_scope = k_scope k, id_id = k_id k, id_name = k_name k\<rparr>)
         | None \<Rightarrow>
            (case find_peer_by_local_token h token of
               Some p \<Rightarrow> (h, Some \<lparr>id_scope = ''peer'', id_id = p_id p,
                   id_name = (if p_hostname p = [] then p_id p else p_hostname p)\<rparr>)
             | None \<Rightarrow>
                if tk_examples tk \<noteq> [] \<and> token = tk_examples tk then
                  (h, Some \<lparr>id_scope = ''capture'', id_id = ''capture-env'', id_name = ''capture token (api.env)''\<rparr>)
                else if tk_labvm tk \<noteq> [] \<and> token = tk_labvm tk then
                  (h, Some \<lparr>id_scope = ''labvm'', id_id = ''labvm-env'', id_name = ''labvm token (api.env)''\<rparr>)
                else
                  (case find_client_token (sha token) h of
                     Some c \<Rightarrow> (h, Some \<lparr>id_scope = ''student'', id_id = c_id c, id_name = c_label c\<rparr>)
                   | None \<Rightarrow> (h, None)))))"

section \<open>Gates\<close>

definition request_token :: "request \<Rightarrow> string" where
  "request_token q =
     (let token = (if startswith (q_auth q) bearer_prefix
                   then py_strip (removeprefix (q_auth q) bearer_prefix) else [])
      in if token = [] \<and> q_method q = ''GET'' \<and> (\<exists>r \<in> QUERY_TOKEN_RULES. q_rule q = Some r)
         then q_token_arg q else token)"

text \<open>The reply and the identity recorded for the request (\<^verbatim>\<open>g.identity\<close>).\<close>

definition gate ::
    "(string \<Rightarrow> string) \<Rightarrow> tokens \<Rightarrow> (string \<rightharpoonup> string set) \<Rightarrow> instant \<Rightarrow> request \<Rightarrow> host \<Rightarrow>
     host \<times> identity option \<times> (nat \<times> string) option" where
  "gate sha tk access now q h =
     (case q_endpoint q of
        None \<Rightarrow> (h, None, None)
      | Some endpoint \<Rightarrow>
          if q_method q = ''OPTIONS'' then (h, None, None)
          else
            (let need = allowed access endpoint;
                 (h1, ident) = identify sha tk now (request_token q) h
             in
             (case need of
                None \<Rightarrow> (h1, ident, None)
              | Some scopes \<Rightarrow>
                 (case ident of
                    None \<Rightarrow> (h1, None, Some (401, ''Unauthorized''))
                  | Some i \<Rightarrow>
                      if id_scope i \<notin> scopes then (h1, ident, Some (403, ''Forbidden''))
                      else (h1, ident, None)))))"

definition peer_bind_gate :: "tokens \<Rightarrow> string \<Rightarrow> string \<Rightarrow> request \<Rightarrow> (nat \<times> string) option" where
  "peer_bind_gate tk peer_port examples_port q =
     (if q_server_port q = peer_port \<and>
         (q_auth q = bearer_prefix @ tk_master tk \<or> q_endpoint q \<notin> Some ` peer_bind_endpoints)
      then Some (403, ''Forbidden'')
      else if q_server_port q = examples_port \<and>
         (q_auth q = bearer_prefix @ tk_master tk \<or> q_endpoint q \<notin> Some ` examples_bind_endpoints)
      then Some (403, ''Forbidden'')
      else None)"

text \<open>The before-request functions in the order they are registered.\<close>

definition before_request ::
    "(string \<Rightarrow> string) \<Rightarrow> tokens \<Rightarrow> string \<Rightarrow> string \<Rightarrow> instant \<Rightarrow> request \<Rightarrow> host \<Rightarrow>
     host \<times> identity option \<times> (nat \<times> string) option" where
  "before_request sha tk peer_port examples_port now q h =
     (case peer_bind_gate tk peer_port examples_port q of
        Some p \<Rightarrow> (h, None, Some p)
      | None \<Rightarrow> gate sha tk server_access now q h)"

text \<open>\<^verbatim>\<open>require_auth\<close>: \<open>Some peer\<close> is recorded as \<^verbatim>\<open>g.peer\<close>; \<open>None\<close> is the 401.\<close>

definition require_auth :: "tokens \<Rightarrow> request \<Rightarrow> host \<Rightarrow> peer option option" where
  "require_auth tk q h =
     (if q_auth q = bearer_prefix @ tk_master tk then Some None
      else
        (let token = (if startswith (q_auth q) bearer_prefix then removeprefix (q_auth q) bearer_prefix else [])
         in case (if token = [] then None else find_peer_by_local_token h token) of
              Some p \<Rightarrow> Some (Some p)
            | None \<Rightarrow> None))"

section \<open>Audit log\<close>

definition audit :: "instant \<Rightarrow> request \<Rightarrow> identity option \<Rightarrow> nat \<Rightarrow> host \<Rightarrow> host" where
  "audit now q ident status h =
     (case q_endpoint q of
        None \<Rightarrow> h
      | Some ep \<Rightarrow>
          if q_method q \<in> {''POST'', ''PUT'', ''PATCH'', ''DELETE''} \<and> ep \<noteq> ''static'' then
            h\<lparr>audit_tbl := audit_tbl h @
               [\<lparr>a_ts = now, a_identity = (case ident of None \<Rightarrow> ''anonymous'' | Some i \<Rightarrow> id_scope i),
                 a_identity_id = (case ident of None \<Rightarrow> [] | Some i \<Rightarrow> id_id i),
                 a_method = q_method q, a_path = take 300 (q_path q), a_endpoint = ep, a_status = status,
                 a_source = (case q_remote_addr q of None \<Rightarrow> [] | Some a \<Rightarrow> a)\<rparr>]\<rparr>
          else h)"

text \<open>\<^verbatim>\<open>ORDER BY id DESC LIMIT ?\<close>: a negative limit is no limit in SQLite.\<close>

definition list_audit :: "int \<Rightarrow> host \<Rightarrow> audit_row list" where
  "list_audit limit_arg h =
     (let limit = min limit_arg 1000; rows = rev (audit_tbl h)
      in if limit < 0 then rows else take (nat limit) rows)"

section \<open>Named tokens\<close>

record token_body =
  tb_name :: "string option"
  tb_scope :: "string option"
  tb_expires_days :: "int option"

definition day_us :: int where "day_us = 24 * 3600 * 10 ^ 6"

definition create_token ::
    "(string \<Rightarrow> string) \<Rightarrow> string \<Rightarrow> string \<Rightarrow> instant \<Rightarrow> token_body \<Rightarrow> host \<Rightarrow> host \<times> (string \<times> string) reply" where
  "create_token sha rand tid now body h =
     (let name = py_strip (case tb_name body of None \<Rightarrow> [] | Some n \<Rightarrow> n) in
      if name = [] \<or> length name > 80 then (h, Problem 400 ''Bad Request'')
      else
        (case tb_scope body of
           None \<Rightarrow> (h, Problem 400 ''Bad Request'')
         | Some scope \<Rightarrow>
             if scope \<notin> {''admin'', ''capture'', ''labvm''} then (h, Problem 400 ''Bad Request'')
             else
               (let expires = (case tb_expires_days body of None \<Rightarrow> None
                      | Some d \<Rightarrow> if d = 0 then None else Some (now + d * day_us));
                    token = ''cc'' @ [hd scope] @ ''_'' @ rand
                in (h\<lparr>api_token_tbl := api_token_tbl h @
                      [\<lparr>k_id = tid, k_name = name, k_scope = scope, k_token_sha256 = sha token, k_created_at = now,
                        k_expires_at = expires, k_revoked_at = None, k_last_used_at = None\<rparr>]\<rparr>,
                    Reply 201 (tid, token)))))"

definition revoke_token :: "instant \<Rightarrow> string \<Rightarrow> host \<Rightarrow> host \<times> unit reply" where
  "revoke_token now tid h =
     (let u = update_where (\<lambda>k. k_id k = tid \<and> k_revoked_at k = None) (\<lambda>k. k\<lparr>k_revoked_at := Some now\<rparr>) (api_token_tbl h)
      in (h\<lparr>api_token_tbl := fst u\<rparr>, if snd u > 0 then NoContent 204 else Problem 404 ''Not Found''))"

definition list_tokens :: "host \<Rightarrow> api_token list" where
  "list_tokens h = map (\<lambda>k. k\<lparr>k_token_sha256 := []\<rparr>) (rev (sort_key k_created_at (rev (api_token_tbl h))))"

section \<open>Client tokens\<close>

definition client_create_token ::
    "(string \<Rightarrow> string) \<Rightarrow> string \<Rightarrow> string \<Rightarrow> instant \<Rightarrow> string option \<Rightarrow> host \<Rightarrow> host \<times> (string \<times> string) reply" where
  "client_create_token sha rand tid now label h =
     (let l = take 100 (py_strip (case label of None \<Rightarrow> [] | Some x \<Rightarrow> x)) in
      if l = [] then (h, Problem 400 ''Bad Request'')
      else (h\<lparr>client_token_tbl := client_token_tbl h @
              [\<lparr>c_id = tid, c_label = l, c_token_sha256 = sha (''lcc_'' @ rand), c_created_at = now, c_revoked_at = None\<rparr>]\<rparr>,
            Reply 201 (tid, ''lcc_'' @ rand)))"

definition client_revoke_token :: "instant \<Rightarrow> string \<Rightarrow> host \<Rightarrow> host \<times> unit reply" where
  "client_revoke_token now tid h =
     (let u = update_where (\<lambda>c. c_id c = tid \<and> c_revoked_at c = None) (\<lambda>c. c\<lparr>c_revoked_at := Some now\<rparr>) (client_token_tbl h)
      in (h\<lparr>client_token_tbl := fst u\<rparr>, if snd u > 0 then Reply 200 () else Problem 404 ''Not Found''))"

definition client_token_row :: "(string \<Rightarrow> string) \<Rightarrow> request \<Rightarrow> host \<Rightarrow> llm_client_token option" where
  "client_token_row sha q h =
     (let token = py_strip (removeprefix (q_auth q) bearer_prefix) in
      if token = [] then None else find_client_token (sha token) h)"

end
