(* ===== verification/Wireguard.thy ===== *)
theory Wireguard
  imports Peers
begin

text \<open>
  \<^verbatim>\<open>api/wireguard.py\<close>: the tunnel configuration rendered from the approved peers and the
  outcome stored after an approval.  The commands run with \<^verbatim>\<open>sudo\<close> are arguments: \<open>cmds\<close> gives
  what each of them returned, \<open>poll k\<close> the handshake status seen at attempt \<open>k\<close>.  Settings and
  the private key are arguments too.
\<close>

section \<open>Addresses\<close>

definition transit_of_octet :: "string \<Rightarrow> string" where
  "transit_of_octet n = ''10.99.'' @ n @ ''.1''"

definition my_transit_ip :: "int \<Rightarrow> string" where
  "my_transit_ip bridge_subnet_octet = transit_of_octet (show_int bridge_subnet_octet)"

text \<open>\<^verbatim>\<open>192\.168\.(\d+)\.0/24$\<close>: \<^verbatim>\<open>$\<close> also matches before a final newline.\<close>

definition newline :: char where "newline = CHR 0x0A"

definition subnet_suffixes :: "string list" where
  "subnet_suffixes = [''.0/24'', ''.0/24'' @ [newline]]"

definition match_bridge_subnet :: "string \<Rightarrow> string option" where
  "match_bridge_subnet s =
     (if startswith s ''192.168.'' then
        (let r = drop 8 s; d = takeWhile is_digit r in
         if d \<noteq> [] \<and> dropWhile is_digit r \<in> set subnet_suffixes then Some d else None)
      else None)"

definition peer_transit_ip :: "string option \<Rightarrow> string option" where
  "peer_transit_ip bridge_subnet =
     map_option transit_of_octet
       (match_bridge_subnet (case bridge_subnet of None \<Rightarrow> [] | Some s \<Rightarrow> s))"

section \<open>The configuration file\<close>

definition allowed_ips :: "peer \<Rightarrow> string list" where
  "allowed_ips p =
     (if truthy (p_wg_bridge_subnet p) then [the (p_wg_bridge_subnet p)] else []) @
     (case peer_transit_ip (p_wg_bridge_subnet p) of None \<Rightarrow> [] | Some t \<Rightarrow> [t @ ''/32''])"

definition in_config :: "peer \<Rightarrow> bool" where
  "in_config p \<longleftrightarrow> p_status p = Approved \<and> truthy (p_wg_pubkey p) \<and> allowed_ips p \<noteq> []"

definition peer_block :: "peer \<Rightarrow> string list" where
  "peer_block p =
     [''[Peer]'', ''PublicKey = '' @ the (p_wg_pubkey p), ''AllowedIPs = '' @ join '', '' (allowed_ips p)] @
     (if truthy (p_wg_endpoint p) then [''Endpoint = '' @ the (p_wg_endpoint p)] else []) @ [[]]"

definition config_lines :: "int \<Rightarrow> int \<Rightarrow> string \<Rightarrow> peer list \<Rightarrow> string list" where
  "config_lines bridge_subnet_octet listen_port privkey peers =
     [''[Interface]'', ''Address = '' @ my_transit_ip bridge_subnet_octet @ ''/16'',
      ''ListenPort = '' @ show_int listen_port, ''PrivateKey = '' @ privkey, []] @
     concat (map peer_block (filter in_config peers))"

definition render_config :: "int \<Rightarrow> int \<Rightarrow> string \<Rightarrow> peer list \<Rightarrow> string" where
  "render_config bridge_subnet_octet listen_port privkey peers =
     join [newline] (config_lines bridge_subnet_octet listen_port privkey peers)"

section \<open>Applying it\<close>

record wg_commands =
  tee_ok :: bool
  iface_exists :: bool
  up_ok :: bool
  strip_ok :: bool
  syncconf_ok :: bool

definition wg_apply :: "wg_commands \<Rightarrow> bool" where
  "wg_apply c =
     (if \<not> tee_ok c then False
      else if \<not> iface_exists c then up_ok c
      else if \<not> strip_ok c then False
      else syncconf_ok c)"

text \<open>The columns \<^verbatim>\<open>wg_tunnel_status\<close> and \<^verbatim>\<open>wg_transit_ip\<close> to store on the row.\<close>

definition on_peer_approved :: "wg_commands \<Rightarrow> (nat \<Rightarrow> string) \<Rightarrow> peer \<Rightarrow> string \<times> string option" where
  "on_peer_approved cmds poll p =
     (if \<not> wg_apply cmds then (''error'', None)
      else if \<not> truthy (p_wg_pubkey p) then (''unknown'', None)
      else (let transit_ip = peer_transit_ip (p_wg_bridge_subnet p) in
        if \<exists>k \<in> set [0..<6]. poll k = ''up'' then (''up'', transit_ip) else (''down'', transit_ip)))"

section \<open>Facts\<close>

lemma config_lines_mem:
  "l \<in> set (config_lines o' port key peers) \<longleftrightarrow>
     l \<in> {''[Interface]'', ''Address = '' @ my_transit_ip o' @ ''/16'', ''ListenPort = '' @ show_int port,
       ''PrivateKey = '' @ key, []} \<or>
     (\<exists>p \<in> set peers. in_config p \<and> l \<in> set (peer_block p))"
  by (auto simp: config_lines_def)

lemma split_on_append: "split_on c (x @ c # s) = split_on c x @ split_on c s"
  by (induction x) (auto split: list.split)

lemma split_on_middle: "c \<notin> set l \<Longrightarrow> l \<in> set (split_on c (x @ c # l @ c # y))"
  by (simp add: split_on_append split_on_none)

text \<open>The lines of a joined text are the lines of its pieces.\<close>

lemma split_on_join:
  "xs \<noteq> [] \<Longrightarrow> split_on c (join [c] xs) = concat (map (split_on c) xs)"
  by (induction "[c]" xs rule: join.induct) (auto simp: split_on_append)

lemma split_on_join_clean:
  assumes "xs \<noteq> []" "\<forall>x \<in> set xs. c \<notin> set x"
  shows "split_on c (join [c] xs) = xs"
proof -
  have "map (split_on c) xs = map (\<lambda>x. [x]) xs" using assms(2) by (simp add: split_on_none)
  then show ?thesis using split_on_join [OF assms(1), of c] by (simp only: concat_map_singleton map_ident)
qed

lemma config_lines_nonempty [simp]: "config_lines o' port key peers \<noteq> []"
  by (simp add: config_lines_def)

lemma allowed_ips_nonempty: "allowed_ips p \<noteq> [] \<longleftrightarrow> truthy (p_wg_bridge_subnet p)"
proof -
  have "match_bridge_subnet [] = None" by (simp add: match_bridge_subnet_def startswith_def)
  then show ?thesis
    by (auto simp: allowed_ips_def truthy_def peer_transit_ip_def split: option.splits)
qed

definition clean :: "string option \<Rightarrow> bool" where
  "clean s \<longleftrightarrow> (case s of None \<Rightarrow> True | Some x \<Rightarrow> newline \<notin> set x)"

definition clean_peer :: "peer \<Rightarrow> bool" where
  "clean_peer p \<longleftrightarrow> clean (p_wg_pubkey p) \<and> clean (p_wg_endpoint p) \<and> clean (p_wg_bridge_subnet p)"

lemma newline_simps [simp]:
  "newline \<notin> set (show_int i)" "newline \<notin> set (transit_of_octet (show_int i))"
proof -
  have "is_space newline" by (simp add: newline_def is_space_def)
  then show "newline \<notin> set (show_int i)" using show_int_no_space by blast
  then show "newline \<notin> set (transit_of_octet (show_int i))"
    by (simp add: transit_of_octet_def newline_def)
qed

lemma join_clean: "c \<notin> set sep \<Longrightarrow> \<forall>x \<in> set xs. c \<notin> set x \<Longrightarrow> c \<notin> set (join sep xs)"
  by (induction sep xs rule: join.induct) auto

lemma match_digits: "match_bridge_subnet s = Some d \<Longrightarrow> \<forall>c \<in> set d. is_digit c"
  by (auto simp: match_bridge_subnet_def Let_def split: if_splits dest: set_takeWhileD)

lemma newline_not_digit: "\<not> is_digit newline"
  by (simp add: newline_def is_digit_def)

lemma allowed_ips_clean:
  assumes "clean (p_wg_bridge_subnet p)"
  shows "\<forall>x \<in> set (allowed_ips p). newline \<notin> set x"
proof -
  have "newline \<notin> set t" if t: "peer_transit_ip (p_wg_bridge_subnet p) = Some t" for t
  proof -
    obtain s d where "match_bridge_subnet s = Some d" "t = transit_of_octet d"
      using t by (auto simp: peer_transit_ip_def)
    with match_digits newline_not_digit show ?thesis
      by (auto simp: transit_of_octet_def newline_def)
  qed
  then have "newline \<notin> set (t @ ''/32'')"
    if "peer_transit_ip (p_wg_bridge_subnet p) = Some t" for t
    using that by (simp add: newline_def)
  with assms show ?thesis
    by (auto simp: allowed_ips_def truthy_Some clean_def split: option.splits if_splits
        simp del: set_append)
qed

lemma peer_block_clean:
  assumes "clean_peer p" "in_config p"
  shows "\<forall>l \<in> set (peer_block p). newline \<notin> set l"
proof -
  have "newline \<notin> set (join '', '' (allowed_ips p))"
    using assms(1) by (intro join_clean allowed_ips_clean) (auto simp: clean_peer_def newline_def)
  with assms show ?thesis
    by (auto simp: peer_block_def in_config_def truthy_Some clean_peer_def clean_def newline_def)
qed

lemma config_lines_clean:
  assumes "newline \<notin> set key" "\<forall>p \<in> set peers. clean_peer p"
  shows "\<forall>l \<in> set (config_lines o' port key peers). newline \<notin> set l"
proof
  fix l assume "l \<in> set (config_lines o' port key peers)"
  then consider "l \<in> {''[Interface]'', ''Address = '' @ my_transit_ip o' @ ''/16'', ''ListenPort = '' @ show_int port,
       ''PrivateKey = '' @ key, []}" | p where "p \<in> set peers" "in_config p" "l \<in> set (peer_block p)"
    by (auto simp: config_lines_mem)
  then show "newline \<notin> set l"
  proof cases
    case 1
    then show ?thesis
      using assms(1) newline_simps [of port] newline_simps [of o'] by (auto simp: my_transit_ip_def newline_def)
  next
    case 2
    then show ?thesis using assms(2) peer_block_clean by blast
  qed
qed

lemma render_config_lines:
  assumes "newline \<notin> set key" "\<forall>p \<in> set peers. clean_peer p"
  shows "split_on newline (render_config o' port key peers) = config_lines o' port key peers"
  unfolding render_config_def
  by (rule split_on_join_clean [OF config_lines_nonempty config_lines_clean [OF assms]])

lemma key_line_block:
  assumes "k \<noteq> []"
  shows "''PublicKey = '' @ k \<in> set (peer_block p) \<longleftrightarrow> the (p_wg_pubkey p) = k"
  by (auto simp: peer_block_def)

lemma key_line_config:
  assumes "k \<noteq> []"
  shows "''PublicKey = '' @ k \<in> set (config_lines o' port key peers) \<longleftrightarrow>
    (\<exists>p \<in> set peers. in_config p \<and> p_wg_pubkey p = Some k)"
proof -
  have "''PublicKey = '' @ k \<notin> {''[Interface]'', ''Address = '' @ my_transit_ip o' @ ''/16'',
      ''ListenPort = '' @ show_int port, ''PrivateKey = '' @ key, []}" by simp
  then show ?thesis
    using key_line_block [OF assms] by (auto simp: config_lines_mem in_config_def truthy_Some)
qed

section \<open>Properties\<close>

text \<open>
  when no stored WireGuard column contains a line break, the lines of the rendered file
  announce exactly the keys of the approved peers that have a key and a bridge subnet; the key
  of a revoked or pending peer is never in the file.\<close>

theorem render_config_keys:
  assumes "newline \<notin> set privkey" "\<forall>p \<in> set peers. clean_peer p" "k \<noteq> []"
  shows "''PublicKey = '' @ k \<in> set (split_on newline (render_config octet port privkey peers)) \<longleftrightarrow>
    (\<exists>p \<in> set peers. p_status p = Approved \<and> p_wg_pubkey p = Some k \<and> truthy (p_wg_bridge_subnet p))"
  using key_line_config [OF assms(3)] assms(3)
  by (auto simp: render_config_lines [OF assms(1, 2)] in_config_def allowed_ips_nonempty truthy_Some)

text \<open>
  without that condition the file can be given any line: whatever line an approved peer
  puts between two line breaks of its advertised bridge subnet becomes a line of the
  configuration that \<^verbatim>\<open>wg-quick\<close> runs as root.\<close>

theorem render_config_injection:
  assumes "p \<in> set peers" "p_status p = Approved" "truthy (p_wg_pubkey p)"
    and "p_wg_bridge_subnet p = Some (a @ newline # l @ newline # b)" "newline \<notin> set l"
  shows "l \<in> set (split_on newline (render_config octet port privkey peers))"
proof -
  let ?s = "a @ newline # l @ newline # b"
  have "in_config p" using assms(2-4) by (simp add: in_config_def allowed_ips_nonempty truthy_def)
  moreover have "''AllowedIPs = '' @ join '', '' (allowed_ips p) \<in> set (peer_block p)"
    by (simp add: peer_block_def)
  ultimately have line: "''AllowedIPs = '' @ join '', '' (allowed_ips p) \<in> set (config_lines octet port privkey peers)"
    using assms(1) by (auto simp: config_lines_mem)
  obtain rest where "join '', '' (allowed_ips p) = ?s @ rest"
    using assms(4) by (cases "peer_transit_ip (p_wg_bridge_subnet p)") (auto simp: allowed_ips_def truthy_def)
  then have "''AllowedIPs = '' @ join '', '' (allowed_ips p) =
      (''AllowedIPs = '' @ a) @ newline # (l @ newline # (b @ rest))" by simp
  then have "l \<in> set (split_on newline (''AllowedIPs = '' @ join '', '' (allowed_ips p)))"
    using split_on_middle [OF assms(5), of "''AllowedIPs = '' @ a" "b @ rest"] by (simp only:)
  with line show ?thesis
    unfolding render_config_def split_on_join [OF config_lines_nonempty] by (auto simp del: split_on.simps)
qed

section \<open>Witnesses\<close>

definition demo_peer :: peer where
  "demo_peer = \<lparr>p_id = ''p1'', p_hostname = ''h'', p_pubkey = ''k'', p_pubkey_fpr = ''f'', p_api_url = ''u'',
     p_direction = Inbound, p_status = Approved, p_local_token = None, p_remote_token = None,
     p_wg_pubkey = Some ''K'', p_wg_endpoint = None, p_wg_bridge_subnet = Some ''192.168.7.0/24'',
     p_wg_transit_ip = None, p_wg_tunnel_status = ''unknown'', p_created_at = 0, p_approved_at = None\<rparr>"

theorem render_config_keys_witness:
  "''PublicKey = K'' \<in> set (split_on newline (render_config 100 51820 ''S'' [demo_peer]))"
proof -
  have "\<forall>p \<in> set [demo_peer]. clean_peer p"
    by (simp add: demo_peer_def clean_peer_def clean_def newline_def)
  from render_config_keys [of "''S''", OF _ this, of "''K''" 100 51820] show ?thesis
    by (simp add: newline_def demo_peer_def truthy_def)
qed

theorem render_config_injection_witness:
  "''PostUp = touch /root/x'' \<in> set (split_on newline (render_config 100 51820 ''S''
     [demo_peer\<lparr>p_wg_bridge_subnet := Some (''10.0.0.0/8'' @ newline # ''PostUp = touch /root/x'' @ newline # ''#'')\<rparr>]))"
  by (rule render_config_injection [where a = "''10.0.0.0/8''" and b = "''#''" and p =
        "demo_peer\<lparr>p_wg_bridge_subnet := Some (''10.0.0.0/8'' @ newline # ''PostUp = touch /root/x'' @ newline # ''#'')\<rparr>"])
     (simp_all add: demo_peer_def truthy_def newline_def)

end
