(* ===== verification/Pairing.thy ===== *)
theory Pairing
  imports Wireguard
begin

text \<open>
  The pairing handshake of \<^verbatim>\<open>api/peers_routes.py\<close>.  One handler is one function from the
  state of the host to the new state and the reply.  What a handler takes from its
  surroundings is an argument: \<open>env\<close> holds the clocks, the fresh identifier and the random
  token of the call and the results of the tunnel commands; \<open>self\<close> holds this host's own
  identity and settings.  \<open>verify\<close> and \<open>fingerprint_of\<close> stand for \<^verbatim>\<open>ssh-keygen\<close>
  (\<open>fingerprint_of\<close> gives \<open>None\<close> where the command fails and the exception becomes a 500), the
  \<open>post\<close> arguments for the network.  The monotonic clock counts nanoseconds.
\<close>

section \<open>Surroundings of a handler\<close>

record pairing_env =
  e_new_id :: string
  e_now :: instant
  e_monotonic :: int
  e_token :: string
  e_wg_commands :: wg_commands
  e_wg_poll :: "nat \<Rightarrow> string"

record host_self =
  my_token :: string
  my_hostname :: string
  my_pubkey :: string
  my_peer_port :: int
  my_wg_pubkey :: string
  my_wg_endpoint :: string
  my_wg_bridge_subnet :: string

record pairing_payload =
  pl_hostname :: "string option"
  pl_pubkey :: "string option"
  pl_peer_port :: "int option"
  pl_callback_token :: "string option"
  pl_wg_pubkey :: "string option"
  pl_wg_endpoint :: "string option"
  pl_wg_bridge_subnet :: "string option"

record complete_body =
  cb_pubkey :: "string option"
  cb_token_for_you :: "string option"
  cb_wg_pubkey :: "string option"
  cb_wg_endpoint :: "string option"
  cb_wg_bridge_subnet :: "string option"

definition or_empty :: "string option \<Rightarrow> string" where
  "or_empty s = (case s of None \<Rightarrow> [] | Some x \<Rightarrow> x)"

definition http_url :: "string \<Rightarrow> int \<Rightarrow> string" where
  "http_url address port = ''http://'' @ address @ '':'' @ show_int port"

definition peers_auth :: "host_self \<Rightarrow> request \<Rightarrow> bool" where
  "peers_auth self q =
     (let hdr = removeprefix (q_auth q) bearer_prefix;
          token = (if hdr = [] then q_token_arg q else hdr)
      in token = my_token self)"

section \<open>Rate limit\<close>

definition RATE_LIMIT_PER_HOUR :: nat where "RATE_LIMIT_PER_HOUR = 5"
definition MAX_PENDING_PAIRING_REQUESTS :: nat where "MAX_PENDING_PAIRING_REQUESTS = 20"
definition PAIRING_REQUEST_TTL :: int where "PAIRING_REQUEST_TTL = 15 * 60 * 10 ^ 6"
definition hour_ns :: int where "hour_ns = 3600 * 10 ^ 9"

definition check_rate_limit :: "int \<Rightarrow> string \<Rightarrow> host \<Rightarrow> host \<times> bool" where
  "check_rate_limit now source_ip h =
     (let old = (case rate_limit_hits h source_ip of None \<Rightarrow> [] | Some ts \<Rightarrow> ts);
          hits = filter (\<lambda>t. now - t < hour_ns) old @ [now]
      in (h\<lparr>rate_limit_hits := (rate_limit_hits h)(source_ip \<mapsto> hits)\<rparr>, length hits \<le> RATE_LIMIT_PER_HOUR))"

definition source_of :: "request \<Rightarrow> string" where
  "source_of q = (case q_remote_addr q of None \<Rightarrow> ''unknown'' | Some a \<Rightarrow> if a = [] then ''unknown'' else a)"

section \<open>Handlers\<close>

definition self_payload :: "host_self \<Rightarrow> pairing_payload" where
  "self_payload self = \<lparr>pl_hostname = Some (my_hostname self), pl_pubkey = Some (my_pubkey self),
     pl_peer_port = None, pl_callback_token = None, pl_wg_pubkey = Some (my_wg_pubkey self),
     pl_wg_endpoint = Some (my_wg_endpoint self), pl_wg_bridge_subnet = Some (my_wg_bridge_subnet self)\<rparr>"

definition self_info ::
    "(pairing_payload \<Rightarrow> string) \<Rightarrow> host_self \<Rightarrow> pairing_env \<Rightarrow> request \<Rightarrow> host \<Rightarrow>
     host \<times> (pairing_payload \<times> string) reply" where
  "self_info sign self env q h =
     (let (h1, ok) = check_rate_limit (e_monotonic env) (source_of q) h in
      if \<not> ok then (h1, Problem 429 ''Too Many Requests'')
      else (h1, Reply 200 (self_payload self, sign (self_payload self))))"

definition pairing_payload_of :: "host_self \<Rightarrow> string \<Rightarrow> pairing_payload" where
  "pairing_payload_of self callback_token =
     (self_payload self)\<lparr>pl_peer_port := Some (my_peer_port self), pl_callback_token := Some callback_token\<rparr>"

definition initiate_pairing ::
    "(pairing_payload \<Rightarrow> string) \<Rightarrow> (string \<Rightarrow> pairing_payload \<Rightarrow> string \<Rightarrow> unit peer_result) \<Rightarrow>
     host_self \<Rightarrow> pairing_env \<Rightarrow> request \<Rightarrow> string option \<Rightarrow> string option \<Rightarrow> int option \<Rightarrow> host \<Rightarrow>
     host \<times> public_peer reply" where
  "initiate_pairing sign post self env q hostname address port h =
     (if \<not> peers_auth self q then (h, Problem 401 ''Unauthorized'')
      else if \<not> (truthy hostname \<and> truthy address \<and> port \<noteq> None \<and> port \<noteq> Some 0) then
        (h, Problem 400 ''Bad Request'')
      else
        (let api_url = http_url (the address) (the port);
             existing = filter (\<lambda>p. p_api_url p = api_url \<and> p_status p \<in> {Approved, PendingOutbound})
               (list_peers h None)
         in
         if existing \<noteq> [] then (h, Problem 409 ''Conflict'')
         else
           (let callback_token = e_token env;
                payload = pairing_payload_of self callback_token
            in
            (case post (api_url @ ''/v1/peers/pairing-requests'') payload (sign payload) of
               PeerUnreachable \<Rightarrow> (h, Problem 502 ''Bad Gateway'')
             | PeerResponse st _ \<Rightarrow>
                 if st \<notin> {200, 202} then (h, Problem 502 ''Bad Gateway'')
                 else
                   (let row = \<lparr>p_id = e_new_id env, p_hostname = the hostname, p_pubkey = [], p_pubkey_fpr = [],
                          p_api_url = api_url, p_direction = Outbound, p_status = PendingOutbound,
                          p_local_token = Some callback_token, p_remote_token = None,
                          p_wg_pubkey = None, p_wg_endpoint = None, p_wg_bridge_subnet = None,
                          p_wg_transit_ip = None, p_wg_tunnel_status = ''unknown'',
                          p_created_at = e_now env, p_approved_at = None\<rparr>
                    in (insert_peer row h, Reply 201 (to_public_dict row)))))))"

text \<open>The bootstrap request.  \<open>bootstrap_row\<close> is its validation, from the body checks to the row
  to insert (\<open>payload\<close> is \<open>None\<close> when the body has no payload object); \<open>Inl\<close> is the problem to
  answer with.\<close>

definition bootstrap_row ::
    "(pairing_payload \<Rightarrow> string \<Rightarrow> string \<Rightarrow> bool) \<Rightarrow> (string \<Rightarrow> string option) \<Rightarrow> pairing_env \<Rightarrow> request \<Rightarrow>
     pairing_payload option \<Rightarrow> string option \<Rightarrow> host \<Rightarrow> (nat \<times> string) + pairing_request" where
  "bootstrap_row verify fingerprint_of env q payload signature h =
     (case payload of
        None \<Rightarrow> Inl (400, ''Bad Request'')
      | Some pl \<Rightarrow>
          if \<not> truthy signature then Inl (400, ''Bad Request'')
          else
            (case (pl_hostname pl, pl_pubkey pl, pl_peer_port pl, pl_callback_token pl) of
               (Some hn, Some pk, Some port, Some tok) \<Rightarrow>
                 if \<not> verify pl (the signature) pk then Inl (400, ''Bad Request'')
                 else
                   (case fingerprint_of pk of
                      None \<Rightarrow> Inl (500, ''Internal Server Error'')
                    | Some fpr \<Rightarrow>
                        if filter (\<lambda>p. p_pubkey_fpr p = fpr \<and> p_status p = Approved) (list_peers h None) \<noteq> []
                        then Inl (409, ''Conflict'')
                        else Inr \<lparr>pr_id = e_new_id env, pr_hostname = hn, pr_pubkey = pk,
                               pr_pubkey_fpr = fpr, pr_signature = the signature,
                               pr_callback_token = tok,
                               pr_callback_url =
                                 http_url (case q_remote_addr q of None \<Rightarrow> ''None'' | Some a \<Rightarrow> a) port,
                               pr_wg_pubkey = or_empty (pl_wg_pubkey pl),
                               pr_wg_endpoint = or_empty (pl_wg_endpoint pl),
                               pr_wg_bridge_subnet = or_empty (pl_wg_bridge_subnet pl),
                               pr_status = RPending, pr_created_at = e_now env,
                               pr_expires_at = e_now env + PAIRING_REQUEST_TTL\<rparr>)
             | _ \<Rightarrow> Inl (400, ''Bad Request'')))"

definition pairing_request_bootstrap ::
    "(pairing_payload \<Rightarrow> string \<Rightarrow> string \<Rightarrow> bool) \<Rightarrow> (string \<Rightarrow> string option) \<Rightarrow> pairing_env \<Rightarrow> request \<Rightarrow>
     pairing_payload option \<Rightarrow> string option \<Rightarrow> host \<Rightarrow> host \<times> (string \<times> instant) reply" where
  "pairing_request_bootstrap verify fingerprint_of env q payload signature h0 =
     (let (h1, ok) = check_rate_limit (e_monotonic env) (source_of q) h0 in
      if \<not> ok then (h1, Problem 429 ''Too Many Requests'')
      else
        (let h = expire_stale_pairing_requests (e_now env) h1 in
         if count_pending_pairing_requests h \<ge> MAX_PENDING_PAIRING_REQUESTS then
           (h, Problem 429 ''Too Many Requests'')
         else
           (case bootstrap_row verify fingerprint_of env q payload signature h of
              Inl (st, title) \<Rightarrow> (h, Problem st title)
            | Inr row \<Rightarrow> (insert_pairing_request row h, Reply 202 (pr_id row, pr_expires_at row)))))"

definition list_pairing_requests ::
    "host_self \<Rightarrow> pairing_env \<Rightarrow> request \<Rightarrow> pairing_status option \<Rightarrow> host \<Rightarrow> host \<times> pairing_request list reply" where
  "list_pairing_requests self env q st h =
     (if \<not> peers_auth self q then (h, Problem 401 ''Unauthorized'')
      else (let h1 = expire_stale_pairing_requests (e_now env) h in
        (h1, Reply 200 (map (\<lambda>r. r\<lparr>pr_callback_token := [], pr_signature := []\<rparr>)
           (store_list_pairing_requests h1 st)))))"

text \<open>Storing the outcome of the tunnel set-up and re-pointing the resources of an earlier
  pairing with the same key: the tail that \<^verbatim>\<open>approve\<close> and \<^verbatim>\<open>complete\<close> share.\<close>

definition settle_peer :: "pairing_env \<Rightarrow> string \<Rightarrow> string \<Rightarrow> host \<Rightarrow> host" where
  "settle_peer env pid fpr h =
     (case get_peer h pid of
        None \<Rightarrow> h
      | Some p \<Rightarrow>
         (let (st, ip) = on_peer_approved (e_wg_commands env) (e_wg_poll env) p;
              h1 = update_peer pid (\<lambda>p. p\<lparr>p_wg_tunnel_status := st, p_wg_transit_ip := ip\<rparr>) h
          in fst (migrate_host_id_references fpr pid h1)))"

definition approve_row :: "pairing_env \<Rightarrow> pairing_request \<Rightarrow> peer" where
  "approve_row env r =
     \<lparr>p_id = e_new_id env, p_hostname = pr_hostname r, p_pubkey = pr_pubkey r, p_pubkey_fpr = pr_pubkey_fpr r,
      p_api_url = pr_callback_url r, p_direction = Inbound, p_status = Approved,
      p_local_token = Some (e_token env), p_remote_token = Some (pr_callback_token r),
      p_wg_pubkey = Some (pr_wg_pubkey r), p_wg_endpoint = Some (pr_wg_endpoint r),
      p_wg_bridge_subnet = Some (pr_wg_bridge_subnet r), p_wg_transit_ip = None,
      p_wg_tunnel_status = ''unknown'', p_created_at = e_now env, p_approved_at = Some (e_now env)\<rparr>"

definition complete_body_of :: "host_self \<Rightarrow> string \<Rightarrow> complete_body" where
  "complete_body_of self token =
     \<lparr>cb_pubkey = Some (my_pubkey self), cb_token_for_you = Some token, cb_wg_pubkey = Some (my_wg_pubkey self),
      cb_wg_endpoint = Some (my_wg_endpoint self), cb_wg_bridge_subnet = Some (my_wg_bridge_subnet self)\<rparr>"

text \<open>The reply carries the public row and whether the callback was delivered.\<close>

definition approve_pairing_request ::
    "(string \<Rightarrow> complete_body \<Rightarrow> string \<Rightarrow> unit peer_result) \<Rightarrow> host_self \<Rightarrow> pairing_env \<Rightarrow> request \<Rightarrow>
     string \<Rightarrow> host \<Rightarrow> host \<times> (public_peer option \<times> bool) reply" where
  "approve_pairing_request post self env q request_id h =
     (if \<not> peers_auth self q then (h, Problem 401 ''Unauthorized'')
      else
        (case get_pairing_request h request_id of
           None \<Rightarrow> (h, Problem 404 ''Not Found'')
         | Some row \<Rightarrow>
             if pr_status row \<noteq> RPending then (h, Problem 409 ''Conflict'')
             else if pr_expires_at row < e_now env then
               (update_pairing_request request_id (\<lambda>r. r\<lparr>pr_status := RExpired\<rparr>) h, Problem 410 ''Gone'')
             else
               (let h1 = settle_peer env (e_new_id env) (pr_pubkey_fpr row) (insert_peer (approve_row env row) h);
                    delivered = (case post (pr_callback_url row @ ''/v1/peers/complete'')
                        (complete_body_of self (e_token env)) (pr_callback_token row) of
                      PeerUnreachable \<Rightarrow> False | PeerResponse st _ \<Rightarrow> st = 200);
                    h2 = update_pairing_request request_id (\<lambda>r. r\<lparr>pr_status := RApproved\<rparr>) h1
                in (h2, Reply 200 (map_option to_public_dict (get_peer h1 (e_new_id env)), delivered)))))"

definition reject_pairing_request ::
    "host_self \<Rightarrow> request \<Rightarrow> string \<Rightarrow> host \<Rightarrow> host \<times> unit reply" where
  "reject_pairing_request self q request_id h =
     (if \<not> peers_auth self q then (h, Problem 401 ''Unauthorized'')
      else
        (case get_pairing_request h request_id of
           None \<Rightarrow> (h, Problem 404 ''Not Found'')
         | Some row \<Rightarrow>
             if pr_status row \<noteq> RPending then (h, Problem 409 ''Conflict'')
             else (update_pairing_request request_id (\<lambda>r. r\<lparr>pr_status := RRejected\<rparr>) h, Reply 200 ())))"

definition complete_pairing ::
    "(string \<Rightarrow> string option) \<Rightarrow> pairing_env \<Rightarrow> request \<Rightarrow> complete_body \<Rightarrow> host \<Rightarrow> host \<times> unit reply" where
  "complete_pairing fingerprint_of env q body h =
     (let token = removeprefix (q_auth q) bearer_prefix in
      (case (if token = [] then None else find_pending_outbound_by_local_token h token) of
         None \<Rightarrow> (h, Problem 401 ''Unauthorized'')
       | Some row \<Rightarrow>
           if \<not> (truthy (cb_pubkey body) \<and> truthy (cb_token_for_you body)) then (h, Problem 400 ''Bad Request'')
           else
             (case fingerprint_of (the (cb_pubkey body)) of
                None \<Rightarrow> (h, Problem 500 ''Internal Server Error'')
              | Some fpr \<Rightarrow>
                  (let h1 = update_peer (p_id row) (\<lambda>p. p\<lparr>p_status := Approved,
                         p_pubkey := the (cb_pubkey body), p_pubkey_fpr := fpr,
                         p_remote_token := cb_token_for_you body,
                         p_wg_pubkey := Some (or_empty (cb_wg_pubkey body)),
                         p_wg_endpoint := Some (or_empty (cb_wg_endpoint body)),
                         p_wg_bridge_subnet := Some (or_empty (cb_wg_bridge_subnet body)),
                         p_approved_at := Some (e_now env)\<rparr>) h
                   in (settle_peer env (p_id row) fpr h1, Reply 200 ())))))"

definition list_peers_route ::
    "host_self \<Rightarrow> request \<Rightarrow> peer_status option \<Rightarrow> host \<Rightarrow> public_peer list reply" where
  "list_peers_route self q st h =
     (if \<not> peers_auth self q then Problem 401 ''Unauthorized''
      else Reply 200 (map to_public_dict (list_peers h st)))"

definition revoke_peer :: "host_self \<Rightarrow> request \<Rightarrow> string \<Rightarrow> host \<Rightarrow> host \<times> unit reply" where
  "revoke_peer self q peer_id h =
     (if \<not> peers_auth self q then (h, Problem 401 ''Unauthorized'')
      else (case get_peer h peer_id of
          None \<Rightarrow> (h, Problem 404 ''Not Found'')
        | Some _ \<Rightarrow> (store_revoke_peer peer_id h, Reply 200 ())))"

definition peer_proxy_get ::
    "(string \<Rightarrow> string option \<Rightarrow> 'b peer_result) \<Rightarrow> string \<Rightarrow> string \<Rightarrow> host \<Rightarrow> 'b reply" where
  "peer_proxy_get get peer_id path h =
     (case get_peer h peer_id of
        None \<Rightarrow> Problem 400 ''Bad Request''
      | Some p \<Rightarrow>
          if p_status p \<noteq> Approved then Problem 400 ''Bad Request''
          else (case get (p_api_url p @ path) (p_remote_token p) of
              PeerUnreachable \<Rightarrow> Problem 502 ''Bad Gateway''
            | PeerResponse st b \<Rightarrow> Reply st b))"

end
