(* ===== verification/Peer_Reconciler.thy ===== *)
theory Peer_Reconciler
  imports Pairing
begin

text \<open>
  \<^verbatim>\<open>api/peer_reconciler.py\<close>: following an approved peer to a new network address.  \<open>hit\<close> is
  the address seen by mDNS, \<open>get\<close> the unauthenticated request to it.  \<open>fingerprint_of\<close> gives
  \<open>None\<close> where it raises; the exception handler then records a failure.
\<close>

definition BACKOFF_BASE :: int where "BACKOFF_BASE = 30 * 10 ^ 9"
definition BACKOFF_MAX :: int where "BACKOFF_MAX = 30 * 60 * 10 ^ 9"

definition should_attempt :: "int \<Rightarrow> string \<Rightarrow> host \<Rightarrow> bool" where
  "should_attempt now peer_id h \<longleftrightarrow> now \<ge> (case backoff h peer_id of None \<Rightarrow> 0 | Some t \<Rightarrow> t)"

definition record_failure :: "int \<Rightarrow> string \<Rightarrow> nat \<Rightarrow> host \<Rightarrow> host" where
  "record_failure now peer_id attempt h =
     h\<lparr>backoff := (backoff h)(peer_id \<mapsto> now + min BACKOFF_MAX (BACKOFF_BASE * 2 ^ attempt))\<rparr>"

definition record_success :: "string \<Rightarrow> host \<Rightarrow> host" where
  "record_success peer_id h = h\<lparr>backoff := (backoff h)(peer_id := None)\<rparr>"

record mdns_hit =
  hit_address :: string
  hit_port :: int
  hit_fpr :: string

type_synonym self_info_reply = "(pairing_payload option \<times> string option) peer_result"

definition str_or_old :: "string option \<Rightarrow> string option \<Rightarrow> string option" where
  "str_or_old new old = (if truthy new then new else old)"

text \<open>What the answer of the new address proves: \<open>Inl n\<close> is a failure recorded as attempt \<open>n\<close>,
  \<open>Inr\<close> the verified self-description.\<close>

definition check_self_info ::
    "(pairing_payload \<Rightarrow> string \<Rightarrow> string \<Rightarrow> bool) \<Rightarrow> (string \<Rightarrow> string option) \<Rightarrow> peer \<Rightarrow> self_info_reply \<Rightarrow>
     nat + pairing_payload" where
  "check_self_info verify fingerprint_of peer resp =
     (case resp of
        PeerUnreachable \<Rightarrow> Inl 1
      | PeerResponse st body \<Rightarrow>
          if st \<noteq> 200 then Inl 1
          else
            (case body of
               (Some pl, Some sig) \<Rightarrow>
                 if sig = [] then Inl 2
                 else if \<not> verify pl sig (or_empty (pl_pubkey pl)) then Inl 3
                 else
                   (case pl_pubkey pl of
                      None \<Rightarrow> Inl 1
                    | Some pk \<Rightarrow>
                        (case fingerprint_of pk of
                           None \<Rightarrow> Inl 1
                         | Some fpr \<Rightarrow> if fpr \<noteq> p_pubkey_fpr peer then Inl 6 else Inr pl))
             | _ \<Rightarrow> Inl 2))"

definition adopt_address :: "pairing_payload \<Rightarrow> string \<Rightarrow> peer \<Rightarrow> peer \<Rightarrow> peer" where
  "adopt_address pl new_api_url peer p = p\<lparr>p_api_url := new_api_url,
     p_wg_pubkey := str_or_old (pl_wg_pubkey pl) (p_wg_pubkey peer),
     p_wg_endpoint := str_or_old (pl_wg_endpoint pl) (p_wg_endpoint peer),
     p_wg_bridge_subnet := str_or_old (pl_wg_bridge_subnet pl) (p_wg_bridge_subnet peer)\<rparr>"

definition reconcile_peer ::
    "(pairing_payload \<Rightarrow> string \<Rightarrow> string \<Rightarrow> bool) \<Rightarrow> (string \<Rightarrow> string option) \<Rightarrow>
     (string \<Rightarrow> self_info_reply) \<Rightarrow> pairing_env \<Rightarrow> string \<Rightarrow> mdns_hit \<Rightarrow> host \<Rightarrow> host" where
  "reconcile_peer verify fingerprint_of get env peer_id hit h =
     (case get_peer h peer_id of
        None \<Rightarrow> h
      | Some peer \<Rightarrow>
          if p_status peer \<noteq> Approved then h
          else
            (let new_api_url = http_url (hit_address hit) (hit_port hit) in
             (case check_self_info verify fingerprint_of peer (get (new_api_url @ ''/v1/peers/self-info'')) of
                Inl attempt \<Rightarrow> record_failure (e_monotonic env) peer_id attempt h
              | Inr pl \<Rightarrow>
                  (let h1 = update_peer peer_id (adopt_address pl new_api_url peer) h;
                       (ts, ip) = on_peer_approved (e_wg_commands env) (e_wg_poll env) (adopt_address pl new_api_url peer peer)
                   in record_success peer_id (update_peer peer_id
                        (\<lambda>p. p\<lparr>p_wg_tunnel_status := ts, p_wg_transit_ip := ip\<rparr>) h1)))))"

text \<open>One scan: \<^verbatim>\<open>by_fpr\<close> keeps the last record seen for a fingerprint; the attempts that a scan
  starts in threads are the pairs listed here.\<close>

definition by_fpr :: "mdns_hit list \<Rightarrow> string \<Rightarrow> mdns_hit option" where
  "by_fpr found fpr = find (\<lambda>x. hit_fpr x = fpr) (rev (filter (\<lambda>x. hit_fpr x \<noteq> []) found))"

definition tick_attempts :: "int \<Rightarrow> mdns_hit list \<Rightarrow> host \<Rightarrow> (string \<times> mdns_hit) list" where
  "tick_attempts now found h =
     concat (map (\<lambda>p. case by_fpr found (p_pubkey_fpr p) of
          None \<Rightarrow> []
        | Some hit \<Rightarrow>
            if http_url (hit_address hit) (hit_port hit) = p_api_url p then []
            else if \<not> should_attempt now (p_id p) h then []
            else [(p_id p, hit)])
       (list_peers h (Some Approved)))"

end
