(* ===== verification/Peering_Props.thy ===== *)
theory Peering_Props
  imports Peering
begin

text \<open>
  Properties of the peering subsystem over the facts of \<open>Peering\<close>: token discipline,
  revocation, the two-host handshake, resources that follow a re-paired host, the rate limit,
  address reconciliation, and two weaknesses (a second approval of the same key; a replayed
  self-description).
\<close>

section \<open>Shared lemmas\<close>

lemma settle_get:
  assumes "get_peer h i = Some p"
  shows "\<exists>st ip. get_peer (settle_peer env i fpr h) i =
    Some (p\<lparr>p_wg_tunnel_status := st, p_wg_transit_ip := ip\<rparr>)"
proof -
  obtain st ip where r: "on_peer_approved (e_wg_commands env) (e_wg_poll env) p = (st, ip)" by force
  let ?h1 = "update_peer i (\<lambda>p. p\<lparr>p_wg_tunnel_status := st, p_wg_transit_ip := ip\<rparr>) h"
  have "get_peer (settle_peer env i fpr h) i = get_peer ?h1 i"
    using assms r by (simp add: settle_peer_def get_peer_def)
  then show ?thesis using assms by (auto simp: get_update_peer)
qed

lemma settle_tokens:
  "map p_local_token (peer_tbl (settle_peer env i fpr h)) = map p_local_token (peer_tbl h)"
  "map p_id (peer_tbl (settle_peer env i fpr h)) = map p_id (peer_tbl h)"
  "map p_status (peer_tbl (settle_peer env i fpr h)) = map p_status (peer_tbl h)"
  "map p_pubkey_fpr (peer_tbl (settle_peer env i fpr h)) = map p_pubkey_fpr (peer_tbl h)"
  by (simp_all add: settle_peer_def Let_def update_peer_def update_where_def split: option.split prod.split)

lemma settle_keys:
  "map (\<lambda>p. (p_id p, p_local_token p)) (peer_tbl (settle_peer env i fpr h)) =
   map (\<lambda>p. (p_id p, p_local_token p)) (peer_tbl h)"
  by (simp add: settle_peer_def Let_def update_peer_def update_where_def split: option.split prod.split)

lemma find_local_token_unique:
  assumes "p \<in> set (peer_tbl h)" "p_status p = Approved" "p_local_token p = Some tok"
    and "\<forall>q \<in> set (peer_tbl h). p_local_token q = Some tok \<longrightarrow> p_id q = p_id p" "wf_table p_id (peer_tbl h)"
  shows "find_peer_by_local_token h tok = Some p"
proof (cases "find_peer_by_local_token h tok")
  case None
  with assms(1-3) show ?thesis by (auto simp: find_peer_by_local_token_None)
next
  case (Some q)
  with find_peer_by_local_token_Some assms have "q \<in> set (peer_tbl h)" "p_id q = p_id p" by blast+
  with assms(1, 5) Some show ?thesis using wf_key_unique by metis
qed

lemma approve_success:
  assumes "approve_pairing_request post self env q rid h = (h', Reply 200 r)"
  shows "\<exists>row. get_pairing_request h rid = Some row \<and> pr_status row = RPending \<and>
    \<not> pr_expires_at row < e_now env \<and> peers_auth self q \<and>
    h' = update_pairing_request rid (\<lambda>r. r\<lparr>pr_status := RApproved\<rparr>)
      (settle_peer env (e_new_id env) (pr_pubkey_fpr row) (insert_peer (approve_row env row) h))"
  using assms by (auto simp: approve_pairing_request_def Let_def split: option.splits if_splits)

lemma approve_iff:
  assumes "get_pairing_request h rid = Some row" "pr_status row = RPending" "\<not> pr_expires_at row < e_now env"
    "peers_auth self q"
  shows "fst (approve_pairing_request post self env q rid h) =
    update_pairing_request rid (\<lambda>r. r\<lparr>pr_status := RApproved\<rparr>)
      (settle_peer env (e_new_id env) (pr_pubkey_fpr row) (insert_peer (approve_row env row) h))"
  using assms by (simp add: approve_pairing_request_def Let_def)

lemma get_peer_update_pairing [simp]: "get_peer (update_pairing_request i f h) = get_peer h"
  by (simp add: get_peer_def fun_eq_iff)

lemma approved_row_get:
  assumes "e_new_id env \<notin> p_id ` set (peer_tbl h)"
  shows "\<exists>st ip. get_peer (settle_peer env (e_new_id env) f (insert_peer (approve_row env row) h)) (e_new_id env) =
    Some ((approve_row env row)\<lparr>p_wg_tunnel_status := st, p_wg_transit_ip := ip\<rparr>)"
  by (rule settle_get) (use assms in \<open>simp add: get_insert_peer get_peer_None [THEN iffD2] approve_row_def\<close>)

lemma initiate_success:
  assumes "initiate_pairing sign post self env q hn ad po h = (h', Reply 201 r)"
  shows "\<exists>row. h' = insert_peer row h \<and> p_id row = e_new_id env \<and> p_status row = PendingOutbound \<and>
    p_local_token row = Some (e_token env)"
  using assms by (auto simp: initiate_pairing_def Let_def split: peer_result.splits if_splits)

lemma complete_success:
  assumes "complete_pairing fpr_of env q body h = (h', Reply 200 r)"
  shows "\<exists>row fpr. find_pending_outbound_by_local_token h (removeprefix (q_auth q) bearer_prefix) = Some row \<and>
    fpr_of (the (cb_pubkey body)) = Some fpr \<and>
    h' = settle_peer env (p_id row) fpr (update_peer (p_id row) (completed env body fpr) h)"
  using assms unfolding complete_pairing_def completed_def [symmetric] Let_def
  by (auto split: option.splits if_splits)

lemma find_append_last: "(\<forall>x \<in> set xs. \<not> P x) \<Longrightarrow> P y \<Longrightarrow> find P (xs @ [y]) = Some y"
  by (induction xs) auto

lemma bootstrap_success:
  assumes "pairing_request_bootstrap verify fpr_of env q (Some pl) sig h = (h', Reply 202 (rid, ex))"
  shows "\<exists>row h1. h' = insert_pairing_request row h1 \<and> map pr_id (pairing_tbl h1) = map pr_id (pairing_tbl h) \<and>
    peer_tbl h1 = peer_tbl h \<and> rid = e_new_id env \<and> bootstrap_row verify fpr_of env q (Some pl) sig h1 = Inr row"
proof -
  obtain h0 where h0: "check_rate_limit (e_monotonic env) (source_of q) h = (h0, True)"
    and *: "case bootstrap_row verify fpr_of env q (Some pl) sig (expire_stale_pairing_requests (e_now env) h0) of
      Inl (st, title) \<Rightarrow> False
    | Inr row \<Rightarrow> h' = insert_pairing_request row (expire_stale_pairing_requests (e_now env) h0) \<and> rid = pr_id row"
    using assms by (auto simp: pairing_request_bootstrap_def Let_def split: prod.splits sum.splits if_splits)
  then show ?thesis
    using rate_limited_tbls [OF h0] bootstrap_row_Inr
    by (force simp: expire_stale_pairing_requests_def map_key_update split: sum.splits prod.splits)
qed

section \<open>Token discipline and revocation\<close>

text \<open>
  C5: in every state the handlers and the reconciler can reach, a revoked peer holds no token,
  an approved peer holds both its own and the one we gave it, a pending one only ours; and at
  most twenty pairing requests are pending.\<close>

theorem peering_token_discipline:
  assumes "peering_reachable fpr_of self h"
  shows "(\<forall>p \<in> set (peer_tbl h). peer_ok p) \<and>
    count_pending_pairing_requests h \<le> MAX_PENDING_PAIRING_REQUESTS"
  using peering_reachable_ok [OF assms] by (simp add: peers_ok_def pending_ok_def)

text \<open>
  C13: once a peer is revoked no bearer token resolves to it, so neither \<^verbatim>\<open>authz\<close> nor
  \<^verbatim>\<open>require_auth\<close> can take a request for one of its calls; the other peers keep theirs.\<close>

theorem revoke_peer_closes_access:
  assumes "revoke_peer self q pid h = (h', Reply 200 ())"
  shows "(\<forall>tok p. find_peer_by_local_token h' tok = Some p \<longrightarrow> p_id p \<noteq> pid) \<and>
    (\<forall>p. p_id p \<noteq> pid \<longrightarrow> (p \<in> set (peer_tbl h') \<longleftrightarrow> p \<in> set (peer_tbl h)))"
proof -
  let ?f = "\<lambda>p. p\<lparr>p_status := Revoked, p_local_token := None, p_remote_token := None\<rparr>"
  have h': "peer_tbl h' = fst (update_where (\<lambda>p. p_id p = pid) ?f (peer_tbl h))"
    using assms(1) by (auto simp: revoke_peer_def store_revoke_peer_def update_peer_def
        split: option.splits if_splits)
  have keep: "p \<in> set (peer_tbl h') \<longleftrightarrow> p \<in> set (peer_tbl h)" if "p_id p \<noteq> pid" for p
    unfolding h' using that by (intro update_where_other) simp_all
  have "p_id p \<noteq> pid" if "find_peer_by_local_token h' tok = Some p" for tok p
  proof
    assume "p_id p = pid"
    with find_peer_by_local_token_Some [OF that] obtain x where "p = ?f x" "p_status p = Approved"
      unfolding h' by (blast dest: update_where_hit)
    then show False by simp
  qed
  with keep show ?thesis by blast
qed

section \<open>The handshake of two hosts\<close>

lemma initiator_side:
  assumes init: "initiate_pairing sign post selfA envA qA hn ad po hA0 = (hA1, Reply 201 pubA)"
    and comp: "complete_pairing fpr_of envA' qA' (complete_body_of selfB tB) hA1 = (hA2, Reply 200 ())"
    and hdr: "q_auth qA' = bearer_prefix @ e_token envA"
    and ok: "peers_ok hA0" and fresh: "fresh_env envA hA0"
    and tok: "Some (e_token envA) \<notin> p_local_token ` set (peer_tbl hA0)"
  shows "\<exists>p. find_peer_by_local_token hA2 (e_token envA) = Some p \<and> p_local_token p = Some (e_token envA) \<and>
    p_remote_token p = Some tB \<and> p_pubkey p = my_pubkey selfB \<and> fpr_of (my_pubkey selfB) = Some (p_pubkey_fpr p)"
proof -
  obtain a where a: "hA1 = insert_peer a hA0" "p_id a = e_new_id envA" "p_status a = PendingOutbound"
    "p_local_token a = Some (e_token envA)" using initiate_success [OF init] by blast
  have ok1: "peers_ok hA1"
    using peers_ok_initiate [OF ok, of envA sign post selfA qA hn ad po] fresh init by (simp add: fresh_env_def)
  have no: "\<forall>x \<in> set (peer_tbl hA0). p_local_token x \<noteq> Some (e_token envA)" using tok by (metis image_eqI)
  then have fnd: "find_pending_outbound_by_local_token hA1 (e_token envA) = Some a"
    unfolding find_pending_outbound_by_local_token_def a(1) insert_peer_def
    using a(3, 4) by (auto intro!: find_append_last)
  let ?f = "\<lambda>fB. completed envA' (complete_body_of selfB tB) fB"
  obtain fB where fB: "fpr_of (my_pubkey selfB) = Some fB"
    and hA2: "hA2 = settle_peer envA' (p_id a) fB (update_peer (p_id a) (?f fB) hA1)"
    using complete_success [OF comp] fnd hdr by (auto simp: complete_body_of_def)
  have ok2: "peers_ok hA2" using peers_ok_complete [OF ok1, of fpr_of envA' qA'] comp by (metis fst_conv)
  have "get_peer hA1 (p_id a) = Some a"
    using a fresh by (simp add: get_insert_peer get_peer_None [THEN iffD2] fresh_env_def)
  then have "get_peer (update_peer (p_id a) (?f fB) hA1) (p_id a) = Some (?f fB a)"
    by (simp add: get_update_peer completed_def)
  from settle_get [OF this, of envA' fB] obtain st ip
    where g: "get_peer hA2 (p_id a) = Some ((?f fB a)\<lparr>p_wg_tunnel_status := st, p_wg_transit_ip := ip\<rparr>)"
    unfolding hA2 by blast
  let ?p = "(?f fB a)\<lparr>p_wg_tunnel_status := st, p_wg_transit_ip := ip\<rparr>"
  have "p_id q = p_id ?p" if q: "q \<in> set (peer_tbl hA2)" "p_local_token q = Some (e_token envA)" for q
  proof -
    have "map (\<lambda>p. (p_id p, p_local_token p)) (peer_tbl hA2) = map (\<lambda>p. (p_id p, p_local_token p)) (peer_tbl hA1)"
      unfolding hA2 settle_keys by (simp add: update_peer_def update_where_def completed_def)
    then have "(p_id q, p_local_token q) \<in> (\<lambda>p. (p_id p, p_local_token p)) ` set (peer_tbl hA1)"
      using q(1) by (metis (mono_tags, lifting) image_eqI set_map)
    with q(2) no show ?thesis by (auto simp: a(1) insert_peer_def completed_def)
  qed
  then have "find_peer_by_local_token hA2 (e_token envA) = Some ?p"
    using get_peer_Some [OF g] ok2 a(4)
    by (intro find_local_token_unique) (auto simp: completed_def peers_ok_def)
  then show ?thesis using fB a(4) by (auto simp: completed_def complete_body_of_def)
qed

lemma approver_side:
  assumes boot: "pairing_request_bootstrap verify fpr_of envB qB (Some (pairing_payload_of selfA tA)) (Some sig) hB0 =
        (hB1, Reply 202 (rid, ex))"
    and appr: "approve_pairing_request post selfB envB' qB' rid hB1 = (hB2, Reply 200 r)"
    and ok: "peers_ok hB0" and fresh: "fresh_env envB hB0" "fresh_env envB' hB1"
    and tok: "Some (e_token envB') \<notin> p_local_token ` set (peer_tbl hB0)"
  shows "\<exists>p. find_peer_by_local_token hB2 (e_token envB') = Some p \<and> p_local_token p = Some (e_token envB') \<and>
    p_remote_token p = Some tA \<and> p_pubkey p = my_pubkey selfA \<and> fpr_of (my_pubkey selfA) = Some (p_pubkey_fpr p)"
proof -
  obtain row h1 where h1: "hB1 = insert_pairing_request row h1" "map pr_id (pairing_tbl h1) = map pr_id (pairing_tbl hB0)"
    "peer_tbl h1 = peer_tbl hB0" "rid = e_new_id envB"
    "bootstrap_row verify fpr_of envB qB (Some (pairing_payload_of selfA tA)) (Some sig) h1 = Inr row"
    using bootstrap_success [OF boot] by blast
  have row: "pr_id row = rid" "pr_pubkey row = my_pubkey selfA" "pr_callback_token row = tA"
    "fpr_of (my_pubkey selfA) = Some (pr_pubkey_fpr row)"
    using h1(4, 5) by (auto simp: bootstrap_row_def pairing_payload_of_def self_payload_def split: option.splits if_splits)
  have "rid \<notin> pr_id ` set (pairing_tbl h1)"
    using fresh(1) h1(2, 4) by (metis fresh_env_def set_map)
  then have "\<forall>x \<in> set (pairing_tbl h1). pr_id x \<noteq> rid" by (metis image_eqI)
  then have gr: "get_pairing_request hB1 rid = Some row"
    unfolding get_pairing_request_def h1(1) insert_pairing_request_def
    using row(1) by (simp add: find_append_last)
  let ?h = "settle_peer envB' (e_new_id envB') (pr_pubkey_fpr row) (insert_peer (approve_row envB' row) hB1)"
  have hB2: "hB2 = update_pairing_request rid (\<lambda>r. r\<lparr>pr_status := RApproved\<rparr>) ?h"
    using approve_success [OF appr] gr by auto
  have tbl: "peer_tbl hB1 = peer_tbl hB0" using h1(1, 3) by simp
  have new: "e_new_id envB' \<notin> p_id ` set (peer_tbl hB1)" using fresh(2) by (simp add: fresh_env_def)
  have ok2: "peers_ok hB2"
    using peers_ok_approve [of hB1 envB' post selfB qB' rid] ok new tbl appr by (simp add: peers_ok_def)
  obtain st ip where g: "get_peer ?h (e_new_id envB') = Some ((approve_row envB' row)\<lparr>p_wg_tunnel_status := st, p_wg_transit_ip := ip\<rparr>)"
    using approved_row_get [OF new] by blast
  let ?p = "(approve_row envB' row)\<lparr>p_wg_tunnel_status := st, p_wg_transit_ip := ip\<rparr>"
  have "p_id q = p_id ?p" if q: "q \<in> set (peer_tbl hB2)" "p_local_token q = Some (e_token envB')" for q
  proof -
    have "(p_id q, p_local_token q) \<in> set (map (\<lambda>p. (p_id p, p_local_token p)) (peer_tbl ?h))"
      using q(1) by (simp add: hB2 image_iff) blast
    then have "(p_id q, p_local_token q) \<in> (\<lambda>p. (p_id p, p_local_token p)) ` insert (approve_row envB' row) (set (peer_tbl hB0))"
      unfolding settle_keys by (simp add: insert_peer_def tbl)
    moreover have "\<forall>x \<in> set (peer_tbl hB0). p_local_token x \<noteq> Some (e_token envB')" using tok by (metis image_eqI)
    ultimately show ?thesis using q(2) by auto
  qed
  then have "find_peer_by_local_token hB2 (e_token envB') = Some ?p"
    using get_peer_Some [OF g] ok2
    by (intro find_local_token_unique) (auto simp: approve_row_def peers_ok_def hB2)
  then show ?thesis using row by (auto simp: approve_row_def)
qed

text \<open>
  C4: when host A initiates, B accepts the bootstrap request and approves it, and A takes the
  callback, both end with an approved row for the other: each row's remote token is the other
  side's local token, each holds the other's public key, and on both hosts the token that the
  other will send resolves to that row.\<close>

theorem handshake_mutual:
  assumes init: "initiate_pairing sign post selfA envA qA hn ad po hA0 = (hA1, Reply 201 pubA)"
    and boot: "pairing_request_bootstrap verify fpr_of envB qB (Some (pairing_payload_of selfA (e_token envA)))
        (Some sig) hB0 = (hB1, Reply 202 (rid, ex))"
    and appr: "approve_pairing_request post' selfB envB' qB' rid hB1 = (hB2, Reply 200 r)"
    and comp: "complete_pairing fpr_of envA' qA' (complete_body_of selfB (e_token envB')) hA1 = (hA2, Reply 200 ())"
    and hdr: "q_auth qA' = bearer_prefix @ e_token envA"
    and okA: "peers_ok hA0" and okB: "peers_ok hB0"
    and fresh: "fresh_env envA hA0" "fresh_env envB hB0" "fresh_env envB' hB1"
    and tokA: "Some (e_token envA) \<notin> p_local_token ` set (peer_tbl hA0)"
    and tokB: "Some (e_token envB') \<notin> p_local_token ` set (peer_tbl hB0)"
  shows "\<exists>pA pB. find_peer_by_local_token hA2 (e_token envA) = Some pA \<and>
    find_peer_by_local_token hB2 (e_token envB') = Some pB \<and>
    p_remote_token pA = p_local_token pB \<and> p_remote_token pB = p_local_token pA \<and>
    p_pubkey pA = my_pubkey selfB \<and> p_pubkey pB = my_pubkey selfA \<and>
    fpr_of (my_pubkey selfB) = Some (p_pubkey_fpr pA) \<and> fpr_of (my_pubkey selfA) = Some (p_pubkey_fpr pB)"
  using initiator_side [OF init comp hdr okA fresh(1) tokA] approver_side [OF boot appr okB fresh(2, 3) tokB]
  by auto

section \<open>Resources follow the host\<close>

lemma migrate_table_old:
  assumes "\<And>r. ref (upd (\<lambda>_. Some n) r) = Some n" "i \<in> set old" "Some i \<in> ref ` set (fst (migrate_table ref upd old n t))"
  shows "i = n"
proof -
  have "Some i \<in> set (map (migrate_ref old n) (map ref t))"
    using assms(3) migrate_table_rows [of ref upd n old t, OF assms(1)] by (metis set_map)
  then show ?thesis using assms(2) by (force simp: migrate_ref_def split: if_splits)
qed

lemma old_peer_ids_mem:
  "i \<in> set (old_peer_ids fpr n h) \<longleftrightarrow> i \<noteq> n \<and> (\<exists>p \<in> set (peer_tbl h). p_id p = i \<and> p_pubkey_fpr p = fpr)"
  by (auto simp: old_peer_ids_def list_peers_def)

text \<open>
  after \<^verbatim>\<open>migrate_host_id_references\<close> for a key, no instance, VPC, subnet or security
  group still names an earlier pairing with that key: whatever pairing row of that key a
  resource names is the new one.  Nothing but the reference is changed.\<close>

theorem migrate_repoints:
  assumes "migrate_host_id_references fpr new_id h = (h', n)"
    and "p \<in> set (peer_tbl h)" "p_pubkey_fpr p = fpr"
    and "Some (p_id p) \<in> i_host_id ` set (instance_tbl h') \<union> v_host_id ` set (vpc_tbl h') \<union>
      s_host_id ` set (subnet_tbl h') \<union> g_host_id ` set (sg_tbl h')"
  shows "p_id p = new_id \<and> map v_id (vpc_tbl h') = map v_id (vpc_tbl h) \<and>
    map (v_host_id_update (\<lambda>_. None)) (vpc_tbl h') = map (v_host_id_update (\<lambda>_. None)) (vpc_tbl h) \<and>
    map (i_host_id_update (\<lambda>_. None)) (instance_tbl h') = map (i_host_id_update (\<lambda>_. None)) (instance_tbl h)"
proof (cases "old_peer_ids fpr new_id h = []")
  case True
  then have "h' = h" using assms(1) by (simp add: migrate_host_id_references_def)
  moreover have "p_id p = new_id" using True assms(2, 3) old_peer_ids_mem [of "p_id p" fpr new_id h] by auto
  ultimately show ?thesis by simp
next
  case False
  let ?o = "old_peer_ids fpr new_id h"
  have t: "instance_tbl h' = fst (migrate_table i_host_id i_host_id_update ?o new_id (instance_tbl h))"
    "vpc_tbl h' = fst (migrate_table v_host_id v_host_id_update ?o new_id (vpc_tbl h))"
    "subnet_tbl h' = fst (migrate_table s_host_id s_host_id_update ?o new_id (subnet_tbl h))"
    "sg_tbl h' = fst (migrate_table g_host_id g_host_id_update ?o new_id (sg_tbl h))"
    using assms(1) False by (auto simp: migrate_host_id_references_def Let_def split: prod.splits)
  have "p_id p = new_id"
  proof (rule ccontr)
    assume "p_id p \<noteq> new_id"
    then have "p_id p \<in> set ?o" using assms(2, 3) by (auto simp: old_peer_ids_mem)
    with assms(4) have "p_id p = new_id" unfolding t
      by (elim UnE; intro migrate_table_old) auto
    with \<open>p_id p \<noteq> new_id\<close> show False ..
  qed
  then show ?thesis unfolding t by (simp add: migrate_table_def update_where_def)
qed

section \<open>The rate limit\<close>

text \<open>The calls of one source at the given times: which are let through, and the state after.\<close>

fun rate_calls :: "string \<Rightarrow> int list \<Rightarrow> host \<Rightarrow> int list" where
  "rate_calls ip [] h = []"
| "rate_calls ip (t # ts) h =
     (let (h1, ok) = check_rate_limit t ip h in (if ok then [t] else []) @ rate_calls ip ts h1)"

definition hits_of :: "string \<Rightarrow> host \<Rightarrow> int list" where
  "hits_of ip h = (case rate_limit_hits h ip of None \<Rightarrow> [] | Some ts \<Rightarrow> ts)"

lemma check_rate_limit_hits:
  "check_rate_limit t ip h = (h1, ok) \<Longrightarrow>
     hits_of ip h1 = filter (\<lambda>u. t - u < hour_ns) (hits_of ip h) @ [t] \<and>
     ok = (length (hits_of ip h1) \<le> RATE_LIMIT_PER_HOUR)"
  by (auto simp: check_rate_limit_def Let_def hits_of_def)

definition in_window :: "int \<Rightarrow> int \<Rightarrow> bool" where
  "in_window w x \<longleftrightarrow> w - hour_ns < x \<and> x \<le> w"

lemma subseq_filter_length: "subseq xs ys \<Longrightarrow> length (filter P xs) \<le> length (filter P ys)"
  using list_emb_length subseq_filter by blast

text \<open>One more call at \<open>t\<close>, after the calls \<open>calls\<close> of which \<open>acc\<close> were let through.\<close>

lemma rate_limit_accept:
  assumes "subseq acc calls" "\<forall>w. length (filter (in_window w) acc) \<le> RATE_LIMIT_PER_HOUR"
    and "length (filter (\<lambda>u. t - u < hour_ns) calls) + 1 \<le> RATE_LIMIT_PER_HOUR"
  shows "length (filter (in_window w) (acc @ [t])) \<le> RATE_LIMIT_PER_HOUR"
proof (cases "in_window w t")
  case True
  have "length (filter (in_window w) acc) \<le> length (filter (\<lambda>u. t - u < hour_ns) acc)"
  proof -
    have "filter (in_window w) acc = filter (in_window w) (filter (\<lambda>u. t - u < hour_ns) acc)"
      using True by (auto simp: in_window_def intro!: filter_cong)
    then show ?thesis by (metis length_filter_le)
  qed
  also have "\<dots> \<le> length (filter (\<lambda>u. t - u < hour_ns) calls)" by (rule subseq_filter_length [OF assms(1)])
  finally show ?thesis using assms(3) True by simp
qed (use assms(2) in simp)

lemma rate_calls_window:
  assumes "sorted (calls @ ts)" "subseq acc calls"
    and "\<forall>w. length (filter (in_window w) acc) \<le> RATE_LIMIT_PER_HOUR"
    and "\<forall>w. (\<forall>u \<in> set calls. u \<le> w) \<longrightarrow>
      filter (\<lambda>u. w - u < hour_ns) (hits_of ip h) = filter (\<lambda>u. w - u < hour_ns) calls"
  shows "length (filter (in_window w) (acc @ rate_calls ip ts h)) \<le> RATE_LIMIT_PER_HOUR"
  using assms
proof (induction ts arbitrary: calls acc h)
  case (Cons t ts)
  obtain h1 ok where r: "check_rate_limit t ip h = (h1, ok)" by force
  have le: "\<forall>u \<in> set calls. u \<le> t" using Cons.prems(1) by (auto simp: sorted_append)
  have hits: "hits_of ip h1 = filter (\<lambda>u. t - u < hour_ns) calls @ [t]"
    and ok: "ok \<longleftrightarrow> length (filter (\<lambda>u. t - u < hour_ns) calls) + 1 \<le> RATE_LIMIT_PER_HOUR"
    using check_rate_limit_hits [OF r] Cons.prems(4) le by simp_all
  have inv: "\<forall>w. (\<forall>u \<in> set (calls @ [t]). u \<le> w) \<longrightarrow>
      filter (\<lambda>u. w - u < hour_ns) (hits_of ip h1) = filter (\<lambda>u. w - u < hour_ns) (calls @ [t])"
    by (auto simp: hits intro!: filter_cong)
  let ?a = "acc @ (if ok then [t] else [])"
  have "subseq ?a (calls @ [t])" using Cons.prems(2) by (auto intro: list_emb_append_mono list_emb_append2)
  moreover have "\<forall>w. length (filter (in_window w) ?a) \<le> RATE_LIMIT_PER_HOUR"
    using rate_limit_accept [OF Cons.prems(2, 3), of t] ok Cons.prems(3) by auto
  moreover have "sorted ((calls @ [t]) @ ts)" using Cons.prems(1) by simp
  ultimately have "length (filter (in_window w) (?a @ rate_calls ip ts h1)) \<le> RATE_LIMIT_PER_HOUR"
    using Cons.IH inv by blast
  then show ?case using r by simp
qed simp

text \<open>
  of the calls one source makes to the unauthenticated pairing routes, at most five are
  let through in any hour, whatever the times of the calls.\<close>

theorem rate_limit_per_hour:
  assumes "sorted ts" "rate_limit_hits h ip = None"
  shows "length (filter (\<lambda>x. w - hour_ns < x \<and> x \<le> w) (rate_calls ip ts h)) \<le> 5"
proof -
  have "hits_of ip h = []" using assms(2) by (simp add: hits_of_def)
  with rate_calls_window [of "[]" ts "[]" ip h w] assms(1) show ?thesis
    by (simp add: in_window_def [abs_def] RATE_LIMIT_PER_HOUR_def)
qed

section \<open>Following a peer to a new address\<close>

lemma check_self_info_Inr:
  "check_self_info verify fpr_of peer resp = Inr pl \<Longrightarrow>
     \<exists>sig pk. resp = PeerResponse 200 (Some pl, Some sig) \<and> pl_pubkey pl = Some pk \<and> verify pl sig pk \<and>
       fpr_of pk = Some (p_pubkey_fpr peer)"
  by (auto simp: check_self_info_def or_empty_def split: peer_result.splits prod.splits option.splits if_splits)

text \<open>
  C15: the reconciler changes a peer's row only when the new address answered with a
  self-description whose signature verifies under a key with the stored fingerprint; it never
  changes the peer's identity, its status or its tokens.\<close>

theorem reconcile_only_proven:
  assumes "peer_tbl (reconcile_peer verify fpr_of get env pid hit h) \<noteq> peer_tbl h"
  shows "(\<exists>peer pl sig pk. get_peer h pid = Some peer \<and> p_status peer = Approved \<and>
      get (http_url (hit_address hit) (hit_port hit) @ ''/v1/peers/self-info'') = PeerResponse 200 (Some pl, Some sig) \<and>
      pl_pubkey pl = Some pk \<and> verify pl sig pk \<and> fpr_of pk = Some (p_pubkey_fpr peer)) \<and>
    map (\<lambda>p. (p_id p, p_pubkey p, p_pubkey_fpr p, p_status p, p_local_token p, p_remote_token p))
      (peer_tbl (reconcile_peer verify fpr_of get env pid hit h)) =
    map (\<lambda>p. (p_id p, p_pubkey p, p_pubkey_fpr p, p_status p, p_local_token p, p_remote_token p)) (peer_tbl h)"
proof -
  obtain peer pl where peer: "get_peer h pid = Some peer" "p_status peer = Approved"
    and ok: "check_self_info verify fpr_of peer
      (get (http_url (hit_address hit) (hit_port hit) @ ''/v1/peers/self-info'')) = Inr pl"
    using assms by (auto simp: reconcile_peer_def Let_def split: option.splits sum.splits if_splits)
  have "map (\<lambda>p. (p_id p, p_pubkey p, p_pubkey_fpr p, p_status p, p_local_token p, p_remote_token p))
      (peer_tbl (reconcile_peer verify fpr_of get env pid hit h)) =
    map (\<lambda>p. (p_id p, p_pubkey p, p_pubkey_fpr p, p_status p, p_local_token p, p_remote_token p)) (peer_tbl h)"
    using peer ok by (auto simp: reconcile_peer_def Let_def update_peer_def update_where_def adopt_address_def split: prod.split)
  with peer check_self_info_Inr [OF ok] show ?thesis by blast
qed

text \<open>
  the proof is not bound to the address: a self-description signed once by the peer (the
  peer serves it to anybody) makes the reconciler adopt whatever address replays it, and later
  calls with the peer's token go there.\<close>

theorem reconcile_accepts_replay:
  assumes "get_peer h pid = Some peer" "p_status peer = Approved"
    and "verify pl sig pk" "sig \<noteq> []" "pl_pubkey pl = Some pk" "fpr_of pk = Some (p_pubkey_fpr peer)"
    and "get (http_url (hit_address hit) (hit_port hit) @ ''/v1/peers/self-info'') = PeerResponse 200 (Some pl, Some sig)"
  shows "\<exists>p. get_peer (reconcile_peer verify fpr_of get env pid hit h) pid = Some p \<and>
    p_api_url p = http_url (hit_address hit) (hit_port hit) \<and> p_remote_token p = p_remote_token peer"
proof -
  have rs: "get_peer (record_success i h') = get_peer h'" for i h' by (simp add: get_peer_def fun_eq_iff)
  have "check_self_info verify fpr_of peer (PeerResponse 200 (Some pl, Some sig)) = Inr pl"
    using assms(3-6) by (simp add: check_self_info_def or_empty_def)
  then show ?thesis
    using assms(1, 2, 7)
    by (simp add: reconcile_peer_def Let_def get_update_peer adopt_address_def rs split: prod.split)
qed

section \<open>Two approvals of one key\<close>

text \<open>
  two pending requests with the same key can both be approved: the check against a second
  pairing is made when a request arrives, not when it is approved, so two approved peers with
  one fingerprint result.\<close>

theorem approve_same_key_twice:
  assumes "get_pairing_request h i = Some r" "pr_status r = RPending" "\<not> pr_expires_at r < e_now env1"
    and "get_pairing_request h j = Some s" "pr_status s = RPending" "\<not> pr_expires_at s < e_now env2"
    and "i \<noteq> j" "pr_pubkey_fpr r = pr_pubkey_fpr s" "peers_auth self q"
    and "e_new_id env1 \<notin> p_id ` set (peer_tbl h)" "e_new_id env2 \<notin> p_id ` set (peer_tbl h)" "e_new_id env1 \<noteq> e_new_id env2"
  shows "let h1 = fst (approve_pairing_request post self env1 q i h);
             h2 = fst (approve_pairing_request post self env2 q j h1)
    in \<exists>p1 \<in> set (peer_tbl h2). \<exists>p2 \<in> set (peer_tbl h2). p_id p1 \<noteq> p_id p2 \<and>
      p_status p1 = Approved \<and> p_status p2 = Approved \<and> p_pubkey_fpr p1 = p_pubkey_fpr p2"
proof -
  let ?k = "\<lambda>p. (p_id p, p_status p, p_pubkey_fpr p)"
  have settle: "map ?k (peer_tbl (settle_peer env x f g)) = map ?k (peer_tbl g)" for env x f g
    by (simp add: settle_peer_def Let_def update_peer_def update_where_def split: option.split prod.split)
  define h1 where "h1 = fst (approve_pairing_request post self env1 q i h)"
  have h1: "h1 = update_pairing_request i (\<lambda>r. r\<lparr>pr_status := RApproved\<rparr>)
      (settle_peer env1 (e_new_id env1) (pr_pubkey_fpr r) (insert_peer (approve_row env1 r) h))"
    unfolding h1_def by (rule approve_iff [OF assms(1, 2, 3) assms(9)])
  have g: "get_pairing_request h1 j = Some s"
    using assms(4, 7) unfolding h1 by (subst get_update_pairing) (simp_all add: get_pairing_request_def)
  define h2 where "h2 = fst (approve_pairing_request post self env2 q j h1)"
  have h2: "h2 = update_pairing_request j (\<lambda>r. r\<lparr>pr_status := RApproved\<rparr>)
      (settle_peer env2 (e_new_id env2) (pr_pubkey_fpr s) (insert_peer (approve_row env2 s) h1))"
    unfolding h2_def by (rule approve_iff [OF g assms(5, 6) assms(9)])
  have "map ?k (peer_tbl h2) = map ?k (peer_tbl h) @ [?k (approve_row env1 r), ?k (approve_row env2 s)]"
    by (simp add: h2 h1 settle insert_peer_def)
  then have "?k (approve_row env1 r) \<in> ?k ` set (peer_tbl h2)" "?k (approve_row env2 s) \<in> ?k ` set (peer_tbl h2)"
    by (metis (no_types, lifting) Un_iff list.set_intros set_append set_map)+
  then show ?thesis
    using assms(8, 12) unfolding Let_def h1_def [symmetric] h2_def [symmetric]
    by (fastforce simp: approve_row_def)
qed

end
