(* ===== verification/Peering_Witness.thy ===== *)
theory Peering_Witness
  imports Peering_Props
begin

text \<open>
  The theorems of \<open>Peering_Props\<close> applied at concrete hosts: two hosts \<open>demo_a\<close> and \<open>demo_b\<close>
  with empty tables, a signature scheme that accepts the signatures it made, and a
  fingerprint that marks the key.
\<close>

definition empty_host :: host where
  "empty_host = \<lparr>vpc_tbl = [], subnet_tbl = [], igw_tbl = [], route_table_tbl = [], instance_tbl = [],
     lb_tbl = [], sg_tbl = [], peer_tbl = [], pairing_tbl = [], api_token_tbl = [], audit_tbl = [],
     client_token_tbl = [], dns_zone_tbl = [], dns_record_tbl = [], rate_limit_hits = Map.empty,
     backoff = Map.empty, effects = []\<rparr>"

definition demo_self :: "string \<Rightarrow> host_self" where
  "demo_self n = \<lparr>my_token = ''master'', my_hostname = n, my_pubkey = ''key-'' @ n, my_peer_port = 8082,
     my_wg_pubkey = ''wg-'' @ n, my_wg_endpoint = ''10.0.0.9:51820'', my_wg_bridge_subnet = ''192.168.7.0/24''\<rparr>"

definition demo_env :: "string \<Rightarrow> instant \<Rightarrow> string \<Rightarrow> pairing_env" where
  "demo_env i t tok = \<lparr>e_new_id = i, e_now = t, e_monotonic = t, e_token = tok,
     e_wg_commands = \<lparr>tee_ok = True, iface_exists = True, up_ok = True, strip_ok = True, syncconf_ok = True\<rparr>,
     e_wg_poll = (\<lambda>_. ''up'')\<rparr>"

definition demo_request :: "string \<Rightarrow> request" where
  "demo_request auth = \<lparr>q_method = ''POST'', q_endpoint = Some ''peers'', q_rule = None, q_auth = auth,
     q_token_arg = [], q_server_port = ''8080'', q_remote_addr = Some ''10.0.0.2'', q_path = ''/v1/peers''\<rparr>"

definition demo_sign :: "pairing_payload \<Rightarrow> string" where
  "demo_sign pl = ''sig-'' @ or_empty (pl_pubkey pl)"

definition demo_verify :: "pairing_payload \<Rightarrow> string \<Rightarrow> string \<Rightarrow> bool" where
  "demo_verify pl sig pk \<longleftrightarrow> sig = ''sig-'' @ pk"

definition demo_fpr :: "string \<Rightarrow> string option" where
  "demo_fpr k = Some (''SHA256:'' @ k)"

lemmas demo_defs = empty_host_def demo_self_def demo_env_def demo_request_def demo_sign_def demo_verify_def demo_fpr_def

lemma demo_auth [simp]: "peers_auth (demo_self n) (demo_request ''Bearer master'')"
  by (simp add: peers_auth_def demo_self_def demo_request_def removeprefix_def startswith_def bearer_prefix_def)

lemma demo_env_simps [simp]:
  "e_new_id (demo_env i t k) = i" "e_now (demo_env i t k) = t" "e_token (demo_env i t k) = k" "e_monotonic (demo_env i t k) = t"
  by (simp_all add: demo_env_def)

section \<open>The handshake\<close>

definition demo_init :: "host \<times> public_peer reply" where
  "demo_init = initiate_pairing demo_sign (\<lambda>_ _ _. PeerResponse 202 ()) (demo_self ''a'') (demo_env ''pa'' 100 ''tokA'')
     (demo_request ''Bearer master'') (Some ''b'') (Some ''10.0.0.1'') (Some 8082) empty_host"

definition demo_boot :: "host \<times> (string \<times> instant) reply" where
  "demo_boot = pairing_request_bootstrap demo_verify demo_fpr (demo_env ''req'' 110 ''x'') (demo_request [])
     (Some (pairing_payload_of (demo_self ''a'') (e_token (demo_env ''pa'' 100 ''tokA'')))) (Some ''sig-key-a'') empty_host"

definition demo_approve :: "host \<times> (public_peer option \<times> bool) reply" where
  "demo_approve = approve_pairing_request (\<lambda>_ _ _. PeerResponse 200 ()) (demo_self ''b'') (demo_env ''pb'' 120 ''tokB'')
     (demo_request ''Bearer master'') ''req'' (fst demo_boot)"

definition demo_complete :: "host \<times> unit reply" where
  "demo_complete = complete_pairing demo_fpr (demo_env ''y'' 130 ''z'') (demo_request (bearer_prefix @ e_token (demo_env ''pa'' 100 ''tokA'')))
     (complete_body_of (demo_self ''b'') (e_token (demo_env ''pb'' 120 ''tokB''))) (fst demo_init)"

lemma demo_init_reply: "\<exists>r. snd demo_init = Reply 201 r"
  by (simp add: demo_init_def initiate_pairing_def Let_def list_peers_def truthy_def)
     (simp add: empty_host_def)

lemma demo_init_tbl: "map (\<lambda>p. (p_id p, p_status p, p_local_token p)) (peer_tbl (fst demo_init)) =
    [(''pa'', PendingOutbound, Some ''tokA'')]"
  by (simp add: demo_init_def initiate_pairing_def Let_def list_peers_def truthy_def)
     (simp add: empty_host_def insert_peer_def demo_env_def)

lemma demo_boot_reply: "snd demo_boot = Reply 202 (''req'', 110 + PAIRING_REQUEST_TTL)"
  by (simp add: demo_boot_def pairing_request_bootstrap_def check_rate_limit_def bootstrap_row_def Let_def
      RATE_LIMIT_PER_HOUR_def MAX_PENDING_PAIRING_REQUESTS_def count_pending_pairing_requests_def
      expire_stale_pairing_requests_def update_where_def truthy_def list_peers_def pairing_payload_of_def
      self_payload_def demo_defs)

lemma demo_boot_tbl:
  "map (\<lambda>r. (pr_id r, pr_status r, pr_expires_at r)) (pairing_tbl (fst demo_boot)) =
     [(''req'', RPending, 110 + PAIRING_REQUEST_TTL)]"
  "peer_tbl (fst demo_boot) = []"
  by (simp_all add: demo_boot_def pairing_request_bootstrap_def check_rate_limit_def bootstrap_row_def Let_def
      RATE_LIMIT_PER_HOUR_def MAX_PENDING_PAIRING_REQUESTS_def count_pending_pairing_requests_def
      expire_stale_pairing_requests_def update_where_def truthy_def list_peers_def pairing_payload_of_def
      self_payload_def insert_pairing_request_def demo_defs)

lemma demo_approve_reply: "\<exists>r. snd demo_approve = Reply 200 r"
proof -
  obtain row where "pairing_tbl (fst demo_boot) = [row]" "pr_id row = ''req''" "pr_status row = RPending"
    "pr_expires_at row = 110 + PAIRING_REQUEST_TTL"
    using demo_boot_tbl(1) by (auto simp: map_eq_Cons_conv)
  then show ?thesis
    by (simp add: demo_approve_def approve_pairing_request_def Let_def get_pairing_request_def PAIRING_REQUEST_TTL_def)
       (rule exI [of _ True], simp)
qed

lemma demo_complete_reply: "snd demo_complete = Reply 200 ()"
proof -
  obtain row where "peer_tbl (fst demo_init) = [row]" "p_status row = PendingOutbound" "p_local_token row = Some ''tokA''"
    using demo_init_tbl by (auto simp: map_eq_Cons_conv)
  then show ?thesis
    by (simp add: demo_complete_def complete_pairing_def Let_def find_pending_outbound_by_local_token_def
        demo_request_def complete_body_of_def demo_self_def truthy_def demo_fpr_def)
qed

lemma peers_ok_empty [simp]: "peers_ok empty_host"
  by (simp add: peers_ok_def empty_host_def)

lemma fresh_empty [simp]: "fresh_env e empty_host"
  by (simp add: fresh_env_def empty_host_def)

theorem handshake_mutual_witness:
  "\<exists>pA pB. find_peer_by_local_token (fst demo_complete) ''tokA'' = Some pA \<and>
    find_peer_by_local_token (fst demo_approve) ''tokB'' = Some pB \<and>
    p_remote_token pA = p_local_token pB \<and> p_remote_token pB = p_local_token pA \<and>
    p_pubkey pA = ''key-b'' \<and> p_pubkey pB = ''key-a''"
proof -
  obtain r1 where i: "demo_init = (fst demo_init, Reply 201 r1)" using demo_init_reply by (metis prod.collapse)
  have b: "demo_boot = (fst demo_boot, Reply 202 (''req'', 110 + PAIRING_REQUEST_TTL))"
    using demo_boot_reply by (metis prod.collapse)
  obtain r2 where a: "demo_approve = (fst demo_approve, Reply 200 r2)" using demo_approve_reply by (metis prod.collapse)
  have c: "demo_complete = (fst demo_complete, Reply 200 ())" using demo_complete_reply by (metis prod.collapse)
  have f: "fresh_env (demo_env ''pb'' 120 ''tokB'') (fst demo_boot)"
    using demo_boot_tbl by (auto simp: fresh_env_def map_eq_Cons_conv)
  from handshake_mutual [OF demo_init_def [symmetric, THEN trans, OF i] demo_boot_def [symmetric, THEN trans, OF b]
      demo_approve_def [symmetric, THEN trans, OF a] demo_complete_def [symmetric, THEN trans, OF c]]
  show ?thesis using f by (simp add: demo_request_def, simp add: empty_host_def demo_self_def, blast)
qed

section \<open>The other properties\<close>

theorem peering_token_discipline_witness:
  "list_all peer_ok (peer_tbl (fst demo_init)) \<and>
    count_pending_pairing_requests (fst demo_init) \<le> MAX_PENDING_PAIRING_REQUESTS"
proof -
  have "peering_reachable demo_fpr (demo_self ''a'') empty_host"
    by (rule peering_start) (simp_all add: empty_host_def)
  then have "peering_reachable demo_fpr (demo_self ''a'') (fst demo_init)"
    unfolding demo_init_def by (rule peering_next) (rule step_initiate, simp)
  from peering_token_discipline [OF this] show ?thesis by (simp add: list_all_iff)
qed

theorem revoke_peer_closes_access_witness:
  "\<not> (\<exists>tok p. find_peer_by_local_token (fst (revoke_peer (demo_self ''b'') (demo_request ''Bearer master'') ''pb''
      (insert_peer (demo_peer\<lparr>p_id := ''pb'', p_local_token := Some ''t''\<rparr>) empty_host))) tok = Some p \<and> p_id p = ''pb'')"
proof -
  let ?h = "insert_peer (demo_peer\<lparr>p_id := ''pb'', p_local_token := Some ''t''\<rparr>) empty_host"
  have "revoke_peer (demo_self ''b'') (demo_request ''Bearer master'') ''pb'' ?h =
      (fst (revoke_peer (demo_self ''b'') (demo_request ''Bearer master'') ''pb'' ?h), Reply 200 ())"
    by (simp add: revoke_peer_def get_insert_peer split: option.split)
  from revoke_peer_closes_access [OF this] show ?thesis by blast
qed

definition demo_moved_vpc :: vpc where
  "demo_moved_vpc = \<lparr>v_id = ''v'', v_name = ''n'', v_cidr_block = ''10.0.0.0/16'', v_dns_support = True, v_status = Active,
     v_created_at = 0, v_tags = [], v_host_id = Some ''old''\<rparr>"

definition demo_repaired :: host where
  "demo_repaired = empty_host\<lparr>peer_tbl := [demo_peer\<lparr>p_id := ''old''\<rparr>, demo_peer\<lparr>p_id := ''new''\<rparr>], vpc_tbl := [demo_moved_vpc]\<rparr>"

lemma demo_migrated:
  "migrate_host_id_references ''f'' ''new'' demo_repaired =
     (demo_repaired\<lparr>vpc_tbl := [demo_moved_vpc\<lparr>v_host_id := Some ''new''\<rparr>]\<rparr>, 1)"
  by (simp add: demo_repaired_def demo_moved_vpc_def migrate_host_id_references_def old_peer_ids_def list_peers_def
      empty_host_def demo_peer_def migrate_table_def update_where_def)

theorem migrate_repoints_witness:
  "map (v_host_id_update (\<lambda>_. None)) (vpc_tbl (fst (migrate_host_id_references ''f'' ''new'' demo_repaired))) =
     map (v_host_id_update (\<lambda>_. None)) (vpc_tbl demo_repaired)"
proof -
  have "demo_peer\<lparr>p_id := ''new''\<rparr> \<in> set (peer_tbl demo_repaired)" by (simp add: demo_repaired_def)
  moreover have "p_pubkey_fpr (demo_peer\<lparr>p_id := ''new''\<rparr>) = ''f''" by (simp add: demo_peer_def)
  moreover have "Some (p_id (demo_peer\<lparr>p_id := ''new''\<rparr>)) \<in>
      v_host_id ` set (vpc_tbl (demo_repaired\<lparr>vpc_tbl := [demo_moved_vpc\<lparr>v_host_id := Some ''new''\<rparr>]\<rparr>))" by simp
  ultimately show ?thesis
    using migrate_repoints [OF demo_migrated] unfolding demo_migrated by (metis UnI1 UnI2 fst_conv)
qed

theorem rate_limit_per_hour_witness:
  "length (filter (\<lambda>x. 7 - hour_ns < x \<and> x \<le> 7) (rate_calls ''10.0.0.2'' [1, 2, 3, 4, 5, 6, 7] empty_host)) \<le> 5"
  by (rule rate_limit_per_hour) (simp_all add: empty_host_def)

definition demo_reconcile :: host where
  "demo_reconcile = reconcile_peer demo_verify demo_fpr (\<lambda>_. PeerResponse 200 (Some (self_payload (demo_self ''b'')), Some ''sig-key-b''))
     (demo_env ''x'' 0 ''y'') ''pb'' \<lparr>hit_address = ''10.6.6.6'', hit_port = 8082, hit_fpr = ''SHA256:key-b''\<rparr>
     (insert_peer (demo_peer\<lparr>p_id := ''pb'', p_pubkey_fpr := ''SHA256:key-b'', p_remote_token := Some ''t''\<rparr>) empty_host)"

theorem reconcile_accepts_replay_witness:
  "\<exists>p. get_peer demo_reconcile ''pb'' = Some p \<and> p_api_url p = ''http://10.6.6.6:'' @ show_int 8082 \<and>
    p_remote_token p = Some ''t''"
proof -
  let ?peer = "demo_peer\<lparr>p_id := ''pb'', p_pubkey_fpr := ''SHA256:key-b'', p_remote_token := Some ''t''\<rparr>"
  have g: "get_peer (insert_peer ?peer empty_host) ''pb'' = Some ?peer"
    by (simp add: get_peer_def insert_peer_def empty_host_def)
  show ?thesis
    using reconcile_accepts_replay [OF g, where verify = demo_verify and fpr_of = demo_fpr and sig = "''sig-key-b''"
        and pl = "self_payload (demo_self ''b'')" and pk = "''key-b''" and env = "demo_env ''x'' 0 ''y''"
        and hit = "\<lparr>hit_address = ''10.6.6.6'', hit_port = 8082, hit_fpr = ''SHA256:key-b''\<rparr>"
        and get = "\<lambda>_. PeerResponse 200 (Some (self_payload (demo_self ''b'')), Some ''sig-key-b'')"]
    unfolding demo_reconcile_def
    by (simp add: demo_peer_def self_payload_def demo_self_def demo_verify_def demo_fpr_def http_url_def)
qed

theorem reconcile_only_proven_witness:
  "map (\<lambda>p. (p_id p, p_pubkey p, p_pubkey_fpr p, p_status p, p_local_token p, p_remote_token p)) (peer_tbl demo_reconcile) =
    [(''pb'', ''k'', ''SHA256:key-b'', Approved, None, Some ''t'')]"
proof -
  let ?h = "insert_peer (demo_peer\<lparr>p_id := ''pb'', p_pubkey_fpr := ''SHA256:key-b'', p_remote_token := Some ''t''\<rparr>) empty_host"
  have "p_api_url (hd (peer_tbl demo_reconcile)) \<noteq> ''u''"
    by (simp add: demo_reconcile_def reconcile_peer_def check_self_info_def adopt_address_def Let_def get_peer_def
        insert_peer_def update_peer_def update_where_def
        empty_host_def demo_peer_def self_payload_def demo_self_def demo_verify_def demo_fpr_def http_url_def or_empty_def
        record_success_def split: prod.split)
  then have "peer_tbl demo_reconcile \<noteq> peer_tbl ?h" by (auto simp: insert_peer_def empty_host_def demo_peer_def)
  from reconcile_only_proven [OF this [unfolded demo_reconcile_def], folded demo_reconcile_def] show ?thesis
    by (simp add: insert_peer_def empty_host_def demo_peer_def)
qed

definition demo_two_requests :: host where
  "demo_two_requests = (let r = \<lparr>pr_id = ''r1'', pr_hostname = ''a'', pr_pubkey = ''k'', pr_pubkey_fpr = ''f'', pr_signature = ''s'',
       pr_callback_token = ''t'', pr_callback_url = ''u'', pr_wg_pubkey = [], pr_wg_endpoint = [], pr_wg_bridge_subnet = [],
       pr_status = RPending, pr_created_at = 0, pr_expires_at = 100\<rparr>
     in empty_host\<lparr>pairing_tbl := [r, r\<lparr>pr_id := ''r2''\<rparr>]\<rparr>)"

theorem approve_same_key_twice_witness:
  "let h1 = fst (approve_pairing_request (\<lambda>_ _ _. PeerUnreachable) (demo_self ''b'') (demo_env ''p1'' 5 ''t1'')
           (demo_request ''Bearer master'') ''r1'' demo_two_requests);
       h2 = fst (approve_pairing_request (\<lambda>_ _ _. PeerUnreachable) (demo_self ''b'') (demo_env ''p2'' 6 ''t2'')
           (demo_request ''Bearer master'') ''r2'' h1)
   in \<exists>p1 \<in> set (peer_tbl h2). \<exists>p2 \<in> set (peer_tbl h2). p_id p1 \<noteq> p_id p2 \<and>
      p_status p1 = Approved \<and> p_status p2 = Approved \<and> p_pubkey_fpr p1 = p_pubkey_fpr p2"
proof -
  have g: "get_pairing_request demo_two_requests ''r1'' = Some (hd (pairing_tbl demo_two_requests))"
    "get_pairing_request demo_two_requests ''r2'' = Some (pairing_tbl demo_two_requests ! 1)"
    by (simp_all add: get_pairing_request_def demo_two_requests_def)
  show ?thesis
    by (rule approve_same_key_twice [OF g(1) _ _ g(2)]) (simp_all add: demo_two_requests_def empty_host_def)
qed

end
