(* ===== verification/Authz_Props.thy ===== *)
theory Authz_Props
  imports Authz Peering_Witness
begin

text \<open>
  Properties of the authorisation layer: the gate is default-deny and confines each scope to
  its routes, the network-facing binds serve only their allowlists, named tokens authenticate
  from creation until expiry or revocation, and every change is audited.
\<close>

section \<open>Shared lemmas\<close>

lemma identify_tbls:
  "peer_tbl (fst (identify sha tk now t h)) = peer_tbl h"
  "client_token_tbl (fst (identify sha tk now t h)) = client_token_tbl h"
  "audit_tbl (fst (identify sha tk now t h)) = audit_tbl h"
  by (auto simp: identify_def touch_api_token_def split: option.splits if_splits)

lemma dropWhile_rev_dropWhile:
  assumes "dropWhile P s = s"
  shows "dropWhile P (rev (dropWhile P (rev s))) = rev (dropWhile P (rev s))"
proof (cases "rev (dropWhile P (rev s))")
  case (Cons c cs)
  have "s = rev (dropWhile P (rev s)) @ rev (takeWhile P (rev s))"
    by (metis rev_append rev_rev_ident takeWhile_dropWhile_id)
  with Cons have "s = c # (cs @ rev (takeWhile P (rev s)))" by simp
  with assms have "\<not> P c" by (metis dropWhile_eq_self_iff list.distinct(1) list.sel(1))
  with Cons show ?thesis by simp
next
  case Nil
  then show ?thesis by (simp only: dropWhile.simps)
qed

lemma py_strip_idem: "py_strip (py_strip s) = py_strip s"
proof -
  have "dropWhile is_space (dropWhile is_space s) = dropWhile is_space s" by simp
  from dropWhile_rev_dropWhile [OF this] show ?thesis by (simp add: py_strip_def)
qed

lemma gate_admits:
  assumes "q_endpoint q = Some e" "q_method q \<noteq> ''OPTIONS''"
  shows "snd (snd (gate sha tk access now q h)) = None \<longleftrightarrow>
    e \<in> PUBLIC \<or> (\<exists>i. snd (identify sha tk now (request_token q) h) = Some i \<and>
      id_scope i \<in> (case access e of None \<Rightarrow> {''admin''} | Some s \<Rightarrow> s))"
  using assms by (cases "identify sha tk now (request_token q) h")
    (auto simp: gate_def allowed_def Let_def split: option.split)

lemma server_access_cases:
  assumes "e \<notin> PUBLIC"
  shows "server_access e =
    (if e \<in> LFS_ENDPOINTS then Some {''admin'', ''labvm''}
     else if e \<in> LAB_VM_REACHABLE_ENDPOINTS then Some {''labvm''}
     else if e \<in> CLIENT_REACHABLE_ENDPOINTS then Some {''student''}
     else if e \<in> EXAMPLES_REACHABLE_ENDPOINTS \<union> LLM_DEPLOYMENTS_REACHABLE_ENDPOINTS then Some {''admin'', ''capture''}
     else if e \<in> peer_bind_endpoints then Some {''admin'', ''peer''} else None)"
  using assms by (simp add: server_access_def configure_def grant_def)

definition scope_endpoints :: "string \<Rightarrow> string set" where
  "scope_endpoints s =
     (if s = ''peer'' then peer_bind_endpoints
      else if s = ''capture'' then EXAMPLES_REACHABLE_ENDPOINTS \<union> LLM_DEPLOYMENTS_REACHABLE_ENDPOINTS
      else if s = ''labvm'' then LAB_VM_REACHABLE_ENDPOINTS \<union> LFS_ENDPOINTS
      else if s = ''student'' then CLIENT_REACHABLE_ENDPOINTS
      else {})"

lemma scope_of_access:
  assumes "e \<notin> PUBLIC" "s \<in> (case server_access e of None \<Rightarrow> {''admin''} | Some x \<Rightarrow> x)" "s \<noteq> ''admin''"
  shows "e \<in> scope_endpoints s"
  using assms(2, 3) unfolding server_access_cases [OF assms(1)] scope_endpoints_def
  by (auto split: if_splits)

section \<open>Default deny and confinement\<close>

text \<open>
  C1: a request with any method but \<^verbatim>\<open>OPTIONS\<close> that the gate lets through to a route that is not
  public carries a token that identifies its caller; the caller is an administrator, or the
  route is one of those listed for the caller's scope.  In particular a route that no list
  names is for administrators only.\<close>

theorem gate_confines_scopes:
  assumes "snd (snd (gate sha tk server_access now q h)) = None"
    and "q_endpoint q = Some e" "q_method q \<noteq> ''OPTIONS''" "e \<notin> PUBLIC"
  shows "\<exists>i. snd (identify sha tk now (request_token q) h) = Some i \<and>
    (id_scope i = ''admin'' \<or> e \<in> scope_endpoints (id_scope i))"
  using assms gate_admits [OF assms(2, 3), of sha tk server_access now h] scope_of_access by blast

text \<open>
  the routes of the lab-VM broker and the students' capture routes are closed to
  administrators too: there the only scope let through is the one the routes are made for.\<close>

theorem gate_refuses_admin_on_scoped_routes:
  assumes "q_endpoint q = Some e" "q_method q \<noteq> ''OPTIONS''"
    and "e \<in> LAB_VM_REACHABLE_ENDPOINTS \<union> CLIENT_REACHABLE_ENDPOINTS"
    and "snd (identify sha tk now (request_token q) h) = Some i" "id_scope i = ''admin''"
  shows "snd (snd (gate sha tk server_access now q h)) = Some (403, ''Forbidden'')"
proof -
  have "e \<notin> PUBLIC" "e \<notin> LFS_ENDPOINTS" using assms(3) by (auto simp: endpoint_sets)
  moreover have "''admin'' \<notin> (case server_access e of None \<Rightarrow> {''admin''} | Some x \<Rightarrow> x)"
    using assms(3) calculation by (auto simp: server_access_cases)
  ultimately show ?thesis
    using assms by (cases "identify sha tk now (request_token q) h") (auto simp: gate_def allowed_def)
qed

section \<open>The network-facing binds\<close>

text \<open>
  C2: on the peer bind and on the examples bind, whatever token a request carries, only a
  route of that bind's allowlist is reached, and never the dashboard; the exact header with
  the master token is refused.\<close>

theorem bind_serves_only_allowlist:
  assumes "snd (snd (before_request sha tk peer_port examples_port now q h)) = None"
    and "q_server_port q = peer_port \<or> q_server_port q = examples_port"
  shows "(\<exists>e. q_endpoint q = Some e \<and> e \<noteq> ''ui'' \<and>
      (q_server_port q = peer_port \<longrightarrow> e \<in> peer_bind_endpoints) \<and>
      (q_server_port q = examples_port \<longrightarrow> e \<in> examples_bind_endpoints)) \<and>
    q_auth q \<noteq> bearer_prefix @ tk_master tk"
proof -
  have "peer_bind_gate tk peer_port examples_port q = None"
    using assms(1) by (auto simp: before_request_def split: option.splits)
  moreover have "''ui'' \<notin> peer_bind_endpoints" "''ui'' \<notin> examples_bind_endpoints"
    by (simp_all add: peer_bind_endpoints_def examples_bind_endpoints_def endpoint_sets)
  ultimately show ?thesis
    using assms(2) by (auto simp: peer_bind_gate_def split: if_splits)
qed

lemma strip_extra_space:
  assumes "py_strip s = s"
  shows "py_strip (CHR '' '' # s) = s"
  using assms by (simp add: py_strip_def)

text \<open>
  the refusal of the master token on those binds is by exact comparison of the header,
  while the gate strips white space: with one more space after \<^verbatim>\<open>Bearer\<close> the master token is
  let through as administrator, for example to the LFS routes on the examples bind, which
  have no further check.\<close>

theorem master_token_passes_bind_with_space:
  assumes "py_strip (tk_master tk) = tk_master tk" "tk_master tk \<noteq> []"
    and "q_auth q = bearer_prefix @ '' '' @ tk_master tk" "q_method q \<noteq> ''OPTIONS''"
    and "q_server_port q = examples_port" "q_endpoint q = Some e" "e \<in> LFS_ENDPOINTS" "peer_port \<noteq> examples_port"
  shows "\<exists>i. before_request sha tk peer_port examples_port now q h = (h, Some i, None) \<and>
    id_scope i = ''admin'' \<and> id_id i = ''master''"
proof -
  have "request_token q = tk_master tk"
    using assms(1-3) strip_extra_space [OF assms(1)] by (simp add: request_token_def Let_def)
  then have ident: "identify sha tk now (request_token q) h =
      (h, Some \<lparr>id_scope = ''admin'', id_id = ''master'', id_name = ''master token (api.env)''\<rparr>)"
    using assms(2) by (simp add: identify_def)
  have "q_auth q \<noteq> bearer_prefix @ tk_master tk"
    using assms(3) by (metis append_same_eq append_self_conv2 append.assoc same_append_eq list.distinct(1))
  moreover have "e \<in> examples_bind_endpoints" using assms(7) by (simp add: examples_bind_endpoints_def)
  ultimately have "peer_bind_gate tk peer_port examples_port q = None"
    using assms(5, 6, 8) by (auto simp: peer_bind_gate_def)
  moreover have "allowed server_access e = Some {''admin'', ''labvm''}"
  proof -
    have "e \<notin> PUBLIC" using assms(7) by (auto simp: endpoint_sets)
    then show ?thesis using assms(7) by (simp add: allowed_def server_access_cases)
  qed
  ultimately show ?thesis using ident assms(4, 6) by (simp add: before_request_def gate_def)
qed

section \<open>Named tokens\<close>

lemma find_api_token_new:
  assumes "hash \<notin> k_token_sha256 ` set (api_token_tbl h)" "k_token_sha256 k = hash" "k_revoked_at k = None"
  shows "find_api_token hash (h\<lparr>api_token_tbl := api_token_tbl h @ [k]\<rparr>) = Some k"
proof -
  have "\<forall>x \<in> set (api_token_tbl h). k_token_sha256 x \<noteq> hash" using assms(1) by (metis image_eqI)
  then show ?thesis using assms(2, 3) by (simp add: find_api_token_def find_append_last)
qed

text \<open>
  C3: a token issued by \<^verbatim>\<open>create_token\<close> identifies its bearer with the requested scope and the
  new identifier, until it expires; the hash must not already be stored (SHA-256 of a fresh
  random token) and the token must not be the master token.\<close>

theorem create_token_identifies:
  assumes "create_token sha rand tid now body h = (h', Reply 201 (i, token))"
    and "sha token \<notin> k_token_sha256 ` set (api_token_tbl h)" "token \<noteq> tk_master tk"
    and "\<forall>d. tb_expires_days body = Some d \<longrightarrow> d = 0 \<or> later < now + d * day_us"
  shows "\<exists>ident. snd (identify sha tk later token h') = Some ident \<and> id_id ident = tid \<and>
    Some (id_scope ident) = tb_scope body \<and> id_scope ident \<in> {''admin'', ''capture'', ''labvm''}"
proof -
  obtain scope where sc: "tb_scope body = Some scope" "scope \<in> {''admin'', ''capture'', ''labvm''}"
    using assms(1) by (auto simp: create_token_def Let_def split: option.splits if_splits)
  define ex where "ex = (case tb_expires_days body of None \<Rightarrow> None | Some d \<Rightarrow> if d = 0 then None else Some (now + d * day_us))"
  define k where "k = \<lparr>k_id = tid, k_name = py_strip (case tb_name body of None \<Rightarrow> [] | Some n \<Rightarrow> n), k_scope = scope,
    k_token_sha256 = sha token, k_created_at = now, k_expires_at = ex, k_revoked_at = None, k_last_used_at = None\<rparr>"
  have h': "h' = h\<lparr>api_token_tbl := api_token_tbl h @ [k]\<rparr>" and token: "token \<noteq> []"
    using assms(1) sc(1) by (auto simp: create_token_def Let_def k_def ex_def split: if_splits)
  have k: "k_token_sha256 k = sha token" "k_revoked_at k = None" "k_id k = tid" "Some (k_scope k) = tb_scope body"
      "k_scope k \<in> {''admin'', ''capture'', ''labvm''}" "k_expires_at k = ex"
    using sc by (simp_all add: k_def)
  have "find_api_token (sha token) h' = Some k" unfolding h' by (rule find_api_token_new [OF assms(2) k(1, 2)])
  moreover have "token_live later k" using assms(4) k(6) by (auto simp: token_live_def ex_def split: option.splits)
  ultimately show ?thesis using assms(3) token k(3-5) by (simp add: identify_def)
qed

lemma revoked_not_found:
  assumes "wf_table k_token_sha256 (api_token_tbl h)" "find_api_token hash h = Some k"
  shows "find_api_token hash (fst (revoke_token now (k_id k) h)) = None"
proof -
  have k: "k \<in> set (api_token_tbl h)" "k_token_sha256 k = hash" "k_revoked_at k = None"
    using assms(2) find_Some_in [of _ "api_token_tbl h" k] by (auto simp: find_api_token_def)
  have "x = k" if "x \<in> set (api_token_tbl h)" "k_token_sha256 x = hash" for x
    using wf_key_unique [OF assms(1) that(1) k(1)] that(2) k(2) by simp
  then show ?thesis
    by (auto simp: find_api_token_def revoke_token_def Let_def update_where_def find_None_iff)
qed

text \<open>
  C18: a revoked named token no longer identifies anybody: if it was good only as that named
  token (no peer, environment or student token has the same value), the gate answers 401 on
  every route that is not public.\<close>

theorem revoked_token_is_refused:
  assumes "find_api_token (sha token) h = Some k" "wf_table k_token_sha256 (api_token_tbl h)"
    and "token \<noteq> tk_master tk" "token \<noteq> tk_examples tk" "token \<noteq> tk_labvm tk"
    and "find_peer_by_local_token h token = None" "find_client_token (sha token) h = None"
    and "request_token q = token" "q_endpoint q = Some e" "e \<notin> PUBLIC" "q_method q \<noteq> ''OPTIONS''"
  shows "snd (snd (gate sha tk server_access later q (fst (revoke_token now (k_id k) h)))) = Some (401, ''Unauthorized'')"
proof -
  let ?h = "fst (revoke_token now (k_id k) h)"
  have "find_peer_by_local_token ?h token = None" "find_client_token (sha token) ?h = None"
    using assms(6, 7) by (simp_all add: revoke_token_def Let_def find_peer_by_local_token_def find_client_token_def)
  then have "snd (identify sha tk later token ?h) = None"
    using revoked_not_found [OF assms(2, 1), of now] assms(3-5) by (simp add: identify_def)
  then show ?thesis
    using assms(8-11) by (cases "identify sha tk later token ?h") (auto simp: gate_def allowed_def)
qed

section \<open>Configured tokens and the audit log\<close>

text \<open>
  the API starts only with a master token that is not empty and has no white space around
  it, and with the retired default only where the environment explicitly allows it.\<close>

theorem master_token_fails_closed:
  assumes "master_token environ file = Some t"
  shows "t \<noteq> [] \<and> py_strip t = t \<and> (t = ''dev-token'' \<longrightarrow> environ ''CLOUDCORE_ALLOW_DEV_TOKEN'' = Some ''1'')"
  using assms by (auto simp: master_token_def cc_get_def Let_def is_retired_def py_strip_idem split: if_splits)

text \<open>
  a request that changes state (\<^verbatim>\<open>POST\<close>, \<^verbatim>\<open>PUT\<close>, \<^verbatim>\<open>PATCH\<close>, \<^verbatim>\<open>DELETE\<close>) to a routed endpoint other than
  the static files leaves exactly one new audit row, with the caller the gate recorded; the
  earlier rows are kept, and the log with the refused requests is written the same way.\<close>

theorem audit_records_changes:
  assumes "q_method q \<in> {''POST'', ''PUT'', ''PATCH'', ''DELETE''}" "q_endpoint q = Some e" "e \<noteq> ''static''"
    and "before_request sha tk peer_port examples_port now q h = (h1, ident, refusal)"
  shows "\<exists>row. audit_tbl (audit t q ident status h1) = audit_tbl h @ [row] \<and> a_status row = status \<and>
    a_endpoint row = e \<and> a_method row = q_method q \<and>
    a_identity row = (case ident of None \<Rightarrow> ''anonymous'' | Some i \<Rightarrow> id_scope i)"
proof -
  have "audit_tbl h1 = audit_tbl h"
    using assms(4) identify_tbls(3) [of sha tk now "request_token q" h]
    by (auto simp: before_request_def gate_def Let_def split: option.splits if_splits prod.splits)
  then show ?thesis using assms(1-3) by (simp add: audit_def)
qed

text \<open>The cap on the listing of the audit log does not hold for a negative limit.\<close>

lemma list_audit_negative: "limit_arg < 0 \<Longrightarrow> length (list_audit limit_arg h) = length (audit_tbl h)"
  by (simp add: list_audit_def Let_def)

lemma list_audit_capped: "0 \<le> limit_arg \<Longrightarrow> length (list_audit limit_arg h) \<le> 1000"
  by (auto simp: list_audit_def Let_def min_def)

section \<open>Witnesses\<close>

definition demo_tokens :: tokens where
  "demo_tokens = \<lparr>tk_master = ''m'', tk_examples = ''ex'', tk_labvm = ''lv''\<rparr>"

definition demo_q :: "string \<Rightarrow> string \<Rightarrow> string \<Rightarrow> request" where
  "demo_q endpoint auth port = \<lparr>q_method = ''POST'', q_endpoint = Some endpoint, q_rule = None, q_auth = auth,
     q_token_arg = [], q_server_port = port, q_remote_addr = Some ''10.0.0.2'', q_path = ''/v1/x''\<rparr>"

definition demo_token_row :: api_token where
  "demo_token_row = \<lparr>k_id = ''t1'', k_name = ''n'', k_scope = ''labvm'', k_token_sha256 = ''tok'', k_created_at = 0,
     k_expires_at = None, k_revoked_at = None, k_last_used_at = None\<rparr>"

lemmas demo_authz_defs = demo_tokens_def demo_q_def demo_token_row_def empty_host_def

lemma py_strip_word: "word w \<Longrightarrow> py_strip w = w"
  by (simp add: word_def py_strip_id)

lemma demo_words [simp]: "word ''m''" "word ''lv''" "word ''tok''"
  by (simp_all add: word_def is_space_def)

lemma request_token_demo: "word w \<Longrightarrow> request_token (demo_q e (bearer_prefix @ w) port) = w"
  by (simp add: request_token_def demo_q_def Let_def py_strip_word word_def)

lemma demo_q_simps [simp]: "q_endpoint (demo_q e a p) = Some e" "q_method (demo_q e a p) = ''POST''"
  "q_server_port (demo_q e a p) = p" "q_auth (demo_q e a p) = a"
  by (simp_all add: demo_q_def)

theorem gate_confines_scopes_witness:
  "\<exists>i. snd (identify id demo_tokens 0 (request_token (demo_q ''lab_vms.create_lab_vm'' (bearer_prefix @ ''lv'') ''8083'')) empty_host) = Some i \<and>
    (id_scope i = ''admin'' \<or> ''lab_vms.create_lab_vm'' \<in> scope_endpoints (id_scope i))"
proof (rule gate_confines_scopes)
  have "snd (identify id demo_tokens 0 ''lv'' empty_host) =
      Some \<lparr>id_scope = ''labvm'', id_id = ''labvm-env'', id_name = ''labvm token (api.env)''\<rparr>"
    by (simp add: identify_def demo_authz_defs find_api_token_def find_peer_by_local_token_def)
  then show "snd (snd (gate id demo_tokens server_access 0 (demo_q ''lab_vms.create_lab_vm'' (bearer_prefix @ ''lv'') ''8083'') empty_host)) = None"
    by (simp add: gate_admits request_token_demo server_access_cases endpoint_sets)
qed (simp_all add: PUBLIC_def)

theorem gate_refuses_admin_on_scoped_routes_witness:
  "snd (snd (gate id demo_tokens server_access 0 (demo_q ''lab_vms.create_lab_vm'' (bearer_prefix @ ''m'') ''8080'') empty_host)) =
     Some (403, ''Forbidden'')"
  by (rule gate_refuses_admin_on_scoped_routes [where e = "''lab_vms.create_lab_vm''" and
        i = "\<lparr>id_scope = ''admin'', id_id = ''master'', id_name = ''master token (api.env)''\<rparr>"])
     (simp_all add: request_token_demo LAB_VM_REACHABLE_ENDPOINTS_def identify_def demo_tokens_def)

theorem bind_serves_only_allowlist_witness:
  "q_auth (demo_q ''lfs.next_task'' (bearer_prefix @ ''lv'') ''8083'') \<noteq> bearer_prefix @ tk_master demo_tokens"
proof -
  let ?q = "demo_q ''lfs.next_task'' (bearer_prefix @ ''lv'') ''8083''"
  have "snd (identify id demo_tokens 0 ''lv'' empty_host) =
      Some \<lparr>id_scope = ''labvm'', id_id = ''labvm-env'', id_name = ''labvm token (api.env)''\<rparr>"
    by (simp add: identify_def demo_authz_defs find_api_token_def find_peer_by_local_token_def)
  then have "snd (snd (gate id demo_tokens server_access 0 ?q empty_host)) = None"
    by (simp add: gate_admits request_token_demo server_access_cases endpoint_sets)
  then have "snd (snd (before_request id demo_tokens ''8082'' ''8083'' 0 ?q empty_host)) = None"
    by (simp add: before_request_def peer_bind_gate_def demo_tokens_def examples_bind_endpoints_def LFS_ENDPOINTS_def)
  from bind_serves_only_allowlist [OF this] show ?thesis by simp
qed

theorem master_token_passes_bind_with_space_witness:
  "\<exists>i. before_request id demo_tokens ''8082'' ''8083'' 0 (demo_q ''lfs.create_build'' (bearer_prefix @ '' '' @ ''m'') ''8083'') empty_host =
      (empty_host, Some i, None) \<and> id_scope i = ''admin'' \<and> id_id i = ''master''"
  by (rule master_token_passes_bind_with_space [where e = "''lfs.create_build''"])
     (simp_all add: demo_tokens_def py_strip_word LFS_ENDPOINTS_def)

theorem create_token_identifies_witness:
  "\<exists>ident. snd (identify id demo_tokens 5 ''ccl_R'' (fst (create_token id ''R'' ''t9'' 0
      \<lparr>tb_name = Some ''lab'', tb_scope = Some ''labvm'', tb_expires_days = None\<rparr> empty_host))) = Some ident \<and>
    id_id ident = ''t9'' \<and> id_scope ident = ''labvm''"
proof -
  let ?b = "\<lparr>tb_name = Some ''lab'', tb_scope = Some ''labvm'', tb_expires_days = None :: int option\<rparr>"
  have "py_strip ''lab'' = ''lab''" by (rule py_strip_word) (simp add: word_def is_space_def)
  then have "create_token id ''R'' ''t9'' 0 ?b empty_host = (fst (create_token id ''R'' ''t9'' 0 ?b empty_host), Reply 201 (''t9'', ''ccl_R''))"
    by (simp add: create_token_def Let_def)
  from create_token_identifies [OF this, of demo_tokens 5] show ?thesis
    by (simp add: demo_tokens_def empty_host_def, blast)
qed

theorem revoked_token_is_refused_witness:
  "snd (snd (gate id demo_tokens server_access 9 (demo_q ''lfs.next_task'' (bearer_prefix @ ''tok'') ''8080'')
      (fst (revoke_token 7 (k_id demo_token_row) (empty_host\<lparr>api_token_tbl := [demo_token_row]\<rparr>))))) = Some (401, ''Unauthorized'')"
  by (rule revoked_token_is_refused [where token = "''tok''" and e = "''lfs.next_task''"])
     (simp_all add: request_token_demo find_api_token_def find_client_token_def find_peer_by_local_token_def
      demo_token_row_def demo_tokens_def empty_host_def wf_table_def PUBLIC_def)

theorem master_token_fails_closed_witness:
  "''s3cret'' \<noteq> [] \<and> py_strip ''s3cret'' = ''s3cret''"
proof -
  have "py_strip ''s3cret'' = ''s3cret''" by (rule py_strip_word) (simp add: word_def is_space_def)
  then have "master_token [''CLOUDCORE_API_TOKEN'' \<mapsto> ''s3cret''] None = Some ''s3cret''"
    by (simp add: master_token_def cc_get_def is_retired_def)
  from master_token_fails_closed [OF this] show ?thesis by blast
qed

theorem audit_records_changes_witness:
  "\<exists>row. audit_tbl (audit 3 (demo_q ''create_vpc'' [] ''8080'') None 401 empty_host) = audit_tbl empty_host @ [row] \<and>
    a_status row = 401 \<and> a_endpoint row = ''create_vpc'' \<and> a_identity row = ''anonymous''"
proof -
  have "before_request id demo_tokens ''8082'' ''8083'' 0 (demo_q ''create_vpc'' [] ''8080'') empty_host =
      (empty_host, None, Some (401, ''Unauthorized''))"
    by (simp add: before_request_def peer_bind_gate_def gate_def allowed_def request_token_def startswith_def bearer_prefix_def
        identify_def PUBLIC_def)
  from audit_records_changes [OF _ _ _ this, of "''create_vpc''" 3 401] show ?thesis by auto
qed

end
