(* ===== verification/Ipaddress.thy ===== *)
theory Ipaddress
  imports Prelude
begin

text \<open>
  The part of Python's \<^verbatim>\<open>ipaddress\<close> that the sources use: \<^verbatim>\<open>ip_network(s, strict=False)\<close>
  with its IPv4 and IPv6 parsers, \<^verbatim>\<open>IPv4Address\<close> and \<^verbatim>\<open>subnet_of\<close>; and, on top of it,
  \<^verbatim>\<open>_cidr_contained\<close> of \<^verbatim>\<open>api/server.py\<close>, the check that a new subnet lies inside its VPC.
  \<open>None\<close> is \<^verbatim>\<open>ValueError\<close> (\<^verbatim>\<open>AddressValueError\<close> and \<^verbatim>\<open>NetmaskValueError\<close> are subclasses).
  The main result says that the check is containment of the two sets of addresses.
\<close>

unbundle bit_operations_syntax

section \<open>Addresses\<close>

definition parse_octet :: "string \<Rightarrow> int option" where
  "parse_octet s =
     (if s = [] then None
      else if \<not> (\<forall>c \<in> set s. is_digit c) then None
      else if length s > 3 then None
      else if s \<noteq> ''0'' \<and> hd s = CHR ''0'' then None
      else (case int_body s of None \<Rightarrow> None | Some n \<Rightarrow> if n > 255 then None else Some (int n)))"

definition parse_ipv4 :: "string \<Rightarrow> int option" where
  "parse_ipv4 s =
     (case map parse_octet (split_on (CHR ''.'') s) of
        [Some a, Some b, Some c, Some d] \<Rightarrow> Some (((a * 256 + b) * 256 + c) * 256 + d)
      | _ \<Rightarrow> None)"

definition hex_val :: "char \<Rightarrow> nat option" where
  "hex_val c = (let n = (of_char c :: nat) in
     if 48 \<le> n \<and> n \<le> 57 then Some (n - 48)
     else if 97 \<le> n \<and> n \<le> 102 then Some (n - 87)
     else if 65 \<le> n \<and> n \<le> 70 then Some (n - 55)
     else None)"

fun hex_digits :: "int \<Rightarrow> string \<Rightarrow> int option" where
  "hex_digits acc [] = Some acc"
| "hex_digits acc (c # cs) = (case hex_val c of None \<Rightarrow> None | Some v \<Rightarrow> hex_digits (acc * 16 + int v) cs)"

definition parse_hextet :: "string \<Rightarrow> int option" where
  "parse_hextet s = (if s = [] \<or> length s > 4 then None else hex_digits 0 s)"

fun hextets :: "int \<Rightarrow> string list \<Rightarrow> int option" where
  "hextets acc [] = Some acc"
| "hextets acc (p # ps) = (case parse_hextet p of None \<Rightarrow> None | Some h \<Rightarrow> hextets (acc * 65536 + h) ps)"

text \<open>A dotted tail is replaced by its two hextets; here they are kept as numbers.\<close>

definition inner_empty :: "string list \<Rightarrow> nat list" where
  "inner_empty ps = filter (\<lambda>i. ps ! i = []) [1..<length ps - 1]"

definition drop_edges :: "string list \<Rightarrow> string list \<Rightarrow> (string list \<times> string list) option" where
  "drop_edges hi lo =
     (if hi \<noteq> [] \<and> hd hi = [] \<and> length hi > 1 \<or> lo \<noteq> [] \<and> last lo = [] \<and> length lo > 1 then None
      else Some (if hi = [[]] then [] else hi, if lo = [[]] then [] else lo))"

definition parse_groups :: "string list \<Rightarrow> int option" where
  "parse_groups ps =
     (if length ps < 3 \<or> length ps > 9 then None
      else (case inner_empty ps of
          [] \<Rightarrow> if length ps \<noteq> 8 then None else hextets 0 ps
        | [i] \<Rightarrow>
            (case drop_edges (take i ps) (drop (Suc i) ps) of
               None \<Rightarrow> None
             | Some (hi, lo) \<Rightarrow>
                 if length hi + length lo > 7 then None
                 else (case hextets 0 hi of None \<Rightarrow> None
                   | Some h \<Rightarrow> hextets (h * 65536 ^ (8 - (length hi + length lo))) lo))
        | _ \<Rightarrow> None))"

fun show_hex :: "nat \<Rightarrow> nat \<Rightarrow> string" where
  "show_hex 0 n = []"
| "show_hex (Suc k) n = show_hex k (n div 16) @
     [char_of (if n mod 16 < 10 then 48 + n mod 16 else 87 + n mod 16)]"

definition expand_dotted :: "string list \<Rightarrow> string list option" where
  "expand_dotted ps =
     (if CHR ''.'' \<in> set (last ps) then
        (case parse_ipv4 (last ps) of None \<Rightarrow> None
         | Some a \<Rightarrow> Some (butlast ps @ [show_hex 4 (nat (a div 65536)), show_hex 4 (nat (a mod 65536))]))
      else Some ps)"

definition strip_scope :: "string \<Rightarrow> string option" where
  "strip_scope s =
     (if CHR ''%'' \<notin> set s then Some s
      else (let (a, sc) = split_once (CHR ''%'') s in
        if sc = [] \<or> CHR ''%'' \<in> set sc then None else Some a))"

definition parse_ipv6 :: "string \<Rightarrow> int option" where
  "parse_ipv6 s =
     (case strip_scope s of None \<Rightarrow> None
      | Some a \<Rightarrow>
         (let ps = split_on (CHR '':'') a in
          if length ps < 3 then None
          else (case expand_dotted ps of None \<Rightarrow> None | Some qs \<Rightarrow> parse_groups qs)))"

section \<open>Networks\<close>

datatype ip_version = V4 | V6

definition width :: "ip_version \<Rightarrow> nat" where
  "width v = (case v of V4 \<Rightarrow> 32 | V6 \<Rightarrow> 128)"

record network =
  version :: ip_version
  net_addr :: int
  prefixlen :: nat

definition all_ones :: "ip_version \<Rightarrow> int" where
  "all_ones v = 2 ^ width v - 1"

definition netmask :: "ip_version \<Rightarrow> nat \<Rightarrow> int" where
  "netmask v p = all_ones v XOR (drop_bit p (all_ones v))"

definition parse_prefix :: "ip_version \<Rightarrow> string \<Rightarrow> nat option" where
  "parse_prefix v s =
     (if s = [] \<or> \<not> (\<forall>c \<in> set s. is_digit c) then None
      else (case int_body s of None \<Rightarrow> None | Some n \<Rightarrow> if n \<le> width v then Some n else None))"

text \<open>The prefix length of a mask written as an address: the one whose mask it is
  (\<^verbatim>\<open>_prefix_from_ip_int\<close>), searched from the longest.\<close>

definition prefix_of_mask :: "int \<Rightarrow> nat option" where
  "prefix_of_mask m = find (\<lambda>p. netmask V4 p = m) (rev [0..<33])"

definition parse_mask :: "ip_version \<Rightarrow> string \<Rightarrow> nat option" where
  "parse_mask v s =
     (case parse_prefix v s of Some p \<Rightarrow> Some p
      | None \<Rightarrow>
         (case v of V6 \<Rightarrow> None
          | V4 \<Rightarrow> (case parse_ipv4 s of None \<Rightarrow> None
              | Some m \<Rightarrow> (case prefix_of_mask m of Some p \<Rightarrow> Some p
                  | None \<Rightarrow> prefix_of_mask (m XOR all_ones V4)))))"

definition parse_addr :: "ip_version \<Rightarrow> string \<Rightarrow> int option" where
  "parse_addr v s = (case v of V4 \<Rightarrow> parse_ipv4 s | V6 \<Rightarrow> parse_ipv6 s)"

definition make_network :: "ip_version \<Rightarrow> int \<Rightarrow> nat \<Rightarrow> network" where
  "make_network v a p = \<lparr>version = v, net_addr = a AND netmask v p, prefixlen = p\<rparr>"

definition parse_network :: "ip_version \<Rightarrow> string \<Rightarrow> network option" where
  "parse_network v s =
     (case split_on (CHR ''/'') s of
        [a] \<Rightarrow> map_option (\<lambda>x. make_network v x (width v)) (parse_addr v a)
      | [a, m] \<Rightarrow> (case (parse_addr v a, parse_mask v m) of
            (Some x, Some p) \<Rightarrow> Some (make_network v x p) | _ \<Rightarrow> None)
      | _ \<Rightarrow> None)"

definition ip_network :: "string \<Rightarrow> network option" where
  "ip_network s = (case parse_network V4 s of Some n \<Rightarrow> Some n | None \<Rightarrow> parse_network V6 s)"

definition broadcast :: "network \<Rightarrow> int" where
  "broadcast n = net_addr n OR (netmask (version n) (prefixlen n) XOR all_ones (version n))"

text \<open>\<^verbatim>\<open>a.subnet_of(b)\<close>; \<open>None\<close> is the \<^verbatim>\<open>TypeError\<close> for different versions.\<close>

definition subnet_of :: "network \<Rightarrow> network \<Rightarrow> bool option" where
  "subnet_of a b =
     (if version a \<noteq> version b then None
      else Some (net_addr b \<le> net_addr a \<and> broadcast b \<ge> broadcast a))"

section \<open>The check on a new subnet\<close>

text \<open>\<open>None\<close> is the \<^verbatim>\<open>TypeError\<close> that escapes: only \<^verbatim>\<open>ValueError\<close> is caught.\<close>

definition cidr_contained :: "string \<Rightarrow> string \<Rightarrow> bool option" where
  "cidr_contained parent_cidr child_cidr =
     (case ip_network parent_cidr of None \<Rightarrow> Some False
      | Some parent \<Rightarrow>
         (case ip_network child_cidr of None \<Rightarrow> Some False
          | Some child \<Rightarrow> subnet_of child parent))"

section \<open>Masks and address ranges\<close>

definition wf_network :: "network \<Rightarrow> bool" where
  "wf_network n \<longleftrightarrow> prefixlen n \<le> width (version n) \<and> 0 \<le> net_addr n \<and>
     net_addr n < 2 ^ width (version n) \<and> 2 ^ (width (version n) - prefixlen n) dvd net_addr n"

definition addresses :: "network \<Rightarrow> int set" where
  "addresses n = {x. 0 \<le> x \<and> x < 2 ^ width (version n) \<and> x AND netmask (version n) (prefixlen n) = net_addr n}"

lemma all_ones_mask: "all_ones v = mask (width v)"
  by (simp add: all_ones_def mask_eq_exp_minus_1)

lemma drop_bit_mask: "drop_bit p (mask w :: int) = mask (w - p)"
  by (rule bit_eqI) (auto simp: bit_simps)

lemma netmask_alt: "p \<le> width v \<Longrightarrow> netmask v p = mask (width v) AND NOT (mask (width v - p))"
  by (rule bit_eqI) (auto simp: netmask_def all_ones_mask drop_bit_mask bit_simps)

lemma and_not_mask: "x AND NOT (mask n) = x - x mod 2 ^ n" for x :: int
proof -
  have "x AND NOT (mask n) = push_bit n (drop_bit n x)"
    by (rule bit_eqI) (auto simp: bit_simps)
  also have "\<dots> = 2 ^ n * (x div 2 ^ n)" by (simp add: push_bit_eq_mult drop_bit_eq_div)
  also have "\<dots> = x - x mod 2 ^ n" by (simp add: minus_mod_eq_mult_div)
  finally show ?thesis .
qed

lemma and_netmask:
  assumes "p \<le> width v" "0 \<le> x" "x < 2 ^ width v"
  shows "x AND netmask v p = x - x mod 2 ^ (width v - p)"
proof -
  have "x AND mask (width v) = x"
    using assms(2, 3) by (simp add: take_bit_int_eq_self flip: take_bit_eq_mask)
  then have "x AND netmask v p = x AND NOT (mask (width v - p))"
    by (metis and.assoc netmask_alt [OF assms(1)])
  then show ?thesis by (simp add: and_not_mask)
qed

lemma broadcast_alt:
  assumes "wf_network n"
  shows "broadcast n = net_addr n + 2 ^ (width (version n) - prefixlen n) - 1"
proof -
  let ?k = "width (version n) - prefixlen n"
  have x: "netmask (version n) (prefixlen n) XOR all_ones (version n) = mask ?k"
    using assms
    by (intro bit_eqI) (auto simp: wf_network_def netmask_alt all_ones_mask bit_simps)
  have "net_addr n AND mask ?k = 0"
    using assms by (simp add: wf_network_def flip: take_bit_eq_mask) (simp add: take_bit_eq_mod)
  then have "net_addr n OR mask ?k = net_addr n + mask ?k" by (simp add: disjunctive_add_eq_or)
  then show ?thesis by (simp add: broadcast_def x mask_eq_exp_minus_1)
qed

text \<open>A well-formed network is the interval from its address to its broadcast address.\<close>

lemma sub_mod_eq_iff:
  fixes x a d :: int
  assumes "0 < d" "d dvd a"
  shows "x - x mod d = a \<longleftrightarrow> a \<le> x \<and> x \<le> a + d - 1"
proof
  assume "x - x mod d = a"
  then show "a \<le> x \<and> x \<le> a + d - 1"
    using assms(1) pos_mod_bound [of d x] pos_mod_sign [of d x] by linarith
next
  assume *: "a \<le> x \<and> x \<le> a + d - 1"
  obtain q where q: "a = d * q" using assms(2) by (auto simp: dvd_def)
  have "(x - a) mod d = x - a" using * assms(1) by (intro mod_pos_pos_trivial) auto
  moreover have "(x - a) mod d = x mod d" using q by (simp add: mod_diff_right_eq [symmetric])
  ultimately show "x - x mod d = a" by simp
qed

lemma addresses_interval:
  assumes "wf_network n"
  shows "addresses n = {net_addr n..broadcast n}"
proof -
  let ?w = "width (version n)" and ?d = "2 ^ (width (version n) - prefixlen n) :: int"
  have p: "prefixlen n \<le> ?w" and a: "0 \<le> net_addr n" "net_addr n < 2 ^ ?w" and d: "?d dvd net_addr n"
    using assms by (auto simp: wf_network_def)
  obtain q where q: "net_addr n = ?d * q" using d by (auto simp: dvd_def)
  have w: "(2::int) ^ ?w = ?d * 2 ^ prefixlen n" using p by (simp flip: power_add)
  have "q < 2 ^ prefixlen n" using a(2) unfolding q w by simp
  then have "?d * (q + 1) \<le> ?d * 2 ^ prefixlen n" by (intro mult_left_mono) auto
  then have top: "net_addr n + ?d \<le> 2 ^ ?w" using q w by (simp add: algebra_simps)
  have "x \<in> addresses n \<longleftrightarrow> net_addr n \<le> x \<and> x \<le> net_addr n + ?d - 1" for x
  proof -
    have iff: "x - x mod ?d = net_addr n \<longleftrightarrow> net_addr n \<le> x \<and> x \<le> net_addr n + ?d - 1"
      by (rule sub_mod_eq_iff) (use d in simp_all)
    show ?thesis
    proof (cases "0 \<le> x \<and> x < 2 ^ ?w")
      case True
      then have "x AND netmask (version n) (prefixlen n) = x - x mod ?d" by (intro and_netmask p) auto
      with True iff show ?thesis by (simp only: addresses_def mem_Collect_eq simp_thms)
    next
      case False
      then have "x \<notin> addresses n" unfolding addresses_def by blast
      moreover have "\<not> (net_addr n \<le> x \<and> x \<le> net_addr n + ?d - 1)" using False a top by linarith
      ultimately show ?thesis by blast
    qed
  qed
  then show ?thesis unfolding broadcast_alt [OF assms] by (simp add: set_eq_iff)
qed

lemma addresses_nonempty: "wf_network n \<Longrightarrow> net_addr n \<le> broadcast n"
  by (simp add: broadcast_alt)

lemma subnet_of_addresses:
  assumes "wf_network a" "wf_network b" "version a = version b"
  shows "subnet_of a b = Some (addresses a \<subseteq> addresses b)"
  using assms addresses_nonempty [OF assms(1)]
  by (simp add: subnet_of_def addresses_interval)

section \<open>Parsed networks are well-formed\<close>

lemma parse_octet_bound: "parse_octet s = Some n \<Longrightarrow> 0 \<le> n \<and> n \<le> 255"
  by (auto simp: parse_octet_def split: if_splits option.splits)

lemma parse_ipv4_bound:
  assumes "parse_ipv4 s = Some n"
  shows "0 \<le> n \<and> n < 2 ^ 32"
proof -
  obtain a b c d where "map parse_octet (split_on (CHR ''.'') s) = [Some a, Some b, Some c, Some d]"
    and n: "n = ((a * 256 + b) * 256 + c) * 256 + d"
    using assms by (auto simp: parse_ipv4_def split: list.splits option.splits)
  then have "0 \<le> a \<and> a \<le> 255" "0 \<le> b \<and> b \<le> 255" "0 \<le> c \<and> c \<le> 255" "0 \<le> d \<and> d \<le> 255"
    using parse_octet_bound by (auto simp: map_eq_Cons_conv)
  then show ?thesis unfolding n by simp
qed

lemma hex_val_bound: "hex_val c = Some v \<Longrightarrow> v < 16"
  by (auto simp: hex_val_def Let_def split: if_splits)

lemma base_step:
  fixes acc v b :: int
  assumes "0 \<le> acc" "acc < b ^ k" "0 \<le> v" "v < b"
  shows "0 \<le> acc * b + v \<and> acc * b + v < b ^ Suc k"
proof -
  have "acc * b + v < (acc + 1) * b" using assms by (simp add: algebra_simps)
  also have "\<dots> \<le> b ^ k * b" using assms by (intro mult_right_mono) auto
  finally show ?thesis using assms by (simp add: mult.commute)
qed

lemma hex_digits_bound:
  assumes "hex_digits acc s = Some n" "0 \<le> acc" "acc < 16 ^ k"
  shows "0 \<le> n \<and> n < 16 ^ (k + length s)"
  using assms
proof (induction s arbitrary: acc k)
  case (Cons c cs)
  then obtain v where v: "hex_val c = Some v" "hex_digits (acc * 16 + int v) cs = Some n"
    by (auto split: option.splits)
  with hex_val_bound have "int v < 16" by fastforce
  then show ?case
    using Cons.IH [OF v(2), of "Suc k"] base_step [of acc 16 k "int v"] Cons.prems by simp
qed simp

lemma parse_hextet_bound:
  assumes "parse_hextet s = Some n"
  shows "0 \<le> n \<and> n < 65536"
proof -
  have l: "length s \<le> 4" and h: "hex_digits 0 s = Some n"
    using assms by (auto simp: parse_hextet_def split: if_splits)
  have "0 \<le> n \<and> n < 16 ^ (0 + length s)" using h by (rule hex_digits_bound) auto
  moreover have "(16::int) ^ length s \<le> 16 ^ 4" using l by (intro power_increasing) auto
  ultimately show ?thesis by simp
qed

lemma hextets_bound:
  assumes "hextets acc ps = Some n" "0 \<le> acc" "acc < 65536 ^ k"
  shows "0 \<le> n \<and> n < 65536 ^ (k + length ps)"
  using assms
proof (induction ps arbitrary: acc k)
  case (Cons p ps)
  then obtain h where h: "parse_hextet p = Some h" "hextets (acc * 65536 + h) ps = Some n"
    by (auto split: option.splits)
  then show ?case
    using Cons.IH [OF h(2), of "Suc k"] base_step [of acc 65536 k h] parse_hextet_bound [OF h(1)]
      Cons.prems by simp
qed simp

lemma compressed_bound:
  assumes h: "hextets 0 hi = Some h" and l: "hextets (h * 65536 ^ (8 - (length hi + length lo))) lo = Some n"
    and len: "length hi + length lo \<le> 7"
  shows "0 \<le> n \<and> n < 65536 ^ 8"
proof -
  let ?s = "8 - (length hi + length lo)"
  have "0 \<le> h \<and> h < 65536 ^ (0 + length hi)" by (rule hextets_bound [OF h]) auto
  then have "0 \<le> h * 65536 ^ ?s" "h * 65536 ^ ?s < 65536 ^ (length hi + ?s)"
    by (simp_all add: power_add)
  then have "0 \<le> n \<and> n < 65536 ^ (length hi + ?s + length lo)" by (rule hextets_bound [OF l])
  then show ?thesis using len by simp
qed

lemma parse_groups_bound:
  assumes "parse_groups ps = Some n"
  shows "0 \<le> n \<and> n < 2 ^ 128"
proof -
  have "0 \<le> n \<and> n < 65536 ^ 8"
  proof (cases "inner_empty ps")
    case Nil
    then have "hextets 0 ps = Some n" "length ps = 8"
      using assms by (auto simp: parse_groups_def split: if_splits)
    then show ?thesis using hextets_bound [of 0 ps n 0] by simp
  next
    case (Cons i js)
    then obtain hi lo h where "hextets 0 hi = Some h" "length hi + length lo \<le> 7"
      "hextets (h * 65536 ^ (8 - (length hi + length lo))) lo = Some n"
      using assms
      by (auto simp: parse_groups_def not_less split: if_splits option.splits list.splits)
    then show ?thesis using compressed_bound by blast
  qed
  then show ?thesis by simp
qed

lemma parse_addr_bound: "parse_addr v s = Some n \<Longrightarrow> 0 \<le> n \<and> n < 2 ^ width v"
proof (cases v)
  case V6
  assume "parse_addr v s = Some n"
  with V6 obtain qs where "parse_groups qs = Some n"
    by (auto simp: parse_addr_def parse_ipv6_def Let_def split: option.splits if_splits)
  then show ?thesis using parse_groups_bound V6 by (simp add: width_def)
qed (use parse_ipv4_bound in \<open>auto simp: parse_addr_def width_def\<close>)

lemma parse_mask_bound: "parse_mask v s = Some p \<Longrightarrow> p \<le> width v"
proof -
  have "p \<le> 32" if "prefix_of_mask m = Some p" for m
    using that by (auto simp: prefix_of_mask_def find_Some_iff rev_nth)
  moreover have "p \<le> width v" if "parse_prefix v s = Some p"
    using that by (auto simp: parse_prefix_def split: if_splits option.splits)
  moreover assume "parse_mask v s = Some p"
  ultimately show ?thesis
    by (auto simp: parse_mask_def width_def split: option.splits ip_version.splits)
qed

lemma wf_make_network:
  assumes "0 \<le> x" "x < 2 ^ width v" "p \<le> width v"
  shows "wf_network (make_network v x p)"
proof -
  let ?d = "2 ^ (width v - p) :: int"
  have "x AND netmask v p = x - x mod ?d" using assms by (intro and_netmask)
  moreover have "?d dvd x - x mod ?d" by (rule dvd_minus_mod)
  moreover have "x mod ?d \<le> x" using assms(1) by (intro zmod_le_nonneg_dividend)
  moreover have "x - x mod ?d < 2 ^ width v"
  proof -
    have "0 \<le> x mod ?d" by (rule pos_mod_sign) simp
    with assms(2) show ?thesis by linarith
  qed
  ultimately show ?thesis using assms by (simp add: wf_network_def make_network_def)
qed

lemma wf_parse_network: "parse_network v s = Some n \<Longrightarrow> wf_network n \<and> version n = v"
  by (auto simp: parse_network_def wf_make_network parse_addr_bound parse_mask_bound make_network_def
      split: list.splits option.splits intro!: wf_make_network [unfolded make_network_def]
      dest!: parse_addr_bound parse_mask_bound)

lemma wf_ip_network: "ip_network s = Some n \<Longrightarrow> wf_network n"
  by (auto simp: ip_network_def wf_parse_network split: option.splits dest: wf_parse_network)

section \<open>Properties\<close>

lemma cidr_contained_addresses:
  "cidr_contained parent_cidr child_cidr = Some True \<longleftrightarrow>
     (\<exists>p c. ip_network parent_cidr = Some p \<and> ip_network child_cidr = Some c \<and>
       version p = version c \<and> addresses c \<subseteq> addresses p)"
proof (cases "ip_network parent_cidr"; cases "ip_network child_cidr")
  fix p c
  assume *: "ip_network parent_cidr = Some p" "ip_network child_cidr = Some c"
  then show ?thesis
    using subnet_of_addresses [of c p] wf_ip_network
    by (cases "version c = version p") (auto simp: cidr_contained_def subnet_of_def)
qed (simp_all add: cidr_contained_def)

text \<open>
  \<^verbatim>\<open>_cidr_contained\<close> accepts a subnet block exactly when both blocks are valid networks of
  the same IP version and every address of the subnet is an address of the VPC.  It does not
  return but raises \<^verbatim>\<open>TypeError\<close> exactly when both blocks are valid and of different IP versions, so
  a subnet request with an IPv6 block in an IPv4 VPC is answered by a server error instead of the
  400 of the handler.
\<close>

theorem cidr_contained_spec:
  "(cidr_contained parent_cidr child_cidr = Some True \<longleftrightarrow>
     (\<exists>p c. ip_network parent_cidr = Some p \<and> ip_network child_cidr = Some c \<and>
       version p = version c \<and> addresses c \<subseteq> addresses p)) \<and>
   (cidr_contained parent_cidr child_cidr = None \<longleftrightarrow>
     (\<exists>p c. ip_network parent_cidr = Some p \<and> ip_network child_cidr = Some c \<and> version p \<noteq> version c))"
proof
  show "cidr_contained parent_cidr child_cidr = None \<longleftrightarrow>
      (\<exists>p c. ip_network parent_cidr = Some p \<and> ip_network child_cidr = Some c \<and> version p \<noteq> version c)"
    by (auto simp: cidr_contained_def subnet_of_def split: option.splits)
qed (rule cidr_contained_addresses)

end
