(* ===== verification/Network.thy ===== *)
theory Network
  imports Peers Ipaddress
begin

text \<open>
  The VPC, subnet, internet-gateway and route-table routes of \<^verbatim>\<open>api/server.py\<close>.  A request body is
  a record with an option per key; \<open>nid\<close> and \<open>now\<close> are the identifier and the time that the
  dataclass defaults take.  A resource placed on a peer is proxied: \<open>post\<close>, \<open>get\<close>, \<open>put\<close> and \<open>del\<close>
  stand for \<^verbatim>\<open>peer_client\<close>; the reply of a peer is read through the record of the keys the code
  takes from it (a reply to a create carries an identifier).  \<open>None\<close> in a reply view's second
  component means that \<^verbatim>\<open>host_hostname\<close> is not added.
\<close>

section \<open>Peers of a request\<close>

definition approved_peer :: "host \<Rightarrow> string \<Rightarrow> peer option" where
  "approved_peer h pid =
     (case get_peer h pid of None \<Rightarrow> None | Some p \<Rightarrow> if p_status p \<noteq> Approved then None else Some p)"

definition host_hostname :: "host \<Rightarrow> string option \<Rightarrow> string option" where
  "host_hostname h hid =
     (if truthy hid then Some (case get_peer h (the hid) of None \<Rightarrow> [] | Some p \<Rightarrow> p_hostname p) else None)"

definition opt :: "'a option \<Rightarrow> 'a \<Rightarrow> 'a" where
  "opt v d = (case v of None \<Rightarrow> d | Some x \<Rightarrow> x)"

lemma opt_simps [simp]: "opt None d = d" "opt (Some x) d = x"
  by (simp_all add: opt_def)

section \<open>VPCs\<close>

record vpc_body =
  vb_name :: "string option"
  vb_peer_id :: "string option"
  vb_cidr_block :: "string option"
  vb_dns_support :: "bool option"
  vb_tags :: "tags option"

record vpc_remote =
  vr_id :: string
  vr_name :: "string option"
  vr_cidr_block :: "string option"
  vr_dns_support :: "bool option"
  vr_created_at :: "instant option"
  vr_tags :: "tags option"

type_synonym vpc_view = "vpc \<times> string option"

definition vpc_dict :: "host \<Rightarrow> vpc \<Rightarrow> vpc_view" where
  "vpc_dict h v = (v, host_hostname h (v_host_id v))"

definition save_vpc :: "vpc \<Rightarrow> host \<Rightarrow> host" where
  "save_vpc v h = h\<lparr>vpc_tbl := put_vpc (vpc_tbl h) v\<rparr>"

definition list_vpcs :: "host \<Rightarrow> vpc_view list reply" where
  "list_vpcs h = Reply 200 (map (vpc_dict h) (store_list_vpcs (vpc_tbl h)))"

definition create_remote_vpc ::
    "(string \<Rightarrow> vpc_body \<Rightarrow> string option \<Rightarrow> vpc_remote peer_result) \<Rightarrow> instant \<Rightarrow> string \<Rightarrow> vpc_body \<Rightarrow> host \<Rightarrow>
     host \<times> vpc_view reply" where
  "create_remote_vpc post now peer_id body h =
     (case approved_peer h peer_id of
        None \<Rightarrow> (h, Problem 400 ''Bad Request'')
      | Some p \<Rightarrow>
         (case post (p_api_url p @ ''/v1/vpcs'') (body\<lparr>vb_peer_id := None\<rparr>) (p_remote_token p) of
            PeerUnreachable \<Rightarrow> (h, Problem 502 ''Bad Gateway'')
          | PeerResponse st remote \<Rightarrow>
              if st \<noteq> 201 then (h, Problem st ''Bad Gateway'')
              else
                (let vpc = \<lparr>v_id = vr_id remote, v_name = opt (vr_name remote) (opt (vb_name body) []),
                       v_cidr_block = opt (vr_cidr_block remote) [], v_dns_support = opt (vr_dns_support remote) True,
                       v_status = Active, v_created_at = opt (vr_created_at remote) now,
                       v_tags = opt (vr_tags remote) [], v_host_id = Some peer_id\<rparr>;
                     h1 = save_vpc vpc h
                 in (h1, Reply 201 (vpc_dict h1 vpc)))))"

definition create_vpc ::
    "(string \<Rightarrow> vpc_body \<Rightarrow> string option \<Rightarrow> vpc_remote peer_result) \<Rightarrow> string \<Rightarrow> instant \<Rightarrow> vpc_body \<Rightarrow> host \<Rightarrow>
     host \<times> vpc_view reply" where
  "create_vpc post nid now body h =
     (let name = py_strip (opt (vb_name body) []) in
      if name = [] then (h, Problem 400 ''Bad Request'')
      else if truthy (vb_peer_id body) then create_remote_vpc post now (the (vb_peer_id body)) body h
      else if find_vpc_by_name (vpc_tbl h) name \<noteq> None then (h, Problem 409 ''Conflict'')
      else
        (let vpc = \<lparr>v_id = nid, v_name = name, v_cidr_block = opt (vb_cidr_block body) ''10.0.0.0/16'',
               v_dns_support = opt (vb_dns_support body) True, v_status = Active, v_created_at = now,
               v_tags = opt (vb_tags body) [], v_host_id = None\<rparr>;
             h1 = save_vpc vpc h
         in (h1, Reply 201 (vpc_dict h1 vpc))))"

text \<open>The object the handler goes on with, and the state.\<close>

definition refresh_remote_vpc ::
    "(string \<Rightarrow> string option \<Rightarrow> vpc_remote peer_result) \<Rightarrow> vpc \<Rightarrow> host \<Rightarrow> host \<times> vpc" where
  "refresh_remote_vpc get vpc h =
     (case approved_peer h (opt (v_host_id vpc) []) of
        None \<Rightarrow> (h, vpc)
      | Some p \<Rightarrow>
         (case get (p_api_url p @ ''/v1/vpcs/'' @ v_id vpc) (p_remote_token p) of
            PeerUnreachable \<Rightarrow> (h, vpc)
          | PeerResponse st remote \<Rightarrow>
              if st = 404 then (let v = vpc\<lparr>v_status := Deleted\<rparr> in (save_vpc v h, v))
              else if st \<noteq> 200 then (h, vpc)
              else (let v = vpc\<lparr>v_name := opt (vr_name remote) (v_name vpc),
                          v_dns_support := opt (vr_dns_support remote) (v_dns_support vpc),
                          v_tags := opt (vr_tags remote) (v_tags vpc)\<rparr>
                    in (save_vpc v h, v))))"

definition get_vpc ::
    "(string \<Rightarrow> string option \<Rightarrow> vpc_remote peer_result) \<Rightarrow> string \<Rightarrow> host \<Rightarrow> host \<times> vpc_view reply" where
  "get_vpc get vpc_id h =
     (case store_get_vpc (vpc_tbl h) vpc_id of
        None \<Rightarrow> (h, Problem 404 ''Not Found'')
      | Some vpc \<Rightarrow>
         (let (h1, v) = (if truthy (v_host_id vpc) then refresh_remote_vpc get vpc h else (h, vpc))
          in (h1, Reply 200 (vpc_dict h1 v))))"

definition update_remote_vpc ::
    "(string \<Rightarrow> vpc_body \<Rightarrow> string option \<Rightarrow> vpc_remote peer_result) \<Rightarrow> vpc \<Rightarrow> vpc_body \<Rightarrow> host \<Rightarrow> host \<times> vpc_view reply" where
  "update_remote_vpc put vpc body h =
     (case approved_peer h (opt (v_host_id vpc) []) of
        None \<Rightarrow> (h, Problem 502 ''Bad Gateway'')
      | Some p \<Rightarrow>
         (case put (p_api_url p @ ''/v1/vpcs/'' @ v_id vpc) body (p_remote_token p) of
            PeerUnreachable \<Rightarrow> (h, Problem 502 ''Bad Gateway'')
          | PeerResponse st remote \<Rightarrow>
              if st \<noteq> 200 then (h, Problem st ''Bad Gateway'')
              else (let v = vpc\<lparr>v_name := opt (vr_name remote) (v_name vpc),
                          v_dns_support := opt (vr_dns_support remote) (v_dns_support vpc),
                          v_tags := opt (vr_tags remote) (v_tags vpc)\<rparr>;
                        h1 = save_vpc v h
                    in (h1, Reply 200 (vpc_dict h1 v)))))"

definition update_vpc ::
    "(string \<Rightarrow> vpc_body \<Rightarrow> string option \<Rightarrow> vpc_remote peer_result) \<Rightarrow> string \<Rightarrow> vpc_body \<Rightarrow> host \<Rightarrow> host \<times> vpc_view reply" where
  "update_vpc put vpc_id body h =
     (case store_get_vpc (vpc_tbl h) vpc_id of
        None \<Rightarrow> (h, Problem 404 ''Not Found'')
      | Some vpc \<Rightarrow>
          if truthy (v_host_id vpc) then update_remote_vpc put vpc body h
          else (let v = vpc\<lparr>v_name := opt (vb_name body) (v_name vpc),
                      v_dns_support := opt (vb_dns_support body) (v_dns_support vpc),
                      v_tags := opt (vb_tags body) (v_tags vpc)\<rparr>;
                    h1 = save_vpc v h
                in (h1, Reply 200 (vpc_dict h1 v))))"

definition drop_vpc :: "string \<Rightarrow> host \<Rightarrow> host" where
  "drop_vpc i h = h\<lparr>vpc_tbl := fst (store_delete_vpc (vpc_tbl h) i)\<rparr>"

definition delete_remote_vpc ::
    "(string \<Rightarrow> string option \<Rightarrow> unit peer_result) \<Rightarrow> vpc \<Rightarrow> host \<Rightarrow> host \<times> unit reply" where
  "delete_remote_vpc del vpc h =
     (case approved_peer h (opt (v_host_id vpc) []) of
        None \<Rightarrow> (h, Problem 502 ''Bad Gateway'')
      | Some p \<Rightarrow>
         (case del (p_api_url p @ ''/v1/vpcs/'' @ v_id vpc) (p_remote_token p) of
            PeerUnreachable \<Rightarrow> (h, Problem 502 ''Bad Gateway'')
          | PeerResponse st _ \<Rightarrow>
              if st \<notin> {204, 404} then (h, Problem st ''Bad Gateway'')
              else (drop_vpc (v_id vpc) h, NoContent 204)))"

definition delete_vpc ::
    "(string \<Rightarrow> string option \<Rightarrow> unit peer_result) \<Rightarrow> string \<Rightarrow> host \<Rightarrow> host \<times> unit reply" where
  "delete_vpc del vpc_id h =
     (case store_get_vpc (vpc_tbl h) vpc_id of
        None \<Rightarrow> (h, Problem 404 ''Not Found'')
      | Some vpc \<Rightarrow>
          if truthy (v_host_id vpc) then delete_remote_vpc del vpc h
          else if list_instances_by_vpc (instance_tbl h) vpc_id \<noteq> [] then (h, Problem 409 ''Conflict'')
          else if filter (\<lambda>b. lb_vpc_id b = vpc_id) (store_list_lbs (lb_tbl h)) \<noteq> [] then (h, Problem 409 ''Conflict'')
          else if filter (\<lambda>g. g_vpc_id g = vpc_id \<and> g_status g = Active) (store_list_sgs (sg_tbl h)) \<noteq> [] then
            (h, Problem 409 ''Conflict'')
          else if store_list_subnets_by_vpc (subnet_tbl h) vpc_id \<noteq> [] then (h, Problem 409 ''Conflict'')
          else if \<not> snd (store_delete_vpc (vpc_tbl h) vpc_id) then (h, Problem 404 ''Not Found'')
          else (drop_vpc vpc_id h, NoContent 204))"

section \<open>Subnets\<close>

record subnet_body =
  sb_name :: "string option"
  sb_vpc_id :: "string option"
  sb_cidr_block :: "string option"
  sb_peer_id :: "string option"
  sb_public :: "bool option"
  sb_zone :: "string option"
  sb_tags :: "tags option"

record subnet_remote =
  sx_id :: string
  sx_name :: "string option"
  sx_vpc_id :: "string option"
  sx_cidr_block :: "string option"
  sx_public :: "bool option"
  sx_zone :: "string option"
  sx_created_at :: "instant option"
  sx_tags :: "tags option"

type_synonym subnet_view = "subnet \<times> string option"

definition subnet_dict :: "host \<Rightarrow> subnet \<Rightarrow> subnet_view" where
  "subnet_dict h s = (s, host_hostname h (s_host_id s))"

definition save_subnet :: "subnet \<Rightarrow> host \<Rightarrow> host" where
  "save_subnet s h = h\<lparr>subnet_tbl := put_subnet (subnet_tbl h) s\<rparr>"

definition list_subnets :: "string option \<Rightarrow> host \<Rightarrow> subnet_view list reply" where
  "list_subnets vpc_id h =
     Reply 200 (map (subnet_dict h) (if truthy vpc_id then store_list_subnets_by_vpc (subnet_tbl h) (the vpc_id)
       else store_list_subnets (subnet_tbl h)))"

definition create_remote_subnet ::
    "(string \<Rightarrow> subnet_body \<Rightarrow> string option \<Rightarrow> subnet_remote peer_result) \<Rightarrow> instant \<Rightarrow> string \<Rightarrow> subnet_body \<Rightarrow> host \<Rightarrow>
     host \<times> subnet_view reply" where
  "create_remote_subnet post now peer_id body h =
     (case approved_peer h peer_id of
        None \<Rightarrow> (h, Problem 400 ''Bad Request'')
      | Some p \<Rightarrow>
         (case post (p_api_url p @ ''/v1/subnets'') (body\<lparr>sb_peer_id := None\<rparr>) (p_remote_token p) of
            PeerUnreachable \<Rightarrow> (h, Problem 502 ''Bad Gateway'')
          | PeerResponse st remote \<Rightarrow>
              if st \<noteq> 201 then (h, Problem st ''Bad Gateway'')
              else
                (let s = \<lparr>s_id = sx_id remote, s_name = opt (sx_name remote) (opt (sb_name body) []),
                       s_vpc_id = opt (sx_vpc_id remote) (opt (sb_vpc_id body) []),
                       s_cidr_block = opt (sx_cidr_block remote) (opt (sb_cidr_block body) []),
                       s_public = opt (sx_public remote) (opt (sb_public body) False),
                       s_zone = opt (sx_zone remote) (opt (sb_zone body) ''a''),
                       s_status = Active, s_created_at = opt (sx_created_at remote) now,
                       s_tags = opt (sx_tags remote) [], s_host_id = Some peer_id\<rparr>;
                     h1 = save_subnet s h
                 in (h1, Reply 201 (subnet_dict h1 s)))))"

definition create_subnet ::
    "(string \<Rightarrow> subnet_body \<Rightarrow> string option \<Rightarrow> subnet_remote peer_result) \<Rightarrow> string \<Rightarrow> instant \<Rightarrow> subnet_body \<Rightarrow> host \<Rightarrow>
     host \<times> subnet_view reply" where
  "create_subnet post nid now body h =
     (if \<not> (truthy (sb_name body) \<and> truthy (sb_vpc_id body) \<and> truthy (sb_cidr_block body)) then
        (h, Problem 400 ''Bad Request'')
      else if truthy (sb_peer_id body) then create_remote_subnet post now (the (sb_peer_id body)) body h
      else
        (case store_get_vpc (vpc_tbl h) (the (sb_vpc_id body)) of
           None \<Rightarrow> (h, Problem 404 ''Not Found'')
         | Some vpc \<Rightarrow>
            (case cidr_contained (v_cidr_block vpc) (the (sb_cidr_block body)) of
               None \<Rightarrow> (h, Problem 500 ''Internal Server Error'')
             | Some False \<Rightarrow> (h, Problem 400 ''Bad Request'')
             | Some True \<Rightarrow>
                 if find_subnet_by_name (subnet_tbl h) (the (sb_name body)) \<noteq> None then (h, Problem 409 ''Conflict'')
                 else
                   (let s = \<lparr>s_id = nid, s_name = the (sb_name body), s_vpc_id = the (sb_vpc_id body),
                          s_cidr_block = the (sb_cidr_block body), s_public = opt (sb_public body) False,
                          s_zone = opt (sb_zone body) ''a'', s_status = Active, s_created_at = now,
                          s_tags = opt (sb_tags body) [], s_host_id = None\<rparr>;
                        h1 = save_subnet s h
                    in (h1, Reply 201 (subnet_dict h1 s))))))"

definition refresh_remote_subnet ::
    "(string \<Rightarrow> string option \<Rightarrow> subnet_remote peer_result) \<Rightarrow> subnet \<Rightarrow> host \<Rightarrow> host \<times> subnet" where
  "refresh_remote_subnet get s h =
     (case approved_peer h (opt (s_host_id s) []) of
        None \<Rightarrow> (h, s)
      | Some p \<Rightarrow>
         (case get (p_api_url p @ ''/v1/subnets/'' @ s_id s) (p_remote_token p) of
            PeerUnreachable \<Rightarrow> (h, s)
          | PeerResponse st remote \<Rightarrow>
              if st = 404 then (let s' = s\<lparr>s_status := Deleted\<rparr> in (save_subnet s' h, s'))
              else if st \<noteq> 200 then (h, s)
              else (let s' = s\<lparr>s_name := opt (sx_name remote) (s_name s), s_public := opt (sx_public remote) (s_public s),
                          s_zone := opt (sx_zone remote) (s_zone s), s_tags := opt (sx_tags remote) (s_tags s)\<rparr>
                    in (save_subnet s' h, s'))))"

definition get_subnet ::
    "(string \<Rightarrow> string option \<Rightarrow> subnet_remote peer_result) \<Rightarrow> string \<Rightarrow> host \<Rightarrow> host \<times> subnet_view reply" where
  "get_subnet get subnet_id h =
     (case store_get_subnet (subnet_tbl h) subnet_id of
        None \<Rightarrow> (h, Problem 404 ''Not Found'')
      | Some s \<Rightarrow>
         (let (h1, s') = (if truthy (s_host_id s) then refresh_remote_subnet get s h else (h, s))
          in (h1, Reply 200 (subnet_dict h1 s'))))"

definition update_remote_subnet ::
    "(string \<Rightarrow> subnet_body \<Rightarrow> string option \<Rightarrow> subnet_remote peer_result) \<Rightarrow> subnet \<Rightarrow> subnet_body \<Rightarrow> host \<Rightarrow>
     host \<times> subnet_view reply" where
  "update_remote_subnet put s body h =
     (case approved_peer h (opt (s_host_id s) []) of
        None \<Rightarrow> (h, Problem 502 ''Bad Gateway'')
      | Some p \<Rightarrow>
         (case put (p_api_url p @ ''/v1/subnets/'' @ s_id s) body (p_remote_token p) of
            PeerUnreachable \<Rightarrow> (h, Problem 502 ''Bad Gateway'')
          | PeerResponse st remote \<Rightarrow>
              if st \<noteq> 200 then (h, Problem st ''Bad Gateway'')
              else (let s' = s\<lparr>s_name := opt (sx_name remote) (s_name s), s_public := opt (sx_public remote) (s_public s),
                          s_zone := opt (sx_zone remote) (s_zone s), s_tags := opt (sx_tags remote) (s_tags s)\<rparr>;
                        h1 = save_subnet s' h
                    in (h1, Reply 200 (subnet_dict h1 s')))))"

definition update_subnet ::
    "(string \<Rightarrow> subnet_body \<Rightarrow> string option \<Rightarrow> subnet_remote peer_result) \<Rightarrow> string \<Rightarrow> subnet_body \<Rightarrow> host \<Rightarrow>
     host \<times> subnet_view reply" where
  "update_subnet put subnet_id body h =
     (case store_get_subnet (subnet_tbl h) subnet_id of
        None \<Rightarrow> (h, Problem 404 ''Not Found'')
      | Some s \<Rightarrow>
          if truthy (s_host_id s) then update_remote_subnet put s body h
          else (let s' = s\<lparr>s_name := opt (sb_name body) (s_name s), s_public := opt (sb_public body) (s_public s),
                      s_zone := opt (sb_zone body) (s_zone s), s_tags := opt (sb_tags body) (s_tags s)\<rparr>;
                    h1 = save_subnet s' h
                in (h1, Reply 200 (subnet_dict h1 s'))))"

definition drop_subnet :: "string \<Rightarrow> host \<Rightarrow> host" where
  "drop_subnet i h = h\<lparr>subnet_tbl := fst (store_delete_subnet (subnet_tbl h) i)\<rparr>"

definition delete_remote_subnet ::
    "(string \<Rightarrow> string option \<Rightarrow> unit peer_result) \<Rightarrow> subnet \<Rightarrow> host \<Rightarrow> host \<times> unit reply" where
  "delete_remote_subnet del s h =
     (case approved_peer h (opt (s_host_id s) []) of
        None \<Rightarrow> (h, Problem 502 ''Bad Gateway'')
      | Some p \<Rightarrow>
         (case del (p_api_url p @ ''/v1/subnets/'' @ s_id s) (p_remote_token p) of
            PeerUnreachable \<Rightarrow> (h, Problem 502 ''Bad Gateway'')
          | PeerResponse st _ \<Rightarrow>
              if st \<notin> {204, 404} then (h, Problem st ''Bad Gateway'')
              else (drop_subnet (s_id s) h, NoContent 204)))"

definition delete_subnet ::
    "(string \<Rightarrow> string option \<Rightarrow> unit peer_result) \<Rightarrow> string \<Rightarrow> host \<Rightarrow> host \<times> unit reply" where
  "delete_subnet del subnet_id h =
     (case store_get_subnet (subnet_tbl h) subnet_id of
        None \<Rightarrow> (h, Problem 404 ''Not Found'')
      | Some s \<Rightarrow>
          if truthy (s_host_id s) then delete_remote_subnet del s h
          else if filter (\<lambda>i. i_subnet_id i = subnet_id) (list_instances_by_vpc (instance_tbl h) (s_vpc_id s)) \<noteq> [] then
            (h, Problem 409 ''Conflict'')
          else if \<not> snd (store_delete_subnet (subnet_tbl h) subnet_id) then (h, Problem 404 ''Not Found'')
          else (drop_subnet subnet_id h, NoContent 204))"

section \<open>Internet gateways\<close>

record igw_body =
  wb_name :: "string option"
  wb_vpc_id :: "string option"
  wb_tags :: "tags option"

definition list_igws :: "string option \<Rightarrow> host \<Rightarrow> internet_gateway list reply" where
  "list_igws vpc_id h = Reply 200 (if truthy vpc_id then store_list_igws_by_vpc (igw_tbl h) (the vpc_id)
     else store_list_igws (igw_tbl h))"

definition create_igw :: "string \<Rightarrow> instant \<Rightarrow> igw_body \<Rightarrow> host \<Rightarrow> host \<times> internet_gateway reply" where
  "create_igw nid now body h =
     (if \<not> (truthy (wb_name body) \<and> truthy (wb_vpc_id body)) then (h, Problem 400 ''Bad Request'')
      else if store_get_vpc (vpc_tbl h) (the (wb_vpc_id body)) = None then (h, Problem 404 ''Not Found'')
      else if find_igw_by_name (igw_tbl h) (the (wb_name body)) \<noteq> None then (h, Problem 409 ''Conflict'')
      else (let w = \<lparr>w_id = nid, w_name = the (wb_name body), w_vpc_id = the (wb_vpc_id body), w_status = Active,
                  w_created_at = now, w_tags = opt (wb_tags body) []\<rparr>
            in (h\<lparr>igw_tbl := put_igw (igw_tbl h) w\<rparr>, Reply 201 w)))"

definition get_igw :: "string \<Rightarrow> host \<Rightarrow> internet_gateway reply" where
  "get_igw igw_id h = (case store_get_igw (igw_tbl h) igw_id of
     None \<Rightarrow> Problem 404 ''Not Found'' | Some w \<Rightarrow> Reply 200 w)"

definition update_igw :: "string \<Rightarrow> igw_body \<Rightarrow> host \<Rightarrow> host \<times> internet_gateway reply" where
  "update_igw igw_id body h =
     (case store_get_igw (igw_tbl h) igw_id of
        None \<Rightarrow> (h, Problem 404 ''Not Found'')
      | Some w \<Rightarrow> (let w' = w\<lparr>w_name := opt (wb_name body) (w_name w), w_tags := opt (wb_tags body) (w_tags w)\<rparr>
          in (h\<lparr>igw_tbl := put_igw (igw_tbl h) w'\<rparr>, Reply 200 w')))"

definition delete_igw :: "string \<Rightarrow> host \<Rightarrow> host \<times> unit reply" where
  "delete_igw igw_id h =
     (let (t, ok) = store_delete_igw (igw_tbl h) igw_id in
      if \<not> ok then (h\<lparr>igw_tbl := t\<rparr>, Problem 404 ''Not Found'') else (h\<lparr>igw_tbl := t\<rparr>, NoContent 204))"

section \<open>Route tables\<close>

record rt_body =
  rb_name :: "string option"
  rb_vpc_id :: "string option"
  rb_subnet_ids :: "string list option"
  rb_routes :: "rt_route list option"
  rb_tags :: "tags option"

definition list_route_tables :: "string option \<Rightarrow> host \<Rightarrow> route_table list reply" where
  "list_route_tables vpc_id h = Reply 200 (if truthy vpc_id then store_list_route_tables_by_vpc (route_table_tbl h) (the vpc_id)
     else store_list_route_tables (route_table_tbl h))"

definition create_route_table :: "string \<Rightarrow> instant \<Rightarrow> rt_body \<Rightarrow> host \<Rightarrow> host \<times> route_table reply" where
  "create_route_table nid now body h =
     (if \<not> (truthy (rb_name body) \<and> truthy (rb_vpc_id body)) then (h, Problem 400 ''Bad Request'')
      else if store_get_vpc (vpc_tbl h) (the (rb_vpc_id body)) = None then (h, Problem 404 ''Not Found'')
      else if find_route_table_by_name (route_table_tbl h) (the (rb_name body)) \<noteq> None then (h, Problem 409 ''Conflict'')
      else (let r = \<lparr>r_id = nid, r_name = the (rb_name body), r_vpc_id = the (rb_vpc_id body),
                  r_subnet_ids = opt (rb_subnet_ids body) [], r_routes = opt (rb_routes body) [], r_status = Active,
                  r_created_at = now, r_tags = opt (rb_tags body) []\<rparr>
            in (h\<lparr>route_table_tbl := put_route_table (route_table_tbl h) r\<rparr>, Reply 201 r)))"

definition get_route_table :: "string \<Rightarrow> host \<Rightarrow> route_table reply" where
  "get_route_table rt_id h = (case store_get_route_table (route_table_tbl h) rt_id of
     None \<Rightarrow> Problem 404 ''Not Found'' | Some r \<Rightarrow> Reply 200 r)"

definition update_route_table :: "string \<Rightarrow> rt_body \<Rightarrow> host \<Rightarrow> host \<times> route_table reply" where
  "update_route_table rt_id body h =
     (case store_get_route_table (route_table_tbl h) rt_id of
        None \<Rightarrow> (h, Problem 404 ''Not Found'')
      | Some r \<Rightarrow> (let r' = r\<lparr>r_name := opt (rb_name body) (r_name r), r_subnet_ids := opt (rb_subnet_ids body) (r_subnet_ids r),
              r_routes := opt (rb_routes body) (r_routes r), r_tags := opt (rb_tags body) (r_tags r)\<rparr>
          in (h\<lparr>route_table_tbl := put_route_table (route_table_tbl h) r'\<rparr>, Reply 200 r')))"

definition delete_route_table :: "string \<Rightarrow> host \<Rightarrow> host \<times> unit reply" where
  "delete_route_table rt_id h =
     (let (t, ok) = store_delete_route_table (route_table_tbl h) rt_id in
      if \<not> ok then (h\<lparr>route_table_tbl := t\<rparr>, Problem 404 ''Not Found'')
      else (h\<lparr>route_table_tbl := t\<rparr>, NoContent 204))"

end
