(* ===== verification/Remote.thy ===== *)
theory Remote
  imports Network
begin

text \<open>
  The contract of deleting a resource that lives on a peer, shared by VPCs, subnets, security
  groups and instances: the local record is removed exactly when an approved peer answered 204
  or 404.  \<open>confirmed\<close> is that answer; the locale states what each handler promises and derives
  what its callers rely on.
\<close>

definition confirmed ::
    "(string \<Rightarrow> string option \<Rightarrow> unit peer_result) \<Rightarrow> string \<Rightarrow> string option \<Rightarrow> host \<Rightarrow> bool" where
  "confirmed del path hid h \<longleftrightarrow>
     (\<exists>p. approved_peer h (opt hid []) = Some p \<and>
        (\<exists>st b. del (p_api_url p @ path) (p_remote_token p) = PeerResponse st b \<and> st \<in> {204, 404}))"

locale remote_delete =
  fixes handler :: "(string \<Rightarrow> string option \<Rightarrow> unit peer_result) \<Rightarrow> 'r \<Rightarrow> host \<Rightarrow> host \<times> unit reply"
    and drop_rec :: "string \<Rightarrow> host \<Rightarrow> host"
    and get_rec :: "host \<Rightarrow> string \<Rightarrow> 'r option"
    and key :: "'r \<Rightarrow> string"
    and home :: "'r \<Rightarrow> string option"
    and base :: string
    and wf :: "host \<Rightarrow> bool"
  assumes ok: "confirmed del (base @ key r) (home r) h \<Longrightarrow> handler del r h = (drop_rec (key r) h, NoContent 204)"
    and refused: "\<not> confirmed del (base @ key r) (home r) h \<Longrightarrow>
      fst (handler del r h) = h \<and> (\<exists>st t. snd (handler del r h) = Problem st t)"
    and dropped: "wf h \<Longrightarrow> get_rec (drop_rec i h) = (get_rec h)(i := None)"
begin

lemma table_after:
  assumes "wf h" "get_rec h (key r) = Some r"
  shows "get_rec (fst (handler del r h)) =
    (if confirmed del (base @ key r) (home r) h then (get_rec h)(key r := None) else get_rec h)"
  using assms ok [of del r h] refused [of del r h] dropped [of h "key r"]
  by (cases "confirmed del (base @ key r) (home r) h") auto

lemma removed_iff_confirmed:
  assumes "wf h" "get_rec h (key r) = Some r"
  shows "get_rec (fst (handler del r h)) (key r) = None \<longleftrightarrow> confirmed del (base @ key r) (home r) h"
  using assms by (simp add: table_after [OF assms])

lemma others_kept:
  assumes "wf h" "i \<noteq> key r"
  shows "get_rec (fst (handler del r h)) i = get_rec h i"
  using assms ok [of del r h] refused [of del r h] dropped [of h "key r"]
  by (cases "confirmed del (base @ key r) (home r) h") auto

lemma success_iff_confirmed:
  "snd (handler del r h) = NoContent 204 \<longleftrightarrow> confirmed del (base @ key r) (home r) h"
  using ok [of del r h] refused [of del r h] by (cases "confirmed del (base @ key r) (home r) h") auto

lemma unreachable_keeps:
  assumes "\<And>u t. del u t = PeerUnreachable"
  shows "fst (handler del r h) = h"
  using assms refused [of del r h] by (simp add: confirmed_def)

end

section \<open>VPCs and subnets\<close>

abbreviation wf_vpcs :: "host \<Rightarrow> bool" where "wf_vpcs h \<equiv> wf_table v_id (vpc_tbl h)"
abbreviation wf_subnets :: "host \<Rightarrow> bool" where "wf_subnets h \<equiv> wf_table s_id (subnet_tbl h)"

interpretation rvpc: remote_delete delete_remote_vpc drop_vpc "\<lambda>h. store_get_vpc (vpc_tbl h)" v_id v_host_id "''/v1/vpcs/''" wf_vpcs
  by unfold_locales
     (auto simp: delete_remote_vpc_def confirmed_def drop_vpc_def vpcs.get_del split: option.splits peer_result.splits)

interpretation rsubnet: remote_delete delete_remote_subnet drop_subnet "\<lambda>h. store_get_subnet (subnet_tbl h)" s_id s_host_id "''/v1/subnets/''" wf_subnets
  by unfold_locales
     (auto simp: delete_remote_subnet_def confirmed_def drop_subnet_def subnets.get_del split: option.splits peer_result.splits)

end
