(* ===== verification/Network_Props.thy ===== *)
theory Network_Props
  imports Remote Peering_Witness
begin

text \<open>
  What the VPC and subnet routes guarantee, over the contracts of the stores (\<open>vpcs\<close>, \<open>subnets\<close>)
  and of remote deletion (\<open>rvpc\<close>, \<open>rsubnet\<close>): deletion is refused while a resource of the VPC
  remains, a created subnet lies inside its VPC, names, and what the guards do not cover.
\<close>

section \<open>Shared facts\<close>

definition vpc_unused :: "string \<Rightarrow> host \<Rightarrow> bool" where
  "vpc_unused i h \<longleftrightarrow>
     (\<forall>x \<in> set (instance_tbl h). i_vpc_id x = i \<longrightarrow> i_status x \<in> {IDeleted, Error}) \<and>
     (\<forall>x \<in> set (lb_tbl h). lb_vpc_id x = i \<longrightarrow> lb_status x = Deleted) \<and>
     (\<forall>x \<in> set (sg_tbl h). g_vpc_id x = i \<longrightarrow> g_status x = Deleted) \<and>
     (\<forall>x \<in> set (subnet_tbl h). s_vpc_id x = i \<longrightarrow> s_status x = Deleted)"

lemma vpc_unused_filters:
  "vpc_unused i h \<longleftrightarrow>
     list_instances_by_vpc (instance_tbl h) i = [] \<and>
     filter (\<lambda>b. lb_vpc_id b = i) (store_list_lbs (lb_tbl h)) = [] \<and>
     filter (\<lambda>g. g_vpc_id g = i \<and> g_status g = Active) (store_list_sgs (sg_tbl h)) = [] \<and>
     store_list_subnets_by_vpc (subnet_tbl h) i = []"
proof -
  have act: "g_status g = Active \<longleftrightarrow> g_status g \<noteq> Deleted" for g :: security_group
    by (cases "g_status g") simp_all
  show ?thesis
    by (simp only: vpc_unused_def list_instances_by_vpc_def store_list_lbs_def store_list_sgs_def
        store_list_subnets_by_vpc_def filter_filter filter_empty_conv lb_live_def g_live_def s_live_def act) blast
qed

lemma delete_vpc_local:
  assumes "store_get_vpc (vpc_tbl h) i = Some v" "\<not> truthy (v_host_id v)"
  shows "delete_vpc del i h = (if vpc_unused i h then (drop_vpc i h, NoContent 204) else (h, Problem 409 ''Conflict''))"
  using assms by (simp add: delete_vpc_def vpc_unused_filters vpcs.del_found)

lemma get_drop_vpc: "wf_vpcs h \<Longrightarrow> store_get_vpc (vpc_tbl (drop_vpc i h)) = (store_get_vpc (vpc_tbl h))(i := None)"
  by (simp add: drop_vpc_def vpcs.get_del)

lemma get_save_vpc:
  "wf_vpcs h \<Longrightarrow> v_live v \<Longrightarrow>
   store_get_vpc (vpc_tbl (save_vpc v h)) = (store_get_vpc (vpc_tbl h))(v_id v \<mapsto> stored_vpc (vpc_tbl h) v)"
  by (simp add: save_vpc_def vpcs.get_put)

lemma stored_vpc_fields:
  "v_id (stored_vpc t v) = v_id v" "v_name (stored_vpc t v) = v_name v" "v_host_id (stored_vpc t v) = v_host_id v"
  by (simp_all add: stored_vpc_def stored_row_def split: option.splits)

lemma find_name_None:
  "find_vpc_by_name t n = None \<longleftrightarrow> (\<forall>v \<in> set t. v_live v \<longrightarrow> v_name v \<noteq> n)"
  "find_subnet_by_name u n = None \<longleftrightarrow> (\<forall>s \<in> set u. s_live s \<longrightarrow> s_name s \<noteq> n)"
  by (auto simp: find_vpc_by_name_def find_subnet_by_name_def find_None_iff)

lemma approved_peer_iff: "approved_peer h i = Some p \<longleftrightarrow> get_peer h i = Some p \<and> p_status p = Approved"
  by (auto simp: approved_peer_def split: option.splits)

section \<open>Deleting a VPC\<close>

text \<open>
  Deleting a local VPC succeeds exactly when no live subnet, load balancer or security group and
  no instance that is neither deleted nor failed refers to it.  On success only the VPC's own record
  goes, and it is no longer found; otherwise the reply is 409 and nothing changes.
\<close>

theorem delete_vpc_guard:
  assumes "wf_vpcs h" "store_get_vpc (vpc_tbl h) i = Some v" "\<not> truthy (v_host_id v)"
  shows "(snd (delete_vpc del i h) = NoContent 204 \<longleftrightarrow> vpc_unused i h) \<and>
    (vpc_unused i h \<longrightarrow> (\<exists>t. fst (delete_vpc del i h) = h\<lparr>vpc_tbl := t\<rparr> \<and>
       store_get_vpc t = (store_get_vpc (vpc_tbl h))(i := None))) \<and>
    (\<not> vpc_unused i h \<longrightarrow> delete_vpc del i h = (h, Problem 409 ''Conflict''))"
proof -
  have "\<exists>t. drop_vpc i h = h\<lparr>vpc_tbl := t\<rparr> \<and> store_get_vpc t = (store_get_vpc (vpc_tbl h))(i := None)"
    using get_drop_vpc [OF assms(1), of i] by (auto simp: drop_vpc_def)
  then show ?thesis by (simp add: delete_vpc_local [OF assms(2,3)])
qed

text \<open>
  The guard does not look at internet gateways and route tables.  When a VPC is deleted, every
  gateway and route table of it stays live and keeps naming a VPC that is no longer found.
\<close>

theorem delete_vpc_leaves_gateways:
  assumes "wf_vpcs h" "snd (delete_vpc del i h) = NoContent 204"
    and "w \<in> set (store_list_igws_by_vpc (igw_tbl h) i)"
  shows "w \<in> set (store_list_igws_by_vpc (igw_tbl (fst (delete_vpc del i h))) i) \<and>
    store_list_route_tables_by_vpc (route_table_tbl (fst (delete_vpc del i h))) i =
      store_list_route_tables_by_vpc (route_table_tbl h) i \<and>
    store_get_vpc (vpc_tbl (fst (delete_vpc del i h))) i = None"
proof -
  obtain v where v: "store_get_vpc (vpc_tbl h) i = Some v"
    using assms(2) by (cases "store_get_vpc (vpc_tbl h) i") (auto simp: delete_vpc_def)
  then have key: "v_id v = i" using assms(1) by (simp add: vpcs.get_Some)
  have "fst (delete_vpc del i h) = drop_vpc i h"
  proof (cases "truthy (v_host_id v)")
    case True
    then have "delete_vpc del i h = delete_remote_vpc del v h" using v by (simp add: delete_vpc_def)
    then show ?thesis using assms(2) rvpc.ok [of del v h] rvpc.success_iff_confirmed [of del v h] key by simp
  next
    case False
    then show ?thesis using assms(2) by (simp add: delete_vpc_local [OF v] split: if_splits)
  qed
  then show ?thesis using assms(1,3) by (simp add: drop_vpc_def vpcs.get_del)
qed

section \<open>Names\<close>

text \<open>
  A VPC that is created on this host is active, has the stripped name, is found under its new
  identifier, and had a name that no live VPC had; every other VPC is as before.
\<close>

theorem create_vpc_registers:
  assumes "wf_vpcs h" "\<not> truthy (vb_peer_id body)" "nid \<notin> v_id ` set (vpc_tbl h)"
    and "create_vpc post nid now body h = (h', Reply 201 d)"
  shows "store_get_vpc (vpc_tbl h') = (store_get_vpc (vpc_tbl h))(nid \<mapsto> fst d) \<and>
    v_name (fst d) = py_strip (opt (vb_name body) []) \<and> v_name (fst d) \<noteq> [] \<and>
    (\<forall>v \<in> set (vpc_tbl h). v_live v \<longrightarrow> v_name v \<noteq> v_name (fst d)) \<and> wf_vpcs h'"
proof -
  let ?v = "\<lparr>v_id = nid, v_name = py_strip (opt (vb_name body) []), v_cidr_block = opt (vb_cidr_block body) ''10.0.0.0/16'',
    v_dns_support = opt (vb_dns_support body) True, v_status = Active, v_created_at = now,
    v_tags = opt (vb_tags body) [], v_host_id = None\<rparr>"
  have h': "h' = save_vpc ?v h" "d = vpc_dict h' ?v"
    and nm: "py_strip (opt (vb_name body) []) \<noteq> []" "find_vpc_by_name (vpc_tbl h) (py_strip (opt (vb_name body) [])) = None"
    using assms(2,4) by (auto simp: create_vpc_def Let_def split: if_splits)
  have "stored_vpc (vpc_tbl h) ?v = ?v" using assms(3) by (simp add: vpcs.stored_fresh)
  then have "store_get_vpc (vpc_tbl h') = (store_get_vpc (vpc_tbl h))(nid \<mapsto> ?v)"
    using get_save_vpc [OF assms(1), of ?v] by (simp add: h' v_live_def)
  moreover have "wf_vpcs h'" using assms(1) by (simp add: h' save_vpc_def vpcs.wf_put)
  ultimately show ?thesis using nm by (simp add: h'(2) vpc_dict_def find_name_None)
qed

text \<open>
  Renaming does not repeat that check: a local VPC may be given the name of another live VPC, and
  the update succeeds with two live VPCs of that name.
\<close>

theorem update_vpc_duplicates_name:
  assumes "wf_vpcs h" "store_get_vpc (vpc_tbl h) a = Some va" "\<not> truthy (v_host_id va)"
    and "store_get_vpc (vpc_tbl h) b = Some vb" "a \<noteq> b" "vb_name body = Some (v_name vb)"
  shows "reply_status (snd (update_vpc put a body h)) = 200 \<and>
    (\<exists>va'. store_get_vpc (vpc_tbl (fst (update_vpc put a body h))) a = Some va' \<and> v_name va' = v_name vb) \<and>
    store_get_vpc (vpc_tbl (fst (update_vpc put a body h))) b = Some vb"
proof -
  let ?v = "va\<lparr>v_name := v_name vb, v_dns_support := opt (vb_dns_support body) (v_dns_support va),
    v_tags := opt (vb_tags body) (v_tags va)\<rparr>"
  have a: "v_id va = a" "v_live va" using assms(1,2) by (simp_all add: vpcs.get_Some)
  have live: "v_live ?v" using a(2) by (simp add: v_live_def)
  have u: "update_vpc put a body h = (save_vpc ?v h, Reply 200 (vpc_dict (save_vpc ?v h) ?v))"
    using assms(2,3,6) by (simp add: update_vpc_def Let_def)
  show ?thesis
    using get_save_vpc [OF assms(1) live] assms(4,5) a(1) by (simp add: u stored_vpc_fields)
qed

text \<open>
  A create that is proxied to a peer stores its record under the identifier that the peer
  returns, whatever it is.  When that is the identifier of a local VPC, the local VPC becomes a
  record of the peer: its reads, updates and deletion now go there.
\<close>

theorem create_remote_vpc_takes_over:
  assumes "wf_vpcs h" "approved_peer h pid = Some p" "pid \<noteq> []"
    and "post (p_api_url p @ ''/v1/vpcs'') (body\<lparr>vb_peer_id := None\<rparr>) (p_remote_token p) = PeerResponse 201 r"
    and "store_get_vpc (vpc_tbl h) (vr_id r) = Some v" "\<not> truthy (v_host_id v)"
  shows "\<exists>h' d v'. create_remote_vpc post now pid body h = (h', Reply 201 d) \<and>
    store_get_vpc (vpc_tbl h') (vr_id r) = Some v' \<and> v_host_id v' = Some pid \<and> truthy (v_host_id v')"
proof -
  let ?v = "\<lparr>v_id = vr_id r, v_name = opt (vr_name r) (opt (vb_name body) []),
    v_cidr_block = opt (vr_cidr_block r) [], v_dns_support = opt (vr_dns_support r) True,
    v_status = Active, v_created_at = opt (vr_created_at r) now,
    v_tags = opt (vr_tags r) [], v_host_id = Some pid\<rparr>"
  have c: "create_remote_vpc post now pid body h = (save_vpc ?v h, Reply 201 (vpc_dict (save_vpc ?v h) ?v))"
    using assms(2,4) by (simp add: create_remote_vpc_def Let_def)
  have "store_get_vpc (vpc_tbl (save_vpc ?v h)) (vr_id r) = Some (stored_vpc (vpc_tbl h) ?v)"
    using get_save_vpc [OF assms(1), of ?v] by (simp add: v_live_def)
  moreover have "v_host_id (stored_vpc (vpc_tbl h) ?v) = Some pid" by (simp add: stored_vpc_fields)
  ultimately show ?thesis using c assms(3) by (auto simp: truthy_def)
qed

section \<open>Subnets\<close>

text \<open>
  A subnet that is created on this host names a live VPC, every address of its block is an
  address of the VPC's block, and its name was free; the subnet is found afterwards and nothing else
  changes in the catalogue.
\<close>

theorem create_subnet_contained:
  assumes "wf_subnets h" "\<not> truthy (sb_peer_id body)" "nid \<notin> s_id ` set (subnet_tbl h)"
    and "create_subnet post nid now body h = (h', Reply 201 d)"
  shows "\<exists>v. store_get_vpc (vpc_tbl h) (s_vpc_id (fst d)) = Some v \<and>
    (\<exists>p c. ip_network (v_cidr_block v) = Some p \<and> ip_network (s_cidr_block (fst d)) = Some c \<and>
      version p = version c \<and> addresses c \<subseteq> addresses p) \<and>
    (\<forall>s \<in> set (subnet_tbl h). s_live s \<longrightarrow> s_name s \<noteq> s_name (fst d)) \<and>
    store_get_subnet (subnet_tbl h') = (store_get_subnet (subnet_tbl h))(nid \<mapsto> fst d) \<and> vpc_tbl h' = vpc_tbl h"
proof -
  let ?s = "\<lparr>s_id = nid, s_name = the (sb_name body), s_vpc_id = the (sb_vpc_id body),
    s_cidr_block = the (sb_cidr_block body), s_public = opt (sb_public body) False,
    s_zone = opt (sb_zone body) ''a'', s_status = Active, s_created_at = now,
    s_tags = opt (sb_tags body) [], s_host_id = None\<rparr>"
  obtain v where v: "store_get_vpc (vpc_tbl h) (the (sb_vpc_id body)) = Some v"
    "cidr_contained (v_cidr_block v) (the (sb_cidr_block body)) = Some True"
    "find_subnet_by_name (subnet_tbl h) (the (sb_name body)) = None"
    and h': "h' = save_subnet ?s h" "d = subnet_dict h' ?s"
    using assms(2,4) by (auto simp: create_subnet_def Let_def split: if_splits option.splits bool.splits)
  have "store_get_subnet (subnet_tbl h') = (store_get_subnet (subnet_tbl h))(nid \<mapsto> ?s)"
    using assms(1,3) by (simp add: h' save_subnet_def subnets.get_put subnets.stored_fresh s_live_def)
  then show ?thesis
    using v by (simp add: h' subnet_dict_def find_name_None save_subnet_def cidr_contained_addresses)
qed

section \<open>Concrete hosts\<close>

definition demo_vpc :: "string \<Rightarrow> string \<Rightarrow> vpc" where
  "demo_vpc i n = \<lparr>v_id = i, v_name = n, v_cidr_block = ''10.0.0.0/16'', v_dns_support = True, v_status = Active,
     v_created_at = 0, v_tags = [], v_host_id = None\<rparr>"

definition demo_igw :: internet_gateway where
  "demo_igw = \<lparr>w_id = ''w1'', w_name = ''gw'', w_vpc_id = ''v1'', w_status = Active, w_created_at = 0, w_tags = []\<rparr>"

definition demo_net :: host where
  "demo_net = empty_host\<lparr>vpc_tbl := [demo_vpc ''v1'' ''one'', demo_vpc ''v2'' ''two''], igw_tbl := [demo_igw]\<rparr>"

definition demo_approved_peer :: peer where
  "demo_approved_peer = \<lparr>p_id = ''p1'', p_hostname = ''b'', p_pubkey = ''k'', p_pubkey_fpr = ''f'', p_api_url = ''http://b'',
     p_direction = Inbound, p_status = Approved, p_local_token = Some ''t'', p_remote_token = Some ''r'', p_wg_pubkey = None,
     p_wg_endpoint = None, p_wg_bridge_subnet = None, p_wg_transit_ip = None, p_wg_tunnel_status = ''up'',
     p_created_at = 0, p_approved_at = Some 0\<rparr>"

definition demo_vpc_body :: vpc_body where
  "demo_vpc_body = \<lparr>vb_name = Some ''two'', vb_peer_id = None, vb_cidr_block = None, vb_dns_support = None, vb_tags = None\<rparr>"

definition demo_vpc_remote :: vpc_remote where
  "demo_vpc_remote = \<lparr>vr_id = ''v1'', vr_name = Some ''x'', vr_cidr_block = None, vr_dns_support = None,
     vr_created_at = None, vr_tags = None\<rparr>"

definition demo_subnet_body :: subnet_body where
  "demo_subnet_body = \<lparr>sb_name = Some ''web'', sb_vpc_id = Some ''v1'', sb_cidr_block = Some ''10.0.1.0/24'', sb_peer_id = None,
     sb_public = None, sb_zone = None, sb_tags = None\<rparr>"

lemmas demo_net_defs = demo_net_def demo_vpc_def demo_igw_def demo_approved_peer_def demo_vpc_body_def demo_vpc_remote_def
  demo_subnet_body_def empty_host_def

lemma demo_net_vpcs [simp]:
  "wf_vpcs demo_net" "wf_subnets demo_net"
  "store_get_vpc (vpc_tbl demo_net) ''v1'' = Some (demo_vpc ''v1'' ''one'')"
  "store_get_vpc (vpc_tbl demo_net) ''v2'' = Some (demo_vpc ''v2'' ''two'')"
  "vpc_unused ''v1'' demo_net"
  by (simp_all add: demo_net_defs wf_table_def store_get_vpc_def live_get_def v_live_def vpc_unused_def)

lemma demo_vpc_local [simp]: "\<not> truthy (v_host_id (demo_vpc i n))"
  by (simp add: demo_vpc_def truthy_def)

theorem delete_vpc_guard_witness:
  "snd (delete_vpc (\<lambda>_ _. PeerUnreachable) ''v1'' demo_net) = NoContent 204 \<and> vpc_unused ''v1'' demo_net"
  using delete_vpc_guard [of demo_net "''v1''" "demo_vpc ''v1'' ''one''" "\<lambda>_ _. PeerUnreachable"] by simp

theorem delete_vpc_leaves_gateways_witness:
  "demo_igw \<in> set (store_list_igws_by_vpc (igw_tbl (fst (delete_vpc (\<lambda>_ _. PeerUnreachable) ''v1'' demo_net))) ''v1'')"
proof -
  have "snd (delete_vpc (\<lambda>_ _. PeerUnreachable) ''v1'' demo_net) = NoContent 204"
    by (simp add: delete_vpc_local [where v = "demo_vpc ''v1'' ''one''"])
  moreover have "demo_igw \<in> set (store_list_igws_by_vpc (igw_tbl demo_net) ''v1'')"
    by (simp add: demo_net_defs store_list_igws_by_vpc_def w_live_def)
  ultimately show ?thesis using delete_vpc_leaves_gateways [of demo_net "\<lambda>_ _. PeerUnreachable" "''v1''" demo_igw] by simp
qed

theorem create_vpc_registers_witness:
  "\<exists>h' d. create_vpc (\<lambda>_ _ _. PeerUnreachable) ''v9'' 5 demo_vpc_body empty_host = (h', Reply 201 d) \<and>
     store_get_vpc (vpc_tbl h') ''v9'' = Some (fst d) \<and> v_name (fst d) = ''two''"
proof -
  have n: "py_strip ''two'' = ''two''" by (simp add: py_strip_def is_space_def)
  obtain h' d where c: "create_vpc (\<lambda>_ _ _. PeerUnreachable) ''v9'' 5 demo_vpc_body empty_host = (h', Reply 201 d)"
    by (simp add: create_vpc_def demo_vpc_body_def empty_host_def n truthy_def find_vpc_by_name_def Let_def)
  then have "store_get_vpc (vpc_tbl h') ''v9'' = Some (fst d) \<and> v_name (fst d) = ''two''"
    using create_vpc_registers [OF _ _ _ c] by (simp add: demo_vpc_body_def empty_host_def truthy_def n)
  with c show ?thesis by blast
qed

theorem update_vpc_duplicates_name_witness:
  "\<exists>va'. store_get_vpc (vpc_tbl (fst (update_vpc (\<lambda>_ _ _. PeerUnreachable) ''v1'' demo_vpc_body demo_net))) ''v1'' = Some va' \<and>
     v_name va' = ''two''"
  using update_vpc_duplicates_name [of demo_net "''v1''" "demo_vpc ''v1'' ''one''" "''v2''" "demo_vpc ''v2'' ''two''"
      demo_vpc_body "\<lambda>_ _ _. PeerUnreachable"]
  by (simp add: demo_vpc_body_def demo_vpc_def truthy_def)

theorem create_remote_vpc_takes_over_witness:
  "\<exists>h' d v'. create_remote_vpc (\<lambda>_ _ _. PeerResponse 201 demo_vpc_remote) 7 ''p1'' demo_vpc_body
       (demo_net\<lparr>peer_tbl := [demo_approved_peer]\<rparr>) = (h', Reply 201 d) \<and>
     store_get_vpc (vpc_tbl h') ''v1'' = Some v' \<and> v_host_id v' = Some ''p1''"
proof -
  let ?h = "demo_net\<lparr>peer_tbl := [demo_approved_peer]\<rparr>"
  have "approved_peer ?h ''p1'' = Some demo_approved_peer"
    by (simp add: approved_peer_def get_peer_def demo_approved_peer_def)
  moreover have "vr_id demo_vpc_remote = ''v1''" by (simp add: demo_vpc_remote_def)
  ultimately show ?thesis
    using create_remote_vpc_takes_over [of ?h "''p1''" demo_approved_peer "\<lambda>_ _ _. PeerResponse 201 demo_vpc_remote"
        demo_vpc_body demo_vpc_remote "demo_vpc ''v1'' ''one''" 7]
    by auto
qed

theorem create_subnet_contained_witness:
  "\<exists>h' d. create_subnet (\<lambda>_ _ _. PeerUnreachable) ''s1'' 5 demo_subnet_body demo_net = (h', Reply 201 d) \<and>
     store_get_subnet (subnet_tbl h') ''s1'' = Some (fst d)"
proof -
  have c: "cidr_contained ''10.0.0.0/16'' ''10.0.1.0/24'' = Some True" by code_simp
  have "\<exists>h' d. create_subnet (\<lambda>_ _ _. PeerUnreachable) ''s1'' 5 demo_subnet_body demo_net = (h', Reply 201 d)"
    by (simp add: create_subnet_def demo_subnet_body_def truthy_def Let_def)
       (simp add: demo_net_defs c find_subnet_by_name_def subnet_dict_def Let_def)
  then obtain h' d where c: "create_subnet (\<lambda>_ _ _. PeerUnreachable) ''s1'' 5 demo_subnet_body demo_net = (h', Reply 201 d)"
    by blast
  then have "store_get_subnet (subnet_tbl h') ''s1'' = Some (fst d)"
    using create_subnet_contained [OF _ _ _ c] by (auto simp: demo_net_defs truthy_def wf_table_def)
  with c show ?thesis by blast
qed

end
