(* ===== verification/Security_Groups.thy ===== *)
theory Security_Groups
  imports Remote
begin

text \<open>
  Security groups: the routes of \<^verbatim>\<open>api/sg_routes.py\<close> and the enforcement of \<^verbatim>\<open>api/sg.py\<close>.  The
  background thread of \<^verbatim>\<open>_reapply_to_instances\<close> is taken to run right after the update that starts
  it; its calls are the \<open>SgApply\<close> effects.  Enforcement is the list of commands that it runs, in
  order: the MAC address of a bridged domain is an argument.
\<close>

section \<open>Rules\<close>

definition VALID_PROTOCOLS :: "string set" where
  "VALID_PROTOCOLS = {''tcp'', ''udp'', ''icmp'', ''-1''}"

definition rule_protocol :: "sg_rule \<Rightarrow> string" where
  "rule_protocol r = opt (sr_protocol r) ''-1''"

text \<open>\<open>True\<close> where the source returns an error string for the rule.\<close>

definition rule_error :: "sg_rule \<Rightarrow> bool" where
  "rule_error r =
     (let proto = rule_protocol r;
          has_cidr = truthy (sr_cidr r); has_cidr_v6 = truthy (sr_cidr_ipv6 r); has_sg = truthy (sr_source_sg_id r)
      in
      if proto \<notin> VALID_PROTOCOLS then True
      else if \<not> has_cidr \<and> \<not> has_cidr_v6 \<and> \<not> has_sg then True
      else if has_sg \<and> (has_cidr \<or> has_cidr_v6) then True
      else if has_cidr_v6 \<and> ip_network (the (sr_cidr_ipv6 r)) = None then True
      else if proto \<noteq> ''-1'' then
        (case (sr_from_port r, sr_to_port r) of
           (Some fp, Some tp) \<Rightarrow>
             if \<not> (0 \<le> fp \<and> fp \<le> 65535 \<and> 0 \<le> tp \<and> tp \<le> 65535) then True
             else fp > tp
         | _ \<Rightarrow> True)
      else False)"

fun validate_rules :: "sg_rule list \<Rightarrow> bool" where
  "validate_rules [] = False"
| "validate_rules (r # rs) = (if rule_error r then True else validate_rules rs)"

fun merged_rules :: "host \<Rightarrow> string list \<Rightarrow> sg_rule list \<times> sg_rule list" where
  "merged_rules h [] = ([], [])"
| "merged_rules h (i # is) =
     (let (ing, eg) = merged_rules h is in
      (case store_get_sg (sg_tbl h) i of
         None \<Rightarrow> (ing, eg)
       | Some g \<Rightarrow> (g_ingress_rules g @ ing, g_egress_rules g @ eg)))"

section \<open>Routes\<close>

record sg_body =
  gb_name :: "string option"
  gb_description :: "string option"
  gb_vpc_id :: "string option"
  gb_peer_id :: "string option"
  gb_ingress_rules :: "sg_rule list option"
  gb_egress_rules :: "sg_rule list option"
  gb_tags :: "tags option"

record sg_remote =
  gr_id :: string
  gr_name :: "string option"
  gr_description :: "string option"
  gr_vpc_id :: "string option"
  gr_ingress_rules :: "sg_rule list option"
  gr_egress_rules :: "sg_rule list option"
  gr_created_at :: "instant option"
  gr_tags :: "tags option"

type_synonym sg_view = "security_group \<times> string option"

definition sg_require_auth :: "string \<Rightarrow> request \<Rightarrow> host \<Rightarrow> bool" where
  "sg_require_auth master q h \<longleftrightarrow> q_method q = ''OPTIONS'' \<or>
     (let token = (if startswith (q_auth q) bearer_prefix then removeprefix (q_auth q) bearer_prefix else [])
      in token \<noteq> [] \<and> (token = master \<or> find_peer_by_local_token h token \<noteq> None))"

definition sg_dict :: "host \<Rightarrow> security_group \<Rightarrow> sg_view" where
  "sg_dict h g = (g, host_hostname h (g_host_id g))"

definition save_sg :: "security_group \<Rightarrow> host \<Rightarrow> host" where
  "save_sg g h = h\<lparr>sg_tbl := put_sg (sg_tbl h) g\<rparr>"

definition list_sgs :: "host \<Rightarrow> sg_view list reply" where
  "list_sgs h = Reply 200 (map (sg_dict h) (store_list_sgs (sg_tbl h)))"

definition create_remote_sg ::
    "(string \<Rightarrow> sg_body \<Rightarrow> string option \<Rightarrow> sg_remote peer_result) \<Rightarrow> instant \<Rightarrow> string \<Rightarrow> sg_body \<Rightarrow> host \<Rightarrow>
     host \<times> sg_view reply" where
  "create_remote_sg post now peer_id body h =
     (case approved_peer h peer_id of
        None \<Rightarrow> (h, Problem 400 ''Bad Request'')
      | Some p \<Rightarrow>
         (case post (p_api_url p @ ''/v1/security-groups'') (body\<lparr>gb_peer_id := None\<rparr>) (p_remote_token p) of
            PeerUnreachable \<Rightarrow> (h, Problem 502 ''Bad Gateway'')
          | PeerResponse st remote \<Rightarrow>
              if st \<noteq> 201 then (h, Problem st ''Bad Gateway'')
              else
                (let g = \<lparr>g_id = gr_id remote, g_name = opt (gr_name remote) (opt (gb_name body) []),
                       g_description = opt (gr_description remote) (opt (gb_description body) []),
                       g_vpc_id = opt (gr_vpc_id remote) (opt (gb_vpc_id body) []),
                       g_ingress_rules = opt (gr_ingress_rules remote) (opt (gb_ingress_rules body) []),
                       g_egress_rules = opt (gr_egress_rules remote) (opt (gb_egress_rules body) []),
                       g_status = Active, g_created_at = opt (gr_created_at remote) now,
                       g_tags = opt (gr_tags remote) [], g_host_id = Some peer_id\<rparr>;
                     h1 = save_sg g h
                 in (h1, Reply 201 (sg_dict h1 g)))))"

definition create_sg ::
    "(string \<Rightarrow> sg_body \<Rightarrow> string option \<Rightarrow> sg_remote peer_result) \<Rightarrow> string \<Rightarrow> instant \<Rightarrow> sg_body \<Rightarrow> host \<Rightarrow>
     host \<times> sg_view reply" where
  "create_sg post nid now body h =
     (let name = py_strip (opt (gb_name body) []) in
      if name = [] then (h, Problem 400 ''Bad Request'')
      else if \<not> truthy (gb_vpc_id body) then (h, Problem 400 ''Bad Request'')
      else if truthy (gb_peer_id body) then create_remote_sg post now (the (gb_peer_id body)) body h
      else if store_get_vpc (vpc_tbl h) (the (gb_vpc_id body)) = None then (h, Problem 404 ''Not Found'')
      else if find_sg_by_name (sg_tbl h) name \<noteq> None then (h, Problem 409 ''Conflict'')
      else
        (let ingress = opt (gb_ingress_rules body) []; egress = opt (gb_egress_rules body) [] in
         if validate_rules ingress \<or> validate_rules egress then (h, Problem 400 ''Bad Request'')
         else
           (let g = \<lparr>g_id = nid, g_name = name, g_description = opt (gb_description body) [],
                  g_vpc_id = the (gb_vpc_id body), g_ingress_rules = ingress, g_egress_rules = egress,
                  g_status = Active, g_created_at = now, g_tags = opt (gb_tags body) [], g_host_id = None\<rparr>;
                h1 = save_sg g h
            in (h1, Reply 201 (sg_dict h1 g)))))"

definition remote_sg_fields :: "sg_remote \<Rightarrow> security_group \<Rightarrow> security_group" where
  "remote_sg_fields remote g = g\<lparr>g_description := opt (gr_description remote) (g_description g),
     g_ingress_rules := opt (gr_ingress_rules remote) (g_ingress_rules g),
     g_egress_rules := opt (gr_egress_rules remote) (g_egress_rules g),
     g_tags := opt (gr_tags remote) (g_tags g)\<rparr>"

definition refresh_remote_sg ::
    "(string \<Rightarrow> string option \<Rightarrow> sg_remote peer_result) \<Rightarrow> security_group \<Rightarrow> host \<Rightarrow> host \<times> security_group" where
  "refresh_remote_sg get g h =
     (case approved_peer h (opt (g_host_id g) []) of
        None \<Rightarrow> (h, g)
      | Some p \<Rightarrow>
         (case get (p_api_url p @ ''/v1/security-groups/'' @ g_id g) (p_remote_token p) of
            PeerUnreachable \<Rightarrow> (h, g)
          | PeerResponse st remote \<Rightarrow>
              if st = 404 then (let g' = g\<lparr>g_status := Deleted\<rparr> in (save_sg g' h, g'))
              else if st \<noteq> 200 then (h, g)
              else (let g' = remote_sg_fields remote g in (save_sg g' h, g'))))"

definition get_sg ::
    "(string \<Rightarrow> string option \<Rightarrow> sg_remote peer_result) \<Rightarrow> string \<Rightarrow> host \<Rightarrow> host \<times> sg_view reply" where
  "get_sg get sg_id h =
     (case store_get_sg (sg_tbl h) sg_id of
        None \<Rightarrow> (h, Problem 404 ''Not Found'')
      | Some g \<Rightarrow>
         (let (h1, g') = (if truthy (g_host_id g) then refresh_remote_sg get g h else (h, g))
          in (h1, Reply 200 (sg_dict h1 g'))))"

definition update_remote_sg ::
    "(string \<Rightarrow> sg_body \<Rightarrow> string option \<Rightarrow> sg_remote peer_result) \<Rightarrow> security_group \<Rightarrow> sg_body \<Rightarrow> host \<Rightarrow>
     host \<times> sg_view reply" where
  "update_remote_sg put g body h =
     (case approved_peer h (opt (g_host_id g) []) of
        None \<Rightarrow> (h, Problem 502 ''Bad Gateway'')
      | Some p \<Rightarrow>
         (case put (p_api_url p @ ''/v1/security-groups/'' @ g_id g) body (p_remote_token p) of
            PeerUnreachable \<Rightarrow> (h, Problem 502 ''Bad Gateway'')
          | PeerResponse st remote \<Rightarrow>
              if st \<noteq> 200 then (h, Problem st ''Bad Gateway'')
              else (let g' = remote_sg_fields remote g; h1 = save_sg g' h
                    in (h1, Reply 200 (sg_dict h1 g')))))"

definition reapply_to_instances :: "string \<Rightarrow> host \<Rightarrow> host" where
  "reapply_to_instances sg_id h =
     fold (\<lambda>i h'. if sg_id \<in> set (i_security_group_ids i) \<and> i_status i = Running
                  then (let (ing, eg) = merged_rules h' (i_security_group_ids i) in emit (SgApply (i_id i) ing eg) h')
                  else h')
       (store_list_instances (instance_tbl h)) h"

definition update_sg ::
    "(string \<Rightarrow> sg_body \<Rightarrow> string option \<Rightarrow> sg_remote peer_result) \<Rightarrow> string \<Rightarrow> sg_body \<Rightarrow> host \<Rightarrow>
     host \<times> sg_view reply" where
  "update_sg put sg_id body h =
     (case store_get_sg (sg_tbl h) sg_id of
        None \<Rightarrow> (h, Problem 404 ''Not Found'')
      | Some g \<Rightarrow>
          if truthy (g_host_id g) then update_remote_sg put g body h
          else
            (let ingress = opt (gb_ingress_rules body) (g_ingress_rules g);
                 egress = opt (gb_egress_rules body) (g_egress_rules g)
             in
             if validate_rules ingress \<or> validate_rules egress then (h, Problem 400 ''Bad Request'')
             else
               (let g' = g\<lparr>g_description := opt (gb_description body) (g_description g), g_ingress_rules := ingress,
                      g_egress_rules := egress, g_tags := opt (gb_tags body) (g_tags g)\<rparr>;
                    h1 = reapply_to_instances (g_id g') (save_sg g' h)
                in (h1, Reply 200 (sg_dict h1 g')))))"

definition drop_sg :: "string \<Rightarrow> host \<Rightarrow> host" where
  "drop_sg i h = h\<lparr>sg_tbl := fst (store_delete_sg (sg_tbl h) i)\<rparr>"

definition delete_remote_sg ::
    "bool \<Rightarrow> (string \<Rightarrow> string option \<Rightarrow> unit peer_result) \<Rightarrow> security_group \<Rightarrow> host \<Rightarrow> host \<times> unit reply" where
  "delete_remote_sg local_only del g h =
     (let peer = approved_peer h (opt (g_host_id g) []) in
      if local_only then
        (if peer \<noteq> None then (h, Problem 409 ''Conflict'') else (drop_sg (g_id g) h, NoContent 204))
      else
        (case peer of
           None \<Rightarrow> (h, Problem 502 ''Bad Gateway'')
         | Some p \<Rightarrow>
            (case del (p_api_url p @ ''/v1/security-groups/'' @ g_id g) (p_remote_token p) of
               PeerUnreachable \<Rightarrow> (h, Problem 502 ''Bad Gateway'')
             | PeerResponse st _ \<Rightarrow>
                 if st \<notin> {204, 404} then (h, Problem st ''Bad Gateway'')
                 else (drop_sg (g_id g) h, NoContent 204))))"

definition delete_sg ::
    "bool \<Rightarrow> (string \<Rightarrow> string option \<Rightarrow> unit peer_result) \<Rightarrow> string \<Rightarrow> host \<Rightarrow> host \<times> unit reply" where
  "delete_sg local_only del sg_id h =
     (case store_get_sg (sg_tbl h) sg_id of
        None \<Rightarrow> (h, Problem 404 ''Not Found'')
      | Some g \<Rightarrow>
          if truthy (g_host_id g) then delete_remote_sg local_only del g h
          else if filter (\<lambda>i. sg_id \<in> set (i_security_group_ids i)) (store_list_instances (instance_tbl h)) \<noteq> [] then
            (h, Problem 409 ''Conflict'')
          else if \<not> snd (store_delete_sg (sg_tbl h) sg_id) then (h, Problem 404 ''Not Found'')
          else (drop_sg sg_id h, NoContent 204))"

abbreviation wf_sgs :: "host \<Rightarrow> bool" where "wf_sgs h \<equiv> wf_table g_id (sg_tbl h)"

interpretation rsg: remote_delete "delete_remote_sg False" drop_sg "\<lambda>h. store_get_sg (sg_tbl h)" g_id g_host_id "''/v1/security-groups/''" wf_sgs
  by unfold_locales
     (auto simp: delete_remote_sg_def confirmed_def drop_sg_def sgs.get_del split: option.splits peer_result.splits)

section \<open>Enforcement\<close>

text \<open>A command is its argument list; \<^verbatim>\<open>_run\<close> puts \<^verbatim>\<open>sudo -n\<close> before it.\<close>

type_synonym command = "string list"

definition port_spec :: "int \<Rightarrow> int \<Rightarrow> string" where
  "port_spec fp tp = (if fp = tp then show_int fp else show_int fp @ '':'' @ show_int tp)"

definition dport_args :: "sg_rule \<Rightarrow> string list" where
  "dport_args r = (case (sr_from_port r, sr_to_port r) of
     (Some fp, Some tp) \<Rightarrow> [''--dport'', port_spec fp tp] | _ \<Rightarrow> [])"

definition cidr_args :: "sg_rule \<Rightarrow> string \<Rightarrow> string \<Rightarrow> string list" where
  "cidr_args r flag cidr =
     (if rule_protocol r = ''-1'' then [flag, cidr, ''-j'', ''ACCEPT'']
      else [''-p'', rule_protocol r, flag, cidr] @ dport_args r @ [''-j'', ''ACCEPT''])"

definition iptables_rule_args :: "sg_rule \<Rightarrow> bool \<Rightarrow> (string \<times> string list) list" where
  "iptables_rule_args r ingress =
     (let flag = (if ingress then ''-s'' else ''-d'');
          results = (if truthy (sr_cidr r) then [(''iptables'', cidr_args r flag (the (sr_cidr r)))] else []) @
                    (if truthy (sr_cidr_ipv6 r) then [(''ip6tables'', cidr_args r flag (the (sr_cidr_ipv6 r)))] else [])
      in if results = [] \<and> \<not> truthy (sr_source_sg_id r) then [(''iptables'', cidr_args r flag ''0.0.0.0/0'')] else results)"

definition chain_name :: "string \<Rightarrow> string" where
  "chain_name sg_id = ''CC-SG-'' @ take 16 sg_id"

text \<open>\<open>chain_exists\<close> and \<open>jump_exists\<close> are the results of the two listings.\<close>

definition apply_bridge ::
    "string option \<Rightarrow> bool \<Rightarrow> bool \<Rightarrow> string \<Rightarrow> string \<Rightarrow> sg_rule list \<Rightarrow> command list" where
  "apply_bridge mac chain_exists jump_exists domain_name sg_id egress_rules =
     (if \<not> truthy mac then []
      else
         (let m = the mac; chain = chain_name (sg_id @ take 8 domain_name) in
          (if chain_exists then [] else [[''iptables'', ''-N'', chain]]) @
          [[''iptables'', ''-F'', chain]] @
          concat (map (\<lambda>r. map (\<lambda>ca. [fst ca, ''-A'', chain] @ snd ca) (iptables_rule_args r False)) egress_rules) @
          [[''iptables'', ''-A'', chain, ''-j'', ''DROP'']] @
          (if jump_exists then []
           else [[''iptables'', ''-I'', ''FORWARD'', ''1'', ''-m'', ''mac'', ''--mac-source'', m, ''-j'', chain]])))"

definition remove_bridge :: "string option \<Rightarrow> string \<Rightarrow> string \<Rightarrow> command list" where
  "remove_bridge mac domain_name sg_id =
     (let chain = chain_name (sg_id @ take 8 domain_name) in
      (if \<not> truthy mac then []
       else [[''iptables'', ''-D'', ''FORWARD'', ''-m'', ''mac'', ''--mac-source'', the mac, ''-j'', chain]]) @
      [[''iptables'', ''-F'', chain], [''iptables'', ''-X'', chain]])"

definition expand_rule :: "host \<Rightarrow> sg_rule \<Rightarrow> sg_rule list" where
  "expand_rule h r =
     (if \<not> truthy (sr_source_sg_id r) then [r]
      else map (\<lambda>i. r\<lparr>sr_cidr := Some (i_private_ip i @ ''/32''), sr_source_sg_id := None\<rparr>)
        (filter (\<lambda>i. the (sr_source_sg_id r) \<in> set (i_security_group_ids i) \<and> i_private_ip i \<noteq> [])
          (store_list_instances (instance_tbl h))))"

definition expand_sg_references :: "host \<Rightarrow> sg_rule list \<Rightarrow> sg_rule list" where
  "expand_sg_references h rules = concat (map (expand_rule h) rules)"

text \<open>The script that is run inside a SLIRP instance, as the list of its lines.\<close>

definition dport_text :: "sg_rule \<Rightarrow> string" where
  "dport_text r = (case (sr_from_port r, sr_to_port r) of
     (Some fp, Some tp) \<Rightarrow> ''--dport '' @ port_spec fp tp | _ \<Rightarrow> [])"

definition script_rule_lines :: "sg_rule \<Rightarrow> string list" where
  "script_rule_lines r =
     (let proto = rule_protocol r; dport = dport_text r;
          line = (\<lambda>cmd cidr. if proto = ''-1'' then cmd @ '' -A INPUT -s '' @ cidr @ '' -j ACCEPT''
            else py_strip (cmd @ '' -A INPUT -p '' @ proto @ '' -s '' @ cidr @ '' '' @ dport @ '' -j ACCEPT''))
      in
      (if truthy (sr_cidr r) then [line ''iptables'' (the (sr_cidr r))] else []) @
      (if truthy (sr_cidr_ipv6 r) then [line ''ip6tables'' (the (sr_cidr_ipv6 r))] else []) @
      (if \<not> truthy (sr_cidr r) \<and> \<not> truthy (sr_cidr_ipv6 r) \<and> \<not> truthy (sr_source_sg_id r) then
         [if proto = ''-1'' then ''iptables -A INPUT -j ACCEPT''
          else py_strip (''iptables -A INPUT -p '' @ proto @ '' '' @ dport @ '' -j ACCEPT'')]
       else []))"

definition build_iptables_script :: "sg_rule list \<Rightarrow> string list" where
  "build_iptables_script ingress =
     [''#!/bin/sh'', ''iptables -F INPUT'', ''iptables -F OUTPUT'', ''iptables -P INPUT DROP'',
      ''iptables -P OUTPUT ACCEPT'', ''iptables -A INPUT -m state --state ESTABLISHED,RELATED -j ACCEPT'',
      ''iptables -A INPUT -i lo -j ACCEPT''] @ concat (map script_rule_lines ingress)"

datatype sg_action = HostCommands "command list" | GuestScript int "string list" | NoAction

definition apply_slirp :: "inst \<Rightarrow> sg_rule list \<Rightarrow> sg_action" where
  "apply_slirp i ingress =
     (if i_ssh_host_port i = 0 then NoAction else GuestScript (i_ssh_host_port i) (build_iptables_script ingress))"

text \<open>\<open>mac\<close> is the first reading of the bridge MAC address; it does not change before the second.\<close>

definition sg_apply :: "string option \<Rightarrow> bool \<Rightarrow> bool \<Rightarrow> inst \<Rightarrow> sg_rule list \<Rightarrow> sg_rule list \<Rightarrow> host \<Rightarrow> sg_action" where
  "sg_apply mac chain_exists jump_exists i ingress egress h =
     (if i_domain_name i \<noteq> [] \<and> truthy mac then
        HostCommands (apply_bridge mac chain_exists jump_exists (i_domain_name i) (i_id i) (expand_sg_references h egress))
      else apply_slirp i (expand_sg_references h ingress))"

definition sg_remove :: "string option \<Rightarrow> inst \<Rightarrow> sg_action" where
  "sg_remove mac i =
     (if i_domain_name i \<noteq> [] \<and> truthy mac then HostCommands (remove_bridge mac (i_domain_name i) (i_id i)) else NoAction)"

end
