(* ===== verification/Security_Props.thy ===== *)
theory Security_Props
  imports Security_Groups Network_Props
begin

text \<open>
  What the security-group routes and the enforcement guarantee: which rules are accepted, that an
  update reaches every running member with the new rules, and what the commands for a bridged
  instance do, IPv6 included.
\<close>

section \<open>Accepted rules\<close>

definition rule_ok :: "sg_rule \<Rightarrow> bool" where
  "rule_ok r \<longleftrightarrow> rule_protocol r \<in> VALID_PROTOCOLS \<and>
     (truthy (sr_source_sg_id r) \<longleftrightarrow> \<not> (truthy (sr_cidr r) \<or> truthy (sr_cidr_ipv6 r))) \<and>
     (truthy (sr_cidr_ipv6 r) \<longrightarrow> ip_network (the (sr_cidr_ipv6 r)) \<noteq> None) \<and>
     (rule_protocol r \<noteq> ''-1'' \<longrightarrow>
       (\<exists>fp tp. sr_from_port r = Some fp \<and> sr_to_port r = Some tp \<and> 0 \<le> fp \<and> fp \<le> tp \<and> tp \<le> 65535))"

lemma rule_error_iff: "rule_error r \<longleftrightarrow> \<not> rule_ok r"
  by (cases "sr_from_port r"; cases "sr_to_port r") (auto simp: rule_error_def rule_ok_def Let_def)

lemma validate_rules_ok: "\<not> validate_rules rs \<longleftrightarrow> (\<forall>r \<in> set rs. rule_ok r)"
  by (induction rs) (auto simp: rule_error_iff)

text \<open>
  A rule list passes validation exactly when each rule has a known protocol, names either a
  source group or at least one CIDR but not both, has an IPv6 CIDR that parses if it has one, and,
  unless it is for all protocols, has ports with 0 <= from <= to <= 65535.  The IPv4 CIDR is not
  checked, and the IPv6 CIDR may be an IPv4 network.
\<close>

theorem validate_rules_accepts:
  "validate_rules rs = False \<longleftrightarrow>
     (\<forall>r \<in> set rs. rule_protocol r \<in> VALID_PROTOCOLS \<and>
       (truthy (sr_source_sg_id r) \<longleftrightarrow> \<not> (truthy (sr_cidr r) \<or> truthy (sr_cidr_ipv6 r))) \<and>
       (truthy (sr_cidr_ipv6 r) \<longrightarrow> ip_network (the (sr_cidr_ipv6 r)) \<noteq> None) \<and>
       (rule_protocol r \<noteq> ''-1'' \<longrightarrow>
         (\<exists>fp tp. sr_from_port r = Some fp \<and> sr_to_port r = Some tp \<and> 0 \<le> fp \<and> fp \<le> tp \<and> tp \<le> 65535)))"
  using validate_rules_ok [of rs] by (simp only: rule_ok_def) blast

text \<open>An accepted ICMP rule always has ports, and every command made from it carries them as
  \<^verbatim>\<open>--dport\<close>, an option that \<^verbatim>\<open>iptables\<close> does not know for ICMP.\<close>

lemma icmp_rule_carries_dport:
  assumes "rule_ok r" "rule_protocol r = ''icmp''" "ca \<in> set (iptables_rule_args r d)"
  shows "''--dport'' \<in> set (snd ca)"
proof -
  have "\<exists>fp tp. sr_from_port r = Some fp \<and> sr_to_port r = Some tp" using assms(1,2) by (auto simp: rule_ok_def)
  then have "''--dport'' \<in> set (dport_args r)" by (auto simp: dport_args_def)
  then have "''--dport'' \<in> set (cidr_args r f c)" for f c by (simp add: cidr_args_def assms(2))
  then show ?thesis using assms(3) by (auto simp: iptables_rule_args_def Let_def split: if_splits)
qed

section \<open>Updates reach the running members\<close>

lemma merged_rules_cong: "sg_tbl h = sg_tbl h' \<Longrightarrow> merged_rules h is = merged_rules h' is"
  by (induction "is") simp_all

lemma merged_rules_member:
  assumes "i \<in> set is" "store_get_sg (sg_tbl h) i = Some g"
  shows "set (g_ingress_rules g) \<subseteq> set (fst (merged_rules h is))" "set (g_egress_rules g) \<subseteq> set (snd (merged_rules h is))"
  using assms by (induction "is") (auto simp: Let_def split: prod.splits option.splits)

lemma reapply_closed:
  "reapply_to_instances i h = h\<lparr>effects := effects h @
     map (\<lambda>x. SgApply (i_id x) (fst (merged_rules h (i_security_group_ids x))) (snd (merged_rules h (i_security_group_ids x))))
       (filter (\<lambda>x. i \<in> set (i_security_group_ids x) \<and> i_status x = Running) (store_list_instances (instance_tbl h)))\<rparr>"
proof -
  have "fold (\<lambda>x h'. if i \<in> set (i_security_group_ids x) \<and> i_status x = Running
                  then (let (ing, eg) = merged_rules h' (i_security_group_ids x) in emit (SgApply (i_id x) ing eg) h')
                  else h') xs k = k\<lparr>effects := effects k @
     map (\<lambda>x. SgApply (i_id x) (fst (merged_rules k (i_security_group_ids x))) (snd (merged_rules k (i_security_group_ids x))))
       (filter (\<lambda>x. i \<in> set (i_security_group_ids x) \<and> i_status x = Running) xs)\<rparr>" for xs k
  proof (induction xs arbitrary: k)
    case (Cons x xs)
    have m: "merged_rules (emit e k) = merged_rules k" for e by (rule ext, rule merged_rules_cong) simp
    show ?case by (simp add: Cons.IH m split_beta) (simp add: emit_def)
  qed simp
  then show ?thesis by (simp add: reapply_to_instances_def)
qed

text \<open>
  When an update of a local security group succeeds, the stored group has the accepted rules and
  enforcement is re-applied once to each running instance that lists the group, in table order and to
  no other, with the merged rules of all its groups, which contain the new ones.
\<close>

theorem update_sg_reaches_members:
  assumes "wf_sgs h" "store_get_sg (sg_tbl h) i = Some g" "\<not> truthy (g_host_id g)"
    and "update_sg put i body h = (h', Reply 200 d)"
  shows "effects h' = effects h @
      map (\<lambda>x. SgApply (i_id x) (fst (merged_rules h' (i_security_group_ids x))) (snd (merged_rules h' (i_security_group_ids x))))
        (filter (\<lambda>x. i \<in> set (i_security_group_ids x) \<and> i_status x = Running) (store_list_instances (instance_tbl h))) \<and>
    (\<forall>x. i \<in> set (i_security_group_ids x) \<longrightarrow>
      set (opt (gb_ingress_rules body) (g_ingress_rules g)) \<subseteq> set (fst (merged_rules h' (i_security_group_ids x))) \<and>
      set (opt (gb_egress_rules body) (g_egress_rules g)) \<subseteq> set (snd (merged_rules h' (i_security_group_ids x)))) \<and>
    \<not> validate_rules (opt (gb_ingress_rules body) (g_ingress_rules g))"
proof -
  let ?g = "g\<lparr>g_description := opt (gb_description body) (g_description g),
    g_ingress_rules := opt (gb_ingress_rules body) (g_ingress_rules g),
    g_egress_rules := opt (gb_egress_rules body) (g_egress_rules g), g_tags := opt (gb_tags body) (g_tags g)\<rparr>"
  have gi: "g_id g = i" "g_live g" using assms(1,2) by (simp_all add: sgs.get_Some)
  have v: "\<not> validate_rules (opt (gb_ingress_rules body) (g_ingress_rules g))"
    and h': "h' = reapply_to_instances i (save_sg ?g h)"
    using assms(2,3,4) gi by (auto simp: update_sg_def Let_def split: if_splits)
  let ?k = "save_sg ?g h"
  have tbl: "sg_tbl h' = sg_tbl ?k" "effects ?k = effects h" "instance_tbl ?k = instance_tbl h"
    by (simp_all add: h' reapply_closed save_sg_def)
  have m: "merged_rules h' = merged_rules ?k" by (rule ext, rule merged_rules_cong) (rule tbl(1))
  have "store_get_sg (sg_tbl ?k) i = Some (stored_sg (sg_tbl h) ?g)"
    using assms(1) gi by (simp add: save_sg_def sgs.get_put g_live_def)
  moreover have "g_ingress_rules (stored_sg t x) = g_ingress_rules x" "g_egress_rules (stored_sg t x) = g_egress_rules x" for t x
    by (simp_all add: stored_sg_def stored_row_def split: option.splits)
  ultimately have "set (g_ingress_rules ?g) \<subseteq> set (fst (merged_rules ?k is)) \<and> set (g_egress_rules ?g) \<subseteq> set (snd (merged_rules ?k is))"
    if "i \<in> set is" for "is"
    using merged_rules_member [OF that, of ?k] by force
  then show ?thesis using v by (simp add: m) (simp add: h' reapply_closed tbl)
qed

section \<open>Commands for a bridged instance\<close>

text \<open>The rules that a list of commands leaves in a chain of one of the two tables, oldest first.\<close>

fun chain_rules :: "string \<Rightarrow> string \<Rightarrow> command list \<Rightarrow> string list list" where
  "chain_rules tool chain [] = []"
| "chain_rules tool chain (c # cs) =
     (if take 3 c = [tool, ''-A'', chain] then [drop 3 c] else []) @ chain_rules tool chain cs"

lemma chain_rules_append [simp]: "chain_rules t c (xs @ ys) = chain_rules t c xs @ chain_rules t c ys"
  by (induction xs) simp_all

lemma chain_rules_map:
  "chain_rules t c (map (\<lambda>ca. [fst ca, ''-A'', c] @ snd ca) xs) = map snd (filter (\<lambda>ca. fst ca = t) xs)"
  by (induction xs) auto

lemma chain_rules_concat:
  "chain_rules t c (concat (map f rs)) = concat (map (\<lambda>r. chain_rules t c (f r)) rs)"
  by (induction rs) simp_all

text \<open>
  For a bridged instance the commands flush the IPv4 chain of the instance and fill it with the
  accepted IPv4 egress rules, in order, and one final rule that drops everything else.  Nothing is
  done for IPv6 but to append the IPv6 rules: no command creates the \<^verbatim>\<open>ip6tables\<close> chain, ends it
  with a drop or sends traffic to it.  No ingress rule is enforced.
\<close>

theorem apply_bridge_enforces_ipv4_only:
  assumes "mac = Some m" "m \<noteq> []"
  shows "chain_rules ''iptables'' (chain_name (sg_id @ take 8 domain)) (apply_bridge mac ce je domain sg_id egress) =
      concat (map (\<lambda>r. map snd (filter (\<lambda>ca. fst ca = ''iptables'') (iptables_rule_args r False))) egress) @ [[''-j'', ''DROP'']] \<and>
    [''iptables'', ''-F'', chain_name (sg_id @ take 8 domain)] \<in> set (apply_bridge mac ce je domain sg_id egress) \<and>
    (\<forall>c \<in> set (apply_bridge mac ce je domain sg_id egress). hd c = ''ip6tables'' \<longrightarrow>
      (\<exists>r \<in> set egress. \<exists>args. c = [''ip6tables'', ''-A'', chain_name (sg_id @ take 8 domain)] @ args \<and>
         (''ip6tables'', args) \<in> set (iptables_rule_args r False)))"
proof -
  have "truthy mac" using assms by (simp add: truthy_def)
  then show ?thesis
    by (auto simp: apply_bridge_def Let_def chain_rules_concat chain_rules_map [simplified])
qed

section \<open>Concrete groups\<close>

definition demo_rule :: sg_rule where
  "demo_rule = \<lparr>sr_protocol = Some ''tcp'', sr_cidr = Some ''0.0.0.0/0'', sr_cidr_ipv6 = None, sr_source_sg_id = None,
     sr_from_port = Some 80, sr_to_port = Some 443\<rparr>"

definition demo_group :: security_group where
  "demo_group = \<lparr>g_id = ''g1'', g_name = ''web'', g_description = [], g_vpc_id = ''v1'', g_ingress_rules = [],
     g_egress_rules = [], g_status = Active, g_created_at = 0, g_tags = [], g_host_id = None\<rparr>"

definition demo_sg_body :: sg_body where
  "demo_sg_body = \<lparr>gb_name = None, gb_description = None, gb_vpc_id = None, gb_peer_id = None,
     gb_ingress_rules = Some [demo_rule], gb_egress_rules = None, gb_tags = None\<rparr>"

theorem validate_rules_accepts_witness: "validate_rules [demo_rule] = False"
  using validate_rules_accepts [of "[demo_rule]"]
  by (simp add: demo_rule_def rule_protocol_def VALID_PROTOCOLS_def truthy_def)

theorem update_sg_reaches_members_witness:
  "\<exists>h' d. update_sg (\<lambda>_ _ _. PeerUnreachable) ''g1'' demo_sg_body (demo_net\<lparr>sg_tbl := [demo_group]\<rparr>) = (h', Reply 200 d) \<and>
     (\<forall>x. ''g1'' \<in> set (i_security_group_ids x) \<longrightarrow> demo_rule \<in> set (fst (merged_rules h' (i_security_group_ids x))))"
proof -
  let ?h = "demo_net\<lparr>sg_tbl := [demo_group]\<rparr>"
  have wf: "wf_sgs ?h" by (simp add: wf_table_def)
  have g: "store_get_sg (sg_tbl ?h) ''g1'' = Some demo_group"
    by (simp add: store_get_sg_def live_get_def demo_group_def g_live_def)
  have l: "\<not> truthy (g_host_id demo_group)" by (simp add: demo_group_def truthy_def)
  have "\<not> rule_error demo_rule"
    by (simp add: rule_error_def demo_rule_def rule_protocol_def VALID_PROTOCOLS_def truthy_def)
  then have "\<exists>h' d. update_sg (\<lambda>_ _ _. PeerUnreachable) ''g1'' demo_sg_body ?h = (h', Reply 200 d)"
    using g l by (simp add: update_sg_def Let_def demo_sg_body_def sg_dict_def) (simp add: demo_group_def)
  then obtain h' d where u: "update_sg (\<lambda>_ _ _. PeerUnreachable) ''g1'' demo_sg_body ?h = (h', Reply 200 d)" by blast
  then show ?thesis using update_sg_reaches_members [OF wf g l u] by (auto simp: demo_sg_body_def)
qed

theorem apply_bridge_enforces_ipv4_only_witness:
  "chain_rules ''iptables'' (chain_name (''i1'' @ take 8 ''cc-i1'')) (apply_bridge (Some ''52:54'') False False ''cc-i1'' ''i1'' [demo_rule]) =
     [[''-p'', ''tcp'', ''-d'', ''0.0.0.0/0'', ''--dport'', ''80:443'', ''-j'', ''ACCEPT''], [''-j'', ''DROP'']]"
proof -
  have "iptables_rule_args demo_rule False =
      [(''iptables'', [''-p'', ''tcp'', ''-d'', ''0.0.0.0/0'', ''--dport'', ''80:443'', ''-j'', ''ACCEPT''])]"
    by code_simp
  then show ?thesis
    using apply_bridge_enforces_ipv4_only [of "Some ''52:54''" "''52:54''" "''i1''" "''cc-i1''" False False "[demo_rule]"] by simp
qed

end
