(* ===== verification/Dns.thy ===== *)
theory Dns
  imports Host "HOL-Library.List_Lexorder" "HOL-Library.Char_ord"
begin

text \<open>
  \<^verbatim>\<open>api/dns.py\<close>: zones and records.  \<open>Inl\<close> is the \<^verbatim>\<open>ValueError\<close> of a missing or duplicate
  zone.  Every change asks the DNS server to reload.
\<close>

definition BUILTIN_ZONES :: "string list" where
  "BUILTIN_ZONES = [''instances.cloudcore.internal'', ''lb.cloudcore.internal'']"

definition get_zone :: "host \<Rightarrow> string \<Rightarrow> dns_zone option" where
  "get_zone h n = find (\<lambda>z. z_name z = n) (dns_zone_tbl h)"

definition add_builtin :: "instant \<Rightarrow> string \<Rightarrow> host \<Rightarrow> host" where
  "add_builtin now n h =
     (case get_zone h n of
        Some _ \<Rightarrow> h
      | None \<Rightarrow> h\<lparr>dns_zone_tbl := dns_zone_tbl h @ [\<lparr>z_name = n, z_created_at = now, z_builtin = True\<rparr>]\<rparr>)"

definition dns_load :: "instant \<Rightarrow> host \<Rightarrow> host" where
  "dns_load now h = fold (add_builtin now) BUILTIN_ZONES h"

definition create_zone :: "instant \<Rightarrow> string \<Rightarrow> host \<Rightarrow> string + host" where
  "create_zone now n h =
     (case get_zone h n of
        Some _ \<Rightarrow> Inl ''exists''
      | None \<Rightarrow> Inr (h\<lparr>dns_zone_tbl := dns_zone_tbl h @ [\<lparr>z_name = n, z_created_at = now, z_builtin = False\<rparr>]\<rparr>))"

text \<open>Foreign keys are enforced: the records of a deleted zone go with it.\<close>

definition delete_zone :: "string \<Rightarrow> host \<Rightarrow> host \<times> bool" where
  "delete_zone n h =
     (h\<lparr>dns_zone_tbl := filter (\<lambda>z. z_name z \<noteq> n) (dns_zone_tbl h),
        dns_record_tbl := filter (\<lambda>d. d_zone_name d \<noteq> n) (dns_record_tbl h)\<rparr>,
      get_zone h n \<noteq> None)"

definition list_records :: "host \<Rightarrow> string \<Rightarrow> dns_record list" where
  "list_records h zone = sort_key d_name (filter (\<lambda>d. d_zone_name d = zone) (dns_record_tbl h))"

definition dns_key :: "dns_record \<Rightarrow> string \<times> string \<times> string" where
  "dns_key d = (d_zone_name d, d_name d, d_type d)"

text \<open>\<^verbatim>\<open>rtype.upper()\<close> on ASCII letters.\<close>

definition to_upper :: "char \<Rightarrow> char" where
  "to_upper c = (let n = (of_char c :: nat) in if 97 \<le> n \<and> n \<le> 122 then char_of (n - 32) else c)"

definition upsert_record ::
    "string \<Rightarrow> instant \<Rightarrow> string \<Rightarrow> string \<Rightarrow> string \<Rightarrow> string \<Rightarrow> int \<Rightarrow> string \<Rightarrow> string \<Rightarrow> host \<Rightarrow> string + host" where
  "upsert_record rid now zone name rtype v ttl resource_type resource_id h =
     (case get_zone h zone of
        None \<Rightarrow> Inl ''not found''
      | Some _ \<Rightarrow>
         (let row = \<lparr>d_id = rid, d_zone_name = zone, d_name = name, d_fqdn = name @ ''.'' @ zone,
                d_type = map to_upper rtype, d_value = v, d_ttl = ttl, d_resource_type = resource_type,
                d_resource_id = resource_id, d_created_at = now\<rparr>
          in Inr (emit DnsReload (h\<lparr>dns_record_tbl := upsert dns_key
               (\<lambda>old new. new\<lparr>d_id := d_id old, d_created_at := d_created_at old\<rparr>) row (dns_record_tbl h)\<rparr>))))"

definition delete_record :: "string \<Rightarrow> string \<Rightarrow> string \<Rightarrow> host \<Rightarrow> host \<times> bool" where
  "delete_record zone name rtype h =
     (let k = (zone, name, map to_upper rtype) in
      (emit DnsReload (h\<lparr>dns_record_tbl := filter (\<lambda>d. dns_key d \<noteq> k) (dns_record_tbl h)\<rparr>),
       k \<in> dns_key ` set (dns_record_tbl h)))"

definition delete_records_for_resource :: "string \<Rightarrow> host \<Rightarrow> host" where
  "delete_records_for_resource rid h =
     emit DnsReload (h\<lparr>dns_record_tbl := filter (\<lambda>d. d_resource_id d \<noteq> rid) (dns_record_tbl h)\<rparr>)"

text \<open>The value a name resolves to.\<close>

definition resolve :: "host \<Rightarrow> string \<Rightarrow> string \<Rightarrow> string \<Rightarrow> string option" where
  "resolve h zone name rtype = map_option d_value (find (\<lambda>d. dns_key d = (zone, name, rtype)) (dns_record_tbl h))"

end
