(* ===== verification/Compute.thy ===== *)
theory Compute
  imports Dns Store Pytext
begin

text \<open>
  The parts of \<^verbatim>\<open>api/compute.py\<close> and \<^verbatim>\<open>api/usb.py\<close> that decide what an instance record becomes: the
  flavours, the login name of an image, the data disks of a lab VM, which USB devices may be attached,
  and the launch.  What libvirt, \<^verbatim>\<open>qemu-img\<close> and the network of the host answer is the record
  \<open>launch_env\<close>; the USB tree of the host is a list of devices.
\<close>

section \<open>Images and flavours\<close>

definition DISTRO_USER :: "(string \<times> string) list" where
  "DISTRO_USER = [(''ubuntu'', ''ubuntu''), (''debian'', ''debian''), (''rocky'', ''rocky''), (''centos'', ''centos''), (''fedora'', ''fedora'')]"

definition ssh_user_for_image :: "string \<Rightarrow> string" where
  "ssh_user_for_image image_id = (case find (\<lambda>du. py_in (fst du) image_id) DISTRO_USER of
     Some du \<Rightarrow> snd du | None \<Rightarrow> ''ubuntu'')"

text \<open>Virtual CPUs, memory in MB, disk in GB.\<close>

definition FLAVORS :: "(string \<times> nat \<times> nat \<times> nat) list" where
  "FLAVORS = [(''standard.nano'', 1, 512, 5), (''standard.small'', 1, 1024, 10), (''standard.medium'', 2, 2048, 20),
     (''standard.large'', 4, 4096, 40), (''standard.xlarge'', 6, 8192, 60), (''standard.2xlarge'', 6, 16384, 100),
     (''memory.medium'', 2, 8192, 40), (''memory.large'', 2, 16384, 60)]"

definition MAX_DATA_DISKS :: nat where "MAX_DATA_DISKS = 3"
definition MAX_DATA_DISK_GB :: int where "MAX_DATA_DISK_GB = 50"

text \<open>\<open>None\<close> is \<^verbatim>\<open>ValueError\<close>.\<close>

fun py_ints :: "string list \<Rightarrow> int list option" where
  "py_ints [] = Some []"
| "py_ints (s # ss) = (case (py_int s, py_ints ss) of (Some n, Some ns) \<Rightarrow> Some (n # ns) | _ \<Rightarrow> None)"

definition data_disk_sizes :: "tags \<Rightarrow> int list option" where
  "data_disk_sizes tags =
     (let raw = py_strip (case map_of tags ''data_disks'' of None \<Rightarrow> [] | Some v \<Rightarrow> v) in
      if raw = [] then Some []
      else (case py_ints (split_on (CHR '','') raw) of
              None \<Rightarrow> None
            | Some sizes \<Rightarrow> if length sizes > MAX_DATA_DISKS \<or> list_ex (\<lambda>s. s < 1 \<or> s > MAX_DATA_DISK_GB) sizes then None
                            else Some sizes))"

section \<open>USB devices\<close>

record usb_device =
  x_id :: string
  x_device_class :: string
  x_interface_classes :: "string list"
  x_description :: string

definition HID_CLASS :: string where "HID_CLASS = ''03''"
definition HUB_CLASS :: string where "HUB_CLASS = ''09''"
definition NAME_DENYLIST :: "string list" where
  "NAME_DENYLIST = [''keyboard'', ''mouse'', ''touchpad'', ''trackpad'', ''fingerprint'']"

definition is_blocked :: "usb_device \<Rightarrow> bool" where
  "is_blocked d =
     (if x_device_class d = HID_CLASS \<or> HID_CLASS \<in> set (x_interface_classes d) then True
      else if x_device_class d = HUB_CLASS then True
      else list_ex (\<lambda>kw. py_in kw (py_lower (x_description d))) NAME_DENYLIST)"

text \<open>A later instance overwrites the entry of an earlier one.\<close>

definition attached_instance_map :: "host \<Rightarrow> string \<Rightarrow> string option" where
  "attached_instance_map h usb_id =
     map_option i_id (find (\<lambda>i. usb_id \<in> set (i_usb_device_ids i)) (rev (store_list_instances (instance_tbl h))))"

text \<open>\<open>True\<close> where the source returns an error.  Of two devices with the same identifier the later
  entry of the list is the one the dictionary keeps.\<close>

definition validate_attachable :: "usb_device list \<Rightarrow> host \<Rightarrow> string \<Rightarrow> string option \<Rightarrow> bool" where
  "validate_attachable devices h usb_id requesting =
     (case find (\<lambda>d. x_id d = usb_id) (rev devices) of
        None \<Rightarrow> True
      | Some dev \<Rightarrow>
          if is_blocked dev then True
          else (let owner = attached_instance_map h usb_id in truthy owner \<and> owner \<noteq> requesting))"

section \<open>Launching\<close>

record launch_env =
  n_image :: bool
  n_disk :: bool
  n_lab_bridge :: bool
  n_bridge :: bool
  n_data_disks :: bool
  n_firmware :: bool
  n_ssh_port :: "int option"
  n_http_port :: "int option"
  n_slirp_ip :: "string option"
  n_domain :: bool
  n_ip :: string
  n_sg_apply :: bool
  n_error :: string
  n_record_id :: string
  n_now :: instant

definition is_lab :: "inst \<Rightarrow> bool" where
  "is_lab i \<longleftrightarrow> map_of (i_tags i) ''network'' = Some ''lab''"

definition define_domain :: "launch_env \<Rightarrow> inst \<Rightarrow> inst \<times> bool" where
  "define_domain e i = (if n_domain e then (i\<lparr>i_status := Running\<rparr>, True) else (i\<lparr>i_status := Error\<rparr>, False))"

text \<open>The object as the call leaves it, and whether the call returned (it raises otherwise).\<close>

definition compute_create_instance :: "launch_env \<Rightarrow> usb_device list \<Rightarrow> host \<Rightarrow> inst \<Rightarrow> inst \<times> bool" where
  "compute_create_instance e devices h i =
     (if map_of FLAVORS (i_flavor i) = None then (i, False)
      else if \<not> n_image e then (i, False)
      else
        (let i1 = i\<lparr>i_domain_name := ''cc-'' @ take 8 (i_id i)\<rparr>; lab = is_lab i in
         if \<not> n_disk e then (i1, False)
         else if lab \<and> \<not> n_lab_bridge e then (i1, False)
         else if lab \<and> (data_disk_sizes (i_tags i) = None \<or> \<not> n_data_disks e) then (i1, False)
         else if \<not> n_firmware e then (i1, False)
         else if list_ex (\<lambda>u. validate_attachable devices h u (Some (i_id i))) (i_usb_device_ids i) then (i1, False)
         else if lab \<or> n_bridge e then
           define_domain e (i1\<lparr>i_ssh_host_port := 0, i_http_host_port := 0, i_private_ip := []\<rparr>)
         else
           (case (n_ssh_port e, n_http_port e) of
              (Some sp, Some hp) \<Rightarrow>
                (let i2 = i1\<lparr>i_ssh_host_port := sp, i_http_host_port := hp\<rparr> in
                 (case n_slirp_ip e of
                    None \<Rightarrow> (i2, False)
                  | Some ip \<Rightarrow> define_domain e (i2\<lparr>i_private_ip := ip\<rparr>)))
            | _ \<Rightarrow> (i1, False))))"

section \<open>Facts\<close>

lemma define_domain_keeps [simp]:
  "i_id (fst (define_domain e i)) = i_id i" "i_usb_device_ids (fst (define_domain e i)) = i_usb_device_ids i"
  "i_name (fst (define_domain e i)) = i_name i" "i_vpc_id (fst (define_domain e i)) = i_vpc_id i"
  "snd (define_domain e i) = n_domain e" "n_domain e \<Longrightarrow> i_status (fst (define_domain e i)) = Running"
  by (simp_all add: define_domain_def)

lemma compute_create_keeps:
  "i_id (fst (compute_create_instance e ds h i)) = i_id i"
  "i_usb_device_ids (fst (compute_create_instance e ds h i)) = i_usb_device_ids i"
  "i_name (fst (compute_create_instance e ds h i)) = i_name i"
  "i_vpc_id (fst (compute_create_instance e ds h i)) = i_vpc_id i"
  by (simp_all add: compute_create_instance_def Let_def split: option.splits)

lemma compute_create_running:
  "snd (compute_create_instance e ds h i) \<Longrightarrow> i_status (fst (compute_create_instance e ds h i)) = Running"
  by (auto simp: compute_create_instance_def Let_def split: if_splits option.splits)

text \<open>A lab VM never comes up on the ordinary bridge or with forwarded ports.\<close>

lemma lab_needs_lab_bridge:
  assumes "is_lab i" "snd (compute_create_instance e ds h i)"
  shows "n_lab_bridge e \<and> i_ssh_host_port (fst (compute_create_instance e ds h i)) = 0"
  using assms by (auto simp: compute_create_instance_def define_domain_def Let_def split: if_splits)

lemma validate_attachable_owner:
  assumes "\<not> validate_attachable ds h u r" "i_id i \<noteq> []" "i \<in> set (store_list_instances (instance_tbl h))" "u \<in> set (i_usb_device_ids i)"
  shows "\<exists>j \<in> set (store_list_instances (instance_tbl h)). u \<in> set (i_usb_device_ids j) \<and> (i_id j = [] \<or> r = Some (i_id j))"
proof -
  obtain j where j: "find (\<lambda>i. u \<in> set (i_usb_device_ids i)) (rev (store_list_instances (instance_tbl h))) = Some j"
    using assms(3,4) by (cases "find (\<lambda>i. u \<in> set (i_usb_device_ids i)) (rev (store_list_instances (instance_tbl h)))")
      (auto simp: find_None_iff)
  then have "j \<in> set (store_list_instances (instance_tbl h))" "u \<in> set (i_usb_device_ids j)"
    using find_Some_in by fastforce+
  moreover have "i_id j = [] \<or> r = Some (i_id j)"
    using assms(1) j by (auto simp: validate_attachable_def attached_instance_map_def truthy_def split: option.splits if_splits)
  ultimately show ?thesis by blast
qed

text \<open>Nothing that looks like an input device is attachable.\<close>

lemma attachable_not_blocked:
  assumes "\<not> validate_attachable ds h u r"
  shows "\<exists>d \<in> set ds. x_id d = u \<and> \<not> is_blocked d"
proof -
  obtain d where "find (\<lambda>d. x_id d = u) (rev ds) = Some d" "\<not> is_blocked d"
    using assms by (auto simp: validate_attachable_def split: option.splits if_splits)
  then show ?thesis using find_Some_in by fastforce
qed

end
