(* ===== verification/Instances.thy ===== *)
theory Instances
  imports Remote Compute Security_Groups
begin

text \<open>
  The instance routes of \<^verbatim>\<open>api/server.py\<close>.  A handler that starts a thread returns at once: the
  thread of a create is the operation \<open>launch\<close> (local) or \<open>poll_remote\<close> (on a peer), which works on
  the object that the handler built; the threads of a delete and of the user routes are recorded as
  effects.  \<open>devices\<close> is the USB tree of the host, and the answers of libvirt are arguments.  In a
  body, \<open>ib_usb_device_ids\<close> tells an absent key from an explicit null.
\<close>

section \<open>Bodies and views\<close>

record user_body =
  ub_username :: "string option"
  ub_sudo :: "bool option"
  ub_ssh_keys :: "string list option"
  ub_password_hash :: "string option"

record inst_body =
  ib_name :: "string option"
  ib_image_id :: "string option"
  ib_flavor :: "string option"
  ib_vpc_id :: "string option"
  ib_subnet_id :: "string option"
  ib_peer_id :: "string option"
  ib_security_group_ids :: "string list option"
  ib_usb_device_ids :: "string list option option"
  ib_users :: "user_body list option"
  ib_user_data :: "string option"
  ib_tags :: "tags option"

record inst_remote =
  ir_id :: string
  ir_name :: "string option"
  ir_status :: "string option"
  ir_private_ip :: "string option"
  ir_public_ip :: "string option"
  ir_error_message :: "string option"
  ir_usb_device_ids :: "string list option"
  ir_tags :: "tags option"

type_synonym inst_reply = "(inst_view \<times> string option) reply"

definition instance_dict :: "host \<Rightarrow> inst \<Rightarrow> inst_view \<times> string option" where
  "instance_dict h i = (inst_to_dict i, host_hostname h (i_host_id i))"

definition save_instance :: "inst \<Rightarrow> host \<Rightarrow> host" where
  "save_instance i h = h\<lparr>instance_tbl := put_instance (instance_tbl h) i\<rparr>"

definition list_instances :: "host \<Rightarrow> (inst_view \<times> string option) list reply" where
  "list_instances h = Reply 200 (map (instance_dict h) (store_list_instances (instance_tbl h)))"

text \<open>The load balancers of a VPC are reloaded with the instances that are in it now.\<close>

definition reload_lbs :: "string \<Rightarrow> host \<Rightarrow> host" where
  "reload_lbs vpc_id h =
     fold (\<lambda>b h'. if lb_vpc_id b = vpc_id
                  then emit (LbReload (lb_id b) (map i_id (list_instances_by_vpc (instance_tbl h') vpc_id))) h' else h')
       (store_list_lbs (lb_tbl h)) h"

section \<open>Creating\<close>

definition new_instance :: "string \<Rightarrow> instant \<Rightarrow> inst" where
  "new_instance nid now = \<lparr>i_id = nid, i_name = [], i_image_id = [], i_flavor = [], i_vpc_id = [], i_subnet_id = [],
     i_security_group_ids = [], i_usb_device_ids = [], i_user_data = None, i_private_ip = [], i_public_ip = [],
     i_status = Pending, i_error_message = [], i_created_at = now, i_tags = [], i_domain_name = [], i_ssh_host_port = 0,
     i_http_host_port = 0, i_ssh_user = ''ubuntu'', i_users = [], i_host_id = None\<rparr>"

definition create_remote_instance ::
    "(string \<Rightarrow> inst_body \<Rightarrow> string option \<Rightarrow> inst_remote peer_result) \<Rightarrow> instant \<Rightarrow> string \<Rightarrow> inst_body \<Rightarrow> host \<Rightarrow>
     host \<times> inst_reply" where
  "create_remote_instance post now peer_id body h =
     (case approved_peer h peer_id of
        None \<Rightarrow> (h, Problem 400 ''Bad Request'')
      | Some p \<Rightarrow>
         (case post (p_api_url p @ ''/v1/instances'') (body\<lparr>ib_peer_id := None\<rparr>) (p_remote_token p) of
            PeerUnreachable \<Rightarrow> (h, Problem 502 ''Bad Gateway'')
          | PeerResponse st remote \<Rightarrow>
              if st \<notin> {200, 202} then (h, Problem st ''Bad Gateway'')
              else
                (let i = (new_instance (ir_id remote) now)\<lparr>i_name := opt (ir_name remote) (opt (ib_name body) []),
                       i_image_id := opt (ib_image_id body) [], i_flavor := opt (ib_flavor body) [],
                       i_vpc_id := opt (ib_vpc_id body) [], i_subnet_id := opt (ib_subnet_id body) [],
                       i_security_group_ids := opt (ib_security_group_ids body) [], i_tags := opt (ib_tags body) [],
                       i_host_id := Some peer_id,
                       i_status := opt (inst_status_of (opt (ir_status remote) ''pending'')) Pending,
                       i_private_ip := opt (ir_private_ip remote) [], i_public_ip := opt (ir_public_ip remote) []\<rparr>;
                     h1 = save_instance i h
                 in (h1, Reply 202 (instance_dict h1 i)))))"

definition user_of_body :: "user_body \<Rightarrow> inst_user" where
  "user_of_body u = \<lparr>u_username = py_strip (opt (ub_username u) []), u_sudo = opt (ub_sudo u) False,
     u_ssh_keys = opt (ub_ssh_keys u) [], u_password_hash = opt (ub_password_hash u) []\<rparr>"

definition create_instance ::
    "(string \<Rightarrow> inst_body \<Rightarrow> string option \<Rightarrow> inst_remote peer_result) \<Rightarrow> usb_device list \<Rightarrow> string \<Rightarrow> instant \<Rightarrow>
     inst_body \<Rightarrow> host \<Rightarrow> host \<times> inst_reply" where
  "create_instance post devices nid now body h =
     (let name = py_strip (opt (ib_name body) []) in
      if name = [] then (h, Problem 400 ''Bad Request'')
      else if \<not> (truthy (ib_image_id body) \<and> truthy (ib_flavor body) \<and> truthy (ib_vpc_id body) \<and> truthy (ib_subnet_id body)) then
        (h, Problem 400 ''Bad Request'')
      else if find_instance_by_name (instance_tbl h) name \<noteq> None then (h, Problem 409 ''Conflict'')
      else if truthy (ib_peer_id body) then create_remote_instance post now (the (ib_peer_id body)) body h
      else if list_ex (\<lambda>g. store_get_sg (sg_tbl h) g = None) (opt (ib_security_group_ids body) []) then
        (h, Problem 400 ''Bad Request'')
      else
        (let usb_ids = opt (opt (ib_usb_device_ids body) None) []; users = opt (ib_users body) [] in
         if list_ex (\<lambda>u. py_strip (opt (ub_username u) []) = []) users then (h, Problem 400 ''Bad Request'')
         else if list_ex (\<lambda>u. validate_attachable devices h u None) usb_ids then (h, Problem 409 ''Conflict'')
         else
           (let i = (new_instance nid now)\<lparr>i_name := name, i_image_id := the (ib_image_id body), i_flavor := the (ib_flavor body),
                  i_vpc_id := the (ib_vpc_id body), i_subnet_id := the (ib_subnet_id body),
                  i_security_group_ids := opt (ib_security_group_ids body) [], i_usb_device_ids := usb_ids,
                  i_user_data := ib_user_data body, i_ssh_user := ssh_user_for_image (the (ib_image_id body)),
                  i_tags := opt (ib_tags body) [], i_users := map user_of_body users\<rparr>;
                h1 = save_instance i h
            in (h1, Reply 202 (instance_dict h1 i)))))"

text \<open>The thread of a local create, on the object the handler built.\<close>

definition post_launch :: "launch_env \<Rightarrow> inst \<Rightarrow> host \<Rightarrow> host \<times> inst" where
  "post_launch e i h =
     (let i1 = i\<lparr>i_private_ip := n_ip e\<rparr>; failed = i1\<lparr>i_error_message := n_error e\<rparr> in
      (case upsert_record (n_record_id e) (n_now e) ''instances.cloudcore.internal'' (i_name i) ''A''
              (str_or (n_ip e) ''127.0.0.1'') 300 ''instance'' (i_id i) h of
         Inl _ \<Rightarrow> (h, failed)
       | Inr h1 \<Rightarrow>
          (let h2 = emit DnsReload h1 in
           if i_security_group_ids i = [] then (h2, i1)
           else if n_sg_apply e then
             (let (ing, eg) = merged_rules h2 (i_security_group_ids i) in (emit (SgApply (i_id i) ing eg) h2, i1))
           else (h2, failed))))"

definition launch :: "launch_env \<Rightarrow> usb_device list \<Rightarrow> inst \<Rightarrow> host \<Rightarrow> host" where
  "launch e devices i h =
     (let (i1, up) = compute_create_instance e devices h i in
      if \<not> up then save_instance (i1\<lparr>i_status := Error, i_error_message := n_error e\<rparr>) h
      else
        (let (h1, i2) = post_launch e i1 (emit (DomainLaunch (i_domain_name i1)) h)
         in reload_lbs (i_vpc_id i2) (save_instance i2 h1)))"

section \<open>Reading\<close>

definition remote_inst_fields :: "inst_remote \<Rightarrow> inst \<Rightarrow> inst" where
  "remote_inst_fields remote i = i\<lparr>i_status := opt (inst_status_of (opt (ir_status remote) (inst_status_value (i_status i)))) (i_status i),
     i_private_ip := opt (ir_private_ip remote) (i_private_ip i), i_public_ip := opt (ir_public_ip remote) (i_public_ip i),
     i_error_message := opt (ir_error_message remote) (i_error_message i)\<rparr>"

definition settled :: "inst \<Rightarrow> bool" where
  "settled i \<longleftrightarrow> i_status i \<notin> {Pending, Running} \<or> (i_status i = Running \<and> i_private_ip i \<noteq> [])"

text \<open>The thread of a remote create: one entry of the list per round (24 in the source), the
  answer to that round's poll.\<close>

fun poll_remote :: "inst_remote peer_result list \<Rightarrow> string \<Rightarrow> host \<Rightarrow> host" where
  "poll_remote [] i h = h"
| "poll_remote (r # rs) i h =
     (case store_get_instance (instance_tbl h) i of
        None \<Rightarrow> h
      | Some current \<Rightarrow>
          if settled current then h
          else
            (case r of
               PeerUnreachable \<Rightarrow> poll_remote rs i h
             | PeerResponse st remote \<Rightarrow>
                 if st \<noteq> 200 then poll_remote rs i h
                 else (let c = remote_inst_fields remote current; h1 = save_instance c h
                       in if settled c then h1 else poll_remote rs i h1)))"

definition get_remote_instance ::
    "(string \<Rightarrow> string option \<Rightarrow> inst_remote peer_result) \<Rightarrow> inst \<Rightarrow> host \<Rightarrow> host \<times> inst_reply" where
  "get_remote_instance get i h =
     (let finish = (\<lambda>j. (save_instance j h, Reply 200 (instance_dict (save_instance j h) j))) in
      (case approved_peer h (opt (i_host_id i) []) of
         None \<Rightarrow> finish (i\<lparr>i_status := Unreachable_host\<rparr>)
       | Some p \<Rightarrow>
          (case get (p_api_url p @ ''/v1/instances/'' @ i_id i) (p_remote_token p) of
             PeerUnreachable \<Rightarrow> finish (i\<lparr>i_status := Unreachable_host\<rparr>)
           | PeerResponse st remote \<Rightarrow>
               if st = 404 then finish (i\<lparr>i_status := IDeleted\<rparr>)
               else if st \<noteq> 200 then finish (i\<lparr>i_status := Unreachable_host\<rparr>)
               else finish (remote_inst_fields remote i))))"

definition get_instance ::
    "(string \<Rightarrow> string option \<Rightarrow> inst_remote peer_result) \<Rightarrow> (string \<Rightarrow> instance_status) \<Rightarrow> (string \<Rightarrow> string) \<Rightarrow>
     string \<Rightarrow> instant \<Rightarrow> string \<Rightarrow> host \<Rightarrow> host \<times> inst_reply" where
  "get_instance get dom_status dom_ip rid now instance_id h =
     (case store_get_instance (instance_tbl h) instance_id of
        None \<Rightarrow> (h, Problem 404 ''Not Found'')
      | Some i \<Rightarrow>
          if truthy (i_host_id i) then get_remote_instance get i h
          else if i_domain_name i = [] then (h, Reply 200 (instance_dict h i))
          else
            (let live_status = dom_status (i_domain_name i);
                 i1 = (if live_status \<noteq> IDeleted then i\<lparr>i_status := live_status\<rparr> else i);
                 finish = (\<lambda>j h'. (save_instance j h', Reply 200 (instance_dict (save_instance j h') j)))
             in
             if i_private_ip i1 = [] \<and> live_status = Running then
               (let i2 = i1\<lparr>i_private_ip := dom_ip (i_domain_name i)\<rparr> in
                if i_private_ip i2 = [] then finish i2 h
                else (case upsert_record rid now ''instances.cloudcore.internal'' (i_name i) ''A'' (i_private_ip i2) 300 ''instance'' (i_id i) h of
                        Inl _ \<Rightarrow> (h, Problem 500 ''Internal Server Error'')
                      | Inr h1 \<Rightarrow> finish i2 (emit DnsReload h1)))
             else finish i1 h))"

section \<open>Updating\<close>

definition update_remote_instance ::
    "(string \<Rightarrow> inst_body \<Rightarrow> string option \<Rightarrow> inst_remote peer_result) \<Rightarrow> inst \<Rightarrow> inst_body \<Rightarrow> host \<Rightarrow> host \<times> inst_reply" where
  "update_remote_instance put i body h =
     (case approved_peer h (opt (i_host_id i) []) of
        None \<Rightarrow> (h, Problem 502 ''Bad Gateway'')
      | Some p \<Rightarrow>
         (case put (p_api_url p @ ''/v1/instances/'' @ i_id i) body (p_remote_token p) of
            PeerUnreachable \<Rightarrow> (h, Problem 502 ''Bad Gateway'')
          | PeerResponse st remote \<Rightarrow>
              if st \<noteq> 200 then (h, Problem st ''Bad Gateway'')
              else (let j = i\<lparr>i_name := opt (ir_name remote) (i_name i), i_tags := opt (ir_tags remote) (i_tags i),
                          i_usb_device_ids := opt (ir_usb_device_ids remote) (i_usb_device_ids i)\<rparr>;
                        h1 = save_instance j h
                    in (h1, Reply 200 (instance_dict h1 j)))))"

definition update_instance ::
    "(string \<Rightarrow> inst_body \<Rightarrow> string option \<Rightarrow> inst_remote peer_result) \<Rightarrow> usb_device list \<Rightarrow> bool \<Rightarrow> string \<Rightarrow> inst_body \<Rightarrow>
     host \<Rightarrow> host \<times> inst_reply" where
  "update_instance put devices sync_ok instance_id body h =
     (case store_get_instance (instance_tbl h) instance_id of
        None \<Rightarrow> (h, Problem 404 ''Not Found'')
      | Some i \<Rightarrow>
          if truthy (i_host_id i) then update_remote_instance put i body h
          else
            (let i1 = i\<lparr>i_name := opt (ib_name body) (i_name i), i_tags := opt (ib_tags body) (i_tags i)\<rparr> in
             (case ib_usb_device_ids body of
                None \<Rightarrow> (let h1 = save_instance i1 h in (h1, Reply 200 (instance_dict h1 i1)))
              | Some ids \<Rightarrow>
                 (let new_ids = opt ids []; old_ids = i_usb_device_ids i in
                  if list_ex (\<lambda>u. validate_attachable devices h u (Some (i_id i))) new_ids then (h, Problem 409 ''Conflict'')
                  else
                    (let i2 = i1\<lparr>i_usb_device_ids := new_ids\<rparr>; h1 = save_instance i2 h in
                     if set new_ids \<noteq> set old_ids \<and> i_domain_name i \<noteq> [] then
                       (if sync_ok then (emit (UsbSync (i_id i)) h1, Reply 200 (instance_dict h1 i2))
                        else (emit (UsbSync (i_id i)) h1, Problem 500 ''Internal Server Error''))
                     else (h1, Reply 200 (instance_dict h1 i2)))))))"

section \<open>Deleting\<close>

definition drop_instance :: "string \<Rightarrow> host \<Rightarrow> host" where
  "drop_instance i h = h\<lparr>instance_tbl := fst (delete_instance_record (instance_tbl h) i)\<rparr>"

definition delete_remote_instance ::
    "(string \<Rightarrow> string option \<Rightarrow> unit peer_result) \<Rightarrow> inst \<Rightarrow> host \<Rightarrow> host \<times> unit reply" where
  "delete_remote_instance del i h =
     (case approved_peer h (opt (i_host_id i) []) of
        None \<Rightarrow> (h, Problem 502 ''Bad Gateway'')
      | Some p \<Rightarrow>
         (case del (p_api_url p @ ''/v1/instances/'' @ i_id i) (p_remote_token p) of
            PeerUnreachable \<Rightarrow> (h, Problem 502 ''Bad Gateway'')
          | PeerResponse st _ \<Rightarrow>
              if st \<notin> {204, 404} then (h, Problem st ''Bad Gateway'')
              else (drop_instance (i_id i) h, NoContent 204)))"

definition delete_instance ::
    "(string \<Rightarrow> string option \<Rightarrow> unit peer_result) \<Rightarrow> string \<Rightarrow> host \<Rightarrow> host \<times> unit reply" where
  "delete_instance del instance_id h =
     (case store_get_instance (instance_tbl h) instance_id of
        None \<Rightarrow> (h, Problem 404 ''Not Found'')
      | Some i \<Rightarrow>
          if truthy (i_host_id i) then delete_remote_instance del i h
          else
            (let h1 = drop_instance instance_id h;
                 h2 = emit DnsReload (delete_records_for_resource instance_id h1);
                 h3 = emit (SgRemove instance_id) h2
             in (emit (DomainDestroy (i_domain_name i)) (reload_lbs (i_vpc_id i) h3), NoContent 204)))"

section \<open>Power\<close>

definition power_instance ::
    "instance_status \<Rightarrow> instance_status \<Rightarrow> (string \<Rightarrow> effect) \<Rightarrow> bool \<Rightarrow> string \<Rightarrow> host \<Rightarrow> host \<times> inst_reply" where
  "power_instance from to call call_ok instance_id h =
     (case store_get_instance (instance_tbl h) instance_id of
        None \<Rightarrow> (h, Problem 404 ''Not Found'')
      | Some i \<Rightarrow>
          if i_status i \<noteq> from then (h, Problem 409 ''Conflict'')
          else if i_domain_name i = [] then (h, Problem 409 ''Conflict'')
          else if \<not> call_ok then (h, Problem 500 ''Internal Server Error'')
          else
            (let j = i\<lparr>i_status := to\<rparr>;
                 h1 = reload_lbs (i_vpc_id i) (save_instance j (emit (call (i_domain_name i)) h))
             in (h1, Reply 200 (instance_dict h1 j))))"

definition stop_instance :: "bool \<Rightarrow> string \<Rightarrow> host \<Rightarrow> host \<times> inst_reply" where
  "stop_instance = power_instance Running Stopped DomainStop"

definition start_instance :: "bool \<Rightarrow> string \<Rightarrow> host \<Rightarrow> host \<times> inst_reply" where
  "start_instance = power_instance Stopped Running DomainStart"

definition reboot_instance :: "bool \<Rightarrow> string \<Rightarrow> host \<Rightarrow> host \<times> inst_reply" where
  "reboot_instance call_ok instance_id h =
     (case store_get_instance (instance_tbl h) instance_id of
        None \<Rightarrow> (h, Problem 404 ''Not Found'')
      | Some i \<Rightarrow>
          if i_status i \<noteq> Running then (h, Problem 409 ''Conflict'')
          else if i_domain_name i = [] then (h, Problem 409 ''Conflict'')
          else if \<not> call_ok then (h, Problem 500 ''Internal Server Error'')
          else (emit (DomainReboot (i_domain_name i)) h, Reply 200 (instance_dict h i)))"

section \<open>Users of an instance\<close>

definition list_instance_users :: "string \<Rightarrow> host \<Rightarrow> inst_user list reply" where
  "list_instance_users instance_id h = (case store_get_instance (instance_tbl h) instance_id of
     None \<Rightarrow> Problem 404 ''Not Found'' | Some i \<Rightarrow> Reply 200 (i_users i))"

text \<open>The command lines that are run over SSH; \<open>cc_pub\<close> is the public key of the host or empty.\<close>

definition join_and :: "string list \<Rightarrow> string" where
  "join_and cmds = (case cmds of [] \<Rightarrow> [] | c # cs \<Rightarrow> c @ concat (map (\<lambda>x. '' && '' @ x) cs))"

definition ssh_add_user :: "string \<Rightarrow> inst_user \<Rightarrow> string" where
  "ssh_add_user cc_pub u =
     (let n = u_username u; q = [char_of (39::nat)]; keys = u_ssh_keys u @ (if cc_pub \<noteq> [] then [cc_pub] else []) in
      join_and
        ([''sudo useradd -m -s /bin/bash '' @ n @ '' 2>/dev/null || true'', ''sudo mkdir -p /home/'' @ n @ ''/.ssh'',
          ''sudo chmod 700 /home/'' @ n @ ''/.ssh''] @
         (if u_password_hash u \<noteq> [] then [''echo '' @ q @ n @ '':'' @ u_password_hash u @ q @ '' | sudo chpasswd -e''] else []) @
         (if u_sudo u then [''echo '' @ q @ n @ '' ALL=(ALL) NOPASSWD:ALL'' @ q @ '' | sudo tee /etc/sudoers.d/'' @ n @ '' > /dev/null''] else []) @
         map (\<lambda>k. ''echo '' @ q @ k @ q @ '' | sudo tee -a /home/'' @ n @ ''/.ssh/authorized_keys > /dev/null'') keys @
         [''sudo chmod 600 /home/'' @ n @ ''/.ssh/authorized_keys'', ''sudo chown -R '' @ n @ '':'' @ n @ '' /home/'' @ n @ ''/.ssh'']))"

definition ssh_remove_user :: "string \<Rightarrow> string" where
  "ssh_remove_user n = ''sudo userdel -r '' @ n @ '' 2>/dev/null || true && sudo rm -f /etc/sudoers.d/'' @ n"

definition ssh_now :: "inst \<Rightarrow> string \<Rightarrow> host \<Rightarrow> host" where
  "ssh_now i cmd h = (if i_status i = Running \<and> i_ssh_host_port i \<noteq> 0 then emit (SshRun (i_id i) cmd) h else h)"

definition add_instance_user :: "string \<Rightarrow> string \<Rightarrow> user_body \<Rightarrow> host \<Rightarrow> host \<times> inst_user reply" where
  "add_instance_user cc_pub instance_id body h =
     (case store_get_instance (instance_tbl h) instance_id of
        None \<Rightarrow> (h, Problem 404 ''Not Found'')
      | Some i \<Rightarrow>
         (let u = user_of_body body in
          if u_username u = [] then (h, Problem 400 ''Bad Request'')
          else if list_ex (\<lambda>x. u_username x = u_username u) (i_users i) then (h, Problem 409 ''Conflict'')
          else (ssh_now i (ssh_add_user cc_pub u) (save_instance (i\<lparr>i_users := i_users i @ [u]\<rparr>) h), Reply 201 u)))"

definition remove_instance_user :: "string \<Rightarrow> string \<Rightarrow> host \<Rightarrow> host \<times> unit reply" where
  "remove_instance_user instance_id username h =
     (case store_get_instance (instance_tbl h) instance_id of
        None \<Rightarrow> (h, Problem 404 ''Not Found'')
      | Some i \<Rightarrow>
          if \<not> list_ex (\<lambda>x. u_username x = username) (i_users i) then (h, Problem 404 ''Not Found'')
          else (ssh_now i (ssh_remove_user username)
                 (save_instance (i\<lparr>i_users := filter (\<lambda>x. u_username x \<noteq> username) (i_users i)\<rparr>) h), NoContent 204))"

section \<open>The contract of remote deletion\<close>

abbreviation wf_insts :: "host \<Rightarrow> bool" where "wf_insts h \<equiv> wf_table i_id (instance_tbl h)"

interpretation rinst: remote_delete delete_remote_instance drop_instance "\<lambda>h. store_get_instance (instance_tbl h)" i_id i_host_id "''/v1/instances/''" wf_insts
  by unfold_locales
     (auto simp: delete_remote_instance_def confirmed_def drop_instance_def instances.get_del split: option.splits peer_result.splits)

end
