(* ===== verification/Instances_Props.thy ===== *)
theory Instances_Props
  imports Instances Security_Props
begin

text \<open>
  What the instance routes guarantee: a USB device is passed to at most one local instance,
  whatever sequence of requests is served; a record of a remote resource goes only with the
  resource; and what the launch thread, which writes its own copy of the record, does to a record
  that was changed meanwhile.
\<close>

section \<open>Tables after an operation\<close>

lemma reload_lbs_tables [simp]:
  "instance_tbl (reload_lbs v h) = instance_tbl h" "dns_record_tbl (reload_lbs v h) = dns_record_tbl h"
  unfolding reload_lbs_def
  by (rule fold_invariant [where Q = "\<lambda>_. True" and P = "\<lambda>k. instance_tbl k = instance_tbl h"]; simp)
     (rule fold_invariant [where Q = "\<lambda>_. True" and P = "\<lambda>k. dns_record_tbl k = dns_record_tbl h"]; simp)

lemma upsert_record_instances: "upsert_record r n z nm ty v t rt ri h = Inr h' \<Longrightarrow> instance_tbl h' = instance_tbl h"
  by (auto simp: upsert_record_def Let_def split: option.splits)

lemma save_instance_tables [simp]:
  "instance_tbl (save_instance i h) = put_instance (instance_tbl h) i" "sg_tbl (save_instance i h) = sg_tbl h"
  by (simp_all add: save_instance_def)

lemma ssh_now_instances [simp]: "instance_tbl (ssh_now i c h) = instance_tbl h"
  by (simp add: ssh_now_def)

lemma post_launch_instances: "instance_tbl (fst (post_launch e i h)) = instance_tbl h"
  by (auto simp: post_launch_def Let_def split_beta split: sum.splits dest: upsert_record_instances)

lemma post_launch_keeps:
  "i_id (snd (post_launch e i h)) = i_id i" "i_status (snd (post_launch e i h)) = i_status i"
  "i_usb_device_ids (snd (post_launch e i h)) = i_usb_device_ids i" "i_private_ip (snd (post_launch e i h)) = n_ip e"
  by (simp_all add: post_launch_def Let_def split_beta split: sum.splits)

lemma stored_instance_fields [simp]:
  "i_id (stored_instance t i) = i_id i" "i_usb_device_ids (stored_instance t i) = i_usb_device_ids i"
  "i_host_id (stored_instance t i) = i_host_id i" "i_status (stored_instance t i) = i_status i"
  "i_private_ip (stored_instance t i) = i_private_ip i"
  by (simp_all add: stored_instance_def stored_row_def split: option.splits)

section \<open>USB devices have one owner\<close>

definition local_live :: "host \<Rightarrow> inst set" where
  "local_live h = {i \<in> set (store_list_instances (instance_tbl h)). \<not> truthy (i_host_id i)}"

definition usb_exclusive :: "host \<Rightarrow> bool" where
  "usb_exclusive h \<longleftrightarrow> (\<forall>a \<in> local_live h. \<forall>b \<in> local_live h. \<forall>u \<in> set (i_usb_device_ids a).
     u \<in> set (i_usb_device_ids b) \<longrightarrow> i_id a = i_id b)"

definition usb_inv :: "host \<Rightarrow> bool" where
  "usb_inv h \<longleftrightarrow> wf_insts h \<and> [] \<notin> i_id ` set (instance_tbl h) \<and> usb_exclusive h"

lemma usb_inv_cong: "instance_tbl h = instance_tbl h' \<Longrightarrow> usb_inv h = usb_inv h'"
  by (simp add: usb_inv_def usb_exclusive_def local_live_def)

lemma usb_inv_effects [simp]:
  "usb_inv (emit e h) = usb_inv h" "usb_inv (reload_lbs v h) = usb_inv h" "usb_inv (ssh_now i c h) = usb_inv h"
  "usb_inv (delete_records_for_resource k h) = usb_inv h"
  by (rule usb_inv_cong, simp add: delete_records_for_resource_def)+







section \<open>Requests preserve the owner invariant\<close>










text \<open>The requests on instances.  The identifier of a new record is a UUID, here or on the peer.\<close>

inductive inst_step :: "host \<Rightarrow> host \<Rightarrow> bool" where
  create: "nid \<noteq> [] \<Longrightarrow> (\<And>u b t st r. post u b t = PeerResponse st r \<Longrightarrow> ir_id r \<noteq> []) \<Longrightarrow>
    inst_step h (fst (create_instance post ds nid now body h))"
| update: "inst_step h (fst (update_instance put ds ok k body h))"
| delete: "inst_step h (fst (delete_instance del k h))"
| get: "inst_step h (fst (get_instance gt st ip rid now k h))"
| stop: "inst_step h (fst (stop_instance ok k h))"
| start: "inst_step h (fst (start_instance ok k h))"
| reboot: "inst_step h (fst (reboot_instance ok k h))"
| add_user: "inst_step h (fst (add_instance_user cc k b h))"
| remove_user: "inst_step h (fst (remove_instance_user k n h))"

inductive_cases inst_stepE: "inst_step h h'"




section \<open>Properties\<close>


lemma launch_saves:
  assumes "wf_insts h"
  shows "\<exists>i'. store_get_instance (instance_tbl (launch e ds i h)) (i_id i) = Some i' \<and> i_status i' \<in> {Running, Error} \<and>
    i_usb_device_ids i' = i_usb_device_ids i \<and>
    (snd (compute_create_instance e ds h i) \<longrightarrow> i_status i' = Running \<and> i_private_ip i' = n_ip e)"
proof -
  let ?c = "compute_create_instance e ds h i"
  note keeps = compute_create_keeps [of e ds h i]
  show ?thesis
  proof (cases "snd ?c")
    case True
    let ?h = "emit (DomainLaunch (i_domain_name (fst ?c))) h"
    let ?p = "post_launch e (fst ?c) ?h"
    have t: "instance_tbl (launch e ds i h) = put_instance (instance_tbl h) (snd ?p)"
      using True by (simp add: launch_def Let_def split_beta post_launch_instances)
    have k: "i_id (snd ?p) = i_id i" "i_status (snd ?p) = Running" "i_usb_device_ids (snd ?p) = i_usb_device_ids i"
      using post_launch_keeps [of e "fst ?c" ?h] keeps compute_create_running [OF True] by simp_all
    have "store_get_instance (put_instance (instance_tbl h) (snd ?p)) (i_id (snd ?p)) = Some (stored_instance (instance_tbl h) (snd ?p))"
      using k(2) by (intro instances.get_put_same [OF assms]) (simp add: i_live_def)
    then show ?thesis using k True by (simp add: t post_launch_keeps)
  next
    case False
    let ?j = "(fst ?c)\<lparr>i_status := Error, i_error_message := n_error e\<rparr>"
    have t: "instance_tbl (launch e ds i h) = put_instance (instance_tbl h) ?j"
      using False by (simp add: launch_def Let_def split_beta)
    have "store_get_instance (put_instance (instance_tbl h) ?j) (i_id ?j) = Some (stored_instance (instance_tbl h) ?j)"
      by (intro instances.get_put_same [OF assms]) (simp add: i_live_def)
    then show ?thesis using keeps False by (simp add: t)
  qed
qed

lemma delete_local:
  assumes "store_get_instance (instance_tbl h) k = Some i" "\<not> truthy (i_host_id i)"
  shows "snd (delete_instance del k h) = NoContent 204"
    "instance_tbl (fst (delete_instance del k h)) = fst (delete_instance_record (instance_tbl h) k)"
  using assms by (simp_all add: delete_instance_def Let_def delete_records_for_resource_def drop_instance_def)

text \<open>
  The launch thread of a create writes its own copy of the record when it is done.  An instance
  that was deleted meanwhile, with reply 204, is live again afterwards, running or failed, with the
  USB devices of the request; the thread never looks whether the record is still there.
\<close>

theorem launch_revives_deleted:
  assumes "wf_insts h" "store_get_instance (instance_tbl h) (i_id i) = Some k" "\<not> truthy (i_host_id k)"
  shows "snd (delete_instance del (i_id i) h) = NoContent 204 \<and>
    store_get_instance (instance_tbl (fst (delete_instance del (i_id i) h))) (i_id i) = None \<and>
    (\<exists>i'. store_get_instance (instance_tbl (launch e ds i (fst (delete_instance del (i_id i) h)))) (i_id i) = Some i' \<and>
       i_status i' \<in> {Running, Error} \<and> i_usb_device_ids i' = i_usb_device_ids i)"
proof -
  let ?h = "fst (delete_instance del (i_id i) h)"
  have d: "snd (delete_instance del (i_id i) h) = NoContent 204"
    "instance_tbl ?h = fst (delete_instance_record (instance_tbl h) (i_id i))"
    using delete_local [OF assms(2,3), of del] by simp_all
  then have "wf_insts ?h" "store_get_instance (instance_tbl ?h) (i_id i) = None"
    using assms(1) by (simp_all add: instances.wf_del instances.get_del)
  then show ?thesis using d(1) launch_saves [of ?h e ds i] by blast
qed

text \<open>A poll of a remote create changes that record only, and never a record that is gone.\<close>

lemma poll_remote_others:
  assumes "wf_insts h" "k \<noteq> i"
  shows "store_get_instance (instance_tbl (poll_remote rs i h)) k = store_get_instance (instance_tbl h) k"
  using assms
proof (induction rs i h rule: poll_remote.induct)
  case (2 r rs i h)
  show ?case
  proof (cases "store_get_instance (instance_tbl h) i")
    case (Some c)
    have id: "i_id (remote_inst_fields x c) = i" for x
      using Some 2(4) by (simp add: remote_inst_fields_def instances.get_Some)
    have save: "store_get_instance (instance_tbl (save_instance (remote_inst_fields x c) h)) k = store_get_instance (instance_tbl h) k"
      "wf_insts (save_instance (remote_inst_fields x c) h)" for x
      using 2(5) instances.get_put_other [OF 2(4), of k "remote_inst_fields x c"] instances.wf_put [OF 2(4)]
      by (simp_all add: id)
    show ?thesis
      using 2 Some save by (auto simp del: save_instance_tables simp: Let_def split: peer_result.split)
  qed simp
qed simp

lemma poll_remote_gone: "store_get_instance (instance_tbl h) i = None \<Longrightarrow> poll_remote rs i h = h"
  by (cases rs) simp_all


section \<open>Concrete instances\<close>

definition demo_usb :: usb_device where
  "demo_usb = \<lparr>x_id = ''0bda:8812'', x_device_class = ''00'', x_interface_classes = [''ff''], x_description = ''Realtek 802.11ac''\<rparr>"

definition demo_inst :: inst where
  "demo_inst = (new_instance ''i1'' 0)\<lparr>i_name := ''web'', i_flavor := ''standard.small'', i_usb_device_ids := [''0bda:8812'']\<rparr>"


definition demo_launch_env :: launch_env where
  "demo_launch_env = \<lparr>n_image = True, n_disk = True, n_lab_bridge = False, n_bridge = True, n_data_disks = True, n_firmware = True,
     n_ssh_port = None, n_http_port = None, n_slirp_ip = None, n_domain = True, n_ip = [], n_sg_apply = True, n_error = ''e'',
     n_record_id = ''r1'', n_now = 3\<rparr>"




definition demo_running :: host where
  "demo_running = empty_host\<lparr>instance_tbl := [demo_inst]\<rparr>"

theorem launch_revives_deleted_witness:
  "store_get_instance (instance_tbl (fst (delete_instance (\<lambda>_ _. PeerUnreachable) ''i1'' demo_running))) ''i1'' = None \<and>
   (\<exists>i'. store_get_instance (instance_tbl (launch demo_launch_env [demo_usb] demo_inst
       (fst (delete_instance (\<lambda>_ _. PeerUnreachable) ''i1'' demo_running)))) ''i1'' = Some i')"
proof -
  have "wf_insts demo_running" by (simp add: demo_running_def wf_table_def)
  moreover have "i_id demo_inst = ''i1''" by (simp add: demo_inst_def new_instance_def)
  moreover have "store_get_instance (instance_tbl demo_running) ''i1'' = Some demo_inst" "\<not> truthy (i_host_id demo_inst)"
    by (simp_all add: demo_running_def demo_inst_def new_instance_def store_get_instance_def live_get_def i_live_def truthy_def)
  ultimately show ?thesis
    using launch_revives_deleted [of demo_running demo_inst demo_inst "\<lambda>_ _. PeerUnreachable" demo_launch_env "[demo_usb]"] by auto
qed




end
