(* ===== verification/Load_Balancers.thy ===== *)
theory Load_Balancers
  imports Instances
begin

text \<open>
  The load-balancer routes of \<^verbatim>\<open>api/server.py\<close>: balancers, backends, listeners, target groups and
  health checks.  All of them but the create and the delete run under \<^verbatim>\<open>store.lb_lock(lb_id)\<close> and have
  the same shape, \<open>locked_lb\<close>: read the row, compute the new row or an error reply, reload HAProxy,
  write the row.  What each computes is a function of the row, so that \<open>Lb_Lock\<close> can interleave them.
  A \<^verbatim>\<open>targets\<close> key with an explicit null is the empty list, as every reader of it takes it.
\<close>

section \<open>JSON numbers\<close>

datatype scalar = SInt int | SStr string

definition scalar_true :: "scalar option \<Rightarrow> bool" where
  "scalar_true s = (case s of None \<Rightarrow> False | Some (SInt n) \<Rightarrow> n \<noteq> 0 | Some (SStr t) \<Rightarrow> t \<noteq> [])"

text \<open>\<^verbatim>\<open>int(x)\<close>; \<open>None\<close> is \<^verbatim>\<open>ValueError\<close>.\<close>

fun scalar_int :: "scalar \<Rightarrow> int option" where
  "scalar_int (SInt n) = Some n"
| "scalar_int (SStr t) = py_int t"

text \<open>\<^verbatim>\<open>int(x or d)\<close>.\<close>

definition int_or :: "scalar option \<Rightarrow> int \<Rightarrow> int option" where
  "int_or s d = (if scalar_true s then scalar_int (the s) else Some d)"

section \<open>The common shape\<close>

definition save_lb :: "load_balancer \<Rightarrow> host \<Rightarrow> host" where
  "save_lb b h = h\<lparr>lb_tbl := put_lb (lb_tbl h) b\<rparr>"

definition lb_reload :: "load_balancer \<Rightarrow> host \<Rightarrow> host" where
  "lb_reload b h = emit (LbReload (lb_id b) (map i_id (list_instances_by_vpc (instance_tbl h) (lb_vpc_id b)))) h"

type_synonym 'b lb_op = "load_balancer \<Rightarrow> 'b reply + load_balancer \<times> 'b reply"

definition locked_lb :: "string \<Rightarrow> 'b lb_op \<Rightarrow> host \<Rightarrow> host \<times> 'b reply" where
  "locked_lb k f h =
     (case store_get_lb (lb_tbl h) k of
        None \<Rightarrow> (h, Problem 404 ''Not Found'')
      | Some b \<Rightarrow> (case f b of Inl r \<Rightarrow> (h, r) | Inr (b', r) \<Rightarrow> (save_lb b' (lb_reload b' h), r)))"

text \<open>The first element that satisfies \<open>P\<close> is changed: an object that \<^verbatim>\<open>next\<close> found is mutated.\<close>

fun update_first :: "('a \<Rightarrow> bool) \<Rightarrow> ('a \<Rightarrow> 'a) \<Rightarrow> 'a list \<Rightarrow> 'a list" where
  "update_first P f [] = []"
| "update_first P f (x # xs) = (if P x then f x # xs else x # update_first P f xs)"

section \<open>Balancers\<close>

record lb_body =
  yb_name :: "string option"
  yb_type :: "string option"
  yb_vpc_id :: "string option"
  yb_subnet_ids :: "string list option"
  yb_internal :: "bool option"
  yb_backends :: "backend list option"
  yb_sticky_sessions :: "bool option"
  yb_cookie_name :: "string option"
  yb_deletion_protection :: "bool option"
  yb_tags :: "tags option"

definition list_lbs :: "host \<Rightarrow> load_balancer list reply" where
  "list_lbs h = Reply 200 (store_list_lbs (lb_tbl h))"

text \<open>\<open>start\<close> is the port HAProxy was started on, or \<open>None\<close> when that raised.\<close>

definition create_lb :: "int option \<Rightarrow> string \<Rightarrow> string \<Rightarrow> instant \<Rightarrow> lb_body \<Rightarrow> host \<Rightarrow> host \<times> load_balancer reply" where
  "create_lb start nid rid now body h =
     (let name = py_strip (opt (yb_name body) []) in
      if name = [] then (h, Problem 400 ''Bad Request'')
      else if find_lb_by_name (lb_tbl h) name \<noteq> None then (h, Problem 409 ''Conflict'')
      else
        (let b = \<lparr>lb_id = nid, lb_name = name, lb_type = opt (yb_type body) ''application'', lb_vpc_id = opt (yb_vpc_id body) [],
               lb_subnet_ids = opt (yb_subnet_ids body) [], lb_internal = opt (yb_internal body) False,
               lb_dns_name = name @ ''.lb.cloudcore.internal'', lb_listen_port = opt start 0,
               lb_backends = opt (yb_backends body) [], lb_listeners = [], lb_health_check = None, lb_target_groups = [],
               lb_sticky_sessions = opt (yb_sticky_sessions body) False, lb_cookie_name = opt (yb_cookie_name body) ''SERVERID'',
               lb_deletion_protection = opt (yb_deletion_protection body) False, lb_status = Active, lb_created_at = now,
               lb_tags = opt (yb_tags body) []\<rparr>;
             h1 = save_lb b (emit (LbStart nid) h)
         in
         (case upsert_record rid now ''lb.cloudcore.internal'' name ''A'' ''127.0.0.1'' 300 ''lb'' nid h1 of
            Inl _ \<Rightarrow> (h1, Reply 201 b)
          | Inr h2 \<Rightarrow> (emit DnsReload h2, Reply 201 b))))"

definition get_lb :: "string \<Rightarrow> host \<Rightarrow> load_balancer reply" where
  "get_lb k h = (case store_get_lb (lb_tbl h) k of None \<Rightarrow> Problem 404 ''Not Found'' | Some b \<Rightarrow> Reply 200 b)"

definition update_lb_op :: "lb_body \<Rightarrow> load_balancer lb_op" where
  "update_lb_op body b =
     (let b' = b\<lparr>lb_name := opt (yb_name body) (lb_name b), lb_subnet_ids := opt (yb_subnet_ids body) (lb_subnet_ids b),
            lb_internal := opt (yb_internal body) (lb_internal b), lb_backends := opt (yb_backends body) (lb_backends b),
            lb_sticky_sessions := opt (yb_sticky_sessions body) (lb_sticky_sessions b),
            lb_cookie_name := opt (yb_cookie_name body) (lb_cookie_name b),
            lb_deletion_protection := opt (yb_deletion_protection body) (lb_deletion_protection b),
            lb_tags := opt (yb_tags body) (lb_tags b)\<rparr>
      in Inr (b', Reply 200 b'))"

definition update_lb :: "string \<Rightarrow> lb_body \<Rightarrow> host \<Rightarrow> host \<times> load_balancer reply" where
  "update_lb k body h = locked_lb k (update_lb_op body) h"

definition delete_lb :: "string \<Rightarrow> host \<Rightarrow> host \<times> unit reply" where
  "delete_lb k h =
     (case store_get_lb (lb_tbl h) k of
        None \<Rightarrow> (h, Problem 404 ''Not Found'')
      | Some b \<Rightarrow>
          if lb_deletion_protection b then (h, Problem 409 ''Conflict'')
          else
            (let h1 = emit (LbStop k) (h\<lparr>lb_tbl := fst (store_delete_lb (lb_tbl h) k)\<rparr>)
             in (emit DnsReload (delete_records_for_resource k h1), NoContent 204)))"

section \<open>Backends\<close>

record backend_body =
  kb_name :: "string option"
  kb_address :: "string option"
  kb_port :: "scalar option"

definition add_backend_op :: "backend_body \<Rightarrow> load_balancer lb_op" where
  "add_backend_op body b =
     (if \<not> (truthy (kb_name body) \<and> truthy (kb_address body) \<and> scalar_true (kb_port body)) then Inl (Problem 400 ''Bad Request'')
      else (case scalar_int (the (kb_port body)) of
              None \<Rightarrow> Inl (Problem 500 ''Internal Server Error'')
            | Some port \<Rightarrow>
               (let b' = b\<lparr>lb_backends := lb_backends b @ [\<lparr>b_name = the (kb_name body), b_address = the (kb_address body), b_port = port\<rparr>]\<rparr>
                in Inr (b', Reply 201 b'))))"

definition add_backend :: "string \<Rightarrow> backend_body \<Rightarrow> host \<Rightarrow> host \<times> load_balancer reply" where
  "add_backend k body h = locked_lb k (add_backend_op body) h"

definition remove_backend_op :: "string \<Rightarrow> unit lb_op" where
  "remove_backend_op n b = Inr (b\<lparr>lb_backends := filter (\<lambda>x. b_name x \<noteq> n) (lb_backends b)\<rparr>, NoContent 204)"

definition remove_backend :: "string \<Rightarrow> string \<Rightarrow> host \<Rightarrow> host \<times> unit reply" where
  "remove_backend k n h = locked_lb k (remove_backend_op n) h"

section \<open>Listeners\<close>

record listener_body =
  jb_port :: "scalar option"
  jb_protocol :: "string option"
  jb_target_group_id :: "string option"
  jb_routing_rules :: "routing_rule list option"
  jb_default_action :: "string option"

definition list_listeners :: "string \<Rightarrow> host \<Rightarrow> listener list reply" where
  "list_listeners k h = (case store_get_lb (lb_tbl h) k of None \<Rightarrow> Problem 404 ''Not Found'' | Some b \<Rightarrow> Reply 200 (lb_listeners b))"

definition add_listener_op :: "string \<Rightarrow> string \<Rightarrow> listener_body \<Rightarrow> listener lb_op" where
  "add_listener_op nid k body b =
     (if \<not> scalar_true (jb_port body) then Inl (Problem 400 ''Bad Request'')
      else
        (case scalar_int (the (jb_port body)) of
           None \<Rightarrow> Inl (Problem 400 ''Bad Request'')
         | Some port \<Rightarrow>
             if port < 1 \<or> port > 65535 then Inl (Problem 400 ''Bad Request'')
             else
               (let protocol = opt (jb_protocol body) ''http'' in
                if py_lower protocol \<notin> {''http'', ''https'', ''tcp''} then Inl (Problem 400 ''Bad Request'')
                else if list_ex (\<lambda>l. l_port l = port) (lb_listeners b) then Inl (Problem 409 ''Conflict'')
                else
                  (let l = \<lparr>l_id = nid, l_lb_id = k, l_port = port, l_protocol = protocol,
                         l_target_group_id = opt (jb_target_group_id body) [], l_routing_rules = opt (jb_routing_rules body) [],
                         l_default_action = opt (jb_default_action body) ''forward'', l_status = ''active''\<rparr>
                   in Inr (b\<lparr>lb_listeners := lb_listeners b @ [l]\<rparr>, Reply 201 l)))))"

definition add_listener :: "string \<Rightarrow> string \<Rightarrow> listener_body \<Rightarrow> host \<Rightarrow> host \<times> listener reply" where
  "add_listener nid k body h = locked_lb k (add_listener_op nid k body) h"

definition get_listener :: "string \<Rightarrow> string \<Rightarrow> host \<Rightarrow> listener reply" where
  "get_listener k lid h =
     (case store_get_lb (lb_tbl h) k of
        None \<Rightarrow> Problem 404 ''Not Found''
      | Some b \<Rightarrow> (case find (\<lambda>l. l_id l = lid) (lb_listeners b) of None \<Rightarrow> Problem 404 ''Not Found'' | Some l \<Rightarrow> Reply 200 l))"

definition changed_listener :: "listener_body \<Rightarrow> listener \<Rightarrow> listener" where
  "changed_listener body l = l\<lparr>l_target_group_id := opt (jb_target_group_id body) (l_target_group_id l),
     l_routing_rules := (if opt (jb_routing_rules body) [] \<noteq> [] then the (jb_routing_rules body) else l_routing_rules l),
     l_default_action := opt (jb_default_action body) (l_default_action l)\<rparr>"

definition update_listener_op :: "string \<Rightarrow> listener_body \<Rightarrow> listener lb_op" where
  "update_listener_op lid body b =
     (case find (\<lambda>l. l_id l = lid) (lb_listeners b) of
        None \<Rightarrow> Inl (Problem 404 ''Not Found'')
      | Some l \<Rightarrow>
          Inr (b\<lparr>lb_listeners := update_first (\<lambda>l. l_id l = lid) (changed_listener body) (lb_listeners b)\<rparr>,
               Reply 200 (changed_listener body l)))"

definition update_listener :: "string \<Rightarrow> string \<Rightarrow> listener_body \<Rightarrow> host \<Rightarrow> host \<times> listener reply" where
  "update_listener k lid body h = locked_lb k (update_listener_op lid body) h"

definition remove_listener_op :: "string \<Rightarrow> unit lb_op" where
  "remove_listener_op lid b =
     (if \<not> list_ex (\<lambda>l. l_id l = lid) (lb_listeners b) then Inl (Problem 404 ''Not Found'')
      else Inr (b\<lparr>lb_listeners := filter (\<lambda>l. l_id l \<noteq> lid) (lb_listeners b)\<rparr>, NoContent 204))"

definition remove_listener :: "string \<Rightarrow> string \<Rightarrow> host \<Rightarrow> host \<times> unit reply" where
  "remove_listener k lid h = locked_lb k (remove_listener_op lid) h"

section \<open>Target groups\<close>

record hc_body =
  hb_path :: "string option"
  hb_interval :: "scalar option"
  hb_healthy_threshold :: "scalar option"
  hb_unhealthy_threshold :: "scalar option"

text \<open>\<open>tb_health_check\<close> tells an absent key from an explicit null, which has no \<^verbatim>\<open>get\<close>.\<close>

record tg_body =
  tb_name :: "string option"
  tb_port :: "scalar option"
  tb_protocol :: "string option"
  tb_targets :: "tg_target list option"
  tb_health_check :: "hc_body option option"

definition find_tg :: "load_balancer \<Rightarrow> string \<Rightarrow> target_group option" where
  "find_tg b tid = find (\<lambda>t. t_id t = tid) (lb_target_groups b)"

definition list_target_groups :: "string \<Rightarrow> host \<Rightarrow> target_group list reply" where
  "list_target_groups k h = (case store_get_lb (lb_tbl h) k of None \<Rightarrow> Problem 404 ''Not Found'' | Some b \<Rightarrow> Reply 200 (lb_target_groups b))"

definition no_hc :: hc_body where
  "no_hc = \<lparr>hb_path = None, hb_interval = None, hb_healthy_threshold = None, hb_unhealthy_threshold = None\<rparr>"

text \<open>The check of a request over the values of \<open>old\<close>; \<open>None\<close> when a number does not parse.\<close>

definition merged_hc :: "hc_body \<Rightarrow> tg_health_check \<Rightarrow> tg_health_check option" where
  "merged_hc hc old =
     (case (int_or (hb_interval hc) (th_interval old), int_or (hb_healthy_threshold hc) (th_healthy_threshold old),
            int_or (hb_unhealthy_threshold hc) (th_unhealthy_threshold old)) of
        (Some iv, Some ht, Some ut) \<Rightarrow>
          Some \<lparr>th_path = (if truthy (hb_path hc) then the (hb_path hc) else th_path old), th_interval = iv,
            th_healthy_threshold = ht, th_unhealthy_threshold = ut\<rparr>
      | _ \<Rightarrow> None)"

definition default_hc :: tg_health_check where
  "default_hc = \<lparr>th_path = ''/'', th_interval = 30, th_healthy_threshold = 2, th_unhealthy_threshold = 2\<rparr>"

text \<open>The stored value where it is set, the default otherwise.\<close>

definition stored_or_default :: "tg_health_check \<Rightarrow> tg_health_check" where
  "stored_or_default c = \<lparr>th_path = str_or (th_path c) ''/'', th_interval = (if th_interval c = 0 then 30 else th_interval c),
     th_healthy_threshold = (if th_healthy_threshold c = 0 then 2 else th_healthy_threshold c),
     th_unhealthy_threshold = (if th_unhealthy_threshold c = 0 then 2 else th_unhealthy_threshold c)\<rparr>"

definition create_target_group_op :: "string \<Rightarrow> string \<Rightarrow> tg_body \<Rightarrow> target_group lb_op" where
  "create_target_group_op nid k body b =
     (let name = py_strip (opt (tb_name body) []) in
      if name = [] then Inl (Problem 400 ''Bad Request'')
      else if \<not> scalar_true (tb_port body) then Inl (Problem 400 ''Bad Request'')
      else if list_ex (\<lambda>t. t_name t = name) (lb_target_groups b) then Inl (Problem 409 ''Conflict'')
      else
        (case opt (tb_health_check body) (Some no_hc) of
           None \<Rightarrow> Inl (Problem 500 ''Internal Server Error'')
         | Some hc \<Rightarrow>
            (case (scalar_int (the (tb_port body)), merged_hc hc default_hc) of
               (Some port, Some check) \<Rightarrow>
                 (let t = \<lparr>t_id = nid, t_lb_id = k, t_name = name, t_port = port, t_protocol = py_lower (opt (tb_protocol body) ''http''),
                        t_targets = opt (tb_targets body) [], t_health_check = check, t_status = ''active''\<rparr>
                  in Inr (b\<lparr>lb_target_groups := lb_target_groups b @ [t]\<rparr>, Reply 201 t))
             | _ \<Rightarrow> Inl (Problem 500 ''Internal Server Error''))))"

definition create_target_group :: "string \<Rightarrow> string \<Rightarrow> tg_body \<Rightarrow> host \<Rightarrow> host \<times> target_group reply" where
  "create_target_group nid k body h = locked_lb k (create_target_group_op nid k body) h"

definition get_target_group :: "string \<Rightarrow> string \<Rightarrow> host \<Rightarrow> target_group reply" where
  "get_target_group k tid h =
     (case store_get_lb (lb_tbl h) k of
        None \<Rightarrow> Problem 404 ''Not Found''
      | Some b \<Rightarrow> (case find_tg b tid of None \<Rightarrow> Problem 404 ''Not Found'' | Some t \<Rightarrow> Reply 200 t))"

definition changed_tg :: "tg_body \<Rightarrow> target_group \<Rightarrow> target_group option" where
  "changed_tg body t =
     (case (case tb_port body of None \<Rightarrow> Some (t_port t) | Some p \<Rightarrow> scalar_int p) of
        None \<Rightarrow> None
      | Some port \<Rightarrow>
         (let t1 = t\<lparr>t_name := opt (tb_name body) (t_name t), t_port := port, t_protocol := opt (tb_protocol body) (t_protocol t),
                t_targets := opt (tb_targets body) (t_targets t)\<rparr>
          in
          (case tb_health_check body of
             None \<Rightarrow> Some t1
           | Some None \<Rightarrow> None
           | Some (Some hc) \<Rightarrow> map_option (\<lambda>c. t1\<lparr>t_health_check := c\<rparr>) (merged_hc hc (stored_or_default (t_health_check t))))))"

definition update_target_group_op :: "string \<Rightarrow> tg_body \<Rightarrow> target_group lb_op" where
  "update_target_group_op tid body b =
     (case find_tg b tid of
        None \<Rightarrow> Inl (Problem 404 ''Not Found'')
      | Some t \<Rightarrow>
         (case changed_tg body t of
            None \<Rightarrow> Inl (Problem 500 ''Internal Server Error'')
          | Some t' \<Rightarrow> Inr (b\<lparr>lb_target_groups := update_first (\<lambda>t. t_id t = tid) (\<lambda>_. t') (lb_target_groups b)\<rparr>, Reply 200 t')))"

definition update_target_group :: "string \<Rightarrow> string \<Rightarrow> tg_body \<Rightarrow> host \<Rightarrow> host \<times> target_group reply" where
  "update_target_group k tid body h = locked_lb k (update_target_group_op tid body) h"

definition uses_tg :: "string \<Rightarrow> listener \<Rightarrow> bool" where
  "uses_tg tid l \<longleftrightarrow> l_target_group_id l = tid \<or> list_ex (\<lambda>r. rr_target_group_id r = Some tid) (l_routing_rules l)"

definition delete_target_group_op :: "string \<Rightarrow> unit lb_op" where
  "delete_target_group_op tid b =
     (if find_tg b tid = None then Inl (Problem 404 ''Not Found'')
      else if filter (uses_tg tid) (lb_listeners b) \<noteq> [] then Inl (Problem 409 ''Conflict'')
      else Inr (b\<lparr>lb_target_groups := filter (\<lambda>t. t_id t \<noteq> tid) (lb_target_groups b)\<rparr>, NoContent 204))"

definition delete_target_group :: "string \<Rightarrow> string \<Rightarrow> host \<Rightarrow> host \<times> unit reply" where
  "delete_target_group k tid h = locked_lb k (delete_target_group_op tid) h"

section \<open>Health checks of a balancer\<close>

record lb_hc_body =
  eb_protocol :: "string option"
  eb_path :: "string option"
  eb_interval :: "scalar option"
  eb_healthy_threshold :: "scalar option"
  eb_unhealthy_threshold :: "scalar option"

definition set_health_check_op :: "lb_hc_body \<Rightarrow> lb_health_check lb_op" where
  "set_health_check_op body b =
     (let protocol = map to_upper (opt (eb_protocol body) ''HTTP'') in
      if protocol \<notin> {''HTTP'', ''TCP''} then Inl (Problem 400 ''Bad Request'')
      else
        (case scalar_int (opt (eb_interval body) (SInt 30)) of
           None \<Rightarrow> Inl (Problem 400 ''Bad Request'')
         | Some interval \<Rightarrow>
            (case (scalar_int (opt (eb_healthy_threshold body) (SInt 2)), scalar_int (opt (eb_unhealthy_threshold body) (SInt 3))) of
               (Some ht, Some ut) \<Rightarrow>
                 (let c = \<lparr>h_protocol = protocol, h_path = (if protocol = ''HTTP'' then opt (eb_path body) ''/'' else []),
                        h_interval = interval, h_healthy_threshold = ht, h_unhealthy_threshold = ut\<rparr>
                  in Inr (b\<lparr>lb_health_check := Some c\<rparr>, Reply 200 c))
             | _ \<Rightarrow> Inl (Problem 500 ''Internal Server Error''))))"

definition set_health_check :: "string \<Rightarrow> lb_hc_body \<Rightarrow> host \<Rightarrow> host \<times> lb_health_check reply" where
  "set_health_check k body h = locked_lb k (set_health_check_op body) h"

definition delete_health_check_op :: "unit lb_op" where
  "delete_health_check_op b = Inr (b\<lparr>lb_health_check := None\<rparr>, NoContent 204)"

definition delete_health_check :: "string \<Rightarrow> host \<Rightarrow> host \<times> unit reply" where
  "delete_health_check k h = locked_lb k delete_health_check_op h"

end
