(* ===== verification/Lb_Config.thy ===== *)
theory Lb_Config
  imports Load_Balancers "HOL-Library.AList"
begin

text \<open>
  \<^verbatim>\<open>api/lb.py\<close>: the HAProxy configuration of a balancer.  The text that \<^verbatim>\<open>_write_config\<close> writes is
  kept as its sections: a frontend with its bind port, ACL lines, \<^verbatim>\<open>use_backend\<close> lines and default, and
  a backend with its cookie, check and servers.  Python's dictionaries are association lists that
  keep the place of a key.  \<open>port\<close> is the configured port or the free one.
\<close>

record haproxy_server =
  hs_name :: string
  hs_address :: string
  hs_port :: int

record haproxy_check =
  hk_path :: string
  hk_inter :: int
  hk_rise :: int
  hk_fall :: int

record haproxy_backend =
  ha_name :: string
  ha_cookie :: "string option"
  ha_check :: "haproxy_check option"
  ha_servers :: "haproxy_server list"

record haproxy_frontend =
  hf_name :: string
  hf_bind :: int
  hf_acls :: "string list"
  hf_uses :: "(string \<times> string list) list"
  hf_default :: string

type_synonym haproxy_config = "haproxy_frontend list \<times> haproxy_backend list"

section \<open>Targets\<close>

text \<open>The instances given by the caller, then a lookup by identifier for the targets they miss.\<close>

definition inst_map :: "host \<Rightarrow> inst list \<Rightarrow> string \<Rightarrow> inst option" where
  "inst_map h vpc_instances iid =
     (case find (\<lambda>i. i_id i = iid) (rev vpc_instances) of
        Some i \<Rightarrow> Some i
      | None \<Rightarrow> if iid = [] then None else store_get_instance (instance_tbl h) iid)"

definition target_port :: "target_group \<Rightarrow> tg_target \<Rightarrow> int" where
  "target_port tg t = (case tt_port t of Some p \<Rightarrow> if p \<noteq> 0 then p else t_port tg | None \<Rightarrow> t_port tg)"

definition target_server :: "(string \<Rightarrow> inst option) \<Rightarrow> target_group \<Rightarrow> tg_target \<Rightarrow> haproxy_server option" where
  "target_server m tg t =
     (case m (tt_instance_id t) of
        None \<Rightarrow> None
      | Some i \<Rightarrow>
          if i_http_host_port i \<noteq> 0 then Some \<lparr>hs_name = i_name i, hs_address = ''127.0.0.1'', hs_port = i_http_host_port i\<rparr>
          else if i_private_ip i \<noteq> [] then Some \<lparr>hs_name = i_name i, hs_address = i_private_ip i, hs_port = target_port tg t\<rparr>
          else None)"

definition resolve_tg_servers :: "(string \<Rightarrow> inst option) \<Rightarrow> target_group \<Rightarrow> haproxy_server list" where
  "resolve_tg_servers m tg = List.map_filter (target_server m tg) (t_targets tg)"

section \<open>Backends\<close>

definition http_mode :: "load_balancer \<Rightarrow> bool" where
  "http_mode b \<longleftrightarrow> lb_type b = ''application''"

definition sticky_cookie :: "load_balancer \<Rightarrow> string option" where
  "sticky_cookie b = (if lb_sticky_sessions b \<and> http_mode b then Some (str_or (lb_cookie_name b) ''SERVERID'') else None)"

definition tg_check :: "load_balancer \<Rightarrow> target_group \<Rightarrow> haproxy_check option" where
  "tg_check b tg =
     (let c = t_health_check tg in
      if http_mode b \<and> th_path c \<noteq> [] then
        Some \<lparr>hk_path = th_path c, hk_inter = th_interval c, hk_rise = th_healthy_threshold c, hk_fall = th_unhealthy_threshold c\<rparr>
      else None)"

definition tg_backend_name :: "string \<Rightarrow> string" where
  "tg_backend_name tid = ''tg-'' @ take 8 tid @ ''-back''"

definition tg_section :: "(string \<Rightarrow> inst option) \<Rightarrow> load_balancer \<Rightarrow> target_group \<Rightarrow> haproxy_backend" where
  "tg_section m b tg = \<lparr>ha_name = tg_backend_name (t_id tg), ha_cookie = sticky_cookie b, ha_check = tg_check b tg,
     ha_servers = resolve_tg_servers m tg\<rparr>"

definition tg_sections :: "(string \<Rightarrow> inst option) \<Rightarrow> load_balancer \<Rightarrow> (string \<times> haproxy_backend) list" where
  "tg_sections m b = fold (\<lambda>tg al. AList.update (t_id tg) (tg_section m b tg) al) (lb_target_groups b) []"

definition effective_backends :: "load_balancer \<Rightarrow> inst list \<Rightarrow> haproxy_server list" where
  "effective_backends b vpc_instances =
     (if lb_backends b = [] \<and> vpc_instances \<noteq> [] \<and> http_mode b then
        List.map_filter (\<lambda>i.
          if i_http_host_port i \<noteq> 0 then Some \<lparr>hs_name = i_name i, hs_address = ''127.0.0.1'', hs_port = i_http_host_port i\<rparr>
          else if i_status i = Running \<and> i_private_ip i \<noteq> [] then Some \<lparr>hs_name = i_name i, hs_address = i_private_ip i, hs_port = 80\<rparr>
          else None) vpc_instances
      else map (\<lambda>x. \<lparr>hs_name = b_name x, hs_address = b_address x, hs_port = b_port x\<rparr>) (lb_backends b))"

definition lb_check :: "load_balancer \<Rightarrow> haproxy_check option" where
  "lb_check b = (case lb_health_check b of
     None \<Rightarrow> None
   | Some c \<Rightarrow> if http_mode b then Some \<lparr>hk_path = h_path c, hk_inter = h_interval c, hk_rise = h_healthy_threshold c,
                   hk_fall = h_unhealthy_threshold c\<rparr> else None)"

definition default_section :: "load_balancer \<Rightarrow> inst list \<Rightarrow> haproxy_backend" where
  "default_section b vpc_instances = \<lparr>ha_name = lb_name b @ ''-back'', ha_cookie = sticky_cookie b, ha_check = lb_check b,
     ha_servers = effective_backends b vpc_instances\<rparr>"

section \<open>Frontends\<close>

text \<open>The ACL lines of a routing rule and the names they define.\<close>

definition rule_acls :: "nat \<Rightarrow> routing_rule \<Rightarrow> (string \<times> string) list" where
  "rule_acls idx r =
     (let p = rr_path_pattern r; ap = ''r'' @ show_nat idx @ ''p''; ah = ''r'' @ show_nat idx @ ''h'' in
      (if p \<noteq> [] then
         [(ap, if last p = CHR ''*'' then ''    acl '' @ ap @ '' path_beg '' @ butlast p else ''    acl '' @ ap @ '' path '' @ p)]
       else []) @
      (if rr_host_header r \<noteq> [] then [(ah, ''    acl '' @ ah @ '' hdr(host) -i '' @ rr_host_header r)] else []))"

text \<open>For each rule that names a known group: its ACLs and, if it has any, its \<^verbatim>\<open>use_backend\<close> line.\<close>

fun rule_lines :: "(string \<times> haproxy_backend) list \<Rightarrow> nat \<Rightarrow> routing_rule list \<Rightarrow>
    (string list \<times> (string \<times> string list) list \<times> string list)" where
  "rule_lines secs idx [] = ([], [], [])"
| "rule_lines secs idx (r # rs) =
     (let (acls, uses, refs) = rule_lines secs (Suc idx) rs; tid = opt (rr_target_group_id r) [] in
      (case map_of secs tid of
         None \<Rightarrow> (acls, uses, refs)
       | Some sec \<Rightarrow>
           if tid = [] then (acls, uses, refs)
           else
             (let own = rule_acls idx r in
              if own = [] then (acls, uses, refs)
              else (map snd own @ acls, (ha_name sec, map fst own) # uses, tid # refs))))"

definition listener_frontend ::
    "(string \<times> haproxy_backend) list \<Rightarrow> load_balancer \<Rightarrow> listener \<Rightarrow> haproxy_frontend \<times> string list" where
  "listener_frontend secs b l =
     (let rules = sort_key (\<lambda>r. opt (rr_priority r) 999) (l_routing_rules l);
          (acls, uses, refs) = rule_lines secs 0 rules;
          f = \<lparr>hf_name = lb_name b @ ''-'' @ take 8 (filter (\<lambda>c. c \<noteq> CHR ''-'') (l_id l)), hf_bind = l_port l,
                hf_acls = acls, hf_uses = uses, hf_default = lb_name b @ ''-back''\<rparr>
      in
      (case (if l_target_group_id l = [] then None else map_of secs (l_target_group_id l)) of
         None \<Rightarrow> (f, refs)
       | Some sec \<Rightarrow> (f\<lparr>hf_default := ha_name sec\<rparr>, l_target_group_id l # refs)))"

definition write_config :: "host \<Rightarrow> load_balancer \<Rightarrow> int \<Rightarrow> inst list \<Rightarrow> haproxy_config" where
  "write_config h b port vpc_instances =
     (let secs = tg_sections (inst_map h vpc_instances) b;
          fronts = (if lb_listeners b = [] then
                      [(\<lparr>hf_name = lb_name b @ ''-front'', hf_bind = port, hf_acls = [], hf_uses = [], hf_default = lb_name b @ ''-back''\<rparr>, [])]
                    else map (listener_frontend secs b) (lb_listeners b));
          refs = concat (map snd fronts)
      in (map fst fronts, default_section b vpc_instances # map snd (filter (\<lambda>ks. fst ks \<in> set refs) secs)))"

section \<open>Every backend that is used is defined\<close>

lemma rule_lines_used:
  assumes "rule_lines secs idx rs = (acls, uses, refs)" "(n, cs) \<in> set uses"
  shows "\<exists>tid sec. map_of secs tid = Some sec \<and> ha_name sec = n \<and> tid \<in> set refs"
  using assms
proof (induction rs arbitrary: idx acls uses refs)
  case (Cons r rs)
  obtain a u f where r: "rule_lines secs (Suc idx) rs = (a, u, f)" by (cases "rule_lines secs (Suc idx) rs") auto
  show ?case
    using Cons.prems Cons.IH [OF r]
    by (auto simp: r Let_def split: option.splits if_splits; blast)
qed simp

lemma listener_frontend_used:
  assumes "n \<in> insert (hf_default (fst (listener_frontend secs b l))) (fst ` set (hf_uses (fst (listener_frontend secs b l))))"
  shows "n = lb_name b @ ''-back'' \<or>
    (\<exists>tid sec. map_of secs tid = Some sec \<and> ha_name sec = n \<and> tid \<in> set (snd (listener_frontend secs b l)))"
proof -
  let ?rules = "sort_key (\<lambda>r. opt (rr_priority r) 999) (l_routing_rules l)"
  obtain a u f where r: "rule_lines secs 0 ?rules = (a, u, f)" by (cases "rule_lines secs 0 ?rules") auto
  show ?thesis
    using assms rule_lines_used [OF r]
    by (auto simp: listener_frontend_def r Let_def split: option.splits if_splits; blast)
qed

lemma write_config_sections:
  assumes "map_of secs tid = Some sec" "tid \<in> R"
  shows "ha_name sec \<in> ha_name ` snd ` set (filter (\<lambda>ks. fst ks \<in> R) secs)"
  using map_of_SomeD [OF assms(1)] assms(2) by force

lemma write_config_closed:
  assumes "f \<in> set (fst (write_config h b port vis))" "n \<in> insert (hf_default f) (fst ` set (hf_uses f))"
  shows "n \<in> ha_name ` set (snd (write_config h b port vis))"
proof (cases "lb_listeners b = []")
  case True
  then show ?thesis using assms by (auto simp: write_config_def default_section_def Let_def)
next
  case False
  let ?secs = "tg_sections (inst_map h vis) b"
  let ?refs = "concat (map snd (map (listener_frontend ?secs b) (lb_listeners b)))"
  have w: "write_config h b port vis = (map fst (map (listener_frontend ?secs b) (lb_listeners b)),
      default_section b vis # map snd (filter (\<lambda>ks. fst ks \<in> set ?refs) ?secs))"
    using False by (simp add: write_config_def Let_def)
  obtain l where l: "l \<in> set (lb_listeners b)" "f = fst (listener_frontend ?secs b l)"
    using assms(1) by (auto simp: w)
  have "set (snd (listener_frontend ?secs b l)) \<subseteq> set ?refs" using l(1) by auto
  then show ?thesis
    using listener_frontend_used [of n ?secs b l] assms(2) write_config_sections [of ?secs _ _ "set ?refs"]
    by (auto simp: w l(2) default_section_def simp del: set_concat)
qed

lemma listener_frontend_bind: "hf_bind (fst (listener_frontend secs b l)) = l_port l"
  by (simp add: listener_frontend_def Let_def split_beta split: option.splits)

end
