(* ===== verification/Lb_Lock.thy ===== *)
theory Lb_Lock
  imports Load_Balancers
begin

text \<open>
  \<^verbatim>\<open>store.lb_lock\<close>: a lock per balancer that the changing routes hold from their read to their
  write, while requests are served by many threads.  The state is the table, who holds the lock of
  the balancer \<open>k\<close>, the row that the holder has read, and the requests that are done, in order.
  Each request is what it computes from the row it read (\<open>Some\<close> of the row to write, or \<open>None\<close> for an
  error reply), as the handlers of \<open>Load_Balancers\<close> do.  The delete takes no lock.
\<close>

type_synonym row_op = "load_balancer \<Rightarrow> load_balancer option"

definition row_of_op :: "'b lb_op \<Rightarrow> row_op" where
  "row_of_op f b = (case f b of Inl _ \<Rightarrow> None | Inr (b', _) \<Rightarrow> Some b')"

record lock_state =
  lk_tbl :: "load_balancer list"
  lk_holder :: "nat option"
  lk_seen :: "load_balancer option option"
  lk_done :: "nat list"

definition write_back :: "row_op \<Rightarrow> load_balancer option \<Rightarrow> load_balancer list \<Rightarrow> load_balancer list" where
  "write_back f seen t = (case seen of None \<Rightarrow> t | Some b \<Rightarrow> (case f b of None \<Rightarrow> t | Some b' \<Rightarrow> put_lb t b'))"

text \<open>One request on its own.\<close>

definition run_alone :: "string \<Rightarrow> row_op \<Rightarrow> load_balancer list \<Rightarrow> load_balancer list" where
  "run_alone k f t = write_back f (store_get_lb t k) t"

inductive locked_step :: "string \<Rightarrow> (nat \<Rightarrow> row_op) \<Rightarrow> lock_state \<Rightarrow> lock_state \<Rightarrow> bool" for k ops where
  acquire: "lk_holder s = None \<Longrightarrow> locked_step k ops s (s\<lparr>lk_holder := Some n, lk_seen := None\<rparr>)"
| read: "lk_holder s = Some n \<Longrightarrow> lk_seen s = None \<Longrightarrow>
    locked_step k ops s (s\<lparr>lk_seen := Some (store_get_lb (lk_tbl s) k)\<rparr>)"
| finish: "lk_holder s = Some n \<Longrightarrow> lk_seen s = Some r \<Longrightarrow>
    locked_step k ops s (s\<lparr>lk_tbl := write_back (ops n) r (lk_tbl s), lk_holder := None, lk_seen := None, lk_done := lk_done s @ [n]\<rparr>)"

inductive_cases locked_stepE: "locked_step k ops s s'"

text \<open>The delete, at any moment.\<close>

inductive lb_thread_step :: "string \<Rightarrow> (nat \<Rightarrow> row_op) \<Rightarrow> lock_state \<Rightarrow> lock_state \<Rightarrow> bool" for k ops where
  locked: "locked_step k ops s s' \<Longrightarrow> lb_thread_step k ops s s'"
| delete: "lb_thread_step k ops s (s\<lparr>lk_tbl := fst (store_delete_lb (lk_tbl s) k)\<rparr>)"

definition lock_start :: "load_balancer list \<Rightarrow> lock_state" where
  "lock_start t = \<lparr>lk_tbl = t, lk_holder = None, lk_seen = None, lk_done = []\<rparr>"

section \<open>Requests under the lock are serial\<close>

definition lock_inv :: "string \<Rightarrow> (nat \<Rightarrow> row_op) \<Rightarrow> load_balancer list \<Rightarrow> lock_state \<Rightarrow> bool" where
  "lock_inv k ops t s \<longleftrightarrow> lk_tbl s = fold (\<lambda>n. run_alone k (ops n)) (lk_done s) t \<and>
     (\<forall>r. lk_seen s = Some r \<longrightarrow> r = store_get_lb (lk_tbl s) k)"

lemma lock_inv_step: "locked_step k ops s s' \<Longrightarrow> lock_inv k ops t s \<Longrightarrow> lock_inv k ops t s'"
  by (induction rule: locked_step.induct) (auto simp: lock_inv_def run_alone_def)

lemma lock_inv_reach: "(locked_step k ops)\<^sup>*\<^sup>* (lock_start t) s \<Longrightarrow> lock_inv k ops t s"
proof (induction rule: rtranclp_induct)
  case base
  show ?case by (simp add: lock_inv_def lock_start_def)
qed (rule lock_inv_step)

text \<open>The handler of a request, run alone, leaves the table of \<open>run_alone\<close>.\<close>

lemma locked_lb_table: "lb_tbl (fst (locked_lb k f h)) = run_alone k (row_of_op f) (lb_tbl h)"
  by (simp add: locked_lb_def run_alone_def write_back_def row_of_op_def save_lb_def lb_reload_def split: option.split sum.split prod.split)

text \<open>
  C26: However the changing requests of a balancer interleave, the table is at every moment the result of
  running the finished requests one after the other in the order in which they finished: no update is
  lost.  Run alone, a request has the effect of its handler on the table.
\<close>

theorem locked_requests_serialise:
  assumes "(locked_step k ops)\<^sup>*\<^sup>* (lock_start t) s"
  shows "lk_tbl s = fold (\<lambda>n. run_alone k (ops n)) (lk_done s) t \<and>
    lb_tbl (fst (locked_lb k f h)) = run_alone k (row_of_op f) (lb_tbl h)"
  using lock_inv_reach [OF assms] locked_lb_table [of k f h] by (simp add: lock_inv_def)

text \<open>
  The delete does not take the lock.  A request that has read the row of a live balancer before it is
  deleted writes it back afterwards, and the balancer whose deletion was acknowledged is live again.
\<close>

theorem delete_lb_races_with_update:
  assumes "wf_table lb_id t" "store_get_lb t k = Some b" "ops n b = Some b'" "lb_id b' = k" "lb_live b'"
  shows "\<exists>s1 s2. (lb_thread_step k ops)\<^sup>*\<^sup>* (lock_start t) s1 \<and> store_get_lb (lk_tbl s1) k = None \<and>
    (lb_thread_step k ops)\<^sup>*\<^sup>* s1 s2 \<and> lk_done s2 = [n] \<and> store_get_lb (lk_tbl s2) k \<noteq> None"
proof -
  let ?a = "(lock_start t)\<lparr>lk_holder := Some n, lk_seen := None\<rparr>"
  let ?r = "?a\<lparr>lk_seen := Some (store_get_lb (lk_tbl ?a) k)\<rparr>"
  let ?d = "?r\<lparr>lk_tbl := fst (store_delete_lb (lk_tbl ?r) k)\<rparr>"
  let ?f = "?d\<lparr>lk_tbl := write_back (ops n) (Some b) (lk_tbl ?d), lk_holder := None, lk_seen := None, lk_done := lk_done ?d @ [n]\<rparr>"
  have tbl: "lk_tbl (lock_start t) = t" "lk_holder (lock_start t) = None" "lk_done (lock_start t) = []"
    by (simp_all add: lock_start_def)
  have seen: "lk_seen ?d = Some (Some b)" "lk_holder ?d = Some n" using assms(2) tbl(1) by simp_all
  have 1: "lb_thread_step k ops (lock_start t) ?a" by (intro lb_thread_step.locked locked_step.acquire tbl(2))
  have 2: "lb_thread_step k ops ?a ?r" by (intro lb_thread_step.locked locked_step.read [of ?a n]) simp_all
  have 3: "lb_thread_step k ops ?r ?d" by (rule lb_thread_step.delete)
  have 4: "lb_thread_step k ops ?d ?f" by (rule lb_thread_step.locked, rule locked_step.finish [OF seen(2,1)])
  have gone: "store_get_lb (lk_tbl ?d) k = None" using assms(1) by (simp add: tbl lbs.get_del)
  have "wf_table lb_id (lk_tbl ?d)" using assms(1) by (simp add: tbl lbs.wf_del)
  then have live: "store_get_lb (lk_tbl ?f) k \<noteq> None"
    using assms(3-5) by (simp add: write_back_def lbs.get_put)
  have "lk_done ?f = [n]" by (simp add: tbl)
  moreover have "(lb_thread_step k ops)\<^sup>*\<^sup>* (lock_start t) ?d"
    using 1 2 3 by (meson rtranclp.rtrancl_into_rtrancl rtranclp.rtrancl_refl)
  moreover have "(lb_thread_step k ops)\<^sup>*\<^sup>* ?d ?f" using 4 by (rule r_into_rtranclp)
  ultimately show ?thesis using gone live by (intro exI [of _ ?d] exI [of _ ?f] conjI)
qed

section \<open>A concrete balancer\<close>

definition demo_lb :: load_balancer where
  "demo_lb = \<lparr>lb_id = ''b1'', lb_name = ''front'', lb_type = ''application'', lb_vpc_id = ''v1'', lb_subnet_ids = [],
     lb_internal = False, lb_dns_name = ''front.lb.cloudcore.internal'', lb_listen_port = 8200, lb_backends = [], lb_listeners = [],
     lb_health_check = None, lb_target_groups = [], lb_sticky_sessions = False, lb_cookie_name = ''SERVERID'',
     lb_deletion_protection = False, lb_status = Active, lb_created_at = 0, lb_tags = []\<rparr>"

theorem locked_requests_serialise_witness:
  "\<exists>s. (locked_step ''b1'' (\<lambda>_. row_of_op delete_health_check_op))\<^sup>*\<^sup>* (lock_start [demo_lb]) s \<and> lk_done s = [4] \<and>
     lk_tbl s = run_alone ''b1'' (row_of_op delete_health_check_op) [demo_lb]"
proof -
  let ?st = "locked_step ''b1'' (\<lambda>_. row_of_op delete_health_check_op)"
  let ?s = "\<lparr>lk_tbl = [demo_lb], lk_holder = Some 4, lk_seen = Some (store_get_lb [demo_lb] ''b1''), lk_done = []\<rparr>"
  obtain s1 where 1: "?st (lock_start [demo_lb]) s1" "s1 = \<lparr>lk_tbl = [demo_lb], lk_holder = Some 4, lk_seen = None, lk_done = []\<rparr>"
    using locked_step.acquire [of "lock_start [demo_lb]" _ _ 4] by (simp add: lock_start_def)
  then have 2: "?st s1 ?s" using locked_step.read [of s1 4 "''b1''"] by simp
  obtain s3 where 3: "?st ?s s3" "lk_done s3 = [4]"
    using locked_step.finish [of ?s 4 "store_get_lb [demo_lb] ''b1''" "''b1''"] by fastforce
  have r: "?st\<^sup>*\<^sup>* (lock_start [demo_lb]) s3"
    using 1(1) 2 3(1) by (meson rtranclp.rtrancl_into_rtrancl rtranclp.rtrancl_refl)
  then show ?thesis using conjunct1 [OF locked_requests_serialise [OF r]] 3(2) by auto
qed

theorem delete_lb_races_with_update_witness:
  "\<exists>s1 s2. (lb_thread_step ''b1'' (\<lambda>_. row_of_op delete_health_check_op))\<^sup>*\<^sup>* (lock_start [demo_lb]) s1 \<and>
     store_get_lb (lk_tbl s1) ''b1'' = None \<and>
     (lb_thread_step ''b1'' (\<lambda>_. row_of_op delete_health_check_op))\<^sup>*\<^sup>* s1 s2 \<and> store_get_lb (lk_tbl s2) ''b1'' \<noteq> None"
proof -
  have "wf_table lb_id [demo_lb]" by (simp add: wf_table_def)
  moreover have "store_get_lb [demo_lb] ''b1'' = Some demo_lb"
    by (simp add: store_get_lb_def live_get_def demo_lb_def lb_live_def)
  moreover have "row_of_op delete_health_check_op demo_lb = Some demo_lb"
    by (simp add: row_of_op_def delete_health_check_op_def demo_lb_def)
  moreover have "lb_id demo_lb = ''b1''" "lb_live demo_lb" by (simp_all add: demo_lb_def lb_live_def)
  ultimately show ?thesis
    using delete_lb_races_with_update [of "[demo_lb]" "''b1''" demo_lb "\<lambda>_. row_of_op delete_health_check_op" 0 demo_lb] by blast
qed

end
