(* ===== verification/Lb_Props.thy ===== *)
theory Lb_Props
  imports Lb_Config Lb_Lock Peering_Witness
begin

text \<open>
  What the load-balancer routes guarantee.  The locale \<open>lb_operation\<close> is the contract of the changing
  requests that \<open>locked_lb\<close> runs; every one of them is interpreted, and the invariant over all
  sequences of requests rests on it.
\<close>

section \<open>The contract of a changing request\<close>

definition ports_ok :: "load_balancer \<Rightarrow> bool" where
  "ports_ok b \<longleftrightarrow> distinct (map l_port (lb_listeners b)) \<and> (\<forall>l \<in> set (lb_listeners b). 1 \<le> l_port l \<and> l_port l \<le> 65535)"

definition lb_inv :: "host \<Rightarrow> bool" where
  "lb_inv h \<longleftrightarrow> wf_table lb_id (lb_tbl h) \<and> (\<forall>b \<in> set (lb_tbl h). ports_ok b)"

lemma lb_inv_put:
  assumes "lb_inv h" "ports_ok b" "lb_tbl h' = put_lb (lb_tbl h) b"
  shows "lb_inv h'"
proof -
  have "ports_ok (b\<lparr>lb_created_at := c\<rparr>)" for c using assms(2) by (simp add: ports_ok_def)
  then have "\<forall>x \<in> set (put_lb (lb_tbl h) b). ports_ok x"
    using assms(1,2) by (auto simp: put_lb_def upsert_def lb_inv_def)
  then show ?thesis using assms(1,3) by (simp add: lb_inv_def lbs.wf_put)
qed

locale lb_operation =
  fixes f :: "load_balancer \<Rightarrow> 'b reply + load_balancer \<times> 'b reply"
  assumes identity: "f b = Inr (b', r) \<Longrightarrow> lb_id b' = lb_id b \<and> lb_status b' = lb_status b"
    and ports: "f b = Inr (b', r) \<Longrightarrow> ports_ok b \<Longrightarrow> ports_ok b'"
begin

lemma locked_cases:
  assumes "wf_table lb_id (lb_tbl h)"
  obtains "lb_tbl (fst (locked_lb k f h)) = lb_tbl h"
  | b b' r where "store_get_lb (lb_tbl h) k = Some b" "f b = Inr (b', r)" "lb_id b' = k" "lb_live b'"
      "lb_tbl (fst (locked_lb k f h)) = put_lb (lb_tbl h) b'"
proof (cases "store_get_lb (lb_tbl h) k")
  case None
  then show ?thesis by (intro that(1)) (simp add: locked_lb_def)
next
  case (Some b)
  then have b: "lb_id b = k" "lb_live b" using assms by (simp_all add: lbs.get_Some)
  show ?thesis
  proof (cases "f b")
    case (Inl r)
    then show ?thesis using Some by (intro that(1)) (simp add: locked_lb_def)
  next
    case (Inr p)
    obtain b' r where p: "p = (b', r)" by (cases p) auto
    show ?thesis
      using that(2) [OF Some, of b' r] Inr p b identity [of b b' r] Some
      by (simp add: locked_lb_def save_lb_def lb_reload_def lb_live_def)
  qed
qed

lemma inv_locked:
  assumes "lb_inv h"
  shows "lb_inv (fst (locked_lb k f h))"
proof -
  have wf: "wf_table lb_id (lb_tbl h)" using assms by (simp add: lb_inv_def)
  show ?thesis
  proof (rule locked_cases [OF wf, of k])
    assume "lb_tbl (fst (locked_lb k f h)) = lb_tbl h"
    then show ?thesis using assms by (simp add: lb_inv_def)
  next
    fix b b' r
    assume *: "store_get_lb (lb_tbl h) k = Some b" "f b = Inr (b', r)" "lb_tbl (fst (locked_lb k f h)) = put_lb (lb_tbl h) b'"
    then have "ports_ok b" using assms lbs.get_Some [OF wf, of k b] by (simp add: lb_inv_def)
    then show ?thesis using lb_inv_put [OF assms _ *(3)] ports [OF *(2)] by simp
  qed
qed

lemma other_balancers_kept:
  assumes "wf_table lb_id (lb_tbl h)" "i \<noteq> k"
  shows "store_get_lb (lb_tbl (fst (locked_lb k f h))) i = store_get_lb (lb_tbl h) i"
  by (rule locked_cases [OF assms(1), of k]) (use assms lbs.get_put_other in auto)

end

section \<open>Every request meets it\<close>

lemma map_update_first: "(\<And>x. P x \<Longrightarrow> g (f x) = g x) \<Longrightarrow> map g (update_first P f xs) = map g xs"
  by (induction xs) auto

lemma ports_ok_map:
  assumes "map l_port (lb_listeners b') = map l_port (lb_listeners b)" "ports_ok b"
  shows "ports_ok b'"
proof -
  have "ports_ok x \<longleftrightarrow> distinct (map l_port (lb_listeners x)) \<and> (\<forall>p \<in> set (map l_port (lb_listeners x)). 1 \<le> p \<and> p \<le> 65535)" for x
    by (simp add: ports_ok_def)
  then show ?thesis using assms by metis
qed

interpretation op_update: lb_operation "update_lb_op body" for body
  by unfold_locales (auto simp: update_lb_op_def Let_def ports_ok_def)

interpretation op_add_backend: lb_operation "add_backend_op body" for body
  by unfold_locales (auto simp: add_backend_op_def Let_def ports_ok_def split: if_splits option.splits)

interpretation op_remove_backend: lb_operation "remove_backend_op n" for n
  by unfold_locales (auto simp: remove_backend_op_def ports_ok_def)

interpretation op_add_listener: lb_operation "add_listener_op nid k body" for nid k body
  by unfold_locales (auto simp: add_listener_op_def Let_def ports_ok_def list_ex_iff split: if_splits option.splits)

interpretation op_update_listener: lb_operation "update_listener_op lid body" for lid body
proof
  fix b b' r
  assume *: "update_listener_op lid body b = Inr (b', r)"
  then show "lb_id b' = lb_id b \<and> lb_status b' = lb_status b"
    by (auto simp: update_listener_op_def split: option.splits)
  have "map l_port (update_first P (changed_listener body) ls) = map l_port ls" for P ls
    by (rule map_update_first) (simp add: changed_listener_def)
  then have "map l_port (lb_listeners b') = map l_port (lb_listeners b)"
    using * by (auto simp: update_listener_op_def split: option.splits)
  then show "ports_ok b'" if "ports_ok b" using that by (rule ports_ok_map)
qed

interpretation op_remove_listener: lb_operation "remove_listener_op lid" for lid
  by unfold_locales (auto simp: remove_listener_op_def ports_ok_def distinct_map_filter split: if_splits)

interpretation op_create_tg: lb_operation "create_target_group_op nid k body" for nid k body
  by unfold_locales (auto simp: create_target_group_op_def Let_def ports_ok_def split: if_splits option.splits)

interpretation op_update_tg: lb_operation "update_target_group_op tid body" for tid body
  by unfold_locales (auto simp: update_target_group_op_def ports_ok_def split: option.splits)

interpretation op_delete_tg: lb_operation "delete_target_group_op tid" for tid
  by unfold_locales (auto simp: delete_target_group_op_def ports_ok_def split: if_splits)

interpretation op_set_hc: lb_operation "set_health_check_op body" for body
  by unfold_locales (auto simp: set_health_check_op_def Let_def ports_ok_def split: if_splits option.splits)

interpretation op_delete_hc: lb_operation delete_health_check_op
  by unfold_locales (auto simp: delete_health_check_op_def ports_ok_def)

section \<open>Sequences of requests\<close>

inductive lb_step :: "host \<Rightarrow> host \<Rightarrow> bool" where
  create: "lb_step h (fst (create_lb start nid rid now body h))"
| update: "lb_step h (fst (update_lb k ubody h))"
| delete: "lb_step h (fst (delete_lb k h))"
| add_backend: "lb_step h (fst (add_backend k bbody h))"
| remove_backend: "lb_step h (fst (remove_backend k n h))"
| add_listener: "lb_step h (fst (add_listener nid k lbody h))"
| update_listener: "lb_step h (fst (update_listener k lid lbody h))"
| remove_listener: "lb_step h (fst (remove_listener k lid h))"
| create_tg: "lb_step h (fst (create_target_group nid k tbody h))"
| update_tg: "lb_step h (fst (update_target_group k tid tbody h))"
| delete_tg: "lb_step h (fst (delete_target_group k tid h))"
| set_hc: "lb_step h (fst (set_health_check k hbody h))"
| delete_hc: "lb_step h (fst (delete_health_check k h))"

lemma upsert_record_lbs: "upsert_record r n z nm ty v t rt ri h = Inr h' \<Longrightarrow> lb_tbl h' = lb_tbl h"
  by (auto simp: upsert_record_def Let_def split: option.splits)

lemma lb_inv_cong: "lb_tbl h = lb_tbl h' \<Longrightarrow> lb_inv h = lb_inv h'"
  by (simp add: lb_inv_def)

lemma lb_inv_create:
  assumes "lb_inv h"
  shows "lb_inv (fst (create_lb start nid rid now body h))"
proof -
  have save: "lb_inv (save_lb b (emit e h))" if "lb_listeners b = []" for b e
    by (rule lb_inv_put [OF assms, of b]) (simp_all add: that ports_ok_def save_lb_def)
  have up: "lb_inv k'" if "upsert_record r n z nm ty v t rt ri k = Inr k'" "lb_inv k" for r n z nm ty v t rt ri k k'
    using that lb_inv_cong [OF upsert_record_lbs] by blast
  show ?thesis
    unfolding create_lb_def Let_def
    using assms save up lb_inv_cong [of "emit DnsReload x" x for x] by (simp split: sum.split)
qed

lemma lb_inv_delete:
  assumes "lb_inv h"
  shows "lb_inv (fst (delete_lb k h))"
proof -
  have wf: "wf_table lb_id (fst (store_delete_lb (lb_tbl h) k))" using assms by (simp add: lb_inv_def lbs.wf_del)
  have "\<forall>b \<in> set (fst (store_delete_lb (lb_tbl h) k)). ports_ok b"
    using assms by (auto simp: store_delete_lb_def live_delete_def update_where_def lb_inv_def ports_ok_def Let_def)
  then have "lb_inv h'" if "lb_tbl h' = fst (store_delete_lb (lb_tbl h) k)" for h'
    using wf that by (simp add: lb_inv_def)
  then show ?thesis using assms by (auto simp: delete_lb_def Let_def delete_records_for_resource_def split: option.split)
qed

lemmas lb_inv_requests = op_update.inv_locked op_add_backend.inv_locked op_remove_backend.inv_locked op_add_listener.inv_locked
  op_update_listener.inv_locked op_remove_listener.inv_locked op_create_tg.inv_locked op_update_tg.inv_locked op_delete_tg.inv_locked
  op_set_hc.inv_locked op_delete_hc.inv_locked

lemma lb_inv_step: "lb_step h h' \<Longrightarrow> lb_inv h \<Longrightarrow> lb_inv h'"
  by (induction rule: lb_step.induct)
     (simp_all add: lb_inv_create lb_inv_delete lb_inv_requests update_lb_def add_backend_def remove_backend_def add_listener_def
       update_listener_def remove_listener_def create_target_group_def update_target_group_def delete_target_group_def
       set_health_check_def delete_health_check_def)

lemma lb_inv_reach: "lb_step\<^sup>*\<^sup>* h h' \<Longrightarrow> lb_inv h \<Longrightarrow> lb_inv h'"
  by (induction rule: rtranclp_induct) (auto intro: lb_inv_step)

section \<open>Properties\<close>

text \<open>
  C34: After any sequence of load-balancer requests on a host that had none, the listeners of every
  balancer have different ports, all between 1 and 65535, and HAProxy binds exactly one frontend to
  each of them.
\<close>

theorem listeners_have_own_ports:
  assumes "lb_step\<^sup>*\<^sup>* h0 h" "lb_tbl h0 = []" "store_get_lb (lb_tbl h) k = Some b"
  shows "distinct (map l_port (lb_listeners b)) \<and> (\<forall>l \<in> set (lb_listeners b). 1 \<le> l_port l \<and> l_port l \<le> 65535) \<and>
    (lb_listeners b \<noteq> [] \<longrightarrow> map hf_bind (fst (write_config h b port vis)) = map l_port (lb_listeners b))"
proof -
  have inv: "lb_inv h" using lb_inv_reach [OF assms(1)] assms(2) by (simp add: lb_inv_def)
  then have "b \<in> set (lb_tbl h)" using assms(3) lbs.get_Some [of "lb_tbl h" k b] by (simp add: lb_inv_def)
  then have "ports_ok b" using inv by (simp add: lb_inv_def)
  moreover have "map hf_bind (fst (write_config h b port vis)) = map l_port (lb_listeners b)" if "lb_listeners b \<noteq> []"
    using that by (simp add: write_config_def Let_def comp_def listener_frontend_bind)
  ultimately show ?thesis by (simp add: ports_ok_def)
qed

lemma inst_map_live:
  assumes "inst_map h (list_instances_by_vpc (instance_tbl h) v) iid = Some i" "wf_table i_id (instance_tbl h)"
  shows "store_get_instance (instance_tbl h) iid = Some i"
proof (cases "find (\<lambda>i. i_id i = iid) (rev (list_instances_by_vpc (instance_tbl h) v))")
  case (Some j)
  then have "j \<in> set (list_instances_by_vpc (instance_tbl h) v)" "i_id j = iid" "i = j"
    using assms(1) find_Some_in [OF Some] by (auto simp: inst_map_def)
  then show ?thesis using assms(2) by (auto simp: instances.get_Some list_instances_by_vpc_def i_live_def)
qed (use assms(1) in \<open>simp add: inst_map_def split: if_splits\<close>)

text \<open>
  C28: In the configuration that is written for a balancer, every backend that a frontend sends traffic
  to, by a routing rule or by default, is defined in the same configuration, and an instance that a
  target is resolved to is live and has the identifier of the target.
\<close>

theorem config_is_closed:
  assumes "wf_table i_id (instance_tbl h)" "f \<in> set (fst (write_config h b port (list_instances_by_vpc (instance_tbl h) v)))"
    and "n \<in> insert (hf_default f) (fst ` set (hf_uses f))"
  shows "n \<in> ha_name ` set (snd (write_config h b port (list_instances_by_vpc (instance_tbl h) v))) \<and>
    (\<forall>iid i. inst_map h (list_instances_by_vpc (instance_tbl h) v) iid = Some i \<longrightarrow> store_get_instance (instance_tbl h) iid = Some i)"
  using write_config_closed [OF assms(2,3)] inst_map_live assms(1) by blast

text \<open>
  A target group is deleted only when no listener and no routing rule of the balancer names it:
  the stored balancer then has neither the group nor a reference to it.  While a reference remains
  the request is answered 409 and nothing changes.
\<close>

theorem delete_target_group_guard:
  assumes "wf_table lb_id (lb_tbl h)" "store_get_lb (lb_tbl h) k = Some b" "find_tg b tid = Some t"
  shows "(if list_ex (uses_tg tid) (lb_listeners b) then delete_target_group k tid h = (h, Problem 409 ''Conflict'')
     else snd (delete_target_group k tid h) = NoContent 204 \<and>
       (\<exists>b'. store_get_lb (lb_tbl (fst (delete_target_group k tid h))) k = Some b' \<and> find_tg b' tid = None \<and>
         \<not> list_ex (uses_tg tid) (lb_listeners b') \<and>
         lb_target_groups b' = filter (\<lambda>t. t_id t \<noteq> tid) (lb_target_groups b)))"
proof (cases "list_ex (uses_tg tid) (lb_listeners b)")
  case True
  then have "filter (uses_tg tid) (lb_listeners b) \<noteq> []" by (auto simp: filter_empty_conv list_ex_iff)
  then show ?thesis using True assms(2,3) by (simp add: delete_target_group_def locked_lb_def delete_target_group_op_def)
next
  case False
  let ?b = "b\<lparr>lb_target_groups := filter (\<lambda>t. t_id t \<noteq> tid) (lb_target_groups b)\<rparr>"
  have e: "filter (uses_tg tid) (lb_listeners b) = []" using False by (auto simp: filter_empty_conv list_ex_iff)
  have b: "lb_id b = k" "lb_live b" using assms(1,2) by (simp_all add: lbs.get_Some)
  have d: "delete_target_group k tid h = (save_lb ?b (lb_reload ?b h), NoContent 204)"
    using assms(2,3) e by (simp add: delete_target_group_def locked_lb_def delete_target_group_op_def)
  have "store_get_lb (put_lb (lb_tbl h) ?b) k = Some (stored_lb (lb_tbl h) ?b)"
    using lbs.get_put_same [OF assms(1), of ?b] b by (simp add: lb_live_def)
  moreover have "lb_target_groups (stored_lb t x) = lb_target_groups x" "lb_listeners (stored_lb t x) = lb_listeners x" for t x
    by (simp_all add: stored_lb_def stored_row_def split: option.splits)
  moreover have "find (\<lambda>t. t_id t = tid) (filter (\<lambda>t. t_id t \<noteq> tid) ts) = None" for ts
    by (auto simp: find_None_iff)
  ultimately show ?thesis using False by (simp add: d save_lb_def lb_reload_def find_tg_def)
qed

section \<open>Health checks\<close>

text \<open>With JSON numbers the check of a target group is never zero, as HAProxy requires; a zero written
  as a string is not caught.\<close>

definition numeric_hc :: "hc_body \<Rightarrow> bool" where
  "numeric_hc hc \<longleftrightarrow> (\<forall>s \<in> {hb_interval hc, hb_healthy_threshold hc, hb_unhealthy_threshold hc}. \<forall>t. s \<noteq> Some (SStr t))"

definition hc_nonzero :: "tg_health_check \<Rightarrow> bool" where
  "hc_nonzero c \<longleftrightarrow> th_interval c \<noteq> 0 \<and> th_healthy_threshold c \<noteq> 0 \<and> th_unhealthy_threshold c \<noteq> 0"

lemma int_or_nonzero: "int_or s d = Some n \<Longrightarrow> d \<noteq> 0 \<Longrightarrow> \<forall>t. s \<noteq> Some (SStr t) \<Longrightarrow> n \<noteq> 0"
  by (auto simp: int_or_def scalar_true_def split: if_splits option.splits scalar.splits)

lemma merged_hc_nonzero:
  "merged_hc hc old = Some c \<Longrightarrow> numeric_hc hc \<Longrightarrow> hc_nonzero old \<Longrightarrow> hc_nonzero c"
  by (auto simp: merged_hc_def numeric_hc_def hc_nonzero_def dest: int_or_nonzero split: option.splits)

lemma update_repairs_zero_check:
  assumes "changed_tg body t = Some t'" "tb_health_check body = Some (Some hc)" "numeric_hc hc"
  shows "hc_nonzero (t_health_check t')"
proof -
  have "hc_nonzero (stored_or_default (t_health_check t))" by (simp add: hc_nonzero_def stored_or_default_def)
  then show ?thesis using assms merged_hc_nonzero by (auto simp: changed_tg_def Let_def split: option.splits)
qed

lemma string_zero_check:
  "merged_hc (no_hc\<lparr>hb_interval := Some (SStr ''0'')\<rparr>) default_hc = Some (default_hc\<lparr>th_interval := 0\<rparr>)"
  by code_simp

section \<open>Concrete balancers\<close>

definition demo_tg :: target_group where
  "demo_tg = \<lparr>t_id = ''t1'', t_lb_id = ''b1'', t_name = ''web'', t_port = 80, t_protocol = ''http'', t_targets = [],
     t_health_check = default_hc, t_status = ''active''\<rparr>"

definition demo_listener_body :: listener_body where
  "demo_listener_body = \<lparr>jb_port = Some (SInt 8080), jb_protocol = None, jb_target_group_id = Some ''t1'', jb_routing_rules = None,
     jb_default_action = None\<rparr>"

definition demo_lb_body :: lb_body where
  "demo_lb_body = \<lparr>yb_name = Some ''front'', yb_type = None, yb_vpc_id = None, yb_subnet_ids = None, yb_internal = None,
     yb_backends = None, yb_sticky_sessions = None, yb_cookie_name = None, yb_deletion_protection = None, yb_tags = None\<rparr>"

definition demo_lb_host :: host where
  "demo_lb_host = fst (add_listener ''l1'' ''b1'' demo_listener_body (fst (create_lb (Some 8200) ''b1'' ''r1'' 1 demo_lb_body empty_host)))"

theorem listeners_have_own_ports_witness:
  "\<exists>b. store_get_lb (lb_tbl demo_lb_host) ''b1'' = Some b \<and> map l_port (lb_listeners b) = [8080] \<and>
     map hf_bind (fst (write_config demo_lb_host b 8200 [])) = [8080]"
proof -
  have "map_option (\<lambda>b. map l_port (lb_listeners b)) (store_get_lb (lb_tbl demo_lb_host) ''b1'') = Some [8080]" by code_simp
  then obtain b where b: "store_get_lb (lb_tbl demo_lb_host) ''b1'' = Some b" "map l_port (lb_listeners b) = [8080]" by auto
  have "lb_step\<^sup>*\<^sup>* empty_host demo_lb_host"
    unfolding demo_lb_host_def by (meson lb_step.create lb_step.add_listener rtranclp.rtrancl_into_rtrancl rtranclp.rtrancl_refl)
  then show ?thesis
    using listeners_have_own_ports [OF _ _ b(1), of empty_host 8200 "[]"] b by (auto simp: empty_host_def)
qed

theorem config_is_closed_witness:
  "\<exists>f. f \<in> set (fst (write_config empty_host (demo_lb\<lparr>lb_target_groups := [demo_tg]\<rparr>) 8200 (list_instances_by_vpc (instance_tbl empty_host) ''v1''))) \<and>
     hf_default f \<in> ha_name ` set (snd (write_config empty_host (demo_lb\<lparr>lb_target_groups := [demo_tg]\<rparr>) 8200
       (list_instances_by_vpc (instance_tbl empty_host) ''v1'')))"
proof -
  let ?w = "write_config empty_host (demo_lb\<lparr>lb_target_groups := [demo_tg]\<rparr>) 8200 (list_instances_by_vpc (instance_tbl empty_host) ''v1'')"
  have "fst ?w \<noteq> []" by (simp add: write_config_def Let_def)
  then obtain f where f: "f \<in> set (fst ?w)" by (cases "fst ?w") auto
  then show ?thesis using config_is_closed [OF _ f, of "hf_default f"] by (auto simp: empty_host_def)
qed

theorem delete_target_group_guard_witness:
  "snd (delete_target_group ''b1'' ''t1'' (empty_host\<lparr>lb_tbl := [demo_lb\<lparr>lb_target_groups := [demo_tg]\<rparr>]\<rparr>)) = NoContent 204"
proof -
  let ?b = "demo_lb\<lparr>lb_target_groups := [demo_tg]\<rparr>"
  let ?h = "empty_host\<lparr>lb_tbl := [?b]\<rparr>"
  have "wf_table lb_id (lb_tbl ?h)" "store_get_lb (lb_tbl ?h) ''b1'' = Some ?b" "find_tg ?b ''t1'' = Some demo_tg"
    by (simp_all add: wf_table_def store_get_lb_def live_get_def demo_lb_def lb_live_def find_tg_def demo_tg_def)
  moreover have "\<not> list_ex (uses_tg ''t1'') (lb_listeners ?b)" by (simp add: demo_lb_def)
  ultimately show ?thesis using delete_target_group_guard [of ?h "''b1''" ?b "''t1''" demo_tg] by simp
qed

end
