(* ===== verification/Iso.thy ===== *)
theory Iso
  imports Civil
begin

text \<open>
  Points in time as the sources store them: \<^verbatim>\<open>datetime.now(timezone.utc).isoformat()\<close> writes a
  text column, and SQLite compares such columns byte by byte.  This theory models the text, the
  comparison, and shows that on the texts \<^verbatim>\<open>isoformat()\<close> writes for UTC the order of the texts is
  the order of the times, although a whole second is written without its fraction.
\<close>

section \<open>Text comparison\<close>

fun str_less :: "string \<Rightarrow> string \<Rightarrow> bool" where
  "str_less s [] = False"
| "str_less [] (c # t) = True"
| "str_less (a # s) (b # t) = ((of_char a :: nat) < of_char b \<or> a = b \<and> str_less s t)"

definition str_le :: "string \<Rightarrow> string \<Rightarrow> bool" where
  "str_le s t \<longleftrightarrow> s = t \<or> str_less s t"

lemma str_less_irrefl [simp]: "\<not> str_less s s"
  by (induction s) simp_all

lemma str_less_append:
  "length a = length b \<Longrightarrow> str_less (a @ s) (b @ t) \<longleftrightarrow> str_less a b \<or> a = b \<and> str_less s t"
  by (induction a b rule: list_induct2) auto

lemma str_le_append:
  "length a = length b \<Longrightarrow> str_le (a @ s) (b @ t) \<longleftrightarrow> str_less a b \<or> a = b \<and> str_le s t"
  by (auto simp: str_le_def str_less_append)

lemma str_le_same_head: "str_le (c # s) (c # t) \<longleftrightarrow> str_le s t"
  by (simp add: str_le_def)

section \<open>Zero-padded numbers\<close>

text \<open>\<^verbatim>\<open>"%0kd" % n\<close> for a number of at most \<^verbatim>\<open>k\<close> digits.\<close>

fun pad :: "nat \<Rightarrow> nat \<Rightarrow> string" where
  "pad 0 n = []"
| "pad (Suc k) n = pad k (n div 10) @ [digit_char (n mod 10)]"

lemma length_pad [simp]: "length (pad k n) = k"
  by (induction k arbitrary: n) simp_all

lemma digit_char_code: "d < 10 \<Longrightarrow> (of_char (digit_char d) :: nat) = 48 + d"
  by (simp add: digit_char_def)

lemma digit_char_eq_iff: "d < 10 \<Longrightarrow> e < 10 \<Longrightarrow> digit_char d = digit_char e \<longleftrightarrow> d = e"
  using digit_char_code by (metis add_left_cancel)

lemma pad_eq_iff:
  assumes "m < 10 ^ k" "n < 10 ^ k"
  shows "pad k m = pad k n \<longleftrightarrow> m = n"
  using assms
proof (induction k arbitrary: m n)
  case (Suc k)
  then have "pad k (m div 10) = pad k (n div 10) \<longleftrightarrow> m div 10 = n div 10"
    by (simp add: less_mult_imp_div_less mult.commute)
  then have "pad (Suc k) m = pad (Suc k) n \<longleftrightarrow> m div 10 = n div 10 \<and> m mod 10 = n mod 10"
    by (simp add: digit_char_eq_iff)
  also have "\<dots> \<longleftrightarrow> m = n" by (metis div_mult_mod_eq)
  finally show ?case .
qed simp

lemma div_mod_less_iff: "(m::nat) < n \<longleftrightarrow> m div 10 < n div 10 \<or> m div 10 = n div 10 \<and> m mod 10 < n mod 10"
  using div_mult_mod_eq [of m 10] div_mult_mod_eq [of n 10] mod_less_divisor [of 10 m] mod_less_divisor [of 10 n]
  by linarith

lemma pad_less_iff:
  assumes "m < 10 ^ k" "n < 10 ^ k"
  shows "str_less (pad k m) (pad k n) \<longleftrightarrow> m < n"
  using assms
proof (induction k arbitrary: m n)
  case (Suc k)
  then have lt: "m div 10 < 10 ^ k" "n div 10 < 10 ^ k"
    by (simp_all add: less_mult_imp_div_less mult.commute)
  have "str_less (pad (Suc k) m) (pad (Suc k) n) \<longleftrightarrow>
      m div 10 < n div 10 \<or> m div 10 = n div 10 \<and> m mod 10 < n mod 10"
    using Suc.IH [OF lt] pad_eq_iff [OF lt] by (simp add: str_less_append digit_char_code)
  also have "\<dots> \<longleftrightarrow> m < n" by (rule div_mod_less_iff [symmetric])
  finally show ?case .
qed simp

lemma str_le_pad:
  assumes "m < 10 ^ k" "n < 10 ^ k"
  shows "str_le (pad k m @ s) (pad k n @ t) \<longleftrightarrow> m < n \<or> m = n \<and> str_le s t"
  using assms by (simp add: str_le_append pad_less_iff pad_eq_iff)

section \<open>ISO texts\<close>

text \<open>A reading of the UTC clock.\<close>

record moment =
  m_dt :: datetime
  m_sec :: nat
  m_us :: nat

definition valid_moment :: "moment \<Rightarrow> bool" where
  "valid_moment m \<longleftrightarrow> valid_dt (m_dt m) \<and> year (m_dt m) < 10000 \<and> m_sec m < 60 \<and> m_us m < 1000000"

definition whole_minute :: "datetime \<Rightarrow> moment" where
  "whole_minute d = \<lparr>m_dt = d, m_sec = 0, m_us = 0\<rparr>"

text \<open>\<^verbatim>\<open>isoformat()\<close> leaves the fraction out when it is zero.\<close>

definition iso_fraction :: "nat \<Rightarrow> string" where
  "iso_fraction us = (if us = 0 then [] else CHR ''.'' # pad 6 us)"

definition isoformat :: "moment \<Rightarrow> string" where
  "isoformat m = pad 4 (year (m_dt m)) @ CHR ''-'' # pad 2 (month (m_dt m)) @ CHR ''-'' # pad 2 (day (m_dt m))
     @ CHR ''T'' # pad 2 (hour (m_dt m)) @ CHR '':'' # pad 2 (minute (m_dt m)) @ CHR '':'' # pad 2 (m_sec m)
     @ iso_fraction (m_us m) @ ''+00:00''"

definition moment_le :: "moment \<Rightarrow> moment \<Rightarrow> bool" where
  "moment_le a b \<longleftrightarrow> minute_index (m_dt a) < minute_index (m_dt b)
     \<or> minute_index (m_dt a) = minute_index (m_dt b)
       \<and> (m_sec a < m_sec b \<or> m_sec a = m_sec b \<and> m_us a \<le> m_us b)"

lemma iso_fraction_le:
  assumes "m < 1000000" "n < 1000000"
  shows "str_le (iso_fraction m @ ''+00:00'') (iso_fraction n @ ''+00:00'') \<longleftrightarrow> m \<le> n"
proof (cases "m = 0 \<or> n = 0")
  case True
  then show ?thesis by (auto simp: iso_fraction_def str_le_def)
next
  case False
  then show ?thesis
    using assms str_le_pad [of m 6 n "''+00:00''" "''+00:00''"]
    by (auto simp: iso_fraction_def str_le_same_head) (simp_all add: str_le_def)
qed

lemma days_in_month_le: "days_in_month y m \<le> 31"
  by (simp add: days_in_month_def)

lemma minute_index_eq_fields:
  assumes "valid_dt a" "valid_dt b"
  shows "minute_index a = minute_index b \<longleftrightarrow> year a = year b \<and> month a = month b \<and> day a = day b
    \<and> hour a = hour b \<and> minute a = minute b"
  using minute_index_inj [OF assms] by (auto simp: minute_index_def toordinal_def)

lemma isoformat_le_iff:
  assumes "valid_moment a" "valid_moment b"
  shows "str_le (isoformat a) (isoformat b) \<longleftrightarrow> moment_le a b"
proof -
  have y: "year (m_dt a) < 10 ^ 4" "year (m_dt b) < 10 ^ 4" and s: "m_sec a < 10 ^ 2" "m_sec b < 10 ^ 2"
    using assms by (simp_all add: valid_moment_def)
  have v: "valid_dt (m_dt a)" "valid_dt (m_dt b)" using assms by (simp_all add: valid_moment_def)
  have f: "month d < 10 ^ 2 \<and> day d < 10 ^ 2 \<and> hour d < 10 ^ 2 \<and> minute d < 10 ^ 2" if "valid_dt d" for d
    using that days_in_month_le [of "year d" "month d"] by (simp add: valid_dt_def)
  have us: "str_le (iso_fraction (m_us a) @ ''+00:00'') (iso_fraction (m_us b) @ ''+00:00'') \<longleftrightarrow> m_us a \<le> m_us b"
    using assms by (intro iso_fraction_le) (simp_all add: valid_moment_def)
  show ?thesis
    unfolding isoformat_def moment_le_def dt_less_minute_index [OF v, symmetric] dt_less_def minute_index_eq_fields [OF v]
    by (simp only: str_le_pad y s f [OF v(1)] f [OF v(2)] str_le_same_head us) argo
qed

text \<open>
  Times compared as text.  For readings of the UTC clock before the year 10000, the texts that
  \<^verbatim>\<open>isoformat()\<close> writes compare, byte by byte, as the times do, so that the scheduler's
  \<^verbatim>\<open>next_run_at <= now\<close> on the stored texts means what it says.
\<close>

theorem isoformat_order:
  assumes "valid_moment a" and "valid_moment b"
  shows "str_le (isoformat a) (isoformat b) \<longleftrightarrow> moment_le a b"
  using assms by (rule isoformat_le_iff)

definition demo_noon :: moment where
  "demo_noon = \<lparr>m_dt = \<lparr>year = 2026, month = 10, day = 9, hour = 12, minute = 0\<rparr>, m_sec = 0, m_us = 0\<rparr>"

theorem isoformat_order_witness:
  "valid_moment demo_noon \<and> valid_moment (demo_noon\<lparr>m_us := 250000\<rparr>)
   \<and> str_le (isoformat demo_noon) (isoformat (demo_noon\<lparr>m_us := 250000\<rparr>))"
proof -
  have "valid_moment demo_noon \<and> valid_moment (demo_noon\<lparr>m_us := 250000\<rparr>)"
    by (simp add: valid_moment_def valid_dt_def days_in_month_def demo_noon_def)
  then show ?thesis
    using isoformat_order [of demo_noon "demo_noon\<lparr>m_us := 250000\<rparr>"] by (simp add: moment_le_def demo_noon_def)
qed

end
