(* ===== verification/Json.thy ===== *)
theory Json
  imports Complex_Main Prelude
begin

text \<open>
  Values of \<^verbatim>\<open>json.loads\<close> as the sources handle them.  An object is an association list in the
  order of its keys, each key once; numbers are integers or (exact) fractions for floats.
\<close>

datatype jval = JNull | JBool bool | JInt int | JFloat rat | JStr string | JList "jval list" | JObj "(string \<times> jval) list"

type_synonym jdict = "(string \<times> jval) list"

text \<open>A value used as a condition.\<close>

fun jtruthy :: "jval \<Rightarrow> bool" where
  "jtruthy JNull = False"
| "jtruthy (JBool b) = b"
| "jtruthy (JInt i) = (i \<noteq> 0)"
| "jtruthy (JFloat r) = (r \<noteq> 0)"
| "jtruthy (JStr s) = (s \<noteq> [])"
| "jtruthy (JList xs) = (xs \<noteq> [])"
| "jtruthy (JObj kvs) = (kvs \<noteq> [])"

text \<open>\<^verbatim>\<open>d.get(k)\<close>, \<^verbatim>\<open>d.get(k, default)\<close>, \<^verbatim>\<open>d.pop(k, ...)\<close> and \<^verbatim>\<open>d[k] = v\<close>.\<close>

definition jget :: "jdict \<Rightarrow> string \<Rightarrow> jval" where
  "jget d k = (case map_of d k of None \<Rightarrow> JNull | Some v \<Rightarrow> v)"

definition jget_default :: "jdict \<Rightarrow> string \<Rightarrow> jval \<Rightarrow> jval" where
  "jget_default d k v = (case map_of d k of None \<Rightarrow> v | Some x \<Rightarrow> x)"

definition jpop :: "jdict \<Rightarrow> string \<Rightarrow> jdict" where
  "jpop d k = filter (\<lambda>kv. fst kv \<noteq> k) d"

fun jset :: "jdict \<Rightarrow> string \<Rightarrow> jval \<Rightarrow> jdict" where
  "jset [] k v = [(k, v)]"
| "jset (kv # d) k v = (if fst kv = k then (k, v) # d else kv # jset d k v)"

lemma map_of_jset [simp]: "map_of (jset d k v) k' = (if k' = k then Some v else map_of d k')"
  by (induction d) auto

lemma jget_jset [simp]: "jget (jset d k v) k' = (if k' = k then v else jget d k')"
  by (simp add: jget_def)

text \<open>\<^verbatim>\<open>str(v)\<close>, and the elements of a value that is sliced or iterated.\<close>

fun py_str :: "(jval \<Rightarrow> string) \<Rightarrow> jval \<Rightarrow> string" where
  "py_str rep JNull = ''None''"
| "py_str rep (JBool b) = (if b then ''True'' else ''False'')"
| "py_str rep (JInt i) = show_int i"
| "py_str rep (JStr s) = s"
| "py_str rep v = rep v"

definition chars_of :: "string \<Rightarrow> jval list" where "chars_of s = map (\<lambda>c. JStr [c]) s"

definition first_items :: "nat \<Rightarrow> jval \<Rightarrow> jval list option" where
  "first_items n v =
     (if \<not> jtruthy v then Some []
      else (case v of JList xs \<Rightarrow> Some (take n xs) | JStr s \<Rightarrow> Some (take n (chars_of s)) | _ \<Rightarrow> None))"

definition iterated :: "jval \<Rightarrow> jval list option" where
  "iterated v =
     (if \<not> jtruthy v then Some []
      else (case v of JList xs \<Rightarrow> Some xs | JStr s \<Rightarrow> Some (chars_of s) | JObj kvs \<Rightarrow> Some (map (\<lambda>kv. JStr (fst kv)) kvs) | _ \<Rightarrow> None))"

text \<open>\<^verbatim>\<open>str(v or "")\<close>.\<close>

definition or_text :: "(jval \<Rightarrow> string) \<Rightarrow> jval \<Rightarrow> string" where
  "or_text rep v = (if jtruthy v then py_str rep v else [])"

end
