(* ===== verification/Scheduler.thy ===== *)
theory Scheduler
  imports Iso Json Tables Cron_Search
begin

text \<open>
  \<^verbatim>\<open>api/scheduler.py\<close> up to the start of a job: the tables of the scheduler, the operations behind
  \<^verbatim>\<open>/v1/schedules\<close>, the tick of the background loop and the bookkeeping of a run.  The jobs
  themselves are in \<open>Llm_Ingest\<close>.

  Stored times are the texts of \<open>Iso\<close>.  A reading of the clock, a new identifier and the parser
  \<^verbatim>\<open>datetime.fromisoformat\<close> (of which only success matters) are arguments.  The columns of
  \<^verbatim>\<open>llm_ingestions\<close> that hold measured seconds, token counts and host statistics are left out.
\<close>

section \<open>Tables\<close>

datatype recurrence_type = Once | Cron

record schedule =
  sc_id :: string
  sc_name :: string
  sc_kind :: string
  sc_engine :: string
  sc_template :: string
  sc_var_overrides :: jdict
  sc_recurrence_type :: recurrence_type
  sc_run_at :: "string option"
  sc_cron_expr :: string
  sc_enabled :: bool
  sc_next_run_at :: "string option"
  sc_last_run_at :: "string option"
  sc_last_status :: string
  sc_checkpoint :: int
  sc_created_at :: string
  sc_created_by :: string

record schedule_run =
  ru_id :: string
  ru_schedule_id :: string
  ru_started_at :: string
  ru_finished_at :: "string option"
  ru_status :: string
  ru_summary :: string
  ru_log :: "string list"

record peer_sync =
  ps_peer_id :: string
  ps_hostname :: string
  ps_status :: string

record llm_ingestion =
  in_id :: string
  in_schedule_id :: string
  in_run_id :: string
  in_started_at :: string
  in_finished_at :: "string option"
  in_events_seen :: nat
  in_findings_created :: nat
  in_suggestions_created :: nat
  in_peers_synced :: "peer_sync list"
  in_summary_text :: string
  in_status :: string

record failed_build =
  fb_id :: string
  fb_engine :: string
  fb_build_id :: string
  fb_template :: string
  fb_var_overrides :: jdict
  fb_log :: "string list"
  fb_exit_code :: "int option"
  fb_created_at :: string

record sched_db =
  schedules :: "schedule list"
  schedule_runs :: "schedule_run list"
  llm_ingestions :: "llm_ingestion list"
  failed_build_logs :: "failed_build list"

text \<open>\<^verbatim>\<open>ORDER BY\<close> a text column, rows with equal texts in table order.\<close>

fun insort_text :: "('r \<Rightarrow> string) \<Rightarrow> 'r \<Rightarrow> 'r list \<Rightarrow> 'r list" where
  "insort_text col r [] = [r]"
| "insort_text col r (x # xs) = (if str_le (col r) (col x) then r # x # xs else x # insort_text col r xs)"

definition order_by :: "('r \<Rightarrow> string) \<Rightarrow> 'r list \<Rightarrow> 'r list" where
  "order_by col t = foldr (insort_text col) t []"

section \<open>Reads\<close>

definition list_schedules :: "sched_db \<Rightarrow> schedule list" where
  "list_schedules db = rev (order_by sc_created_at (schedules db))"

definition get_schedule :: "sched_db \<Rightarrow> string \<Rightarrow> schedule option" where
  "get_schedule db schedule_id = find (\<lambda>s. sc_id s = schedule_id) (schedules db)"

definition list_runs :: "sched_db \<Rightarrow> string \<Rightarrow> nat \<Rightarrow> (schedule_run \<times> llm_ingestion option) list" where
  "list_runs db schedule_id limit =
     map (\<lambda>r. (r, find (\<lambda>i. in_run_id i = ru_id r) (llm_ingestions db)))
       (take limit (rev (order_by ru_started_at (filter (\<lambda>r. ru_schedule_id r = schedule_id) (schedule_runs db)))))"

text \<open>The join with \<^verbatim>\<open>schedules\<close> drops the rows whose schedule is gone.\<close>

definition list_llm_ingestions :: "sched_db \<Rightarrow> nat \<Rightarrow> (llm_ingestion \<times> string \<times> string) list" where
  "list_llm_ingestions db limit =
     take limit (concat (map (\<lambda>i. case get_schedule db (in_schedule_id i) of None \<Rightarrow> []
         | Some s \<Rightarrow> [(i, sc_name s, sc_template s)])
       (rev (order_by in_started_at (llm_ingestions db)))))"

section \<open>Recurrence\<close>

text \<open>\<^verbatim>\<open>ValueError\<close> (of which \<^verbatim>\<open>InvalidCron\<close> is a subclass) is caught by the routes, \<^verbatim>\<open>TypeError\<close> is
  not.\<close>

datatype sched_error = UnknownKind | RunAtMissing | BadTimestamp | TimestampType | InvalidCron cron_error

fun to_param :: "jval \<Rightarrow> param" where
  "to_param (JInt i) = PInt i"
| "to_param (JBool b) = PBool b"
| "to_param (JFloat r) = PFloat (if r < 0 then \<lceil>r\<rceil> else \<lfloor>r\<rfloor>)"
| "to_param (JStr s) = PStr s"
| "to_param _ = POther"

definition recurrence_params :: "jdict \<Rightarrow> string \<rightharpoonup> param" where
  "recurrence_params rec = map_option to_param \<circ> map_of (jpop rec ''mode'')"

definition mode_text :: "jval \<Rightarrow> string" where
  "mode_text v = (case v of JStr s \<Rightarrow> s | _ \<Rightarrow> [])"

definition resolve_recurrence ::
    "(string \<Rightarrow> bool) \<Rightarrow> jdict \<Rightarrow> sched_error + recurrence_type \<times> string option \<times> string" where
  "resolve_recurrence fromisoformat rec =
     (let mode = mode_text (jget rec ''mode'') in
      if mode = ''once'' then
        (let run_at = jget rec ''run_at'' in
         if \<not> jtruthy run_at then Inl RunAtMissing
         else (case run_at of
             JStr s \<Rightarrow> if fromisoformat s then Inr (Once, Some s, []) else Inl BadTimestamp
           | _ \<Rightarrow> Inl TimestampType))
      else (case build_cron mode (recurrence_params rec) of
             Inl e \<Rightarrow> Inl (InvalidCron e)
           | Inr cron_expr \<Rightarrow> Inr (Cron, None, cron_expr)))"

text \<open>\<^verbatim>\<open>run_at if recurrence_type == "once" else croncalc.next_fire(...).isoformat()\<close>.\<close>

definition first_run_at :: "datetime \<Rightarrow> recurrence_type \<times> string option \<times> string \<Rightarrow> sched_error + string option" where
  "first_run_at now r = (case r of (recurrence_type, run_at, cron_expr) \<Rightarrow>
     if recurrence_type = Once then Inr run_at
     else (case next_fire cron_expr now of
            Inl e \<Rightarrow> Inl (InvalidCron e)
          | Inr t \<Rightarrow> Inr (Some (isoformat (whole_minute t)))))"

section \<open>Changes\<close>

definition KINDS :: "string list" where
  "KINDS = [''build'', ''llm_ingest'', ''kiwix_update'', ''repo_sync'', ''host_backup'', ''lfs_update'']"

definition create_schedule ::
    "(string \<Rightarrow> bool) \<Rightarrow> string \<Rightarrow> moment \<Rightarrow> string \<Rightarrow> string \<Rightarrow> string \<Rightarrow> string \<Rightarrow> jdict \<Rightarrow> jdict \<Rightarrow> string
     \<Rightarrow> sched_db \<Rightarrow> sched_error + sched_db \<times> schedule" where
  "create_schedule fromisoformat schedule_id now name kind engine template var_overrides recurrence created_by db =
     (if kind \<notin> set KINDS then Inl UnknownKind
      else raise_bind (resolve_recurrence fromisoformat recurrence) (\<lambda>r.
           raise_bind (first_run_at (m_dt now) r) (\<lambda>next_run_at.
             let s = \<lparr>sc_id = schedule_id, sc_name = name, sc_kind = kind, sc_engine = engine, sc_template = template,
                      sc_var_overrides = var_overrides, sc_recurrence_type = fst r, sc_run_at = fst (snd r),
                      sc_cron_expr = snd (snd r), sc_enabled = True, sc_next_run_at = next_run_at,
                      sc_last_run_at = None, sc_last_status = [], sc_checkpoint = 0,
                      sc_created_at = isoformat now, sc_created_by = created_by\<rparr>
             in Inr (db\<lparr>schedules := schedules db @ [s]\<rparr>, s))))"

definition set_schedule :: "string \<Rightarrow> (schedule \<Rightarrow> schedule) \<Rightarrow> sched_db \<Rightarrow> sched_db" where
  "set_schedule schedule_id f db =
     db\<lparr>schedules := fst (update_where (\<lambda>s. sc_id s = schedule_id) f (schedules db))\<rparr>"

record schedule_fields =
  sf_name :: "string option"
  sf_enabled :: "bool option"
  sf_var_overrides :: "jdict option"
  sf_recurrence :: "jdict option"

definition apply_fields :: "schedule_fields \<Rightarrow> schedule \<Rightarrow> schedule" where
  "apply_fields f s =
     (let s1 = (case sf_name f of None \<Rightarrow> s | Some n \<Rightarrow> s\<lparr>sc_name := n\<rparr>);
          s2 = (case sf_enabled f of None \<Rightarrow> s1 | Some b \<Rightarrow> s1\<lparr>sc_enabled := b\<rparr>)
      in (case sf_var_overrides f of None \<Rightarrow> s2 | Some v \<Rightarrow> s2\<lparr>sc_var_overrides := v\<rparr>))"

definition update_schedule ::
    "(string \<Rightarrow> bool) \<Rightarrow> moment \<Rightarrow> string \<Rightarrow> schedule_fields \<Rightarrow> sched_db
     \<Rightarrow> sched_error + sched_db \<times> schedule option" where
  "update_schedule fromisoformat now schedule_id f db =
     (if get_schedule db schedule_id = None then Inr (db, None)
      else (case sf_recurrence f of
          None \<Rightarrow> (let db' = set_schedule schedule_id (apply_fields f) db in Inr (db', get_schedule db' schedule_id))
        | Some rec \<Rightarrow>
            raise_bind (resolve_recurrence fromisoformat rec) (\<lambda>r.
            raise_bind (first_run_at (m_dt now) r) (\<lambda>next_run_at.
              let db' = set_schedule schedule_id (\<lambda>s. (apply_fields f s)\<lparr>sc_recurrence_type := fst r,
                          sc_run_at := fst (snd r), sc_cron_expr := snd (snd r), sc_next_run_at := next_run_at\<rparr>) db
              in Inr (db', get_schedule db' schedule_id)))))"

text \<open>The child rows go first: \<^verbatim>\<open>schedule_runs.schedule_id\<close> is a foreign key.\<close>

definition delete_schedule :: "string \<Rightarrow> sched_db \<Rightarrow> sched_db \<times> bool" where
  "delete_schedule schedule_id db =
     (db\<lparr>llm_ingestions := filter (\<lambda>i. in_schedule_id i \<noteq> schedule_id) (llm_ingestions db),
         schedule_runs := filter (\<lambda>r. ru_schedule_id r \<noteq> schedule_id) (schedule_runs db),
         schedules := filter (\<lambda>s. sc_id s \<noteq> schedule_id) (schedules db)\<rparr>,
      get_schedule db schedule_id \<noteq> None)"

section \<open>The tick\<close>

definition is_due :: "string \<Rightarrow> schedule \<Rightarrow> bool" where
  "is_due now s \<longleftrightarrow> sc_enabled s \<and> (case sc_next_run_at s of None \<Rightarrow> False | Some t \<Rightarrow> str_le t now)"

definition due_ids :: "moment \<Rightarrow> sched_db \<Rightarrow> string list" where
  "due_ids now db = map sc_id (filter (is_due (isoformat now)) (schedules db))"

definition advance_before_run :: "moment \<Rightarrow> string \<Rightarrow> sched_db \<Rightarrow> cron_error + sched_db" where
  "advance_before_run now schedule_id db =
     (case get_schedule db schedule_id of
        None \<Rightarrow> Inr db
      | Some s \<Rightarrow>
          if sc_recurrence_type s = Once then Inr (set_schedule schedule_id (\<lambda>r. r\<lparr>sc_enabled := False\<rparr>) db)
          else (case next_fire (sc_cron_expr s) (m_dt now) of
                  Inl e \<Rightarrow> Inl e
                | Inr t \<Rightarrow> Inr (set_schedule schedule_id
                             (\<lambda>r. r\<lparr>sc_next_run_at := Some (isoformat (whole_minute t))\<rparr>) db)))"

text \<open>Each advance is committed on its own, so those before an exception stay.  \<open>clock\<close> gives the
  reading taken when a schedule is advanced.\<close>

fun advance_all :: "(string \<Rightarrow> moment) \<Rightarrow> string list \<Rightarrow> sched_db \<Rightarrow> sched_db \<times> cron_error option" where
  "advance_all clock [] db = (db, None)"
| "advance_all clock (i # is) db =
     (case advance_before_run (clock i) i db of
        Inl e \<Rightarrow> (db, Some e)
      | Inr db' \<Rightarrow> advance_all clock is db')"

text \<open>The tick returns the schedules whose job threads it starts: none when an advance raised, which
  the loop around it only prints.\<close>

definition tick :: "moment \<Rightarrow> (string \<Rightarrow> moment) \<Rightarrow> sched_db \<Rightarrow> sched_db \<times> string list" where
  "tick now clock db =
     (case advance_all clock (due_ids now db) db of
        (db', None) \<Rightarrow> (db', due_ids now db)
      | (db', Some e) \<Rightarrow> (db', []))"

definition run_now :: "string \<Rightarrow> sched_db \<Rightarrow> string list \<times> bool" where
  "run_now schedule_id db = (if get_schedule db schedule_id = None then ([], False) else ([schedule_id], True))"

section \<open>Runs\<close>

text \<open>\<open>None\<close> is the \<^verbatim>\<open>IntegrityError\<close> of the foreign key.\<close>

definition new_run :: "string \<Rightarrow> moment \<Rightarrow> string \<Rightarrow> sched_db \<Rightarrow> sched_db option" where
  "new_run run_id now schedule_id db =
     (if get_schedule db schedule_id = None then None
      else Some (db\<lparr>schedule_runs := schedule_runs db @
        [\<lparr>ru_id = run_id, ru_schedule_id = schedule_id, ru_started_at = isoformat now, ru_finished_at = None,
          ru_status = ''running'', ru_summary = [], ru_log = []\<rparr>]\<rparr>))"

definition finish_run :: "string \<Rightarrow> string \<Rightarrow> string \<Rightarrow> string \<Rightarrow> string list \<Rightarrow> moment \<Rightarrow> sched_db \<Rightarrow> sched_db" where
  "finish_run run_id schedule_id status summary lines now db =
     set_schedule schedule_id (\<lambda>s. s\<lparr>sc_last_run_at := Some (isoformat now), sc_last_status := status\<rparr>)
       (db\<lparr>schedule_runs := fst (update_where (\<lambda>r. ru_id r = run_id)
             (\<lambda>r. r\<lparr>ru_finished_at := Some (isoformat now), ru_status := status, ru_summary := summary, ru_log := lines\<rparr>)
             (schedule_runs db))\<rparr>)"

end
