(* ===== verification/Failure_Queue.thy ===== *)
theory Failure_Queue
  imports Scheduler Compute "HOL-Library.Multiset"
begin

text \<open>
  \<^verbatim>\<open>api/failure_queue.py\<close>: the logs of failed builds that wait for the next \<^verbatim>\<open>llm_ingest\<close> job.  A queued
  row holds no value of a variable whose name mentions a token, and the queue is read oldest first.
\<close>

section \<open>Operations\<close>

definition redact :: "jdict \<Rightarrow> jdict" where
  "redact var_overrides =
     map (\<lambda>kv. (fst kv, if py_in ''token'' (py_lower (fst kv)) then JStr ''***redacted***'' else snd kv)) var_overrides"

definition queue_failure ::
    "string \<Rightarrow> moment \<Rightarrow> string \<Rightarrow> string \<Rightarrow> string \<Rightarrow> jdict \<Rightarrow> string list \<Rightarrow> int option \<Rightarrow> sched_db \<Rightarrow> sched_db" where
  "queue_failure queue_id now engine build_id template var_overrides log_lines exit_code db =
     db\<lparr>failed_build_logs := failed_build_logs db @
       [\<lparr>fb_id = queue_id, fb_engine = engine, fb_build_id = build_id, fb_template = template,
         fb_var_overrides = redact var_overrides, fb_log = log_lines, fb_exit_code = exit_code,
         fb_created_at = isoformat now\<rparr>]\<rparr>"

definition list_pending :: "nat \<Rightarrow> sched_db \<Rightarrow> failed_build list" where
  "list_pending limit db = take limit (order_by fb_created_at (failed_build_logs db))"

definition delete_failure :: "string \<Rightarrow> sched_db \<Rightarrow> sched_db" where
  "delete_failure queue_id db = db\<lparr>failed_build_logs := filter (\<lambda>r. fb_id r \<noteq> queue_id) (failed_build_logs db)\<rparr>"

section \<open>Ordering by a text column\<close>

lemma str_less_trans: "str_less a b \<Longrightarrow> str_less b c \<Longrightarrow> str_less a c"
proof (induction a b arbitrary: c rule: str_less.induct)
  case (3 x s y t)
  then show ?case by (cases c) auto
next
  case (2 y t)
  then show ?case by (cases c) auto
qed simp

lemma str_less_linear: "str_less a b \<or> a = b \<or> str_less b a"
proof (induction a b rule: str_less.induct)
  case (3 x s y t)
  have "(of_char x :: nat) = of_char y \<Longrightarrow> x = y" by simp
  with 3 show ?case by (auto simp: neq_iff)
next
  case (1 s)
  then show ?case by (cases s) auto
qed simp

lemma str_le_trans: "str_le a b \<Longrightarrow> str_le b c \<Longrightarrow> str_le a c"
  by (auto simp: str_le_def intro: str_less_trans)

lemma str_le_linear: "str_le a b \<or> str_le b a"
  using str_less_linear by (auto simp: str_le_def)

lemma str_le_refl [simp]: "str_le a a"
  by (simp add: str_le_def)

lemma set_insort_text [simp]: "set (insort_text col r xs) = insert r (set xs)"
  by (induction xs) auto

lemma mset_insort_text [simp]: "mset (insort_text col r xs) = add_mset r (mset xs)"
  by (induction xs) auto

lemma sorted_insort_text:
  "sorted_wrt (\<lambda>x y. str_le (col x) (col y)) xs \<Longrightarrow> sorted_wrt (\<lambda>x y. str_le (col x) (col y)) (insort_text col r xs)"
proof (induction xs)
  case (Cons x xs)
  then show ?case using str_le_linear [of "col r" "col x"] str_le_trans [of "col r" "col x"] by auto
qed simp

lemma order_by_sorted: "sorted_wrt (\<lambda>x y. str_le (col x) (col y)) (order_by col t)"
  unfolding order_by_def by (induction t) (simp_all add: sorted_insort_text)

lemma mset_order_by [simp]: "mset (order_by col t) = mset t"
  unfolding order_by_def by (induction t) simp_all

lemma set_order_by [simp]: "set (order_by col t) = set t"
  by (metis mset_order_by set_mset_mset)

text \<open>What a limited, ordered query leaves out comes after what it returns.\<close>

lemma order_by_take_least:
  assumes "x \<in> set (take n (order_by col t))" "y \<in> set (drop n (order_by col t))"
  shows "str_le (col x) (col y)"
  using assms order_by_sorted [of col t]
  by (metis append_take_drop_id sorted_wrt_append)

section \<open>Redaction\<close>

lemma redact_keys: "map fst (redact d) = map fst d"
  by (simp add: redact_def o_def)

lemma redact_hides: "(k, v) \<in> set (redact d) \<Longrightarrow> py_in ''token'' (py_lower k) \<Longrightarrow> v = JStr ''***redacted***''"
  by (auto simp: redact_def)

end
