(* ===== verification/Llm_Ingest.thy ===== *)
theory Llm_Ingest
  imports Failure_Queue
begin

text \<open>
  The job \<^verbatim>\<open>_run_llm_ingest_schedule\<close> of \<^verbatim>\<open>api/scheduler.py\<close> and its helpers.  The job builds a cluster of
  virtual machines for a language model, asks the model about new Sentinel events and queued build
  failures, stores the answers in Sentinel and at the peers, and takes the cluster down.

  The answers of everything outside the process (Sentinel, the peers, OpenTofu, the model) are the record
  \<open>ingest_env\<close>, with \<open>None\<close> for an exception; what the job does to them is a list of effects in order.  Lines
  written to the run's log, the measured times and the token counts are left out.  A model reply that is not
  of the shape asked for is its exception, except that a finding may be any JSON value.
\<close>

section \<open>Data\<close>

datatype events_reply = SentinelUnreachable | Events "int list" | BadEvents

record suggestion =
  sg_event_id :: jval
  sg_finding_index :: "int option"
  sg_confidence :: jval
  sg_text :: jval

record suggestion_item =
  si_event_id :: jval
  si_finding_code :: string
  si_confidence :: jval
  si_text :: jval

record model_reply =
  mr_summary :: string
  mr_findings :: "jval list"
  mr_suggestions :: "suggestion list"

datatype ingest_effect =
    SubmitBuild jdict
  | DestroyBuild string
  | KbImport "jdict list"
  | SuggestionsImport "suggestion_item list"
  | Relay string "jdict list" "suggestion_item list"

record ingest_env =
  e_events :: events_reply
  e_verdict :: "jval \<Rightarrow> string option"
  e_submit :: "jdict \<Rightarrow> string option"
  e_get_build :: "nat \<Rightarrow> string option"
  e_healthy :: bool
  e_ask_events :: "int list \<Rightarrow> model_reply option"
  e_ask_failures :: "failed_build list \<Rightarrow> model_reply option"
  e_kb_import :: "jdict list \<Rightarrow> (string list \<times> nat) option"
  e_suggestions_import :: "suggestion_item list \<Rightarrow> nat option"
  e_delete_raises :: "string \<Rightarrow> bool"
  e_peers :: "(string \<times> string) list"
  e_relay_status :: "string \<Rightarrow> string"
  e_code_stamp :: string

section \<open>Helpers\<close>

definition save_ingestion :: "llm_ingestion \<Rightarrow> sched_db \<Rightarrow> sched_db" where
  "save_ingestion row db = db\<lparr>llm_ingestions := upsert in_id
     (\<lambda>old new. new\<lparr>in_schedule_id := in_schedule_id old, in_run_id := in_run_id old, in_started_at := in_started_at old\<rparr>)
     row (llm_ingestions db)\<rparr>"

text \<open>The polling loop: the last record read, or the first that is neither pending nor running.\<close>

fun poll_build :: "(nat \<Rightarrow> string option) \<Rightarrow> string option \<Rightarrow> nat \<Rightarrow> nat \<Rightarrow> string option" where
  "poll_build get_build build k 0 = build"
| "poll_build get_build build k (Suc n) =
     (let build' = get_build k in
      case build' of
        Some status \<Rightarrow> if status \<notin> {''pending'', ''running''} then build' else poll_build get_build build' (Suc k) n
      | None \<Rightarrow> poll_build get_build build' (Suc k) n)"

definition POLLS :: nat where "POLLS = 240"

text \<open>\<^verbatim>\<open>_extract_json_object\<close> up to the call of \<^verbatim>\<open>json.loads\<close>: the text from the first opening brace to the one that
  closes it.  Braces are counted wherever they stand, in string literals too.\<close>

fun brace_block :: "nat \<Rightarrow> string \<Rightarrow> string option" where
  "brace_block depth [] = None"
| "brace_block depth (c # cs) =
     (let depth' = (if c = CHR ''{'' then depth + 1 else if c = CHR ''}'' then depth - 1 else depth) in
      if c = CHR ''}'' \<and> depth' = 0 then Some [c] else map_option (Cons c) (brace_block depth' cs))"

definition extract_json_object :: "string \<Rightarrow> string option" where
  "extract_json_object text = brace_block 0 (dropWhile (\<lambda>c. c \<noteq> CHR ''{'') text)"

text \<open>\<^verbatim>\<open>f.setdefault("code", ...)\<close> for every finding; a finding that is not an object raises.\<close>

fun with_codes :: "string \<Rightarrow> nat \<Rightarrow> jval list \<Rightarrow> jdict list option" where
  "with_codes stamp i [] = Some []"
| "with_codes stamp i (f # fs) =
     (case f of
        JObj d \<Rightarrow> map_option (Cons (if map_of d ''code'' = None then jset d ''code'' (JStr (stamp @ show_nat i)) else d))
                    (with_codes stamp (Suc i) fs)
      | _ \<Rightarrow> None)"

text \<open>\<^verbatim>\<open>list(f.get("tags") or [])\<close>; \<open>None\<close> is \<^verbatim>\<open>TypeError\<close>.\<close>

definition tag_list :: "jval \<Rightarrow> jval list option" where
  "tag_list v = (if \<not> jtruthy v then Some [] else
     (case v of JList xs \<Rightarrow> Some xs | JStr s \<Rightarrow> Some (map (\<lambda>c. JStr [c]) s)
      | JObj d \<Rightarrow> Some (map (JStr \<circ> fst) d) | _ \<Rightarrow> None))"

definition tag_failure :: "jdict \<Rightarrow> jdict option" where
  "tag_failure f = map_option (\<lambda>tags. jset f ''tags''
       (JList (if JStr ''build-failure'' \<in> set tags then tags else tags @ [JStr ''build-failure''])))
     (tag_list (jget f ''tags''))"

fun tag_failures :: "jdict list \<Rightarrow> jdict list option" where
  "tag_failures [] = Some []"
| "tag_failures (f # fs) = (case tag_failure f of None \<Rightarrow> None | Some g \<Rightarrow> map_option (Cons g) (tag_failures fs))"

definition suggestion_items :: "suggestion list \<Rightarrow> string list \<Rightarrow> suggestion_item list" where
  "suggestion_items suggestions codes =
     concat (map (\<lambda>s. case sg_finding_index s of
         None \<Rightarrow> []
       | Some idx \<Rightarrow> if 0 \<le> idx \<and> idx < int (length codes)
            then [\<lparr>si_event_id = sg_event_id s, si_finding_code = codes ! nat idx, si_confidence = sg_confidence s,
                   si_text = sg_text s\<rparr>] else []) suggestions)"

text \<open>\<^verbatim>\<open>zip(payload_findings, codes)\<close> sets the code of each finding that has one; the exceptions of one peer stay
  with that peer, so \<^verbatim>\<open>e_relay_status\<close> gives the text of every outcome.\<close>

fun set_codes :: "jdict list \<Rightarrow> string list \<Rightarrow> jdict list" where
  "set_codes (f # fs) (c # cs) = jset f ''code'' (JStr c) # set_codes fs cs"
| "set_codes fs cs = fs"

definition distribute_to_peers ::
    "ingest_env \<Rightarrow> jdict list \<Rightarrow> suggestion list \<Rightarrow> string list \<Rightarrow> ingest_effect list \<times> peer_sync list" where
  "distribute_to_peers env findings suggestions codes =
     (map (\<lambda>p. Relay (fst p) (set_codes findings codes) (suggestion_items suggestions codes)) (e_peers env),
      map (\<lambda>p. \<lparr>ps_peer_id = fst p, ps_hostname = snd p, ps_status = e_relay_status env (fst p)\<rparr>) (e_peers env))"

text \<open>\<^verbatim>\<open>_merge_peer_sync_results\<close>: one entry per peer, in the order of the dictionary.\<close>

fun merge_entry :: "(peer_sync \<Rightarrow> peer_sync \<Rightarrow> peer_sync) \<Rightarrow> peer_sync list \<Rightarrow> peer_sync \<Rightarrow> peer_sync list" where
  "merge_entry f [] e = [e]"
| "merge_entry f (x # xs) e = (if ps_peer_id x = ps_peer_id e then f x e # xs else x # merge_entry f xs e)"

definition join_status :: "peer_sync \<Rightarrow> peer_sync \<Rightarrow> peer_sync" where
  "join_status x e = (if ps_status x \<noteq> ps_status e then x\<lparr>ps_status := ps_status x @ '', '' @ ps_status e\<rparr> else x)"

definition merge_peer_sync_results :: "peer_sync list \<Rightarrow> peer_sync list \<Rightarrow> peer_sync list" where
  "merge_peer_sync_results a b = foldl (merge_entry join_status) (foldl (merge_entry (\<lambda>x e. e)) [] a) b"

definition delete_failures :: "ingest_env \<Rightarrow> failed_build list \<Rightarrow> sched_db \<Rightarrow> sched_db" where
  "delete_failures env pending db =
     fold (\<lambda>pf db. if e_delete_raises env (fb_id pf) then db else delete_failure (fb_id pf) db) pending db"

section \<open>The work on the cluster\<close>

text \<open>Steps 4 to 8, inside the \<^verbatim>\<open>try\<close>: the database with the analysed failures removed, the effects so far, and
  the results, \<open>None\<close> for the exception that the \<^verbatim>\<open>except\<close> clause turns into a failed run.\<close>

record ingest_results =
  ir_findings_created :: nat
  ir_suggestions_created :: nat
  ir_summary :: string
  ir_peers_synced :: "peer_sync list"

definition empty_reply :: model_reply where
  "empty_reply = \<lparr>mr_summary = [], mr_findings = [], mr_suggestions = []\<rparr>"

definition ask_model ::
    "ingest_env \<Rightarrow> int list \<Rightarrow> failed_build list \<Rightarrow> (model_reply \<times> model_reply) option" where
  "ask_model env new_events pending =
     (case (if new_events \<noteq> [] then e_ask_events env new_events else Some empty_reply) of
        None \<Rightarrow> None
      | Some r \<Rightarrow>
          (case (if pending \<noteq> [] then e_ask_failures env pending else Some empty_reply) of
             None \<Rightarrow> None
           | Some f \<Rightarrow> Some (r, f)))"

definition import_events ::
    "ingest_env \<Rightarrow> jval list \<Rightarrow> ingest_effect list \<times> (jdict list \<times> string list \<times> nat) option" where
  "import_events env findings =
     (if findings = [] then ([], Some ([], [], 0))
      else (case with_codes (''LLM-'' @ e_code_stamp env) 0 findings of
          None \<Rightarrow> ([], None)
        | Some fs \<Rightarrow> ([KbImport fs], map_option (\<lambda>r. (fs, r)) (e_kb_import env fs))))"

definition import_failures ::
    "ingest_env \<Rightarrow> failed_build list \<Rightarrow> jval list \<Rightarrow> sched_db
     \<Rightarrow> sched_db \<times> ingest_effect list \<times> (jdict list \<times> string list \<times> nat) option" where
  "import_failures env pending findings db =
     (if findings = [] then (db, [], Some ([], [], 0))
      else (case Option.bind (with_codes (''LLM-BUILDFAIL-'' @ e_code_stamp env) 0 findings) tag_failures of
          None \<Rightarrow> (db, [], None)
        | Some fs \<Rightarrow>
            (case e_kb_import env fs of
               None \<Rightarrow> (db, [KbImport fs], None)
             | Some r \<Rightarrow> (delete_failures env pending db, [KbImport fs], Some (fs, r)))))"

definition import_suggestions ::
    "ingest_env \<Rightarrow> suggestion list \<Rightarrow> string list \<Rightarrow> ingest_effect list \<times> nat option" where
  "import_suggestions env suggestions codes =
     (let items = suggestion_items suggestions codes in
      if suggestions = [] \<or> codes = [] \<or> items = [] then ([], Some 0)
      else ([SuggestionsImport items], e_suggestions_import env items))"

definition ingest_work ::
    "ingest_env \<Rightarrow> int list \<Rightarrow> failed_build list \<Rightarrow> sched_db \<Rightarrow> sched_db \<times> ingest_effect list \<times> ingest_results option" where
  "ingest_work env new_events pending db =
     (if \<not> e_healthy env then (db, [], None)
      else (case ask_model env new_events pending of
        None \<Rightarrow> (db, [], None)
      | Some (r, f) \<Rightarrow>
        (case import_events env (mr_findings r) of
          (es1, None) \<Rightarrow> (db, es1, None)
        | (es1, Some (fs, codes, n)) \<Rightarrow>
          (case import_failures env pending (mr_findings f) db of
            (db', es2, None) \<Rightarrow> (db', es1 @ es2, None)
          | (db', es2, Some (ffs, fcodes, m)) \<Rightarrow>
            (case import_suggestions env (mr_suggestions r) codes of
              (es3, None) \<Rightarrow> (db', es1 @ es2 @ es3, None)
            | (es3, Some k) \<Rightarrow>
              (let (es4, synced) = distribute_to_peers env fs (mr_suggestions r) codes;
                   (es5, synced') = (if ffs = [] then ([], synced)
                      else let (es, fsynced) = distribute_to_peers env ffs [] fcodes
                           in (es, merge_peer_sync_results synced fsynced))
               in (db', es1 @ es2 @ es3 @ es4 @ es5,
                   Some \<lparr>ir_findings_created = n + m, ir_suggestions_created = k,
                         ir_summary = (if mr_summary r \<noteq> [] then mr_summary r else mr_summary f),
                         ir_peers_synced = synced'\<rparr>)))))))"

section \<open>The job\<close>

text \<open>The traffic lights of the pool; \<open>None\<close> is the exception of an entry without \<^verbatim>\<open>peer_id\<close>.\<close>

fun pool_peer_ids :: "jval list \<Rightarrow> jval list option" where
  "pool_peer_ids [] = Some []"
| "pool_peer_ids (p # ps) =
     (case p of JObj d \<Rightarrow> (case map_of d ''peer_id'' of
          None \<Rightarrow> None | Some i \<Rightarrow> map_option (Cons i) (pool_peer_ids ps))
      | _ \<Rightarrow> None)"

definition with_light :: "ingest_env \<Rightarrow> string \<Rightarrow> jval list \<Rightarrow> jval list" where
  "with_light env light pool =
     filter (\<lambda>p. case p of JObj d \<Rightarrow> e_verdict env (jget d ''peer_id'') = Some light | _ \<Rightarrow> False) pool"

definition select_workers :: "ingest_env \<Rightarrow> jval list \<Rightarrow> jval list" where
  "select_workers env pool =
     (let green = with_light env ''active'' pool in if green \<noteq> [] then green else with_light env ''pending'' pool)"

record ingest_outcome =
  io_db :: sched_db
  io_effects :: "ingest_effect list"
  io_result :: "string option"

definition ingestion_row :: "string \<Rightarrow> schedule \<Rightarrow> string \<Rightarrow> moment \<Rightarrow> llm_ingestion" where
  "ingestion_row ing_id s run_id started =
     \<lparr>in_id = ing_id, in_schedule_id = sc_id s, in_run_id = run_id, in_started_at = isoformat started,
      in_finished_at = None, in_events_seen = 0, in_findings_created = 0, in_suggestions_created = 0,
      in_peers_synced = [], in_summary_text = [], in_status = ''running''\<rparr>"

definition closed_row :: "llm_ingestion \<Rightarrow> moment \<Rightarrow> string \<Rightarrow> nat \<Rightarrow> llm_ingestion" where
  "closed_row row finished status events_seen =
     row\<lparr>in_finished_at := Some (isoformat finished), in_status := status, in_events_seen := events_seen\<rparr>"

definition set_checkpoint :: "string \<Rightarrow> int \<Rightarrow> sched_db \<Rightarrow> sched_db" where
  "set_checkpoint schedule_id event_id = set_schedule schedule_id (\<lambda>s. s\<lparr>sc_checkpoint := event_id\<rparr>)"

definition max_event_id :: "int \<Rightarrow> int list \<Rightarrow> int" where
  "max_event_id checkpoint new_events = (if new_events = [] then checkpoint else Max (set new_events))"

text \<open>Steps 3 to 9.  \<^verbatim>\<open>int(var_overrides.get("http_port", 8610))\<close> and the submission may raise before the
  \<^verbatim>\<open>try\<close> of step 4; then the exception leaves the function.  The destruction of the cluster may fail, which is
  only logged.\<close>

definition run_cluster ::
    "ingest_env \<Rightarrow> schedule \<Rightarrow> llm_ingestion \<Rightarrow> moment \<Rightarrow> int list \<Rightarrow> failed_build list \<Rightarrow> jdict \<Rightarrow> sched_db \<Rightarrow> ingest_outcome" where
  "run_cluster env s row finished new_events pending vars db =
     (if param_int (to_param (jget_default vars ''http_port'' (JInt 8610))) = None then \<lparr>io_db = db, io_effects = [], io_result = None\<rparr>
      else (case e_submit env vars of
        None \<Rightarrow> \<lparr>io_db = db, io_effects = [], io_result = None\<rparr>
      | Some build_id \<Rightarrow>
        if poll_build (e_get_build env) (Some ''pending'') 0 POLLS \<noteq> Some ''success'' then
          \<lparr>io_db = save_ingestion (closed_row row finished ''failed'' (length new_events)) db,
           io_effects = [SubmitBuild vars, DestroyBuild build_id], io_result = Some ''failed''\<rparr>
        else
          (case ingest_work env new_events pending db of
             (db', es, None) \<Rightarrow>
               \<lparr>io_db = save_ingestion (closed_row row finished ''failed'' (length new_events)) db',
                io_effects = SubmitBuild vars # es @ [DestroyBuild build_id], io_result = Some ''failed''\<rparr>
           | (db', es, Some r) \<Rightarrow>
               \<lparr>io_db = save_ingestion ((closed_row row finished ''success'' (length new_events))
                    \<lparr>in_findings_created := ir_findings_created r, in_suggestions_created := ir_suggestions_created r,
                     in_peers_synced := ir_peers_synced r, in_summary_text := ir_summary r\<rparr>)
                    (set_checkpoint (sc_id s) (max_event_id (sc_checkpoint s) new_events) db'),
                io_effects = SubmitBuild vars # es @ [DestroyBuild build_id], io_result = Some ''success''\<rparr>)))"

definition new_sentinel_events :: "ingest_env \<Rightarrow> int \<Rightarrow> int list option" where
  "new_sentinel_events env checkpoint =
     (case e_events env of Events es \<Rightarrow> Some (filter (\<lambda>e. e > checkpoint) es) | SentinelUnreachable \<Rightarrow> Some [] | BadEvents \<Rightarrow> None)"

definition run_llm_ingest_schedule ::
    "ingest_env \<Rightarrow> schedule \<Rightarrow> string \<Rightarrow> string \<Rightarrow> moment \<Rightarrow> moment \<Rightarrow> sched_db \<Rightarrow> ingest_outcome" where
  "run_llm_ingest_schedule env s run_id ing_id started finished db =
     (let row = ingestion_row ing_id s run_id started;
          db0 = save_ingestion row db;
          pending = list_pending 20 db0;
          pool = jget (sc_var_overrides s) ''worker_peer_pool''
      in case new_sentinel_events env (sc_checkpoint s) of
        None \<Rightarrow> \<lparr>io_db = db0, io_effects = [], io_result = None\<rparr>
      | Some new_events \<Rightarrow>
        if new_events = [] \<and> pending = [] then
          \<lparr>io_db = save_ingestion (closed_row row finished ''success'' 0) db0, io_effects = [], io_result = Some ''success''\<rparr>
        else if \<not> jtruthy pool then
          \<lparr>io_db = save_ingestion (closed_row row finished ''failed'' (length new_events)) db0, io_effects = [],
           io_result = Some ''failed''\<rparr>
        else (case pool of
          JList ps \<Rightarrow>
            if pool_peer_ids ps = None then \<lparr>io_db = db0, io_effects = [], io_result = None\<rparr>
            else if select_workers env ps = [] then
              \<lparr>io_db = save_ingestion (closed_row row finished ''success'' (length new_events)) db0, io_effects = [],
               io_result = Some ''success''\<rparr>
            else run_cluster env s row finished new_events pending
                   (jset (jpop (sc_var_overrides s) ''worker_peer_pool'') ''worker_peers'' (JList (select_workers env ps))) db0
        | _ \<Rightarrow> \<lparr>io_db = db0, io_effects = [], io_result = None\<rparr>))"

text \<open>The other jobs: \<^verbatim>\<open>_run_build_schedule\<close> polls the build the same way.\<close>

definition run_build_schedule :: "(nat \<Rightarrow> string option) \<Rightarrow> string" where
  "run_build_schedule get_build =
     (let status = (case poll_build get_build (Some ''pending'') 0 POLLS of None \<Rightarrow> ''failed'' | Some st \<Rightarrow> st)
      in if status = ''success'' then ''success'' else ''failed'')"

text \<open>\<^verbatim>\<open>_run_schedule\<close> around a job whose result is its status, or \<open>None\<close> when it raised.\<close>

definition run_schedule ::
    "(schedule \<Rightarrow> sched_db \<Rightarrow> sched_db \<times> (string \<times> string \<times> string list) option) \<Rightarrow> (string \<times> string list)
     \<Rightarrow> string \<Rightarrow> moment \<Rightarrow> moment \<Rightarrow> string \<Rightarrow> sched_db \<Rightarrow> sched_db option" where
  "run_schedule job unhandled run_id started finished schedule_id db =
     (case get_schedule db schedule_id of
        None \<Rightarrow> Some db
      | Some s \<Rightarrow>
          map_option (\<lambda>db1.
            let (db2, result) = job s db1;
                (status, summary, lines) = (case result of None \<Rightarrow> (''failed'', unhandled) | Some r \<Rightarrow> r)
            in finish_run run_id schedule_id status summary lines finished db2)
          (new_run run_id started schedule_id db))"

end
