(* ===== verification/Ingest_Props.thy ===== *)
theory Ingest_Props
  imports Llm_Ingest
begin

text \<open>
  Properties of the \<^verbatim>\<open>llm_ingest\<close> job: the cluster it builds is always taken down, its checkpoint only moves over
  events the model was asked about, a queued failure is dropped only once its analysis is stored, and the row
  of the run is closed with the run's result.
\<close>

section \<open>Frame facts\<close>

lemma save_ingestion_frame [simp]:
  "schedules (save_ingestion row db) = schedules db"
  "schedule_runs (save_ingestion row db) = schedule_runs db"
  "failed_build_logs (save_ingestion row db) = failed_build_logs db"
  by (simp_all add: save_ingestion_def)

lemma set_schedule_frame [simp]:
  "schedule_runs (set_schedule i f db) = schedule_runs db"
  "llm_ingestions (set_schedule i f db) = llm_ingestions db"
  "failed_build_logs (set_schedule i f db) = failed_build_logs db"
  by (simp_all add: set_schedule_def)

lemma set_checkpoint_frame [simp]:
  "schedule_runs (set_checkpoint i c db) = schedule_runs db"
  "llm_ingestions (set_checkpoint i c db) = llm_ingestions db"
  "failed_build_logs (set_checkpoint i c db) = failed_build_logs db"
  by (simp_all add: set_checkpoint_def)

lemma get_schedule_cong: "schedules db = schedules db' \<Longrightarrow> get_schedule db i = get_schedule db' i"
  by (simp add: get_schedule_def)

lemma find_update_same:
  assumes "\<And>r. key (f r) = key r"
  shows "find (\<lambda>r. key r = i) (map (\<lambda>r. if key r = i then f r else r) t) = map_option f (find (\<lambda>r. key r = i) t)"
  using assms by (induction t) auto

lemma find_update_other:
  assumes "\<And>r. key (f r) = key r" "j \<noteq> i"
  shows "find (\<lambda>r. key r = j) (map (\<lambda>r. if key r = i then f r else r) t) = find (\<lambda>r. key r = j) t"
  using assms by (induction t) auto

lemma get_set_schedule:
  assumes "\<And>r. sc_id (f r) = sc_id r"
  shows "get_schedule (set_schedule i f db) j = (if j = i then map_option f (get_schedule db i) else get_schedule db j)"
  using assms
  by (auto simp: get_schedule_def set_schedule_def update_where_def find_update_same find_update_other)

lemma get_set_checkpoint:
  "get_schedule (set_checkpoint i c db) j =
     (if j = i then map_option (\<lambda>s. s\<lparr>sc_checkpoint := c\<rparr>) (get_schedule db i) else get_schedule db j)"
  unfolding set_checkpoint_def by (rule get_set_schedule) simp

definition find_ingestion :: "sched_db \<Rightarrow> string \<Rightarrow> llm_ingestion option" where
  "find_ingestion db ing_id = find (\<lambda>r. in_id r = ing_id) (llm_ingestions db)"

lemma find_upsert:
  assumes "\<And>x. key (merge x r) = key r"
  shows "find (\<lambda>x. key x = key r) (upsert key merge r t) =
    Some (case find (\<lambda>x. key x = key r) t of None \<Rightarrow> r | Some x \<Rightarrow> merge x r)"
proof (cases "find (\<lambda>x. key x = key r) t")
  case None
  then have none: "\<forall>x \<in> set t. key x \<noteq> key r" by (simp add: find_None_iff)
  have "find (\<lambda>x. key x = key r) (t @ [r]) = Some r" using none by (induction t) auto
  with None none show ?thesis by (auto simp: upsert_def)
next
  case (Some x)
  then have "find (\<lambda>x. key x = key r) (map (\<lambda>x. if key x = key r then merge x r else x) t) = Some (merge x r)"
    by (induction t) (auto simp: assms split: if_splits)
  with Some show ?thesis using find_Some_in [OF Some] by (auto simp: upsert_def)
qed

lemma find_saved: "\<exists>r. find_ingestion (save_ingestion row db) (in_id row) = Some r \<and> in_status r = in_status row"
  unfolding find_ingestion_def save_ingestion_def
  by (simp add: find_upsert split: option.splits)

lemma delete_failures_frame [simp]:
  "schedules (delete_failures env ps db) = schedules db"
  "schedule_runs (delete_failures env ps db) = schedule_runs db"
  "llm_ingestions (delete_failures env ps db) = llm_ingestions db"
  unfolding delete_failures_def by (induction ps arbitrary: db) (auto simp: delete_failure_def)

lemma delete_failures_rows:
  "failed_build_logs (delete_failures env ps db) =
     filter (\<lambda>r. \<not> list_ex (\<lambda>p. fb_id p = fb_id r \<and> \<not> e_delete_raises env (fb_id p)) ps) (failed_build_logs db)"
  unfolding delete_failures_def
  by (induction ps arbitrary: db) (auto simp: delete_failure_def intro: filter_cong)

section \<open>The work on the cluster\<close>

definition keeps_cluster :: "ingest_effect \<Rightarrow> bool" where
  "keeps_cluster e \<longleftrightarrow> (case e of SubmitBuild _ \<Rightarrow> False | DestroyBuild _ \<Rightarrow> False | _ \<Rightarrow> True)"

lemma work_effects:
  "import_events env fs = (es, r1) \<Longrightarrow> list_all keeps_cluster es"
  "import_failures env ps fs db = (db', es, r2) \<Longrightarrow> list_all keeps_cluster es"
  "import_suggestions env ss cs = (es, r3) \<Longrightarrow> list_all keeps_cluster es"
  "distribute_to_peers env fs' ss cs = (es, r4) \<Longrightarrow> list_all keeps_cluster es"
  by (auto simp: import_events_def import_failures_def import_suggestions_def distribute_to_peers_def Let_def
      keeps_cluster_def list_all_iff split: option.splits if_splits)

text \<open>Sentinel accepted an import of findings that all carry the tag \<^verbatim>\<open>build-failure\<close>.\<close>

definition build_failure_finding :: "jdict \<Rightarrow> bool" where
  "build_failure_finding f \<longleftrightarrow> (\<exists>tags. jget f ''tags'' = JList tags \<and> JStr ''build-failure'' \<in> set tags)"

definition stored_analysis :: "ingest_env \<Rightarrow> ingest_effect list \<Rightarrow> bool" where
  "stored_analysis env es \<longleftrightarrow> (\<exists>imported. KbImport imported \<in> set es \<and> imported \<noteq> [] \<and> list_all build_failure_finding imported
     \<and> e_kb_import env imported \<noteq> None)"

lemma tag_failures_tagged: "tag_failures fs = Some gs \<Longrightarrow> length gs = length fs \<and> list_all build_failure_finding gs"
  by (induction fs arbitrary: gs) (auto simp: tag_failure_def build_failure_finding_def split: option.splits)

lemma with_codes_length: "with_codes stamp i fs = Some gs \<Longrightarrow> length gs = length fs"
  by (induction fs arbitrary: i gs) (auto split: jval.splits)

lemma stored_analysis_append: "stored_analysis env (a @ b) \<longleftrightarrow> stored_analysis env a \<or> stored_analysis env b"
  by (auto simp: stored_analysis_def)

lemma import_failures_db:
  assumes "import_failures env ps fs db = (db', es, r)"
  shows "db' = db \<or> stored_analysis env es \<and> db' = delete_failures env ps db"
proof -
  have "stored_analysis env [KbImport gs]"
    if "Option.bind (with_codes stamp 0 fs) tag_failures = Some gs" "fs \<noteq> []" "e_kb_import env gs \<noteq> None" for stamp gs
    using that with_codes_length [of stamp 0 fs]
    by (auto simp: stored_analysis_def dest!: tag_failures_tagged split: bind_splits)
  then show ?thesis using assms by (auto simp: import_failures_def split: option.splits if_splits)
qed

lemma ingest_work_spec:
  assumes "ingest_work env events ps db = (db', es, r)"
  shows "list_all keeps_cluster es" "db' = db \<or>
    stored_analysis env es \<and> db' = delete_failures env ps db"
proof -
  show "list_all keeps_cluster es"
    using assms
    by (auto simp: ingest_work_def Let_def split: if_splits option.splits prod.splits dest: work_effects)
  show "db' = db \<or> stored_analysis env es \<and> db' = delete_failures env ps db"
    using assms
    by (auto simp: ingest_work_def Let_def split: if_splits option.splits prod.splits dest!: import_failures_db
        simp: stored_analysis_append)
qed

section \<open>The shape of a run\<close>

text \<open>The database after the work: the queue is untouched, or the listed failures were dropped after their import.\<close>

definition worked :: "ingest_env \<Rightarrow> failed_build list \<Rightarrow> ingest_effect list \<Rightarrow> sched_db \<Rightarrow> sched_db \<Rightarrow> bool" where
  "worked env pending es db db' \<longleftrightarrow> db' = db \<or>
     stored_analysis env es \<and> db' = delete_failures env pending db"

lemma run_cluster_cases:
  obtains (raised) "run_cluster env s row finished events pending vars db = \<lparr>io_db = db, io_effects = [], io_result = None\<rparr>"
    | (failed) build_id es db' row' where "e_submit env vars = Some build_id" "list_all keeps_cluster es"
        "worked env pending es db db'" "in_id row' = in_id row" "in_status row' = ''failed''"
        "run_cluster env s row finished events pending vars db = \<lparr>io_db = save_ingestion row' db',
           io_effects = SubmitBuild vars # es @ [DestroyBuild build_id], io_result = Some ''failed''\<rparr>"
    | (success) build_id es db' row' where "e_submit env vars = Some build_id" "list_all keeps_cluster es"
        "worked env pending es db db'" "in_id row' = in_id row" "in_status row' = ''success''"
        "run_cluster env s row finished events pending vars db = \<lparr>io_db = save_ingestion row'
             (set_checkpoint (sc_id s) (max_event_id (sc_checkpoint s) events) db'),
           io_effects = SubmitBuild vars # es @ [DestroyBuild build_id], io_result = Some ''success''\<rparr>"
proof -
  consider (early) "param_int (to_param (jget_default vars ''http_port'' (JInt 8610))) = None \<or> e_submit env vars = None"
    | (go) build_id where "param_int (to_param (jget_default vars ''http_port'' (JInt 8610))) \<noteq> None"
        "e_submit env vars = Some build_id"
    by (cases "e_submit env vars") auto
  then show thesis
  proof cases
    case early
    then show thesis by (intro raised) (auto simp: run_cluster_def)
  next
    case go
    obtain db' es r where w: "ingest_work env events pending db = (db', es, r)" by (metis prod_cases3)
    have spec: "list_all keeps_cluster es" "worked env pending es db db'"
      using ingest_work_spec [OF w] by (auto simp: worked_def)
    show thesis
    proof (cases "poll_build (e_get_build env) (Some ''pending'') 0 POLLS = Some ''success''")
      case False
      with go show thesis
        by (intro failed [of build_id "[]" db "closed_row row finished ''failed'' (length events)"])
           (auto simp: run_cluster_def closed_row_def worked_def)
    next
      case True
      show thesis
      proof (cases r)
        case None
        with go True w spec show thesis
          by (intro failed [of build_id es db' "closed_row row finished ''failed'' (length events)"])
             (auto simp: run_cluster_def closed_row_def)
      next
        case (Some x)
        with go True w spec show thesis
          by (intro success [of build_id es db' "(closed_row row finished ''success'' (length events))
                    \<lparr>in_findings_created := ir_findings_created x, in_suggestions_created := ir_suggestions_created x,
                     in_peers_synced := ir_peers_synced x, in_summary_text := ir_summary x\<rparr>"])
             (auto simp: run_cluster_def closed_row_def)
      qed
    qed
  qed
qed

lemma ingest_cases:
  fixes env s run_id ing_id started finished db
  defines "row \<equiv> ingestion_row ing_id s run_id started"
    and "out \<equiv> run_llm_ingest_schedule env s run_id ing_id started finished db"
  obtains (raised) "out = \<lparr>io_db = save_ingestion row db, io_effects = [], io_result = None\<rparr>"
    | (skipped) row' st where "in_id row' = ing_id" "in_status row' = st" "st = ''success'' \<or> st = ''failed''"
        "out = \<lparr>io_db = save_ingestion row' (save_ingestion row db), io_effects = [], io_result = Some st\<rparr>"
    | (cluster) events ps vars where "new_sentinel_events env (sc_checkpoint s) = Some events"
        "jget (sc_var_overrides s) ''worker_peer_pool'' = JList ps" "select_workers env ps \<noteq> []"
        "jget vars ''worker_peers'' = JList (select_workers env ps)"
        "out = run_cluster env s row finished events (list_pending 20 (save_ingestion row db)) vars (save_ingestion row db)"
proof (cases "new_sentinel_events env (sc_checkpoint s)")
  case None
  then show thesis by (intro raised) (simp add: out_def row_def run_llm_ingest_schedule_def)
next
  case (Some events)
  let ?db0 = "save_ingestion row db"
  let ?pool = "jget (sc_var_overrides s) ''worker_peer_pool''"
  note unfold = out_def row_def run_llm_ingest_schedule_def Let_def Some option.case
  have closed: "in_id (closed_row row t st n) = ing_id" "in_status (closed_row row t st n) = st" for t st n
    by (simp_all add: closed_row_def row_def ingestion_row_def)
  consider (idle) "events = [] \<and> list_pending 20 ?db0 = []" | (nopool) "\<not> (events = [] \<and> list_pending 20 ?db0 = [])" "\<not> jtruthy ?pool"
    | (bad) "\<not> (events = [] \<and> list_pending 20 ?db0 = [])" "jtruthy ?pool" "\<forall>ps. ?pool \<noteq> JList ps"
    | (pool) ps where "\<not> (events = [] \<and> list_pending 20 ?db0 = [])" "jtruthy ?pool" "?pool = JList ps"
    by blast
  then show thesis
  proof cases
    case idle
    with closed show thesis
      by (intro skipped [of "closed_row row finished ''success'' 0" "''success''"]) (simp_all add: unfold)
  next
    case nopool
    with closed show thesis
      by (intro skipped [of "closed_row row finished ''failed'' (length events)" "''failed''"]) (auto simp: unfold)
  next
    case bad
    then show thesis by (intro raised) (auto simp: unfold split: jval.splits)
  next
    case pool
    show thesis
    proof (cases "pool_peer_ids ps = None \<or> select_workers env ps = []")
      case True
      with closed pool show thesis
        by (cases "pool_peer_ids ps = None")
           (auto simp: unfold intro: raised skipped [of "closed_row row finished ''success'' (length events)" "''success''"])
    next
      case False
      with Some pool show thesis
        by (intro cluster [of events ps]) (auto simp: unfold)
    qed
  qed
qed

lemma with_light_verdict: "list_all (\<lambda>p. \<exists>d. p = JObj d \<and> e_verdict env (jget d ''peer_id'') = Some light) (with_light env light ps)"
  by (auto simp: with_light_def list_all_iff split: jval.splits)

text \<open>The workers chosen: all green, or all amber when the pool has no green peer; never a red or silent one.\<close>

definition healthy_choice :: "ingest_env \<Rightarrow> jval list \<Rightarrow> jval list \<Rightarrow> bool" where
  "healthy_choice env pool chosen \<longleftrightarrow> chosen \<noteq> [] \<and> set chosen \<subseteq> set pool
     \<and> (list_all (\<lambda>p. \<exists>d. p = JObj d \<and> e_verdict env (jget d ''peer_id'') = Some ''active'') chosen
        \<or> with_light env ''active'' pool = []
          \<and> list_all (\<lambda>p. \<exists>d. p = JObj d \<and> e_verdict env (jget d ''peer_id'') = Some ''pending'') chosen)"

lemma select_workers_healthy:
  assumes "select_workers env ps \<noteq> []"
  shows "healthy_choice env ps (select_workers env ps)"
proof -
  have sub: "set (with_light env light ps) \<subseteq> set ps" for light by (auto simp: with_light_def)
  show ?thesis
    using assms sub with_light_verdict [of env "''active''" ps] with_light_verdict [of env "''pending''" ps]
    by (auto simp: healthy_choice_def select_workers_def Let_def)
qed

text \<open>
  C23: The ephemeral cluster is always taken down.  Whatever Sentinel, the peers, OpenTofu and the model answer, a
  run of the \<^verbatim>\<open>llm_ingest\<close> job either builds nothing, or its first effect is the one submission, its last the
  destruction of the build that submission returned, with no other submission or destruction between; and the
  workers of the submission are green pool peers, or amber ones when no pool peer is green.
\<close>

theorem ingest_cluster_destroyed:
  "io_effects (run_llm_ingest_schedule env s run_id ing_id started finished db) = []
   \<or> (\<exists>vars es build_id pool chosen.
        io_effects (run_llm_ingest_schedule env s run_id ing_id started finished db) = SubmitBuild vars # es @ [DestroyBuild build_id]
        \<and> e_submit env vars = Some build_id \<and> list_all keeps_cluster es
        \<and> jget (sc_var_overrides s) ''worker_peer_pool'' = JList pool \<and> jget vars ''worker_peers'' = JList chosen
        \<and> healthy_choice env pool chosen)"
proof (cases rule: ingest_cases [of env s run_id ing_id started finished db])
  case (cluster events ps vars)
  let ?row = "ingestion_row ing_id s run_id started"
  show ?thesis
    using select_workers_healthy [OF cluster(3)] cluster(2,4)
    by (cases rule: run_cluster_cases [of env s ?row finished events "list_pending 20 (save_ingestion ?row db)" vars
          "save_ingestion ?row db"]) (auto simp: cluster(5))
qed simp_all

text \<open>
  The checkpoint of a schedule never moves back, and it moves only when the job succeeded, to the newest of the
  events the model was asked about; so every event up to the new checkpoint that Sentinel listed was either below
  the old one or among those.
\<close>

theorem ingest_checkpoint_advances:
  assumes "get_schedule db (sc_id s) = Some s"
  shows "\<exists>s'. get_schedule (io_db (run_llm_ingest_schedule env s run_id ing_id started finished db)) (sc_id s) = Some s'
    \<and> sc_checkpoint s \<le> sc_checkpoint s'
    \<and> (sc_checkpoint s' \<noteq> sc_checkpoint s \<longrightarrow>
        io_result (run_llm_ingest_schedule env s run_id ing_id started finished db) = Some ''success''
        \<and> (\<exists>events. e_events env = Events events \<and> sc_checkpoint s' = Max (set (filter (\<lambda>e. e > sc_checkpoint s) events))))"
proof -
  let ?row = "ingestion_row ing_id s run_id started"
  have same: "get_schedule db' (sc_id s) = Some s" if "schedules db' = schedules db" for db'
    using get_schedule_cong [OF that] assms by simp
  show ?thesis
  proof (cases rule: ingest_cases [of env s run_id ing_id started finished db])
    case (cluster events ps vars)
    have w: "schedules db' = schedules db" if "worked env pending es (save_ingestion ?row db) db'" for pending es db'
      using that by (auto simp: worked_def)
    have mx: "sc_checkpoint s \<le> max_event_id (sc_checkpoint s) events \<and> (max_event_id (sc_checkpoint s) events \<noteq> sc_checkpoint s \<longrightarrow>
        (\<exists>all. e_events env = Events all \<and> max_event_id (sc_checkpoint s) events = Max (set (filter (\<lambda>e. e > sc_checkpoint s) all))))"
    proof (cases "events = []")
      case False
      then obtain all where "e_events env = Events all" "events = filter (\<lambda>e. e > sc_checkpoint s) all"
        using cluster(1) by (auto simp: new_sentinel_events_def split: events_reply.splits)
      moreover have "Max (set events) \<in> set events" using False by simp
      ultimately show ?thesis using False by (auto simp: max_event_id_def)
    qed (simp add: max_event_id_def)
    show ?thesis
      by (cases rule: run_cluster_cases [of env s ?row finished events "list_pending 20 (save_ingestion ?row db)" vars
          "save_ingestion ?row db"])
         (use mx in \<open>auto simp: cluster(5) get_set_checkpoint same get_schedule_cong [OF save_ingestion_frame(1)] dest!: w\<close>)
  qed (simp_all add: same)
qed

definition demo_schedule :: schedule where
  "demo_schedule = \<lparr>sc_id = ''s1'', sc_name = ''nightly'', sc_kind = ''llm_ingest'', sc_engine = ''tofu'', sc_template = ''distributed-llm'',
     sc_var_overrides = [(''worker_peer_pool'', JList [JObj [(''peer_id'', JStr ''p1'')], JObj [(''peer_id'', JStr ''p2'')]])],
     sc_recurrence_type = Cron, sc_run_at = None, sc_cron_expr = ''0 2 * * *'', sc_enabled = True, sc_next_run_at = None,
     sc_last_run_at = None, sc_last_status = [], sc_checkpoint = 7, sc_created_at = [], sc_created_by = ''ui''\<rparr>"

definition demo_failure :: failed_build where
  "demo_failure = \<lparr>fb_id = ''f1'', fb_engine = ''tofu'', fb_build_id = ''b0'', fb_template = ''vpc-only'', fb_var_overrides = [],
     fb_log = [''boom''], fb_exit_code = Some 1, fb_created_at = ''2026''\<rparr>"

definition demo_db :: sched_db where
  "demo_db = \<lparr>schedules = [demo_schedule], schedule_runs = [], llm_ingestions = [], failed_build_logs = [demo_failure]\<rparr>"

definition demo_reply :: model_reply where
  "demo_reply = \<lparr>mr_summary = ''disk full'', mr_findings = [JObj [(''title'', JStr ''disk'')]], mr_suggestions = []\<rparr>"

definition demo_ingest_env :: ingest_env where
  "demo_ingest_env = \<lparr>e_events = Events [5, 8, 9], e_verdict = (\<lambda>p. if p = JStr ''p1'' then Some ''pending'' else Some ''active''),
     e_submit = (\<lambda>vars. Some ''b1''), e_get_build = (\<lambda>k. Some ''success''), e_healthy = True,
     e_ask_events = (\<lambda>es. Some demo_reply), e_ask_failures = (\<lambda>fs. Some demo_reply), e_kb_import = (\<lambda>fs. Some ([''LLM-1''], length fs)),
     e_suggestions_import = (\<lambda>is. Some (length is)), e_delete_raises = (\<lambda>i. False), e_peers = [(''p1'', ''east'')],
     e_relay_status = (\<lambda>p. ''synced''), e_code_stamp = ''s1-0-''\<rparr>"

text \<open>The demonstration run succeeds with the green peer as its worker, imports both batches and empties the queue.\<close>

lemma poll_success: "f k = Some ''success'' \<Longrightarrow> 0 < n \<Longrightarrow> poll_build f b k n = Some ''success''"
  by (cases n) simp_all

lemma demo_facts:
  "new_sentinel_events demo_ingest_env 7 = Some [8, 9]"
  "select_workers demo_ingest_env [JObj [(''peer_id'', JStr ''p1'')], JObj [(''peer_id'', JStr ''p2'')]] = [JObj [(''peer_id'', JStr ''p2'')]]"
  "poll_build (e_get_build demo_ingest_env) b 0 POLLS = Some ''success''"
  "e_submit demo_ingest_env vars = Some ''b1''"
  by (simp_all add: demo_ingest_env_def new_sentinel_events_def select_workers_def with_light_def jget_def poll_success POLLS_def)

lemma demo_work:
  "\<exists>es r. ingest_work demo_ingest_env [8, 9] [demo_failure] db = (delete_failures demo_ingest_env [demo_failure] db, es, Some r)"
  by (simp add: ingest_work_def ask_model_def demo_ingest_env_def demo_reply_def import_events_def import_failures_def
      import_suggestions_def distribute_to_peers_def tag_failure_def tag_list_def jget_def Let_def)

lemma demo_run:
  "get_schedule (io_db (run_llm_ingest_schedule demo_ingest_env demo_schedule ''r1'' ''i1'' demo_noon demo_noon demo_db)) ''s1'' =
     Some (demo_schedule\<lparr>sc_checkpoint := 9\<rparr>)"
  "failed_build_logs (io_db (run_llm_ingest_schedule demo_ingest_env demo_schedule ''r1'' ''i1'' demo_noon demo_noon demo_db)) = []"
  "io_result (run_llm_ingest_schedule demo_ingest_env demo_schedule ''r1'' ''i1'' demo_noon demo_noon demo_db) = Some ''success''"
proof -
  let ?row = "ingestion_row ''i1'' demo_schedule ''r1'' demo_noon"
  have pend: "list_pending 20 (save_ingestion ?row demo_db) = [demo_failure]"
    by (simp add: list_pending_def order_by_def demo_db_def)
  have s: "sc_checkpoint demo_schedule = 7" "sc_id demo_schedule = ''s1''"
    "jget (sc_var_overrides demo_schedule) ''worker_peer_pool'' = JList [JObj [(''peer_id'', JStr ''p1'')], JObj [(''peer_id'', JStr ''p2'')]]"
    "jpop (sc_var_overrides demo_schedule) ''worker_peer_pool'' = []"
    by (simp_all add: demo_schedule_def jget_def jpop_def)
  obtain es r where w: "ingest_work demo_ingest_env [8, 9] [demo_failure] (save_ingestion ?row demo_db) =
      (delete_failures demo_ingest_env [demo_failure] (save_ingestion ?row demo_db), es, Some r)"
    using demo_work by blast
  note eval = run_llm_ingest_schedule_def run_cluster_def Let_def s demo_facts pend w jget_default_def param_int_def
  show "io_result (run_llm_ingest_schedule demo_ingest_env demo_schedule ''r1'' ''i1'' demo_noon demo_noon demo_db) = Some ''success''"
    by (simp add: eval)
  show "failed_build_logs (io_db (run_llm_ingest_schedule demo_ingest_env demo_schedule ''r1'' ''i1'' demo_noon demo_noon demo_db)) = []"
    by (simp add: eval delete_failures_rows) (simp add: demo_db_def demo_ingest_env_def)
  show "get_schedule (io_db (run_llm_ingest_schedule demo_ingest_env demo_schedule ''r1'' ''i1'' demo_noon demo_noon demo_db)) ''s1'' =
      Some (demo_schedule\<lparr>sc_checkpoint := 9\<rparr>)"
    by (simp add: eval get_schedule_cong [OF save_ingestion_frame(1)] get_set_checkpoint max_event_id_def
        get_schedule_cong [OF delete_failures_frame(1)]) (simp add: get_schedule_def demo_db_def demo_schedule_def)
qed

theorem ingest_checkpoint_advances_witness:
  "\<exists>s'. get_schedule demo_db (sc_id demo_schedule) = Some demo_schedule
    \<and> get_schedule (io_db (run_llm_ingest_schedule demo_ingest_env demo_schedule ''r1'' ''i1'' demo_noon demo_noon demo_db)) (sc_id demo_schedule) = Some s'
    \<and> sc_checkpoint demo_schedule < sc_checkpoint s'"
proof -
  have g: "get_schedule demo_db (sc_id demo_schedule) = Some demo_schedule" "sc_id demo_schedule = ''s1''"
    by (simp_all add: get_schedule_def demo_db_def demo_schedule_def)
  obtain s' where "get_schedule (io_db (run_llm_ingest_schedule demo_ingest_env demo_schedule ''r1'' ''i1'' demo_noon demo_noon demo_db)) ''s1'' = Some s'"
    "sc_checkpoint demo_schedule \<le> sc_checkpoint s'"
    using ingest_checkpoint_advances [OF g(1), of demo_ingest_env "''r1''" "''i1''" demo_noon demo_noon] g(2) by auto
  moreover from this have "sc_checkpoint s' = 9" using demo_run(1) by auto
  ultimately show ?thesis using g by (simp add: demo_schedule_def)
qed

section \<open>Queued failures\<close>

lemma worked_queue:
  assumes "wf_table fb_id (failed_build_logs db)" "worked env (list_pending 20 db) es db db'" "r \<in> set (failed_build_logs db)"
    "r \<notin> set (failed_build_logs db')"
  shows "r \<in> set (list_pending 20 db) \<and> stored_analysis env es"
proof -
  have imp: "stored_analysis env es"
    and db': "db' = delete_failures env (list_pending 20 db) db"
    using assms(2-4) by (auto simp: worked_def)
  then obtain p where p: "p \<in> set (list_pending 20 db)" "fb_id p = fb_id r"
    using assms(3,4) by (auto simp: delete_failures_rows list_ex_iff)
  then have "p \<in> set (failed_build_logs db)"
    by (auto simp: list_pending_def dest: in_set_takeD)
  then have "p = r" using p(2) assms(1,3) by (metis distinct_map inj_on_eq_iff wf_table_def)
  then show ?thesis using p imp by simp
qed

lemma list_pending_frame: "failed_build_logs db = failed_build_logs db' \<Longrightarrow> list_pending n db = list_pending n db'"
  by (simp add: list_pending_def)

text \<open>
  No failure log is lost unanalysed.  A row that a run removes from the queue is one of the twenty oldest that the
  run read, and Sentinel had accepted findings tagged as build failures before; every other row, in particular one queued
  while the run was under way, stays.
\<close>

theorem ingest_queue_loses_nothing:
  assumes "wf_table fb_id (failed_build_logs db)" and "r \<in> set (failed_build_logs db)"
    and "r \<notin> set (failed_build_logs (io_db (run_llm_ingest_schedule env s run_id ing_id started finished db)))"
  shows "r \<in> set (list_pending 20 db)
    \<and> stored_analysis env (io_effects (run_llm_ingest_schedule env s run_id ing_id started finished db))"
proof (cases rule: ingest_cases [of env s run_id ing_id started finished db])
  case raised
  then show ?thesis using assms(2,3) by simp
next
  case (skipped row' st)
  then show ?thesis using assms(2,3) by simp
next
  case (cluster events ps vars)
  let ?row = "ingestion_row ing_id s run_id started"
  have pend: "list_pending 20 (save_ingestion ?row db) = list_pending 20 db" by (rule list_pending_frame) simp
  note q = worked_queue [of "save_ingestion ?row db" env _ _ r, unfolded pend save_ingestion_frame, OF assms(1) _ assms(2)]
  show ?thesis
    by (cases rule: run_cluster_cases [of env s ?row finished events "list_pending 20 db" vars "save_ingestion ?row db"])
       (use assms(2,3) in \<open>auto simp: cluster(5) pend stored_analysis_def dest!: q\<close>)
qed

theorem ingest_queue_loses_nothing_witness:
  "wf_table fb_id (failed_build_logs demo_db) \<and> demo_failure \<in> set (failed_build_logs demo_db)
   \<and> demo_failure \<notin> set (failed_build_logs (io_db (run_llm_ingest_schedule demo_ingest_env demo_schedule ''r1'' ''i1'' demo_noon demo_noon demo_db)))
   \<and> stored_analysis demo_ingest_env (io_effects (run_llm_ingest_schedule demo_ingest_env demo_schedule ''r1'' ''i1'' demo_noon demo_noon demo_db))"
proof -
  have "wf_table fb_id (failed_build_logs demo_db)" "demo_failure \<in> set (failed_build_logs demo_db)"
    by (simp_all add: demo_db_def wf_table_def)
  then show ?thesis
    using ingest_queue_loses_nothing [of demo_db demo_failure demo_ingest_env demo_schedule "''r1''" "''i1''" demo_noon demo_noon]
    by (auto simp: demo_run(2))
qed

section \<open>The row of the run\<close>

text \<open>
  When the job returns, its row in \<^verbatim>\<open>llm_ingestions\<close> carries the status it returned.  When an exception leaves
  it (an unreadable reply of Sentinel, a pool entry without \<^verbatim>\<open>peer_id\<close>, a submission that raises), nothing was built,
  but the row stays \<^verbatim>\<open>running\<close>: the comment at the \<^verbatim>\<open>except\<close> clause says this cannot happen any more.
\<close>

theorem ingest_row_status:
  "\<exists>row. find_ingestion (io_db (run_llm_ingest_schedule env s run_id ing_id started finished db)) ing_id = Some row
     \<and> in_status row = (case io_result (run_llm_ingest_schedule env s run_id ing_id started finished db) of
          Some st \<Rightarrow> st | None \<Rightarrow> ''running'')
     \<and> (io_result (run_llm_ingest_schedule env s run_id ing_id started finished db) \<in> {None, Some ''success'', Some ''failed''})
     \<and> (if io_result (run_llm_ingest_schedule env s run_id ing_id started finished db) = None
        then io_effects (run_llm_ingest_schedule env s run_id ing_id started finished db) = [] else True)"
proof (cases rule: ingest_cases [of env s run_id ing_id started finished db])
  case raised
  then show ?thesis using find_saved [of "ingestion_row ing_id s run_id started" db] by (auto simp: ingestion_row_def)
next
  case (skipped row' st)
  then show ?thesis using find_saved [of row'] by auto
next
  case (cluster events ps vars)
  let ?row = "ingestion_row ing_id s run_id started"
  have i: "in_id ?row = ing_id" "in_status ?row = ''running''" by (simp_all add: ingestion_row_def)
  show ?thesis
  proof (cases rule: run_cluster_cases [of env s ?row finished events "list_pending 20 (save_ingestion ?row db)" vars "save_ingestion ?row db"])
    case raised
    then show ?thesis using find_saved [of ?row db] i by (auto simp: cluster(5))
  next
    case (failed build_id es db' row')
    then show ?thesis using find_saved [of row'] i by (auto simp: cluster(5))
  next
    case (success build_id es db' row')
    then show ?thesis using find_saved [of row'] i by (auto simp: cluster(5))
  qed
qed

end
