(* ===== verification/Scheduler_Props.thy ===== *)
theory Scheduler_Props
  imports Ingest_Props
begin

text \<open>
  Properties of the scheduler.  What it needs of \<open>Croncalc\<close> is the locale \<open>calendar\<close>: every accepted
  expression has a next match within a week, and none is skipped.  On top of it stand the invariant of the
  scheduler's tables over all reachable states, and the refinement of the tick: a recurring schedule is started
  exactly when one of its minutes has passed since it was last looked at.
\<close>

section \<open>The calendar behind the scheduler\<close>

locale calendar =
  fixes ok :: "'e \<Rightarrow> bool" and matches :: "'e \<Rightarrow> datetime \<Rightarrow> bool" and nxt :: "'e \<Rightarrow> datetime \<Rightarrow> 'x + datetime"
  assumes nxt_total: "ok e \<Longrightarrow> valid_dt a \<Longrightarrow> \<exists>t. nxt e a = Inr t"
    and nxt_sound: "ok e \<Longrightarrow> valid_dt a \<Longrightarrow> nxt e a = Inr t \<Longrightarrow>
      valid_dt t \<and> matches e t \<and> minute_index a < minute_index t \<and> minute_index t \<le> minute_index a + 1440 * 7"
    and nxt_first: "ok e \<Longrightarrow> valid_dt a \<Longrightarrow> nxt e a = Inr t \<Longrightarrow> valid_dt u \<Longrightarrow> matches e u \<Longrightarrow>
      minute_index a < minute_index u \<Longrightarrow> minute_index t \<le> minute_index u"
begin

text \<open>A stored next time has come exactly when some matching minute has passed.\<close>

lemma come_iff:
  assumes "ok e" "valid_dt a" "nxt e a = Inr t"
  shows "minute_index t \<le> minute_index n \<longleftrightarrow>
    (\<exists>u. valid_dt u \<and> matches e u \<and> minute_index a < minute_index u \<and> minute_index u \<le> minute_index n)"
  using nxt_sound [OF assms] nxt_first [OF assms] order_trans by blast

lemma not_before_next:
  assumes "ok e" "valid_dt c" "nxt e c = Inr t" "minute_index n \<le> minute_index c"
  shows "\<not> minute_index t \<le> minute_index n"
  using nxt_sound [OF assms(1-3)] assms(4) by linarith

end

definition picked :: "string \<Rightarrow> bool" where
  "picked e \<longleftrightarrow> (\<exists>mode params. build_cron mode params = Inr e)"

definition fires_at :: "string \<Rightarrow> datetime \<Rightarrow> bool" where
  "fires_at e t \<longleftrightarrow> (case parse e of Inl _ \<Rightarrow> False | Inr cr \<Rightarrow> fires cr t)"

interpretation picker: calendar picked fires_at next_fire
proof
  fix e a
  assume e: "picked e" and a: "valid_dt a"
  obtain mode params where b: "build_cron mode params = Inr e" using e by (auto simp: picked_def)
  obtain cr where cr: "parse e = Inr cr" "\<And>t. valid_dt t \<Longrightarrow> fires cr t \<longleftrightarrow> recurs mode params t"
    using build_cron_roundtrip_shape [OF b] by blast
  have week: "\<exists>t. next_fire e a = Inr t \<and> minute_index t \<le> minute_index a + 1440 * 7"
    using recurs_within_week [OF a b] fires_found [OF a cr(1), of _ 7] cr(2) by auto
  then show "\<exists>t. next_fire e a = Inr t" by blast
  fix t
  assume t: "next_fire e a = Inr t"
  have ff: "first_fire cr (search_limit a) (search_start a) (Inr t)" using next_fire_first [OF a cr(1)] t by simp
  then show "valid_dt t \<and> fires_at e t \<and> minute_index a < minute_index t \<and> minute_index t \<le> minute_index a + 1440 * 7"
    using week t search_valid(3) [OF a] by (auto simp: first_fire_def fires_at_def cr(1))
  fix u
  assume "valid_dt u" "fires_at e u" "minute_index a < minute_index u"
  then show "minute_index t \<le> minute_index u"
    using ff search_valid(3) [OF a] by (auto simp: first_fire_def skips_def fires_at_def cr(1) not_le [symmetric])
qed

text \<open>Readings of the clock that leave room for a week before the year 10000.\<close>

definition in_era :: "moment \<Rightarrow> bool" where
  "in_era m \<longleftrightarrow> valid_moment m \<and> year (m_dt m) < 9999"

lemma year_within_week:
  assumes "valid_dt a" "valid_dt t" "minute_index t \<le> minute_index a + 1440 * 7"
  shows "year t \<le> year a + 1"
proof (rule ccontr)
  assume "\<not> year t \<le> year a + 1"
  define b where "b = a\<lparr>year := year a + 1, month := 12, day := 31\<rparr>"
  have v: "1 \<le> year a" "1 \<le> month a" "month a \<le> 12" "day a \<le> days_in_month (year a) (month a)" "hour a < 24" "minute a < 60"
    using assms(1) by (auto simp: valid_dt_def)
  have "valid_dt b" using assms(1) by (simp add: b_def valid_dt_def days_in_month_def)
  then have "toordinal b < toordinal t"
    using \<open>\<not> year t \<le> year a + 1\<close> by (intro toordinal_less_date) (auto simp: assms(2) b_def)
  moreover have "toordinal a + 300 \<le> toordinal b"
    using days_before_year_mono [of "year a" "year a + 1"] days_before_month_year [OF v(2,3), of "year a"] v
      days_before_month_12 [of "year a + 1"] days_in_month_le [of "year a + 1" 12]
    by (simp add: toordinal_def b_def split: if_splits)
  ultimately show False using assms(3) v(5,6) by (simp add: minute_index_def)
qed

lemma next_fire_in_era:
  assumes "picked e" "in_era c" "next_fire e (m_dt c) = Inr t"
  shows "valid_moment (whole_minute t)"
proof -
  have c: "valid_dt (m_dt c)" "year (m_dt c) < 9999" using assms(2) by (auto simp: in_era_def valid_moment_def)
  then show ?thesis
    using picker.nxt_sound [OF assms(1) c(1) assms(3)] year_within_week [OF c(1), of t]
    by (simp add: valid_moment_def whole_minute_def)
qed

section \<open>Well-formed tables\<close>

definition wf_schedule :: "schedule \<Rightarrow> bool" where
  "wf_schedule s \<longleftrightarrow> (case sc_recurrence_type s of
     Once \<Rightarrow> sc_run_at s \<noteq> None \<and> sc_next_run_at s = sc_run_at s
   | Cron \<Rightarrow> picked (sc_cron_expr s) \<and> (\<exists>a t. in_era a \<and> next_fire (sc_cron_expr s) (m_dt a) = Inr t
       \<and> sc_next_run_at s = Some (isoformat (whole_minute t))))"

definition wf_sched :: "sched_db \<Rightarrow> bool" where
  "wf_sched db \<longleftrightarrow> wf_table sc_id (schedules db) \<and> list_all wf_schedule (schedules db)
     \<and> list_all (\<lambda>r. ru_schedule_id r \<in> sc_id ` set (schedules db)) (schedule_runs db)"

lemma wf_schedule_cong:
  assumes "sc_recurrence_type s' = sc_recurrence_type s" "sc_run_at s' = sc_run_at s" "sc_next_run_at s' = sc_next_run_at s"
    "sc_cron_expr s' = sc_cron_expr s" "wf_schedule s"
  shows "wf_schedule s'"
  using assms by (simp add: wf_schedule_def split: recurrence_type.splits)

lemma wf_set_schedule:
  assumes "wf_sched db" "\<And>s. sc_id (f s) = sc_id s" "\<And>s. wf_schedule s \<Longrightarrow> sc_id s = i \<Longrightarrow> s \<in> set (schedules db) \<Longrightarrow> wf_schedule (f s)"
  shows "wf_sched (set_schedule i f db)"
proof -
  have "sc_id ` set (fst (update_where (\<lambda>s. sc_id s = i) f (schedules db))) = sc_id ` set (schedules db)"
    using map_key_update [of sc_id f "\<lambda>s. sc_id s = i" "schedules db", OF assms(2)] by (metis list.set_map)
  moreover have "list_all wf_schedule (fst (update_where (\<lambda>s. sc_id s = i) f (schedules db)))"
    using assms(1,3) by (auto simp: wf_sched_def update_where_def list_all_iff)
  ultimately show ?thesis
    using assms(1,2) by (simp add: wf_sched_def set_schedule_def wf_update_where list_all_iff)
qed

lemma wf_sched_frame:
  "wf_sched db \<Longrightarrow> schedules db' = schedules db \<Longrightarrow> schedule_runs db' = schedule_runs db \<Longrightarrow> wf_sched db'"
  by (simp add: wf_sched_def)

lemma get_schedule_wf: "wf_sched db \<Longrightarrow> get_schedule db i = Some s \<Longrightarrow> wf_schedule s \<and> sc_id s = i \<and> s \<in> set (schedules db)"
  by (auto simp: get_schedule_def wf_sched_def list_all_iff dest!: find_Some_in)

lemma get_schedule_iff: "wf_sched db \<Longrightarrow> get_schedule db (sc_id s) = Some s \<longleftrightarrow> s \<in> set (schedules db)"
  using find_wf [of sc_id "schedules db" "sc_id s" "\<lambda>_. True"] by (auto simp: get_schedule_def wf_sched_def)

lemma get_schedule_None: "get_schedule db i = None \<longleftrightarrow> i \<notin> sc_id ` set (schedules db)"
  by (auto simp: get_schedule_def find_None_iff)

text \<open>A recurrence that was accepted makes a well-formed row.\<close>

lemma accepted_recurrence:
  assumes "resolve_recurrence fromiso rec = Inr (ty, run_at, expr)" "first_run_at (m_dt now) (ty, run_at, expr) = Inr nxt" "in_era now"
    "sc_recurrence_type s = ty" "sc_run_at s = run_at" "sc_cron_expr s = expr" "sc_next_run_at s = nxt"
  shows "wf_schedule s"
proof (cases ty)
  case Once
  then have "run_at \<noteq> None"
    using assms(1) by (auto simp: resolve_recurrence_def Let_def split: if_splits jval.splits sum.splits)
  with Once assms show ?thesis by (auto simp: wf_schedule_def first_run_at_def)
next
  case Cron
  then have "picked expr"
    using assms(1) by (auto simp: resolve_recurrence_def Let_def picked_def split: if_splits jval.splits sum.splits)
  with Cron assms show ?thesis
    by (auto simp: wf_schedule_def first_run_at_def split: sum.splits)
qed

section \<open>Reachable states\<close>

text \<open>The statements that change the scheduler's tables, one database transaction each: the requests, the tick, and the
  writes of the job threads, which may come in any order between the others.\<close>

inductive sched_step :: "sched_db \<Rightarrow> sched_db \<Rightarrow> bool" where
  Create: "create_schedule fromiso i now name kind engine template vars rec by db = Inr (db', s) \<Longrightarrow> in_era now \<Longrightarrow>
     i \<notin> sc_id ` set (schedules db) \<Longrightarrow> sched_step db db'"
| Update: "update_schedule fromiso now i f db = Inr (db', r) \<Longrightarrow> in_era now \<Longrightarrow> sched_step db db'"
| Delete: "sched_step db (fst (delete_schedule i db))"
| Tick: "(\<And>i. in_era (clock i)) \<Longrightarrow> sched_step db (fst (tick now clock db))"
| NewRun: "new_run run_id now i db = Some db' \<Longrightarrow> sched_step db db'"
| FinishRun: "sched_step db (finish_run run_id i status summary lines now db)"
| SaveIngestion: "sched_step db (save_ingestion row db)"
| Checkpoint: "sched_step db (set_checkpoint i event_id db)"
| QueueFailure: "sched_step db (queue_failure q now engine build_id template vars lines code db)"
| DeleteFailure: "sched_step db (delete_failure q db)"

definition no_schedules :: sched_db where
  "no_schedules = \<lparr>schedules = [], schedule_runs = [], llm_ingestions = [], failed_build_logs = []\<rparr>"

definition advanced :: "moment \<Rightarrow> schedule \<Rightarrow> schedule" where
  "advanced now s = (if sc_recurrence_type s = Once then s\<lparr>sc_enabled := False\<rparr>
     else s\<lparr>sc_next_run_at := Some (isoformat (whole_minute (projr (next_fire (sc_cron_expr s) (m_dt now)))))\<rparr>)"

lemma wf_advanced:
  assumes "wf_schedule s" "in_era now"
  shows "wf_schedule (advanced now s)"
proof (cases "sc_recurrence_type s")
  case Once
  with assms show ?thesis by (simp add: advanced_def wf_schedule_def)
next
  case Cron
  then have p: "picked (sc_cron_expr s)" using assms(1) by (simp add: wf_schedule_def)
  obtain t where "next_fire (sc_cron_expr s) (m_dt now) = Inr t"
    using picker.nxt_total [OF p] assms(2) by (auto simp: in_era_def valid_moment_def)
  with Cron p assms(2) show ?thesis by (auto simp: advanced_def wf_schedule_def)
qed

lemma set_schedule_cong:
  assumes "wf_sched db" "get_schedule db i = Some s" "f s = g s"
  shows "set_schedule i f db = set_schedule i g db"
proof -
  have "f x = g x" if "x \<in> set (schedules db)" "sc_id x = i" for x
    using get_schedule_iff [OF assms(1), of x] that assms(2,3) by simp
  then have "map (\<lambda>r. if sc_id r = i then f r else r) (schedules db) = map (\<lambda>r. if sc_id r = i then g r else r) (schedules db)"
    by simp
  then show ?thesis by (simp add: set_schedule_def update_where_def)
qed

lemma advance_before_run_ok:
  assumes "wf_sched db" "in_era now"
  shows "advance_before_run now i db = Inr (set_schedule i (advanced now) db)"
proof (cases "get_schedule db i")
  case None
  then have "set_schedule i (advanced now) db = db"
    by (auto simp: set_schedule_def update_where_def get_schedule_None intro!: sched_db.equality map_idI)
  with None show ?thesis by (simp add: advance_before_run_def)
next
  case (Some s)
  note c = set_schedule_cong [OF assms(1) Some]
  show ?thesis
  proof (cases "sc_recurrence_type s")
    case Once
    with Some show ?thesis by (auto simp: advance_before_run_def advanced_def intro!: c)
  next
    case Cron
    then have p: "picked (sc_cron_expr s)" using get_schedule_wf [OF assms(1) Some] by (simp add: wf_schedule_def)
    obtain t where "next_fire (sc_cron_expr s) (m_dt now) = Inr t"
      using picker.nxt_total [OF p] assms(2) by (auto simp: in_era_def valid_moment_def)
    with Some Cron show ?thesis by (auto simp: advance_before_run_def advanced_def intro!: c)
  qed
qed

lemma sc_id_advanced [simp]: "sc_id (advanced now s) = sc_id s"
  by (simp add: advanced_def)

lemma advance_all_ok:
  assumes "wf_sched db" "\<And>i. in_era (clock i)"
  shows "snd (advance_all clock ids db) = None \<and> wf_sched (fst (advance_all clock ids db))"
  using assms(1)
proof (induction ids arbitrary: db)
  case (Cons i ids)
  have "wf_sched (set_schedule i (advanced (clock i)) db)"
    using Cons.prems wf_advanced [OF _ assms(2)] by (intro wf_set_schedule) auto
  then show ?case using Cons.IH by (simp add: advance_before_run_ok [OF Cons.prems assms(2)])
qed simp

lemma advance_all_row:
  assumes "wf_sched db" "\<And>i. in_era (clock i)" "distinct ids"
  shows "get_schedule (fst (advance_all clock ids db)) j =
    map_option (\<lambda>s. if j \<in> set ids then advanced (clock j) s else s) (get_schedule db j)"
  using assms(1,3)
proof (induction ids arbitrary: db)
  case Nil
  then show ?case by (cases "get_schedule db j") simp_all
next
  case (Cons i ids)
  have "wf_sched (set_schedule i (advanced (clock i)) db)"
    using Cons.prems wf_advanced [OF _ assms(2)] by (intro wf_set_schedule) auto
  note IH = Cons.IH [OF this]
  show ?case
    using Cons.prems IH
    by (cases "get_schedule db j") (auto simp: advance_before_run_ok [OF Cons.prems(1) assms(2)] get_set_schedule)
qed

lemma due_ids_distinct: "wf_sched db \<Longrightarrow> distinct (due_ids now db)"
  by (simp add: due_ids_def wf_sched_def wf_table_def distinct_map_filter)

lemma due_member:
  assumes "wf_sched db" "get_schedule db i = Some s"
  shows "i \<in> set (due_ids now db) \<longleftrightarrow> is_due (isoformat now) s"
proof -
  have "i \<in> set (due_ids now db) \<longleftrightarrow> (\<exists>x. get_schedule db i = Some x \<and> is_due (isoformat now) x)"
    unfolding due_ids_def using get_schedule_iff [OF assms(1)] get_schedule_wf [OF assms(1)] by force
  then show ?thesis using assms(2) by simp
qed

lemma tick_ok:
  assumes "wf_sched db" "\<And>i. in_era (clock i)"
  shows "snd (tick now clock db) = due_ids now db" "wf_sched (fst (tick now clock db))"
    "get_schedule (fst (tick now clock db)) j =
      map_option (\<lambda>s. if is_due (isoformat now) s then advanced (clock j) s else s) (get_schedule db j)"
proof -
  have ok: "snd (advance_all clock (due_ids now db) db) = None \<and> wf_sched (fst (advance_all clock (due_ids now db) db))"
    using assms by (rule advance_all_ok)
  then obtain db' where db': "advance_all clock (due_ids now db) db = (db', None)"
    by (cases "advance_all clock (due_ids now db) db") auto
  then show "snd (tick now clock db) = due_ids now db" by (simp add: tick_def)
  show "wf_sched (fst (tick now clock db))"
    using ok db' by (simp add: tick_def)
  show "get_schedule (fst (tick now clock db)) j =
      map_option (\<lambda>s. if is_due (isoformat now) s then advanced (clock j) s else s) (get_schedule db j)"
    using advance_all_row [where clock = clock, OF assms due_ids_distinct [OF assms(1), of now], of j] db'
    by (cases "get_schedule db j") (simp_all add: tick_def due_member [OF assms(1)])
qed

lemma wf_apply_fields: "wf_schedule s \<Longrightarrow> wf_schedule (apply_fields f s)"
  by (erule wf_schedule_cong [rotated -1]) (simp_all add: apply_fields_def Let_def split: option.splits)

lemma sc_id_apply_fields [simp]: "sc_id (apply_fields f s) = sc_id s"
  by (simp add: apply_fields_def Let_def split: option.splits)

lemma wf_update:
  assumes "wf_sched db" "update_schedule fromiso now i f db = Inr (db', r)" "in_era now"
  shows "wf_sched db'"
proof (cases "get_schedule db i = None \<or> sf_recurrence f = None")
  case True
  with assms wf_set_schedule [of db "apply_fields f" i] wf_apply_fields show ?thesis
    by (auto simp: update_schedule_def Let_def split: if_splits option.splits)
next
  case False
  then obtain rec ty run_at expr nxt where "sf_recurrence f = Some rec" and rec: "resolve_recurrence fromiso rec = Inr (ty, run_at, expr)"
      "first_run_at (m_dt now) (ty, run_at, expr) = Inr nxt"
    and db': "db' = set_schedule i (\<lambda>s. (apply_fields f s)\<lparr>sc_recurrence_type := ty, sc_run_at := run_at, sc_cron_expr := expr,
      sc_next_run_at := nxt\<rparr>) db"
    using assms(2) by (auto simp: update_schedule_def raise_bind_Inr_iff Let_def split: if_splits option.splits)
  show ?thesis unfolding db'
    by (rule wf_set_schedule [OF assms(1)]) (auto intro!: accepted_recurrence [OF rec assms(3)])
qed

lemma wf_create:
  assumes "wf_sched db" "create_schedule fromiso i now name kind engine template vars rec by db = Inr (db', s)" "in_era now"
    "i \<notin> sc_id ` set (schedules db)"
  shows "wf_sched db'"
proof -
  obtain ty run_at expr nxt where rec: "resolve_recurrence fromiso rec = Inr (ty, run_at, expr)"
      "first_run_at (m_dt now) (ty, run_at, expr) = Inr nxt"
    and db': "db' = db\<lparr>schedules := schedules db @ [s]\<rparr>" and s: "sc_id s = i" "sc_recurrence_type s = ty" "sc_run_at s = run_at"
      "sc_cron_expr s = expr" "sc_next_run_at s = nxt"
    using assms(2) by (auto simp: create_schedule_def raise_bind_Inr_iff Let_def split: if_splits)
  have "wf_schedule s" using accepted_recurrence [OF rec assms(3)] s by blast
  then show ?thesis using assms(1,4) by (auto simp: db' wf_sched_def wf_table_def s list_all_iff)
qed

lemma wf_step: "sched_step db db' \<Longrightarrow> wf_sched db \<Longrightarrow> wf_sched db'"
proof (induction rule: sched_step.induct)
  case (Create fromiso i now name kind engine template vars rec "by" db db' s)
  then show ?case by (blast intro: wf_create)
next
  case (Update fromiso now i f db db' r)
  then show ?case by (blast intro: wf_update)
next
  case (Delete db i)
  then show ?case
    by (auto simp: delete_schedule_def wf_sched_def wf_table_def list_all_iff distinct_map_filter image_iff)
next
  case (Tick clock db now)
  then show ?case by (blast intro: tick_ok)
next
  case (NewRun run_id now i db db')
  then show ?case by (auto simp: new_run_def get_schedule_None wf_sched_def split: if_splits)
next
  case (FinishRun db run_id i status summary lines now)
  have "list_all P (map (\<lambda>r. if Q r then f r else r) rs)" if "list_all P rs" "\<And>r. P (f r) = P r"
    for P :: "schedule_run \<Rightarrow> bool" and Q f rs using that by (auto simp: list_all_iff)
  with FinishRun have "wf_sched (db\<lparr>schedule_runs := fst (update_where (\<lambda>r. ru_id r = run_id)
      (\<lambda>r. r\<lparr>ru_finished_at := Some (isoformat now), ru_status := status, ru_summary := summary, ru_log := lines\<rparr>) (schedule_runs db))\<rparr>)"
    by (simp add: wf_sched_def update_where_def)
  then show ?case
    unfolding finish_run_def by (rule wf_set_schedule) (auto elim: wf_schedule_cong [rotated -1])
next
  case (Checkpoint db i event_id)
  then show ?case
    unfolding set_checkpoint_def by (rule wf_set_schedule) (auto elim: wf_schedule_cong [rotated -1])
qed (auto elim: wf_sched_frame simp: queue_failure_def delete_failure_def)

lemma wf_reachable: "sched_step\<^sup>*\<^sup>* no_schedules db \<Longrightarrow> wf_sched db"
proof (induction rule: rtranclp_induct)
  case base
  show ?case by (simp add: no_schedules_def wf_sched_def)
qed (rule wf_step)

text \<open>
  C22: In every state the scheduler's tables can reach, schedule identifiers are unique, every run belongs to a
  schedule that exists, every recurring schedule holds an expression the picker built (no cron text of a client's
  own) with its next minute computed from it, and every one-off keeps its time; therefore the advance in a tick
  never raises, and the tick starts exactly the due schedules, each once.
\<close>

theorem scheduler_tables_invariant:
  assumes "sched_step\<^sup>*\<^sup>* no_schedules db" and "\<And>i. in_era (clock i)"
  shows "wf_sched db \<and> snd (tick now clock db) = due_ids now db \<and> distinct (due_ids now db)"
  using wf_reachable [OF assms(1)] tick_ok(1) [where clock = clock, OF _ assms(2)] due_ids_distinct by blast

definition demo_recurrence :: jdict where
  "demo_recurrence = [(''mode'', JStr ''daily''), (''hour'', JInt 2), (''minute'', JStr ''30'')]"

lemma demo_build_cron: "resolve_recurrence (\<lambda>s. False) demo_recurrence = Inr (Cron, None, ''30 2 * * *'')"
  by code_simp

lemma demo_in_era: "in_era demo_noon"
  by (simp add: in_era_def valid_moment_def valid_dt_def days_in_month_def demo_noon_def)

lemma demo_create:
  "\<exists>db s t. create_schedule (\<lambda>s. False) ''s1'' demo_noon ''nightly'' ''build'' ''tofu'' ''vpc-only'' [] demo_recurrence ''ui'' no_schedules
     = Inr (db, s) \<and> schedules db = [s] \<and> sc_id s = ''s1'' \<and> sc_cron_expr s = ''30 2 * * *'' \<and> sc_recurrence_type s = Cron \<and> sc_enabled s
     \<and> next_fire ''30 2 * * *'' (m_dt demo_noon) = Inr t \<and> sc_next_run_at s = Some (isoformat (whole_minute t))"
proof -
  have "picked ''30 2 * * *''"
    using demo_build_cron by (auto simp: picked_def resolve_recurrence_def Let_def split: if_splits sum.splits jval.splits)
  then obtain t where "next_fire ''30 2 * * *'' (m_dt demo_noon) = Inr t"
    using picker.nxt_total demo_in_era by (auto simp: in_era_def valid_moment_def)
  then show ?thesis
    by (simp add: create_schedule_def demo_build_cron first_run_at_def KINDS_def no_schedules_def Let_def)
qed

theorem scheduler_tables_invariant_witness:
  "\<exists>db s. sched_step\<^sup>*\<^sup>* no_schedules db \<and> in_era demo_noon \<and> schedules db = [s] \<and> wf_sched db
     \<and> snd (tick demo_noon (\<lambda>i. demo_noon) db) = due_ids demo_noon db"
proof -
  obtain db s where c: "create_schedule (\<lambda>s. False) ''s1'' demo_noon ''nightly'' ''build'' ''tofu'' ''vpc-only'' [] demo_recurrence ''ui''
      no_schedules = Inr (db, s)" and "schedules db = [s]" using demo_create by blast
  moreover from c have "sched_step\<^sup>*\<^sup>* no_schedules db"
    by (intro r_into_rtranclp sched_step.Create [OF c demo_in_era]) (simp add: no_schedules_def)
  ultimately show ?thesis
    using scheduler_tables_invariant [of db "\<lambda>i. demo_noon" demo_noon] demo_in_era by blast
qed

section \<open>The loop refines the calendar\<close>

text \<open>The ticks of the background loop, with the readings of the clock at the query and at each advance; the schedules each
  of them starts.\<close>

fun loop_ticks :: "(moment \<times> (string \<Rightarrow> moment)) list \<Rightarrow> sched_db \<Rightarrow> string list list" where
  "loop_ticks [] db = []"
| "loop_ticks ((now, clock) # ts) db = (let (db', ids) = tick now clock db in ids # loop_ticks ts db')"

text \<open>The abstract specification of a recurring schedule: its state is the time up to which its minutes have been
  served; a tick starts it if one of its minutes has come since, and then serves everything up to the advance.\<close>

definition has_come :: "(datetime \<Rightarrow> bool) \<Rightarrow> datetime \<Rightarrow> moment \<Rightarrow> bool" where
  "has_come fire served now \<longleftrightarrow>
     (\<exists>u. valid_dt u \<and> fire u \<and> minute_index served < minute_index u \<and> minute_index u \<le> minute_index (m_dt now))"

fun calendar_runs :: "(datetime \<Rightarrow> bool) \<Rightarrow> datetime \<Rightarrow> (moment \<times> moment) list \<Rightarrow> bool list" where
  "calendar_runs fire served [] = []"
| "calendar_runs fire served ((now, adv) # ts) =
     has_come fire served now # calendar_runs fire (if has_come fire served now then m_dt adv else served) ts"

text \<open>The specification of a one-off: the first tick at or after its text.\<close>

fun one_off_runs :: "string \<Rightarrow> moment list \<Rightarrow> bool list" where
  "one_off_runs run_at [] = []"
| "one_off_runs run_at (now # ts) =
     (if str_le run_at (isoformat now) then True # map (\<lambda>t. False) ts else False # one_off_runs run_at ts)"

lemma whole_minute_come:
  assumes "valid_moment (whole_minute t)" "valid_moment now"
  shows "str_le (isoformat (whole_minute t)) (isoformat now) \<longleftrightarrow> minute_index t \<le> minute_index (m_dt now)"
  using isoformat_le_iff [OF assms] by (auto simp: moment_le_def whole_minute_def)

lemma tick_member:
  assumes "wf_sched db" "\<And>i. in_era (clock i)" "get_schedule db i = Some s"
  shows "i \<in> set (snd (tick now clock db)) \<longleftrightarrow> is_due (isoformat now) s"
  using due_member [OF assms(1,3)] by (simp add: tick_ok(1) [where clock = clock, OF assms(1,2)])

lemma loop_refines:
  assumes "wf_sched db" "get_schedule db i = Some s" "sc_recurrence_type s = Cron" "sc_enabled s" "in_era a"
    "next_fire (sc_cron_expr s) (m_dt a) = Inr t" "sc_next_run_at s = Some (isoformat (whole_minute t))"
    "list_all (\<lambda>(now, clock). valid_moment now \<and> (\<forall>i. in_era (clock i))) ts"
  shows "map (\<lambda>ids. i \<in> set ids) (loop_ticks ts db) =
    calendar_runs (fires_at (sc_cron_expr s)) (m_dt a) (map (\<lambda>(now, clock). (now, clock i)) ts)"
  using assms
proof (induction ts arbitrary: db s a t)
  case (Cons x ts)
  obtain now clock where x: "x = (now, clock)" by force
  have era: "valid_moment now" "\<And>i. in_era (clock i)" and rest: "list_all (\<lambda>(now, clock). valid_moment now \<and> (\<forall>i. in_era (clock i))) ts"
    using Cons.prems(8) x by auto
  obtain db' ids where tk: "tick now clock db = (db', ids)" by force
  note tick = tick_ok [where clock = clock, OF Cons.prems(1) era(2), of now] tick_member [where clock = clock, OF Cons.prems(1) era(2) Cons.prems(2), of now]
  have p: "picked (sc_cron_expr s)" using get_schedule_wf [OF Cons.prems(1,2)] Cons.prems(3) by (simp add: wf_schedule_def)
  have va: "valid_dt (m_dt a)" "valid_dt (m_dt (clock i))" using Cons.prems(5) era(2) by (auto simp: in_era_def valid_moment_def)
  let ?come = "has_come (fires_at (sc_cron_expr s)) (m_dt a) now"
  have "is_due (isoformat now) s \<longleftrightarrow> minute_index t \<le> minute_index (m_dt now)"
    using Cons.prems(4,7) whole_minute_come [OF next_fire_in_era [OF p Cons.prems(5,6)] era(1)] by (simp add: is_due_def)
  then have due: "is_due (isoformat now) s \<longleftrightarrow> ?come" using picker.come_iff [OF p va(1) Cons.prems(6)] by (simp add: has_come_def)
  obtain t' where t': "next_fire (sc_cron_expr s) (m_dt (clock i)) = Inr t'" using picker.nxt_total [OF p va(2)] by blast
  have wf': "wf_sched db'" using tick(2) tk by simp
  show ?case
  proof (cases ?come)
    case True
    define s' where "s' = advanced (clock i) s"
    have s': "get_schedule db' i = Some s'" "sc_recurrence_type s' = Cron" "sc_enabled s'" "sc_cron_expr s' = sc_cron_expr s"
        "sc_next_run_at s' = Some (isoformat (whole_minute t'))"
      using tick(3) [of i] tk Cons.prems(2-4) due True t' by (simp_all add: s'_def advanced_def)
    show ?thesis
      using Cons.IH [OF wf' s'(1,2,3) era(2) _ s'(5) rest] t' True due tick(4) tk
      by (simp add: x s'(4))
  next
    case False
    have s': "get_schedule db' i = Some s" using tick(3) [of i] tk Cons.prems(2) due False by simp
    show ?thesis
      using Cons.IH [OF wf' s' Cons.prems(3-7) rest] False due tick(4) tk by (simp add: x)
  qed
qed simp

text \<open>
  C6: The background loop implements the calendar.  Over any sequence of ticks, an enabled recurring schedule whose stored
  next time was computed at the reading \<open>a\<close> is started by exactly those ticks that the specification
  \<open>calendar_runs\<close> names: at or after one of the minutes of its expression that has not been served yet, and never
  twice for the same minutes; minutes missed together are served by one run.
\<close>

theorem loop_refines_calendar:
  assumes "wf_sched db" and "get_schedule db i = Some s" and "sc_recurrence_type s = Cron" and "sc_enabled s" and "in_era a"
    and "next_fire (sc_cron_expr s) (m_dt a) = Inr t" and "sc_next_run_at s = Some (isoformat (whole_minute t))"
    and "list_all (\<lambda>(now, clock). valid_moment now \<and> (\<forall>i. in_era (clock i))) ts"
  shows "map (\<lambda>ids. i \<in> set ids) (loop_ticks ts db) =
    calendar_runs (fires_at (sc_cron_expr s)) (m_dt a) (map (\<lambda>(now, clock). (now, clock i)) ts)"
  using assms by (rule loop_refines)

lemma demo_wf:
  "\<exists>db s t. wf_sched db \<and> get_schedule db ''s1'' = Some s \<and> sc_recurrence_type s = Cron \<and> sc_enabled s
     \<and> next_fire (sc_cron_expr s) (m_dt demo_noon) = Inr t \<and> sc_next_run_at s = Some (isoformat (whole_minute t))"
proof -
  obtain db s t where c: "create_schedule (\<lambda>s. False) ''s1'' demo_noon ''nightly'' ''build'' ''tofu'' ''vpc-only'' [] demo_recurrence ''ui''
      no_schedules = Inr (db, s)" and s: "schedules db = [s]" "sc_id s = ''s1''" "sc_cron_expr s = ''30 2 * * *''" "sc_recurrence_type s = Cron"
      "sc_enabled s" "next_fire ''30 2 * * *'' (m_dt demo_noon) = Inr t" "sc_next_run_at s = Some (isoformat (whole_minute t))"
    using demo_create by blast
  have "wf_sched db"
    by (rule wf_create [OF _ c demo_in_era]) (simp_all add: no_schedules_def wf_sched_def)
  moreover have "get_schedule db ''s1'' = Some s" by (simp add: get_schedule_def s)
  ultimately show ?thesis using s by metis
qed

theorem loop_refines_calendar_witness:
  "\<exists>db s t. wf_sched db \<and> get_schedule db ''s1'' = Some s \<and> next_fire (sc_cron_expr s) (m_dt demo_noon) = Inr t
     \<and> map (\<lambda>ids. ''s1'' \<in> set ids) (loop_ticks [(demo_noon, \<lambda>i. demo_noon), (demo_noon, \<lambda>i. demo_noon)] db) =
         calendar_runs (fires_at (sc_cron_expr s)) (m_dt demo_noon) [(demo_noon, demo_noon), (demo_noon, demo_noon)]"
proof -
  obtain db s t where d: "wf_sched db" "get_schedule db ''s1'' = Some s" "sc_recurrence_type s = Cron" "sc_enabled s"
    "next_fire (sc_cron_expr s) (m_dt demo_noon) = Inr t" "sc_next_run_at s = Some (isoformat (whole_minute t))"
    using demo_wf by blast
  have "valid_moment demo_noon" using demo_in_era by (simp add: in_era_def)
  then show ?thesis
    using loop_refines_calendar [OF d(1-4) demo_in_era d(5,6), of "[(demo_noon, \<lambda>i. demo_noon), (demo_noon, \<lambda>i. demo_noon)]"] d demo_in_era
    by auto
qed

section \<open>One-off schedules\<close>

lemma disabled_never_runs:
  assumes "wf_sched db" "get_schedule db i = Some s" "\<not> sc_enabled s" "list_all (\<lambda>(now, clock). \<forall>i. in_era (clock i)) ts"
  shows "map (\<lambda>ids. i \<in> set ids) (loop_ticks ts db) = map (\<lambda>t. False) ts"
  using assms
proof (induction ts arbitrary: db)
  case (Cons x ts)
  obtain now clock where x: "x = (now, clock)" by force
  have era: "\<And>i. in_era (clock i)" using Cons.prems(4) x by auto
  obtain db' ids where tk: "tick now clock db = (db', ids)" by force
  have no: "\<not> is_due (isoformat now) s" using Cons.prems(3) by (simp add: is_due_def)
  note tick = tick_ok(2,3) [where clock = clock, OF Cons.prems(1) era, of now]
  have "wf_sched db'" using tick(1) tk by simp
  moreover have "get_schedule db' i = Some s" using tick(2) [of i] tk Cons.prems(2) no by simp
  ultimately show ?case
    using Cons.IH [of db'] Cons.prems(3,4) tick_member [where clock = clock, OF Cons.prems(1) era Cons.prems(2), of now] tk no
    by (simp add: x)
qed simp

text \<open>
  A one-off schedule is started by the first tick whose clock text is not before its stored text, and by no later
  one, however long its job takes.
\<close>

theorem one_off_runs_once:
  assumes "wf_sched db" and "get_schedule db i = Some s" and "sc_recurrence_type s = Once" and "sc_enabled s" and "sc_run_at s = Some run_at"
    and "list_all (\<lambda>(now, clock). \<forall>i. in_era (clock i)) ts"
  shows "map (\<lambda>ids. i \<in> set ids) (loop_ticks ts db) = one_off_runs run_at (map fst ts)"
  using assms
proof (induction ts arbitrary: db)
  case (Cons x ts)
  obtain now clock where x: "x = (now, clock)" by force
  have era: "\<And>i. in_era (clock i)" and rest: "list_all (\<lambda>(now, clock). \<forall>i. in_era (clock i)) ts" using Cons.prems(6) x by auto
  obtain db' ids where tk: "tick now clock db = (db', ids)" by force
  note tick = tick_ok(2,3) [where clock = clock, OF Cons.prems(1) era, of now] tick_member [where clock = clock, OF Cons.prems(1) era Cons.prems(2), of now]
  have wf': "wf_sched db'" using tick(1) tk by simp
  have "sc_next_run_at s = Some run_at"
    using get_schedule_wf [OF Cons.prems(1,2)] Cons.prems(3,5) by (simp add: wf_schedule_def)
  then have due: "is_due (isoformat now) s \<longleftrightarrow> str_le run_at (isoformat now)" using Cons.prems(4) by (simp add: is_due_def)
  show ?case
  proof (cases "str_le run_at (isoformat now)")
    case True
    have "get_schedule db' i = Some (s\<lparr>sc_enabled := False\<rparr>)"
      using tick(2) [of i] tk Cons.prems(2,3) due True by (simp add: advanced_def)
    from disabled_never_runs [OF wf' this _ rest] True due tick(3) tk show ?thesis by (simp add: x)
  next
    case False
    have "get_schedule db' i = Some s" using tick(2) [of i] tk Cons.prems(2) due False by simp
    from Cons.IH [OF wf' this Cons.prems(3-5) rest] False due tick(3) tk show ?thesis by (simp add: x)
  qed
qed simp

definition one_off_db :: sched_db where
  "one_off_db = no_schedules\<lparr>schedules := [demo_schedule\<lparr>sc_recurrence_type := Once, sc_run_at := Some ''2026-10-09T14:00:00+05:00'',
     sc_next_run_at := Some ''2026-10-09T14:00:00+05:00''\<rparr>]\<rparr>"

theorem one_off_runs_once_witness:
  "map (\<lambda>ids. ''s1'' \<in> set ids) (loop_ticks [(demo_noon, \<lambda>i. demo_noon)] one_off_db) = one_off_runs ''2026-10-09T14:00:00+05:00'' [demo_noon]"
proof -
  have "wf_sched one_off_db"
    by (simp add: one_off_db_def wf_sched_def wf_schedule_def no_schedules_def wf_table_def)
  then show ?thesis
    using one_off_runs_once [of one_off_db "''s1''" _ "''2026-10-09T14:00:00+05:00''" "[(demo_noon, \<lambda>i. demo_noon)]"] demo_in_era
    by (simp add: one_off_db_def get_schedule_def no_schedules_def demo_schedule_def)
qed

text \<open>The offset of a one-off's time is not taken into account: 14:00 at +05:00 is 09:00 UTC, and at noon UTC the
  schedule is not started.\<close>

lemma pad_2: "pad 2 n = [digit_char (n div 10 mod 10), digit_char (n mod 10)]"
  by (simp add: numeral_2_eq_2)

lemma pad_4: "pad 4 n = [digit_char (n div 1000 mod 10), digit_char (n div 100 mod 10), digit_char (n div 10 mod 10), digit_char (n mod 10)]"
proof -
  have four: "(4::nat) = Suc (Suc (Suc (Suc 0)))" by simp
  show ?thesis unfolding four by (simp add: div_mult2_eq [symmetric])
qed

lemma isoformat_noon: "isoformat demo_noon = ''2026-10-09T12:00:00+00:00''"
  by (simp add: isoformat_def demo_noon_def pad_2 pad_4 digit_char_def iso_fraction_def) code_simp

lemma one_off_offset_ignored: "one_off_runs ''2026-10-09T14:00:00+05:00'' [demo_noon] = [False]"
  by (simp add: isoformat_noon str_le_def)

end
