(* ===== verification/Capacity.thy ===== *)
theory Capacity
  imports Compute Json "HOL-Library.Product_Lexorder"
begin

text \<open>
  Where a build may run: \<^verbatim>\<open>api/capacity_gate.py\<close>, \<^verbatim>\<open>api/layer_split.py\<close>, the traffic lights of
  \<^verbatim>\<open>api/host_stats.py\<close> and the recommendations of \<^verbatim>\<open>api/peers_routes.py\<close>.

  The statistics of a host are a record of the numbers the code reads, an absent entry being 0 as in the
  sources' \<^verbatim>\<open>get(..., 0)\<close>; \<open>peer_stats\<close> gives those of a peer, \<open>None\<close> when it does not answer.  Floats are exact
  fractions.  Rejection messages are values of \<open>rejection\<close>.
\<close>

section \<open>Traffic lights\<close>

record host_view =
  hv_cores :: int
  hv_load_pct :: rat
  hv_mem_available_mb :: rat
  hv_mem_used_pct :: rat
  hv_disk_free_gb :: rat
  hv_disk_used_pct :: rat

datatype light = Green | Amber | Red

definition TIER_SEVERITY :: "light \<Rightarrow> nat" where
  "TIER_SEVERITY l = (case l of Green \<Rightarrow> 0 | Amber \<Rightarrow> 1 | Red \<Rightarrow> 2)"

definition tier :: "rat \<Rightarrow> rat \<Rightarrow> rat \<Rightarrow> light" where
  "tier pct warn_at hot_at = (if pct \<ge> hot_at then Red else if pct \<ge> warn_at then Amber else Green)"

text \<open>Keys that are tuples compare component by component, as the lexicographic order of pairs.
  \<^verbatim>\<open>max(xs, key=...)\<close> and \<^verbatim>\<open>min(xs, key=...)\<close> keep the first of equal elements.\<close>

fun first_best :: "('a \<Rightarrow> 'a \<Rightarrow> bool) \<Rightarrow> 'a \<Rightarrow> 'a list \<Rightarrow> 'a" where
  "first_best better x [] = x"
| "first_best better x (y # ys) = first_best better (if better y x then y else x) ys"

definition verdict :: "host_view \<Rightarrow> light" where
  "verdict st = first_best (\<lambda>a b. TIER_SEVERITY a > TIER_SEVERITY b) (tier (hv_load_pct st) 70 100)
     [tier (hv_mem_used_pct st) 70 90, tier (hv_disk_used_pct st) 70 90]"

section \<open>The capacity gate\<close>

definition HEADROOM_FACTOR :: rat where "HEADROOM_FACTOR = 6 / 5"
definition HOST_RESERVED_CORES :: int where "HOST_RESERVED_CORES = 2"

datatype rejection = Unreachable jval string | TooSmall jval string | SamePeer jval

text \<open>\<^verbatim>\<open>var_overrides.get(k) or (schema.get(k, {}) or {}).get("default")\<close>.\<close>

definition schema_default :: "jdict \<Rightarrow> string \<Rightarrow> jval" where
  "schema_default schema k = (case jget schema k of JObj d \<Rightarrow> jget d ''default'' | _ \<Rightarrow> JNull)"

definition var_or_default :: "jdict \<Rightarrow> jdict \<Rightarrow> string \<Rightarrow> jval" where
  "var_or_default vars schema k = (if jtruthy (jget vars k) then jget vars k else schema_default schema k)"

text \<open>\<^verbatim>\<open>compute.FLAVORS.get(name)\<close>; a value that is not a string is no key (a list or an object
  would raise, as not hashable).\<close>

definition flavor_of :: "jval \<Rightarrow> (string \<times> nat \<times> nat \<times> nat) option" where
  "flavor_of v = (case v of JStr n \<Rightarrow> map_option (Pair n) (map_of FLAVORS n) | _ \<Rightarrow> None)"

definition entry_peer_id :: "jval \<Rightarrow> jval" where
  "entry_peer_id e = (case e of JObj d \<Rightarrow> jget d ''peer_id'' | _ \<Rightarrow> JNull)"

definition required_mb :: "nat \<Rightarrow> rat" where
  "required_mb mb = of_nat mb * HEADROOM_FACTOR"

definition check_peer :: "(jval \<Rightarrow> host_view option) \<Rightarrow> string \<Rightarrow> nat \<Rightarrow> jval \<Rightarrow> rejection option" where
  "check_peer peer_stats flavor_name flavor_mb peer_id =
     (case peer_stats peer_id of
        None \<Rightarrow> Some (Unreachable peer_id flavor_name)
      | Some st \<Rightarrow> if hv_mem_available_mb st < required_mb flavor_mb then Some (TooSmall peer_id flavor_name) else None)"

fun check_entries :: "(jval \<Rightarrow> host_view option) \<Rightarrow> string \<Rightarrow> nat \<Rightarrow> jval list \<Rightarrow> rejection option" where
  "check_entries peer_stats flavor_name flavor_mb [] = None"
| "check_entries peer_stats flavor_name flavor_mb (e # es) =
     (if \<not> jtruthy (entry_peer_id e) then check_entries peer_stats flavor_name flavor_mb es
      else (case check_peer peer_stats flavor_name flavor_mb (entry_peer_id e) of
              Some r \<Rightarrow> Some r
            | None \<Rightarrow> check_entries peer_stats flavor_name flavor_mb es))"

definition worker_entries :: "jdict \<Rightarrow> jval list" where
  "worker_entries vars = (case jget vars ''worker_peers'' of JList es \<Rightarrow> es | _ \<Rightarrow> [])"

definition check_worker_peers :: "(jval \<Rightarrow> host_view option) \<Rightarrow> jdict \<Rightarrow> jdict \<Rightarrow> rejection option" where
  "check_worker_peers peer_stats vars schema =
     (if worker_entries vars = [] then None
      else (case flavor_of (var_or_default vars schema ''worker_flavor'') of
              None \<Rightarrow> None
            | Some (n, _, mb, _) \<Rightarrow> check_entries peer_stats n mb (worker_entries vars)))"

definition check_coordinator_peer :: "(jval \<Rightarrow> host_view option) \<Rightarrow> jdict \<Rightarrow> jdict \<Rightarrow> rejection option" where
  "check_coordinator_peer peer_stats vars schema =
     (let peer_id = jget vars ''coordinator_peer_id'' in
      if \<not> jtruthy peer_id then None
      else (case flavor_of (var_or_default vars schema ''coordinator_flavor'') of
              None \<Rightarrow> None
            | Some (n, _, mb, _) \<Rightarrow> check_peer peer_stats n mb peer_id))"

definition check_no_coordinator_worker_overlap :: "jdict \<Rightarrow> rejection option" where
  "check_no_coordinator_worker_overlap vars =
     (let c = jget vars ''coordinator_peer_id'' in
      if \<not> jtruthy c then None
      else map_option (\<lambda>e. SamePeer (entry_peer_id e))
             (find (\<lambda>e. jtruthy (entry_peer_id e) \<and> entry_peer_id e = c) (worker_entries vars)))"

definition affords :: "host_view \<Rightarrow> string \<Rightarrow> bool" where
  "affords st flavor_name =
     (case map_of FLAVORS flavor_name of
        None \<Rightarrow> False
      | Some (vcpus, mb, gb) \<Rightarrow>
          if hv_mem_available_mb st < required_mb mb then False
          else if hv_cores st - HOST_RESERVED_CORES < int vcpus then False
          else if hv_disk_free_gb st < of_nat gb then False
          else True)"

section \<open>Recommendations\<close>

record candidate =
  cd_peer_id :: "string option"
  cd_hostname :: string
  cd_stats :: host_view

definition cd_key :: "candidate \<Rightarrow> nat \<times> rat" where
  "cd_key c = (TIER_SEVERITY (verdict (cd_stats c)), hv_load_pct (cd_stats c))"

definition least_loaded :: "candidate list \<Rightarrow> candidate option" where
  "least_loaded cs = (case cs of [] \<Rightarrow> None | c # cs' \<Rightarrow> Some (first_best (\<lambda>a b. cd_key a < cd_key b) c cs'))"

fun best_fit :: "candidate list \<Rightarrow> string list \<Rightarrow> (candidate \<times> string) option" where
  "best_fit candidates [] = None"
| "best_fit candidates (f # fs) =
     (case least_loaded (filter (\<lambda>c. affords (cd_stats c) f) candidates) of
        None \<Rightarrow> best_fit candidates fs
      | Some c \<Rightarrow> Some (c, f))"

text \<open>This host, unless its own statistics cannot be read, and every approved peer that answers.\<close>

definition placement_candidates ::
    "host_view option \<Rightarrow> (string \<Rightarrow> host_view option) \<Rightarrow> (string \<times> string) list \<Rightarrow> candidate list" where
  "placement_candidates local peer_stats approved =
     (case local of None \<Rightarrow> [] | Some st \<Rightarrow> [\<lparr>cd_peer_id = None, cd_hostname = ''This host (local)'', cd_stats = st\<rparr>])
     @ concat (map (\<lambda>p. case peer_stats (fst p) of None \<Rightarrow> []
         | Some st \<Rightarrow> [\<lparr>cd_peer_id = Some (fst p), cd_hostname = snd p, cd_stats = st\<rparr>]) approved)"

record recommendation =
  rm_recommended :: "(candidate \<times> string option) option"
  rm_hosts :: "(candidate \<times> string option) list"

definition recommend_placement :: "candidate list \<Rightarrow> string \<Rightarrow> recommendation" where
  "recommend_placement candidates flavor_arg =
     (let flavors = filter (\<lambda>f. f \<noteq> []) (map py_strip (split_on (CHR '','') flavor_arg)) in
      if candidates = [] then \<lparr>rm_recommended = None, rm_hosts = []\<rparr>
      else if flavors \<noteq> [] then
        \<lparr>rm_recommended = map_option (\<lambda>(c, f). (c, Some f)) (best_fit candidates flavors),
         rm_hosts = map (\<lambda>c. (c, find (affords (cd_stats c)) flavors)) candidates\<rparr>
      else \<lparr>rm_recommended = map_option (\<lambda>c. (c, None)) (least_loaded candidates), rm_hosts = map (\<lambda>c. (c, None)) candidates\<rparr>)"

section \<open>Placement of language models\<close>

record llm_host =
  lh_candidate :: candidate
  lh_gen_tps :: "rat option"
  lh_effective_tps :: "rat option"
  lh_flavor :: "string option"

text \<open>Python's \<^verbatim>\<open>round(x)\<close>: to the nearest integer, halves to the even one; and \<^verbatim>\<open>round(x, 2)\<close>.\<close>

definition py_round :: "rat \<Rightarrow> int" where
  "py_round x = (let f = \<lfloor>x\<rfloor>; d = x - of_int f in
     if d < 1 / 2 then f else if d > 1 / 2 then f + 1 else if even f then f else f + 1)"

definition round_2 :: "rat \<Rightarrow> rat" where
  "round_2 x = of_int (py_round (x * 100)) / 100"

definition free_cpu :: "host_view \<Rightarrow> rat" where
  "free_cpu st = max (1 / 10) (1 - min (hv_load_pct st) 90 / 100)"

text \<open>\<open>bench\<close> gives the measured speed of the model on a host, 0 counting as not measured.\<close>

definition llm_host_of :: "(candidate \<Rightarrow> rat option) \<Rightarrow> string list \<Rightarrow> candidate \<Rightarrow> llm_host" where
  "llm_host_of bench flavors c =
     \<lparr>lh_candidate = c, lh_gen_tps = bench c,
      lh_effective_tps = (case bench c of None \<Rightarrow> None
        | Some tps \<Rightarrow> if tps = 0 then None else Some (round_2 (tps * free_cpu (cd_stats c)))),
      lh_flavor = find (affords (cd_stats c)) flavors\<rparr>"

definition big_flavors :: "nat \<Rightarrow> string list \<Rightarrow> string list" where
  "big_flavors min_ram fs = filter (\<lambda>f. case map_of FLAVORS f of None \<Rightarrow> False | Some (_, mb, _) \<Rightarrow> mb \<ge> min_ram) fs"

definition num_or_0 :: "rat option \<Rightarrow> rat" where
  "num_or_0 x = (case x of None \<Rightarrow> 0 | Some r \<Rightarrow> r)"

text \<open>\<^verbatim>\<open>rank\<close>: measured hosts first, then the speed scaled by the free CPU, the measured speed, the lower load.\<close>

definition rank :: "llm_host \<Rightarrow> bool \<times> rat \<times> rat \<times> rat" where
  "rank h = (lh_gen_tps h \<noteq> None, num_or_0 (lh_effective_tps h), num_or_0 (lh_gen_tps h), - hv_load_pct (cd_stats (lh_candidate h)))"

definition lh_hostname :: "llm_host \<Rightarrow> string" where
  "lh_hostname h = cd_hostname (lh_candidate h)"

definition usable :: "llm_host \<Rightarrow> bool" where
  "usable h \<longleftrightarrow> truthy (lh_flavor h) \<and> verdict (cd_stats (lh_candidate h)) \<noteq> Red"

definition assign_role :: "llm_host list \<Rightarrow> string list \<Rightarrow> llm_host option" where
  "assign_role hosts taken =
     (let us = filter usable hosts; fresh = filter (\<lambda>h. lh_hostname h \<notin> set taken) us
      in case (if fresh \<noteq> [] then fresh else us) of
           [] \<Rightarrow> None
         | h # hs \<Rightarrow> Some (first_best (\<lambda>a b. rank a > rank b) h hs))"

fun assign_roles :: "llm_host list \<Rightarrow> string list \<Rightarrow> string list \<Rightarrow> (string \<times> llm_host option) list" where
  "assign_roles hosts taken [] = []"
| "assign_roles hosts taken (r # rs) =
     (case assign_role hosts taken of
        None \<Rightarrow> (r, None) # assign_roles hosts taken rs
      | Some h \<Rightarrow> (r, Some h) # assign_roles hosts (lh_hostname h # taken) rs)"

definition recommend_llm_placement ::
    "candidate list \<Rightarrow> (candidate \<Rightarrow> rat option) \<Rightarrow> nat \<Rightarrow> string list \<Rightarrow> string list \<Rightarrow> (string \<times> llm_host option) list" where
  "recommend_llm_placement candidates bench min_ram flavors roles =
     assign_roles (map (llm_host_of bench (big_flavors min_ram flavors)) candidates) [] (take 6 roles)"

section \<open>The layer split\<close>

definition MIN_FREE_FRACTION :: rat where "MIN_FREE_FRACTION = 5 / 100"
definition SAFE_WEIGHT_FRACTION :: rat where "SAFE_WEIGHT_FRACTION = 75 / 100"
definition MB :: rat where "MB = 1024 * 1024"

definition effective_capacity :: "host_view \<Rightarrow> rat" where
  "effective_capacity st = of_int (hv_cores st) * max MIN_FREE_FRACTION (1 - hv_load_pct st / 100)"

definition flavor_ram_mb :: "jval \<Rightarrow> nat option" where
  "flavor_ram_mb v = map_option (\<lambda>(_, _, mb, _). mb) (flavor_of v)"

definition clamp_split :: "int \<Rightarrow> int \<Rightarrow> int" where
  "clamp_split total_layers layers = max 1 (min (total_layers - 1) layers)"

definition cpu_layers :: "int \<Rightarrow> rat \<Rightarrow> rat \<Rightarrow> int" where
  "cpu_layers total_layers coordinator_cap worker_cap =
     clamp_split total_layers (py_round (of_int total_layers * (worker_cap / (coordinator_cap + worker_cap))))"

text \<open>How many layers fit into the safe part of a flavour's memory.\<close>

definition max_layers :: "int \<Rightarrow> nat \<Rightarrow> nat \<Rightarrow> int" where
  "max_layers total_layers model_bytes mb =
     \<lfloor>of_nat mb * SAFE_WEIGHT_FRACTION * MB / (of_nat model_bytes / of_int total_layers)\<rfloor>"

definition compute_offload_layers ::
    "int option \<Rightarrow> nat \<Rightarrow> host_view \<Rightarrow> host_view list \<Rightarrow> nat option \<Rightarrow> nat option \<Rightarrow> int option" where
  "compute_offload_layers block_count model_bytes coordinator workers coordinator_mb worker_mb =
     (case block_count of
        None \<Rightarrow> None
      | Some total_layers \<Rightarrow>
          if total_layers < 2 then None
          else if workers = [] then None
          else
            let coordinator_cap = effective_capacity coordinator;
                worker_cap = sum_list (map effective_capacity workers)
            in if coordinator_cap + worker_cap \<le> 0 then None
               else
                 let layers = cpu_layers total_layers coordinator_cap worker_cap
                 in (case (coordinator_mb, worker_mb) of
                       (Some c, Some w) \<Rightarrow>
                         if c = 0 \<or> w = 0 then Some layers
                         else
                           let max_worker = max_layers total_layers model_bytes w;
                               min_worker = total_layers - max_layers total_layers model_bytes c
                           in if min_worker > max_worker then None
                              else Some (clamp_split total_layers (max (min layers max_worker) min_worker))
                     | _ \<Rightarrow> Some layers))"

record split_env =
  se_block_count :: "string \<Rightarrow> int option"
  se_model_bytes :: "string \<Rightarrow> nat option"
  se_peer_stats :: "jval \<Rightarrow> host_view option"
  se_local_stats :: "host_view option"

fun all_stats :: "(jval \<Rightarrow> host_view option) \<Rightarrow> jval list \<Rightarrow> host_view list option" where
  "all_stats peer_stats [] = Some []"
| "all_stats peer_stats (e # es) =
     (if \<not> jtruthy (entry_peer_id e) then None
      else (case peer_stats (entry_peer_id e) of None \<Rightarrow> None
            | Some st \<Rightarrow> map_option (Cons st) (all_stats peer_stats es)))"

text \<open>\<^verbatim>\<open>str(v).strip()\<close> is empty only for an absent value or a blank string.\<close>

definition chosen_already :: "jdict \<Rightarrow> bool" where
  "chosen_already vars = (case map_of vars ''rpc_offload_layers'' of
     None \<Rightarrow> False | Some (JStr s) \<Rightarrow> py_strip s \<noteq> [] | Some _ \<Rightarrow> True)"

definition split_layers :: "split_env \<Rightarrow> jdict \<Rightarrow> jdict \<Rightarrow> int option" where
  "split_layers env vars schema =
     (if map_of schema ''worker_peers'' = None \<or> map_of schema ''rpc_offload_layers'' = None then None
      else if chosen_already vars then None
      else if worker_entries vars = [] then None
      else (case var_or_default vars schema ''model_filename'' of
          JStr model \<Rightarrow>
            (case (if model = [] then None else se_model_bytes env model) of
               None \<Rightarrow> None
             | Some bytes \<Rightarrow>
                 (case all_stats (se_peer_stats env) (worker_entries vars) of
                    None \<Rightarrow> None
                  | Some workers \<Rightarrow>
                      (let c = jget vars ''coordinator_peer_id'' in
                       case (if jtruthy c then se_peer_stats env c else se_local_stats env) of
                         None \<Rightarrow> None
                       | Some coordinator \<Rightarrow>
                           compute_offload_layers (se_block_count env model) bytes coordinator workers
                             (flavor_ram_mb (var_or_default vars schema ''coordinator_flavor''))
                             (flavor_ram_mb (var_or_default vars schema ''worker_flavor'')))))
        | _ \<Rightarrow> None))"

definition maybe_apply :: "split_env \<Rightarrow> jdict \<Rightarrow> jdict \<Rightarrow> jdict" where
  "maybe_apply env vars schema =
     (case split_layers env vars schema of None \<Rightarrow> vars | Some layers \<Rightarrow> jset vars ''rpc_offload_layers'' (JInt layers))"

end
