(* ===== verification/Capacity_Props.thy ===== *)
theory Capacity_Props
  imports Capacity
begin

text \<open>
  What the placement code promises: \<open>best_fit\<close> returns the largest affordable flavour on the best of the hosts that
  afford it, language-model roles are spread over different hosts while there are enough of them, and the layer
  split stays between one layer and all but one, fits both flavours, and is never applied over a choice of the
  caller.
\<close>

section \<open>First best elements\<close>

text \<open>The order behind \<^verbatim>\<open>min\<close> and \<^verbatim>\<open>max\<close> with a key: a strict weak order.\<close>

locale strict_key_order =
  fixes better :: "'a \<Rightarrow> 'a \<Rightarrow> bool"
  assumes better_irrefl: "\<not> better x x"
    and better_trans: "better x y \<Longrightarrow> better y z \<Longrightarrow> better x z"
    and better_cotrans: "better x z \<Longrightarrow> better x y \<or> better y z"
begin

lemma first_best_in: "first_best better x xs \<in> set (x # xs)"
  by (induction xs arbitrary: x) auto

lemma first_best_unbeaten: "y \<in> set (x # xs) \<Longrightarrow> \<not> better y (first_best better x xs)"
proof (induction xs arbitrary: x y)
  case Nil
  then show ?case by (simp add: better_irrefl)
next
  case (Cons z zs)
  define x' where "x' = (if better z x then z else x)"
  have IH: "\<not> better u (first_best better x' zs)" if "u \<in> set (x' # zs)" for u using Cons.IH that by blast
  consider "y \<in> set (x' # zs)" | "y = x" "better z x" | "y = z" "\<not> better z x"
    using Cons.prems by (cases "better z x") (auto simp: x'_def)
  then show ?case
  proof cases
    case 2
    then have "\<not> better z (first_best better x' zs)" using IH [of z] by (simp add: x'_def)
    then show ?thesis using 2 better_trans by (auto simp: x'_def)
  next
    case 3
    then have "\<not> better x (first_best better x' zs)" using IH [of x] by (simp add: x'_def)
    then show ?thesis using 3 better_cotrans [of z "first_best better x zs" x] by (auto simp: x'_def)
  qed (use IH in \<open>simp add: x'_def\<close>)
qed

end

lemma key_order: "strict_key_order (\<lambda>a b. (key a :: 'k :: linorder) < key b)"
  by unfold_locales auto

lemma key_order_rev: "strict_key_order (\<lambda>a b. (key a :: 'k :: linorder) > key b)"
  by unfold_locales auto

interpretation severe: strict_key_order "\<lambda>a b. TIER_SEVERITY a > TIER_SEVERITY b"
  by (rule key_order_rev)

interpretation less_loaded: strict_key_order "\<lambda>a b. cd_key a < cd_key b"
  by (rule key_order)

interpretation faster: strict_key_order "\<lambda>a b. rank a > rank b"
  by (rule key_order_rev)

section \<open>Placement\<close>

lemma verdict_worst:
  "TIER_SEVERITY (verdict st) = max (TIER_SEVERITY (tier (hv_load_pct st) 70 100))
     (max (TIER_SEVERITY (tier (hv_mem_used_pct st) 70 90)) (TIER_SEVERITY (tier (hv_disk_used_pct st) 70 90)))"
  by (simp add: verdict_def max_def)

lemma least_loaded_spec:
  "least_loaded cs = None \<longleftrightarrow> cs = []"
  "least_loaded cs = Some c \<Longrightarrow> c \<in> set cs \<and> (\<forall>d \<in> set cs. \<not> cd_key d < cd_key c)"
  using less_loaded.first_best_in less_loaded.first_best_unbeaten
  by (auto simp: least_loaded_def split: list.splits)

lemma best_fit_cases:
  "best_fit cs fs = None \<longleftrightarrow> (\<forall>f \<in> set fs. \<forall>c \<in> set cs. \<not> affords (cd_stats c) f)"
  by (induction fs) (auto simp: least_loaded_spec(1) filter_empty_conv dest!: least_loaded_spec(2) split: option.splits)

lemma best_fit_Some:
  assumes "best_fit cs fs = Some (c, f)"
  shows "\<exists>larger smaller. fs = larger @ f # smaller \<and> (\<forall>g \<in> set larger. \<forall>d \<in> set cs. \<not> affords (cd_stats d) g)
    \<and> c \<in> set cs \<and> affords (cd_stats c) f
    \<and> (\<forall>d \<in> set cs. affords (cd_stats d) f \<longrightarrow> \<not> cd_key d < cd_key c)"
  using assms
proof (induction fs)
  case (Cons g gs)
  show ?case
  proof (cases "least_loaded (filter (\<lambda>c. affords (cd_stats c) g) cs)")
    case None
    then obtain larger smaller where "gs = larger @ f # smaller" "\<forall>g \<in> set larger. \<forall>d \<in> set cs. \<not> affords (cd_stats d) g"
      "c \<in> set cs" "affords (cd_stats c) f" "\<forall>d \<in> set cs. affords (cd_stats d) f \<longrightarrow> \<not> cd_key d < cd_key c"
      using Cons by auto
    moreover have "\<forall>d \<in> set cs. \<not> affords (cd_stats d) g"
      using None by (auto simp: least_loaded_spec(1) filter_empty_conv)
    ultimately show ?thesis by (intro exI [of _ "g # larger"] exI [of _ smaller]) auto
  next
    case (Some d)
    with Cons.prems have "c = d" "f = g" by auto
    with least_loaded_spec(2) [OF Some] show ?thesis by (intro exI [of _ "[]"] exI [of _ gs]) auto
  qed
qed simp

text \<open>
  C35: The best fit is the best available.  A recommendation names a flavour that some candidate affords, no candidate
  affords any flavour listed before it, and the recommended host affords it with no other affording host of lower
  severity, or of equal severity and lower load; nothing is recommended only if no candidate affords any of them.
\<close>

theorem best_fit_is_best:
  "case best_fit cs fs of
     None \<Rightarrow> \<not> (\<exists>f c. f \<in> set fs \<and> c \<in> set cs \<and> affords (cd_stats c) f)
   | Some (c, f) \<Rightarrow> (\<exists>larger smaller. fs = larger @ f # smaller
       \<and> \<not> (\<exists>g d. g \<in> set larger \<and> d \<in> set cs \<and> affords (cd_stats d) g)
       \<and> c \<in> set cs \<and> affords (cd_stats c) f
       \<and> \<not> (\<exists>d. d \<in> set cs \<and> affords (cd_stats d) f \<and> cd_key d < cd_key c))"
proof (cases "best_fit cs fs")
  case None
  then show ?thesis using best_fit_cases [of cs fs] by auto
next
  case (Some cf)
  obtain c f where cf: "cf = (c, f)" by force
  show ?thesis using best_fit_Some [of cs fs c f] Some unfolding cf by simp blast
qed

section \<open>Roles of a language-model build\<close>

lemma assign_role_spec:
  assumes "assign_role hosts taken = Some h"
  shows "h \<in> set hosts \<and> usable h \<and> (\<forall>g \<in> set hosts. usable g \<longrightarrow> lh_hostname g \<notin> set taken \<longrightarrow>
    lh_hostname h \<notin> set taken \<and> \<not> rank g > rank h)"
proof -
  let ?us = "filter usable hosts"
  let ?fresh = "filter (\<lambda>h. lh_hostname h \<notin> set taken) ?us"
  obtain x xs where xs: "(if ?fresh \<noteq> [] then ?fresh else ?us) = x # xs" and h: "h = first_best (\<lambda>a b. rank a > rank b) x xs"
    using assms by (auto simp: assign_role_def Let_def split: list.splits if_splits)
  have h_in: "h \<in> set (x # xs)" unfolding h by (rule faster.first_best_in)
  have best: "\<not> rank g > rank h" if "g \<in> set (x # xs)" for g unfolding h using that by (rule faster.first_best_unbeaten)
  show ?thesis
  proof (cases "?fresh = []")
    case True
    with xs h_in have "h \<in> set ?us" by (metis (no_types, lifting))
    with True show ?thesis by (auto simp: filter_empty_conv)
  next
    case False
    with xs have "set (x # xs) = set ?fresh" by (metis (no_types, lifting))
    with h_in best show ?thesis by auto
  qed
qed

lemma assign_role_None: "assign_role hosts taken = None \<Longrightarrow> \<not> (\<exists>h \<in> set hosts. usable h)"
  by (auto simp: assign_role_def Let_def filter_empty_conv split: list.splits if_splits)

lemma assign_roles_spread:
  assumes "length rs \<le> card (lh_hostname ` {h \<in> set hosts. usable h} - set taken)"
  shows "\<exists>hs. map snd (assign_roles hosts taken rs) = map Some hs \<and> distinct (map lh_hostname hs)
    \<and> list_all (\<lambda>h. h \<in> set hosts \<and> usable h \<and> lh_hostname h \<notin> set taken) hs"
  using assms
proof (induction rs arbitrary: taken)
  case Nil
  then show ?case by (intro exI [of _ "[]"]) simp
next
  case (Cons r rs)
  let ?N = "lh_hostname ` {h \<in> set hosts. usable h}"
  have "?N - set taken \<noteq> {}" using Cons.prems by (metis card.empty le_zero_eq length_0_conv list.discI)
  then obtain g where g: "g \<in> set hosts" "usable g" "lh_hostname g \<notin> set taken" by auto
  then obtain h where h: "assign_role hosts taken = Some h" using assign_role_None by (cases "assign_role hosts taken") auto
  have hs: "h \<in> set hosts" "usable h" "lh_hostname h \<notin> set taken" using assign_role_spec [OF h] g by auto
  have S: "?N - set (lh_hostname h # taken) = (?N - set taken) - {lh_hostname h}" by auto
  have "card (?N - set taken) = Suc (card (?N - set (lh_hostname h # taken)))"
    unfolding S by (rule card.remove) (use hs in auto)
  then obtain hs' where hs': "map snd (assign_roles hosts (lh_hostname h # taken) rs) = map Some hs'" "distinct (map lh_hostname hs')"
      "list_all (\<lambda>h'. h' \<in> set hosts \<and> usable h' \<and> lh_hostname h' \<notin> set (lh_hostname h # taken)) hs'"
    using Cons.IH [of "lh_hostname h # taken"] Cons.prems by auto
  show ?case
    by (rule exI [of _ "h # hs'"]) (use h hs hs' in \<open>auto simp: list_all_iff\<close>)
qed

text \<open>
  The roles of a language-model build are spread.  When at least as many host names have a usable host (not red, with
  a large enough flavour it affords) as there are roles, every role gets a usable host, and no two roles the same.
\<close>

theorem llm_roles_spread:
  assumes "length (take 6 roles) \<le>
    card (lh_hostname ` {h \<in> set (map (llm_host_of bench (big_flavors min_ram flavors)) candidates). usable h})"
  shows "\<exists>hs. map snd (recommend_llm_placement candidates bench min_ram flavors roles) = map Some hs
    \<and> distinct (map lh_hostname hs) \<and> list_all usable hs"
  using assign_roles_spread [of "take 6 roles" "map (llm_host_of bench (big_flavors min_ram flavors)) candidates" "[]"] assms
  by (auto simp: recommend_llm_placement_def list_all_iff)

definition demo_view :: host_view where
  "demo_view = \<lparr>hv_cores = 8, hv_load_pct = 10, hv_mem_available_mb = 14000, hv_mem_used_pct = 20, hv_disk_free_gb = 200, hv_disk_used_pct = 30\<rparr>"

definition demo_candidates :: "candidate list" where
  "demo_candidates = [\<lparr>cd_peer_id = None, cd_hostname = ''here'', cd_stats = demo_view\<rparr>, \<lparr>cd_peer_id = Some ''p1'', cd_hostname = ''east'', cd_stats = demo_view\<rparr>]"

lemma demo_affords: "affords demo_view ''standard.xlarge''" "verdict demo_view = Green"
  by (simp_all add: affords_def FLAVORS_def demo_view_def required_mb_def HEADROOM_FACTOR_def HOST_RESERVED_CORES_def
      verdict_def tier_def)

lemma demo_usable:
  "c \<in> set demo_candidates \<Longrightarrow> usable (llm_host_of b (big_flavors 8000 [''standard.xlarge'']) c)"
  by (auto simp: demo_candidates_def usable_def llm_host_of_def big_flavors_def FLAVORS_def truthy_def demo_affords)

theorem llm_roles_spread_witness:
  "\<exists>hs. map snd (recommend_llm_placement demo_candidates (\<lambda>c. Some 5) 8000 [''standard.xlarge''] [''answer'', ''lab'']) = map Some hs
    \<and> distinct (map lh_hostname hs) \<and> list_all usable hs \<and> length hs = 2"
proof -
  let ?h = "llm_host_of (\<lambda>c. Some 5) (big_flavors 8000 [''standard.xlarge''])"
  have names: "lh_hostname (?h c) = cd_hostname c" for c by (simp add: lh_hostname_def llm_host_of_def)
  have "lh_hostname ` {h \<in> set (map ?h demo_candidates). usable h} = cd_hostname ` set demo_candidates"
    using demo_usable [of _ "\<lambda>c. Some 5"] by (force simp: names image_iff)
  also have "card \<dots> = 2" by (simp add: demo_candidates_def)
  finally have c: "length (take 6 [''answer'', ''lab'']) \<le> card (lh_hostname ` {h \<in> set (map ?h demo_candidates). usable h})" by simp
  obtain hs where hs: "map snd (recommend_llm_placement demo_candidates (\<lambda>c. Some 5) 8000 [''standard.xlarge''] [''answer'', ''lab'']) = map Some hs"
    "distinct (map lh_hostname hs)" "list_all usable hs"
    using llm_roles_spread [OF c] by blast
  have len: "length (assign_roles H t rs) = length rs" for H t rs
    by (induction rs arbitrary: t) (simp_all split: option.splits)
  have "length hs = 2"
    using arg_cong [OF hs(1), of length] by (simp add: recommend_llm_placement_def len del: assign_roles.simps)
  then show ?thesis using hs by blast
qed

section \<open>The layer split\<close>

definition weights_fit :: "int \<Rightarrow> nat \<Rightarrow> int \<Rightarrow> nat \<Rightarrow> bool" where
  "weights_fit total_layers model_bytes n mb \<longleftrightarrow>
     of_int n * (of_nat model_bytes / of_int total_layers) \<le> (of_nat mb * SAFE_WEIGHT_FRACTION * MB :: rat)"

lemma max_layers_iff:
  assumes "0 < model_bytes" "0 < total_layers"
  shows "n \<le> max_layers total_layers model_bytes mb \<longleftrightarrow> weights_fit total_layers model_bytes n mb"
proof -
  have "(0::rat) < of_nat model_bytes / of_int total_layers" using assms by simp
  then show ?thesis by (simp only: max_layers_def weights_fit_def le_floor_iff pos_le_divide_eq)
qed

lemma clamp_split_bounds: "2 \<le> t \<Longrightarrow> 1 \<le> clamp_split t n \<and> clamp_split t n \<le> t - 1"
  by (simp add: clamp_split_def)

lemma offload_bounds:
  "compute_offload_layers bc bytes co ws cm wm = Some n \<Longrightarrow> \<exists>t. bc = Some t \<and> 1 \<le> n \<and> n \<le> t - 1"
  using clamp_split_bounds
  by (auto simp: compute_offload_layers_def cpu_layers_def Let_def split: option.splits if_splits)

text \<open>
  The computed split leaves at least one layer on each side, and when both flavours are known and each has room
  for at least one layer, the share of the model's bytes on either side stays within the safe part of its memory.
\<close>

theorem offload_split_fits:
  assumes "compute_offload_layers (Some t) bytes co ws (Some cm) (Some wm) = Some n" and "0 < bytes" and "0 < cm" and "0 < wm"
    and "weights_fit t bytes 1 cm" and "weights_fit t bytes 1 wm"
  shows "1 \<le> n \<and> n \<le> t - 1 \<and> weights_fit t bytes n wm \<and> weights_fit t bytes (t - n) cm"
proof -
  let ?W = "max_layers t bytes wm" and ?C = "max_layers t bytes cm"
  have t: "2 \<le> t" using assms(1) by (auto simp: compute_offload_layers_def split: if_splits)
  then have iff: "k \<le> max_layers t bytes mb \<longleftrightarrow> weights_fit t bytes k mb" for k mb
    using max_layers_iff [of bytes t k mb] assms(2) by simp
  obtain l where le: "t - ?C \<le> ?W" and n: "n = clamp_split t (max (min l ?W) (t - ?C))"
    using assms(1,3,4) by (auto simp: compute_offload_layers_def Let_def split: if_splits)
  have "1 \<le> ?C" "1 \<le> ?W" using assms(5,6) iff by auto
  then have "n \<le> ?W" "t - n \<le> ?C" using le t by (auto simp: n clamp_split_def)
  then show ?thesis using clamp_split_bounds [OF t] iff n by simp
qed

theorem offload_split_fits_witness:
  "\<exists>n. compute_offload_layers (Some 48) 9000000000 demo_view [demo_view] (Some 8192) (Some 8192) = Some n \<and> 1 \<le> n \<and> n \<le> 47
     \<and> weights_fit 48 9000000000 n 8192 \<and> weights_fit 48 9000000000 (48 - n) 8192"
proof -
  have one: "weights_fit 48 9000000000 1 8192" by (simp add: weights_fit_def SAFE_WEIGHT_FRACTION_def MB_def)
  have f: "max_layers 48 9000000000 8192 = 34"
    by (simp add: max_layers_def SAFE_WEIGHT_FRACTION_def MB_def floor_eq_iff)
  have "compute_offload_layers (Some 48) 9000000000 demo_view [demo_view] (Some 8192) (Some 8192) = Some 24"
    by (simp add: compute_offload_layers_def f effective_capacity_def demo_view_def MIN_FREE_FRACTION_def cpu_layers_def
        clamp_split_def py_round_def Let_def)
  then show ?thesis using offload_split_fits [OF _ _ _ _ one one] by force
qed

text \<open>When the worker's flavour has no room for a single layer but the coordinator's holds the whole model, the last clamp
  gives the worker one layer all the same, although the function promises to return nothing then.\<close>

lemma offload_split_overfills_worker:
  "compute_offload_layers (Some 2) 1073741824 demo_view [demo_view] (Some 8192) (Some 512) = Some 1"
  "\<not> weights_fit 2 1073741824 1 512"
proof -
  have f: "max_layers 2 1073741824 8192 = 12" "max_layers 2 1073741824 512 = 0"
    by (simp_all add: max_layers_def SAFE_WEIGHT_FRACTION_def MB_def floor_eq_iff)
  show "compute_offload_layers (Some 2) 1073741824 demo_view [demo_view] (Some 8192) (Some 512) = Some 1"
    by (simp add: compute_offload_layers_def f effective_capacity_def demo_view_def MIN_FREE_FRACTION_def cpu_layers_def
        clamp_split_def py_round_def Let_def)
  show "\<not> weights_fit 2 1073741824 1 512" by (simp add: weights_fit_def SAFE_WEIGHT_FRACTION_def MB_def)
qed

text \<open>
  The split never overrides a choice.  Applying it changes no variable but \<^verbatim>\<open>rpc_offload_layers\<close>, and that one only
  when the caller had left it blank and the template has it, to a number between one and all but one of the model's
  layers.
\<close>

theorem maybe_apply_respects_choice:
  "maybe_apply env vars schema = vars
   \<or> (\<exists>n model t. maybe_apply env vars schema = jset vars ''rpc_offload_layers'' (JInt n) \<and> \<not> chosen_already vars
        \<and> map_of schema ''rpc_offload_layers'' \<noteq> None \<and> se_block_count env model = Some t \<and> 1 \<le> n \<and> n \<le> t - 1)"
proof (cases "split_layers env vars schema")
  case (Some n)
  then have "\<not> chosen_already vars" "map_of schema ''rpc_offload_layers'' \<noteq> None"
    by (auto simp: split_layers_def split: if_splits)
  moreover obtain model bytes co ws cm wm where "compute_offload_layers (se_block_count env model) bytes co ws cm wm = Some n"
    using Some by (auto simp: split_layers_def Let_def split: if_splits jval.splits option.splits)
  ultimately show ?thesis using offload_bounds [of "se_block_count env model"] Some unfolding maybe_apply_def by fastforce
qed (simp add: maybe_apply_def)

end
