(* ===== verification/Lfs_Build.thy ===== *)
theory Lfs_Build
  imports Host "HOL-Library.Product_Lexorder"
begin

text \<open>
  \<^verbatim>\<open>api/lfs_build.py\<close>: the queue of tasks of a Linux-From-Scratch build, planned from the sections of the books,
  and the journal in which everything that happens to the build is written.

  The section files are arguments; so are the source's regular expressions over titles, subsections and commands,
  as the predicates of \<open>book_rules\<close>, since nothing here depends on what they match.  Times are texts.
\<close>

section \<open>Books\<close>

record book_command =
  cm_text :: string
  cm_subsection :: "string option"
  cm_note :: string               \<comment> \<open>the title of the note that the command stands in, or empty\<close>
  cm_as_root :: bool

record book_section =
  bs_book :: string
  bs_path :: string
  bs_number :: string
  bs_title :: string
  bs_package :: string
  bs_version :: string
  bs_stage :: string
  bs_chapter :: string
  bs_commands :: "book_command list"

record book_rules =
  br_high_risk :: "string \<Rightarrow> bool"
  br_skip_subsection :: "string \<Rightarrow> bool"
  br_skip_commands :: "((string \<Rightarrow> bool) \<times> string) list"

definition HOST_ROOT_SECTIONS :: "string list" where "HOST_ROOT_SECTIONS = [''7.2'', ''7.3'', ''7.4'']"
definition COMMANDLESS :: "string list" where "COMMANDLESS = [''2.4'']"
definition BLFS_STAGE1 :: "(string \<times> string) list" where
  "BLFS_STAGE1 = [(''general/popt.html'', ''10.4''), (''postlfs/efivar.html'', ''10.4''),
     (''postlfs/efibootmgr.html'', ''10.4''), (''postlfs/openssh.html'', ''end'')]"
definition LFS_CHAPTERS :: "string list" where
  "LFS_CHAPTERS = [''chapter02'', ''chapter03'', ''chapter04'', ''chapter05'', ''chapter06'', ''chapter07'', ''chapter08'',
     ''chapter09'', ''chapter10'', ''chapter11'']"

section \<open>Planning\<close>

definition num_key :: "string \<Rightarrow> nat list" where
  "num_key number = map (\<lambda>p. if p \<noteq> [] \<and> list_all is_digit p then the (int_tail 0 p) else 0) (split_on (CHR ''.'') number)"

text \<open>The order of tuples: component by component, a proper prefix first.\<close>

fun tuple_less :: "nat list \<Rightarrow> nat list \<Rightarrow> bool" where
  "tuple_less xs [] = False"
| "tuple_less [] (y # ys) = True"
| "tuple_less (x # xs) (y # ys) = (x < y \<or> x = y \<and> tuple_less xs ys)"

text \<open>\<open>None\<close> is the \<^verbatim>\<open>ValueError\<close> of \<^verbatim>\<open>int()\<close>.\<close>

definition chapter_number :: "string \<Rightarrow> int option" where
  "chapter_number chapter =
     (if startswith chapter ''chapter'' then
        (let r = removeprefix chapter ''chapter'' in if r = [] then Some 0 else py_int r)
      else Some 0)"

definition context_of :: "book_section \<Rightarrow> string option" where
  "context_of s = map_option (\<lambda>ch.
     if bs_book s = ''blfs'' then ''chroot''
     else if ch \<le> 3 \<or> (ch = 4 \<and> tuple_less (num_key (bs_number s)) [4, 4]) then ''host-root''
     else if ch \<le> 6 \<or> ch = 4 then ''host-lfs''
     else if bs_number s \<in> set HOST_ROOT_SECTIONS then ''host-root''
     else ''chroot'') (chapter_number (bs_chapter s))"

text \<open>A stable sort by the section number.\<close>

fun insort_num :: "book_section \<Rightarrow> book_section list \<Rightarrow> book_section list" where
  "insort_num s [] = [s]"
| "insort_num s (x # xs) =
     (if tuple_less (num_key (bs_number x)) (num_key (bs_number s)) then x # insort_num s xs else s # x # xs)"

definition sort_sections :: "book_section list \<Rightarrow> book_section list" where
  "sort_sections ss = foldr insort_num ss []"

definition lfs_sections :: "book_section list \<Rightarrow> book_section list" where
  "lfs_sections ss = sort_sections (filter (\<lambda>s. (bs_commands s \<noteq> [] \<or> bs_number s \<in> set COMMANDLESS) \<and> bs_chapter s \<in> set LFS_CHAPTERS) ss)"

text \<open>\<^verbatim>\<open>{s["path"]: s for s in ...}\<close>: the last section of a path.\<close>

definition section_at :: "book_section list \<Rightarrow> string \<Rightarrow> book_section option" where
  "section_at ss path = find (\<lambda>s. bs_path s = path) (rev ss)"

datatype plan_error = NoBlfsSection string | NoPlace string | BadChapter

text \<open>The extra packages by the section they come before, in the order of \<^verbatim>\<open>_BLFS_STAGE1\<close>.\<close>

fun stage1_sections :: "book_section list \<Rightarrow> (string \<times> string) list \<Rightarrow> plan_error + (string \<times> book_section) list" where
  "stage1_sections blfs [] = Inr []"
| "stage1_sections blfs ((path, before) # ps) =
     (case section_at blfs path of
        None \<Rightarrow> Inl (NoBlfsSection path)
      | Some s \<Rightarrow> raise_bind (stage1_sections blfs ps) (\<lambda>r. Inr ((before, s) # r)))"

definition extras_for :: "(string \<times> book_section) list \<Rightarrow> string \<Rightarrow> book_section list" where
  "extras_for extras before = map snd (filter (\<lambda>e. fst e = before) extras)"

text \<open>The loop over the LFS sections; a group of extras is used once (\<^verbatim>\<open>extras.pop\<close>), the rest is returned.\<close>

fun weave :: "(string \<times> book_section) list \<Rightarrow> book_section list \<Rightarrow> book_section list \<times> (string \<times> book_section) list" where
  "weave extras [] = ([], extras)"
| "weave extras (s # ss) =
     (let (os, rest) = weave (filter (\<lambda>e. fst e \<noteq> bs_number s) extras) ss
      in (extras_for extras (bs_number s) @ s # os, rest))"

record task =
  tk_seq :: nat
  tk_section :: book_section
  tk_context :: string
  tk_skip_subsections :: "string option list"
  tk_skip_commands :: "(nat \<times> string) list"
  tk_version_override :: string
  tk_high :: bool
  tk_checkpoint_after :: bool
  tk_n_commands :: int

definition ordered_sections :: "book_section list \<Rightarrow> book_section list \<Rightarrow> plan_error + book_section list" where
  "ordered_sections lfs blfs =
     raise_bind (stage1_sections blfs BLFS_STAGE1) (\<lambda>extras.
       let (os, rest) = weave extras (lfs_sections lfs)
       in (case filter (\<lambda>e. fst e \<noteq> ''end'') rest of
             [] \<Rightarrow> Inr (os @ extras_for rest ''end'')
           | e # _ \<Rightarrow> Inl (NoPlace (fst e))))"

definition group :: "book_section \<Rightarrow> string list" where
  "group s = (if bs_book s = ''blfs'' then [''blfs''] else [''lfs'', bs_chapter s])"

definition skipped_subsection :: "book_rules \<Rightarrow> string option \<Rightarrow> bool" where
  "skipped_subsection rules sub = br_skip_subsection rules (case sub of None \<Rightarrow> [] | Some s \<Rightarrow> s)"

definition skip_commands :: "book_rules \<Rightarrow> book_section \<Rightarrow> (nat \<times> string) list" where
  "skip_commands rules s =
     concat (map (\<lambda>(n, c). concat (map (\<lambda>(rx, why).
         if rx (cm_text c) \<and> \<not> skipped_subsection rules (cm_subsection c) then [(n, why)] else []) (br_skip_commands rules)))
       (enumerate 0 (bs_commands s)))"

definition plan_task :: "book_rules \<Rightarrow> string \<Rightarrow> nat \<Rightarrow> book_section \<Rightarrow> book_section option \<Rightarrow> task option" where
  "plan_task rules linux i s nxt =
     map_option (\<lambda>ctx. \<lparr>tk_seq = i + 1, tk_section = s, tk_context = ctx,
       tk_skip_subsections = remdups (filter (skipped_subsection rules) (map cm_subsection (bs_commands s))),
       tk_skip_commands = skip_commands rules s,
       tk_version_override = (if bs_package s = ''Linux'' \<and> bs_version s \<noteq> linux then linux else []),
       tk_high = br_high_risk rules (bs_title s),
       tk_checkpoint_after = (case nxt of None \<Rightarrow> True | Some n \<Rightarrow> group n \<noteq> group s),
       tk_n_commands = int (length (filter (\<lambda>c. \<not> skipped_subsection rules (cm_subsection c)) (bs_commands s)))
                       - int (length (skip_commands rules s))\<rparr>) (context_of s)"

fun plan_tasks :: "book_rules \<Rightarrow> string \<Rightarrow> nat \<Rightarrow> book_section list \<Rightarrow> plan_error + task list" where
  "plan_tasks rules linux i [] = Inr []"
| "plan_tasks rules linux i (s # ss) =
     (case plan_task rules linux i s (case ss of [] \<Rightarrow> None | n # _ \<Rightarrow> Some n) of
        None \<Rightarrow> Inl BadChapter
      | Some t \<Rightarrow> raise_bind (plan_tasks rules linux (Suc i) ss) (\<lambda>ts. Inr (t # ts)))"

definition plan_queue :: "book_rules \<Rightarrow> book_section list \<Rightarrow> book_section list \<Rightarrow> string \<Rightarrow> plan_error + task list" where
  "plan_queue rules lfs blfs linux = raise_bind (ordered_sections lfs blfs) (plan_tasks rules linux 0)"

section \<open>Tables\<close>

record lfs_build =
  lb_bid :: nat
  lb_bname :: string
  lb_kernel :: string
  lb_bstatus :: string
  lb_build_vm_id :: "string option"
  lb_updated_at :: string
  lb_heartbeat_at :: "string option"

record lfs_task =
  lt_id :: nat
  lt_build_id :: nat
  lt_task :: task
  lt_state :: string
  lt_attempts :: nat
  lt_started_at :: "string option"
  lt_finished_at :: "string option"
  lt_updated_at :: string

record journal_entry =
  je_id :: nat
  je_build_id :: nat
  je_task_id :: "nat option"
  je_at :: string
  je_who :: string
  je_kind :: string
  je_text :: string

text \<open>\<^verbatim>\<open>AUTOINCREMENT\<close> never uses an identifier twice; nothing is ever deleted from these tables, so the next
  identifier is the number of rows plus one.\<close>

record lfs_db =
  lfs_builds :: "lfs_build list"
  lfs_tasks :: "lfs_task list"
  lfs_journal :: "journal_entry list"

definition STATES :: "string list" where
  "STATES = [''waiting'', ''running'', ''done'', ''stuck'', ''escalated'', ''skipped'']"
definition WHO :: "string list" where
  "WHO = [''llm-chat'', ''claude'', ''lab'', ''sentinel'', ''paul'', ''controller'']"
definition ENTRY_KINDS :: "string list" where
  "ENTRY_KINDS = [''proposal'', ''command'', ''result'', ''lesson'', ''escalation'', ''note'', ''state'', ''checkpoint'']"
definition BUILD_STATUSES :: "string list" where
  "BUILD_STATUSES = [''planned'', ''running'', ''paused'', ''done'', ''failed'']"

definition journal :: "nat \<Rightarrow> nat option \<Rightarrow> string \<Rightarrow> string \<Rightarrow> string \<Rightarrow> string \<Rightarrow> lfs_db \<Rightarrow> lfs_db \<times> nat" where
  "journal build_id task_id now who kind text db =
     (let i = Suc (length (lfs_journal db)) in
      (db\<lparr>lfs_journal := lfs_journal db @ [\<lparr>je_id = i, je_build_id = build_id, je_task_id = task_id, je_at = now,
         je_who = who, je_kind = kind, je_text = take 20000 text\<rparr>]\<rparr>, i))"

section \<open>Operations\<close>

definition task_rows :: "nat \<Rightarrow> nat \<Rightarrow> string \<Rightarrow> task list \<Rightarrow> lfs_task list" where
  "task_rows first bid now ts =
     map (\<lambda>(n, t). \<lparr>lt_id = first + n, lt_build_id = bid, lt_task = t, lt_state = ''waiting'', lt_attempts = 0,
        lt_started_at = None, lt_finished_at = None, lt_updated_at = now\<rparr>) (enumerate 0 ts)"

text \<open>The planned queue is the argument: an error of \<^verbatim>\<open>plan_queue\<close> or of reading its files is 409.  \<^verbatim>\<open>tasks[0]\<close> of an
  empty queue raises, after the row of the build was inserted but before the commit; \<open>None\<close> is that exception.\<close>

definition create_build ::
    "(plan_error + task list) \<Rightarrow> string \<Rightarrow> string \<Rightarrow> string \<Rightarrow> string \<Rightarrow> lfs_db \<Rightarrow> (lfs_db \<times> nat reply) option" where
  "create_build planned raw_name linux note now db =
     (let name = take 80 (py_strip raw_name) in
      if name = [] then Some (db, Problem 400 ''Bad Request'')
      else (case planned of
          Inl e \<Rightarrow> Some (db, Problem 409 ''Conflict'')
        | Inr tasks \<Rightarrow>
            if tasks = [] then None
            else
              let bid = Suc (length (lfs_builds db));
                  db1 = db\<lparr>lfs_builds := lfs_builds db @ [\<lparr>lb_bid = bid, lb_bname = name, lb_kernel = linux, lb_bstatus = ''planned'',
                            lb_build_vm_id = None, lb_updated_at = now, lb_heartbeat_at = None\<rparr>],
                          lfs_tasks := lfs_tasks db @ task_rows (Suc (length (lfs_tasks db))) bid now tasks\<rparr>
              in Some (fst (journal bid None now ''controller'' ''note'' note db1), Reply 201 bid)))"

definition find_build :: "lfs_db \<Rightarrow> nat \<Rightarrow> lfs_build option" where
  "find_build db bid = find (\<lambda>b. lb_bid b = bid) (lfs_builds db)"

definition find_task :: "lfs_db \<Rightarrow> nat \<Rightarrow> lfs_task option" where
  "find_task db tid = find (\<lambda>t. lt_id t = tid) (lfs_tasks db)"

definition set_build :: "nat \<Rightarrow> (lfs_build \<Rightarrow> lfs_build) \<Rightarrow> lfs_db \<Rightarrow> lfs_db" where
  "set_build bid f db = db\<lparr>lfs_builds := map (\<lambda>b. if lb_bid b = bid then f b else b) (lfs_builds db)\<rparr>"

definition update_build ::
    "nat \<Rightarrow> string option \<Rightarrow> string option \<Rightarrow> string \<Rightarrow> string \<Rightarrow> lfs_db \<Rightarrow> lfs_db \<times> unit reply" where
  "update_build bid status build_vm_id note now db =
     (let st = map_option (take 80) status; vm = map_option (take 80) build_vm_id in
      if st \<noteq> None \<and> the st \<notin> set BUILD_STATUSES then (db, Problem 400 ''Bad Request'')
      else if st = None \<and> vm = None then (db, Problem 400 ''Bad Request'')
      else if find_build db bid = None then (db, Problem 404 ''Not Found'')
      else
        let db1 = set_build bid (\<lambda>b. b\<lparr>lb_bstatus := (case st of None \<Rightarrow> lb_bstatus b | Some s \<Rightarrow> s),
                    lb_build_vm_id := (case vm of None \<Rightarrow> lb_build_vm_id b | Some v \<Rightarrow> Some v), lb_updated_at := now\<rparr>) db
        in (fst (journal bid None now ''controller'' ''note'' note db1), Reply 200 ()))"

definition heartbeat :: "nat \<Rightarrow> string \<Rightarrow> lfs_db \<Rightarrow> lfs_db \<times> unit reply" where
  "heartbeat bid now db =
     (if find_build db bid = None then (db, Problem 404 ''Not Found'')
      else (set_build bid (\<lambda>b. b\<lparr>lb_heartbeat_at := Some now\<rparr>) db, NoContent 204))"

text \<open>\<^verbatim>\<open>ORDER BY seq\<close>; \<^verbatim>\<open>(build_id, seq)\<close> is unique.\<close>

definition list_tasks :: "nat \<Rightarrow> string option \<Rightarrow> lfs_db \<Rightarrow> lfs_task list" where
  "list_tasks bid state db =
     sort_key (\<lambda>t. tk_seq (lt_task t))
       (filter (\<lambda>t. lt_build_id t = bid \<and> (if truthy state then Some (lt_state t) = state else True)) (lfs_tasks db))"

definition closed_state :: "string \<Rightarrow> bool" where
  "closed_state s \<longleftrightarrow> s \<in> {''done'', ''skipped''}"

definition next_task :: "nat \<Rightarrow> lfs_db \<Rightarrow> lfs_task option" where
  "next_task bid db =
     (case sort_key (\<lambda>t. tk_seq (lt_task t)) (filter (\<lambda>t. lt_build_id t = bid \<and> \<not> closed_state (lt_state t)) (lfs_tasks db)) of
        [] \<Rightarrow> None | t # _ \<Rightarrow> Some t)"

definition move_task :: "string \<Rightarrow> string \<Rightarrow> lfs_task \<Rightarrow> lfs_task" where
  "move_task state now t =
     (let t1 = t\<lparr>lt_state := state, lt_updated_at := now\<rparr>;
          t2 = (if state = ''running''
                then t1\<lparr>lt_started_at := (if truthy (lt_started_at t) then lt_started_at t else Some now), lt_attempts := lt_attempts t + 1\<rparr>
                else t1)
      in if closed_state state then t2\<lparr>lt_finished_at := Some now\<rparr> else t2)"

definition state_note :: "string \<Rightarrow> string \<Rightarrow> string \<Rightarrow> string" where
  "state_note old_state new_state why = old_state @ '' -> '' @ new_state @ (if why = [] then [] else '': '' @ why)"

definition set_task_state ::
    "nat \<Rightarrow> string \<Rightarrow> string \<Rightarrow> string \<Rightarrow> string \<Rightarrow> lfs_db \<Rightarrow> lfs_db \<times> lfs_task reply" where
  "set_task_state tid state who why now db =
     (if state \<notin> set STATES \<or> who \<notin> set WHO then (db, Problem 400 ''Bad Request'')
      else (case find_task db tid of
          None \<Rightarrow> (db, Problem 404 ''Not Found'')
        | Some r \<Rightarrow>
            let db1 = db\<lparr>lfs_tasks := map (\<lambda>t. if lt_id t = tid then move_task state now r else t) (lfs_tasks db)\<rparr>;
                db2 = set_build (lt_build_id r) (\<lambda>b. b\<lparr>lb_updated_at := now,
                        lb_bstatus := (if lb_bstatus b = ''planned'' then ''running'' else lb_bstatus b)\<rparr>) db1
            in (fst (journal (lt_build_id r) (Some tid) now who ''state'' (state_note (lt_state r) state why) db2),
                Reply 200 (move_task state now r))))"

definition add_journal :: "nat \<Rightarrow> string \<Rightarrow> string \<Rightarrow> string \<Rightarrow> string \<Rightarrow> lfs_db \<Rightarrow> lfs_db \<times> nat reply" where
  "add_journal tid who kind raw_text now db =
     (let text = py_strip raw_text in
      if who \<notin> set WHO \<or> kind \<notin> set ENTRY_KINDS \<or> text = [] then (db, Problem 400 ''Bad Request'')
      else (case find_task db tid of
          None \<Rightarrow> (db, Problem 404 ''Not Found'')
        | Some r \<Rightarrow> (case journal (lt_build_id r) (Some tid) now who kind text db of (db', i) \<Rightarrow> (db', Reply 201 i))))"

text \<open>\<^verbatim>\<open>_build_dict\<close>: the number of tasks in each state that occurs, and their total.\<close>

definition task_counts :: "nat \<Rightarrow> lfs_db \<Rightarrow> (string \<times> nat) list" where
  "task_counts bid db =
     (let ts = filter (\<lambda>t. lt_build_id t = bid) (lfs_tasks db)
      in map (\<lambda>s. (s, length (filter (\<lambda>t. lt_state t = s) ts))) (remdups (map lt_state ts)))"

definition task_total :: "nat \<Rightarrow> lfs_db \<Rightarrow> nat" where
  "task_total bid db = sum_list (map snd (task_counts bid db))"

text \<open>The entries of \<^verbatim>\<open>journal.md\<close> in order: those of the build, then those of each task that has any or has been
  touched, in the order of the queue.\<close>

definition journal_markdown :: "nat \<Rightarrow> lfs_db \<Rightarrow> (journal_entry list \<times> (lfs_task \<times> journal_entry list) list) option" where
  "journal_markdown bid db =
     (if find_build db bid = None then None
      else Some (filter (\<lambda>j. je_build_id j = bid \<and> je_task_id j = None) (lfs_journal db),
        filter (\<lambda>te. \<not> (snd te = [] \<and> lt_state (fst te) = ''waiting''))
          (map (\<lambda>t. (t, filter (\<lambda>j. je_task_id j = Some (lt_id t)) (lfs_journal db))) (list_tasks bid None db))))"

end
