(* ===== verification/Lfs_Props.thy ===== *)
theory Lfs_Props
  imports Lfs_Build
begin

text \<open>
  Properties of the LFS build: the planned queue is the book in its order with the BLFS packages where the stage
  needs them, the queue is worked through in that order, and the journal is only ever appended to and records every
  change of a task's state.
\<close>

section \<open>The plan\<close>

lemma tuple_less_irrefl: "\<not> tuple_less xs xs"
  by (induction xs) auto

lemma tuple_less_trans: "tuple_less xs ys \<Longrightarrow> tuple_less ys zs \<Longrightarrow> tuple_less xs zs"
proof (induction xs ys arbitrary: zs rule: tuple_less.induct)
  case (2 y ys)
  then show ?case by (cases zs) auto
next
  case (3 x xs y ys)
  then show ?case by (cases zs) auto
qed simp

lemma tuple_less_cotrans: "tuple_less xs zs \<Longrightarrow> tuple_less xs ys \<or> tuple_less ys zs"
proof (induction xs zs arbitrary: ys rule: tuple_less.induct)
  case (2 z zs)
  then show ?case by (cases ys) auto
next
  case (3 x xs z zs)
  then show ?case by (cases ys) (auto simp: neq_iff)
qed simp

definition book_order :: "book_section \<Rightarrow> book_section \<Rightarrow> bool" where
  "book_order a b \<longleftrightarrow> \<not> tuple_less (num_key (bs_number b)) (num_key (bs_number a))"

lemma book_order_trans: "book_order a b \<Longrightarrow> book_order b c \<Longrightarrow> book_order a c"
  unfolding book_order_def using tuple_less_cotrans by blast

lemma book_order_less: "tuple_less (num_key (bs_number a)) (num_key (bs_number b)) \<Longrightarrow> book_order a b"
  unfolding book_order_def using tuple_less_trans tuple_less_irrefl by blast

lemma set_insort_num [simp]: "set (insort_num s xs) = insert s (set xs)"
  by (induction xs) auto

lemma sorted_insort_num: "sorted_wrt book_order xs \<Longrightarrow> sorted_wrt book_order (insort_num s xs)"
proof (induction xs)
  case (Cons x xs)
  then show ?case
    using book_order_less [of x s] book_order_trans [of s x] by (auto simp: book_order_def [of s x])
qed simp

lemma lfs_sections_sorted: "sorted_wrt book_order (lfs_sections ss)"
  unfolding lfs_sections_def sort_sections_def by (induction ss) (auto simp: sorted_insort_num)

lemma set_lfs_sections:
  "set (lfs_sections ss) = {s \<in> set ss. (bs_commands s \<noteq> [] \<or> bs_number s \<in> set COMMANDLESS) \<and> bs_chapter s \<in> set LFS_CHAPTERS}"
proof -
  have "set (foldr insort_num xs []) = set xs" for xs by (induction xs) auto
  then show ?thesis by (auto simp: lfs_sections_def sort_sections_def)
qed

lemma weave_none:
  assumes "\<forall>s \<in> set ss. \<forall>e \<in> set extras. fst e \<noteq> bs_number s"
  shows "weave extras ss = (ss, extras)"
  using assms
proof (induction ss)
  case (Cons s ss)
  then have "filter (\<lambda>e. fst e \<noteq> bs_number s) extras = extras" "extras_for extras (bs_number s) = []"
    by (auto simp: extras_for_def filter_id_conv filter_empty_conv)
  with Cons show ?case by simp
qed simp

lemma weave_split:
  assumes "\<forall>s \<in> set a. bs_number s \<noteq> k" "bs_number s = k" "\<forall>s \<in> set (a @ b). bs_number s \<noteq> ''end''" "k \<noteq> ''end''"
    "\<forall>e \<in> set extras. fst e = k \<or> fst e = ''end''"
  shows "weave extras (a @ s # b) = (a @ extras_for extras k @ s # b, filter (\<lambda>e. fst e = ''end'') extras)"
  using assms
proof (induction a)
  case Nil
  have "filter (\<lambda>e. fst e \<noteq> k) extras = filter (\<lambda>e. fst e = ''end'') extras"
    using Nil.prems(4,5) by (intro filter_cong) auto
  moreover have "weave (filter (\<lambda>e. fst e = ''end'') extras) b = (b, filter (\<lambda>e. fst e = ''end'') extras)"
    using Nil.prems(3) by (intro weave_none) force
  ultimately show ?case using Nil.prems(2) by simp
next
  case (Cons x a)
  then have "filter (\<lambda>e. fst e \<noteq> bs_number x) extras = extras" "extras_for extras (bs_number x) = []"
    by (auto simp: extras_for_def filter_id_conv filter_empty_conv)
  with Cons show ?case by simp
qed

lemma plan_tasks_sections:
  "plan_tasks rules linux i ss = Inr ts \<Longrightarrow> map tk_section ts = ss \<and> map tk_seq ts = map (\<lambda>k. Suc (i + k)) [0..<length ss]"
proof (induction ss arbitrary: i ts)
  case (Cons s ss)
  then obtain t ts' where t: "plan_task rules linux i s (case ss of [] \<Rightarrow> None | n # _ \<Rightarrow> Some n) = Some t"
      "plan_tasks rules linux (Suc i) ss = Inr ts'" "ts = t # ts'"
    by (auto simp: raise_bind_Inr_iff split: option.splits)
  have "tk_section t = s" "tk_seq t = Suc i" using t(1) by (auto simp: plan_task_def)
  moreover have "[0..<length (s # ss)] = 0 # map Suc [0..<length ss]" by (simp add: upt_conv_Cons map_Suc_upt del: upt_Suc)
  ultimately show ?case using Cons.IH [OF t(2)] t(3) by (simp del: upt_Suc)
qed simp

lemma stage1_Inr:
  assumes "stage1_sections blfs BLFS_STAGE1 = Inr extras"
  shows "\<exists>popt efivar efibootmgr openssh. extras = [(''10.4'', popt), (''10.4'', efivar), (''10.4'', efibootmgr), (''end'', openssh)]
    \<and> map bs_path [popt, efivar, efibootmgr, openssh] = map fst BLFS_STAGE1
    \<and> set [popt, efivar, efibootmgr, openssh] \<subseteq> set blfs"
proof -
  have at: "section_at blfs p = Some s \<Longrightarrow> bs_path s = p \<and> s \<in> set blfs" for p s
    unfolding section_at_def by (metis (mono_tags, lifting) find_Some_iff nth_mem set_rev)
  show ?thesis
    using assms by (auto simp: BLFS_STAGE1_def raise_bind_Inr_iff dest!: at split: option.splits)
qed

lemma split_first_number:
  assumes "\<exists>s \<in> set ss. bs_number s = k"
  shows "\<exists>a s b. ss = a @ s # b \<and> bs_number s = k \<and> (\<forall>s \<in> set a. bs_number s \<noteq> k)"
  using split_list_first_prop [OF assms] by metis

lemma weave_missing:
  assumes "\<forall>s \<in> set ss. bs_number s \<noteq> k" "(k, x) \<in> set extras"
  shows "(k, x) \<in> set (snd (weave extras ss))"
  using assms by (induction ss arbitrary: extras) (auto simp: case_prod_beta)

text \<open>
  The planned queue is the book.  When planning succeeds (no section is numbered \<^verbatim>\<open>end\<close>), the tasks are numbered from 1 without
  gaps, and their sections are the LFS sections to build, ordered by section number, with popt, efivar and
  efibootmgr directly before the first section 10.4 and OpenSSH at the end; nothing is left out and nothing else
  is put in.
\<close>

theorem plan_queue_order:
  assumes "plan_queue rules lfs blfs linux = Inr ts" and "\<not> (\<exists>s \<in> set lfs. bs_number s = ''end'')"
  shows "map tk_seq ts = [1..<Suc (length ts)]
    \<and> (\<exists>a s b popt efivar efibootmgr openssh.
         lfs_sections lfs = a @ s # b \<and> bs_number s = ''10.4'' \<and> \<not> (\<exists>s' \<in> set a. bs_number s' = ''10.4'')
         \<and> sorted_wrt book_order (a @ s # b)
         \<and> map bs_path [popt, efivar, efibootmgr, openssh] = map fst BLFS_STAGE1 \<and> set [popt, efivar, efibootmgr, openssh] \<subseteq> set blfs
         \<and> map tk_section ts = a @ [popt, efivar, efibootmgr] @ s # b @ [openssh])"
proof -
  obtain os where o: "ordered_sections lfs blfs = Inr os" "plan_tasks rules linux 0 os = Inr ts"
    using assms(1) by (auto simp: plan_queue_def raise_bind_Inr_iff)
  have ts: "map tk_section ts = os" "map tk_seq ts = [1..<Suc (length ts)]"
    using plan_tasks_sections [OF o(2)] by (auto simp: map_Suc_upt simp del: upt_Suc dest: arg_cong [where f = length])
  obtain extras where e: "stage1_sections blfs BLFS_STAGE1 = Inr extras"
    using o(1) by (auto simp: ordered_sections_def raise_bind_Inr_iff)
  obtain p1 p2 p3 q where ex: "extras = [(''10.4'', p1), (''10.4'', p2), (''10.4'', p3), (''end'', q)]"
    and paths: "map bs_path [p1, p2, p3, q] = map fst BLFS_STAGE1" "set [p1, p2, p3, q] \<subseteq> set blfs"
    using stage1_Inr [OF e] by blast
  have no_end: "\<forall>s \<in> set (lfs_sections lfs). bs_number s \<noteq> ''end''" using assms(2) by (auto simp: set_lfs_sections)
  have "\<exists>s \<in> set (lfs_sections lfs). bs_number s = ''10.4''"
  proof (rule ccontr)
    assume "\<not> ?thesis"
    then have "(''10.4'', p1) \<in> set (snd (weave extras (lfs_sections lfs)))" by (intro weave_missing) (auto simp: ex)
    then have "filter (\<lambda>e. fst e \<noteq> ''end'') (snd (weave extras (lfs_sections lfs))) \<noteq> []" by (force simp: filter_empty_conv)
    then show False using o(1) by (auto simp: ordered_sections_def e case_prod_beta split: list.splits)
  qed
  then obtain a s b where l: "lfs_sections lfs = a @ s # b" "bs_number s = ''10.4''" "\<forall>s \<in> set a. bs_number s \<noteq> ''10.4''"
    using split_first_number by blast
  have "weave extras (a @ s # b) = (a @ extras_for extras ''10.4'' @ s # b, filter (\<lambda>e. fst e = ''end'') extras)"
    using l no_end by (intro weave_split) (auto simp: ex)
  then have "os = a @ [p1, p2, p3] @ s # b @ [q]"
    using o(1) by (simp add: ordered_sections_def e l(1) ex extras_for_def)
  then have "map tk_section ts = a @ [p1, p2, p3] @ s # b @ [q]" using ts(1) by simp
  moreover have "sorted_wrt book_order (a @ s # b)" using lfs_sections_sorted [of lfs] l(1) by simp
  ultimately show ?thesis using ts(2) l paths by blast
qed

definition demo_section :: "string \<Rightarrow> string \<Rightarrow> string \<Rightarrow> string \<Rightarrow> book_section" where
  "demo_section book path number chapter =
     \<lparr>bs_book = book, bs_path = path, bs_number = number, bs_title = path, bs_package = [], bs_version = [], bs_stage = [],
      bs_chapter = chapter, bs_commands = [\<lparr>cm_text = ''make'', cm_subsection = None, cm_note = [], cm_as_root = False\<rparr>]\<rparr>"

definition demo_lfs :: "book_section list" where
  "demo_lfs = [demo_section ''lfs'' ''c10/grub.html'' ''10.4'' ''chapter10'', demo_section ''lfs'' ''c05/gcc.html'' ''5.3'' ''chapter05'']"

definition demo_blfs :: "book_section list" where
  "demo_blfs = map (\<lambda>p. demo_section ''blfs'' (fst p) [] ''general'') BLFS_STAGE1"

definition demo_rules :: book_rules where
  "demo_rules = \<lparr>br_high_risk = (\<lambda>t. False), br_skip_subsection = (\<lambda>t. False), br_skip_commands = []\<rparr>"

lemma demo_plan: "map_option (map (bs_path \<circ> tk_section)) (case plan_queue demo_rules demo_lfs demo_blfs [] of Inl e \<Rightarrow> None | Inr ts \<Rightarrow> Some ts) =
  Some [''c05/gcc.html'', ''general/popt.html'', ''postlfs/efivar.html'', ''postlfs/efibootmgr.html'', ''c10/grub.html'', ''postlfs/openssh.html'']"
  by code_simp

theorem plan_queue_order_witness:
  "\<exists>ts. plan_queue demo_rules demo_lfs demo_blfs [] = Inr ts \<and> map tk_seq ts = [1..<Suc (length ts)]
    \<and> map (bs_path \<circ> tk_section) ts = [''c05/gcc.html'', ''general/popt.html'', ''postlfs/efivar.html'', ''postlfs/efibootmgr.html'',
         ''c10/grub.html'', ''postlfs/openssh.html'']"
proof -
  obtain ts where ts: "plan_queue demo_rules demo_lfs demo_blfs [] = Inr ts"
    "map (bs_path \<circ> tk_section) ts = [''c05/gcc.html'', ''general/popt.html'', ''postlfs/efivar.html'', ''postlfs/efibootmgr.html'',
         ''c10/grub.html'', ''postlfs/openssh.html'']"
    using demo_plan by (auto split: sum.splits)
  have "\<not> (\<exists>s \<in> set demo_lfs. bs_number s = ''end'')" by (simp add: demo_lfs_def demo_section_def)
  from plan_queue_order [OF ts(1) this] have "map tk_seq ts = [1..<Suc (length ts)]" by (rule conjunct1)
  then show ?thesis using ts by (intro exI [of _ ts] conjI)
qed

section \<open>Reachable states\<close>

inductive lfs_step :: "lfs_db \<Rightarrow> lfs_db \<Rightarrow> bool" where
  CreateBuild: "create_build (plan_queue rules lfs blfs linux) name linux note now db = Some (db', r) \<Longrightarrow> lfs_step db db'"
| UpdateBuild: "lfs_step db (fst (update_build bid status vm note now db))"
| Heartbeat: "lfs_step db (fst (heartbeat bid now db))"
| TaskState: "lfs_step db (fst (set_task_state tid state who why now db))"
| AddJournal: "lfs_step db (fst (add_journal tid who kind text now db))"

definition no_builds :: lfs_db where
  "no_builds = \<lparr>lfs_builds = [], lfs_tasks = [], lfs_journal = []\<rparr>"

definition place :: "lfs_task \<Rightarrow> nat \<times> nat" where
  "place t = (lt_build_id t, tk_seq (lt_task t))"

text \<open>The identifiers 1, 2, 3, ... in order.\<close>

definition numbered :: "nat list \<Rightarrow> bool" where
  "numbered ids \<longleftrightarrow> ids = map Suc [0..<length ids]"

lemma numbered_distinct: "numbered ids \<Longrightarrow> distinct ids"
  unfolding numbered_def by (metis distinct_map distinct_upt inj_on_def nat.inject)

lemma numbered_append: "numbered ids \<Longrightarrow> numbered (ids @ map (\<lambda>n. Suc (length ids) + n) [0..<k])"
proof -
  assume ids: "numbered ids"
  have "map ((+) (Suc (length ids))) [0..<k] = map Suc [length ids..<length ids + k]" by (rule nth_equalityI) simp_all
  then show ?thesis using ids unfolding numbered_def by (simp add: upt_add_eq_append [of 0 "length ids" k])
qed

lemma numbered_snoc: "numbered ids \<Longrightarrow> numbered (ids @ [Suc (length ids)])"
  using numbered_append [of ids 1] by simp

definition wf_lfs :: "lfs_db \<Rightarrow> bool" where
  "wf_lfs db \<longleftrightarrow> numbered (map lb_bid (lfs_builds db)) \<and> numbered (map lt_id (lfs_tasks db))
     \<and> numbered (map je_id (lfs_journal db))
     \<and> distinct (map place (lfs_tasks db))
     \<and> list_all (\<lambda>t. lt_state t \<in> set STATES \<and> lt_build_id t \<le> length (lfs_builds db)) (lfs_tasks db)"

lemma journal_frame [simp]:
  "lfs_builds (fst (journal b t now who kind text db)) = lfs_builds db"
  "lfs_tasks (fst (journal b t now who kind text db)) = lfs_tasks db"
  by (simp_all add: journal_def)

lemma journal_entries:
  "lfs_journal (fst (journal b t now who kind text db)) = lfs_journal db @ [\<lparr>je_id = Suc (length (lfs_journal db)), je_build_id = b,
     je_task_id = t, je_at = now, je_who = who, je_kind = kind, je_text = take 20000 text\<rparr>]"
  by (simp add: journal_def)

lemma wf_journal: "wf_lfs db \<Longrightarrow> wf_lfs (fst (journal b t now who kind text db))"
  using numbered_snoc [of "map je_id (lfs_journal db)"] by (simp add: wf_lfs_def journal_entries)

lemma set_build_frame [simp]:
  "lfs_tasks (set_build b f db) = lfs_tasks db" "lfs_journal (set_build b f db) = lfs_journal db"
  "length (lfs_builds (set_build b f db)) = length (lfs_builds db)"
  by (simp_all add: set_build_def)

lemma wf_set_build:
  assumes "wf_lfs db" "\<And>b. lb_bid (f b) = lb_bid b"
  shows "wf_lfs (set_build i f db)"
proof -
  have "map lb_bid (lfs_builds (set_build i f db)) = map lb_bid (lfs_builds db)" using assms(2) by (simp add: set_build_def)
  then show ?thesis using assms(1) by (simp add: wf_lfs_def)
qed

lemma find_task_in: "find_task db tid = Some t \<Longrightarrow> t \<in> set (lfs_tasks db) \<and> lt_id t = tid"
  by (auto simp: find_task_def dest: find_Some_in)

lemma task_ids_inj: "wf_lfs db \<Longrightarrow> t \<in> set (lfs_tasks db) \<Longrightarrow> t' \<in> set (lfs_tasks db) \<Longrightarrow> lt_id t = lt_id t' \<Longrightarrow> t = t'"
  unfolding wf_lfs_def by (meson distinct_map inj_onD numbered_distinct)

lemma move_task_frame [simp]: "lt_id (move_task s n t) = lt_id t" "place (move_task s n t) = place t"
  "lt_build_id (move_task s n t) = lt_build_id t" "lt_state (move_task s n t) = s" "lt_task (move_task s n t) = lt_task t"
  by (simp_all add: move_task_def Let_def place_def)

lemma wf_move:
  assumes "wf_lfs db" "find_task db tid = Some r" "state \<in> set STATES"
  shows "wf_lfs (db\<lparr>lfs_tasks := map (\<lambda>t. if lt_id t = tid then move_task state now r else t) (lfs_tasks db)\<rparr>)"
proof -
  let ?ts = "map (\<lambda>t. if lt_id t = tid then move_task state now r else t) (lfs_tasks db)"
  have eq: "t = r" if "t \<in> set (lfs_tasks db)" "lt_id t = tid" for t
    using task_ids_inj [OF assms(1)] find_task_in [OF assms(2)] that by blast
  have "map place ?ts = map place (lfs_tasks db)" "map lt_id ?ts = map lt_id (lfs_tasks db)"
    using eq find_task_in [OF assms(2)] by (auto simp: o_def intro!: map_cong)
  moreover have "list_all (\<lambda>t. lt_state t \<in> set STATES \<and> lt_build_id t \<le> length (lfs_builds db)) ?ts"
    using assms find_task_in [OF assms(2)] by (auto simp: wf_lfs_def list_all_iff)
  ultimately show ?thesis using assms(1) unfolding wf_lfs_def by (simp del: map_map map_eq_conv)
qed

lemma task_rows:
  "map lt_id (task_rows k bid now ts) = map ((+) k) [0..<length ts]"
  "map place (task_rows k bid now ts) = map (\<lambda>t. (bid, tk_seq t)) ts"
  "t \<in> set (task_rows k bid now ts) \<Longrightarrow> lt_build_id t = bid \<and> lt_state t = ''waiting''"
proof -
  show "map lt_id (task_rows k bid now ts) = map ((+) k) [0..<length ts]"
    by (rule nth_equalityI) (simp_all add: task_rows_def nth_enumerate_eq)
  show "map place (task_rows k bid now ts) = map (\<lambda>t. (bid, tk_seq t)) ts"
    by (rule nth_equalityI) (simp_all add: task_rows_def nth_enumerate_eq place_def)
qed (auto simp: task_rows_def)

lemma wf_create_build:
  assumes "wf_lfs db" "create_build (plan_queue rules lfs blfs linux) name linux note now db = Some (db', r)"
  shows "wf_lfs db'"
proof (cases "db' = db")
  case False
  let ?bid = "Suc (length (lfs_builds db))"
  define b where "b = \<lparr>lb_bid = ?bid, lb_bname = take 80 (py_strip name), lb_kernel = linux, lb_bstatus = ''planned'',
     lb_build_vm_id = None, lb_updated_at = now, lb_heartbeat_at = None\<rparr>"
  obtain ts where ts: "plan_queue rules lfs blfs linux = Inr ts" and db'': "db' = fst (journal ?bid None now ''controller'' ''note'' note
      (db\<lparr>lfs_builds := lfs_builds db @ [b], lfs_tasks := lfs_tasks db @ task_rows (Suc (length (lfs_tasks db))) ?bid now ts\<rparr>))"
    using assms(2) False by (auto simp: create_build_def b_def Let_def split: if_splits sum.splits)
  define rows where rows: "rows = task_rows (Suc (length (lfs_tasks db))) ?bid now ts"
  have b: "lb_bid b = ?bid" by (simp add: b_def)
  obtain os where "plan_tasks rules linux 0 os = Inr ts" using ts by (auto simp: plan_queue_def raise_bind_Inr_iff)
  then have seqs: "distinct (map tk_seq ts)" using plan_tasks_sections by (simp add: distinct_map inj_on_def)
  have ids: "map lt_id rows = map ((+) (Suc (length (map lt_id (lfs_tasks db))))) [0..<length ts]"
    and places: "map place rows = map (\<lambda>t. (?bid, tk_seq t)) ts" and bids: "\<And>t. t \<in> set rows \<Longrightarrow> lt_build_id t = ?bid \<and> lt_state t = ''waiting''"
    unfolding rows using task_rows by auto
  have "distinct (map place rows)" using seqs unfolding places by (simp add: distinct_map inj_on_def)
  moreover have "set (map place (lfs_tasks db)) \<inter> set (map place rows) = {}"
    unfolding places using assms(1) by (auto simp: wf_lfs_def list_all_iff place_def)
  ultimately have "distinct (map place (lfs_tasks db @ rows))"
    unfolding map_append distinct_append using assms(1) by (simp add: wf_lfs_def)
  moreover have "numbered (map lt_id (lfs_tasks db @ rows))"
    using numbered_append [of "map lt_id (lfs_tasks db)" "length ts"] assms(1) by (simp only: map_append ids wf_lfs_def)
  moreover have "numbered (map lb_bid (lfs_builds db @ [b]))"
    using numbered_snoc [of "map lb_bid (lfs_builds db)"] assms(1) b by (simp add: wf_lfs_def)
  moreover have "list_all (\<lambda>t. lt_state t \<in> set STATES \<and> lt_build_id t \<le> length (lfs_builds db @ [b])) (lfs_tasks db @ rows)"
    using assms(1) bids by (auto simp: wf_lfs_def list_all_iff STATES_def)
  ultimately have "wf_lfs (db\<lparr>lfs_builds := lfs_builds db @ [b], lfs_tasks := lfs_tasks db @ rows\<rparr>)"
    using assms(1) unfolding wf_lfs_def by simp
  then show ?thesis unfolding db'' rows by (rule wf_journal)
qed (use assms in simp)

lemma wf_lfs_step: "lfs_step db db' \<Longrightarrow> wf_lfs db \<Longrightarrow> wf_lfs db'"
proof (induction rule: lfs_step.induct)
  case (CreateBuild rules lfs blfs linux name remark now db db' r)
  then show ?case using wf_create_build by blast
next
  case (UpdateBuild db bid status vm remark now)
  then show ?case by (auto simp: update_build_def Let_def intro!: wf_journal wf_set_build)
next
  case (Heartbeat db bid now)
  then show ?case by (auto simp: heartbeat_def intro!: wf_set_build)
next
  case (TaskState db tid state who why now)
  then show ?case
    by (auto simp: set_task_state_def Let_def intro!: wf_journal wf_set_build wf_move split: option.splits)
next
  case (AddJournal db tid who kind words now)
  then show ?case
    using wf_journal by (auto simp: add_journal_def Let_def split: option.splits prod.splits) (metis fst_conv)
qed

lemma wf_lfs_reachable: "lfs_step\<^sup>*\<^sup>* no_builds db \<Longrightarrow> wf_lfs db"
proof (induction rule: rtranclp_induct)
  case base
  show ?case by (simp add: wf_lfs_def no_builds_def numbered_def)
qed (rule wf_lfs_step)

section \<open>The queue\<close>

text \<open>The tasks that \<^verbatim>\<open>next_task\<close> must not pass over.\<close>

definition earlier_open :: "lfs_db \<Rightarrow> lfs_task \<Rightarrow> lfs_task \<Rightarrow> bool" where
  "earlier_open db t t' \<longleftrightarrow> t' \<in> set (lfs_tasks db) \<and> lt_build_id t' = lt_build_id t \<and> tk_seq (lt_task t') < tk_seq (lt_task t)
     \<and> \<not> closed_state (lt_state t')"

lemma hd_sort_key: "sort_key f xs = y # ys \<Longrightarrow> y \<in> set xs \<and> (\<forall>x \<in> set xs. f y \<le> f x)"
  by (metis list.set_intros(1) set_sort sorted_sort_key list.simps(9) sorted_simps(2) set_ConsD order_refl image_eqI list.set_map)

lemma next_task_spec:
  assumes "wf_lfs db"
  shows "next_task bid db = Some t \<longleftrightarrow> t \<in> set (lfs_tasks db) \<and> lt_build_id t = bid \<and> \<not> closed_state (lt_state t)
    \<and> \<not> (\<exists>t'. earlier_open db t t')"
proof -
  let ?open = "filter (\<lambda>t. lt_build_id t = bid \<and> \<not> closed_state (lt_state t)) (lfs_tasks db)"
  have inj: "x = y" if "x \<in> set (lfs_tasks db)" "y \<in> set (lfs_tasks db)" "place x = place y" for x y
    using assms that by (metis distinct_map inj_onD wf_lfs_def)
  have fwd: "t \<in> set ?open \<and> \<not> (\<exists>t'. earlier_open db t t')" if nt: "next_task bid db = Some t" for t
  proof -
    obtain ts where "sort_key (\<lambda>t. tk_seq (lt_task t)) ?open = t # ts" using nt by (auto simp: next_task_def split: list.splits)
    from hd_sort_key [OF this] show ?thesis by (auto simp: earlier_open_def not_less)
  qed
  have bwd: "next_task bid db = Some t" if t: "t \<in> set ?open" "\<not> (\<exists>t'. earlier_open db t t')" for t
  proof -
    have "sort_key (\<lambda>t. tk_seq (lt_task t)) ?open \<noteq> []" using t(1) by (metis set_sort empty_iff list.set(1))
    then obtain u where u: "next_task bid db = Some u" by (auto simp: next_task_def neq_Nil_conv)
    then have "u \<in> set ?open" "\<not> (\<exists>t'. earlier_open db u t')" using fwd by blast+
    with t have "\<not> tk_seq (lt_task u) < tk_seq (lt_task t)" "\<not> tk_seq (lt_task t) < tk_seq (lt_task u)" "lt_build_id u = lt_build_id t"
      unfolding earlier_open_def by auto
    then have "place u = place t" by (simp add: place_def)
    then have "u = t" using \<open>u \<in> set ?open\<close> t(1) by (intro inj) simp_all
    then show ?thesis using u by simp
  qed
  show ?thesis using fwd [of t] bwd [of t] unfolding set_filter by blast
qed

text \<open>
  The book's order is kept.  In every reachable state the next task of a build is its unique open task (neither done
  nor skipped) before which no task is open, so a stuck or escalated task stops the queue; there is none exactly
  when every task of the build is done or skipped.
\<close>

theorem next_task_keeps_order:
  assumes "lfs_step\<^sup>*\<^sup>* no_builds db"
  shows "(next_task bid db = Some t \<longleftrightarrow> t \<in> set (lfs_tasks db) \<and> lt_build_id t = bid \<and> \<not> closed_state (lt_state t)
      \<and> \<not> (\<exists>t'. earlier_open db t t'))
    \<and> (next_task bid db = None \<longleftrightarrow> \<not> (\<exists>t'. t' \<in> set (lfs_tasks db) \<and> lt_build_id t' = bid \<and> \<not> closed_state (lt_state t')))"
proof -
  have "next_task bid db = None \<longleftrightarrow> filter (\<lambda>t. lt_build_id t = bid \<and> \<not> closed_state (lt_state t)) (lfs_tasks db) = []"
    unfolding next_task_def by (metis (no_types, lifting) list.case_eq_if option.distinct(1) set_empty set_sort)
  also have "\<dots> \<longleftrightarrow> \<not> (\<exists>t'. t' \<in> set (lfs_tasks db) \<and> lt_build_id t' = bid \<and> \<not> closed_state (lt_state t'))"
    by (auto simp: filter_empty_conv)
  finally show ?thesis using next_task_spec [OF wf_lfs_reachable [OF assms]] by blast
qed

section \<open>The journal\<close>

lemma set_task_state_done:
  assumes "state \<in> set STATES" "who \<in> set WHO" "find_task db tid = Some r"
  shows "lfs_tasks (fst (set_task_state tid state who why now db)) =
      map (\<lambda>t. if lt_id t = tid then move_task state now r else t) (lfs_tasks db)"
    "\<exists>e. lfs_journal (fst (set_task_state tid state who why now db)) = lfs_journal db @ [e] \<and> je_task_id e = Some tid
      \<and> je_kind e = ''state'' \<and> je_text e = take 20000 (state_note (lt_state r) state why)"
  using assms by (simp_all add: set_task_state_def Let_def journal_entries)

lemma step_prefix: "lfs_step db db' \<Longrightarrow> prefix (lfs_journal db) (lfs_journal db')"
proof (induction rule: lfs_step.induct)
  case (CreateBuild rules lfs blfs linux name remark now db db' r)
  then show ?case by (auto simp: create_build_def Let_def journal_entries split: if_splits sum.splits)
next
  case (AddJournal db tid who kind words now)
  then show ?case by (auto simp: add_journal_def journal_def Let_def split: option.splits)
qed (auto simp: update_build_def heartbeat_def set_task_state_def Let_def journal_entries split: option.splits)

lemma step_task_change:
  assumes "lfs_step db db'" "wf_lfs db" "t \<in> set (lfs_tasks db)" "t' \<in> set (lfs_tasks db')" "lt_id t' = lt_id t" "lt_state t' \<noteq> lt_state t"
  shows "\<exists>why e. lfs_journal db' = lfs_journal db @ [e] \<and> je_task_id e = Some (lt_id t) \<and> je_kind e = ''state''
    \<and> je_text e = take 20000 (state_note (lt_state t) (lt_state t') why)"
  using assms
proof (induction rule: lfs_step.induct)
  case (CreateBuild rules lfs blfs linux name remark now db db' r)
  have "wf_lfs db'" using wf_create_build CreateBuild by blast
  moreover have "t \<in> set (lfs_tasks db')"
    using CreateBuild(1,3) by (auto simp: create_build_def Let_def split: if_splits sum.splits)
  ultimately have "t = t'" using task_ids_inj CreateBuild by metis
  then show ?case using CreateBuild by simp
next
  case (TaskState db tid state who why now)
  show ?case
  proof (cases "state \<in> set STATES \<and> who \<in> set WHO \<and> find_task db tid \<noteq> None")
    case False
    then have "fst (set_task_state tid state who why now db) = db" by (auto simp: set_task_state_def)
    then show ?thesis using TaskState task_ids_inj by metis
  next
    case True
    then obtain r where ok: "state \<in> set STATES" "who \<in> set WHO" and r: "find_task db tid = Some r" by auto
    note st = set_task_state_done [OF ok r, of why now]
    obtain u where u: "u \<in> set (lfs_tasks db)" "t' = (if lt_id u = tid then move_task state now r else u)"
      using TaskState(3) unfolding st(1) by auto
    have "u = t" using TaskState(1,2,4) u find_task_in [OF r] task_ids_inj by (metis move_task_frame(1))
    then have t': "lt_id t = tid" "lt_state t' = state" using TaskState(5) u(2) by (auto split: if_splits)
    then have "t = r" using find_task_in [OF r] task_ids_inj [OF TaskState(1)] TaskState(2) by metis
    then show ?thesis using st(2) t' by auto
  qed
next
  case (UpdateBuild db bid status vm remark now)
  have "lfs_tasks (fst (update_build bid status vm remark now db)) = lfs_tasks db" by (simp add: update_build_def Let_def)
  then show ?case using UpdateBuild task_ids_inj by metis
next
  case (Heartbeat db bid now)
  have "lfs_tasks (fst (heartbeat bid now db)) = lfs_tasks db" by (simp add: heartbeat_def)
  then show ?case using Heartbeat task_ids_inj by metis
next
  case (AddJournal db tid who kind words now)
  have "lfs_tasks (fst (add_journal tid who kind words now db)) = lfs_tasks db"
    by (simp add: add_journal_def journal_def Let_def split: option.splits)
  then show ?case using AddJournal task_ids_inj by metis
qed

text \<open>
  The journal is append-only and complete.  From any reachable state, whatever is done to a build, the entries written so far
  stay as they are, and when the state of a task has changed, the one new entry is its record, naming the task, the
  old and the new state.
\<close>

theorem journal_records_states:
  assumes "lfs_step\<^sup>*\<^sup>* no_builds db" and "lfs_step db db'"
  shows "prefix (lfs_journal db) (lfs_journal db') \<and> \<not> (\<exists>t t'. t \<in> set (lfs_tasks db) \<and> t' \<in> set (lfs_tasks db') \<and> lt_id t' = lt_id t
    \<and> lt_state t' \<noteq> lt_state t
    \<and> \<not> (\<exists>why e. lfs_journal db' = lfs_journal db @ [e] \<and> je_task_id e = Some (lt_id t) \<and> je_kind e = ''state''
         \<and> je_text e = take 20000 (state_note (lt_state t) (lt_state t') why)))"
  using step_prefix [OF assms(2)] step_task_change [OF assms(2) wf_lfs_reachable [OF assms(1)]] by blast

definition demo_lfs_db :: lfs_db where
  "demo_lfs_db = fst (the (create_build (plan_queue demo_rules demo_lfs demo_blfs []) ''first'' [] ''planned'' ''t0'' no_builds))"

lemma demo_created: "\<exists>r. create_build (plan_queue demo_rules demo_lfs demo_blfs []) ''first'' [] ''planned'' ''t0'' no_builds = Some (demo_lfs_db, r)"
proof -
  obtain ts where ts: "plan_queue demo_rules demo_lfs demo_blfs [] = Inr ts" "ts \<noteq> []" using demo_plan by (auto split: sum.splits)
  have "py_strip ''first'' = ''first''" by code_simp
  with ts show ?thesis by (simp add: demo_lfs_db_def create_build_def)
qed

lemma demo_reachable: "lfs_step\<^sup>*\<^sup>* no_builds demo_lfs_db"
  using demo_created lfs_step.CreateBuild by blast

theorem next_task_keeps_order_witness:
  "\<exists>t. lfs_step\<^sup>*\<^sup>* no_builds demo_lfs_db \<and> next_task 1 demo_lfs_db = Some t \<and> t \<in> set (lfs_tasks demo_lfs_db) \<and> \<not> closed_state (lt_state t)
     \<and> \<not> (\<exists>t'. earlier_open demo_lfs_db t t')"
proof -
  have "map_option (\<lambda>t. bs_path (tk_section (lt_task t))) (next_task 1 demo_lfs_db) = Some ''c05/gcc.html''" by code_simp
  then obtain t where "next_task 1 demo_lfs_db = Some t" by auto
  then show ?thesis using next_task_keeps_order [OF demo_reachable, of 1 t] demo_reachable by blast
qed

theorem journal_records_states_witness:
  "lfs_step\<^sup>*\<^sup>* no_builds demo_lfs_db \<and> lfs_step demo_lfs_db (fst (set_task_state 1 ''running'' ''paul'' [] ''t1'' demo_lfs_db))
   \<and> prefix (lfs_journal demo_lfs_db) (lfs_journal (fst (set_task_state 1 ''running'' ''paul'' [] ''t1'' demo_lfs_db)))
   \<and> (\<exists>t. t \<in> set (lfs_tasks (fst (set_task_state 1 ''running'' ''paul'' [] ''t1'' demo_lfs_db))) \<and> lt_state t = ''running'')"
proof -
  have "map_option lt_id (find_task demo_lfs_db 1) = Some 1" by code_simp
  then obtain r where r: "find_task demo_lfs_db 1 = Some r" "r \<in> set (lfs_tasks demo_lfs_db)" "lt_id r = 1" using find_task_in by blast
  have "\<exists>t. t \<in> set (lfs_tasks (fst (set_task_state 1 ''running'' ''paul'' [] ''t1'' demo_lfs_db))) \<and> lt_state t = ''running''"
    using r by (subst set_task_state_done(1) [OF _ _ r(1)]) (auto simp: STATES_def WHO_def intro!: exI [of _ "move_task ''running'' ''t1'' r"])
  moreover have "lfs_step demo_lfs_db (fst (set_task_state 1 ''running'' ''paul'' [] ''t1'' demo_lfs_db))" by (rule lfs_step.TaskState)
  ultimately show ?thesis using journal_records_states [OF demo_reachable] demo_reachable by blast
qed

end
