(* ===== verification/Idle_Watcher.thy ===== *)
theory Idle_Watcher
  imports Host
begin

text \<open>
  \<^verbatim>\<open>api/idle_watcher.py\<close>: the statistics table of HAProxy read for the idle time of a backend, and the watch that
  destroys a build once nothing has used it for the chosen time.  The watch is a loop without a bound: it is a
  partial function whose value is \<open>None\<close> when it never ends, over what each poll finds: the status of the build
  and the answer of HAProxy's socket.
\<close>

section \<open>The statistics table\<close>

text \<open>\<^verbatim>\<open>dict(zip(header, fields))\<close>: of equal keys the last counts.\<close>

definition stat_row :: "string list \<Rightarrow> string list \<Rightarrow> string \<Rightarrow> string option" where
  "stat_row header fs k = map_of (rev (zip header fs)) k"

definition row_idle :: "(string \<Rightarrow> string option) \<Rightarrow> int option" where
  "row_idle row =
     (case py_int (case row ''lastsess'' of None \<Rightarrow> ''-1'' | Some v \<Rightarrow> v) of
        None \<Rightarrow> None
      | Some val \<Rightarrow> if val \<ge> 0 then Some val else None)"

definition server_row :: "string \<Rightarrow> (string \<Rightarrow> string option) \<Rightarrow> bool" where
  "server_row backend_name row \<longleftrightarrow> row ''pxname'' = Some backend_name \<and> row ''svname'' \<notin> {Some ''FRONTEND'', Some ''BACKEND''}"

fun scan_rows :: "string \<Rightarrow> string list \<Rightarrow> string list \<Rightarrow> int option" where
  "scan_rows backend_name header [] = None"
| "scan_rows backend_name header (l # ls) =
     (if py_strip l = [] then scan_rows backend_name header ls
      else let row = stat_row header (split_on (CHR '','') l) in
        if server_row backend_name row then row_idle row else scan_rows backend_name header ls)"

definition get_backend_lastsess :: "string \<Rightarrow> string option \<Rightarrow> int option" where
  "get_backend_lastsess backend_name raw =
     (if \<not> truthy raw then None
      else (case split_on (CHR 0x0A) (the raw) of
              [] \<Rightarrow> None
            | h # ls \<Rightarrow> scan_rows backend_name (split_on (CHR '','') (py_strip (dropWhile (\<lambda>c. c = CHR ''#'') h))) ls))"

section \<open>The watch\<close>

datatype watch_end = WatchOver nat | Destroyed nat

text \<open>The build is looked at first; only while its status is \<^verbatim>\<open>success\<close> is the socket read.\<close>

partial_function (option) watch :: "string \<Rightarrow> int \<Rightarrow> (nat \<Rightarrow> string option \<times> string option) \<Rightarrow> nat \<Rightarrow> watch_end option" where
  "watch backend_name threshold_s polls k =
     (if fst (polls k) \<noteq> Some ''success'' then Some (WatchOver k)
      else (case get_backend_lastsess backend_name (snd (polls k)) of
              None \<Rightarrow> watch backend_name threshold_s polls (Suc k)
            | Some idle_s \<Rightarrow>
                if idle_s \<ge> threshold_s then Some (Destroyed k)
                else watch backend_name threshold_s polls (Suc k)))"

definition start_watch :: "string \<Rightarrow> int \<Rightarrow> (nat \<Rightarrow> string option \<times> string option) \<Rightarrow> watch_end option" where
  "start_watch backend_name idle_timeout_minutes polls = watch backend_name (idle_timeout_minutes * 60) polls 0"

section \<open>When the watch ends\<close>

definition ends_at :: "string \<Rightarrow> int \<Rightarrow> (nat \<Rightarrow> string option \<times> string option) \<Rightarrow> nat \<Rightarrow> bool" where
  "ends_at backend_name threshold_s polls k \<longleftrightarrow>
     fst (polls k) \<noteq> Some ''success'' \<or> (case get_backend_lastsess backend_name (snd (polls k)) of None \<Rightarrow> False | Some idle_s \<Rightarrow> idle_s \<ge> threshold_s)"

lemma watch_ends:
  assumes "watch b th polls k = Some r"
  shows "\<exists>j \<ge> k. ends_at b th polls j"
proof (rule watch.raw_induct [where P = "\<lambda>b th polls k r. \<exists>j \<ge> k. ends_at b th polls j", OF _ assms])
  fix w b th polls k r
  assume IH: "\<And>b th polls k r. w b th polls k = Some r \<Longrightarrow> \<exists>j \<ge> k. ends_at b th polls j"
    and body: "(if fst (polls k) \<noteq> Some ''success'' then Some (WatchOver k)
      else (case get_backend_lastsess b (snd (polls k)) of None \<Rightarrow> w b th polls (Suc k)
        | Some idle_s \<Rightarrow> if th \<le> idle_s then Some (Destroyed k) else w b th polls (Suc k))) = Some r"
  show "\<exists>j \<ge> k. ends_at b th polls j"
  proof (cases "ends_at b th polls k")
    case False
    then have "w b th polls (Suc k) = Some r"
      using body by (auto simp: ends_at_def split: option.splits if_splits)
    then show ?thesis using IH Suc_leD by meson
  qed blast
qed

lemma watch_first:
  assumes "ends_at b th polls (k + n)" "\<And>j. j < n \<Longrightarrow> \<not> ends_at b th polls (k + j)"
  shows "watch b th polls k = Some (if fst (polls (k + n)) \<noteq> Some ''success'' then WatchOver (k + n) else Destroyed (k + n))"
  using assms
proof (induction n arbitrary: k)
  case 0
  then show ?case by (subst watch.simps) (auto simp: ends_at_def split: option.splits)
next
  case (Suc n)
  have "\<not> ends_at b th polls k" using Suc.prems(2) [of 0] by simp
  then have "watch b th polls k = watch b th polls (Suc k)"
    by (subst watch.simps) (auto simp: ends_at_def split: option.splits)
  moreover have "\<not> ends_at b th polls (Suc k + j)" if "j < n" for j using Suc.prems(2) [of "Suc j"] that by simp
  ultimately show ?case using Suc.IH [of "Suc k"] Suc.prems(1) by simp
qed

text \<open>
  C36: The idle watch ends at the first poll that finds the build no longer active, or reads an idle time of at least the
  threshold, and destroys the build only in the second case; a poll whose statistics cannot be read never ends
  it.  If no poll is of either kind it goes on for ever.
\<close>

theorem watch_terminates_iff:
  "start_watch b minutes polls =
     (if \<exists>k. ends_at b (minutes * 60) polls k
      then let k = LEAST k. ends_at b (minutes * 60) polls k
           in Some (if fst (polls k) \<noteq> Some ''success'' then WatchOver k else Destroyed k)
      else None)"
proof (cases "\<exists>k. ends_at b (minutes * 60) polls k")
  case True
  then obtain k0 where k0: "ends_at b (minutes * 60) polls k0" by blast
  define K where "K = (LEAST k. ends_at b (minutes * 60) polls k)"
  have K: "ends_at b (minutes * 60) polls K" "\<And>j. j < K \<Longrightarrow> \<not> ends_at b (minutes * 60) polls j"
    using LeastI [of "ends_at b (minutes * 60) polls", OF k0] not_less_Least by (auto simp: K_def)
  have "watch b (minutes * 60) polls 0 = Some (if fst (polls (0 + K)) \<noteq> Some ''success'' then WatchOver (0 + K) else Destroyed (0 + K))"
    by (rule watch_first) (use K in \<open>simp_all only: add_0 not_False_eq_True\<close>)
  then show ?thesis by (simp only: start_watch_def Let_def True if_True add_0 K_def [symmetric])
next
  case False
  then have "watch b (minutes * 60) polls 0 = None" using watch_ends [of b "minutes * 60" polls 0] by (metis not_None_eq)
  with False show ?thesis by (simp add: start_watch_def)
qed

end
