(* ===== verification/Lab_Broker.thy ===== *)
theory Lab_Broker
  imports Instances Capacity Wireguard Ipaddress
begin

text \<open>
  The lab-VM broker, \<^verbatim>\<open>api/lab_vm_broker.py\<close>: throwaway machines for the llm-chat coordinator,
  made from fixed templates, counted against quotas and removed by a reaper.

  The broker drives the API of its own host with \<^verbatim>\<open>_call\<close>.  \<open>api_call\<close> lists the requests it makes and
  \<open>le_api\<close> is what the API does with one: the new state of the host and the status with the JSON object of
  the answer, or \<open>None\<close> when the call raises (refused connection, timeout), which no handler catches.
  \<open>deeds\<close> records every request and command in order.  The texts of \<^verbatim>\<open>detail\<close> fields and log lines are
  left out; the fields of a body are strings or JSON values as the handler uses them.
\<close>

section \<open>Templates and limits\<close>

definition IMAGE_ID :: string where "IMAGE_ID = ''ubuntu-22.04''"
definition LAB_VPC :: string where "LAB_VPC = ''lab-vms''"
definition LAB_VPC_CIDR :: string where "LAB_VPC_CIDR = ''10.250.0.0/16''"
definition LAB_SUBNET :: string where "LAB_SUBNET = ''lab-vms-a''"
definition LAB_SUBNET_CIDR :: string where "LAB_SUBNET_CIDR = ''10.250.0.0/24''"
definition MAX_ACTIVE :: nat where "MAX_ACTIVE = 6"
definition MAX_STUDENT :: nat where "MAX_STUDENT = 2"
definition MAX_LFS_BUILD :: nat where "MAX_LFS_BUILD = 1"

definition PACKAGES :: "(string \<times> string list) list" where
  "PACKAGES =
     [(''proof-target'', [''pamtester'', ''oathtool'']),
      (''proof-prober'', [''python3-paramiko'', ''oathtool'', ''nfs-common'', ''dnsutils'', ''curl'']),
      (''student'', [''pamtester'', ''oathtool'']),
      (''lfs-build'', [''build-essential'', ''bison'', ''gawk'', ''texinfo'', ''m4'', ''python3'', ''patch'', ''xz-utils'', ''bzip2'',
         ''gzip'', ''file'', ''gdisk'', ''parted'', ''dosfstools'', ''rsync'', ''wget''])]"

definition CONTROL_SSHD :: "string list" where
  "CONTROL_SSHD =
     [''Port 1022'', ''ListenAddress 0.0.0.0'', ''HostKey /etc/ssh/ssh_host_ed25519_key'', ''HostKey /etc/ssh/ssh_host_rsa_key'',
      ''PermitRootLogin prohibit-password'', ''PasswordAuthentication no'', ''KbdInteractiveAuthentication no'', ''UsePAM no'',
      ''AllowUsers root student labctl'', ''PidFile /run/sshd-control.pid'', ''Subsystem sftp /usr/lib/openssh/sftp-server'',
      ''X11Forwarding no'', ''PrintMotd no'', ''SetEnv PATH=/usr/local/sbin:/usr/local/bin:/usr/sbin:/usr/bin:/sbin:/bin'']"

definition CONTROL_UNIT :: "string list" where
  "CONTROL_UNIT =
     [''[Unit]'', ''Description=Lab control sshd (port 1022)'', ''After=network.target'', [],
      ''[Service]'', ''ExecStartPre=/bin/mkdir -p /run/sshd'', ''ExecStartPre=/usr/sbin/sshd -t -f /etc/ssh/sshd_config_control'',
      ''ExecStart=/usr/sbin/sshd -D -f /etc/ssh/sshd_config_control'', ''Restart=always'', [],
      ''[Install]'', ''WantedBy=multi-user.target'']"

text \<open>The cloud-init template, line by line; an indented block also indents its empty lines.\<close>

definition indent :: "string \<Rightarrow> string" where "indent line = ''      '' @ line"

definition quote_star :: string where "quote_star = [char_of (39::nat), CHR ''*'', char_of (39::nat)]"

definition DOC_HEAD :: "string list" where
  "DOC_HEAD = [''#cloud-config'', ''package_update: true'', ''packages:'']"

definition SSHD_FILE :: "string list" where
  \<open>SSHD_FILE = [''write_files:'', ''  - path: /etc/ssh/sshd_config_control'', ''    permissions: "0644"'', ''    content: |'']\<close>

definition UNIT_FILE :: "string list" where
  \<open>UNIT_FILE = [''  - path: /etc/systemd/system/sshd-control.service'', ''    permissions: "0644"'', ''    content: |'']\<close>

definition KEY_FILE :: "string list" where
  \<open>KEY_FILE = [''  - path: /root/.ssh/authorized_keys'', ''    permissions: "0600"'', ''    content: |'']\<close>

definition DOC_RUN :: "string list" where
  \<open>DOC_RUN =
     [''runcmd:'', ''  # Not locked ("!"): sshd without PAM refuses locked accounts even for keys.'',
      ''  - usermod -p '' @ quote_star @ '' student'', ''  - usermod -p '' @ quote_star @ '' labctl'',
      ''  - echo '' @ [char_of (39::nat)] @ ''student ALL=(ALL) NOPASSWD:ALL'' @ [char_of (39::nat)] @
        '' > /etc/sudoers.d/90-student && chmod 440 /etc/sudoers.d/90-student'',
      ''  - systemctl daemon-reload'', ''  - systemctl enable --now sshd-control.service'',
      ''  # Saved while ufw is inactive, so an answer's "ufw enable" keeps it.'',
      ''  - command -v ufw >/dev/null && ufw allow 1022/tcp comment lab-control || true'']\<close>

definition user_data_lines :: "string \<Rightarrow> string \<Rightarrow> string list" where
  "user_data_lines purpose pubkey =
     (DOC_HEAD @ map (\<lambda>p. ''  - '' @ p) (opt (map_of PACKAGES purpose) []) @ SSHD_FILE @ map indent CONTROL_SSHD @
      UNIT_FILE @ map indent CONTROL_UNIT @ KEY_FILE) @ indent pubkey # DOC_RUN"

definition user_data :: "string \<Rightarrow> string \<Rightarrow> string" where
  "user_data purpose pubkey = join [newline] (user_data_lines purpose pubkey) @ [newline]"

definition DATA_DISKS :: "(string \<times> string) list" where
  "DATA_DISKS = [(''proof-target'', ''2,2''), (''student'', ''2,2''), (''lfs-build'', ''50'')]"

definition minutes :: "int \<Rightarrow> int" where "minutes n = n * 60000000"
definition hours :: "int \<Rightarrow> int" where "hours n = n * 3600000000"
definition days :: "int \<Rightarrow> int" where "days n = n * 86400000000"

definition PURPOSES :: "(string \<times> string list \<times> int \<times> int option) list" where
  "PURPOSES =
     [(''proof-target'', [''standard.large'', ''standard.medium''], hours 2, None),
      (''proof-prober'', [''standard.small'', ''standard.nano''], hours 2, None),
      (''student'', [''standard.large'', ''standard.medium''], hours 4, Some (minutes 30)),
      (''lfs-build'', [''standard.2xlarge'', ''standard.xlarge'', ''standard.large''], days 30, Some (hours 72))]"

text \<open>\<^verbatim>\<open>_RUN_ID_RE\<close> and \<^verbatim>\<open>_PUBKEY_RE\<close>.  The \<^verbatim>\<open>$\<close> of a Python pattern also matches before a final newline;
  \<open>at_end\<close> is the rest that it accepts.  \<open>is_word_char\<close> is \<^verbatim>\<open>\w\<close> on one-byte characters.\<close>

definition at_end :: "string \<Rightarrow> bool" where "at_end s \<longleftrightarrow> s = [] \<or> s = [newline]"

definition is_ascii_alnum :: "char \<Rightarrow> bool" where
  "is_ascii_alnum c \<longleftrightarrow> (let n = (of_char c :: nat) in 48 \<le> n \<and> n \<le> 57 \<or> 65 \<le> n \<and> n \<le> 90 \<or> 97 \<le> n \<and> n \<le> 122)"

definition is_word_char :: "char \<Rightarrow> bool" where
  "is_word_char c \<longleftrightarrow> is_ascii_alnum c \<or> c = CHR ''_'' \<or>
     (let n = (of_char c :: nat) in n \<in> {170, 178, 179, 181, 185, 186, 188, 189, 190} \<or> 192 \<le> n \<and> n \<le> 255 \<and> n \<noteq> 215 \<and> n \<noteq> 247)"

definition run_id_ok :: "string \<Rightarrow> bool" where
  "run_id_ok s \<longleftrightarrow> (let w = takeWhile (\<lambda>c. is_ascii_alnum c \<or> c = CHR ''_'' \<or> c = CHR ''-'') s
     in 1 \<le> length w \<and> length w \<le> 40 \<and> at_end (drop (length w) s))"

definition KEY_TYPES :: "string list" where "KEY_TYPES = [''ssh-ed25519'', ''ecdsa-sha2-nistp256'', ''ssh-rsa'']"

definition is_key_char :: "char \<Rightarrow> bool" where
  "is_key_char c \<longleftrightarrow> is_ascii_alnum c \<or> c = CHR ''+'' \<or> c = CHR ''/'' \<or> c = CHR ''=''"

definition is_comment_char :: "char \<Rightarrow> bool" where
  "is_comment_char c \<longleftrightarrow> is_word_char c \<or> c = CHR ''@'' \<or> c = CHR ''.'' \<or> c = CHR '':'' \<or> c = CHR ''-''"

definition comment_ok :: "string \<Rightarrow> bool" where
  "comment_ok s \<longleftrightarrow> at_end s \<or>
     (case s of [] \<Rightarrow> False
      | c # r \<Rightarrow> c = CHR '' '' \<and> length (takeWhile is_comment_char r) \<le> 64 \<and> at_end (dropWhile is_comment_char r))"

definition key_rest_ok :: "string \<Rightarrow> bool" where
  "key_rest_ok s \<longleftrightarrow> (let w = takeWhile is_key_char s
     in 40 \<le> length w \<and> length w \<le> 800 \<and> comment_ok (dropWhile is_key_char s))"

definition pubkey_ok :: "string \<Rightarrow> bool" where
  "pubkey_ok s \<longleftrightarrow> list_ex (\<lambda>t. startswith s (t @ '' '') \<and> key_rest_ok (drop (length t + 1) s)) KEY_TYPES"

section \<open>State\<close>

record lab_vm =
  lv_id :: string
  lv_name :: string
  lv_purpose :: string
  lv_run_id :: string
  lv_host_id :: "string option"
  lv_flavor :: string
  lv_created_at :: instant
  lv_expires_at :: instant
  lv_idle_minutes :: "int option"
  lv_last_touch_at :: instant
  lv_deleted_at :: "instant option"
  lv_delete_reason :: "string option"

datatype api_call =
    ListVpcs "string option"
  | CreateVpc vpc_body
  | ListSubnets "string option" string
  | CreateSubnet subnet_body
  | HostStats "string option"
  | CreateInst inst_body
  | GetInst string
  | DeleteInst string
  | ListSnapshots string
  | TakeSnapshot string jval jval
  | RestoreSnapshot string string
  | ResizeDisk string string jval

datatype deed =
    Api api_call
  | LabHelper "string list"
  | PeerPair string string string
  | PeerUnpair string string
  | InstallKey string string

record lab_state =
  lab_tbl :: "lab_vm list"
  cloud :: host
  deeds :: "deed list"

datatype ssh_result = SshTimeout | SshExit int

record lab_env =
  le_api :: "api_call \<Rightarrow> host \<Rightarrow> host \<times> (nat \<times> jdict) option"
  le_helper :: "string list \<Rightarrow> bool"
  le_post_pair :: "string \<Rightarrow> string \<Rightarrow> string \<Rightarrow> string option \<Rightarrow> unit peer_result"
  le_del_pair :: "string \<Rightarrow> string \<Rightarrow> string option \<Rightarrow> unit peer_result"
  le_ssh :: "string \<Rightarrow> string \<Rightarrow> ssh_result"
  le_bridge_cidr :: string
  le_now :: instant
  le_hex :: string

definition do_deed :: "deed \<Rightarrow> lab_state \<Rightarrow> lab_state" where
  "do_deed d s = s\<lparr>deeds := deeds s @ [d]\<rparr>"

definition call :: "lab_env \<Rightarrow> api_call \<Rightarrow> lab_state \<Rightarrow> lab_state \<times> (nat \<times> jdict) option" where
  "call e c s = (let (h, r) = le_api e c (cloud s) in (do_deed (Api c) s\<lparr>cloud := h\<rparr>, r))"

definition active :: "lab_state \<Rightarrow> lab_vm list" where
  "active s = filter (\<lambda>r. lv_deleted_at r = None) (lab_tbl s)"

definition own :: "string \<Rightarrow> lab_state \<Rightarrow> lab_vm option" where
  "own vm_id s = find (\<lambda>r. lv_id r = vm_id) (lab_tbl s)"

abbreviation server_error :: "'b reply" where "server_error \<equiv> Problem 500 ''Internal Server Error''"

text \<open>The broker's own check of the token; \<open>expected\<close> is \<^verbatim>\<open>CLOUDCORE_LABVM_TOKEN\<close>.\<close>

definition require_token :: "string \<Rightarrow> request \<Rightarrow> (nat \<times> string) option" where
  "require_token expected q =
     (if q_method q = ''OPTIONS'' then None
      else (let token = (if startswith (q_auth q) bearer_prefix then removeprefix (q_auth q) bearer_prefix else [])
            in if expected \<noteq> [] \<and> token \<noteq> [] \<and> token = expected then None else Some (401, ''Unauthorized'')))"

section \<open>The host of the caller\<close>

definition ip_address :: "string \<Rightarrow> (ip_version \<times> int) option" where
  "ip_address s = (case parse_ipv4 s of Some a \<Rightarrow> Some (V4, a)
     | None \<Rightarrow> map_option (\<lambda>a. (V6, a)) (parse_ipv6 s))"

definition in_network :: "ip_version \<times> int \<Rightarrow> network \<Rightarrow> bool" where
  "in_network a n \<longleftrightarrow> fst a = version n \<and> snd a AND netmask (version n) (prefixlen n) = net_addr n"

definition is_loopback :: "ip_version \<times> int \<Rightarrow> bool" where
  "is_loopback a \<longleftrightarrow> (case fst a of V4 \<Rightarrow> in_network a (make_network V4 (127 * 2 ^ 24) 8) | V6 \<Rightarrow> snd a = 1)"

text \<open>\<open>None\<close>: the subnet of a peer cannot be read, which raises.\<close>

fun peer_of_addr :: "string \<Rightarrow> ip_version \<times> int \<Rightarrow> peer list \<Rightarrow> string option option" where
  "peer_of_addr ip a [] = Some None"
| "peer_of_addr ip a (p # ps) =
     (if \<not> truthy (p_wg_bridge_subnet p) then peer_of_addr ip a ps
      else (case ip_network (the (p_wg_bridge_subnet p)) of
        None \<Rightarrow> None
      | Some n \<Rightarrow>
          if in_network a n then Some (Some (p_id p))
          else if peer_transit_ip (p_wg_bridge_subnet p) = Some ip then Some (Some (p_id p))
          else peer_of_addr ip a ps))"

definition caller_host :: "string \<Rightarrow> string \<Rightarrow> host \<Rightarrow> string option option" where
  "caller_host bridge ip h =
     (case ip_address ip of
        None \<Rightarrow> Some None
      | Some a \<Rightarrow>
          if is_loopback a then Some (Some [])
          else (case ip_network bridge of
            None \<Rightarrow> None
          | Some n \<Rightarrow> if in_network a n then Some (Some []) else peer_of_addr ip a (list_peers h (Some Approved))))"

section \<open>The lab network\<close>

definition jstr :: "jval \<Rightarrow> string" where
  "jstr v = (case v of JStr s \<Rightarrow> s | _ \<Rightarrow> [])"

definition jobj :: "jval \<Rightarrow> jdict" where
  "jobj v = (case v of JObj d \<Rightarrow> d | _ \<Rightarrow> [])"

definition items :: "jdict \<Rightarrow> jdict list" where
  "items payload = (case jget payload ''items'' of JList xs \<Rightarrow> map jobj xs | _ \<Rightarrow> [])"

definition LAB_TAGS :: tags where
  "LAB_TAGS = [(''Project'', ''llm-chat''), (''ManagedBy'', ''lab-vm-broker''), (''Environment'', ''lab'')]"

text \<open>\<open>Inl None\<close>: a call raised; \<open>Inl (Some st)\<close>: the API refused with that status, the \<^verbatim>\<open>RuntimeError\<close>.\<close>

definition find_or_create ::
    "lab_env \<Rightarrow> api_call \<Rightarrow> (jdict \<Rightarrow> bool) \<Rightarrow> api_call \<Rightarrow> lab_state \<Rightarrow> lab_state \<times> (nat option + string)" where
  "find_or_create e lister wanted creator s =
     (case call e lister s of
        (s1, None) \<Rightarrow> (s1, Inl None)
      | (s1, Some (_, payload)) \<Rightarrow>
         (case find wanted (items payload) of
            Some d \<Rightarrow> (s1, Inr (jstr (jget d ''id'')))
          | None \<Rightarrow>
             (case call e creator s1 of
                (s2, None) \<Rightarrow> (s2, Inl None)
              | (s2, Some (st, d)) \<Rightarrow> if st \<notin> {200, 201} then (s2, Inl (Some st)) else (s2, Inr (jstr (jget d ''id''))))))"

definition lab_vpc_body :: "string option \<Rightarrow> vpc_body" where
  "lab_vpc_body peer_id = \<lparr>vb_name = Some LAB_VPC, vb_peer_id = peer_id, vb_cidr_block = Some LAB_VPC_CIDR, vb_dns_support = None,
     vb_tags = Some LAB_TAGS\<rparr>"

definition lab_subnet_body :: "string option \<Rightarrow> string \<Rightarrow> subnet_body" where
  "lab_subnet_body peer_id vpc_id = \<lparr>sb_name = Some LAB_SUBNET, sb_vpc_id = Some vpc_id, sb_cidr_block = Some LAB_SUBNET_CIDR,
     sb_peer_id = peer_id, sb_public = None, sb_zone = None, sb_tags = Some LAB_TAGS\<rparr>"

definition ensure_network :: "lab_env \<Rightarrow> string option \<Rightarrow> lab_state \<Rightarrow> lab_state \<times> (nat option + string \<times> string)" where
  "ensure_network e peer_id s =
     (case find_or_create e (ListVpcs peer_id) (\<lambda>v. jget v ''name'' = JStr LAB_VPC) (CreateVpc (lab_vpc_body peer_id)) s of
        (s1, Inl x) \<Rightarrow> (s1, Inl x)
      | (s1, Inr vpc_id) \<Rightarrow>
         (case find_or_create e (ListSubnets peer_id vpc_id)
                 (\<lambda>n. jget n ''name'' = JStr LAB_SUBNET \<and> jget n ''vpc_id'' = JStr vpc_id)
                 (CreateSubnet (lab_subnet_body peer_id vpc_id)) s1 of
            (s2, Inl x) \<Rightarrow> (s2, Inl x)
          | (s2, Inr subnet_id) \<Rightarrow> (s2, Inr (vpc_id, subnet_id))))"

text \<open>\<^verbatim>\<open>_host_stats\<close>: the statistics object, empty when the API does not answer with 200; \<open>None\<close> raises.\<close>

definition host_stats :: "lab_env \<Rightarrow> string option \<Rightarrow> lab_state \<Rightarrow> lab_state \<times> jdict option" where
  "host_stats e peer_id s =
     (case call e (HostStats peer_id) s of
        (s1, None) \<Rightarrow> (s1, None)
      | (s1, Some (st, d)) \<Rightarrow> (s1, Some (if st \<noteq> 200 then [] else jobj (jget_default d ''stats'' (JObj d)))))"

definition jnum :: "jval \<Rightarrow> rat" where
  "jnum v = (case v of JInt i \<Rightarrow> of_int i | JFloat r \<Rightarrow> r | _ \<Rightarrow> 0)"

definition stats_view :: "jdict \<Rightarrow> host_view" where
  "stats_view d = \<lparr>hv_cores = \<lfloor>jnum (jget (jobj (jget d ''cpu'')) ''cores'')\<rfloor>, hv_load_pct = 0,
     hv_mem_available_mb = jnum (jget (jobj (jget d ''memory'')) ''available_mb''), hv_mem_used_pct = 0,
     hv_disk_free_gb = jnum (jget (jobj (jget d ''disk'')) ''free_gb''), hv_disk_used_pct = 0\<rparr>"

section \<open>Creating\<close>

record lab_body =
  lb_purpose :: "string option"
  lb_run_id :: "string option"
  lb_public_key :: "string option"

record lab_order =
  lo_purpose :: string
  lo_run_id :: string
  lo_pubkey :: string

definition lab_checks :: "lab_body \<Rightarrow> nat \<times> string + lab_order" where
  "lab_checks body =
     (let run_id = opt (lb_run_id body) []; pubkey = py_strip (opt (lb_public_key body) []) in
      case lb_purpose body of
        None \<Rightarrow> Inl (400, ''Bad Request'')
      | Some purpose \<Rightarrow>
          if map_of PURPOSES purpose = None then Inl (400, ''Bad Request'')
          else if \<not> run_id_ok run_id then Inl (400, ''Bad Request'')
          else if \<not> pubkey_ok pubkey then Inl (400, ''Bad Request'')
          else Inr \<lparr>lo_purpose = purpose, lo_run_id = run_id, lo_pubkey = pubkey\<rparr>)"

definition of_purpose :: "string \<Rightarrow> lab_state \<Rightarrow> nat" where
  "of_purpose p s = length (filter (\<lambda>r. lv_purpose r = p) (active s))"

definition over_quota :: "string \<Rightarrow> lab_state \<Rightarrow> bool" where
  "over_quota purpose s \<longleftrightarrow> MAX_ACTIVE \<le> length (active s) \<or>
     purpose = ''student'' \<and> MAX_STUDENT \<le> of_purpose ''student'' s \<or>
     purpose = ''lfs-build'' \<and> MAX_LFS_BUILD \<le> of_purpose ''lfs-build'' s"

definition lab_user :: "string \<Rightarrow> string \<Rightarrow> user_body" where
  "lab_user username pubkey = \<lparr>ub_username = Some username, ub_sudo = Some True, ub_ssh_keys = Some [pubkey], ub_password_hash = None\<rparr>"

definition lab_request ::
    "lab_order \<Rightarrow> string \<Rightarrow> string \<Rightarrow> string option \<Rightarrow> string \<Rightarrow> string \<Rightarrow> inst_body" where
  "lab_request order name flavor peer_id vpc_id subnet_id =
     \<lparr>ib_name = Some name, ib_image_id = Some IMAGE_ID, ib_flavor = Some flavor, ib_vpc_id = Some vpc_id, ib_subnet_id = Some subnet_id,
      ib_peer_id = peer_id, ib_security_group_ids = None, ib_usb_device_ids = None,
      ib_users = Some [lab_user ''labctl'' (lo_pubkey order), lab_user ''student'' (lo_pubkey order)],
      ib_user_data = Some (user_data (lo_purpose order) (lo_pubkey order)),
      ib_tags = Some ([(''lab_vm'', ''true''), (''network'', ''lab''), (''purpose'', lo_purpose order), (''run_id'', lo_run_id order),
        (''ManagedBy'', ''lab-vm-broker''), (''Project'', ''llm-chat''), (''Environment'', ''lab'')] @
        (case map_of DATA_DISKS (lo_purpose order) of None \<Rightarrow> [] | Some d \<Rightarrow> [(''data_disks'', d)]))\<rparr>"

definition lab_row :: "instant \<Rightarrow> string \<Rightarrow> string \<Rightarrow> lab_order \<Rightarrow> string option \<Rightarrow> string \<Rightarrow> lab_vm" where
  "lab_row now vm_id name order peer_id flavor =
     (let (_, max_life, idle) = the (map_of PURPOSES (lo_purpose order)) in
      \<lparr>lv_id = vm_id, lv_name = name, lv_purpose = lo_purpose order, lv_run_id = lo_run_id order, lv_host_id = peer_id, lv_flavor = flavor,
       lv_created_at = now, lv_expires_at = now + max_life, lv_idle_minutes = map_option (\<lambda>i. i div 1000000 div 60) idle,
       lv_last_touch_at = now, lv_deleted_at = None, lv_delete_reason = None\<rparr>)"

text \<open>From the host of the caller to the answer of \<^verbatim>\<open>POST /v1/instances\<close>: the row to insert, or the reply.\<close>

definition provision :: "lab_env \<Rightarrow> string \<Rightarrow> lab_order \<Rightarrow> lab_state \<Rightarrow> lab_state \<times> (nat \<times> string + lab_vm)" where
  "provision e remote_addr order s =
     (let error = (500, ''Internal Server Error'') in
      case caller_host (le_bridge_cidr e) remote_addr (cloud s) of
        None \<Rightarrow> (s, Inl error)
      | Some None \<Rightarrow> (s, Inl (403, ''Forbidden''))
      | Some (Some h) \<Rightarrow>
         (let peer_id = (if h = [] then None else Some h) in
          case host_stats e peer_id s of
            (s1, None) \<Rightarrow> (s1, Inl error)
          | (s1, Some stats) \<Rightarrow>
              if \<not> jtruthy (jget stats ''lab_network'') then (s1, Inl (503, ''No Lab Network''))
              else (case find (affords (stats_view stats)) (fst (the (map_of PURPOSES (lo_purpose order)))) of
                None \<Rightarrow> (s1, Inl (503, ''No Capacity''))
              | Some flavor \<Rightarrow>
                 (case ensure_network e peer_id s1 of
                    (s2, Inl None) \<Rightarrow> (s2, Inl error)
                  | (s2, Inl (Some _)) \<Rightarrow> (s2, Inl (502, ''Lab Network Unavailable''))
                  | (s2, Inr (vpc_id, subnet_id)) \<Rightarrow>
                     (let name = ''labvm-'' @ last (split_on (CHR ''-'') (lo_purpose order)) @ ''-'' @ take 8 (le_hex e) in
                      case call e (CreateInst (lab_request order name flavor peer_id vpc_id subnet_id)) s2 of
                        (s3, None) \<Rightarrow> (s3, Inl error)
                      | (s3, Some (st, inst)) \<Rightarrow>
                          if st \<notin> {200, 201, 202} then (s3, Inl (502, ''Create Failed''))
                          else (s3, Inr (lab_row (le_now e) (jstr (jget inst ''id'')) name order peer_id flavor)))))))"

text \<open>The insert raises on an identifier that is already there.\<close>

definition insert_row :: "lab_vm \<Rightarrow> lab_state \<Rightarrow> lab_state option" where
  "insert_row r s = (if own (lv_id r) s \<noteq> None then None else Some (s\<lparr>lab_tbl := lab_tbl s @ [r]\<rparr>))"

record lab_view =
  ld_row :: lab_vm
  ld_status :: jval
  ld_ip :: string
  ld_host :: jval
  ld_error :: jval

definition jor :: "jval \<Rightarrow> jval \<Rightarrow> jval" where "jor a b = (if jtruthy a then a else b)"

text \<open>\<open>None\<close>: there is no such row, or the call raised.\<close>

definition describe :: "lab_env \<Rightarrow> string \<Rightarrow> lab_state \<Rightarrow> lab_state \<times> lab_view option" where
  "describe e vm_id s =
     (case own vm_id s of
        None \<Rightarrow> (s, None)
      | Some row \<Rightarrow>
          if lv_deleted_at row \<noteq> None then
            (s, Some \<lparr>ld_row = row, ld_status = JStr ''deleted'', ld_ip = [], ld_host = JNull, ld_error = JNull\<rparr>)
          else
            (case call e (GetInst vm_id) s of
               (s1, None) \<Rightarrow> (s1, None)
             | (s1, Some (st, inst)) \<Rightarrow>
                 if st = 200 then
                   (s1, Some \<lparr>ld_row = row, ld_status = jget inst ''status'', ld_ip = jstr (jget inst ''private_ip''),
                      ld_host = jor (jget inst ''host_hostname'') (JStr []), ld_error = jor (jget inst ''error_message'') (JStr [])\<rparr>)
                 else
                   (s1, Some \<lparr>ld_row = row, ld_status = JStr ''unknown'', ld_ip = [], ld_host = JNull,
                      ld_error = JStr (''CloudCore returned '' @ show_nat st)\<rparr>)))"

definition reply_view :: "nat \<Rightarrow> lab_state \<times> lab_view option \<Rightarrow> lab_state \<times> lab_view reply" where
  "reply_view st r = (fst r, (case snd r of None \<Rightarrow> server_error | Some d \<Rightarrow> Reply st d))"

definition create_lab_vm :: "lab_env \<Rightarrow> string \<Rightarrow> lab_body \<Rightarrow> lab_state \<Rightarrow> lab_state \<times> lab_view reply" where
  "create_lab_vm e remote_addr body s =
     (case lab_checks body of
        Inl (st, t) \<Rightarrow> (s, Problem st t)
      | Inr order \<Rightarrow>
          if over_quota (lo_purpose order) s then (s, Problem 429 ''Too Many Lab VMs'')
          else
            (case provision e remote_addr order s of
               (s1, Inl (st, t)) \<Rightarrow> (s1, Problem st t)
             | (s1, Inr row) \<Rightarrow>
                (case insert_row row s1 of
                   None \<Rightarrow> (s1, server_error)
                 | Some s2 \<Rightarrow> reply_view 202 (describe e (lv_id row) s2))))"

section \<open>Reading and touching\<close>

definition list_lab_vms :: "string \<Rightarrow> lab_state \<Rightarrow> lab_vm list reply" where
  "list_lab_vms run_id s = Reply 200 (filter (\<lambda>r. run_id = [] \<or> lv_run_id r = run_id) (active s))"

definition get_lab_vm :: "lab_env \<Rightarrow> string \<Rightarrow> lab_state \<Rightarrow> lab_state \<times> lab_view reply" where
  "get_lab_vm e vm_id s = (if own vm_id s = None then (s, Problem 404 ''Not Found'') else reply_view 200 (describe e vm_id s))"

definition own_active :: "string \<Rightarrow> lab_state \<Rightarrow> lab_vm option" where
  "own_active vm_id s = (case own vm_id s of None \<Rightarrow> None | Some r \<Rightarrow> if lv_deleted_at r \<noteq> None then None else Some r)"

definition set_rows :: "(lab_vm \<Rightarrow> bool) \<Rightarrow> (lab_vm \<Rightarrow> lab_vm) \<Rightarrow> lab_state \<Rightarrow> lab_state" where
  "set_rows P f s = s\<lparr>lab_tbl := fst (update_where P f (lab_tbl s))\<rparr>"

definition touch_lab_vm :: "lab_env \<Rightarrow> string \<Rightarrow> lab_state \<Rightarrow> lab_state \<times> lab_view reply" where
  "touch_lab_vm e vm_id s =
     (if own_active vm_id s = None then (s, Problem 404 ''Not Found'')
      else reply_view 200 (describe e vm_id (set_rows (\<lambda>r. lv_id r = vm_id) (\<lambda>r. r\<lparr>lv_last_touch_at := le_now e\<rparr>) s)))"

section \<open>Pairs on the lab network\<close>

datatype pairing = Pair string string | Unpair string

definition helper_args :: "pairing \<Rightarrow> string list" where
  "helper_args m = (case m of Pair a b \<Rightarrow> [''pair'', ''add'', a, b] | Unpair a \<Rightarrow> [''unpair'', a])"

definition peer_deed :: "string \<Rightarrow> pairing \<Rightarrow> deed" where
  "peer_deed url m = (case m of Pair a b \<Rightarrow> PeerPair url a b | Unpair a \<Rightarrow> PeerUnpair url a)"

definition peer_answer :: "lab_env \<Rightarrow> peer \<Rightarrow> pairing \<Rightarrow> unit peer_result" where
  "peer_answer e p m = (case m of Pair a b \<Rightarrow> le_post_pair e (p_api_url p) a b (p_remote_token p)
     | Unpair a \<Rightarrow> le_del_pair e (p_api_url p) a (p_remote_token p))"

definition labnet :: "lab_env \<Rightarrow> string option \<Rightarrow> pairing \<Rightarrow> lab_state \<Rightarrow> lab_state \<times> bool" where
  "labnet e peer_id m s =
     (if \<not> truthy peer_id then (do_deed (LabHelper (helper_args m)) s, le_helper e (helper_args m))
      else (case approved_peer (cloud s) (the peer_id) of
        None \<Rightarrow> (s, False)
      | Some p \<Rightarrow>
          (do_deed (peer_deed (p_api_url p) m) s,
           (case peer_answer e p m of PeerUnreachable \<Rightarrow> False | PeerResponse st _ \<Rightarrow> st \<in> {200, 201, 204}))))"

definition pair_lab_vm :: "lab_env \<Rightarrow> string \<Rightarrow> string \<Rightarrow> lab_state \<Rightarrow> lab_state \<times> (string \<times> string) reply" where
  "pair_lab_vm e vm_id other s =
     (case (own_active vm_id s, own_active other s) of
        (Some a, Some b) \<Rightarrow>
          if vm_id = other then (s, Problem 404 ''Not Found'')
          else if lv_run_id a \<noteq> lv_run_id b \<or> opt (lv_host_id a) [] \<noteq> opt (lv_host_id b) [] then (s, Problem 409 ''Conflict'')
          else
            (case describe e vm_id s of
               (s1, None) \<Rightarrow> (s1, server_error)
             | (s1, Some da) \<Rightarrow>
                (case describe e other s1 of
                   (s2, None) \<Rightarrow> (s2, server_error)
                 | (s2, Some db) \<Rightarrow>
                     if ld_ip da = [] \<or> ld_ip db = [] then (s2, Problem 409 ''Not Ready'')
                     else (let (s3, ok) = labnet e (lv_host_id a) (Pair (ld_ip da) (ld_ip db)) s2
                           in (s3, if ok then Reply 201 (ld_ip da, ld_ip db) else Problem 502 ''Pair Failed''))))
      | _ \<Rightarrow> (s, Problem 404 ''Not Found''))"

section \<open>Deleting and reaping\<close>

text \<open>\<open>None\<close> when a call raises; otherwise whether the machine is gone.\<close>

definition address_of :: "lab_env \<Rightarrow> string \<Rightarrow> lab_state \<Rightarrow> lab_state \<times> string option" where
  "address_of e vm_id s =
     (if own_active vm_id s = None then (s, Some [])
      else (let (s1, d) = describe e vm_id s in (s1, map_option ld_ip d)))"

definition mark_deleted :: "instant \<Rightarrow> string \<Rightarrow> string \<Rightarrow> lab_state \<Rightarrow> lab_state" where
  "mark_deleted now vm_id reason =
     set_rows (\<lambda>r. lv_id r = vm_id \<and> lv_deleted_at r = None) (\<lambda>r. r\<lparr>lv_deleted_at := Some now, lv_delete_reason := Some reason\<rparr>)"

definition delete :: "lab_env \<Rightarrow> string \<Rightarrow> string \<Rightarrow> lab_state \<Rightarrow> lab_state \<times> bool option" where
  "delete e vm_id reason s =
     (case address_of e vm_id s of
        (s1, None) \<Rightarrow> (s1, None)
      | (s1, Some ip) \<Rightarrow>
         (let s2 = (if ip = [] then s1 else fst (labnet e (lv_host_id (the (own vm_id s))) (Unpair ip) s1)) in
          case call e (DeleteInst vm_id) s2 of
            (s3, None) \<Rightarrow> (s3, None)
          | (s3, Some (st, _)) \<Rightarrow> if st \<in> {200, 204, 404} then (mark_deleted (le_now e) vm_id reason s3, Some True) else (s3, Some False)))"

definition delete_lab_vm :: "lab_env \<Rightarrow> string \<Rightarrow> lab_state \<Rightarrow> lab_state \<times> unit reply" where
  "delete_lab_vm e vm_id s =
     (case own vm_id s of
        None \<Rightarrow> (s, Problem 404 ''Not Found'')
      | Some row \<Rightarrow>
          if lv_deleted_at row \<noteq> None then (s, NoContent 204)
          else (let (s1, ok) = delete e vm_id ''requested'' s
                in (s1, (case ok of None \<Rightarrow> server_error | Some True \<Rightarrow> NoContent 204 | Some False \<Rightarrow> Problem 502 ''Delete Failed''))))"

definition why_reap :: "instant \<Rightarrow> lab_vm \<Rightarrow> string" where
  "why_reap now r =
     (if lv_expires_at r \<le> now then ''lifetime reached''
      else (case lv_idle_minutes r of None \<Rightarrow> []
        | Some m \<Rightarrow> if m \<noteq> 0 \<and> lv_last_touch_at r + minutes m \<le> now then ''idle limit reached'' else []))"

text \<open>The rows are read once; a call that raises ends the round (the second component is then \<open>None\<close>).\<close>

fun reap :: "lab_env \<Rightarrow> lab_vm list \<Rightarrow> string list \<Rightarrow> lab_state \<Rightarrow> lab_state \<times> string list option" where
  "reap e [] reaped s = (s, Some reaped)"
| "reap e (r # rs) reaped s =
     (if why_reap (le_now e) r = [] then reap e rs reaped s
      else (case delete e (lv_id r) (why_reap (le_now e) r) s of
        (s1, None) \<Rightarrow> (s1, None)
      | (s1, Some ok) \<Rightarrow> reap e rs (if ok then reaped @ [lv_id r] else reaped) s1))"

definition reap_once :: "lab_env \<Rightarrow> lab_state \<Rightarrow> lab_state \<times> string list option" where
  "reap_once e s = reap e (active s) [] s"

section \<open>The build machine and the disks\<close>

definition set_control_key :: "lab_env \<Rightarrow> string \<Rightarrow> string option \<Rightarrow> lab_state \<Rightarrow> lab_state \<times> unit reply" where
  "set_control_key e vm_id public_key s =
     (case own_active vm_id s of
        None \<Rightarrow> (s, Problem 404 ''Not Found'')
      | Some row \<Rightarrow>
          if lv_purpose row \<noteq> ''lfs-build'' then (s, Problem 409 ''Conflict'')
          else
            (let pubkey = py_strip (opt public_key []) in
             if \<not> pubkey_ok pubkey then (s, Problem 400 ''Bad Request'')
             else (case describe e vm_id s of
               (s1, None) \<Rightarrow> (s1, server_error)
             | (s1, Some d) \<Rightarrow>
                 if ld_ip d = [] then (s1, Problem 409 ''Not Ready'')
                 else (do_deed (InstallKey (ld_ip d) pubkey) s1,
                   (case le_ssh e (ld_ip d) (pubkey @ [newline]) of
                      SshTimeout \<Rightarrow> Problem 504 ''Timeout''
                    | SshExit code \<Rightarrow> if code \<noteq> 0 then Problem 502 ''Key Not Installed'' else Reply 201 ())))))"

definition build_vm :: "string \<Rightarrow> lab_state \<Rightarrow> nat \<times> string + lab_vm" where
  "build_vm vm_id s = (case own_active vm_id s of None \<Rightarrow> Inl (404, ''Not Found'')
     | Some row \<Rightarrow> if lv_purpose row \<noteq> ''lfs-build'' then Inl (409, ''Conflict'') else Inr row)"

definition pass_on :: "lab_env \<Rightarrow> api_call \<Rightarrow> lab_state \<Rightarrow> lab_state \<times> jdict reply" where
  "pass_on e c s = (let (s1, r) = call e c s in (s1, (case r of None \<Rightarrow> server_error | Some (st, out) \<Rightarrow> Reply st out)))"

definition list_build_snapshots :: "lab_env \<Rightarrow> string \<Rightarrow> lab_state \<Rightarrow> lab_state \<times> jdict reply" where
  "list_build_snapshots e vm_id s = (case build_vm vm_id s of Inl (st, t) \<Rightarrow> (s, Problem st t) | Inr _ \<Rightarrow> pass_on e (ListSnapshots vm_id) s)"

definition take_build_snapshot :: "lab_env \<Rightarrow> string \<Rightarrow> jdict \<Rightarrow> lab_state \<Rightarrow> lab_state \<times> jdict reply" where
  "take_build_snapshot e vm_id body s =
     (case build_vm vm_id s of Inl (st, t) \<Rightarrow> (s, Problem st t)
      | Inr _ \<Rightarrow> pass_on e (TakeSnapshot vm_id (jget body ''name'') (jget_default body ''description'' (JStr []))) s)"

definition restore_build_snapshot :: "lab_env \<Rightarrow> string \<Rightarrow> string \<Rightarrow> lab_state \<Rightarrow> lab_state \<times> jdict reply" where
  "restore_build_snapshot e vm_id name s =
     (case build_vm vm_id s of Inl (st, t) \<Rightarrow> (s, Problem st t) | Inr _ \<Rightarrow> pass_on e (RestoreSnapshot vm_id name) s)"

definition grow_lab_vm_disk :: "lab_env \<Rightarrow> string \<Rightarrow> string option \<Rightarrow> jval \<Rightarrow> lab_state \<Rightarrow> lab_state \<times> jdict reply" where
  "grow_lab_vm_disk e vm_id target size_gb s =
     (if own_active vm_id s = None then (s, Problem 404 ''Not Found'')
      else if opt target [] \<notin> {''sda'', ''sdb'', ''sdc''} then (s, Problem 400 ''Bad Request'')
      else pass_on e (ResizeDisk vm_id (opt target []) size_gb) s)"

end
