(* ===== verification/Broker_Props.thy ===== *)
theory Broker_Props
  imports Lab_Broker Instances_Props
begin

text \<open>
  What the lab-VM broker guarantees: its quotas under every interleaving of its requests, that it only
  ever touches machines of its own and creates them only from its templates, that the reaper removes
  what is overdue, and that a caller's key cannot add a line to the cloud-init document.
\<close>

section \<open>Frames\<close>

lemma do_deed_simps [simp]:
  "lab_tbl (do_deed d s) = lab_tbl s" "cloud (do_deed d s) = cloud s" "deeds (do_deed d s) = deeds s @ [d]"
  by (simp_all add: do_deed_def)

lemma call_tbl: "call e c s = (s1, r) \<Longrightarrow> lab_tbl s1 = lab_tbl s"
  by (auto simp: call_def split: prod.splits)

lemma call_deeds: "call e c s = (s1, r) \<Longrightarrow> deeds s1 = deeds s @ [Api c]"
  by (auto simp: call_def split: prod.splits)

lemma labnet_tbl [simp]: "lab_tbl (fst (labnet e p m s)) = lab_tbl s"
  by (simp add: labnet_def split: option.split)

lemma labnet_cloud [simp]: "cloud (fst (labnet e p m s)) = cloud s"
  by (simp add: labnet_def split: option.split)

lemma describe_tbl: "describe e i s = (s1, d) \<Longrightarrow> lab_tbl s1 = lab_tbl s"
  by (auto simp: describe_def dest: call_tbl split: option.splits if_splits prod.splits)

lemma describe_tbl_fst [simp]: "lab_tbl (fst (describe e i s)) = lab_tbl s"
  using describe_tbl [of e i s] by (cases "describe e i s") simp

lemma find_or_create_tbl: "find_or_create e a P b s = (s1, r) \<Longrightarrow> lab_tbl s1 = lab_tbl s"
  by (auto simp: find_or_create_def dest!: call_tbl split: option.splits if_splits prod.splits)

lemma ensure_network_tbl: "ensure_network e p s = (s1, r) \<Longrightarrow> lab_tbl s1 = lab_tbl s"
  by (auto simp: ensure_network_def dest!: find_or_create_tbl split: sum.splits prod.splits)

lemma host_stats_tbl: "host_stats e p s = (s1, r) \<Longrightarrow> lab_tbl s1 = lab_tbl s"
  by (auto simp: host_stats_def dest!: call_tbl split: option.splits prod.splits)

lemma provision_tbl: "provision e a order s = (s1, r) \<Longrightarrow> lab_tbl s1 = lab_tbl s"
  by (auto simp: provision_def Let_def dest!: call_tbl ensure_network_tbl host_stats_tbl split: option.splits if_splits prod.splits sum.splits)

lemma address_of_tbl: "address_of e i s = (s1, r) \<Longrightarrow> lab_tbl s1 = lab_tbl s"
  by (auto simp: address_of_def dest!: describe_tbl split: if_splits prod.splits)

lemma pass_on_tbl: "lab_tbl (fst (pass_on e c s)) = lab_tbl s"
  by (auto simp: pass_on_def dest!: call_tbl split: prod.splits)

lemmas broker_frames = call_tbl describe_tbl find_or_create_tbl ensure_network_tbl host_stats_tbl provision_tbl address_of_tbl

text \<open>A delete changes the table only by marking the row.\<close>

lemma delete_tbl:
  assumes "delete e i why s = (s1, ok)"
  shows "lab_tbl s1 = lab_tbl (if ok = Some True then mark_deleted (le_now e) i why s else s)"
  using assms
  by (auto simp: delete_def Let_def mark_deleted_def set_rows_def dest!: address_of_tbl call_tbl split: option.splits if_splits prod.splits)

lemma active_cong: "lab_tbl s = lab_tbl s' \<Longrightarrow> active s = active s'"
  by (simp add: active_def)

lemma own_cong: "lab_tbl s = lab_tbl s' \<Longrightarrow> own i s = own i s'"
  by (simp add: own_def)

section \<open>Quotas under the lock\<close>

text \<open>
  Requests run in threads.  Only \<^verbatim>\<open>create_lab_vm\<close> holds \<^verbatim>\<open>_lock\<close>, from its count to its insert; the other
  routes and the reaper change a row at any moment.  A state is the broker's and the order of the
  create that holds the lock.
\<close>

record lab_threads =
  lt_state :: lab_state
  lt_order :: "lab_order option"

inductive lab_step :: "lab_threads \<Rightarrow> lab_threads \<Rightarrow> bool" where
  admit: "lt_order t = None \<Longrightarrow> lab_checks body = Inr order \<Longrightarrow> \<not> over_quota (lo_purpose order) (lt_state t) \<Longrightarrow>
    lab_step t (t\<lparr>lt_order := Some order\<rparr>)"
| insert: "lt_order t = Some order \<Longrightarrow> insert_row (lab_row now vm_id name order peer_id flavor) (lt_state t) = Some s \<Longrightarrow>
    lab_step t \<lparr>lt_state = s, lt_order = None\<rparr>"
| release: "lab_step t (t\<lparr>lt_order := None\<rparr>)"
| touch: "lab_step t (t\<lparr>lt_state := set_rows (\<lambda>r. lv_id r = vm_id) (\<lambda>r. r\<lparr>lv_last_touch_at := now\<rparr>) (lt_state t)\<rparr>)"
| mark: "lab_step t (t\<lparr>lt_state := mark_deleted now vm_id reason (lt_state t)\<rparr>)"
| world: "lab_step t (t\<lparr>lt_state := (lt_state t)\<lparr>cloud := h, deeds := ds\<rparr>\<rparr>)"

definition quota_ok :: "lab_state \<Rightarrow> bool" where
  "quota_ok s \<longleftrightarrow> length (active s) \<le> MAX_ACTIVE \<and> of_purpose ''student'' s \<le> MAX_STUDENT \<and> of_purpose ''lfs-build'' s \<le> MAX_LFS_BUILD"

definition row_ok :: "lab_vm \<Rightarrow> bool" where
  "row_ok r \<longleftrightarrow> (\<exists>fs life idle. map_of PURPOSES (lv_purpose r) = Some (fs, life, idle) \<and>
     lv_expires_at r = lv_created_at r + life \<and> lv_idle_minutes r = map_option (\<lambda>i. i div 1000000 div 60) idle)"

definition lab_inv :: "lab_threads \<Rightarrow> bool" where
  "lab_inv t \<longleftrightarrow> quota_ok (lt_state t) \<and> wf_table lv_id (lab_tbl (lt_state t)) \<and> (\<forall>r \<in> set (lab_tbl (lt_state t)). row_ok r) \<and>
     (\<forall>order. lt_order t = Some order \<longrightarrow> \<not> over_quota (lo_purpose order) (lt_state t) \<and> map_of PURPOSES (lo_purpose order) \<noteq> None)"

lemma length_filter_mono:
  "(\<And>x. P x \<Longrightarrow> Q x) \<Longrightarrow> length (filter P xs) \<le> length (filter Q xs)"
  by (induction xs) auto

text \<open>A statement that revives no row and changes no purpose leaves room where there was room.\<close>

definition gentle :: "(lab_vm \<Rightarrow> lab_vm) \<Rightarrow> bool" where
  "gentle f \<longleftrightarrow> (\<forall>r. lv_id (f r) = lv_id r \<and> lv_purpose (f r) = lv_purpose r \<and> (lv_deleted_at (f r) = None \<longrightarrow> lv_deleted_at r = None) \<and>
     (row_ok (f r) \<longleftrightarrow> row_ok r))"

lemma gentle_touch: "gentle (\<lambda>r. r\<lparr>lv_last_touch_at := now\<rparr>)"
  by (simp add: gentle_def row_ok_def)

lemma gentle_mark: "gentle (\<lambda>r. r\<lparr>lv_deleted_at := Some now, lv_delete_reason := Some why\<rparr>)"
  by (simp add: gentle_def row_ok_def)

lemma gentle_counts:
  assumes "gentle f"
  shows "length (active (set_rows P f s)) \<le> length (active s)" "of_purpose p (set_rows P f s) \<le> of_purpose p s"
  using assms
  by (auto simp: active_def of_purpose_def set_rows_def update_where_def gentle_def comp_def filter_map intro!: length_filter_mono split: if_splits)

lemma gentle_over_quota: "gentle f \<Longrightarrow> over_quota p (set_rows P f s) \<Longrightarrow> over_quota p s"
  using gentle_counts [where f = f and P = P and s = s] by (auto simp: over_quota_def intro: order_trans)

lemma gentle_inv:
  assumes "gentle f" "lab_inv t"
  shows "lab_inv (t\<lparr>lt_state := set_rows P f (lt_state t)\<rparr>)"
proof -
  let ?s = "lt_state t"
  have "quota_ok (set_rows P f ?s)"
    using assms gentle_counts [OF assms(1), where P = P and s = ?s] unfolding lab_inv_def quota_ok_def by (meson order_trans)
  moreover have "wf_table lv_id (lab_tbl (set_rows P f ?s))"
    using assms by (simp add: lab_inv_def set_rows_def wf_update_where gentle_def)
  moreover have "\<forall>r \<in> set (lab_tbl (set_rows P f ?s)). row_ok r"
    using assms by (auto simp: lab_inv_def set_rows_def update_where_def gentle_def)
  ultimately show ?thesis
    using assms gentle_over_quota [OF assms(1), of _ P ?s] by (auto simp: lab_inv_def)
qed

lemma lab_checks_purpose: "lab_checks body = Inr order \<Longrightarrow> map_of PURPOSES (lo_purpose order) \<noteq> None"
  by (auto simp: lab_checks_def Let_def split: option.splits if_splits)

lemma lab_row_simps [simp]:
  "lv_purpose (lab_row now i n order p f) = lo_purpose order" "lv_id (lab_row now i n order p f) = i"
  "lv_deleted_at (lab_row now i n order p f) = None"
  by (simp_all add: lab_row_def Let_def split: prod.splits)

lemma row_ok_lab_row: "map_of PURPOSES (lo_purpose order) \<noteq> None \<Longrightarrow> row_ok (lab_row now i n order p f)"
  by (auto simp: row_ok_def lab_row_def)

lemma insert_inv:
  assumes "lab_inv t" "lt_order t = Some order" "insert_row (lab_row now i n order p f) (lt_state t) = Some s"
  shows "lab_inv \<lparr>lt_state = s, lt_order = None\<rparr>"
proof -
  let ?r = "lab_row now i n order p f" and ?s = "lt_state t"
  have s: "lab_tbl s = lab_tbl ?s @ [?r]" and fresh: "i \<notin> lv_id ` set (lab_tbl ?s)"
    using assms(3) by (auto simp: insert_row_def own_def find_None_iff split: if_splits)
  have room: "\<not> over_quota (lo_purpose order) ?s" "map_of PURPOSES (lo_purpose order) \<noteq> None" "quota_ok ?s"
    using assms(1,2) by (auto simp: lab_inv_def)
  have "active s = active ?s @ [?r]" by (simp add: active_def s)
  moreover have "of_purpose q s = of_purpose q ?s + (if lo_purpose order = q then 1 else 0)" for q
    by (simp add: of_purpose_def calculation)
  ultimately have "quota_ok s" using room by (auto simp: quota_ok_def over_quota_def)
  moreover have "wf_table lv_id (lab_tbl s)" using assms(1) fresh by (auto simp: s lab_inv_def wf_table_def)
  moreover have "\<forall>r \<in> set (lab_tbl s). row_ok r" using assms(1) row_ok_lab_row [OF room(2)] by (auto simp: s lab_inv_def)
  ultimately show ?thesis by (simp add: lab_inv_def)
qed

lemma world_inv: "lab_inv t \<Longrightarrow> lab_inv (t\<lparr>lt_state := (lt_state t)\<lparr>cloud := h, deeds := ds\<rparr>\<rparr>)"
  by (simp add: lab_inv_def quota_ok_def over_quota_def of_purpose_def active_def)

lemma lab_inv_step: "lab_step t t' \<Longrightarrow> lab_inv t \<Longrightarrow> lab_inv t'"
proof (induction rule: lab_step.induct)
  case (admit t body order)
  then show ?case using lab_checks_purpose by (simp add: lab_inv_def)
next
  case (insert t order now vm_id name peer_id flavor s)
  then show ?case by (blast intro: insert_inv)
next
  case (mark t now vm_id reason)
  then show ?case unfolding mark_deleted_def by (intro gentle_inv gentle_mark)
next
  case (touch t vm_id now)
  then show ?case by (intro gentle_inv gentle_touch)
next
  case (world t h ds)
  then show ?case by (rule world_inv)
qed (simp add: lab_inv_def)

lemma lab_inv_reach:
  assumes "lab_step\<^sup>*\<^sup>* \<lparr>lt_state = s, lt_order = None\<rparr> t" "lab_tbl s = []"
  shows "lab_inv t"
  using assms(1)
proof (induction rule: rtranclp_induct)
  case base
  show ?case using assms(2) by (simp add: lab_inv_def quota_ok_def of_purpose_def active_def)
qed (rule lab_inv_step)

subsection \<open>Every route is a sequence of these steps\<close>

abbreviation idle_at :: "lab_state \<Rightarrow> lab_threads" where "idle_at s \<equiv> \<lparr>lt_state = s, lt_order = None\<rparr>"

text \<open>A change of nothing but the world is a step.\<close>

lemma lab_state_eq: "lab_tbl s' = lab_tbl s \<Longrightarrow> (s' :: lab_state) = s\<lparr>cloud := cloud s', deeds := deeds s'\<rparr>"
  by simp

lemma world_step: "lab_tbl s' = lab_tbl (lt_state t) \<Longrightarrow> lab_step\<^sup>*\<^sup>* t (t\<lparr>lt_state := s'\<rparr>)"
  using lab_step.world [where t = t and h = "cloud s'" and ds = "deeds s'"] lab_state_eq [of s' "lt_state t"] by (simp add: r_into_rtranclp)

lemma world_idle: "lab_tbl s' = lab_tbl s \<Longrightarrow> lab_step\<^sup>*\<^sup>* (idle_at s) (idle_at s')"
  using world_step [of s' "idle_at s"] by simp

lemma delete_steps:
  assumes "delete e i why s = (s1, ok)"
  shows "lab_step\<^sup>*\<^sup>* (idle_at s) (idle_at s1)"
proof (cases "ok = Some True")
  case True
  have "lab_step (idle_at s) (idle_at (mark_deleted (le_now e) i why s))"
    using lab_step.mark [of "idle_at s"] by simp
  moreover have "lab_tbl s1 = lab_tbl (mark_deleted (le_now e) i why s)" using delete_tbl [OF assms] True by simp
  ultimately show ?thesis by (meson converse_rtranclp_into_rtranclp world_idle)
next
  case False
  then show ?thesis using delete_tbl [OF assms] by (intro world_idle) simp
qed

lemma reap_steps: "lab_step\<^sup>*\<^sup>* (idle_at s) (idle_at (fst (reap e rs acc s)))"
proof (induction rs arbitrary: acc s)
  case (Cons r rs)
  then show ?case
    using delete_steps [of e "lv_id r" "why_reap (le_now e) r" s]
    by (auto split: prod.splits option.splits intro: rtranclp_trans)
qed simp

lemma create_steps: "lab_step\<^sup>*\<^sup>* (idle_at s) (idle_at (fst (create_lab_vm e addr body s)))"
proof (cases "\<exists>order s1 row s2. lab_checks body = Inr order \<and> \<not> over_quota (lo_purpose order) s \<and>
    provision e addr order s = (s1, Inr row) \<and> insert_row row s1 = Some s2")
  case True
  then obtain order s1 row s2 where ok: "lab_checks body = Inr order" "\<not> over_quota (lo_purpose order) s"
    "provision e addr order s = (s1, Inr row)" "insert_row row s1 = Some s2" by blast
  obtain now i n p f where row: "row = lab_row now i n order p f"
    using ok(3) by (auto simp: provision_def Let_def split: option.splits if_splits prod.splits sum.splits)
  have "lab_step (idle_at s) \<lparr>lt_state = s, lt_order = Some order\<rparr>"
    using lab_step.admit [of "idle_at s" body order] ok(1,2) by simp
  also have "lab_step\<^sup>*\<^sup>* \<lparr>lt_state = s, lt_order = Some order\<rparr> \<lparr>lt_state = s1, lt_order = Some order\<rparr>"
    using world_step [of s1 "\<lparr>lt_state = s, lt_order = Some order\<rparr>"] provision_tbl [OF ok(3)] by simp
  also have "lab_step \<lparr>lt_state = s1, lt_order = Some order\<rparr> (idle_at s2)"
    using lab_step.insert [of "\<lparr>lt_state = s1, lt_order = Some order\<rparr>" order now i n p f s2] ok(4) row by simp
  also have "lab_step\<^sup>*\<^sup>* (idle_at s2) (idle_at (fst (create_lab_vm e addr body s)))"
    using ok by (intro world_idle) (simp add: create_lab_vm_def reply_view_def)
  finally show ?thesis .
next
  case False
  then show ?thesis
    by (intro world_idle) (auto simp: create_lab_vm_def dest: provision_tbl split: sum.splits prod.splits option.splits)
qed

lemma touch_steps: "lab_step\<^sup>*\<^sup>* (idle_at s) (idle_at (fst (touch_lab_vm e i s)))"
proof (cases "own_active i s = None")
  case False
  let ?s = "set_rows (\<lambda>r. lv_id r = i) (\<lambda>r. r\<lparr>lv_last_touch_at := le_now e\<rparr>) s"
  have "lab_step (idle_at s) (idle_at ?s)" using lab_step.touch [of "idle_at s"] by simp
  moreover have "lab_tbl (fst (touch_lab_vm e i s)) = lab_tbl ?s"
    using False by (auto simp: touch_lab_vm_def reply_view_def)
  ultimately show ?thesis by (meson converse_rtranclp_into_rtranclp world_idle)
qed (simp add: touch_lab_vm_def)

lemma delete_route_steps: "lab_step\<^sup>*\<^sup>* (idle_at s) (idle_at (fst (delete_lab_vm e i s)))"
  using delete_steps [of e i "''requested''" s] by (auto simp: delete_lab_vm_def split: option.splits prod.splits)

text \<open>
  C24: However creates, touches, deletes and rounds of the reaper interleave with each other and with anything
  the rest of the host does, at most six lab machines exist, at most two of students and one LFS build
  machine, identifiers are unique, and every row carries the lifetime and idle limit of its purpose.
  Each of these routes, whatever the API answers, is a sequence of the steps.
\<close>

theorem lab_quota_under_lock:
  assumes "lab_step\<^sup>*\<^sup>* (idle_at s) t" "lab_tbl s = []"
  shows "quota_ok (lt_state t) \<and> wf_table lv_id (lab_tbl (lt_state t)) \<and> list_all row_ok (lab_tbl (lt_state t)) \<and>
    lab_step\<^sup>*\<^sup>* (idle_at s') (idle_at (fst (create_lab_vm e addr body s'))) \<and>
    lab_step\<^sup>*\<^sup>* (idle_at s') (idle_at (fst (touch_lab_vm e i s'))) \<and>
    lab_step\<^sup>*\<^sup>* (idle_at s') (idle_at (fst (delete_lab_vm e i s'))) \<and>
    lab_step\<^sup>*\<^sup>* (idle_at s') (idle_at (fst (reap_once e s')))"
  using lab_inv_reach [OF assms] create_steps touch_steps delete_route_steps reap_steps
  by (simp add: lab_inv_def reap_once_def list_all_iff)

section \<open>Confinement\<close>

fun target :: "api_call \<Rightarrow> string option" where
  "target (GetInst i) = Some i"
| "target (DeleteInst i) = Some i"
| "target (ListSnapshots i) = Some i"
| "target (TakeSnapshot i n d) = Some i"
| "target (RestoreSnapshot i n) = Some i"
| "target (ResizeDisk i t g) = Some i"
| "target c = None"

fun on_snapshots :: "api_call \<Rightarrow> bool" where
  "on_snapshots (ListSnapshots i) = True"
| "on_snapshots (TakeSnapshot i n d) = True"
| "on_snapshots (RestoreSnapshot i n) = True"
| "on_snapshots c = False"

text \<open>A request for a machine as the templates make it, for an order that passed the checks.\<close>

definition template_of :: "lab_order \<Rightarrow> inst_body \<Rightarrow> bool" where
  "template_of order b \<longleftrightarrow> run_id_ok (lo_run_id order) \<and> pubkey_ok (lo_pubkey order) \<and>
     (\<exists>fs life idle. map_of PURPOSES (lo_purpose order) = Some (fs, life, idle) \<and> ib_flavor b \<in> Some ` set fs) \<and>
     ib_image_id b = Some ''ubuntu-22.04'' \<and> map_of (the (ib_tags b)) ''network'' = Some ''lab'' \<and>
     map_of (the (ib_tags b)) ''run_id'' = Some (lo_run_id order) \<and>
     ib_user_data b = Some (user_data (lo_purpose order) (lo_pubkey order)) \<and>
     (\<forall>u \<in> set (the (ib_users b)). ub_ssh_keys u = Some [lo_pubkey order])"

definition from_template :: "inst_body \<Rightarrow> bool" where
  "from_template b \<longleftrightarrow> (\<exists>order. template_of order b)"

definition keys :: "lab_state \<Rightarrow> (string \<times> string) set" where
  "keys s = (\<lambda>r. (lv_id r, lv_purpose r)) ` set (lab_tbl s)"

definition call_ok :: "(string \<times> string) set \<Rightarrow> api_call \<Rightarrow> bool" where
  "call_ok K c \<longleftrightarrow> (\<forall>i. target c = Some i \<longrightarrow> (\<exists>p. (i, p) \<in> K \<and> (on_snapshots c \<longrightarrow> p = ''lfs-build''))) \<and>
     (\<forall>b. c = CreateInst b \<longrightarrow> from_template b)"

definition deed_ok :: "(string \<times> string) set \<Rightarrow> deed \<Rightarrow> bool" where
  "deed_ok K d \<longleftrightarrow> (\<forall>c. d = Api c \<longrightarrow> call_ok K c)"

text \<open>From \<open>s\<close> to \<open>s'\<close> no machine is forgotten and all that was done concerns machines of the broker.\<close>

definition confined :: "lab_state \<Rightarrow> lab_state \<Rightarrow> bool" where
  "confined s s' \<longleftrightarrow> keys s \<subseteq> keys s' \<and> (\<exists>ds. deeds s' = deeds s @ ds \<and> list_all (deed_ok (keys s')) ds)"

lemma deed_ok_mono: "deed_ok K d \<Longrightarrow> K \<subseteq> K' \<Longrightarrow> deed_ok K' d"
  unfolding deed_ok_def call_ok_def by blast

lemma confined_refl [simp]: "confined s s"
  by (simp add: confined_def)

lemma confined_trans: "confined s s1 \<Longrightarrow> confined s1 s2 \<Longrightarrow> confined s s2"
  unfolding confined_def list_all_iff using deed_ok_mono by fastforce

lemma keys_cong: "lab_tbl s = lab_tbl s' \<Longrightarrow> keys s = keys s'"
  by (simp add: keys_def)

lemma call_confined:
  assumes "call e c s = (s1, r)" "call_ok (keys s) c"
  shows "confined s s1"
  using assms(2) call_deeds [OF assms(1)] keys_cong [OF call_tbl [OF assms(1)]]
  by (auto simp: confined_def deed_ok_def)

lemma do_deed_confined: "(\<And>c. d \<noteq> Api c) \<Longrightarrow> confined s (do_deed d s)"
  by (simp add: confined_def keys_def deed_ok_def)

lemma keys_map: "keys s = set (map (\<lambda>r. (lv_id r, lv_purpose r)) (lab_tbl s))"
  by (simp add: keys_def)

lemma gentle_keys: "gentle f \<Longrightarrow> keys (set_rows P f s) = keys s"
  unfolding keys_map set_rows_def by (simp add: map_key_update gentle_def del: set_map)

lemma gentle_confined: "gentle f \<Longrightarrow> confined s (set_rows P f s)"
  by (simp add: confined_def gentle_keys) (simp add: set_rows_def)

lemma labnet_confined: "confined s (fst (labnet e p m s))"
  by (auto simp: labnet_def helper_args_def peer_deed_def intro!: do_deed_confined split: option.split pairing.split)

lemma own_keys: "own i s = Some r \<Longrightarrow> (i, lv_purpose r) \<in> keys s"
  by (auto simp: own_def keys_def dest!: find_Some_in)

lemma own_active_own: "own_active i s = Some r \<longleftrightarrow> own i s = Some r \<and> lv_deleted_at r = None"
  by (auto simp: own_active_def split: option.splits if_splits)

lemma own_active_keys: "own_active i s = Some r \<Longrightarrow> (i, lv_purpose r) \<in> keys s"
  by (simp add: own_active_own own_keys)

lemma describe_confined: "confined s (fst (describe e i s))"
proof (cases "\<exists>r. own i s = Some r \<and> lv_deleted_at r = None")
  case True
  then have "call_ok (keys s) (GetInst i)" using own_keys [of i s] by (auto simp: call_ok_def)
  then show ?thesis
    using True call_confined [of e "GetInst i" s] by (auto simp: describe_def split: prod.splits option.splits)
next
  case False
  then show ?thesis by (auto simp: describe_def split: option.splits)
qed

lemma find_or_create_confined:
  assumes "find_or_create e a P b s = (s1, r)" "\<And>K. call_ok K a" "\<And>K. call_ok K b"
  shows "confined s s1"
  using assms
  by (auto simp: find_or_create_def dest!: call_confined intro: confined_trans split: option.splits if_splits prod.splits)

lemma ensure_network_confined:
  assumes "ensure_network e p s = (s1, r)"
  shows "confined s s1"
proof -
  have free: "call_ok K (ListVpcs p)" "call_ok K (CreateVpc v)" "call_ok K (ListSubnets p i)" "call_ok K (CreateSubnet n)" for K v i n
    by (simp_all add: call_ok_def)
  show ?thesis
    using assms free
    by (auto simp: ensure_network_def dest!: find_or_create_confined intro: confined_trans split: sum.splits prod.splits)
qed

lemma host_stats_confined: "host_stats e p s = (s1, r) \<Longrightarrow> confined s s1"
  by (auto simp: host_stats_def call_ok_def dest!: call_confined split: option.splits prod.splits)

lemma lab_checks_ok:
  "lab_checks body = Inr order \<Longrightarrow> run_id_ok (lo_run_id order) \<and> pubkey_ok (lo_pubkey order)"
  by (auto simp: lab_checks_def Let_def split: option.splits if_splits)

lemma find_in_set: "find P xs = Some x \<Longrightarrow> x \<in> set xs"
  by (auto dest: find_Some_in)

lemma request_from_template:
  assumes "lab_checks body = Inr order" "find P (fst (the (map_of PURPOSES (lo_purpose order)))) = Some flavor"
  shows "from_template (lab_request order name flavor p v n)"
proof -
  obtain fs life idle where "map_of PURPOSES (lo_purpose order) = Some (fs, life, idle)"
    using lab_checks_purpose [OF assms(1)] by auto
  moreover from this have "flavor \<in> set fs" using find_in_set [OF assms(2)] by simp
  ultimately have "template_of order (lab_request order name flavor p v n)"
    using lab_checks_ok [OF assms(1)] by (simp add: template_of_def lab_request_def lab_user_def IMAGE_ID_def)
  then show ?thesis unfolding from_template_def by blast
qed

lemma create_call_confined:
  assumes "lab_checks body = Inr order" "find P (fst (the (map_of PURPOSES (lo_purpose order)))) = Some flavor"
    "call e (CreateInst (lab_request order name flavor p v n)) s = (s1, r)"
  shows "confined s s1"
  using call_confined [OF assms(3)] request_from_template [OF assms(1,2)] by (simp add: call_ok_def)

lemma provision_confined:
  assumes "provision e addr order s = (s1, r)" "lab_checks body = Inr order"
  shows "confined s s1"
  using assms create_call_confined [OF assms(2)]
  by (fastforce simp: provision_def Let_def dest: host_stats_confined ensure_network_confined
      intro: confined_trans split: option.splits if_splits prod.splits sum.splits)

lemma insert_confined: "insert_row r s = Some s1 \<Longrightarrow> confined s s1"
  by (auto simp: insert_row_def confined_def keys_def split: if_splits)

lemma create_confined: "confined s (fst (create_lab_vm e addr body s))"
proof (cases "lab_checks body")
  case (Inr order)
  obtain s1 r where p: "provision e addr order s = (s1, r)" by (cases "provision e addr order s")
  have 1: "confined s s1" using provision_confined [OF p Inr] .
  have "confined s (fst (reply_view 202 (describe e i s2)))" if "insert_row row s1 = Some s2" for i row s2
    using confined_trans [OF 1 insert_confined [OF that]] describe_confined [of s2 e i]
    by (auto simp: reply_view_def intro: confined_trans)
  then show ?thesis using Inr p 1 by (auto simp: create_lab_vm_def split: sum.splits option.splits)
qed (simp add: create_lab_vm_def split: prod.split)

lemma delete_confined:
  assumes "(i, p) \<in> keys s"
  shows "confined s (fst (delete e i why s))"
proof -
  obtain s1 a where a: "address_of e i s = (s1, a)" by (cases "address_of e i s")
  have 1: "confined s s1" using a describe_confined [of s e i] by (auto simp: address_of_def split: if_splits prod.splits)
  define s2 where "s2 = (if the a = [] then s1 else fst (labnet e (lv_host_id (the (own i s))) (Unpair (the a)) s1))"
  have 2: "confined s s2" using 1 labnet_confined by (auto simp: s2_def intro: confined_trans)
  obtain s3 r where c: "call e (DeleteInst i) s2 = (s3, r)" by (cases "call e (DeleteInst i) s2")
  have "call_ok (keys s2) (DeleteInst i)" using assms 2 by (auto simp: call_ok_def confined_def)
  then have 3: "confined s s3" using call_confined [OF c] 2 by (blast intro: confined_trans)
  then have "confined s (mark_deleted (le_now e) i why s3)"
    unfolding mark_deleted_def using gentle_confined [OF gentle_mark] by (blast intro: confined_trans)
  then show ?thesis using a c 1 3 by (auto simp: delete_def Let_def s2_def split: option.splits)
qed

lemma reap_confined:
  assumes "\<forall>r \<in> set rs. (lv_id r, lv_purpose r) \<in> keys s"
  shows "confined s (fst (reap e rs acc s))"
  using assms
proof (induction rs arbitrary: acc s)
  case (Cons r rs)
  show ?case
  proof (cases "why_reap (le_now e) r = []")
    case False
    obtain s1 ok where d: "delete e (lv_id r) (why_reap (le_now e) r) s = (s1, ok)"
      by (cases "delete e (lv_id r) (why_reap (le_now e) r) s")
    have 1: "confined s s1" using delete_confined [of "lv_id r" "lv_purpose r" s e "why_reap (le_now e) r"] Cons.prems d by auto
    then have "\<forall>r \<in> set rs. (lv_id r, lv_purpose r) \<in> keys s1" using Cons.prems by (auto simp: confined_def)
    then have "confined s (fst (reap e rs acc' s1))" for acc' using Cons.IH 1 confined_trans by blast
    then show ?thesis using False d 1 by (simp split: option.split)
  qed (use Cons in simp)
qed simp

subsection \<open>The routes\<close>

lemma reply_view_fst [simp]: "fst (reply_view st r) = fst r"
  by (simp add: reply_view_def)

lemma pass_on_confined: "call_ok (keys s) c \<Longrightarrow> confined s (fst (pass_on e c s))"
  using call_confined [of e c s] by (auto simp: pass_on_def split: prod.splits)

lemma touch_confined: "confined s (fst (touch_lab_vm e i s))"
  using confined_trans [OF gentle_confined [OF gentle_touch] describe_confined]
  by (simp add: touch_lab_vm_def)

lemma get_confined: "confined s (fst (get_lab_vm e i s))"
  using describe_confined by (simp add: get_lab_vm_def)

lemma delete_route_confined: "confined s (fst (delete_lab_vm e i s))"
  using delete_confined [OF own_keys, of i s _ e "''requested''"]
  by (auto simp: delete_lab_vm_def split: option.splits prod.splits)

lemma describe_confinedI: "describe e i s = (s1, d) \<Longrightarrow> confined s s1"
  using describe_confined [of s e i] by simp

lemma labnet_confinedI: "labnet e p m s = (s1, ok) \<Longrightarrow> confined s s1"
  using labnet_confined [of s e p m] by simp

lemma pair_confined: "confined s (fst (pair_lab_vm e i other s))"
  by (auto simp: pair_lab_vm_def dest!: describe_confinedI labnet_confinedI intro: confined_trans split: option.splits prod.splits)

lemma key_confined: "confined s (fst (set_control_key e i k s))"
proof -
  have "confined s1 (do_deed (InstallKey ip key) s1)" for s1 ip key by (rule do_deed_confined) simp
  then show ?thesis
    by (auto simp: set_control_key_def Let_def dest!: describe_confinedI intro: confined_trans split: option.splits prod.splits)
qed

lemma build_vm_keys: "build_vm i s = Inr r \<Longrightarrow> (i, ''lfs-build'') \<in> keys s"
  by (auto simp: build_vm_def dest!: own_active_keys split: option.splits if_splits)

lemma snapshots_confined:
  "confined s (fst (list_build_snapshots e i s))" "confined s (fst (take_build_snapshot e i body s))"
  "confined s (fst (restore_build_snapshot e i name s))"
  using build_vm_keys [of i s]
  by (auto simp: list_build_snapshots_def take_build_snapshot_def restore_build_snapshot_def call_ok_def
      intro!: pass_on_confined split: sum.split)

lemma grow_confined: "confined s (fst (grow_lab_vm_disk e i disk g s))"
  by (auto simp: grow_lab_vm_disk_def call_ok_def dest!: own_active_keys intro!: pass_on_confined)

lemma reap_once_confined: "confined s (fst (reap_once e s))"
  unfolding reap_once_def by (rule reap_confined) (auto simp: active_def keys_def)

inductive lab_serves :: "lab_state \<Rightarrow> lab_state \<Rightarrow> bool" where
  create: "lab_serves s (fst (create_lab_vm e addr body s))"
| get: "lab_serves s (fst (get_lab_vm e i s))"
| touch: "lab_serves s (fst (touch_lab_vm e i s))"
| delete: "lab_serves s (fst (delete_lab_vm e i s))"
| pair: "lab_serves s (fst (pair_lab_vm e i other s))"
| key: "lab_serves s (fst (set_control_key e i pubkey s))"
| list_snapshots: "lab_serves s (fst (list_build_snapshots e i s))"
| take_snapshot: "lab_serves s (fst (take_build_snapshot e i jbody s))"
| restore_snapshot: "lab_serves s (fst (restore_build_snapshot e i name s))"
| grow: "lab_serves s (fst (grow_lab_vm_disk e i disk size_gb s))"
| reap: "lab_serves s (fst (reap_once e s))"
| elsewhere: "lab_serves s (s\<lparr>cloud := h\<rparr>)"

lemmas routes_confined = create_confined get_confined touch_confined delete_route_confined pair_confined key_confined
  snapshots_confined grow_confined reap_once_confined

lemma serves_confined: "lab_serves s s' \<Longrightarrow> confined s s'"
  by (induction rule: lab_serves.induct) (simp_all add: routes_confined, simp add: confined_def keys_def)

text \<open>
  C21: Over any sequence of requests to the broker and rounds of the reaper, whatever the API, the peers and the
  machines answer, every request that the broker ever made with the master token and that names an
  instance names a machine of its own table (for snapshots, an LFS build machine), and every instance it
  asked for comes from a template: its image, a size of the purpose, the isolated lab network, the fixed
  cloud-init document and a key and run id that passed the checks.
\<close>

theorem broker_confined:
  assumes "lab_serves\<^sup>*\<^sup>* s t" "deeds s = []"
  shows "list_all (deed_ok (keys t)) (deeds t)"
proof -
  have "confined s t" using assms(1)
    by (induction rule: rtranclp_induct) (auto intro: confined_trans serves_confined)
  then show ?thesis using assms(2) by (auto simp: confined_def)
qed

section \<open>The cloud-init document\<close>

lemma key_chars_clean: "is_key_char c \<Longrightarrow> c \<noteq> newline" "is_comment_char c \<Longrightarrow> c \<noteq> newline"
  by (auto simp: is_key_char_def is_comment_char_def is_word_char_def is_ascii_alnum_def newline_def Let_def)

lemma stripped_end: "s = py_strip x \<Longrightarrow> s \<noteq> p @ [newline]"
proof
  assume "s = py_strip x" "s = p @ [newline]"
  then have "dropWhile is_space (rev (dropWhile is_space x)) = newline # rev p" by (metis py_strip_def rev_append rev_rev_ident rev.simps append.simps)
  then have "\<not> is_space newline" by (metis hd_dropWhile list.distinct(1) list.sel(1))
  then show False by (simp add: is_space_def newline_def)
qed

lemma clean_takeWhile: "(\<And>c. P c \<Longrightarrow> c \<noteq> n) \<Longrightarrow> n \<in> set s \<Longrightarrow> n \<in> set (dropWhile P s)"
  by (induction s) auto

text \<open>The only newline that a matching key may hold is a final one, which \<^verbatim>\<open>strip()\<close> removed.\<close>

lemma comment_newline: "comment_ok s \<Longrightarrow> newline \<in> set s \<Longrightarrow> \<exists>p. s = p @ [newline]"
proof -
  assume ok: "comment_ok s" and n: "newline \<in> set s"
  show ?thesis
  proof (cases "at_end s")
    case False
    then obtain r where s: "s = CHR '' '' # r" and e: "at_end (dropWhile is_comment_char r)"
      using ok by (auto simp: comment_ok_def split: list.splits)
    have "newline \<in> set (dropWhile is_comment_char r)"
      using n s key_chars_clean(2) by (intro clean_takeWhile) (auto simp: newline_def)
    then have "dropWhile is_comment_char r = [newline]" using e by (metis at_end_def empty_iff list.set(1))
    then have "r = takeWhile is_comment_char r @ [newline]" by (metis takeWhile_dropWhile_id)
    then show ?thesis using s by (metis append_Cons)
  qed (use n in \<open>auto simp: at_end_def\<close>)
qed

lemma key_newline: "key_rest_ok s \<Longrightarrow> newline \<in> set s \<Longrightarrow> \<exists>p. s = p @ [newline]"
proof -
  assume ok: "key_rest_ok s" and n: "newline \<in> set s"
  have "newline \<in> set (dropWhile is_key_char s)" using n key_chars_clean(1) by (rule clean_takeWhile [rotated])
  then obtain p where "dropWhile is_key_char s = p @ [newline]"
    using ok comment_newline by (auto simp: key_rest_ok_def Let_def)
  then show ?thesis by (metis append_assoc takeWhile_dropWhile_id)
qed

lemma pubkey_clean:
  assumes "pubkey_ok (py_strip x)"
  shows "newline \<notin> set (py_strip x)"
proof
  assume n: "newline \<in> set (py_strip x)"
  obtain t where t: "t \<in> set KEY_TYPES" "startswith (py_strip x) (t @ '' '')" "key_rest_ok (drop (length t + 1) (py_strip x))"
    using assms by (auto simp: pubkey_ok_def list_ex_iff)
  have s: "py_strip x = (t @ '' '') @ drop (length t + 1) (py_strip x)"
    using t(2) by (metis startswith_def append_take_drop_id length_append length_Cons list.size(3) One_nat_def)
  have "newline \<notin> set (t @ '' '')" using t(1) by (auto simp: KEY_TYPES_def newline_def)
  then have "newline \<in> set (drop (length t + 1) (py_strip x))" using n s by (metis Un_iff set_append)
  then show False using key_newline [OF t(3)] s stripped_end [OF refl, of x] by (metis append_assoc)
qed

definition no_newline :: "string list \<Rightarrow> bool" where
  "no_newline ls \<longleftrightarrow> list_all (\<lambda>l. newline \<notin> set l) ls"

lemma no_newline_append: "no_newline (xs @ ys) \<longleftrightarrow> no_newline xs \<and> no_newline ys"
  by (simp add: no_newline_def)

lemma no_newline_indent: "no_newline ls \<Longrightarrow> no_newline (map indent ls)"
  by (auto simp: no_newline_def list_all_iff indent_def newline_def)

lemma no_newline_item: "no_newline ls \<Longrightarrow> no_newline (map (\<lambda>p. ''  - '' @ p) ls)"
  by (auto simp: no_newline_def list_all_iff newline_def)

lemma templates_clean: "list_all no_newline [DOC_HEAD, SSHD_FILE, CONTROL_SSHD, UNIT_FILE, CONTROL_UNIT, KEY_FILE, DOC_RUN]"
  by code_simp

lemma packages_clean: "list_all (\<lambda>(_, ps). no_newline ps) PACKAGES"
  by code_simp

lemma packages_of_clean: "no_newline (opt (map_of PACKAGES purpose) [])"
  using packages_clean map_of_SomeD [of PACKAGES purpose]
  by (cases "map_of PACKAGES purpose") (auto simp: opt_def list_all_iff no_newline_def)

lemma user_data_lines_clean: "newline \<notin> set pubkey \<Longrightarrow> no_newline (user_data_lines purpose pubkey)"
  using templates_clean no_newline_indent [of "[pubkey]"] no_newline_item [OF packages_of_clean]
  by (simp add: user_data_lines_def no_newline_append no_newline_indent) (simp add: no_newline_def)

text \<open>
  C37: The cloud-init document of a machine has exactly the lines of its template: the caller's key, as
  accepted by \<^verbatim>\<open>create_lab_vm\<close>, is one line of it, and no key adds a line or changes another.
\<close>

theorem user_data_no_injection:
  assumes "lab_checks body = Inr order"
  shows "split_on newline (user_data (lo_purpose order) (lo_pubkey order)) = user_data_lines (lo_purpose order) (lo_pubkey order) @ [[]] \<and>
    (\<exists>before after. \<forall>key. user_data_lines (lo_purpose order) key = before @ indent key # after)"
proof
  let ?ls = "user_data_lines (lo_purpose order) (lo_pubkey order)"
  have "newline \<notin> set (lo_pubkey order)"
    using assms pubkey_clean by (auto simp: lab_checks_def Let_def split: option.splits if_splits)
  then have "\<forall>l \<in> set ?ls. newline \<notin> set l" using user_data_lines_clean by (auto simp: no_newline_def list_all_iff)
  moreover have "?ls \<noteq> []" by (simp add: user_data_lines_def)
  ultimately have "split_on newline (join [newline] ?ls) = ?ls" by (simp add: split_on_join_clean)
  then show "split_on newline (user_data (lo_purpose order) (lo_pubkey order)) = ?ls @ [[]]"
    by (simp add: user_data_def split_on_append)
  show "\<exists>before after. \<forall>key. user_data_lines (lo_purpose order) key = before @ indent key # after"
    unfolding user_data_lines_def by blast
qed

section \<open>Two checks that are not what they look\<close>

text \<open>
  The broker compares the token with the environment's only: a named token of scope \<^verbatim>\<open>labvm\<close>, which the gate of
  the API admits to these routes, is refused here.  A run id may end in a newline.
\<close>

lemma require_token_iff:
  "require_token expected q = None \<longleftrightarrow>
     q_method q = ''OPTIONS'' \<or> expected \<noteq> [] \<and> q_auth q = bearer_prefix @ expected"
  by (auto simp: require_token_def Let_def startswith_iff)

lemma run_id_final_newline: "run_id_ok (''run-1'' @ [newline])"
  by code_simp

section \<open>A run\<close>

definition demo_pubkey :: string where
  "demo_pubkey = ''ssh-ed25519 AAAAC3NzaC1lZDI1NTE5AAAAIJdD7y3aLq454yWBdwLWbieU lab@coordinator''"

definition demo_lab_body :: lab_body where
  "demo_lab_body = \<lparr>lb_purpose = Some ''student'', lb_run_id = Some ''run-1'', lb_public_key = Some (demo_pubkey @ [newline])\<rparr>"

definition demo_order :: lab_order where
  "demo_order = \<lparr>lo_purpose = ''student'', lo_run_id = ''run-1'', lo_pubkey = demo_pubkey\<rparr>"

lemma demo_checks: "lab_checks demo_lab_body = Inr demo_order"
  by code_simp

theorem user_data_no_injection_witness:
  "lab_checks demo_lab_body = Inr demo_order \<and>
   split_on newline (user_data ''student'' demo_pubkey) = user_data_lines ''student'' demo_pubkey @ [[]]"
  using user_data_no_injection [OF demo_checks] demo_checks by (simp add: demo_order_def)

text \<open>An API that has the lab network, room for a machine, and answers every request.\<close>

definition demo_lab_stats :: jdict where
  "demo_lab_stats = [(''lab_network'', JBool True), (''cpu'', JObj [(''cores'', JInt 8)]), (''memory'', JObj [(''available_mb'', JInt 16000)]),
     (''disk'', JObj [(''free_gb'', JInt 200)])]"

definition demo_rest :: "api_call \<Rightarrow> host \<Rightarrow> host \<times> (nat \<times> jdict) option" where
  "demo_rest c h = (h, Some
     (case c of
        HostStats _ \<Rightarrow> (200, demo_lab_stats)
      | ListVpcs _ \<Rightarrow> (200, [(''items'', JList [JObj [(''name'', JStr LAB_VPC), (''id'', JStr ''v1'')]])])
      | ListSubnets _ _ \<Rightarrow> (200, [(''items'', JList [])])
      | CreateSubnet _ \<Rightarrow> (201, [(''id'', JStr ''n1'')])
      | CreateInst _ \<Rightarrow> (202, [(''id'', JStr ''i1'')])
      | GetInst _ \<Rightarrow> (200, [(''status'', JStr ''running''), (''private_ip'', JStr ''10.250.0.5'')])
      | _ \<Rightarrow> (204, [])))"

definition demo_lab_env :: "(api_call \<Rightarrow> host \<Rightarrow> host \<times> (nat \<times> jdict) option) \<Rightarrow> instant \<Rightarrow> lab_env" where
  "demo_lab_env api now = \<lparr>le_api = api, le_helper = (\<lambda>_. True), le_post_pair = (\<lambda>_ _ _ _. PeerUnreachable),
     le_del_pair = (\<lambda>_ _ _. PeerUnreachable), le_ssh = (\<lambda>_ _. SshExit 0), le_bridge_cidr = ''192.168.100.0/24'', le_now = now,
     le_hex = ''0123456789abcdef''\<rparr>"

definition demo_lab_empty :: lab_state where
  "demo_lab_empty = \<lparr>lab_tbl = [], cloud = empty_host, deeds = []\<rparr>"

definition demo_student :: "instant \<Rightarrow> lab_vm" where
  "demo_student now = lab_row now ''i1'' ''labvm-student-01234567'' demo_order None ''standard.large''"

definition demo_lab_created :: lab_state where
  "demo_lab_created = fst (create_lab_vm (demo_lab_env demo_rest 1000) ''127.0.0.1'' demo_lab_body demo_lab_empty)"

lemma demo_loopback: "caller_host b ''127.0.0.1'' h = Some (Some [])"
proof -
  have "map_option is_loopback (ip_address ''127.0.0.1'') = Some True" by code_simp
  then show ?thesis by (auto simp: caller_host_def)
qed

lemma demo_lab_affords: "affords (stats_view demo_lab_stats) ''standard.large''"
  by (simp add: affords_def FLAVORS_def stats_view_def demo_lab_stats_def jget_def jobj_def jnum_def required_mb_def
      HEADROOM_FACTOR_def HOST_RESERVED_CORES_def)

lemma demo_lab_env_simps [simp]:
  "le_api (demo_lab_env api now) = api" "le_now (demo_lab_env api now) = now" "le_hex (demo_lab_env api now) = ''0123456789abcdef''"
  by (simp_all add: demo_lab_env_def)

lemma demo_call: "call (demo_lab_env demo_rest now) c s = (do_deed (Api c) s, snd (demo_rest c (cloud s)))"
  by (simp add: call_def demo_rest_def do_deed_def)

lemma demo_host_stats: "snd (host_stats (demo_lab_env demo_rest now) p s) = Some demo_lab_stats"
  by (simp add: host_stats_def demo_call demo_rest_def) (simp add: jget_default_def demo_lab_stats_def jobj_def)

lemma demo_network: "snd (ensure_network (demo_lab_env demo_rest now) p s) = Inr (''v1'', ''n1'')"
  by (simp add: ensure_network_def find_or_create_def demo_call demo_rest_def items_def jget_def jobj_def jstr_def)

lemma demo_order_simps [simp]: "lo_purpose demo_order = ''student''"
  by (simp add: demo_order_def)

lemma demo_flavor: "find (affords (stats_view demo_lab_stats)) (fst (the (map_of PURPOSES ''student''))) = Some ''standard.large''"
  by (simp add: PURPOSES_def demo_lab_affords)

lemma demo_provision: "snd (provision (demo_lab_env demo_rest now) ''127.0.0.1'' demo_order s) = Inr (demo_student now)"
proof -
  have "jtruthy (jget demo_lab_stats ''lab_network'')" by (simp add: demo_lab_stats_def jget_def)
  moreover obtain s1 where "host_stats (demo_lab_env demo_rest now) None s = (s1, Some demo_lab_stats)"
    using demo_host_stats [of now None s] by (metis prod.collapse)
  moreover obtain s2 where "ensure_network (demo_lab_env demo_rest now) None s1 = (s2, Inr (''v1'', ''n1''))"
    using demo_network [of now None s1] by (metis prod.collapse)
  ultimately show ?thesis
    by (simp add: provision_def Let_def demo_loopback demo_flavor demo_call demo_rest_def demo_student_def jget_def jstr_def)
qed

lemma demo_lab_created_tbl: "lab_tbl demo_lab_created = [demo_student 1000]"
proof -
  obtain s1 where p: "provision (demo_lab_env demo_rest 1000) ''127.0.0.1'' demo_order demo_lab_empty = (s1, Inr (demo_student 1000))"
    using demo_provision [of 1000 demo_lab_empty] by (metis prod.collapse)
  have "lab_tbl s1 = []" using provision_tbl [OF p] by (simp add: demo_lab_empty_def)
  moreover have "\<not> over_quota ''student'' demo_lab_empty"
    by (simp add: over_quota_def of_purpose_def active_def demo_lab_empty_def MAX_ACTIVE_def MAX_STUDENT_def)
  ultimately show ?thesis
    using p by (simp add: demo_lab_created_def create_lab_vm_def demo_checks insert_row_def own_def)
qed

lemma delete_keys: "delete e i why s = (s1, ok) \<Longrightarrow> keys s1 = keys s"
  using gentle_keys [OF gentle_mark] by (simp add: keys_cong [OF delete_tbl] mark_deleted_def)

lemma delete_route_keys: "keys (fst (delete_lab_vm e i s)) = keys s"
  by (auto simp: delete_lab_vm_def dest: delete_keys split: option.split prod.split)

theorem lab_quota_under_lock_witness:
  "quota_ok demo_lab_created \<and> lab_tbl demo_lab_created = [demo_student 1000]"
proof -
  have "lab_step\<^sup>*\<^sup>* (idle_at demo_lab_empty) (idle_at demo_lab_created)"
    unfolding demo_lab_created_def by (rule create_steps)
  moreover have "lab_tbl demo_lab_empty = []" by (simp add: demo_lab_empty_def)
  ultimately show ?thesis using lab_quota_under_lock [of demo_lab_empty "idle_at demo_lab_created"] demo_lab_created_tbl by simp
qed

theorem broker_confined_witness:
  "list_all (deed_ok {(''i1'', ''student'')}) (deeds (fst (delete_lab_vm (demo_lab_env demo_rest 2000) ''i1'' demo_lab_created)))"
proof -
  let ?t = "fst (delete_lab_vm (demo_lab_env demo_rest 2000) ''i1'' demo_lab_created)"
  have "lab_serves demo_lab_empty demo_lab_created" unfolding demo_lab_created_def by (rule lab_serves.create)
  moreover have "lab_serves demo_lab_created ?t" by (rule lab_serves.delete)
  ultimately have "lab_serves\<^sup>*\<^sup>* demo_lab_empty ?t" by (meson converse_rtranclp_into_rtranclp r_into_rtranclp)
  moreover have "deeds demo_lab_empty = []" by (simp add: demo_lab_empty_def)
  moreover have "keys ?t = {(''i1'', ''student'')}"
    using demo_lab_created_tbl by (simp add: delete_route_keys keys_def [of demo_lab_created] demo_student_def)
  ultimately show ?thesis using broker_confined [of demo_lab_empty ?t] by simp
qed

end
