(* ===== verification/Lab_Reaper.thy ===== *)
theory Lab_Reaper
  imports Broker_Props
begin

text \<open>
  The reaper of the lab-VM broker against the instance routes that it drives.  The locale \<open>cloud_api\<close> is what
  the reaper relies on of the API: a read of an instance creates none, and a delete that is answered with
  200, 204 or 404 leaves no instance of that identifier.  It is interpreted on \<open>host_api\<close>, the routes of
  \<open>Instances\<close> behind the broker's requests.
\<close>

section \<open>The contract\<close>

text \<open>
  What a request may do to the host: no instance appears and none leaves this host for a peer.  \<open>live\<close>
  are the instances, \<open>near\<close> the identifiers that do not name an instance on a peer.
\<close>

definition calm :: "(host \<Rightarrow> bool) \<Rightarrow> (host \<Rightarrow> string set) \<Rightarrow> (host \<Rightarrow> string set) \<Rightarrow> host \<Rightarrow> host \<Rightarrow> bool" where
  "calm good live near h h' \<longleftrightarrow> good h' \<and> live h' \<subseteq> live h \<and> near h \<subseteq> near h'"

lemma calm_trans: "calm good live near h h1 \<Longrightarrow> calm good live near h1 h2 \<Longrightarrow> calm good live near h h2"
  by (auto simp: calm_def)

lemma calm_refl: "good h \<Longrightarrow> calm good live near h h"
  by (simp add: calm_def)

locale cloud_api =
  fixes api :: "'a \<Rightarrow> api_call \<Rightarrow> host \<Rightarrow> host \<times> (nat \<times> jdict) option"
    and live near :: "host \<Rightarrow> string set"
    and good :: "host \<Rightarrow> bool"
    and sane :: "'a \<Rightarrow> bool"
  assumes get_calm: "good h \<Longrightarrow> calm good live near h (fst (api a (GetInst i) h))"
    and delete_calm: "good h \<Longrightarrow> calm good live near h (fst (api a (DeleteInst i) h))"
    and delete_gone: "good h \<Longrightarrow> sane a \<Longrightarrow> api a (DeleteInst i) h = (h', Some (st, b)) \<Longrightarrow> st \<in> {200, 204, 404} \<Longrightarrow> i \<notin> live h'"
    and delete_near: "good h \<Longrightarrow> i \<in> near h \<Longrightarrow> api a (DeleteInst i) h = (h', Some (st, b)) \<Longrightarrow> st \<in> {204, 404}"
    and get_answers: "snd (api a (GetInst i) h) \<noteq> None"
    and delete_answers: "snd (api a (DeleteInst i) h) \<noteq> None"
begin

lemma call_get:
  assumes "le_api e = api a" "good (cloud s)" "call e (GetInst i) s = (s1, r)"
  shows "calm good live near (cloud s) (cloud s1) \<and> r \<noteq> None"
  using assms get_calm [of "cloud s" a i] get_answers [of a i "cloud s"] by (auto simp: call_def split: prod.splits)

lemma call_delete:
  assumes "le_api e = api a" "good (cloud s)" "sane a" "call e (DeleteInst i) s = (s1, r)"
  shows "calm good live near (cloud s) (cloud s1) \<and> (\<exists>st b. r = Some (st, b) \<and>
    (st \<in> {200, 204, 404} \<longrightarrow> i \<notin> live (cloud s1)) \<and> (i \<in> near (cloud s) \<longrightarrow> st \<in> {200, 204, 404}))"
  using assms delete_calm [of "cloud s" a i] delete_answers [of a i "cloud s"] delete_gone [of "cloud s" a i] delete_near [of "cloud s" i a]
  by (cases "api a (DeleteInst i) (cloud s)") (auto simp: call_def)

lemma describe_world:
  assumes "le_api e = api a" "good (cloud s)" "describe e i s = (s1, d)" "own i s \<noteq> None"
  shows "calm good live near (cloud s) (cloud s1) \<and> d \<noteq> None"
  using assms call_get [OF assms(1,2)] calm_refl [of good "cloud s" live near]
  by (fastforce simp: describe_def split: option.splits if_splits prod.splits)

lemma address_world:
  assumes "le_api e = api a" "good (cloud s)" "address_of e i s = (s1, ip)"
  shows "calm good live near (cloud s) (cloud s1) \<and> ip \<noteq> None"
  using assms describe_world [OF assms(1,2), of i] own_active_own [of i s] calm_refl [of good "cloud s" live near]
  by (auto simp: address_of_def split: if_splits prod.splits)

lemma mark_deleted_cloud [simp]: "cloud (mark_deleted now i why s) = cloud s"
  by (simp add: mark_deleted_def set_rows_def)

text \<open>A delete always completes, when it reports success the instance is gone, and on this host it succeeds.\<close>

lemma delete_world:
  assumes "le_api e = api a" "good (cloud s)" "sane a" "delete e i why s = (s1, ok)"
  shows "calm good live near (cloud s) (cloud s1) \<and> ok \<noteq> None \<and> (ok = Some True \<longrightarrow> i \<notin> live (cloud s1)) \<and>
    (i \<in> near (cloud s) \<longrightarrow> ok = Some True)"
proof -
  obtain s0 a0 where ad: "address_of e i s = (s0, a0)" by (cases "address_of e i s")
  note 1 = address_world [OF assms(1,2) ad]
  then obtain ip where ip: "a0 = Some ip" by blast
  define s2 where "s2 = (if ip = [] then s0 else fst (labnet e (lv_host_id (the (own i s))) (Unpair ip) s0))"
  have c2: "cloud s2 = cloud s0" by (simp add: s2_def)
  obtain s3 r where c: "call e (DeleteInst i) s2 = (s3, r)" by (cases "call e (DeleteInst i) s2")
  have "good (cloud s2)" using 1 c2 by (simp add: calm_def)
  note 3 = call_delete [OF assms(1) this assms(3) c]
  then obtain st b where r: "r = Some (st, b)" "st \<in> {200, 204, 404} \<longrightarrow> i \<notin> live (cloud s3)"
    "i \<in> near (cloud s2) \<longrightarrow> st \<in> {200, 204, 404}" by blast
  have near: "i \<in> near (cloud s) \<longrightarrow> i \<in> near (cloud s2)" using 1 c2 by (auto simp: calm_def)
  have calm: "calm good live near (cloud s) (cloud s3)" using 1 3 c2 calm_trans [of good live near "cloud s" "cloud s2" "cloud s3"] by simp
  have "delete e i why s = (if st \<in> {200, 204, 404} then (mark_deleted (le_now e) i why s3, Some True) else (s3, Some False))"
    using ad ip c r(1) by (simp add: delete_def s2_def [symmetric] Let_def)
  then show ?thesis using assms(4) calm r near by (auto split: if_splits)
qed

end

section \<open>The rows of a round\<close>

lemma find_row_map:
  "(\<And>r. lv_id (f r) = lv_id r) \<Longrightarrow> find (\<lambda>r. lv_id r = i) (map f t) = map_option f (find (\<lambda>r. lv_id r = i) t)"
  by (induction t) auto

lemma own_mark_deleted:
  "own_active i (mark_deleted now j why s) = (if i = j then None else own_active i s)"
proof -
  have id: "own i (mark_deleted now j why s) =
      map_option (\<lambda>r. if lv_id r = j \<and> lv_deleted_at r = None then r\<lparr>lv_deleted_at := Some now, lv_delete_reason := Some why\<rparr> else r) (own i s)"
    unfolding own_def mark_deleted_def set_rows_def update_where_def by (simp add: find_row_map)
  show ?thesis
  proof (cases "own i s")
    case (Some r)
    then have "lv_id r = i" by (auto simp: own_def dest: find_Some_in)
    then show ?thesis using id Some by (auto simp: own_active_def)
  qed (use id in \<open>simp add: own_active_def\<close>)
qed

lemma delete_own_active:
  assumes "delete e j why s = (s1, ok)"
  shows "own_active i s1 = (if ok = Some True \<and> i = j then None else own_active i s)"
  using delete_tbl [OF assms] own_mark_deleted [of i "le_now e" j why s]
  by (auto simp: own_active_def own_def split: if_splits)

text \<open>The identifiers of the overdue rows.\<close>

definition overdue_row :: "instant \<Rightarrow> lab_vm \<Rightarrow> bool" where
  "overdue_row now r \<longleftrightarrow> lv_expires_at r \<le> now \<or>
     (\<exists>m. lv_idle_minutes r = Some m \<and> m \<noteq> 0 \<and> lv_last_touch_at r + m * 60 * 1000000 \<le> now)"

definition overdue :: "instant \<Rightarrow> lab_vm list \<Rightarrow> string set" where
  "overdue now rs = {lv_id r | r. r \<in> set rs \<and> overdue_row now r}"

lemma why_reap_iff: "why_reap now r = [] \<longleftrightarrow> \<not> overdue_row now r"
  by (auto simp: why_reap_def overdue_row_def minutes_def mult.assoc split: option.splits)

context cloud_api
begin

text \<open>\<open>gone\<close> are the identifiers that the round adds to its result.\<close>

lemma reap_world:
  assumes "le_api e = api a" "sane a" "good (cloud s)"
  shows "\<exists>s' gone. reap e rs acc s = (s', Some (acc @ gone)) \<and> calm good live near (cloud s) (cloud s') \<and>
    set gone \<subseteq> overdue (le_now e) rs \<and> overdue (le_now e) rs \<inter> near (cloud s) \<subseteq> set gone \<and> live (cloud s') \<inter> set gone = {} \<and>
    (\<forall>i. own_active i s' = (if i \<in> set gone then None else own_active i s))"
  using assms(3)
proof (induction rs arbitrary: acc s)
  case Nil
  then show ?case by (simp add: calm_refl overdue_def)
next
  case (Cons r rs)
  show ?case
  proof (cases "why_reap (le_now e) r = []")
    case True
    then have "overdue (le_now e) (r # rs) = overdue (le_now e) rs" by (auto simp: overdue_def why_reap_iff)
    then show ?thesis using Cons True by simp
  next
    case False
    obtain s1 ok where d: "delete e (lv_id r) (why_reap (le_now e) r) s = (s1, ok)"
      by (cases "delete e (lv_id r) (why_reap (le_now e) r) s")
    note w = delete_world [OF assms(1) Cons.prems assms(2) d]
    then obtain b where b: "ok = Some b" by blast
    let ?new = "if b then [lv_id r] else []"
    have "good (cloud s1)" using w by (simp add: calm_def)
    then obtain s' gone where IH: "reap e rs (acc @ ?new) s1 = (s', Some ((acc @ ?new) @ gone))" "calm good live near (cloud s1) (cloud s')"
      "set gone \<subseteq> overdue (le_now e) rs" "overdue (le_now e) rs \<inter> near (cloud s1) \<subseteq> set gone" "live (cloud s') \<inter> set gone = {}"
      "\<forall>i. own_active i s' = (if i \<in> set gone then None else own_active i s1)"
      using Cons.IH [of s1 "acc @ ?new"] by blast
    have over: "overdue (le_now e) (r # rs) = insert (lv_id r) (overdue (le_now e) rs)" using False by (auto simp: overdue_def why_reap_iff)
    have "reap e (r # rs) acc s = (s', Some (acc @ ?new @ gone))" using False d b IH(1) by (cases b) simp_all
    moreover have "calm good live near (cloud s) (cloud s')" using w IH(2) by (blast intro: calm_trans)
    moreover have "set (?new @ gone) \<subseteq> overdue (le_now e) (r # rs)" using IH(3) over by auto
    moreover have "overdue (le_now e) (r # rs) \<inter> near (cloud s) \<subseteq> set (?new @ gone)"
      using IH(4) over w b by (auto simp: calm_def)
    moreover have "live (cloud s') \<inter> set (?new @ gone) = {}" using IH(2,5) w b by (auto simp: calm_def)
    moreover have "own_active i s' = (if i \<in> set (?new @ gone) then None else own_active i s)" for i
      using IH(6) delete_own_active [OF d] b by auto
    ultimately show ?thesis by blast
  qed
qed

end

section \<open>The instance routes behind the requests\<close>

text \<open>
  What the answers of the routes depend on beside the tables: the peers, the USB devices, libvirt, the
  clock and fresh identifiers.  \<open>ae_rest\<close> serves the requests other than those for one instance.
\<close>

record api_env =
  ae_post :: "string \<Rightarrow> inst_body \<Rightarrow> string option \<Rightarrow> inst_remote peer_result"
  ae_get :: "string \<Rightarrow> string option \<Rightarrow> inst_remote peer_result"
  ae_del :: "string \<Rightarrow> string option \<Rightarrow> unit peer_result"
  ae_devices :: "usb_device list"
  ae_dom_status :: "string \<Rightarrow> instance_status"
  ae_dom_ip :: "string \<Rightarrow> string"
  ae_id :: string
  ae_now :: instant
  ae_rest :: "api_call \<Rightarrow> host \<Rightarrow> host \<times> (nat \<times> jdict) option"

definition inst_json :: "inst_view \<times> string option \<Rightarrow> jdict" where
  "inst_json v = (let i = iv_inst (fst v) in
     [(''id'', JStr (i_id i)), (''status'', JStr (inst_status_value (i_status i))), (''private_ip'', JStr (i_private_ip i)),
      (''error_message'', JStr (i_error_message i)), (''host_hostname'', (case snd v of None \<Rightarrow> JNull | Some n \<Rightarrow> JStr n))])"

definition api_answer :: "('b \<Rightarrow> jdict) \<Rightarrow> host \<times> 'b reply \<Rightarrow> host \<times> (nat \<times> jdict) option" where
  "api_answer f r = (fst r, Some (reply_status (snd r), (case snd r of Problem st t \<Rightarrow> [(''title'', JStr t)] | Reply st b \<Rightarrow> f b | NoContent st \<Rightarrow> [])))"

fun host_api :: "api_env \<Rightarrow> api_call \<Rightarrow> host \<Rightarrow> host \<times> (nat \<times> jdict) option" where
  "host_api a (CreateInst b) h = api_answer inst_json (create_instance (ae_post a) (ae_devices a) (ae_id a) (ae_now a) b h)"
| "host_api a (GetInst i) h = api_answer inst_json (get_instance (ae_get a) (ae_dom_status a) (ae_dom_ip a) (ae_id a) (ae_now a) i h)"
| "host_api a (DeleteInst i) h = api_answer (\<lambda>_. []) (delete_instance (ae_del a) i h)"
| "host_api a c h = ae_rest a c h"

definition live_ids :: "host \<Rightarrow> string set" where
  "live_ids h = dom (store_get_instance (instance_tbl h))"

definition near_ids :: "host \<Rightarrow> string set" where
  "near_ids h = {i. \<forall>x. store_get_instance (instance_tbl h) i = Some x \<longrightarrow> \<not> truthy (i_host_id x)}"

text \<open>A peer answers a DELETE of an instance with 204, 404 or an error, as its own route does.\<close>

definition sane_peers :: "api_env \<Rightarrow> bool" where
  "sane_peers a \<longleftrightarrow> (\<forall>u t b. ae_del a u t \<noteq> PeerResponse 200 b)"

lemma get_saved:
  assumes "wf_insts h" "i_id j = k" "instance_tbl x = instance_tbl h"
  shows "store_get_instance (instance_tbl (save_instance j x)) =
    (store_get_instance (instance_tbl h))(k := if i_live j then Some (stored_instance (instance_tbl h) j) else None)"
  using instances.get_put [of "instance_tbl h" j] assms by simp

text \<open>A row is saved back under its identifier and with its host.\<close>

lemma save_back_calm:
  assumes "wf_insts h" "store_get_instance (instance_tbl h) k = Some i" "i_id j = i_id i" "i_host_id j = i_host_id i"
    "instance_tbl x = instance_tbl h"
  shows "calm wf_insts live_ids near_ids h (save_instance j x)"
proof -
  have k: "i_id i = k" using assms(1,2) by (simp add: instances.get_Some)
  have "wf_insts (save_instance j x)" using instances.wf_put [of "instance_tbl h" j] assms(1,5) by simp
  then show ?thesis
    using get_saved [OF assms(1), of j k x] assms k by (auto simp: calm_def live_ids_def near_ids_def split: if_splits)
qed

lemma get_instance_calm:
  assumes "wf_insts h"
  shows "calm wf_insts live_ids near_ids h (fst (get_instance get st ip rid now k h))"
proof (cases "store_get_instance (instance_tbl h) k")
  case None
  then show ?thesis using assms by (simp add: get_instance_def calm_refl)
next
  case (Some i)
  note keep = save_back_calm [OF assms Some]
  have "calm wf_insts live_ids near_ids h (fst (get_remote_instance get i h))"
    by (auto simp: get_remote_instance_def Let_def remote_inst_fields_def split: option.split peer_result.split intro!: keep)
  then show ?thesis
    using assms Some
    by (auto simp: get_instance_def Let_def calm_refl dest: upsert_record_instances split: sum.split intro!: keep)
qed

lemma dropped_calm: "wf_insts h \<Longrightarrow> instance_tbl x = fst (delete_instance_record (instance_tbl h) k) \<Longrightarrow> calm wf_insts live_ids near_ids h x"
  using instances.get_del [of "instance_tbl h" k] instances.wf_del [of "instance_tbl h" k]
  by (auto simp: calm_def live_ids_def near_ids_def split: if_splits)

lemma dropped_gone: "wf_insts h \<Longrightarrow> instance_tbl x = fst (delete_instance_record (instance_tbl h) k) \<Longrightarrow> k \<notin> live_ids x"
  using instances.get_del [of "instance_tbl h" k] by (simp add: live_ids_def domIff)

lemma delete_cases:
  assumes "delete_instance del k h = (h', r)"
  shows "store_get_instance (instance_tbl h) k = None \<and> h' = h \<and> reply_status r = 404 \<or>
    instance_tbl h' = fst (delete_instance_record (instance_tbl h) k) \<and> reply_status r = 204 \<or>
    (\<exists>i. store_get_instance (instance_tbl h) k = Some i \<and> truthy (i_host_id i) \<and> h' = h \<and>
      (reply_status r = 502 \<or> (\<exists>u t b. del u t = PeerResponse (reply_status r) b \<and> reply_status r \<notin> {204, 404})))"
proof (cases "store_get_instance (instance_tbl h) k")
  case None
  then show ?thesis using assms by (auto simp: delete_instance_def)
next
  case (Some i)
  show ?thesis
  proof (cases "truthy (i_host_id i)")
    case True
    have "i_id i = k" using Some by (auto simp: store_get_instance_def live_get_def dest: find_Some_in)
    then show ?thesis using assms Some True
      by (auto simp: delete_instance_def delete_remote_instance_def drop_instance_def split: option.splits peer_result.splits if_splits) blast+
  next
    case False
    then show ?thesis using delete_local [OF Some False, of del] assms by simp
  qed
qed

lemma delete_instance_calm:
  assumes "wf_insts h"
  shows "calm wf_insts live_ids near_ids h (fst (delete_instance del k h))"
proof -
  obtain h' r where d: "delete_instance del k h = (h', r)" by (cases "delete_instance del k h")
  show ?thesis using delete_cases [OF d] d assms by (auto intro: calm_refl dropped_calm)
qed

interpretation hostapi: cloud_api host_api live_ids near_ids wf_insts sane_peers
proof
  fix a i h h' st b
  assume good: "wf_insts h" and r: "host_api a (DeleteInst i) h = (h', Some (st, b))"
  obtain x y where d: "delete_instance (ae_del a) i h = (x, y)" by (cases "delete_instance (ae_del a) i h")
  then have xy: "h' = x" "st = reply_status y" using r by (simp_all add: api_answer_def)
  show "st \<in> {204, 404}" if "i \<in> near_ids h"
    using delete_cases [OF d] that by (auto simp: xy near_ids_def)
  show "i \<notin> live_ids h'" if "sane_peers a" "st \<in> {200, 204, 404}"
    using delete_cases [OF d] that dropped_gone [OF good, of x i]
    by (auto simp: xy sane_peers_def live_ids_def domIff)
qed (simp_all add: api_answer_def get_instance_calm delete_instance_calm)

text \<open>
  C25: A round of the reaper against this host's instance routes always completes.  It reports only machines
  that are past their lifetime or idle limit; each machine that it reports is marked deleted and is no
  longer an instance of the host, every other row stays as it was; and every overdue machine whose
  instance is on this host (or gone) is reported, whatever happens to the others.
\<close>

theorem reaper_removes_overdue:
  assumes "le_api e = host_api a" "sane_peers a" "wf_insts (cloud s)"
  shows "\<exists>s' reaped. reap_once e s = (s', Some reaped) \<and>
    set reaped \<subseteq> overdue (le_now e) (active s) \<and> overdue (le_now e) (active s) \<inter> near_ids (cloud s) \<subseteq> set reaped \<and>
    live_ids (cloud s') \<inter> set reaped = {} \<and>
    (\<forall>i. own_active i s' = (if i \<in> set reaped then None else own_active i s))"
proof -
  obtain s' gone where "reap e (active s) [] s = (s', Some ([] @ gone))" "calm wf_insts live_ids near_ids (cloud s) (cloud s')"
    "set gone \<subseteq> overdue (le_now e) (active s)" "overdue (le_now e) (active s) \<inter> near_ids (cloud s) \<subseteq> set gone"
    "live_ids (cloud s') \<inter> set gone = {}" "\<forall>i. own_active i s' = (if i \<in> set gone then None else own_active i s)"
    using hostapi.reap_world [OF assms, of "active s" "[]"] by blast
  then show ?thesis unfolding reap_once_def by auto
qed

text \<open>A student's machine made through the same routes, and the round two hours after its last touch.\<close>

definition demo_api :: api_env where
  "demo_api = \<lparr>ae_post = (\<lambda>_ _ _. PeerUnreachable), ae_get = (\<lambda>_ _. PeerUnreachable), ae_del = (\<lambda>_ _. PeerUnreachable),
     ae_devices = [], ae_dom_status = (\<lambda>_. Running), ae_dom_ip = (\<lambda>_. ''10.250.0.5''), ae_id = ''i1'', ae_now = 1000, ae_rest = demo_rest\<rparr>"

definition demo_lab_running :: lab_state where
  "demo_lab_running = \<lparr>lab_tbl = [demo_student 1000], cloud = empty_host\<lparr>instance_tbl := [(new_instance ''i1'' 1000)\<lparr>i_status := Running\<rparr>]\<rparr>,
     deeds = []\<rparr>"

theorem reaper_removes_overdue_witness:
  "\<exists>s' reaped. reap_once (demo_lab_env (host_api demo_api) (hours 2)) demo_lab_running = (s', Some reaped) \<and>
     set reaped = {''i1''} \<and> ''i1'' \<notin> live_ids (cloud s') \<and> own_active ''i1'' s' = None \<and> ''i1'' \<in> live_ids (cloud demo_lab_running)"
proof -
  let ?s = demo_lab_running and ?e = "demo_lab_env (host_api demo_api) (hours 2)"
  have o: "overdue (hours 2) (active ?s) = {''i1''}"
    by (auto simp: overdue_def active_def demo_lab_running_def demo_student_def lab_row_def PURPOSES_def overdue_row_def hours_def minutes_def)
  have n: "''i1'' \<in> near_ids (cloud ?s)" and l: "''i1'' \<in> live_ids (cloud ?s)"
    by (simp_all add: near_ids_def live_ids_def demo_lab_running_def store_get_instance_def live_get_def new_instance_def i_live_def truthy_def domIff)
  have w: "wf_insts (cloud ?s)" by (simp add: demo_lab_running_def wf_table_def)
  have p: "sane_peers demo_api" by (simp add: sane_peers_def demo_api_def)
  have le: "le_api ?e = host_api demo_api" "le_now ?e = hours 2" by simp_all
  obtain s' reaped where r: "reap_once ?e ?s = (s', Some reaped)" "set reaped \<subseteq> overdue (hours 2) (active ?s)"
    "overdue (hours 2) (active ?s) \<inter> near_ids (cloud ?s) \<subseteq> set reaped" "live_ids (cloud s') \<inter> set reaped = {}"
    "\<forall>i. own_active i s' = (if i \<in> set reaped then None else own_active i ?s)"
    using reaper_removes_overdue [OF le(1) p w, unfolded le(2)] by blast
  have "set reaped = {''i1''}" using r(2,3) o n by blast
  then have "''i1'' \<notin> live_ids (cloud s')" "own_active ''i1'' s' = None" using r(4,5) by auto
  with r(1) l \<open>set reaped = {''i1''}\<close> show ?thesis by blast
qed

end
