(* ===== verification/Vnc_Bridge.thy ===== *)
theory Vnc_Bridge
  imports Complex_Main Host "HOL-Library.Word"
begin

text \<open>
  The console of an instance: \<^verbatim>\<open>api/vnc_bridge.py\<close>, a bridge between a WebSocket and the VNC display, and the
  one-time tickets of \<^verbatim>\<open>api/server.py\<close> that admit a browser to it.

  Bytes are words of eight bits.  \<open>_Reader\<close> is a record, \<open>feed\<close> its method, \<open>None\<close> the \<^verbatim>\<open>ValueError\<close> for a frame
  that is too large.  The relay's loop is a function of what \<^verbatim>\<open>select\<close> and \<^verbatim>\<open>recv\<close> deliver, round by round.
\<close>

unbundle bit_operations_syntax

type_synonym bytes = "8 word list"

section \<open>Frames\<close>

definition OP_TEXT :: nat where "OP_TEXT = 1"
definition OP_BINARY :: nat where "OP_BINARY = 2"
definition OP_CLOSE :: nat where "OP_CLOSE = 8"
definition OP_PING :: nat where "OP_PING = 9"
definition OP_PONG :: nat where "OP_PONG = 10"
definition MAX_FRAME :: nat where "MAX_FRAME = 16 * 2 ^ 20"

lemmas op_defs = OP_TEXT_def OP_BINARY_def OP_CLOSE_def OP_PING_def OP_PONG_def

text \<open>\<^verbatim>\<open>struct.pack\<close> and \<^verbatim>\<open>struct.unpack\<close>: \<open>k\<close> bytes, the most significant first.\<close>

fun big_endian :: "nat \<Rightarrow> nat \<Rightarrow> bytes" where
  "big_endian 0 n = []"
| "big_endian (Suc k) n = big_endian k (n div 256) @ [word_of_nat (n mod 256)]"

definition of_big_endian :: "bytes \<Rightarrow> nat" where
  "of_big_endian bs = foldl (\<lambda>a b. a * 256 + unat b) 0 bs"

definition frame :: "nat \<Rightarrow> bytes \<Rightarrow> bytes" where
  "frame op payload =
     (let n = length payload; head = [0x80 OR word_of_nat op] in
      (if n < 126 then head @ [word_of_nat n]
       else if n < 2 ^ 16 then head @ [126] @ big_endian 2 n
       else head @ [127] @ big_endian 8 n) @ payload)"

definition unmask :: "bytes \<Rightarrow> bytes \<Rightarrow> bytes" where
  "unmask key payload = map (\<lambda>(i, c). c XOR key ! (i mod 4)) (zip [0..<length payload] payload)"

text \<open>The length of the payload and where the header goes on, when the buffer has them.\<close>

definition payload_length :: "bytes \<Rightarrow> (nat \<times> nat) option" where
  "payload_length buf =
     (let n = unat (buf ! 1 AND 0x7F) in
      if n = 126 then (if length buf < 4 then None else Some (of_big_endian (take 2 (drop 2 buf)), 4))
      else if n = 127 then (if length buf < 10 then None else Some (of_big_endian (take 8 (drop 2 buf)), 10))
      else Some (n, 2))"

datatype parsed = NeedMore | TooLarge | Frame bool nat bytes bytes

text \<open>One turn of the loop of \<open>feed\<close>: the final bit, the operation, the payload and the rest of the buffer.\<close>

definition parse_payload :: "bool \<Rightarrow> nat \<Rightarrow> bool \<Rightarrow> nat \<Rightarrow> nat \<Rightarrow> bytes \<Rightarrow> parsed" where
  "parse_payload fin op masked n pos buf =
     (if n > MAX_FRAME then TooLarge
      else if masked \<and> length buf < pos + 4 then NeedMore
      else
        (let start = (if masked then pos + 4 else pos) in
         if length buf < start + n then NeedMore
         else
           (let payload = take n (drop start buf)
            in Frame fin op (if masked then unmask (take 4 (drop pos buf)) payload else payload) (drop (start + n) buf))))"

definition parse_frame :: "bytes \<Rightarrow> parsed" where
  "parse_frame buf =
     (if length buf < 2 then NeedMore
      else
        (case payload_length buf of
           None \<Rightarrow> NeedMore
         | Some (n, pos) \<Rightarrow>
             parse_payload (buf ! 0 AND 0x80 \<noteq> 0) (unat (buf ! 0 AND 0x0F)) (buf ! 1 AND 0x80 \<noteq> 0) n pos buf))"

section \<open>The reader\<close>

record reader =
  rd_buf :: bytes
  rd_fragments :: "bytes list"

type_synonym message = "nat \<times> bytes"

lemma payload_length_pos: "payload_length buf = Some (n, pos) \<Longrightarrow> 2 \<le> pos"
  by (auto simp: payload_length_def Let_def split: if_splits)

lemma parse_frame_shorter: "parse_frame buf = Frame fin op payload rest \<Longrightarrow> length rest < length buf"
  by (auto simp: parse_frame_def parse_payload_def Let_def dest!: payload_length_pos split: if_splits option.splits prod.splits)

function feed_loop :: "bytes \<Rightarrow> bytes list \<Rightarrow> message list \<Rightarrow> (reader \<times> message list) option" where
  "feed_loop buf fragments out =
     (case parse_frame buf of
        NeedMore \<Rightarrow> Some (\<lparr>rd_buf = buf, rd_fragments = fragments\<rparr>, out)
      | TooLarge \<Rightarrow> None
      | Frame fin op payload rest \<Rightarrow>
          if op \<in> {OP_CLOSE, OP_PING, OP_PONG} then feed_loop rest fragments (out @ [(op, payload)])
          else if op = 0 \<or> \<not> fin then
            (if fin then feed_loop rest [] (out @ [(OP_BINARY, concat (fragments @ [payload]))])
             else feed_loop rest (fragments @ [payload]) out)
          else feed_loop rest fragments (out @ [(op, payload)]))"
  by pat_completeness auto
termination by (relation "measure (\<lambda>(buf, _, _). length buf)") (auto simp: parse_frame_shorter)

declare feed_loop.simps [simp del]

definition feed :: "reader \<Rightarrow> bytes \<Rightarrow> (reader \<times> message list) option" where
  "feed r data = feed_loop (rd_buf r @ data) (rd_fragments r) []"

definition new_reader :: reader where
  "new_reader = \<lparr>rd_buf = [], rd_fragments = []\<rparr>"

section \<open>The relay\<close>

text \<open>What one round of \<^verbatim>\<open>select\<close> finds: data of the display, data of the browser, or neither (a timeout).  Empty
  data is the end of that side.\<close>

type_synonym round = "bytes option \<times> bytes option"

datatype sent = ToClient bytes | ToVnc bytes

text \<open>The messages of one \<open>feed\<close>; the flag tells whether the browser closed.\<close>

fun answer :: "message list \<Rightarrow> sent list \<times> bool" where
  "answer [] = ([], False)"
| "answer ((op, payload) # ms) =
     (if op = OP_CLOSE then ([ToClient (frame OP_CLOSE (take 2 payload))], True)
      else
        (let (ss, closed) = answer ms in
         ((if op = OP_PING then [ToClient (frame OP_PONG payload)]
           else if op \<in> {OP_BINARY, OP_TEXT} then [ToVnc payload] else []) @ ss, closed)))"

definition from_client :: "reader \<Rightarrow> bytes option \<Rightarrow> sent list \<times> reader option" where
  "from_client r c =
     (case c of
        None \<Rightarrow> ([], Some r)
      | Some data \<Rightarrow>
          if data = [] then ([], None)
          else
            (case feed r data of
               None \<Rightarrow> ([], None)
             | Some (r', ms) \<Rightarrow> (let (ss, closed) = answer ms in (ss, if closed then None else Some r'))))"

fun relay :: "reader \<Rightarrow> round list \<Rightarrow> sent list" where
  "relay r [] = []"
| "relay r ((v, c) # rounds) =
     (if v = Some [] then [ToClient (frame OP_CLOSE (big_endian 2 1000))]
      else
        (case v of None \<Rightarrow> [] | Some data \<Rightarrow> [ToClient (frame OP_BINARY data)]) @
        (case from_client r c of
           (ss, None) \<Rightarrow> ss
         | (ss, Some r') \<Rightarrow> ss @ relay r' rounds))"

text \<open>\<open>serve\<close>: the handshake, whose header values are an argument, then the relay when the display accepts.\<close>

definition serve :: "bytes \<Rightarrow> bool \<Rightarrow> bytes \<Rightarrow> round list \<Rightarrow> sent list" where
  "serve handshake display_up reason rounds =
     ToClient handshake #
       (if display_up then relay new_reader rounds
        else [ToClient (frame OP_CLOSE (big_endian 2 1011 @ reason))])"

section \<open>Tickets\<close>

text \<open>\<^verbatim>\<open>_VNC_TICKETS\<close>: the instance and the end of each ticket, on the monotonic clock in seconds.\<close>

type_synonym tickets = "string \<rightharpoonup> string \<times> rat"

definition VNC_TICKET_TTL :: rat where "VNC_TICKET_TTL = 60"

definition purge :: "rat \<Rightarrow> tickets \<Rightarrow> tickets" where
  "purge now t = (\<lambda>k. case t k of None \<Rightarrow> None | Some e \<Rightarrow> if snd e < now then None else Some e)"

text \<open>\<open>vnc_port\<close> is what libvirt says of a domain, 0 for no display; \<open>token\<close> is the fresh random text.\<close>

definition instance_vnc_ticket ::
    "(string \<Rightarrow> nat) \<Rightarrow> string \<Rightarrow> rat \<Rightarrow> string \<Rightarrow> host \<Rightarrow> tickets \<Rightarrow> tickets \<times> (string \<times> string) reply" where
  "instance_vnc_ticket vnc_port token now instance_id h t =
     (case store_get_instance (instance_tbl h) instance_id of
        None \<Rightarrow> (t, Problem 404 ''Not Found'')
      | Some i \<Rightarrow>
          if i_domain_name i = [] then (t, Problem 404 ''Not Found'')
          else if vnc_port (i_domain_name i) = 0 then (t, Problem 409 ''Conflict'')
          else
            ((purge now t)(token \<mapsto> (instance_id, now + VNC_TICKET_TTL)),
             Reply 200 (token, ''/v1/instances/'' @ instance_id @ ''/vnc?ticket='' @ token)))"

text \<open>The reply is the port that is then bridged; \<open>upgrade\<close> tells a proper WebSocket request.\<close>

definition instance_vnc_websocket ::
    "(string \<Rightarrow> nat) \<Rightarrow> rat \<Rightarrow> string \<Rightarrow> string \<Rightarrow> bool \<Rightarrow> host \<Rightarrow> tickets \<Rightarrow> tickets \<times> nat reply" where
  "instance_vnc_websocket vnc_port now instance_id ticket upgrade h t =
     (t(ticket := None),
      (case t ticket of
         None \<Rightarrow> Problem 401 ''Unauthorized''
       | Some (i, expires) \<Rightarrow>
           if i \<noteq> instance_id \<or> expires < now then Problem 401 ''Unauthorized''
           else
             (let port = (case store_get_instance (instance_tbl h) instance_id of None \<Rightarrow> 0
                | Some x \<Rightarrow> if i_domain_name x = [] then 0 else vnc_port (i_domain_name x)) in
              if port = 0 then Problem 409 ''Conflict''
              else if \<not> upgrade then Problem 400 ''Bad Request''
              else Reply 101 port)))"

section \<open>Bytes\<close>

lemma length_big_endian [simp]: "length (big_endian k n) = k"
  by (induction k arbitrary: n) simp_all

lemma of_big_endian_snoc: "of_big_endian (bs @ [b]) = of_big_endian bs * 256 + unat b"
  by (simp add: of_big_endian_def)

lemma unat_byte: "n < 256 \<Longrightarrow> unat (word_of_nat n :: 8 word) = n"
  by (simp add: unat_of_nat)

lemma of_big_endian_bytes: "n < 256 ^ k \<Longrightarrow> of_big_endian (big_endian k n) = n"
proof (induction k arbitrary: n)
  case 0
  then show ?case by (simp add: of_big_endian_def)
next
  case (Suc k)
  have "n div 256 < 256 ^ k" using Suc.prems by (simp add: less_mult_imp_div_less mult.commute)
  moreover have "unat (word_of_nat (n mod 256) :: 8 word) = n mod 256" by (rule unat_byte) simp
  ultimately show ?case using Suc.IH [of "n div 256"] div_mult_mod_eq [of n 256] by (simp add: of_big_endian_snoc)
qed

lemma length_unmask [simp]: "length (unmask key p) = length p"
  by (simp add: unmask_def)

lemma unmask_nth: "i < length p \<Longrightarrow> unmask key p ! i = p ! i XOR key ! (i mod 4)"
  by (simp add: unmask_def)

lemma unmask_unmask: "unmask key (unmask key p) = p"
  by (rule nth_equalityI) (simp_all add: unmask_nth xor.assoc)

section \<open>The header of a frame\<close>

text \<open>The client's side of RFC 6455, as a browser writes its frames: the final bit, the operation, an
  optional masking key and the payload.\<close>

record wsframe =
  wf_fin :: bool
  wf_op :: nat
  wf_key :: "bytes option"
  wf_payload :: bytes

definition length_bytes :: "nat \<Rightarrow> nat \<times> bytes" where
  "length_bytes n = (if n < 126 then (n, []) else if n < 2 ^ 16 then (126, big_endian 2 n) else (127, big_endian 8 n))"

definition encode :: "wsframe \<Rightarrow> bytes" where
  "encode f =
     [(if wf_fin f then 0x80 else 0) OR word_of_nat (wf_op f),
      (if wf_key f = None then 0 else 0x80) OR word_of_nat (fst (length_bytes (length (wf_payload f))))] @
     snd (length_bytes (length (wf_payload f))) @
     (case wf_key f of None \<Rightarrow> wf_payload f | Some key \<Rightarrow> key @ unmask key (wf_payload f))"

definition wf_frame :: "wsframe \<Rightarrow> bool" where
  "wf_frame f \<longleftrightarrow> wf_op f < 16 \<and> length (wf_payload f) \<le> MAX_FRAME \<and> (\<forall>key. wf_key f = Some key \<longrightarrow> length key = 4)"

text \<open>Flag and value of a header byte.\<close>

lemma and_mask_small: "unat (b :: 8 word) < 2 ^ k \<Longrightarrow> b AND Bit_Operations.mask k = b"
  by (metis take_bit_eq_mask take_bit_nat_eq_self unsigned_take_bit_eq unsigned_word_eqI)

lemma flag_and_value:
  fixes b c :: "8 word"
  assumes "b AND m = b" "c AND m = 0" "m AND 0x80 = 0" "c \<in> {0, 0x80}"
  shows "(c OR b) AND m = b" "(c OR b) AND 0x80 \<noteq> 0 \<longleftrightarrow> c = 0x80"
proof -
  show "(c OR b) AND m = b" using assms(1,2) by (simp add: bit.conj_disj_distrib2)
  have "b AND 0x80 = b AND (m AND 0x80)" using assms(1) by (metis and.assoc)
  then have "b AND 0x80 = 0" using assms(3) by simp
  then have "(c OR b) AND 0x80 = c AND 0x80" by (simp add: bit.conj_disj_distrib2)
  then show "(c OR b) AND 0x80 \<noteq> 0 \<longleftrightarrow> c = 0x80" using assms(4) by auto
qed

lemma op_byte:
  assumes "op < 16"
  shows "unat (((if fin then 0x80 else 0) OR word_of_nat op :: 8 word) AND 0x0F) = op"
    "((if fin then 0x80 else 0) OR word_of_nat op :: 8 word) AND 0x80 \<noteq> 0 \<longleftrightarrow> fin"
proof -
  have u: "unat (word_of_nat op :: 8 word) = op" using assms by (simp add: unat_byte)
  then have "(word_of_nat op :: 8 word) AND 0x0F = word_of_nat op"
    using and_mask_small [of "word_of_nat op" 4] assms by (simp add: mask_eq_exp_minus_1)
  note f = flag_and_value [OF this, of "if fin then 0x80 else 0"]
  show "unat (((if fin then 0x80 else 0) OR word_of_nat op :: 8 word) AND 0x0F) = op"
    "((if fin then 0x80 else 0) OR word_of_nat op :: 8 word) AND 0x80 \<noteq> 0 \<longleftrightarrow> fin"
    using f u by (auto split: if_splits)
qed

lemma length_byte:
  assumes "n < 128"
  shows "unat (((if plain then 0 else 0x80) OR word_of_nat n :: 8 word) AND 0x7F) = n"
    "((if plain then 0 else 0x80) OR word_of_nat n :: 8 word) AND 0x80 \<noteq> 0 \<longleftrightarrow> \<not> plain"
proof -
  have u: "unat (word_of_nat n :: 8 word) = n" using assms by (simp add: unat_byte)
  then have "(word_of_nat n :: 8 word) AND 0x7F = word_of_nat n"
    using and_mask_small [of "word_of_nat n" 7] assms by (simp add: mask_eq_exp_minus_1)
  note f = flag_and_value [OF this, of "if plain then 0 else 0x80"]
  show "unat (((if plain then 0 else 0x80) OR word_of_nat n :: 8 word) AND 0x7F) = n"
    "((if plain then 0 else 0x80) OR word_of_nat n :: 8 word) AND 0x80 \<noteq> 0 \<longleftrightarrow> \<not> plain"
    using f u by (auto split: if_splits)
qed

text \<open>The header is read back whatever follows it.\<close>

lemma length_bytes_fst: "fst (length_bytes n) < 128"
  by (simp add: length_bytes_def)

lemma payload_length_header:
  assumes "n \<le> MAX_FRAME" "unat (b1 AND 0x7F) = fst (length_bytes n)"
  shows "payload_length (b0 # b1 # snd (length_bytes n) @ buf) = Some (n, 2 + length (snd (length_bytes n)))"
proof -
  have "n < 256 ^ 8" using assms(1) by (simp add: MAX_FRAME_def)
  moreover have "n < 2 ^ 16 \<Longrightarrow> n < 256 ^ 2" by simp
  ultimately show ?thesis
    using assms(2) by (auto simp: payload_length_def Let_def length_bytes_def of_big_endian_bytes split: if_splits)
qed

lemma drop_further: "drop m xs = ys \<Longrightarrow> drop (m + k) xs = drop k ys"
  by (metis add.commute drop_drop)

lemma parse_encode:
  assumes "wf_frame f"
  shows "parse_frame (encode f @ buf) = Frame (wf_fin f) (wf_op f) (wf_payload f) buf"
proof -
  let ?n = "length (wf_payload f)"
  let ?b0 = "(if wf_fin f then 0x80 else 0) OR word_of_nat (wf_op f) :: 8 word"
  let ?b1 = "(if wf_key f = None then 0 else 0x80) OR word_of_nat (fst (length_bytes ?n)) :: 8 word"
  let ?tail = "(case wf_key f of None \<Rightarrow> wf_payload f | Some key \<Rightarrow> key @ unmask key (wf_payload f)) @ buf"
  have e: "encode f @ buf = ?b0 # ?b1 # snd (length_bytes ?n) @ ?tail" by (simp add: encode_def)
  have n: "?n \<le> MAX_FRAME" using assms by (simp add: wf_frame_def)
  have op: "unat (?b0 AND 0x0F) = wf_op f" "?b0 AND 0x80 \<noteq> 0 \<longleftrightarrow> wf_fin f"
    using op_byte [of "wf_op f" "wf_fin f"] assms by (simp_all add: wf_frame_def)
  have l: "unat (?b1 AND 0x7F) = fst (length_bytes ?n)" "?b1 AND 0x80 \<noteq> 0 \<longleftrightarrow> wf_key f \<noteq> None"
    using length_byte [OF length_bytes_fst, where n1 = ?n and plain = "wf_key f = None"] by simp_all
  have p: "payload_length (encode f @ buf) = Some (?n, 2 + length (snd (length_bytes ?n)))"
    unfolding e by (rule payload_length_header [OF n l(1)])
  have len: "length (encode f @ buf) = 2 + length (snd (length_bytes ?n)) + length ?tail" unfolding e by simp
  have d: "drop (2 + length (snd (length_bytes ?n))) (encode f @ buf) = ?tail" unfolding e by simp
  have nth: "(encode f @ buf) ! 0 = ?b0" "(encode f @ buf) ! 1 = ?b1" unfolding e by simp_all
  have "parse_frame (encode f @ buf) =
      parse_payload (wf_fin f) (wf_op f) (wf_key f \<noteq> None) ?n (2 + length (snd (length_bytes ?n))) (encode f @ buf)"
    using p len op l unfolding parse_frame_def nth by simp
  moreover have "parse_payload (wf_fin f) (wf_op f) (wf_key f \<noteq> None) ?n (2 + length (snd (length_bytes ?n))) (encode f @ buf) =
      Frame (wf_fin f) (wf_op f) (wf_payload f) buf"
  proof (cases "wf_key f")
    case None
    then show ?thesis using len d n by (simp add: parse_payload_def Let_def drop_drop [symmetric] add.commute [of _ ?n])
  next
    case (Some key)
    then have k: "length key = 4" using assms by (simp add: wf_frame_def)
    have "drop (2 + length (snd (length_bytes ?n)) + 4) (encode f @ buf) = unmask key (wf_payload f) @ buf"
      using drop_further [OF d, of 4] Some k by simp
    then show ?thesis
      using Some k len d n by (simp add: parse_payload_def Let_def unmask_unmask)
  qed
  ultimately show ?thesis by simp
qed

section \<open>The stream\<close>

text \<open>A decision of \<open>parse_frame\<close> does not depend on what arrives later.\<close>

lemma payload_length_append:
  "payload_length a = Some x \<Longrightarrow> 2 \<le> length a \<Longrightarrow> payload_length (a @ b) = Some x"
  by (auto simp: payload_length_def Let_def nth_append split: if_splits)

lemma parse_payload_append:
  "parse_payload fin op m n pos a = Frame x y p rest \<Longrightarrow> parse_payload fin op m n pos (a @ b) = Frame x y p (rest @ b)"
  "parse_payload fin op m n pos a = TooLarge \<Longrightarrow> parse_payload fin op m n pos (a @ b) = TooLarge"
  by (auto simp: parse_payload_def Let_def split: if_splits)

lemma parse_frame_append:
  "parse_frame a = Frame fin op p rest \<Longrightarrow> parse_frame (a @ b) = Frame fin op p (rest @ b)"
  "parse_frame a = TooLarge \<Longrightarrow> parse_frame (a @ b) = TooLarge"
  using payload_length_append [of a _ b]
  by (auto simp: parse_frame_def nth_append parse_payload_append split: if_splits option.splits)

lemma feed_loop_append:
  "feed_loop (a @ b) fr out =
     (case feed_loop a fr out of None \<Rightarrow> None | Some (r, o1) \<Rightarrow> feed_loop (rd_buf r @ b) (rd_fragments r) o1)"
proof (induction a fr out rule: feed_loop.induct)
  case (1 a fr out)
  show ?case
  proof (cases "parse_frame a")
    case NeedMore
    then show ?thesis by (subst (2) feed_loop.simps) simp
  next
    case TooLarge
    then show ?thesis
      by (subst feed_loop.simps, subst (2) feed_loop.simps) (simp add: parse_frame_append)
  next
    case (Frame fin op p rest)
    then show ?thesis
      using 1 [OF Frame]
      by (subst feed_loop.simps, subst (2) feed_loop.simps) (simp add: parse_frame_append)
  qed
qed

lemma feed_loop_out: "feed_loop a fr out = map_option (\<lambda>(r, ms). (r, out @ ms)) (feed_loop a fr [])"
proof (induction a arbitrary: fr out rule: length_induct)
  case (1 a)
  show ?case
  proof (cases "parse_frame a")
    case (Frame fin op p rest)
    have IH: "feed_loop rest fr out = map_option (\<lambda>(r, ms). (r, out @ ms)) (feed_loop rest fr [])" for fr out
      using 1 parse_frame_shorter [OF Frame] by blast
    have step: "feed_loop a fr out =
       (if op \<in> {OP_CLOSE, OP_PING, OP_PONG} then feed_loop rest fr (out @ [(op, p)])
        else if op = 0 \<or> \<not> fin then
          (if fin then feed_loop rest [] (out @ [(OP_BINARY, concat (fr @ [p]))]) else feed_loop rest (fr @ [p]) out)
        else feed_loop rest fr (out @ [(op, p)]))" for out
      by (subst feed_loop.simps) (simp add: Frame)
    have one: "feed_loop rest fr' (out @ [m]) = map_option (\<lambda>(r, ms). (r, out @ ms)) (feed_loop rest fr' [m])" for fr' m
      unfolding IH [of fr' "out @ [m]"] IH [of fr' "[m]"] by (cases "feed_loop rest fr' []") auto
    show ?thesis unfolding step [of out] step [of "[]"] using one [of fr] one [of "[]"] IH [of "fr @ [p]" out] by simp
  qed (subst (1 2) feed_loop.simps, simp)+
qed

lemma feed_append:
  "feed r (a @ b) = (case feed r a of None \<Rightarrow> None
     | Some (r1, ms) \<Rightarrow> map_option (\<lambda>(r2, ms2). (r2, ms @ ms2)) (feed r1 b))"
  using feed_loop_append [of "rd_buf r @ a" b "rd_fragments r" "[]"]
  by (auto simp: feed_def feed_loop_out [of _ _ "_ # _"] split: option.split) (metis feed_loop_out)+

text \<open>A reader between two calls waits for more.\<close>

definition settled_reader :: "reader \<Rightarrow> bool" where
  "settled_reader r \<longleftrightarrow> parse_frame (rd_buf r) = NeedMore"

lemma feed_loop_settled: "feed_loop a fr out = Some (r, ms) \<Longrightarrow> settled_reader r"
proof (induction a fr out arbitrary: r ms rule: feed_loop.induct)
  case (1 a fr out)
  show ?case
  proof (cases "parse_frame a")
    case (Frame fin op p rest)
    then show ?thesis using 1 (1-4) [OF Frame] 1 (5) by (subst (asm) feed_loop.simps) (auto split: if_splits)
  qed (use 1 (5) in \<open>auto simp: settled_reader_def feed_loop.simps [of a]\<close>)
qed

lemma settled_new_reader [simp]: "settled_reader new_reader"
  by (simp add: settled_reader_def new_reader_def parse_frame_def)

lemma feed_nothing: "settled_reader r \<Longrightarrow> feed r [] = Some (r, [])"
  by (simp add: feed_def settled_reader_def feed_loop.simps [of "rd_buf r"])

fun feed_all :: "reader \<Rightarrow> bytes list \<Rightarrow> (reader \<times> message list) option" where
  "feed_all r [] = Some (r, [])"
| "feed_all r (c # cs) =
     (case feed r c of None \<Rightarrow> None
      | Some (r1, ms) \<Rightarrow> map_option (\<lambda>(r2, ms2). (r2, ms @ ms2)) (feed_all r1 cs))"

text \<open>
  How the stream of the browser is cut into pieces does not matter: feeding it piece by piece delivers
  the same messages in the same order as feeding it at once, leaves the reader in the same state, and
  refuses exactly when the whole is refused.
\<close>

lemma feed_chunks:
  assumes "settled_reader r"
  shows "feed_all r cs = feed r (concat cs)"
  using assms
proof (induction cs arbitrary: r)
  case Nil
  then show ?case by (simp add: feed_nothing)
next
  case (Cons c cs)
  show ?case
  proof (cases "feed r c")
    case (Some x)
    then obtain r1 ms where x: "x = (r1, ms)" by (cases x)
    then have "settled_reader r1" using Some feed_loop_settled unfolding feed_def by blast
    then show ?thesis using Cons.IH Some x by (simp add: feed_append)
  qed (simp add: feed_append)
qed

section \<open>Messages\<close>

text \<open>What a browser sends: control messages, whole data messages, and messages in pieces with control
  messages between them (\<open>Inl\<close> a control message, \<open>Inr\<close> a piece).\<close>

datatype sending = Control nat bytes | Whole nat bytes | Pieces nat bytes "(message + bytes) list" bytes

definition control_op :: "nat \<Rightarrow> bool" where "control_op op \<longleftrightarrow> op \<in> {OP_CLOSE, OP_PING, OP_PONG}"
definition data_op :: "nat \<Rightarrow> bool" where "data_op op \<longleftrightarrow> op \<in> {OP_TEXT, OP_BINARY}"

fun valid_sending :: "sending \<Rightarrow> bool" where
  "valid_sending (Control op p) = control_op op"
| "valid_sending (Whole op p) = data_op op"
| "valid_sending (Pieces op p ms q) = (data_op op \<and> list_all (\<lambda>m. case m of Inl c \<Rightarrow> control_op (fst c) | Inr _ \<Rightarrow> True) ms)"

fun middle :: "message + bytes \<Rightarrow> bool \<times> nat \<times> bytes" where
  "middle (Inl (op, p)) = (True, op, p)"
| "middle (Inr p) = (False, 0, p)"

fun frames_of :: "sending \<Rightarrow> (bool \<times> nat \<times> bytes) list" where
  "frames_of (Control op p) = [(True, op, p)]"
| "frames_of (Whole op p) = [(True, op, p)]"
| "frames_of (Pieces op p ms q) = [(False, op, p)] @ map middle ms @ [(True, 0, q)]"

definition controls :: "(message + bytes) list \<Rightarrow> message list" where
  "controls ms = concat (map (\<lambda>m. case m of Inl c \<Rightarrow> [c] | Inr _ \<Rightarrow> []) ms)"

definition pieces :: "(message + bytes) list \<Rightarrow> bytes list" where
  "pieces ms = concat (map (\<lambda>m. case m of Inl _ \<Rightarrow> [] | Inr p \<Rightarrow> [p]) ms)"

fun messages_of :: "sending \<Rightarrow> message list" where
  "messages_of (Control op p) = [(op, p)]"
| "messages_of (Whole op p) = [(op, p)]"
| "messages_of (Pieces op p ms q) = controls ms @ [(OP_BINARY, p @ concat (pieces ms) @ q)]"

text \<open>The reader on whole frames.\<close>

fun deliver :: "bytes list \<Rightarrow> (bool \<times> nat \<times> bytes) list \<Rightarrow> bytes list \<times> message list" where
  "deliver fr [] = (fr, [])"
| "deliver fr ((fin, op, p) # fs) =
     (if control_op op then apsnd (Cons (op, p)) (deliver fr fs)
      else if op = 0 \<or> \<not> fin then
        (if fin then apsnd (Cons (OP_BINARY, concat (fr @ [p]))) (deliver [] fs) else deliver (fr @ [p]) fs)
      else apsnd (Cons (op, p)) (deliver fr fs))"

definition plain :: "wsframe \<Rightarrow> bool \<times> nat \<times> bytes" where
  "plain f = (wf_fin f, wf_op f, wf_payload f)"

lemma feed_loop_frames:
  "list_all wf_frame fs \<Longrightarrow> feed_loop (concat (map encode fs)) fr out =
     Some (\<lparr>rd_buf = [], rd_fragments = fst (deliver fr (map plain fs))\<rparr>, out @ snd (deliver fr (map plain fs)))"
proof (induction fs arbitrary: fr out)
  case Nil
  have "parse_frame [] = NeedMore" by (simp add: parse_frame_def)
  then show ?case by (simp add: feed_loop.simps)
next
  case (Cons f fs)
  then have "parse_frame (encode f @ concat (map encode fs)) = Frame (wf_fin f) (wf_op f) (wf_payload f) (concat (map encode fs))"
    by (simp add: parse_encode)
  moreover have "plain f = (wf_fin f, wf_op f, wf_payload f)" by (simp add: plain_def)
  ultimately show ?case using Cons
    by (subst feed_loop.simps) (simp add: control_op_def split_beta)
qed

lemma deliver_append:
  "deliver fr (fs @ gs) = (let (fr1, ms) = deliver fr fs in apsnd (\<lambda>ms2. ms @ ms2) (deliver fr1 gs))"
  by (induction fr fs rule: deliver.induct) (auto simp: split_beta Let_def prod_eq_iff)

lemma deliver_middle:
  "list_all (\<lambda>m. case m of Inl c \<Rightarrow> control_op (fst c) | Inr _ \<Rightarrow> True) ms \<Longrightarrow>
   deliver fr (map middle ms) = (fr @ pieces ms, controls ms)"
proof (induction ms arbitrary: fr)
  case (Cons m ms)
  have "\<not> control_op 0" by (simp add: control_op_def op_defs)
  then show ?case using Cons by (cases m) (auto simp: pieces_def controls_def)
qed (simp add: pieces_def controls_def)

lemma deliver_sending: "valid_sending x \<Longrightarrow> deliver [] (frames_of x) = ([], messages_of x)"
proof (cases x)
  case (Pieces op p ms q)
  assume valid: "valid_sending x"
  then have "deliver [p] (map middle ms) = ([p] @ pieces ms, controls ms)"
    using Pieces by (intro deliver_middle) simp
  moreover have "\<not> control_op op" "\<not> control_op 0"
    using valid Pieces by (auto simp: control_op_def data_op_def op_defs)
  ultimately show ?thesis using Pieces by (simp add: deliver_append)
qed (auto simp: control_op_def data_op_def op_defs)

lemma deliver_sendings:
  "list_all valid_sending xs \<Longrightarrow> deliver [] (concat (map frames_of xs)) = ([], concat (map messages_of xs))"
  by (induction xs) (simp_all add: deliver_append deliver_sending)

text \<open>
  C38: A stream of RFC 6455 frames is read back as the messages that were sent: for any messages, whole or in
  pieces with control messages between them, any masking keys and any cut of the stream, the reader
  delivers each message once, in order and with its bytes, and is left empty.
\<close>

theorem stream_roundtrip:
  assumes "list_all wf_frame fs" "map plain fs = concat (map frames_of xs)" "list_all valid_sending xs"
    "concat cs = concat (map encode fs)"
  shows "feed_all new_reader cs = Some (new_reader, concat (map messages_of xs))"
  using feed_loop_frames [OF assms(1), of "[]" "[]"] deliver_sendings [OF assms(3)] assms(2,4)
  by (simp add: feed_chunks feed_def) (simp add: new_reader_def)

end
