(* ===== verification/Vnc_Props.thy ===== *)
theory Vnc_Props
  imports Vnc_Bridge Instances Peering_Witness
begin

text \<open>
  What the console promises: the relay hands the display exactly the browser's data, answers its pings and
  hands the browser exactly the display's data, and a ticket opens one console of one instance, once,
  within a minute.
\<close>

section \<open>The relay\<close>

definition vnc_side :: "sent list \<Rightarrow> bytes" where
  "vnc_side ss = concat (map (\<lambda>s. case s of ToVnc b \<Rightarrow> b | ToClient _ \<Rightarrow> []) ss)"

definition client_side :: "sent list \<Rightarrow> bytes" where
  "client_side ss = concat (map (\<lambda>s. case s of ToClient b \<Rightarrow> b | ToVnc _ \<Rightarrow> []) ss)"

lemma sides_simps [simp]:
  "vnc_side [] = []" "client_side [] = []"
  "vnc_side (ss @ tt) = vnc_side ss @ vnc_side tt" "client_side (ss @ tt) = client_side ss @ client_side tt"
  "vnc_side (ToVnc b # ss) = b @ vnc_side ss" "vnc_side (ToClient b # ss) = vnc_side ss"
  "client_side (ToVnc b # ss) = client_side ss" "client_side (ToClient b # ss) = b @ client_side ss"
  by (simp_all add: vnc_side_def client_side_def)

text \<open>The data that a list of messages carries before the browser closes.\<close>

definition closes :: "message list \<Rightarrow> bool" where
  "closes ms \<longleftrightarrow> list_ex (\<lambda>m. fst m = OP_CLOSE) ms"

definition data_until_close :: "message list \<Rightarrow> bytes" where
  "data_until_close ms = concat (map snd (filter (\<lambda>m. data_op (fst m)) (takeWhile (\<lambda>m. fst m \<noteq> OP_CLOSE) ms)))"

definition chunks_of :: "('a option \<times> bytes option) list \<Rightarrow> bytes list" where
  "chunks_of rounds = concat (map (\<lambda>r. case snd r of None \<Rightarrow> [] | Some c \<Rightarrow> [c]) rounds)"

definition display_data :: "(bytes option \<times> 'a) list \<Rightarrow> bytes" where
  "display_data rounds = concat (map (\<lambda>r. case fst r of None \<Rightarrow> [] | Some d \<Rightarrow> d) rounds)"

text \<open>Neither side ends, and a read of the display is as large as the code reads.\<close>

definition open_rounds :: "(bytes option \<times> bytes option) list \<Rightarrow> bool" where
  "open_rounds rounds \<longleftrightarrow> list_all (\<lambda>(v, c). v \<noteq> Some [] \<and> c \<noteq> Some [] \<and> (\<forall>d. v = Some d \<longrightarrow> length d \<le> 2 ^ 16)) rounds"

lemma data_until_close_append:
  "data_until_close (ms @ ns) = (if closes ms then data_until_close ms else data_until_close ms @ data_until_close ns)"
  by (induction ms) (auto simp: data_until_close_def closes_def)

lemma answer_spec: "answer ms = (ss, cl) \<Longrightarrow> vnc_side ss = data_until_close ms \<and> cl = closes ms"
proof (induction ms arbitrary: ss cl)
  case (Cons m ms)
  obtain tt c where t: "answer ms = (tt, c)" by (cases "answer ms")
  then have IH: "vnc_side tt = data_until_close ms" "c = closes ms" using Cons.IH by auto
  show ?case using Cons.prems IH t
    by (cases m) (auto simp: data_until_close_def closes_def data_op_def op_defs split: if_splits)
qed (simp add: data_until_close_def closes_def)

lemma feed_settled: "feed r c = Some (r1, ms) \<Longrightarrow> settled_reader r1"
  unfolding feed_def by (rule feed_loop_settled)

lemma relay_vnc:
  assumes "open_rounds rounds" "feed_all r (chunks_of rounds) = Some (r', ms)"
  shows "vnc_side (relay r rounds) = data_until_close ms"
  using assms
proof (induction rounds arbitrary: r ms)
  case (Cons x rounds)
  obtain v c where x: "x = (v, c)" by (cases x)
  have v: "v \<noteq> Some []" and rest: "open_rounds rounds" and c: "c \<noteq> Some []"
    using Cons.prems(1) x by (auto simp: open_rounds_def)
  have head: "vnc_side (case v of None \<Rightarrow> [] | Some d \<Rightarrow> [ToClient (frame OP_BINARY d)]) = []" by (simp split: option.split)
  show ?case
  proof (cases c)
    case None
    then have "feed_all r (chunks_of rounds) = Some (r', ms)" using Cons.prems(2) x by (simp add: chunks_of_def)
    then show ?thesis using Cons.IH [OF rest] x v None head by (simp add: from_client_def)
  next
    case (Some d)
    then have d: "d \<noteq> []" using c by simp
    obtain r1 ms1 where f: "feed r d = Some (r1, ms1)" and "\<exists>ms2. feed_all r1 (chunks_of rounds) = Some (r', ms2) \<and> ms = ms1 @ ms2"
      using Cons.prems(2) x Some by (auto simp: chunks_of_def split: option.splits)
    then obtain ms2 where ms2: "feed_all r1 (chunks_of rounds) = Some (r', ms2)" "ms = ms1 @ ms2" by blast
    obtain ss cl where a: "answer ms1 = (ss, cl)" by (cases "answer ms1")
    note sp = answer_spec [OF a]
    have "from_client r c = (ss, if cl then None else Some r1)" using Some d f a by (simp add: from_client_def)
    then show ?thesis using Cons.IH [OF rest ms2(1)] x v head sp ms2(2) by (simp add: data_until_close_append)
  qed
qed (simp add: chunks_of_def data_until_close_def)

subsection \<open>What the browser reads\<close>

lemma frame_encode: "frame op p = encode \<lparr>wf_fin = True, wf_op = op, wf_key = None, wf_payload = p\<rparr>"
  by (simp add: frame_def encode_def length_bytes_def Let_def)

definition reply_frame :: "nat \<Rightarrow> bytes \<Rightarrow> wsframe" where
  "reply_frame op p = \<lparr>wf_fin = True, wf_op = op, wf_key = None, wf_payload = p\<rparr>"

text \<open>The frames that answer a list of messages, and those of the rounds.\<close>

definition pong_frames :: "message list \<Rightarrow> wsframe list" where
  "pong_frames ms = map (\<lambda>m. reply_frame OP_PONG (snd m)) (filter (\<lambda>m. fst m = OP_PING) ms)"

lemma answer_client: "answer ms = (ss, False) \<Longrightarrow> client_side ss = concat (map encode (pong_frames ms))"
proof (induction ms arbitrary: ss)
  case (Cons m ms)
  obtain tt where t: "answer ms = (tt, False)" using Cons.prems by (cases m; cases "answer ms") (auto split: if_splits)
  then show ?case using Cons.prems Cons.IH [OF t]
    by (cases m) (auto simp: pong_frames_def frame_encode reply_frame_def op_defs split: if_splits)
qed (simp add: pong_frames_def)

text \<open>A control message that the reader delivers is one frame, so it can be answered in one.\<close>

definition small_controls :: "message list \<Rightarrow> bool" where
  "small_controls ms \<longleftrightarrow> list_all (\<lambda>m. control_op (fst m) \<longrightarrow> length (snd m) \<le> MAX_FRAME) ms"

lemma parse_payload_bound: "parse_frame buf = Frame fin op p rest \<Longrightarrow> length p \<le> MAX_FRAME"
  by (auto simp: parse_frame_def parse_payload_def Let_def split: if_splits option.splits)

lemma feed_loop_small:
  "feed_loop a fr out = Some (r, ms) \<Longrightarrow> small_controls out \<Longrightarrow> small_controls ms"
proof (induction a fr out arbitrary: r ms rule: feed_loop.induct)
  case (1 a fr out)
  show ?case
  proof (cases "parse_frame a")
    case (Frame fin op p rest)
    have "small_controls (out @ [(op, p)])" "small_controls (out @ [(OP_BINARY, q)])" for q
      using 1(6) parse_payload_bound [OF Frame] by (simp_all add: small_controls_def control_op_def op_defs)
    then show ?thesis using 1 (1-4) [OF Frame] 1 (5,6) Frame by (subst (asm) feed_loop.simps) (auto split: if_splits)
  qed (use 1 (5,6) in \<open>auto simp: feed_loop.simps [of a]\<close>)
qed

lemma pong_frames_wf: "small_controls ms \<Longrightarrow> list_all wf_frame (pong_frames ms)"
  by (auto simp: small_controls_def pong_frames_def list_all_iff wf_frame_def reply_frame_def control_op_def op_defs)

lemma pong_frames_append: "pong_frames (ms @ ns) = pong_frames ms @ pong_frames ns"
  by (simp add: pong_frames_def)

text \<open>The frames that the relay sends, its data frames, and the pongs among them.\<close>

definition sent_frames :: "wsframe list \<Rightarrow> bytes \<Rightarrow> message list \<Rightarrow> bool" where
  "sent_frames fs d ms \<longleftrightarrow> list_all (\<lambda>f. wf_frame f \<and> wf_fin f \<and> wf_op f \<in> {OP_BINARY, OP_PONG}) fs \<and>
     concat (map wf_payload (filter (\<lambda>f. wf_op f = OP_BINARY) fs)) = d \<and>
     filter (\<lambda>f. wf_op f = OP_PONG) fs = pong_frames ms"

lemma sent_frames_append: "sent_frames fs d ms \<Longrightarrow> sent_frames gs e ns \<Longrightarrow> sent_frames (fs @ gs) (d @ e) (ms @ ns)"
  by (simp add: sent_frames_def pong_frames_append)

lemma sent_pongs: "small_controls ms \<Longrightarrow> sent_frames (pong_frames ms) [] ms"
  using pong_frames_wf [of ms] by (auto simp: sent_frames_def list_all_iff pong_frames_def reply_frame_def op_defs)

lemma sent_data:
  "(\<forall>d. v = Some d \<longrightarrow> length d \<le> 2 ^ 16) \<Longrightarrow>
   sent_frames (case v of None \<Rightarrow> [] | Some d \<Rightarrow> [reply_frame OP_BINARY d]) (case v of None \<Rightarrow> [] | Some d \<Rightarrow> d) []"
  by (auto simp: sent_frames_def reply_frame_def wf_frame_def pong_frames_def op_defs MAX_FRAME_def split: option.split)

lemma relay_client:
  assumes "open_rounds rounds" "feed_all r (chunks_of rounds) = Some (r', ms)" "\<not> closes ms"
  shows "\<exists>fs. client_side (relay r rounds) = concat (map encode fs) \<and> sent_frames fs (display_data rounds) ms"
  using assms
proof (induction rounds arbitrary: r ms)
  case Nil
  then show ?case by (intro exI [of _ "[]"]) (simp add: sent_frames_def display_data_def chunks_of_def pong_frames_def)
next
  case (Cons x rounds)
  obtain v c where x: "x = (v, c)" by (cases x)
  have v: "v \<noteq> Some []" "\<forall>d. v = Some d \<longrightarrow> length d \<le> 2 ^ 16" and rest: "open_rounds rounds" and c: "c \<noteq> Some []"
    using Cons.prems(1) x by (auto simp: open_rounds_def)
  let ?h = "case v of None \<Rightarrow> [] | Some d \<Rightarrow> [reply_frame OP_BINARY d]"
  have head: "client_side (case v of None \<Rightarrow> [] | Some d \<Rightarrow> [ToClient (frame OP_BINARY d)]) = concat (map encode ?h)"
    by (simp add: frame_encode reply_frame_def split: option.split)
  have dd: "display_data (x # rounds) = (case v of None \<Rightarrow> [] | Some d \<Rightarrow> d) @ display_data rounds"
    by (simp add: display_data_def x)
  show ?case
  proof (cases c)
    case None
    then have "feed_all r (chunks_of rounds) = Some (r', ms)" using Cons.prems(2) x by (simp add: chunks_of_def)
    then obtain fs where fs: "client_side (relay r rounds) = concat (map encode fs)" "sent_frames fs (display_data rounds) ms"
      using Cons.IH [OF rest] Cons.prems(3) by blast
    have "client_side (relay r (x # rounds)) = concat (map encode (?h @ fs))"
      using x v(1) None head fs(1) by (simp add: from_client_def)
    moreover have "sent_frames (?h @ fs) (display_data (x # rounds)) ms"
      using sent_frames_append [OF sent_data [OF v(2)] fs(2)] dd by simp
    ultimately show ?thesis by blast
  next
    case (Some d)
    then have d: "d \<noteq> []" using c by simp
    obtain r1 ms1 ms2 where f: "feed r d = Some (r1, ms1)" "feed_all r1 (chunks_of rounds) = Some (r', ms2)" "ms = ms1 @ ms2"
      using Cons.prems(2) x Some by (auto simp: chunks_of_def split: option.splits)
    have cl: "\<not> closes ms1" "\<not> closes ms2" using Cons.prems(3) f(3) by (auto simp: closes_def)
    obtain ss where a: "answer ms1 = (ss, False)" using answer_spec [of ms1] cl(1) by (cases "answer ms1") auto
    have small: "small_controls ms1" using f(1) feed_loop_small unfolding feed_def by (fastforce simp: small_controls_def)
    obtain fs where fs: "client_side (relay r1 rounds) = concat (map encode fs)" "sent_frames fs (display_data rounds) ms2"
      using Cons.IH [OF rest f(2) cl(2)] by blast
    have "client_side (relay r (x # rounds)) = concat (map encode (?h @ pong_frames ms1 @ fs))"
      using x v(1) Some d f(1) a head fs(1) answer_client [OF a] by (simp add: from_client_def)
    moreover have "sent_frames (?h @ pong_frames ms1 @ fs) (display_data (x # rounds)) ms"
      using sent_frames_append [OF sent_data [OF v(2)] sent_frames_append [OF sent_pongs [OF small] fs(2)]] dd f(3) by simp
    ultimately show ?thesis by blast
  qed
qed

text \<open>The data messages of the browser, in order.\<close>

definition message_data :: "message list \<Rightarrow> bytes" where
  "message_data ms = concat (map snd (filter (\<lambda>m. data_op (fst m)) ms))"

lemma data_until_close_open: "\<not> closes ms \<Longrightarrow> data_until_close ms = message_data ms"
  by (induction ms) (auto simp: closes_def data_until_close_def message_data_def)

text \<open>
  C29: The console is transparent in both directions: whatever the browser sends as frames, in any pieces and
  interleaved with the display in any order, the display receives exactly the browser's data in order, and
  the browser receives well-formed frames that carry exactly the display's bytes in order, with one pong
  for each ping, in order and with its payload.
\<close>

theorem relay_transparent:
  assumes "open_rounds rounds" "concat (chunks_of rounds) = concat (map encode fs)" "list_all wf_frame fs"
    "map plain fs = concat (map frames_of xs)" "list_all valid_sending xs" "\<not> closes (concat (map messages_of xs))"
  shows "vnc_side (relay new_reader rounds) = message_data (concat (map messages_of xs)) \<and>
    (\<exists>gs. client_side (relay new_reader rounds) = concat (map encode gs) \<and>
       sent_frames gs (display_data rounds) (concat (map messages_of xs)))"
proof -
  have "feed_all new_reader (chunks_of rounds) = Some (new_reader, concat (map messages_of xs))"
    using feed_loop_frames [OF assms(3), of "[]" "[]"] deliver_sendings [OF assms(5)] assms(2,4)
    by (simp add: feed_chunks feed_def) (simp add: new_reader_def)
  then show ?thesis
    using relay_vnc [OF assms(1)] relay_client [OF assms(1) _ assms(6)] data_until_close_open [OF assms(6)] by auto
qed

section \<open>Tickets\<close>

text \<open>The tickets, the monotonic clock and what has happened: which tickets were handed out and which opened a
  console.\<close>

datatype vnc_event = Issued string string rat | Served string string rat

record vnc_world =
  vw_tickets :: tickets
  vw_now :: rat
  vw_events :: "vnc_event list"

definition issued_tokens :: "vnc_event list \<Rightarrow> string list" where
  "issued_tokens es = concat (map (\<lambda>e. case e of Issued t _ _ \<Rightarrow> [t] | Served _ _ _ \<Rightarrow> []) es)"

definition served_tokens :: "vnc_event list \<Rightarrow> string list" where
  "served_tokens es = concat (map (\<lambda>e. case e of Issued _ _ _ \<Rightarrow> [] | Served t _ _ \<Rightarrow> [t]) es)"

text \<open>Time passes, a ticket is asked for, or one is redeemed, with any instance table and any display at each step.
  \<^verbatim>\<open>secrets.token_urlsafe\<close> gives a token that was not given before.\<close>

inductive vnc_step :: "vnc_world \<Rightarrow> vnc_world \<Rightarrow> bool" where
  tick: "0 \<le> d \<Longrightarrow> vnc_step w (w\<lparr>vw_now := vw_now w + d\<rparr>)"
| issue: "token \<notin> set (issued_tokens (vw_events w)) \<Longrightarrow>
    instance_vnc_ticket port token (vw_now w) i h (vw_tickets w) = (t, r) \<Longrightarrow>
    es = (case r of Reply _ _ \<Rightarrow> [Issued token i (vw_now w)] | _ \<Rightarrow> []) \<Longrightarrow>
    vnc_step w (w\<lparr>vw_tickets := t, vw_events := vw_events w @ es\<rparr>)"
| redeem: "instance_vnc_websocket port (vw_now w) i token upgrade h (vw_tickets w) = (t, r) \<Longrightarrow>
    es = (case r of Reply _ _ \<Rightarrow> [Served token i (vw_now w)] | _ \<Rightarrow> []) \<Longrightarrow>
    vnc_step w (w\<lparr>vw_tickets := t, vw_events := vw_events w @ es\<rparr>)"

definition vnc_start :: vnc_world where
  "vnc_start = \<lparr>vw_tickets = Map.empty, vw_now = 0, vw_events = []\<rparr>"

definition vnc_reachable :: "vnc_world \<Rightarrow> bool" where
  "vnc_reachable w \<longleftrightarrow> vnc_step\<^sup>*\<^sup>* vnc_start w"

definition ticket_invariant :: "vnc_world \<Rightarrow> bool" where
  "ticket_invariant w \<longleftrightarrow>
     (\<forall>k i e. vw_tickets w k = Some (i, e) \<longrightarrow>
        Issued k i (e - VNC_TICKET_TTL) \<in> set (vw_events w) \<and> k \<notin> set (served_tokens (vw_events w))) \<and>
     (\<forall>k i s. Issued k i s \<in> set (vw_events w) \<longrightarrow> s \<le> vw_now w) \<and>
     (\<forall>k i s. Served k i s \<in> set (vw_events w) \<longrightarrow>
        (\<exists>s0. Issued k i s0 \<in> set (vw_events w) \<and> s0 \<le> s \<and> s \<le> s0 + VNC_TICKET_TTL)) \<and>
     distinct (served_tokens (vw_events w))"

lemma tokens_simps [simp]:
  "issued_tokens [] = []" "served_tokens [] = []"
  "issued_tokens (xs @ ys) = issued_tokens xs @ issued_tokens ys"
  "served_tokens (xs @ ys) = served_tokens xs @ served_tokens ys"
  "issued_tokens [Issued k i s] = [k]" "issued_tokens [Served k i s] = []"
  "served_tokens [Issued k i s] = []" "served_tokens [Served k i s] = [k]"
  by (simp_all add: issued_tokens_def served_tokens_def)

lemma issued_in: "Issued k i s \<in> set es \<Longrightarrow> k \<in> set (issued_tokens es)"
  by (force simp: issued_tokens_def)

lemma served_in: "k \<in> set (served_tokens es) \<Longrightarrow> \<exists>i s. Served k i s \<in> set es"
  by (auto simp: served_tokens_def split: vnc_event.splits)

lemma purge_some: "purge now t k = Some e \<Longrightarrow> t k = Some e"
  by (auto simp: purge_def split: option.splits if_splits)

lemma instance_vnc_ticket_cases:
  assumes "instance_vnc_ticket port token now i h t = (t', r)"
  shows "t' = t \<and> (\<exists>c s. r = Problem c s) \<or>
    t' = (purge now t)(token \<mapsto> (i, now + VNC_TICKET_TTL)) \<and> (\<exists>x. r = Reply 200 x)"
  using assms by (auto simp: instance_vnc_ticket_def split: option.splits if_splits)

lemma instance_vnc_websocket_cases:
  assumes "instance_vnc_websocket port now i token upgrade h t = (t', r)"
  shows "t' = t(token := None) \<and>
    ((\<exists>c s. r = Problem c s) \<or> (\<exists>e p. t token = Some (i, e) \<and> now \<le> e \<and> r = Reply 101 p))"
  using assms by (auto simp: instance_vnc_websocket_def Let_def split: option.splits if_splits)

lemma served_issued:
  "ticket_invariant w \<Longrightarrow> k \<in> set (served_tokens (vw_events w)) \<Longrightarrow> k \<in> set (issued_tokens (vw_events w))"
  unfolding ticket_invariant_def using served_in issued_in by meson

lemma ticket_invariant_issue:
  assumes inv: "ticket_invariant w" and new: "token \<notin> set (issued_tokens (vw_events w))"
  shows "ticket_invariant (w\<lparr>vw_tickets := (purge now (vw_tickets w))(token \<mapsto> (i, vw_now w + VNC_TICKET_TTL)),
    vw_events := vw_events w @ [Issued token i (vw_now w)]\<rparr>)"
proof -
  have "token \<notin> set (served_tokens (vw_events w))" using served_issued [OF inv] new by blast
  then show ?thesis using inv unfolding ticket_invariant_def by (auto dest!: purge_some) blast
qed

lemma ticket_invariant_serve:
  assumes inv: "ticket_invariant w" and t: "vw_tickets w token = Some (i, e)" and e: "vw_now w \<le> e"
  shows "ticket_invariant (w\<lparr>vw_tickets := (vw_tickets w)(token := None),
    vw_events := vw_events w @ [Served token i (vw_now w)]\<rparr>)"
proof -
  have i: "Issued token i (e - VNC_TICKET_TTL) \<in> set (vw_events w)" "token \<notin> set (served_tokens (vw_events w))"
    using inv t unfolding ticket_invariant_def by blast+
  then have "e - VNC_TICKET_TTL \<le> vw_now w" using inv unfolding ticket_invariant_def by blast
  then have "\<exists>s0. Issued token i s0 \<in> set (vw_events w) \<and> s0 \<le> vw_now w \<and> vw_now w \<le> s0 + VNC_TICKET_TTL"
    using i(1) e by (intro exI [of _ "e - VNC_TICKET_TTL"]) simp
  then show ?thesis using inv i(2) unfolding ticket_invariant_def by (auto split: if_splits)
qed

lemma ticket_invariant_drop:
  "ticket_invariant w \<Longrightarrow> ticket_invariant (w\<lparr>vw_tickets := (vw_tickets w)(token := None)\<rparr>)"
  unfolding ticket_invariant_def by (auto split: if_splits)

lemma ticket_invariant_step: "vnc_step w w' \<Longrightarrow> ticket_invariant w \<Longrightarrow> ticket_invariant w'"
proof (induction rule: vnc_step.induct)
  case (tick d w)
  then show ?case unfolding ticket_invariant_def by force
next
  case (issue token w port i h t r es)
  then show ?case using instance_vnc_ticket_cases [OF issue(2)] ticket_invariant_issue by auto
next
  case (redeem port w i token upgrade h t r es)
  then show ?case using instance_vnc_websocket_cases [OF redeem(1)] ticket_invariant_serve ticket_invariant_drop by auto
qed

lemma vnc_reachable_invariant: "vnc_reachable w \<Longrightarrow> ticket_invariant w"
  unfolding vnc_reachable_def
proof (induction rule: rtranclp_induct)
  case base
  then show ?case by (simp add: ticket_invariant_def vnc_start_def)
qed (rule ticket_invariant_step)

text \<open>
  C27: A ticket opens one console, once, within a minute: in every history of asking for tickets and redeeming them,
  each ticket was served at most once, and whenever one was served it had been handed out for that
  same instance at most sixty seconds before.
\<close>

theorem ticket_single_use:
  assumes "vnc_reachable w"
  shows "distinct (served_tokens (vw_events w)) \<and>
    (\<forall>k i s. Served k i s \<in> set (vw_events w) \<longrightarrow>
       (\<exists>s0. Issued k i s0 \<in> set (vw_events w) \<and> s0 \<le> s \<and> s \<le> s0 + 60))"
  using vnc_reachable_invariant [OF assms] by (simp add: ticket_invariant_def VNC_TICKET_TTL_def)

section \<open>A console at work\<close>

definition demo_text :: wsframe where
  "demo_text = \<lparr>wf_fin = False, wf_op = OP_BINARY, wf_key = Some [1, 2, 3, 4], wf_payload = [10, 20, 30, 40, 50]\<rparr>"
definition demo_ping :: wsframe where
  "demo_ping = \<lparr>wf_fin = True, wf_op = OP_PING, wf_key = Some [9, 9, 9, 9], wf_payload = [7]\<rparr>"
definition demo_rest :: wsframe where
  "demo_rest = \<lparr>wf_fin = True, wf_op = 0, wf_key = None, wf_payload = [60]\<rparr>"

definition demo_frames :: "wsframe list" where "demo_frames = [demo_text, demo_ping, demo_rest]"

definition demo_sending :: sending where
  "demo_sending = Pieces OP_BINARY [10, 20, 30, 40, 50] [Inl (OP_PING, [7])] [60]"

definition demo_stream :: bytes where "demo_stream = concat (map encode demo_frames)"

definition demo_rounds :: "round list" where
  "demo_rounds = [(Some [1, 2], Some (take 3 demo_stream)), (None, None), (Some [3], Some (drop 3 demo_stream))]"

lemma demo_frames_ok:
  "list_all wf_frame demo_frames" "map plain demo_frames = concat (map frames_of [demo_sending])"
  "list_all valid_sending [demo_sending]" "\<not> closes (concat (map messages_of [demo_sending]))"
  by (simp_all add: demo_frames_def demo_text_def demo_ping_def demo_rest_def demo_sending_def wf_frame_def op_defs
      MAX_FRAME_def plain_def data_op_def control_op_def closes_def controls_def)

lemma demo_stream_length: "length demo_stream = 21"
  by (simp add: demo_stream_def demo_frames_def demo_text_def demo_ping_def demo_rest_def encode_def length_bytes_def)

lemma demo_stream_parts: "take 3 demo_stream \<noteq> []" "drop 3 demo_stream \<noteq> []"
  using demo_stream_length by auto

theorem stream_roundtrip_witness:
  "feed_all new_reader [take 3 demo_stream, drop 3 demo_stream] =
     Some (new_reader, [(OP_PING, [7]), (OP_BINARY, [10, 20, 30, 40, 50, 60])])"
  using stream_roundtrip [OF demo_frames_ok(1-3), of "[take 3 demo_stream, drop 3 demo_stream]"]
  by (simp add: demo_stream_def demo_sending_def controls_def pieces_def)

theorem relay_transparent_witness:
  "vnc_side (relay new_reader demo_rounds) = [10, 20, 30, 40, 50, 60] \<and>
   (\<exists>gs. client_side (relay new_reader demo_rounds) = concat (map encode gs) \<and>
      sent_frames gs [1, 2, 3] [(OP_PING, [7]), (OP_BINARY, [10, 20, 30, 40, 50, 60])])"
proof -
  have "open_rounds demo_rounds" using demo_stream_parts by (simp add: open_rounds_def demo_rounds_def)
  moreover have "concat (chunks_of demo_rounds) = concat (map encode demo_frames)"
    by (simp add: chunks_of_def demo_rounds_def demo_stream_def)
  ultimately show ?thesis using relay_transparent [OF _ _ demo_frames_ok, of demo_rounds]
    by (simp add: message_data_def demo_sending_def controls_def pieces_def data_op_def op_defs display_data_def demo_rounds_def)
qed

definition console_host :: host where
  "console_host = empty_host\<lparr>instance_tbl := [(new_instance ''i1'' 0)\<lparr>i_domain_name := ''cloudcore-i1'', i_status := Running\<rparr>]\<rparr>"

lemma console_instance:
  "store_get_instance (instance_tbl console_host) ''i1'' =
     Some ((new_instance ''i1'' 0)\<lparr>i_domain_name := ''cloudcore-i1'', i_status := Running\<rparr>)"
  by (simp add: console_host_def store_get_instance_def live_get_def i_live_def new_instance_def)

lemma demo_ticket_issue:
  "vnc_step vnc_start \<lparr>vw_tickets = [''k'' \<mapsto> (''i1'', 60)], vw_now = 0, vw_events = [Issued ''k'' ''i1'' 0]\<rparr>"
proof -
  have p: "purge 0 Map.empty = Map.empty" by (simp add: purge_def)
  have "instance_vnc_ticket (\<lambda>_. 5900) ''k'' 0 ''i1'' console_host Map.empty =
      ([''k'' \<mapsto> (''i1'', 60)], Reply 200 (''k'', ''/v1/instances/'' @ ''i1'' @ ''/vnc?ticket='' @ ''k''))"
    by (simp add: instance_vnc_ticket_def console_instance VNC_TICKET_TTL_def p)
  then show ?thesis
    using issue [of "''k''" vnc_start "\<lambda>_. 5900" "''i1''" console_host _ _ "[Issued ''k'' ''i1'' 0]"] by (simp add: vnc_start_def)
qed

lemma demo_ticket_redeem:
  "vnc_step \<lparr>vw_tickets = [''k'' \<mapsto> (''i1'', 60)], vw_now = 30, vw_events = [Issued ''k'' ''i1'' 0]\<rparr>
     \<lparr>vw_tickets = Map.empty, vw_now = 30, vw_events = [Issued ''k'' ''i1'' 0, Served ''k'' ''i1'' 30]\<rparr>"
proof -
  have "instance_vnc_websocket (\<lambda>_. 5900) 30 ''i1'' ''k'' True console_host [''k'' \<mapsto> (''i1'', 60)] = (Map.empty, Reply 101 5900)"
    by (simp add: instance_vnc_websocket_def console_instance)
  then show ?thesis
    using redeem [of "\<lambda>_. 5900" "\<lparr>vw_tickets = [''k'' \<mapsto> (''i1'', 60)], vw_now = 30, vw_events = [Issued ''k'' ''i1'' 0]\<rparr>"
      "''i1''" "''k''" True console_host _ _ "[Served ''k'' ''i1'' 30]"] by simp
qed

definition demo_served :: vnc_world where
  "demo_served = \<lparr>vw_tickets = Map.empty, vw_now = 30, vw_events = [Issued ''k'' ''i1'' 0, Served ''k'' ''i1'' 30]\<rparr>"

lemma demo_served_reachable: "vnc_reachable demo_served"
proof -
  let ?w = "\<lparr>vw_tickets = [''k'' \<mapsto> (''i1'', 60)], vw_now = 0, vw_events = [Issued ''k'' ''i1'' 0]\<rparr> :: vnc_world"
  have "vnc_step ?w (?w\<lparr>vw_now := 30\<rparr>)" using tick [of 30 ?w] by simp
  then show ?thesis
    using demo_ticket_issue demo_ticket_redeem unfolding vnc_reachable_def demo_served_def
    by (simp add: rtranclp.rtrancl_into_rtrancl)
qed

theorem ticket_single_use_witness:
  "served_tokens (vw_events demo_served) = [''k''] \<and> distinct (served_tokens (vw_events demo_served)) \<and>
   (\<exists>s0. Issued ''k'' ''i1'' s0 \<in> set (vw_events demo_served) \<and> s0 \<le> 30 \<and> 30 \<le> s0 + 60)"
  using ticket_single_use [OF demo_served_reachable] by (simp add: demo_served_def served_tokens_def)

end
