(* ===== verification/Regex.thy ===== *)
theory Regex
  imports Pytext
begin

text \<open>
  Python's regular expressions, the part that the programs of \<^verbatim>\<open>examples/llm-chat\<close> use: a syntax tree, a reader of the
  pattern text, the backtracking matcher with its order of preference and its groups, and \<^verbatim>\<open>match\<close>, \<^verbatim>\<open>fullmatch\<close>,
  \<^verbatim>\<open>search\<close>, \<^verbatim>\<open>finditer\<close>, \<^verbatim>\<open>sub\<close> and \<^verbatim>\<open>split\<close>.  Definitions can so carry the patterns of the source as they are
  written there.

  Patterns are the text of the source with \<^verbatim>\<open>%\<close> for each backslash, which a string of HOL cannot hold
  (and \<^verbatim>\<open>%%\<close> for a percent sign).

  A position is what was passed (last character first) and what is left.  Characters are one byte, read as the first
  256 code points.  Patterns whose iterations can be empty are not used by the sources under \<^verbatim>\<open>finditer\<close> and \<^verbatim>\<open>sub\<close>.
\<close>

section \<open>Syntax\<close>

datatype citem = One char | Range char char | WordC | SpaceC | DigitC | NotWordC | NotSpaceC | NotDigitC

datatype rx =
    Eps
  | Cls bool bool "citem list"       \<comment> \<open>negated, ignoring case\<close>
  | Seq rx rx
  | Alt rx rx
  | Rep rx nat "nat option" bool     \<comment> \<open>at least, at most, greedy\<close>
  | Bol bool                         \<comment> \<open>\<^verbatim>\<open>^\<close>, of each line or of the text\<close>
  | Eol bool                         \<comment> \<open>\<^verbatim>\<open>$\<close>, of each line or of the text\<close>
  | Bound bool                       \<comment> \<open>\<^verbatim>\<open>\b\<close> and \<^verbatim>\<open>\B\<close>\<close>
  | Ahead bool rx
  | Behind bool rx
  | Grp nat rx

definition newline :: char where "newline = CHR 0x0A"

text \<open>\<^verbatim>\<open>\w\<close>: letters, digits and underscore, with the letters and numerals among the code points 128--255.\<close>

definition word_char :: "char \<Rightarrow> bool" where
  "word_char c \<longleftrightarrow> (let n = (of_char c :: nat) in
     48 \<le> n \<and> n \<le> 57 \<or> 65 \<le> n \<and> n \<le> 90 \<or> n = 95 \<or> 97 \<le> n \<and> n \<le> 122 \<or>
     n \<in> {170, 178, 179, 181, 185, 186, 188, 189, 190} \<or> 192 \<le> n \<and> n \<le> 214 \<or> 216 \<le> n \<and> n \<le> 246 \<or> 248 \<le> n)"

definition swap_case :: "char \<Rightarrow> char" where
  "swap_case c = (let n = (of_char c :: nat) in
     if 65 \<le> n \<and> n \<le> 90 then char_of (n + 32) else if 97 \<le> n \<and> n \<le> 122 then char_of (n - 32) else c)"

fun in_item :: "citem \<Rightarrow> char \<Rightarrow> bool" where
  "in_item (One d) c = (c = d)"
| "in_item (Range a b) c = ((of_char a :: nat) \<le> of_char c \<and> (of_char c :: nat) \<le> of_char b)"
| "in_item WordC c = word_char c"
| "in_item SpaceC c = is_space c"
| "in_item DigitC c = is_digit c"
| "in_item NotWordC c = (\<not> word_char c)"
| "in_item NotSpaceC c = (\<not> is_space c)"
| "in_item NotDigitC c = (\<not> is_digit c)"

definition in_cls :: "bool \<Rightarrow> bool \<Rightarrow> citem list \<Rightarrow> char \<Rightarrow> bool" where
  "in_cls neg ci is c \<longleftrightarrow> (list_ex (\<lambda>i. in_item i c \<or> ci \<and> in_item i (swap_case c)) is) \<noteq> neg"

section \<open>Reading a pattern\<close>

record flags =
  fl_ignorecase :: bool
  fl_dotall :: bool
  fl_multiline :: bool

text \<open>One escape or character inside brackets.\<close>

definition hex_digit_val :: "char \<Rightarrow> nat" where
  "hex_digit_val c = (if is_digit c then digit_val c else (of_char c :: nat) mod 32 + 9)"

fun esc_item :: "char \<Rightarrow> citem" where
  "esc_item c = (if c = CHR ''w'' then WordC else if c = CHR ''s'' then SpaceC else if c = CHR ''d'' then DigitC
     else if c = CHR ''W'' then NotWordC else if c = CHR ''S'' then NotSpaceC else if c = CHR ''D'' then NotDigitC
     else if c = CHR ''n'' then One newline else if c = CHR ''t'' then One (CHR 0x09) else if c = CHR ''r'' then One (CHR 0x0D) else One c)"

definition one_item :: "string \<Rightarrow> citem \<times> string" where
  "one_item s = (case s of [] \<Rightarrow> (One newline, [])
     | c # r \<Rightarrow>
         if c \<noteq> CHR ''%'' then (One c, r)
         else (case r of [] \<Rightarrow> (One c, [])
           | d # r1 \<Rightarrow> (case r1 of
                a # b # r2 \<Rightarrow> if d = CHR ''x'' then (One (char_of (16 * hex_digit_val a + hex_digit_val b)), r2) else (esc_item d, r1)
              | _ \<Rightarrow> (esc_item d, r1))))"

text \<open>The items up to the closing bracket; the fuel is the length of the text.\<close>

fun class_items :: "nat \<Rightarrow> string \<Rightarrow> citem list \<times> string" where
  "class_items 0 s = ([], s)"
| "class_items (Suc k) s =
     (case s of [] \<Rightarrow> ([], [])
      | c # r \<Rightarrow>
          if c = CHR '']'' then ([], r)
          else
            (let (i, r1) = one_item s in
             (case (i, r1) of
                (One a, m # b # r2) \<Rightarrow>
                  if m = CHR ''-'' \<and> b \<noteq> CHR '']'' then
                    (case one_item (b # r2) of
                       (One z, r3) \<Rightarrow> apfst (Cons (Range a z)) (class_items k r3)
                     | (j, r3) \<Rightarrow> apfst (\<lambda>is. i # One m # j # is) (class_items k r3))
                  else apfst (Cons i) (class_items k r1)
              | _ \<Rightarrow> apfst (Cons i) (class_items k r1))))"

definition bracket :: "flags \<Rightarrow> string \<Rightarrow> rx \<times> string" where
  "bracket f s =
     (let (neg, s1) = (case s of c # r \<Rightarrow> if c = CHR ''^'' then (True, r) else (False, s) | [] \<Rightarrow> (False, s));
          (is, rest) = class_items (length s1) s1
      in (Cls neg (fl_ignorecase f) is, rest))"

fun number :: "nat \<Rightarrow> string \<Rightarrow> nat option \<times> string" where
  "number n [] = (None, [])"
| "number n (c # cs) =
     (if is_digit c then (case number (n * 10 + digit_val c) cs of (None, r) \<Rightarrow> (Some (n * 10 + digit_val c), r) | x \<Rightarrow> x)
      else (None, c # cs))"

text \<open>The quantifier after an atom.\<close>

definition lazy_mark :: "string \<Rightarrow> bool \<times> string" where
  "lazy_mark s = (case s of c # r \<Rightarrow> if c = CHR ''?'' then (False, r) else (True, s) | [] \<Rightarrow> (True, s))"

definition repeat :: "rx \<Rightarrow> nat \<Rightarrow> nat option \<Rightarrow> string \<Rightarrow> rx \<times> string" where
  "repeat a lo hi r = (let (g, r1) = lazy_mark r in (Rep a lo hi g, r1))"

definition quantified :: "rx \<Rightarrow> string \<Rightarrow> rx \<times> string" where
  "quantified a s =
     (case s of [] \<Rightarrow> (a, s)
      | c # r \<Rightarrow>
          if c = CHR ''*'' then repeat a 0 None r
          else if c = CHR ''+'' then repeat a 1 None r
          else if c = CHR ''?'' then repeat a 0 (Some 1) r
          else if c = CHR ''{'' then
            (case number 0 r of
               (Some lo, CHR ''}'' # r1) \<Rightarrow> repeat a lo (Some lo) r1
             | (Some lo, CHR '','' # r1) \<Rightarrow>
                 (case number 0 r1 of (hi, r2) \<Rightarrow> repeat a lo hi (tl r2))
             | _ \<Rightarrow> (a, s))
          else (a, s))"

text \<open>Escapes and special characters outside brackets and parentheses.\<close>

definition simple_atom :: "flags \<Rightarrow> string \<Rightarrow> rx \<times> string" where
  "simple_atom f s =
     (case s of [] \<Rightarrow> (Eps, [])
      | c # r \<Rightarrow>
          if c = CHR ''['' then bracket f r
          else if c = CHR ''.'' then (if fl_dotall f then Cls True False [] else Cls True False [One newline], r)
          else if c = CHR ''^'' then (Bol (fl_multiline f), r)
          else if c = CHR ''$'' then (Eol (fl_multiline f), r)
          else if c = CHR ''%'' \<and> r \<noteq> [] \<and> hd r = CHR ''b'' then (Bound True, tl r)
          else if c = CHR ''%'' \<and> r \<noteq> [] \<and> hd r = CHR ''B'' then (Bound False, tl r)
          else (case one_item s of (i, r1) \<Rightarrow> (Cls False (fl_ignorecase f) [i], r1)))"

fun read_alt :: "nat \<Rightarrow> flags \<Rightarrow> string \<Rightarrow> rx \<times> string"
  and read_seq :: "nat \<Rightarrow> flags \<Rightarrow> string \<Rightarrow> rx \<times> string"
  and read_atom :: "nat \<Rightarrow> flags \<Rightarrow> string \<Rightarrow> rx \<times> string" where
  "read_alt 0 f s = (Eps, s)"
| "read_alt (Suc k) f s =
     (case read_seq k f s of (a, r) \<Rightarrow>
        (case r of
           [] \<Rightarrow> (a, [])
         | c # r1 \<Rightarrow> if c = CHR ''|'' then (case read_alt k f r1 of (b, r2) \<Rightarrow> (Alt a b, r2)) else (a, r)))"
| "read_seq 0 f s = (Eps, s)"
| "read_seq (Suc k) f s =
     (if s = [] \<or> hd s = CHR ''|'' \<or> hd s = CHR '')'' then (Eps, s)
      else
        (case read_atom k f s of (a, r) \<Rightarrow>
          (case quantified a r of (q, r1) \<Rightarrow>
            (case read_seq k f r1 of (b, r2) \<Rightarrow> (if b = Eps then q else Seq q b, r2)))))"
| "read_atom 0 f s = (Eps, s)"
| "read_atom (Suc k) f s =
     (if startswith s ''(?:'' then (case read_alt k f (drop 3 s) of (a, r) \<Rightarrow> (a, tl r))
      else if startswith s ''(?='' then (case read_alt k f (drop 3 s) of (a, r) \<Rightarrow> (Ahead True a, tl r))
      else if startswith s ''(?!'' then (case read_alt k f (drop 3 s) of (a, r) \<Rightarrow> (Ahead False a, tl r))
      else if startswith s ''(?<='' then (case read_alt k f (drop 4 s) of (a, r) \<Rightarrow> (Behind True a, tl r))
      else if startswith s ''(?<!'' then (case read_alt k f (drop 4 s) of (a, r) \<Rightarrow> (Behind False a, tl r))
      else if startswith s ''('' then (case read_alt k f (drop 1 s) of (a, r) \<Rightarrow> (Grp 0 a, tl r))
      else simple_atom f s)"

text \<open>Groups are numbered by their opening parenthesis.\<close>

fun numbered :: "nat \<Rightarrow> rx \<Rightarrow> rx \<times> nat" where
  "numbered n (Seq a b) = (case numbered n a of (a1, n1) \<Rightarrow> (case numbered n1 b of (b1, n2) \<Rightarrow> (Seq a1 b1, n2)))"
| "numbered n (Alt a b) = (case numbered n a of (a1, n1) \<Rightarrow> (case numbered n1 b of (b1, n2) \<Rightarrow> (Alt a1 b1, n2)))"
| "numbered n (Rep a lo hi g) = (case numbered n a of (a1, n1) \<Rightarrow> (Rep a1 lo hi g, n1))"
| "numbered n (Ahead p a) = (case numbered n a of (a1, n1) \<Rightarrow> (Ahead p a1, n1))"
| "numbered n (Behind p a) = (case numbered n a of (a1, n1) \<Rightarrow> (Behind p a1, n1))"
| "numbered n (Grp _ a) = (case numbered (n + 1) a of (a1, n1) \<Rightarrow> (Grp (n + 1) a1, n1))"
| "numbered n r = (r, n)"

definition compile :: "flags \<Rightarrow> string \<Rightarrow> rx" where
  "compile f s = fst (numbered 0 (fst (read_alt (2 * length s + 2) f s)))"

definition re :: "string \<Rightarrow> rx" where
  "re s = compile \<lparr>fl_ignorecase = False, fl_dotall = False, fl_multiline = False\<rparr> s"
definition re_i :: "string \<Rightarrow> rx" where
  "re_i s = compile \<lparr>fl_ignorecase = True, fl_dotall = False, fl_multiline = False\<rparr> s"
definition re_m :: "string \<Rightarrow> rx" where
  "re_m s = compile \<lparr>fl_ignorecase = False, fl_dotall = False, fl_multiline = True\<rparr> s"
definition re_s :: "string \<Rightarrow> rx" where
  "re_s s = compile \<lparr>fl_ignorecase = False, fl_dotall = True, fl_multiline = False\<rparr> s"

section \<open>Matching\<close>

type_synonym captures = "(nat \<times> string) list"
type_synonym rx_pos = "string \<times> string \<times> captures"

text \<open>Repetition: \<open>lo\<close> times, then as often as allowed; an optional round that consumes nothing is not taken.\<close>

fun reps :: "nat \<Rightarrow> (rx_pos \<Rightarrow> rx_pos list) \<Rightarrow> nat \<Rightarrow> nat option \<Rightarrow> bool \<Rightarrow> rx_pos \<Rightarrow> rx_pos list" where
  "reps 0 m lo hi g x = (if lo = 0 then [x] else [])"
| "reps (Suc k) m lo hi g x =
     (if lo > 0 then concat (map (reps k m (lo - 1) (map_option (\<lambda>h. h - 1) hi) g) (m x))
      else if hi = Some 0 then [x]
      else
        (let taken = concat (map (\<lambda>y. if fst (snd y) = fst (snd x) then [] else reps k m 0 (map_option (\<lambda>h. h - 1) hi) g y) (m x))
         in if g then taken @ [x] else x # taken))"

definition at_word :: "string \<Rightarrow> bool" where
  "at_word s = (case s of [] \<Rightarrow> False | c # _ \<Rightarrow> word_char c)"

definition at_newline :: "string \<Rightarrow> bool" where
  "at_newline s = (case s of [] \<Rightarrow> False | c # _ \<Rightarrow> c = newline)"

primrec rx_run :: "rx \<Rightarrow> rx_pos \<Rightarrow> rx_pos list" where
  "rx_run Eps x = [x]"
| "rx_run (Cls neg ci is) x =
     (case fst (snd x) of [] \<Rightarrow> [] | c # cs \<Rightarrow> if in_cls neg ci is c then [(c # fst x, cs, snd (snd x))] else [])"
| "rx_run (Seq a b) x = concat (map (rx_run b) (rx_run a x))"
| "rx_run (Alt a b) x = rx_run a x @ rx_run b x"
| "rx_run (Rep a lo hi g) x = reps (lo + length (fst (snd x)) + 1) (rx_run a) lo hi g x"
| "rx_run (Bol multi) x = (if fst x = [] \<or> multi \<and> at_newline (fst x) then [x] else [])"
| "rx_run (Eol multi) x =
     (if fst (snd x) = [] \<or> fst (snd x) = [newline] \<or> multi \<and> at_newline (fst (snd x)) then [x] else [])"
| "rx_run (Bound b) x = (if (at_word (fst x) \<noteq> at_word (fst (snd x))) = b then [x] else [])"
| "rx_run (Ahead b a) x = (if (rx_run a x \<noteq> []) = b then [x] else [])"
| "rx_run (Behind b a) x =
     (if list_ex (\<lambda>k. list_ex (\<lambda>y. fst y = fst x) (rx_run a (drop k (fst x), rev (take k (fst x)) @ fst (snd x), snd (snd x))))
           [0..<length (fst x) + 1] = b
      then [x] else [])"
| "rx_run (Grp n a) x = map (\<lambda>y. (fst y, fst (snd y), (n, rev (take (length (fst y) - length (fst x)) (fst y))) # snd (snd y))) (rx_run a x)"

text \<open>A match: the text before it, its own, the text after it, and the groups.\<close>

record rx_match =
  m_before :: string
  m_text :: string
  m_after :: string
  m_groups :: captures

definition group :: "rx_match \<Rightarrow> nat \<Rightarrow> string option" where
  "group m n = (if n = 0 then Some (m_text m) else map_of (m_groups m) n)"

text \<open>\<^verbatim>\<open>m.group(n) or ""\<close>.\<close>

definition group_text :: "rx_match \<Rightarrow> nat \<Rightarrow> string" where
  "group_text m n = (case group m n of None \<Rightarrow> [] | Some t \<Rightarrow> t)"

definition match_of :: "string \<Rightarrow> rx_pos \<Rightarrow> rx_match" where
  "match_of pre y = \<lparr>m_before = rev pre, m_text = rev (take (length (fst y) - length pre) (fst y)),
     m_after = fst (snd y), m_groups = snd (snd y)\<rparr>"

definition match_at :: "rx \<Rightarrow> string \<Rightarrow> string \<Rightarrow> rx_match option" where
  "match_at r pre post = (case rx_run r (pre, post, []) of [] \<Rightarrow> None | y # _ \<Rightarrow> Some (match_of pre y))"

definition re_match :: "rx \<Rightarrow> string \<Rightarrow> rx_match option" where
  "re_match r s = match_at r [] s"

definition re_fullmatch :: "rx \<Rightarrow> string \<Rightarrow> rx_match option" where
  "re_fullmatch r s = map_option (match_of []) (find (\<lambda>y. fst (snd y) = []) (rx_run r ([], s, [])))"

fun search_from :: "rx \<Rightarrow> string \<Rightarrow> string \<Rightarrow> rx_match option" where
  "search_from r pre post =
     (case match_at r pre post of
        Some m \<Rightarrow> Some m
      | None \<Rightarrow> (case post of [] \<Rightarrow> None | c # cs \<Rightarrow> search_from r (c # pre) cs))"

declare search_from.simps [simp del]

definition re_search :: "rx \<Rightarrow> string \<Rightarrow> rx_match option" where
  "re_search r s = search_from r [] s"

definition matches :: "rx \<Rightarrow> string \<Rightarrow> bool" where "matches r s \<longleftrightarrow> re_match r s \<noteq> None"
definition full_matches :: "rx \<Rightarrow> string \<Rightarrow> bool" where "full_matches r s \<longleftrightarrow> re_fullmatch r s \<noteq> None"
definition found_in :: "rx \<Rightarrow> string \<Rightarrow> bool" where "found_in r s \<longleftrightarrow> re_search r s \<noteq> None"

text \<open>\<^verbatim>\<open>finditer\<close>: after a match the search goes on behind it (one character on, if it was empty).\<close>

fun find_iter :: "nat \<Rightarrow> rx \<Rightarrow> string \<Rightarrow> string \<Rightarrow> rx_match list" where
  "find_iter 0 r pre post = []"
| "find_iter (Suc k) r pre post =
     (case search_from r pre post of
        None \<Rightarrow> []
      | Some m \<Rightarrow>
          m # (if m_text m \<noteq> [] then find_iter k r (rev (m_before m @ m_text m)) (m_after m)
               else (case m_after m of [] \<Rightarrow> [] | c # cs \<Rightarrow> find_iter k r (c # rev (m_before m)) cs)))"

definition re_finditer :: "rx \<Rightarrow> string \<Rightarrow> rx_match list" where
  "re_finditer r s = find_iter (length s + 1) r [] s"

definition re_sub :: "rx \<Rightarrow> (rx_match \<Rightarrow> string) \<Rightarrow> string \<Rightarrow> string" where
  "re_sub r f s =
     (case foldl (\<lambda>(out, n) m. (out @ drop n (m_before m) @ f m, length (m_before m) + length (m_text m))) ([], 0) (re_finditer r s) of
        (out, n) \<Rightarrow> out @ drop n s)"

definition re_split :: "rx \<Rightarrow> string \<Rightarrow> string list" where
  "re_split r s =
     (case foldl (\<lambda>(out, n) m. (out @ [drop n (m_before m)], length (m_before m) + length (m_text m))) ([], 0) (re_finditer r s) of
        (out, n) \<Rightarrow> out @ [drop n s])"

text \<open>\<^verbatim>\<open>re.escape\<close>, as the pattern it stands for.\<close>

fun lit :: "string \<Rightarrow> rx" where
  "lit [] = Eps"
| "lit (c # cs) = Seq (Cls False False [One c]) (lit cs)"


section \<open>What a match consumes\<close>

definition consumes :: "rx_pos \<Rightarrow> rx_pos \<Rightarrow> string \<Rightarrow> bool" where
  "consumes x y w \<longleftrightarrow> fst (snd x) = w @ fst (snd y) \<and> fst y = rev w @ fst x"

lemma consumes_refl: "consumes x x []"
  by (simp add: consumes_def)

lemma consumes_trans: "consumes x y v \<Longrightarrow> consumes y z w \<Longrightarrow> consumes x z (v @ w)"
  by (simp add: consumes_def)

text \<open>The characters that a pattern can consume.\<close>

primrec only_chars :: "(char \<Rightarrow> bool) \<Rightarrow> rx \<Rightarrow> bool" where
  "only_chars P Eps = True"
| "only_chars P (Cls neg ci is) = (\<forall>c. in_cls neg ci is c \<longrightarrow> P c)"
| "only_chars P (Seq a b) = (only_chars P a \<and> only_chars P b)"
| "only_chars P (Alt a b) = (only_chars P a \<and> only_chars P b)"
| "only_chars P (Rep a lo hi g) = only_chars P a"
| "only_chars P (Bol m) = True"
| "only_chars P (Eol m) = True"
| "only_chars P (Bound b) = True"
| "only_chars P (Ahead b a) = True"
| "only_chars P (Behind b a) = True"
| "only_chars P (Grp n a) = only_chars P a"

lemma reps_consumes:
  "(\<And>x y. y \<in> set (m x) \<Longrightarrow> \<exists>w. consumes x y w \<and> list_all P w) \<Longrightarrow>
   y \<in> set (reps k m lo hi g x) \<Longrightarrow> \<exists>w. consumes x y w \<and> list_all P w"
proof (induction k m lo hi g x rule: reps.induct)
  case (1 m lo hi g x)
  then show ?case by (auto simp: consumes_def split: if_splits)
next
  case (2 k m lo hi g x)
  show ?case
  proof (cases "y = x")
    case True
    then show ?thesis by (auto simp: consumes_def)
  next
    case False
    then obtain z where z: "z \<in> set (m x)" "\<exists>w. consumes z y w \<and> list_all P w"
      using 2 by (cases "lo > 0"; cases "hi = Some 0"; cases g) (auto simp: Let_def split: if_splits)
    obtain v where "consumes x z v" "list_all P v" using 2(3) [OF z(1)] by blast
    moreover obtain w where "consumes z y w" "list_all P w" using z(2) by blast
    ultimately show ?thesis using consumes_trans by (intro exI [of _ "v @ w"]) auto
  qed
qed

lemma ms_consumes: "only_chars P r \<Longrightarrow> y \<in> set (rx_run r x) \<Longrightarrow> \<exists>w. consumes x y w \<and> list_all P w"
proof (induction r arbitrary: x y)
  case (Cls neg ci its)
  then show ?case by (auto simp: consumes_def split: list.splits if_splits)
next
  case (Seq a b)
  then obtain z where z: "z \<in> set (rx_run a x)" "y \<in> set (rx_run b z)" by auto
  obtain v w where "consumes x z v" "list_all P v" "consumes z y w" "list_all P w"
    using Seq.IH(1) [OF _ z(1)] Seq.IH(2) [OF _ z(2)] Seq.prems(1) by auto
  then show ?case using consumes_trans by (metis list_all_append)
next
  case (Rep a lo hi g)
  then show ?case using reps_consumes [of "rx_run a" P] by (metis rx_run.simps(5) only_chars.simps(5))
next
  case (Grp n a)
  then obtain z where "z \<in> set (rx_run a x)" "fst y = fst z" "fst (snd y) = fst (snd z)" by auto
  then show ?case using Grp.IH [of z x] Grp.prems(1) by (auto simp: consumes_def)
qed (auto simp: consumes_def split: if_splits)

lemma within_any [simp]: "only_chars (\<lambda>_. True) r"
  by (induction r) simp_all

lemma ms_shorter: "y \<in> set (rx_run r x) \<Longrightarrow> length (fst (snd y)) \<le> length (fst (snd x))"
  using ms_consumes [of "\<lambda>_. True" r y x] by (auto simp: consumes_def)

lemma ms_Seq: "y \<in> set (rx_run (Seq a b) x) \<longleftrightarrow> (\<exists>z \<in> set (rx_run a x). y \<in> set (rx_run b z))"
  by simp

lemma full_matches_iff: "full_matches r s \<longleftrightarrow> (\<exists>y \<in> set (rx_run r ([], s, [])). fst (snd y) = [])"
  by (force simp: full_matches_def re_fullmatch_def find_None_iff)

lemma full_matches_within: "full_matches r s \<Longrightarrow> only_chars P r \<Longrightarrow> list_all P s"
proof -
  assume "full_matches r s" "only_chars P r"
  then obtain y where "y \<in> set (rx_run r ([], s, []))" "fst (snd y) = []"
    by (auto simp: full_matches_iff)
  then show ?thesis using ms_consumes [of P r y] \<open>only_chars P r\<close> by (fastforce simp: consumes_def)
qed

lemma matches_iff: "matches r s \<longleftrightarrow> rx_run r ([], s, []) \<noteq> []"
  by (simp add: matches_def re_match_def match_at_def split: list.split)

text \<open>A pattern that ends in \<^verbatim>\<open>$\<close> matches the whole text, but for a newline at its end.\<close>

lemma matches_anchored:
  assumes "matches r s" "\<And>y. y \<in> set (rx_run r ([], s, [])) \<Longrightarrow> fst (snd y) = [] \<or> fst (snd y) = [newline]" "only_chars P r"
  shows "\<exists>w. list_all P w \<and> (s = w \<or> s = w @ [newline])"
proof -
  obtain y where y: "y \<in> set (rx_run r ([], s, []))" using assms(1) matches_iff [of r s] by (cases "rx_run r ([], s, [])") auto
  then obtain w where "consumes ([], s, []) y w" "list_all P w" using ms_consumes assms(3) by blast
  then show ?thesis using assms(2) [OF y] by (auto simp: consumes_def)
qed

end
