(* ===== verification/Shell.thy ===== *)
theory Shell
  imports Regex
begin

text \<open>
  The shell as the programs of \<^verbatim>\<open>examples/llm-chat\<close> use it: \<^verbatim>\<open>shlex.quote\<close> and \<^verbatim>\<open>shlex.split\<close> of Python's library, and
  how a POSIX shell reads a command line.  The reading tells the characters that act (separators, operators,
  expansions, patterns) from literal text, so that a theorem can say that a text put into a command
  stays literal.
\<close>

section \<open>\<^verbatim>\<open>shlex\<close>\<close>

text \<open>The characters that \<^verbatim>\<open>shlex.quote\<close> leaves as they are.\<close>

definition safe_char :: "char \<Rightarrow> bool" where
  "safe_char c \<longleftrightarrow> (let n = (of_char c :: nat) in
     48 \<le> n \<and> n \<le> 57 \<or> 65 \<le> n \<and> n \<le> 90 \<or> 97 \<le> n \<and> n \<le> 122 \<or> c \<in> set ''_@%+=:,./-'')"

definition apostrophe :: char where "apostrophe = CHR 0x27"
definition backslash :: char where "backslash = CHR 0x5C"
definition dquote :: char where "dquote = CHR 0x22"

text \<open>An apostrophe inside a quoted text: the quotation ends, a quoted apostrophe, and it begins again.\<close>

definition quoted_char :: "char \<Rightarrow> string" where
  "quoted_char c = (if c = apostrophe then [apostrophe, dquote, apostrophe, dquote, apostrophe] else [c])"

definition shlex_quote :: "string \<Rightarrow> string" where
  "shlex_quote s =
     (if s = [] then [apostrophe, apostrophe]
      else if list_all safe_char s then s
      else [apostrophe] @ concat (map quoted_char s) @ [apostrophe])"

datatype quoting = Plain | InSingle | InDouble

definition shlex_space :: "char \<Rightarrow> bool" where
  "shlex_space c \<longleftrightarrow> c \<in> {CHR '' '', CHR 0x09, CHR 0x0D, newline}"

text \<open>\<^verbatim>\<open>shlex.split\<close>, \<open>None\<close> its \<^verbatim>\<open>ValueError\<close>: the word so far is \<open>None\<close> between words.\<close>

definition put :: "string option \<Rightarrow> string \<Rightarrow> string option" where
  "put p w = Some ((case p of None \<Rightarrow> [] | Some v \<Rightarrow> v) @ w)"

definition flush :: "'a option \<Rightarrow> ('a \<Rightarrow> 'b) \<Rightarrow> 'b list" where
  "flush p f = (case p of None \<Rightarrow> [] | Some w \<Rightarrow> [f w])"

fun shlex_words :: "quoting \<Rightarrow> string option \<Rightarrow> string \<Rightarrow> string list option" where
  "shlex_words Plain p [] = Some (flush p id)"
| "shlex_words q p [] = None"
| "shlex_words Plain p (c # cs) =
     (if shlex_space c then map_option (append (flush p id)) (shlex_words Plain None cs)
      else if c = apostrophe then shlex_words InSingle (put p []) cs
      else if c = dquote then shlex_words InDouble (put p []) cs
      else if c = backslash then (case cs of [] \<Rightarrow> None | d # ds \<Rightarrow> shlex_words Plain (put p [d]) ds)
      else shlex_words Plain (put p [c]) cs)"
| "shlex_words InSingle p (c # cs) =
     (if c = apostrophe then shlex_words Plain p cs else shlex_words InSingle (put p [c]) cs)"
| "shlex_words InDouble p (c # cs) =
     (if c = dquote then shlex_words Plain p cs
      else if c = backslash then
        (case cs of [] \<Rightarrow> None
         | d # ds \<Rightarrow> shlex_words InDouble (put p (if d = dquote \<or> d = backslash then [d] else [c, d])) ds)
      else shlex_words InDouble (put p [c]) cs)"

definition shlex_split :: "string \<Rightarrow> string list option" where
  "shlex_split s = shlex_words Plain None s"

section \<open>How the shell reads a line\<close>

datatype shtok = Lit string | Act char

definition acts_plain :: "char \<Rightarrow> bool" where
  "acts_plain c \<longleftrightarrow> c \<in> set '' ;&|<>()$`*?[]#~!{}^'' \<or> c = CHR 0x09 \<or> c = newline"

definition acts_quoted :: "char \<Rightarrow> bool" where
  "acts_quoted c \<longleftrightarrow> c \<in> set ''$`''"

text \<open>Literal text (quoted or not) and the characters that act, in order; \<open>None\<close> when a quotation does not end.\<close>

fun sh_read :: "quoting \<Rightarrow> string option \<Rightarrow> string \<Rightarrow> shtok list option" where
  "sh_read Plain p [] = Some (flush p Lit)"
| "sh_read q p [] = None"
| "sh_read Plain p (c # cs) =
     (if c = apostrophe then sh_read InSingle (put p []) cs
      else if c = dquote then sh_read InDouble (put p []) cs
      else if c = backslash then
        (case cs of [] \<Rightarrow> Some (flush (put p [c]) Lit)
         | d # ds \<Rightarrow> if d = newline then sh_read Plain p ds else sh_read Plain (put p [d]) ds)
      else if acts_plain c then map_option (append (flush p Lit @ [Act c])) (sh_read Plain None cs)
      else sh_read Plain (put p [c]) cs)"
| "sh_read InSingle p (c # cs) =
     (if c = apostrophe then sh_read Plain p cs else sh_read InSingle (put p [c]) cs)"
| "sh_read InDouble p (c # cs) =
     (if c = dquote then sh_read Plain p cs
      else if c = backslash then
        (case cs of [] \<Rightarrow> None
         | d # ds \<Rightarrow>
             if d = newline then sh_read InDouble p ds
             else sh_read InDouble (put p (if d \<in> {dquote, backslash} \<or> acts_quoted d then [d] else [c, d])) ds)
      else if acts_quoted c then map_option (append (flush p Lit @ [Act c])) (sh_read InDouble None cs)
      else sh_read InDouble (put p [c]) cs)"

definition sh_parse :: "string \<Rightarrow> shtok list option" where
  "sh_parse s = sh_read Plain None s"

text \<open>The shape of a line: where it acts, and where literal text is, whatever it says.\<close>

fun erase :: "shtok \<Rightarrow> shtok" where
  "erase (Lit s) = Lit []"
| "erase (Act c) = Act c"

definition shape :: "string \<Rightarrow> shtok list option" where
  "shape s = map_option (map erase) (sh_parse s)"

section \<open>Quoted text is literal\<close>

definition inert :: "char \<Rightarrow> bool" where
  "inert c \<longleftrightarrow> \<not> acts_plain c \<and> c \<noteq> apostrophe \<and> c \<noteq> dquote \<and> c \<noteq> backslash"

lemma put_put [simp]: "put (put p v) w = put p (v @ w)"
  by (simp add: put_def)

lemma flush_simps [simp]: "flush None f = []" "flush (Some w) f = [f w]" "flush (put p w) f \<noteq> []"
  by (simp_all add: flush_def put_def)

lemma safe_inert: "safe_char c \<Longrightarrow> inert c"
  unfolding safe_char_def inert_def acts_plain_def apostrophe_def dquote_def backslash_def newline_def Let_def by auto

lemma read_inert: "list_all inert w \<Longrightarrow> w \<noteq> [] \<Longrightarrow> sh_read Plain p (w @ s) = sh_read Plain (put p w) s"
proof (induction w arbitrary: p)
  case (Cons c w)
  then show ?case by (cases "w = []") (auto simp: inert_def)
qed simp

lemma read_single:
  "apostrophe \<notin> set w \<Longrightarrow> sh_read InSingle (put p v) (w @ apostrophe # s) = sh_read Plain (put p (v @ w)) s"
  by (induction w arbitrary: v) (auto split: if_splits)

lemma quote_chars:
  "sh_read InSingle (put p v) (concat (map quoted_char w) @ [apostrophe] @ s) = sh_read Plain (put p (v @ w)) s"
proof (induction w arbitrary: v)
  case (Cons c w)
  show ?case
  proof (cases "c = apostrophe")
    case True
    have q: "quoted_char c = [apostrophe, dquote, apostrophe, dquote, apostrophe]" using True by (simp add: quoted_char_def)
    have "dquote \<noteq> apostrophe" "apostrophe \<noteq> backslash" "dquote \<noteq> backslash" "\<not> acts_quoted apostrophe"
      by (simp_all add: apostrophe_def backslash_def acts_quoted_def dquote_def)
    then show ?thesis unfolding list.map concat.simps q using Cons.IH [of "v @ [c]"] True by simp
  next
    case False
    then have q: "quoted_char c = [c]" by (simp add: quoted_char_def)
    show ?thesis unfolding list.map concat.simps q using Cons.IH [of "v @ [c]"] False by simp
  qed
qed simp

text \<open>Whatever text is quoted, the shell reads it as that text, part of one literal word.\<close>

lemma read_quote: "sh_read Plain p (shlex_quote v @ s) = sh_read Plain (put p v) s"
proof (cases "list_all safe_char v")
  case True
  then have "list_all inert v" using safe_inert by (auto simp: list_all_iff)
  then show ?thesis using True read_inert [of v p s] by (cases "v = []") (simp_all add: shlex_quote_def put_def)
next
  case False
  then show ?thesis using quote_chars [of p "[]" v s] by (auto simp: shlex_quote_def)
qed

lemma read_act: "acts_plain c \<Longrightarrow> sh_read Plain p (c # s) = map_option (append (flush p Lit @ [Act c])) (sh_read Plain None s)"
  by (auto simp: acts_plain_def apostrophe_def dquote_def backslash_def newline_def)

end
