(* ===== verification/Advice_Setup.thy ===== *)
theory Advice_Setup
  imports Json Shell Compute
begin

text \<open>
  The setup stage of \<^verbatim>\<open>examples/llm-chat/files/advice_runner.py\<close>: a model reads a question and its answer and says what
  they presume; the lab validates that reading against a fixed menu (\<open>plan_setup\<close>), carries it out on a
  disposable machine (\<open>apply_setup\<close>) and fills the placeholders of the answer.

  The machine is a function from the commands sent so far to what the last one returned, so that every behaviour of it
  is covered; the log of commands is the state.  \<open>rep\<close> is Python's \<^verbatim>\<open>str\<close> of a float, list or object.  \<open>None\<close> is an
  exception.  What is dropped is kept as a reason, its text is left out.
\<close>

section \<open>The machine\<close>

datatype vm = Root | Prober

type_synonym vm_command = "vm \<times> string \<times> nat"
type_synonym vm_reply = "int option \<times> string"
type_synonym vm_log = "vm_command list"
type_synonym vm_world = "vm_log \<Rightarrow> vm_reply"

text \<open>\<^verbatim>\<open>_exec\<close>: the line that the login shell gets, and one command with its reply.\<close>

definition sq :: "string \<Rightarrow> string" where "sq s = [apostrophe] @ s @ [apostrophe]"
definition dq :: "string \<Rightarrow> string" where "dq s = [dquote] @ s @ [dquote]"

definition exec_line :: "string \<Rightarrow> nat \<Rightarrow> string" where
  "exec_line command timeout_s =
     ''timeout --kill-after=10 '' @ show_nat timeout_s @ '' bash -c '' @ shlex_quote command @ '' </dev/null 2>&1''"

definition lab_exec :: "vm_world \<Rightarrow> vm \<Rightarrow> string \<Rightarrow> nat \<Rightarrow> vm_log \<Rightarrow> vm_reply \<times> vm_log" where
  "lab_exec w m command timeout_s h = (let h' = h @ [(m, command, timeout_s)] in (w h', h'))"

definition exec_timed_out :: "vm_reply \<Rightarrow> bool" where
  "exec_timed_out r \<longleftrightarrow> fst r \<in> {Some 124, Some 137}"

section \<open>Names\<close>

definition LAB_USER :: string where "LAB_USER = ''labuser''"
definition LAB_GROUP :: string where "LAB_GROUP = ''labgroup''"
definition LAB_DIR :: string where "LAB_DIR = ''/srv/lab''"
definition STUDENT_HOME :: string where "STUDENT_HOME = ''/home/student''"
definition PUBLIC_DOMAIN_STANDIN :: string where "PUBLIC_DOMAIN_STANDIN = ''lab.example''"
definition PACKAGE_STANDIN :: string where "PACKAGE_STANDIN = ''tree''"
definition SERVICE_STANDIN :: string where "SERVICE_STANDIN = ''labapp''"

definition SETUP_ACTIONS :: "string list" where
  "SETUP_ACTIONS = [''user'', ''group'', ''package'', ''service'', ''dir'', ''file'']"

definition PLACEHOLDER_KINDS :: "string list" where
  "PLACEHOLDER_KINDS = [''user'', ''group'', ''this_machine_ip'', ''other_machine_ip'', ''uuid'', ''pid'', ''service'',
     ''package'', ''path'', ''domain'']"

definition NAME_OK :: rx where "NAME_OK = re ''^[a-z_][a-z0-9_.+-]{0,62}$''"
definition PATH_OK :: rx where "PATH_OK = re ''^/(?:[%w.@+-]+/)*[%w.@+-]+/?$''"
definition PATH_NEVER :: rx where
  "PATH_NEVER = re ''^/(?:proc|sys|dev|boot|run|usr|bin|sbin|lib%w*|snap)(?:/|$)|^/etc/?$|^/root/?$|/%.%.''"

definition PLACEHOLDER_SHAPE :: rx where
  "PLACEHOLDER_SHAPE = re_i (''^[<$%[{]|your|_here%b|^[A-Z][A-Z0-9]*_[A-Z0-9_]+$|^/path/to/|^(?:a%.b%.c%.d|x%.x%.x%.x|1%.2%.3%.4)$|'' @
     ''(?:^|[_-])(?:name|ip|addr|address|id|path|dir|file|pid|uuid|user|host|hostname|domain|server)$|'' @
     ''^(?:user|username|hostname|server|ip|ipaddress|ip_address|domain|example%.com|uuid)$'')"

definition placeholder_shaped :: "string \<Rightarrow> bool" where
  "placeholder_shaped s \<longleftrightarrow> found_in PLACEHOLDER_SHAPE s"

section \<open>What the answer itself makes\<close>

definition USERADD_ARG_OPTS :: "string list" where
  "USERADD_ARG_OPTS = [''-s'', ''--shell'', ''-d'', ''--home'', ''--home-dir'', ''-g'', ''--gid'', ''-G'', ''--groups'', ''-c'',
     ''--comment'', ''--gecos'', ''-u'', ''--uid'', ''-e'', ''--expiredate'', ''-k'', ''--skel'', ''-p'',
     ''--password'', ''--ingroup'', ''-f'', ''--inactive'']"

fun skip_options :: "string list \<Rightarrow> bool \<Rightarrow> string list \<Rightarrow> string list" where
  "skip_options arg_opts skip [] = []"
| "skip_options arg_opts skip (w # ws) =
     (if skip then skip_options arg_opts False ws
      else if w \<in> set arg_opts then skip_options arg_opts True ws
      else if \<not> startswith w ''-'' then w # skip_options arg_opts False ws
      else skip_options arg_opts False ws)"

definition plain_args :: "string \<Rightarrow> string list \<Rightarrow> string list" where
  "plain_args text arg_opts =
     skip_options arg_opts False (case shlex_split text of None \<Rightarrow> py_split text | Some ws \<Rightarrow> ws)"

record made =
  mk_user :: "string list"
  mk_group :: "string list"
  mk_package :: "string list"
  mk_path :: "string list"
  mk_member :: "string list"

definition useradd_rx :: rx where "useradd_rx = re (''%b(useradd|adduser)%b([^%n;&|]*)'')"

definition no_options :: "string \<Rightarrow> string list" where
  "no_options s = filter (\<lambda>w. \<not> startswith w ''-'') (py_split s)"

definition creates :: "string \<Rightarrow> made" where
  "creates answer =
     (let adds = map (\<lambda>m. (group_text m 1, plain_args (group_text m 2) USERADD_ARG_OPTS)) (re_finditer useradd_rx answer);
          joins = (\<lambda>a. fst a = ''adduser'' \<and> length (snd a) = 2) in
      \<lparr>mk_user = map (\<lambda>a. last (snd a)) (filter (\<lambda>a. \<not> joins a \<and> snd a \<noteq> []) adds),
       mk_group = concat (map (\<lambda>m. no_options (group_text m 1)) (re_finditer (re ''%b(?:groupadd|addgroup)%b([^%n;&|]*)'') answer)),
       mk_package = concat (map (\<lambda>m. no_options (group_text m 1))
         (re_finditer (re ''%b(?:apt-get|apt|snap|dnf|yum)%s+(?:-%S+%s+)*install%b([^%n;&|]*)'') answer)),
       mk_path =
         concat (map (\<lambda>m. map (\<lambda>w. rstrip_chars ''/'' (if startswith w ''~/'' then ''/home/student/'' @ drop 2 w else w))
             (filter (\<lambda>w. startswith w ''/'' \<or> startswith w ''~/'') (py_split (group_text m 1))))
           (re_finditer (re ''%b(?:mkdir|touch|install%s+-d)%b([^%n;&|]*)'') answer)) @
         map (\<lambda>m. rstrip_chars ''/'' (group_text m 1)) (re_finditer (re ''(?:>>?|%btee(?:%s+-a)?)%s+(/[%w./@+-]+)'') answer),
       mk_member =
         map (\<lambda>a. snd a ! 0 @ '':'' @ snd a ! 1) (filter joins adds) @
         concat (map (\<lambda>m. map (\<lambda>g. group_text m 2 @ '':'' @ g) (split_on (CHR '','') (group_text m 1)))
           (re_finditer (re ''%busermod%s+[^%n;&|]*-a?G%s+(%S+)%s+(%S+)'') answer)) @
         map (\<lambda>m. group_text m 1 @ '':'' @ group_text m 2) (re_finditer (re ''%bgpasswd%s+-a%s+(%S+)%s+(%S+)'') answer)\<rparr>)"

definition made_of :: "made \<Rightarrow> string \<Rightarrow> string list" where
  "made_of m a = (if a = ''user'' then mk_user m else if a = ''group'' then mk_group m
     else if a = ''package'' then mk_package m else [])"

definition asked_to_create :: "string \<Rightarrow> string \<Rightarrow> bool" where
  "asked_to_create question name \<longleftrightarrow>
     (let q = py_lower question; n = lit (py_lower name) in
      found_in (Seq (re (''%b(?:create|add|set up|setup)%s+(?:a%s+|an%s+)?(?:new%s+)?'' @
        ''(?:user|group|account|directory|folder|file)?%s*(?:called%s+|named%s+)?['' @ [apostrophe, dquote] @ '']?'')) (Seq n (re ''%b''))) q \<or>
      found_in (Seq (re ''%binstall%s+(?:and%s+%w+%s+)?(?:the%s+)?'') (Seq n (re ''%b''))) q)"

section \<open>Validating the reading\<close>

record setup_action =
  sa_action :: string
  sa_name :: string               \<comment> \<open>the name, or the path of a \<open>dir\<close> or \<open>file\<close>\<close>
  sa_members :: "string list"
  sa_running :: bool
  sa_owner :: "string option"

datatype dropped = NotAnAction jval | UnsafeName string string | AnswerCreates string string | QuestionAsks string string
  | NotAPlaceholder string

definition is_place :: "string \<Rightarrow> bool" where "is_place a \<longleftrightarrow> a = ''dir'' \<or> a = ''file''"

definition base_name :: "string \<Rightarrow> string" where
  "base_name name = after_last (CHR ''/'') (rstrip_chars ''/'' name)"

text \<open>The answer uses a file by a relative name only, so it lives where the answer's steps run.\<close>

definition used_relatively :: "string \<Rightarrow> string \<Rightarrow> bool" where
  "used_relatively base answer \<longleftrightarrow>
     found_in (Seq (re ''(?<![%w/.~-])(?:%./)?'') (Seq (lit base) (re ''(?![%w-])''))) answer \<and>
     \<not> found_in (Seq (re ''/'') (Seq (lit base) (re ''(?![%w-])''))) (py_replace (''./'' @ base) [] answer)"

text \<open>The name the lab uses, and the owner it takes over with it.\<close>

definition lab_name :: "string \<Rightarrow> string \<Rightarrow> string \<Rightarrow> string option \<Rightarrow> string \<times> string option" where
  "lab_name answer a name owner =
     (let name1 = (if a = ''user'' \<and> placeholder_shaped name then LAB_USER else name);
          name2 = (if is_place a \<and> startswith name1 ''/path/to/'' then LAB_DIR @ ''/'' @ base_name name1 else name1);
          base = base_name name2;
          (name3, owner3) =
            (if is_place a \<and> \<not> startswith name2 (STUDENT_HOME @ ''/'') \<and> base \<noteq> [] \<and> used_relatively base answer
             then (STUDENT_HOME @ ''/'' @ base, Some ''student'') else (name2, owner));
          name4 = (if a = ''group'' \<and> placeholder_shaped name3 then LAB_GROUP else name3)
      in (name4, owner3))"

definition member_names :: "(jval \<Rightarrow> string) \<Rightarrow> made \<Rightarrow> string \<Rightarrow> jval list \<Rightarrow> string list" where
  "member_names rep md name vs =
     take 5 (filter (\<lambda>m. m @ '':'' @ name \<notin> set (mk_member md))
       (filter (matches NAME_OK) (map (\<lambda>m. if placeholder_shaped (py_str rep m) then LAB_USER else py_str rep m) vs)))"

definition safe_name :: "string \<Rightarrow> string \<Rightarrow> bool" where
  "safe_name a name \<longleftrightarrow> (if is_place a then matches PATH_OK name \<and> \<not> found_in PATH_NEVER name else matches NAME_OK name)"

definition owner_text :: "(jval \<Rightarrow> string) \<Rightarrow> jdict \<Rightarrow> string option" where
  "owner_text rep item = (if jtruthy (jget item ''owner'') then Some (py_str rep (jget item ''owner'')) else None)"

definition setup_item ::
    "(jval \<Rightarrow> string) \<Rightarrow> made \<Rightarrow> string \<Rightarrow> string \<Rightarrow> jval \<Rightarrow> (dropped + setup_action) option" where
  "setup_item rep md question answer v =
     (case v of
        JObj item \<Rightarrow>
          (case jget item ''action'' of
             JStr a \<Rightarrow>
               if a \<notin> set SETUP_ACTIONS then Some (Inl (NotAnAction v))
               else
                 (let name = py_strip (or_text rep (jget item (if is_place a then ''path'' else ''name''))) in
                  if \<not> safe_name a name then Some (Inl (UnsafeName a name))
                  else if name \<in> set (made_of md a) \<or> is_place a \<and> rstrip_chars ''/'' name \<in> set (mk_path md)
                  then Some (Inl (AnswerCreates a name))
                  else if asked_to_create question (after_last (CHR ''/'') name) then Some (Inl (QuestionAsks a name))
                  else
                    (let (lname, owner) = lab_name answer a name (owner_text rep item) in
                     map_option
                       (\<lambda>vs. Inr \<lparr>sa_action = a,
                          sa_name = (if a \<noteq> ''dir'' then rstrip_chars ''/'' lname else lname),
                          sa_members = (if a = ''group'' then member_names rep md lname vs else []),
                          sa_running = (a \<in> {''package'', ''service''} \<and> jtruthy (jget_default item ''running'' (JBool (a = ''service'')))),
                          sa_owner = (case owner of Some u \<Rightarrow> if is_place a \<and> matches NAME_OK u then Some u else None | None \<Rightarrow> None)\<rparr>)
                       (if a = ''group'' then iterated (jget item ''members'') else Some [])))
           | _ \<Rightarrow> Some (Inl (NotAnAction v)))
      | _ \<Rightarrow> Some (Inl (NotAnAction v)))"

record placeholder =
  ph_token :: string
  ph_kind :: string

text \<open>A placeholder: \<open>None\<close> when it is passed over without a word.\<close>

definition placeholder_item :: "(jval \<Rightarrow> string) \<Rightarrow> string \<Rightarrow> jval \<Rightarrow> (dropped + placeholder) option" where
  "placeholder_item rep answer v =
     (case v of
        JObj item \<Rightarrow>
          (let token = py_strip (or_text rep (jget item ''token'')) in
           (case jget item ''kind'' of
              JStr kind \<Rightarrow>
                if kind \<notin> set PLACEHOLDER_KINDS \<or> length token < 3 \<or> \<not> py_in token answer then None
                else
                  (let host_slot = endswith kind ''machine_ip'' \<and>
                         found_in (Seq (re ''@'') (Seq (lit token) (re ''(?![%w.-])''))) answer in
                   if \<not> host_slot \<and> \<not> placeholder_shaped (strip_chars ''<>{}[]$'' token) \<and> \<not> placeholder_shaped token
                   then Some (Inl (NotAPlaceholder token))
                   else Some (Inr \<lparr>ph_token = token, ph_kind = kind\<rparr>))
            | _ \<Rightarrow> None))
      | _ \<Rightarrow> None)"

definition plan_setup ::
    "(jval \<Rightarrow> string) \<Rightarrow> jdict \<Rightarrow> string \<Rightarrow> string \<Rightarrow> (setup_action list \<times> placeholder list \<times> dropped list) option" where
  "plan_setup rep raw question answer =
     (case first_items 12 (jget raw ''setup'') of
        None \<Rightarrow> None
      | Some items \<Rightarrow>
          (case all_some (map (setup_item rep (creates answer) question answer) items) of
             None \<Rightarrow> None
           | Some outs \<Rightarrow>
               (case first_items 12 (jget raw ''placeholders'') of
                  None \<Rightarrow> None
                | Some ps \<Rightarrow>
                    (let phs = List.map_filter (placeholder_item rep answer) ps
                     in Some (inrs outs, inrs phs, inls outs @ inls phs)))))"

section \<open>Carrying it out\<close>

text \<open>The commands, with the names put into them.\<close>

definition user_cmd :: "string \<Rightarrow> string \<Rightarrow> string" where
  "user_cmd pw n = ''id '' @ n @ '' >/dev/null 2>&1 || useradd -m -s /bin/bash '' @ n @ '' && echo '' @ sq (n @ '':'' @ pw) @ '' | chpasswd''"

definition member_cmd :: "string \<Rightarrow> string \<Rightarrow> string" where
  "member_cmd n m = ''; id '' @ m @ '' >/dev/null 2>&1 || useradd -m -s /bin/bash '' @ m @ ''; usermod -aG '' @ n @ '' '' @ m"

definition group_cmd :: "string \<Rightarrow> string list \<Rightarrow> string" where
  "group_cmd n members = ''getent group '' @ n @ '' >/dev/null || groupadd '' @ n @ concat (map (member_cmd n) members)"

definition install_cmd :: "string \<Rightarrow> string" where
  "install_cmd n = ''DEBIAN_FRONTEND=noninteractive apt-get install -y -q '' @ n @ '' >/tmp/setup-'' @ n @ ''.log 2>&1''"

definition enable_cmd :: "string \<Rightarrow> string" where
  "enable_cmd n = ''systemctl enable --now '' @ n @ '' >/dev/null 2>&1 || true''"

definition unit_probe_cmd :: "string \<Rightarrow> string" where
  "unit_probe_cmd n = ''systemctl cat '' @ n @ '' >/dev/null 2>&1''"

definition STANDIN_UNIT :: string where
  "STANDIN_UNIT = join_lines [''[Unit]'', ''Description=Stand-in service created by the lab'', ''[Service]'', ''ExecStart=/bin/sleep infinity'',
     ''[Install]'', ''WantedBy=multi-user.target'', []]"

definition unit_cmd :: "string \<Rightarrow> string" where
  "unit_cmd n = ''printf %s '' @ shlex_quote STANDIN_UNIT @ '' > /etc/systemd/system/'' @ n @ ''.service && systemctl daemon-reload''"

definition place_cmd :: "string \<Rightarrow> string \<Rightarrow> string option \<Rightarrow> string" where
  "place_cmd a path owner =
     (let q = shlex_quote path in
      (if a = ''dir'' then ''mkdir -p '' @ q
       else ''mkdir -p $(dirname '' @ q @ '') && { test -e '' @ q @ '' || echo '' @ sq ''stand-in file created by the lab'' @ '' > '' @ q @ ''; }'') @
      (case owner of None \<Rightarrow> [] | Some u \<Rightarrow> '' && chown -R '' @ u @ '': '' @ q))"

definition code_of :: "vm_reply \<times> vm_log \<Rightarrow> int option" where "code_of x = fst (fst x)"

definition when_ok :: "int option \<Rightarrow> string \<Rightarrow> string list" where
  "when_ok code what = (if code = Some 0 then [what] else [])"

definition apply_one :: "vm_world \<Rightarrow> string \<Rightarrow> setup_action \<Rightarrow> vm_log \<Rightarrow> vm_log \<times> string list" where
  "apply_one w pw item h =
     (let a = sa_action item; n = sa_name item in
      if a = ''user'' then
        (let r = lab_exec w Root (user_cmd pw n) 30 h in (snd r, when_ok (code_of r) (''user '' @ n)))
      else if a = ''group'' then
        (let r = lab_exec w Root (group_cmd n (sa_members item)) 30 h in
         (snd r, when_ok (code_of r) (''group '' @ n @
            (if sa_members item = [] then [] else '' with '' @ join '', '' (sa_members item) @ '' in it''))))
      else if a = ''package'' then
        (let r = lab_exec w Root (install_cmd n) 300 h in
         if code_of r = Some 0 then
           ((if sa_running item then snd (lab_exec w Root (enable_cmd n) 60 (snd r)) else snd r),
            [n @ '' installed'' @ (if sa_running item then '' and running'' else [])])
         else (snd r, []))
      else if a = ''service'' then
        (let r = lab_exec w Root (unit_probe_cmd n) 15 h;
             h1 = (if code_of r \<noteq> Some 0 then snd (lab_exec w Root (unit_cmd n) 30 (snd r)) else snd r);
             h2 = (if sa_running item then snd (lab_exec w Root (enable_cmd n) 60 h1) else h1)
         in (h2, [''service '' @ n @ (if code_of r \<noteq> Some 0 then '' (a stand-in)'' else []) @
              (if sa_running item then '' running'' else [])]))
      else
        (let r = lab_exec w Root (place_cmd a n (sa_owner item)) 30 h in
         (snd r, when_ok (code_of r) ((if a = ''dir'' then ''directory '' else ''file '') @ n))))"

definition setup_order :: "string \<Rightarrow> nat" where
  "setup_order a = (if a = ''package'' then 0 else if a = ''user'' then 1 else if a = ''group'' then 2
     else if a = ''service'' then 3 else if a = ''dir'' then 4 else 5)"

fun apply_all :: "vm_world \<Rightarrow> string \<Rightarrow> setup_action list \<Rightarrow> vm_log \<Rightarrow> vm_log \<times> string list" where
  "apply_all w pw [] h = (h, [])"
| "apply_all w pw (a # as) h =
     (case apply_one w pw a h of (h1, d1) \<Rightarrow> apsnd (append d1) (apply_all w pw as h1))"

definition apply_setup :: "vm_world \<Rightarrow> string \<Rightarrow> setup_action list \<Rightarrow> vm_log \<Rightarrow> vm_log \<times> string list" where
  "apply_setup w pw setup h = apply_all w pw (sort_key (\<lambda>i. setup_order (sa_action i)) setup) h"

section \<open>Placeholders\<close>

text \<open>\<^verbatim>\<open>_answer_device\<close>: the device that the answer formats, else the one it asks \<^verbatim>\<open>blkid\<close> about.\<close>

definition device_rx :: rx where
  "device_rx = re (''(/dev/(?:sd[a-z]%d*|vd[a-z]%d*|nvme%d+n%d+(?:p%d+)?|md%d+|mapper/[%w-]+|loop%d+))%b'')"

definition device_line :: "rx \<Rightarrow> string \<Rightarrow> string option" where
  "device_line verb line =
     (if found_in verb line then map_option (\<lambda>m. group_text m 1) (re_search device_rx line) else None)"

definition answer_device :: "string \<Rightarrow> string" where
  "answer_device answer =
     (case List.map_filter (device_line (re ''%b(?:mkfs(?:%.%w+)?|mke2fs|mkswap)%b'')) (splitlines answer) @
           List.map_filter (device_line (re ''%b(?:blkid)%b'')) (splitlines answer) of
        [] \<Rightarrow> [] | d # _ \<Rightarrow> d)"

text \<open>The text that stands for the UUID of a device until the device exists.\<close>

definition UUID_OF :: "string \<Rightarrow> string" where "UUID_OF dev = ''@@LAB_UUID_OF:'' @ dev @ ''@@''"

definition uuid_probe :: "string \<Rightarrow> string" where
  "uuid_probe dev = ''blkid -s UUID -o value '' @ shlex_quote dev"

fun resolve_in :: "vm_world \<Rightarrow> rx_match list \<Rightarrow> vm_log \<Rightarrow> string list \<times> vm_log" where
  "resolve_in w [] h = ([], h)"
| "resolve_in w (m # mts) h =
     (let (r, h1) = lab_exec w Root (uuid_probe (group_text m 1)) 15 h;
          t = (if py_strip (snd r) = [] then m_text m else py_strip (snd r))
      in apfst (Cons t) (resolve_in w mts h1))"

text \<open>\<^verbatim>\<open>_resolve_uuids\<close>: the text between the matches, with each match replaced.\<close>

fun replace_matches :: "rx_match list \<Rightarrow> string list \<Rightarrow> nat \<Rightarrow> string \<Rightarrow> string" where
  "replace_matches (m # mts) (t # ts) n s =
     drop n (m_before m) @ t @ replace_matches mts ts (length (m_before m) + length (m_text m)) s"
| "replace_matches _ _ n s = drop n s"

definition resolve_uuids :: "vm_world \<Rightarrow> string \<Rightarrow> vm_log \<Rightarrow> string \<times> vm_log" where
  "resolve_uuids w text h =
     (let mts = re_finditer (re ''@@LAB_UUID_OF:(/dev/[%w/.-]+)@@'') text; (ts, h1) = resolve_in w mts h
      in (replace_matches mts ts 0 text, h1))"

definition user_fact_cmd :: "string \<Rightarrow> string" where
  "user_fact_cmd pw = ''id '' @ LAB_USER @ '' >/dev/null 2>&1 || useradd -m -s /bin/bash '' @ LAB_USER @ ''; echo '' @ sq (LAB_USER @ '':'' @ pw) @ '' | chpasswd''"
definition group_fact_cmd :: string where
  "group_fact_cmd = ''getent group '' @ LAB_GROUP @ '' >/dev/null || groupadd '' @ LAB_GROUP"
definition path_fact_cmd :: string where
  "path_fact_cmd = ''mkdir -p '' @ LAB_DIR @ '' && echo '' @ sq ''stand-in file created by the lab'' @ '' > '' @ LAB_DIR @ ''/example.txt''"
definition pid_fact_cmd :: string where
  "pid_fact_cmd = ''su student -c '' @ sq ''nohup sleep 3600 >/dev/null 2>&1 & echo $!''"
definition disk_fact_cmd :: string where
  "disk_fact_cmd = ''test -e /dev/sdb1 || { echo '' @ sq '',,L'' @ '' | sfdisk -q /dev/sdb; udevadm settle; }; '' @
     ''blkid -s TYPE -o value /dev/sdb1 | grep -q . || mkfs.ext4 -q /dev/sdb1''"

type_synonym facts = "(string \<times> string) list"

definition exec_if :: "bool \<Rightarrow> vm_world \<Rightarrow> string \<Rightarrow> nat \<Rightarrow> vm_log \<Rightarrow> string \<times> vm_log" where
  "exec_if b w cmd t h = (if b then (let r = lab_exec w Root cmd t h in (snd (fst r), snd r)) else ([], h))"

definition STANDIN_SERVICE :: setup_action where
  "STANDIN_SERVICE = \<lparr>sa_action = ''service'', sa_name = SERVICE_STANDIN, sa_members = [], sa_running = True, sa_owner = None\<rparr>"

definition lab_facts :: "vm_world \<Rightarrow> string \<Rightarrow> string list \<Rightarrow> string \<Rightarrow> string \<Rightarrow> string \<Rightarrow> vm_log \<Rightarrow> facts \<times> vm_log" where
  "lab_facts w pw kinds target_ip other_ip answer h =
     (let base = [(''user'', LAB_USER), (''group'', LAB_GROUP), (''this_machine_ip'', target_ip), (''domain'', PUBLIC_DOMAIN_STANDIN),
            (''package'', PACKAGE_STANDIN), (''service'', SERVICE_STANDIN), (''path'', LAB_DIR @ ''/example.txt'')] @
            (if other_ip = [] then [] else [(''other_machine_ip'', other_ip)]);
          (_, h1) = exec_if (''user'' \<in> set kinds) w (user_fact_cmd pw) 30 h;
          (_, h2) = exec_if (''group'' \<in> set kinds) w group_fact_cmd 15 h1;
          (_, h3) = exec_if (''path'' \<in> set kinds) w path_fact_cmd 15 h2;
          h4 = (if ''service'' \<in> set kinds then fst (apply_setup w pw [STANDIN_SERVICE] h3) else h3);
          (pid, h5) = exec_if (''pid'' \<in> set kinds) w pid_fact_cmd 15 h4;
          own_disk = (''uuid'' \<in> set kinds \<and> answer_device answer = []);
          (_, h6) = exec_if own_disk w disk_fact_cmd 90 h5;
          (uuid, h7) = exec_if own_disk w ''blkid -s UUID -o value /dev/sdb1'' 15 h6
      in (base @ (if py_isdigit (py_strip pid) then [(''pid'', py_strip pid)] else []) @
          (if ''uuid'' \<in> set kinds \<and> answer_device answer \<noteq> [] then [(''uuid'', UUID_OF (answer_device answer))]
           else if full_matches (re ''[0-9a-fA-F-]{8,}'') (py_strip uuid) then [(''uuid'', py_strip uuid)] else []), h7))"

definition token_rx :: "string \<Rightarrow> rx" where
  "token_rx token = Seq (re ''(?<![%w/-])'') (Seq (lit token) (re ''(?![%w-])''))"

definition fact :: "facts \<Rightarrow> placeholder \<Rightarrow> string" where
  "fact facts p =
     (let by_kind = (case map_of facts (ph_kind p) of None \<Rightarrow> [] | Some x \<Rightarrow> x) in
      case map_of facts (ph_token p) of None \<Rightarrow> by_kind | Some v \<Rightarrow> if v \<noteq> [] then v else by_kind)"

definition kind_words :: "string \<Rightarrow> string" where
  "kind_words k = map (\<lambda>c. if c = CHR ''_'' then CHR '' '' else c) k"

fun fill_all :: "facts \<Rightarrow> placeholder list \<Rightarrow> string \<Rightarrow> string \<times> string list \<times> string list" where
  "fill_all facts [] answer = (answer, [], [])"
| "fill_all facts (p # ps) answer =
     (let value = fact facts p in
      if value = [] then apsnd (apsnd (Cons (ph_token p @ '' ('' @ kind_words (ph_kind p) @ '')''))) (fill_all facts ps answer)
      else
        (let filled = re_sub (token_rx (ph_token p)) (\<lambda>_. value) answer in
         if filled = answer then fill_all facts ps answer
         else apsnd (apfst (Cons (ph_token p @ '' -> '' @ value @ '' ('' @ kind_words (ph_kind p) @ '')''))) (fill_all facts ps filled)))"

definition fill_placeholders :: "string \<Rightarrow> placeholder list \<Rightarrow> facts \<Rightarrow> string \<times> string list \<times> string list" where
  "fill_placeholders answer placeholders facts =
     fill_all facts (sort_key (\<lambda>p. - int (length (ph_token p))) placeholders) answer"

text \<open>\<^verbatim>\<open>_setup_stage\<close> for a reading without an error: the answer as the lab follows it.\<close>

definition path_facts :: "placeholder list \<Rightarrow> facts" where
  "path_facts ps = map (\<lambda>p. (ph_token p, LAB_DIR @ ''/'' @ base_name (ph_token p)))
     (filter (\<lambda>p. ph_kind p = ''path'' \<and> startswith (ph_token p) ''/path/to/'') ps)"

definition setup_stage ::
    "(jval \<Rightarrow> string) \<Rightarrow> vm_world \<Rightarrow> string \<Rightarrow> string \<Rightarrow> jdict \<Rightarrow> string \<Rightarrow> string \<Rightarrow> string \<Rightarrow> vm_log \<Rightarrow>
     (string \<times> string list \<times> vm_log) option" where
  "setup_stage rep w pw target_ip presumed question answer other_ip h =
     map_option
       (\<lambda>(setup, placeholders, _).
          (let (h1, doings) = (if setup = [] then (h, []) else apply_setup w pw setup h);
               (facts, h2) = (if placeholders = [] then ([], h1)
                  else lab_facts w pw (map ph_kind placeholders) target_ip other_ip answer h1);
               (filled, _, _) = fill_placeholders answer placeholders (rev (path_facts placeholders) @ facts)
           in (filled, doings, h2)))
       (plan_setup rep presumed question answer)"

end
