(* ===== verification/Shell_Shape.thy ===== *)
theory Shell_Shape
  imports Shell
begin

text \<open>
  The shape of a command line as the run of a small machine, one character at a time, so that the shape of a
  line put together from fixed pieces and inserted text follows from the mode the machine is in at each
  insertion.
\<close>

section \<open>The machine\<close>

record sh_state =
  ss_quoting :: quoting
  ss_pending :: bool
  ss_escaped :: bool
  ss_out :: "shtok list"

definition sh_start :: sh_state where
  "sh_start = \<lparr>ss_quoting = Plain, ss_pending = False, ss_escaped = False, ss_out = []\<rparr>"

definition emit_act :: "char \<Rightarrow> sh_state \<Rightarrow> sh_state" where
  "emit_act c s = s\<lparr>ss_out := ss_out s @ (if ss_pending s then [Lit []] else []) @ [Act c], ss_pending := False\<rparr>"

fun sh_step :: "char \<Rightarrow> sh_state \<Rightarrow> sh_state" where
  "sh_step c s =
     (if ss_escaped s then (if c = newline then s\<lparr>ss_escaped := False\<rparr> else s\<lparr>ss_escaped := False, ss_pending := True\<rparr>)
      else
        (case ss_quoting s of
           Plain \<Rightarrow>
             if c = apostrophe then s\<lparr>ss_quoting := InSingle, ss_pending := True\<rparr>
             else if c = dquote then s\<lparr>ss_quoting := InDouble, ss_pending := True\<rparr>
             else if c = backslash then s\<lparr>ss_escaped := True\<rparr>
             else if acts_plain c then emit_act c s
             else s\<lparr>ss_pending := True\<rparr>
         | InSingle \<Rightarrow> if c = apostrophe then s\<lparr>ss_quoting := Plain\<rparr> else s\<lparr>ss_pending := True\<rparr>
         | InDouble \<Rightarrow>
             if c = dquote then s\<lparr>ss_quoting := Plain\<rparr>
             else if c = backslash then s\<lparr>ss_escaped := True\<rparr>
             else if acts_quoted c then emit_act c s
             else s\<lparr>ss_pending := True\<rparr>))"

declare sh_step.simps [simp del]

definition sh_finish :: "sh_state \<Rightarrow> shtok list option" where
  "sh_finish s =
     (if ss_quoting s = Plain then Some (ss_out s @ (if ss_pending s \<or> ss_escaped s then [Lit []] else [])) else None)"

definition sh_run :: "string \<Rightarrow> sh_state \<Rightarrow> sh_state" where
  "sh_run w s = fold sh_step w s"

lemma sh_run_simps [simp]:
  "sh_run [] s = s" "sh_run (c # w) s = sh_run w (sh_step c s)" "sh_run (v @ w) s = sh_run w (sh_run v s)"
  by (simp_all add: sh_run_def)

lemma put_None [simp]: "put p w \<noteq> None"
  by (simp add: put_def)

definition state_of :: "quoting \<Rightarrow> string option \<Rightarrow> shtok list \<Rightarrow> sh_state" where
  "state_of q p out = \<lparr>ss_quoting = q, ss_pending = (p \<noteq> None), ss_escaped = False, ss_out = out\<rparr>"

lemma state_of_put: "state_of q (put p v) out = state_of q (Some []) out"
  by (simp add: state_of_def)

lemma erase_flush: "map erase (flush p Lit) = (if p \<noteq> None then [Lit []] else [])"
  by (cases p) (simp_all add: flush_def)

lemma acts_not_quotes: "\<not> acts_plain apostrophe" "\<not> acts_plain dquote" "\<not> acts_plain backslash"
  "\<not> acts_quoted apostrophe" "\<not> acts_quoted dquote" "\<not> acts_quoted backslash"
  by (simp_all add: acts_plain_def acts_quoted_def apostrophe_def dquote_def backslash_def newline_def)

lemma sh_run_read:
  "sh_finish (sh_run s (state_of q p out)) = map_option (\<lambda>ts. out @ map erase ts) (sh_read q p s)"
proof (induction q p s arbitrary: out rule: sh_read.induct)
  case (1 p)
  then show ?case by (cases p) (simp_all add: sh_finish_def state_of_def flush_def)
next
  case "2_1"
  then show ?case by (simp add: sh_finish_def state_of_def)
next
  case "2_2"
  then show ?case by (simp add: sh_finish_def state_of_def)
next
  case (3 p c cs)
  consider "c = apostrophe" | "c = dquote" "c \<noteq> apostrophe" | "c = backslash" "c \<noteq> dquote" "c \<noteq> apostrophe"
    | "c \<noteq> apostrophe" "c \<noteq> dquote" "c \<noteq> backslash" by blast
  then show ?case
  proof cases
    case 1
    then have "sh_step c (state_of Plain p out) = state_of InSingle (put p []) out"
      by (simp add: sh_step.simps state_of_def)
    then show ?thesis using 3(1) [OF 1] 1 by simp
  next
    case 2
    then have "sh_step c (state_of Plain p out) = state_of InDouble (put p []) out"
      by (simp add: sh_step.simps state_of_def)
    then show ?thesis using 3(2) 2 by simp
  next
    case e: 3
    show ?thesis
    proof (cases cs)
      case Nil
      then show ?thesis using e by (simp add: sh_step.simps state_of_def sh_finish_def erase_flush)
    next
      case (Cons d ds)
      have "sh_step d (sh_step c (state_of Plain p out)) = (if d = newline then state_of Plain p out else state_of Plain (put p [d]) out)"
        using e by (simp add: sh_step.simps state_of_def)
      then show ?thesis using 3(3,4) [OF e(3,2,1) Cons] e Cons by simp
    qed
  next
    case 4
    have "sh_step c (state_of Plain p out) =
        (if acts_plain c then state_of Plain None (out @ map erase (flush p Lit @ [Act c])) else state_of Plain (put p [c]) out)"
      using 4 by (simp add: sh_step.simps state_of_def emit_act_def erase_flush)
    then show ?thesis using 3(5,6) [OF 4] 4 by (simp add: option.map_comp comp_def)
  qed
next
  case (4 p c cs)
  have "sh_step c (state_of InSingle p out) = (if c = apostrophe then state_of Plain p out else state_of InSingle (put p [c]) out)"
    by (simp add: sh_step.simps state_of_def)
  then show ?case using 4 by simp
next
  case (5 p c cs)
  consider "c = dquote" | "c = backslash" "c \<noteq> dquote" | "c \<noteq> dquote" "c \<noteq> backslash" by blast
  then show ?case
  proof cases
    case 1
    then have "sh_step c (state_of InDouble p out) = state_of Plain p out"
      by (simp add: sh_step.simps state_of_def)
    then show ?thesis using 5(1) 1 by simp
  next
    case e: 2
    show ?thesis
    proof (cases cs)
      case Nil
      then show ?thesis using e by (simp add: sh_step.simps state_of_def sh_finish_def)
    next
      case (Cons d ds)
      have "sh_step d (sh_step c (state_of InDouble p out)) =
          (if d = newline then state_of InDouble p out
           else state_of InDouble (put p (if d \<in> {dquote, backslash} \<or> acts_quoted d then [d] else [c, d])) out)"
        using e by (simp add: sh_step.simps state_of_def)
      then show ?thesis using 5(2,3) [OF e(2,1) Cons] e Cons by simp
    qed
  next
    case 3
    have "sh_step c (state_of InDouble p out) =
        (if acts_quoted c then state_of InDouble None (out @ map erase (flush p Lit @ [Act c])) else state_of InDouble (put p [c]) out)"
      using 3 by (simp add: sh_step.simps state_of_def emit_act_def erase_flush)
    then show ?thesis using 5(4,5) [OF 3] 3 by (simp add: option.map_comp comp_def)
  qed
qed

lemma shape_run: "shape s = sh_finish (sh_run s sh_start)"
  using sh_run_read [of s Plain None "[]"] by (simp add: shape_def sh_parse_def sh_start_def state_of_def)

section \<open>Inserted text\<close>

text \<open>The machine stands outside any quotation, or inside single quotes.\<close>

definition outside :: "sh_state \<Rightarrow> bool" where
  "outside s \<longleftrightarrow> ss_quoting s = Plain \<and> \<not> ss_escaped s"
definition inside :: "sh_state \<Rightarrow> bool" where
  "inside s \<longleftrightarrow> ss_quoting s = InSingle \<and> \<not> ss_escaped s \<and> ss_pending s"

definition literal_word :: "sh_state \<Rightarrow> sh_state" where
  "literal_word s = s\<lparr>ss_pending := True\<rparr>"

lemma literal_word_outside [simp]: "outside (literal_word s) = outside s"
  by (simp add: outside_def literal_word_def)

lemma run_inert: "outside s \<Longrightarrow> list_all inert w \<Longrightarrow> w \<noteq> [] \<Longrightarrow> sh_run w s = literal_word s"
proof (induction w arbitrary: s)
  case (Cons c w)
  have step: "sh_step c s = literal_word s"
    using Cons.prems by (simp add: sh_step.simps outside_def literal_word_def inert_def)
  show ?case
  proof (cases "w = []")
    case False
    then have "sh_run w (literal_word s) = literal_word (literal_word s)" using Cons by simp
    then show ?thesis using step by (simp add: literal_word_def)
  qed (simp add: step)
qed simp

lemma run_inside: "inside s \<Longrightarrow> apostrophe \<notin> set w \<Longrightarrow> sh_run w s = s"
  by (induction w arbitrary: s) (auto simp: sh_step.simps inside_def)

lemma step_open: "outside s \<Longrightarrow> sh_step apostrophe s = s\<lparr>ss_quoting := InSingle, ss_pending := True\<rparr>"
  by (simp add: sh_step.simps outside_def)

lemma run_quoted_chars:
  assumes "inside s"
  shows "sh_run (concat (map quoted_char w)) s = s"
proof -
  have "dquote \<noteq> apostrophe" "apostrophe \<noteq> backslash" "dquote \<noteq> backslash"
    by (simp_all add: apostrophe_def backslash_def dquote_def)
  then have "sh_run (quoted_char c) s = s" for c
    using assms by (auto simp: quoted_char_def sh_step.simps inside_def acts_not_quotes)
  then show ?thesis by (induction w) simp_all
qed

lemma run_quote:
  assumes "outside s"
  shows "sh_run (shlex_quote v) s = literal_word s"
proof -
  let ?q = "s\<lparr>ss_quoting := InSingle, ss_pending := True\<rparr>"
  have q: "inside ?q" using assms by (simp add: inside_def outside_def)
  have close: "sh_step apostrophe ?q = literal_word s"
    using assms by (simp add: sh_step.simps outside_def literal_word_def)
  consider "v = []" | "v \<noteq> []" "list_all safe_char v" | "v \<noteq> []" "\<not> list_all safe_char v" by blast
  then show ?thesis
  proof cases
    case 1
    then show ?thesis using step_open [OF assms] close by (simp add: shlex_quote_def)
  next
    case 2
    then have "list_all inert v" using safe_inert by (auto simp: list_all_iff)
    then show ?thesis using run_inert [OF assms] 2 by (simp add: shlex_quote_def)
  next
    case 3
    then show ?thesis using step_open [OF assms] close run_quoted_chars [OF q] by (simp add: shlex_quote_def)
  qed
qed


text \<open>Text that has no apostrophe, in single quotes.\<close>

lemma run_sq_text: "outside s \<Longrightarrow> apostrophe \<notin> set w \<Longrightarrow> sh_run ([apostrophe] @ w @ [apostrophe]) s = literal_word s"
  using run_inside [of "s\<lparr>ss_quoting := InSingle, ss_pending := True\<rparr>" w]
  by (simp add: step_open inside_def outside_def sh_step.simps literal_word_def)

section \<open>Lines put together from pieces\<close>

text \<open>Fixed text, inserted words, inserted quoted text, and text between single quotes.\<close>

datatype piece = Fix string | Arg string | Quo string | Squ string

fun piece_text :: "piece \<Rightarrow> string" where
  "piece_text (Fix s) = s"
| "piece_text (Arg s) = s"
| "piece_text (Quo s) = shlex_quote s"
| "piece_text (Squ s) = [apostrophe] @ s @ [apostrophe]"

definition render :: "piece list \<Rightarrow> string" where
  "render ps = concat (map piece_text ps)"

fun bland :: "piece \<Rightarrow> piece" where
  "bland (Fix s) = Fix s"
| "bland (Arg s) = Arg ''x''"
| "bland (Quo s) = Quo ''x''"
| "bland (Squ s) = Squ ''x''"

text \<open>The mode after fixed text that begins outside a quotation.\<close>

fun mode_step :: "char \<Rightarrow> quoting \<times> bool \<Rightarrow> quoting \<times> bool" where
  "mode_step c (q, True) = (q, False)"
| "mode_step c (Plain, False) =
     (if c = apostrophe then (InSingle, False) else if c = dquote then (InDouble, False) else (Plain, c = backslash))"
| "mode_step c (InSingle, False) = (if c = apostrophe then Plain else InSingle, False)"
| "mode_step c (InDouble, False) = (if c = dquote then Plain else InDouble, c = backslash)"

definition closed_text :: "string \<Rightarrow> bool" where
  "closed_text s \<longleftrightarrow> fold mode_step s (Plain, False) = (Plain, False)"

definition word_ok :: "string \<Rightarrow> bool" where
  "word_ok w \<longleftrightarrow> w \<noteq> [] \<and> list_all inert w"

fun good_piece :: "piece \<Rightarrow> bool" where
  "good_piece (Fix s) = closed_text s"
| "good_piece (Arg s) = word_ok s"
| "good_piece (Quo s) = True"
| "good_piece (Squ s) = (apostrophe \<notin> set s)"

definition mode_of :: "sh_state \<Rightarrow> quoting \<times> bool" where
  "mode_of s = (ss_quoting s, ss_escaped s)"

lemma mode_of_step: "mode_of (sh_step c s) = mode_step c (mode_of s)"
proof -
  obtain q p e out where s: "s = \<lparr>ss_quoting = q, ss_pending = p, ss_escaped = e, ss_out = out\<rparr>" by (cases s)
  have "apostrophe \<noteq> backslash" "dquote \<noteq> backslash" by (simp_all add: apostrophe_def backslash_def dquote_def)
  then show ?thesis by (cases q; cases e) (auto simp: s sh_step.simps mode_of_def emit_act_def)
qed

lemma mode_of_run: "mode_of (sh_run w s) = fold mode_step w (mode_of s)"
  by (induction w arbitrary: s) (simp_all add: mode_of_step)

lemma outside_mode: "outside s \<longleftrightarrow> mode_of s = (Plain, False)"
  by (auto simp: outside_def mode_of_def)

lemma run_closed: "closed_text w \<Longrightarrow> outside s \<Longrightarrow> outside (sh_run w s)"
  by (simp add: outside_mode mode_of_run closed_text_def)

lemma run_piece: "good_piece p \<Longrightarrow> outside s \<Longrightarrow> sh_run (piece_text p) s = sh_run (piece_text (bland p)) s \<and> outside (sh_run (piece_text p) s)"
proof (cases p)
  case (Fix w)
  assume "good_piece p" "outside s"
  then show ?thesis using Fix run_closed by simp
next
  case (Arg w)
  assume "good_piece p" "outside s"
  moreover have "list_all inert ''x''" by (simp add: inert_def acts_plain_def apostrophe_def dquote_def backslash_def newline_def)
  ultimately show ?thesis using Arg run_inert [of s w] run_inert [of s "''x''"] by (simp add: word_ok_def)
next
  case (Quo w)
  assume "outside s"
  then show ?thesis using Quo run_quote [of s w] run_quote [of s "''x''"] by simp
next
  case (Squ w)
  assume "good_piece p" "outside s"
  moreover have "apostrophe \<notin> set ''x''" by (simp add: apostrophe_def)
  ultimately show ?thesis using Squ run_sq_text [of s w] run_sq_text [of s "''x''"] by simp
qed

lemma run_pieces:
  "list_all good_piece ps \<Longrightarrow> outside s \<Longrightarrow>
   sh_run (render ps) s = sh_run (render (map bland ps)) s \<and> outside (sh_run (render ps) s)"
proof (induction ps arbitrary: s)
  case (Cons p ps)
  then have p: "sh_run (piece_text p) s = sh_run (piece_text (bland p)) s" "outside (sh_run (piece_text (bland p)) s)"
    using run_piece [of p s] by auto
  then show ?case using Cons.IH [OF _ p(2)] Cons.prems by (auto simp: render_def)
qed (simp add: render_def)

lemma outside_start: "outside sh_start"
  by (simp add: outside_def sh_start_def)

text \<open>The shape does not depend on what is inserted, and every quotation is closed.\<close>

lemma shape_pieces:
  assumes "list_all good_piece ps"
  shows "shape (render ps) = shape (render (map bland ps))" "shape (render ps) \<noteq> None"
  using run_pieces [OF assms outside_start] by (auto simp: shape_run sh_finish_def outside_def)

definition same_shape :: "string \<Rightarrow> string \<Rightarrow> bool" where
  "same_shape a b \<longleftrightarrow> shape a = shape b \<and> shape a \<noteq> None"

lemma shape_same:
  assumes "list_all good_piece ps" "list_all good_piece qs" "map bland ps = map bland qs"
  shows "shape (render ps) = shape (render qs)"
  using shape_pieces(1) [OF assms(1)] shape_pieces(1) [OF assms(2)] assms(3) by simp

lemma render_simps [simp]: "render [] = []" "render (p # ps) = piece_text p @ render ps" "render (ps @ qs) = render ps @ render qs"
  by (simp_all add: render_def)

end
