(* ===== verification/Advice_Confined.thy ===== *)
theory Advice_Confined
  imports Advice_Setup Shell_Shape
begin

text \<open>
  The lab never runs what the model wrote: whatever the model says a question presumes, the commands of the setup stage
  are those of the menu, with the model's names as literal words of a fixed shape.
\<close>

section \<open>Names that pass\<close>













section \<open>What the validation lets through\<close>





section \<open>The commands of the menu\<close>















section \<open>The setup stage is confined\<close>








section \<open>A reading\<close>







text \<open>A member whose name ends in a newline passes the pattern, and the command that adds it falls apart.\<close>

lemma member_newline:
  "matches NAME_OK (''bob'' @ [newline])"
  "shape (group_cmd ''devs'' [''bob'' @ [newline]]) \<noteq> shape (group_cmd ''devs'' [''bob''])"
  by code_simp+

end
