(* ===== verification/Advice_Checks.thy ===== *)
theory Advice_Checks
  imports Advice_Setup Ipaddress
begin

text \<open>
  The goal checks of \<^verbatim>\<open>examples/llm-chat/files/advice_runner.py\<close>: what success means for a question, proposed by a model,
  validated against a menu (\<open>plan_checks\<close>), run on the machine before and after the answer (\<open>run_check\<close>) and graded
  (\<open>model_goal_checks\<close>).

  A check is its kind and its parameters.  \<open>None\<close> as the result of a planning function is an exception.
\<close>

section \<open>The menu\<close>

definition SHELL_META :: rx where "SHELL_META = re (''[;&|`$<>(){}'' @ [backslash] @ ''%n]'')"

definition READONLY_PROGRAMS :: "string list" where
  "READONLY_PROGRAMS = [''getent'', ''id'', ''groups'', ''cat'', ''grep'', ''ls'', ''stat'', ''systemctl'', ''ss'', ''sysctl'', ''findmnt'',
     ''mount'', ''swapon'', ''lsblk'', ''blkid'', ''timedatectl'', ''hostnamectl'', ''crontab'', ''ufw'', ''iptables'',
     ''nft'', ''chage'', ''passwd'', ''readlink'', ''realpath'', ''df'', ''exportfs'', ''showmount'', ''ip'',
     ''resolvectl'', ''getfacl'', ''test'', ''env'', ''printenv'', ''head'', ''tail'', ''wc'', ''file'', ''which'',
     ''dpkg'', ''apt-cache'', ''uname'', ''who'', ''last'', ''journalctl'', ''atq'', ''lsof'', ''netstat'']"

definition READONLY_SUB :: "(string \<times> string list) list" where
  "READONLY_SUB = [(''systemctl'', [''is-active'', ''is-enabled'', ''is-failed'', ''show'', ''status'', ''cat'', ''get-default'',
       ''list-timers'', ''list-units'', ''list-unit-files'']),
     (''ufw'', [''status'']), (''passwd'', [''-S'']), (''chage'', [''-l'']), (''crontab'', [''-l'']), (''iptables'', [''-S'', ''-L'']),
     (''nft'', [''list'']), (''ip'', [''addr'', ''a'', ''route'', ''r'', ''link'']), (''dpkg'', [''-l'', ''-s''])]"

definition CHECK_PARAMS :: "(string \<times> string list) list" where
  "CHECK_PARAMS =
    [(''user_exists'', [''user'']), (''user_in_group'', [''user'', ''group'']), (''user_shell'', [''user'', ''shell'']),
     (''path_exists'', [''path'']), (''path_owner'', [''path'', ''owner'']), (''path_mode'', [''path'', ''mode'']),
     (''file_contains'', [''path'', ''text'']), (''service_active'', [''unit'']), (''service_enabled'', [''unit'']),
     (''service_disabled'', [''unit'']), (''port_listening'', [''port'']), (''port_open_from_other'', [''port'']),
     (''port_closed_from_other'', [''port'']), (''default_target'', [''target'']), (''sysctl'', [''key'', ''value'']),
     (''command_output'', [''command'', ''contains'']),
     (''login_env'', [''user'', ''var'', ''contains'']), (''user_can'', [''user'', ''action'', ''path'']),
     (''user_cannot'', [''user'', ''action'', ''path'']), (''sudo_allowed'', [''user'', ''command'']),
     (''sudo_denied'', [''user'', ''command'']), (''http_from_other'', [''port'']), (''resolves'', [''name'', ''address'']),
     (''unit_runs_ok'', [''unit'']), (''sshd_effective'', [''key'', ''value'']), (''group_exists'', [''group''])]"

definition CHECK_OPTIONAL :: "string \<Rightarrow> string list" where
  "CHECK_OPTIONAL kind = (if kind = ''http_from_other'' then [''path'', ''host'', ''status'', ''contains'', ''location''] else [])"

definition CHECK_ALIASES :: "(string \<times> string) list" where
  "CHECK_ALIASES = [(''path_contains'', ''file_contains''), (''file_has'', ''file_contains''), (''contains'', ''file_contains''),
     (''service_running'', ''service_active''), (''unit_active'', ''service_active''),
     (''unit_enabled'', ''service_enabled''), (''port_reachable'', ''port_open_from_other''),
     (''group_member'', ''user_in_group''), (''in_group'', ''user_in_group'')]"

section \<open>Values\<close>

text \<open>\<^verbatim>\<open>int(s)\<close> of a text: also an error beyond 4300 digits.\<close>

definition int_of_text :: "string \<Rightarrow> int option" where
  "int_of_text s = (if length s > 4300 then None else py_int s)"

definition home_path :: "string \<Rightarrow> string" where
  "home_path v = py_replace ''~/'' ''/home/student/'' v"

definition one_line :: "string \<Rightarrow> bool" where
  "one_line v \<longleftrightarrow> 0 < length v \<and> length v \<le> 200 \<and> newline \<notin> set v"

definition readonly_command :: "string \<Rightarrow> bool" where
  "readonly_command v \<longleftrightarrow>
     (let words = py_split v in
      words \<noteq> [] \<and> \<not> found_in SHELL_META v \<and> hd words \<in> set READONLY_PROGRAMS \<and>
      (case map_of READONLY_SUB (hd words) of None \<Rightarrow> True | Some sub \<Rightarrow> length words > 1 \<and> words ! 1 \<in> set sub))"

definition check_ok_value :: "string \<Rightarrow> string \<Rightarrow> string \<Rightarrow> bool option" where
  "check_ok_value kind key v =
     (if key \<in> {''user'', ''group'', ''owner''} then Some (matches NAME_OK (hd (split_on (CHR '':'') v)))
      else if key \<in> {''path'', ''shell''} then Some (matches PATH_OK (home_path v))
      else if key = ''unit'' then Some (full_matches (re ''[%w@.:-]{1,80}'') v)
      else if key = ''port'' then
        (if \<not> py_isdigit v then Some False else map_option (\<lambda>n. 0 < n \<and> n < 65536) (int_of_text v))
      else if key = ''mode'' then Some (full_matches (re ''[0-7]{3,4}|[+]?[rwxstST-]{1,10}|sticky|setgid|setuid'') v)
      else if key = ''target'' then Some (full_matches (re ''[%w.-]+%.target'') v)
      else if key = ''key'' then Some (full_matches (re ''[%w./-]{1,100}'') v)
      else if key \<in> {''text'', ''value'', ''contains'', ''location''} then Some (one_line v)
      else if key = ''var'' then Some (full_matches (re ''[A-Za-z_][A-Za-z0-9_]{0,63}'') v)
      else if key = ''action'' then Some (v \<in> {''read'', ''write'', ''execute'', ''list''})
      else if key = ''status'' then Some (full_matches (re ''[1-5](?:%d%d|xx)'') v)
      else if key \<in> {''host'', ''name''} then Some (full_matches (re ''[A-Za-z0-9][A-Za-z0-9.-]{0,252}'') v)
      else if key = ''address'' then Some (full_matches (re ''[0-9a-fA-F:.]{2,45}'') v)
      else if key = ''command'' \<and> kind \<in> {''sudo_allowed'', ''sudo_denied''} then Some (one_line v \<and> \<not> found_in SHELL_META v)
      else if key = ''command'' then Some (readonly_command v)
      else Some False)"

section \<open>Planning\<close>

record check =
  ck_kind :: string
  ck_params :: "(string \<times> string) list"
  ck_after_reboot :: bool

definition param :: "check \<Rightarrow> string \<Rightarrow> string" where
  "param c k = (case map_of (ck_params c) k of None \<Rightarrow> [] | Some v \<Rightarrow> v)"

definition hashable :: "jval \<Rightarrow> bool" where
  "hashable v \<longleftrightarrow> (case v of JList _ \<Rightarrow> False | JObj _ \<Rightarrow> False | _ \<Rightarrow> True)"

definition alias_of :: "jval \<Rightarrow> string option" where
  "alias_of v = (case v of JStr k \<Rightarrow> map_of CHECK_ALIASES k | _ \<Rightarrow> None)"

definition unaliased :: "jdict \<Rightarrow> jdict" where
  "unaliased item =
     (case alias_of (jget item ''kind'') of
        None \<Rightarrow> item
      | Some k \<Rightarrow>
          (let item1 = jset item ''kind'' (JStr k) in
           if k = ''file_contains'' \<and> map_of item1 ''text'' = None
           then jset item1 ''text'' (if jtruthy (jget item1 ''contains'') then jget item1 ''contains''
             else if jtruthy (jget item1 ''value'') then jget item1 ''value'' else JStr [])
           else item1))"

text \<open>A leading \<^verbatim>\<open>sudo\<close> of a command is dropped.\<close>

definition unsudoed :: "jdict \<Rightarrow> jdict" where
  "unsudoed item =
     (case map_of item ''command'' of
        Some (JStr c) \<Rightarrow> if startswith c ''sudo '' then jset item ''command'' (JStr (py_strip (drop 5 c))) else item
      | _ \<Rightarrow> item)"

definition item_text :: "(jval \<Rightarrow> string) \<Rightarrow> jdict \<Rightarrow> string \<Rightarrow> string" where
  "item_text rep item k = py_strip (case map_of item k of None \<Rightarrow> [] | Some v \<Rightarrow> py_str rep v)"

definition set_param :: "string \<Rightarrow> (string \<Rightarrow> string) \<Rightarrow> (string \<times> string) list \<Rightarrow> (string \<times> string) list" where
  "set_param k f ps = map (\<lambda>(k', v). if k' = k then (k', f v) else (k', v)) ps"

definition raw_params :: "(jval \<Rightarrow> string) \<Rightarrow> jdict \<Rightarrow> string \<Rightarrow> (string \<times> string) list" where
  "raw_params rep item kind =
     map (\<lambda>k. (k, item_text rep item k)) (case map_of CHECK_PARAMS kind of None \<Rightarrow> [] | Some ks \<Rightarrow> ks) @
     List.map_filter (\<lambda>k. if item_text rep item k \<noteq> [] then Some (k, item_text rep item k) else None) (CHECK_OPTIONAL kind)"

definition params_of :: "(jval \<Rightarrow> string) \<Rightarrow> jdict \<Rightarrow> string \<Rightarrow> (string \<times> string) list" where
  "params_of rep item kind =
     (if kind = ''http_from_other'' then set_param ''path'' (\<lambda>v. if startswith v ''/'' then v else ''/'' @ v) (raw_params rep item kind)
      else raw_params rep item kind)"

text \<open>The parameters that are refused.\<close>

fun bad_params :: "string \<Rightarrow> (string \<times> string) list \<Rightarrow> string list option" where
  "bad_params kind [] = Some []"
| "bad_params kind ((k, v) # ps) =
     (if k = ''path'' then bad_params kind ps
      else
        (case check_ok_value kind k v of
           None \<Rightarrow> None
         | Some ok \<Rightarrow> map_option (append (if ok then [] else [k])) (bad_params kind ps)))"

definition bad_path :: "string \<Rightarrow> (string \<times> string) list \<Rightarrow> bool" where
  "bad_path kind ps =
     (if kind = ''http_from_other''
      then \<not> full_matches (re ''/[%w./%%~-]{0,200}'') (case map_of ps ''path'' of None \<Rightarrow> ''/'' | Some v \<Rightarrow> v)
      else (case map_of ps ''path'' of None \<Rightarrow> False | Some v \<Rightarrow> \<not> matches PATH_OK (home_path v)))"

definition lab_params :: "string \<Rightarrow> (string \<times> string) list \<Rightarrow> (string \<times> string) list" where
  "lab_params kind ps =
     set_param ''group'' (\<lambda>v. if placeholder_shaped v then LAB_GROUP else v)
       (set_param ''user'' (\<lambda>v. if placeholder_shaped v then LAB_USER else v)
         (if kind \<noteq> ''http_from_other'' then set_param ''path'' home_path ps else ps))"

datatype refusal = NotACheck jval | BadParams string "string list"

definition plan_check :: "(jval \<Rightarrow> string) \<Rightarrow> jval \<Rightarrow> (refusal + check) option" where
  "plan_check rep v =
     (case v of
        JObj item0 \<Rightarrow>
          if \<not> hashable (jget item0 ''kind'') then None
          else
            (let item = unsudoed (unaliased item0) in
             (case jget item ''kind'' of
                JStr kind \<Rightarrow>
                  if kind \<notin> fst ` set CHECK_PARAMS then Some (Inl (NotACheck (JObj item)))
                  else
                    (let ps = params_of rep item kind in
                     (case bad_params kind ps of
                        None \<Rightarrow> None
                      | Some bad \<Rightarrow>
                          if bad \<noteq> [] \<or> bad_path kind ps
                          then Some (Inl (BadParams kind (bad @ (if bad_path kind ps then [''path''] else []))))
                          else Some (Inr \<lparr>ck_kind = kind, ck_params = lab_params kind ps,
                                          ck_after_reboot = (jget item ''after_reboot'' = JBool True)\<rparr>)))
              | _ \<Rightarrow> Some (Inl (NotACheck (JObj item)))))
      | _ \<Rightarrow> Some (Inl (NotACheck v)))"

definition plan_checks :: "(jval \<Rightarrow> string) \<Rightarrow> jdict \<Rightarrow> (check list \<times> refusal list) option" where
  "plan_checks rep raw =
     (case first_items 8 (jget raw ''checks'') of
        None \<Rightarrow> None
      | Some items \<Rightarrow> map_option (\<lambda>outs. (inrs outs, inls outs)) (all_some (map (plan_check rep) items)))"

section \<open>Running a check\<close>

text \<open>The commands.\<close>

definition getent_cmd :: "string \<Rightarrow> string \<Rightarrow> string" where
  "getent_cmd db n = ''getent '' @ db @ '' '' @ shlex_quote n"
definition id_groups_cmd :: "string \<Rightarrow> string" where "id_groups_cmd u = ''id -nG '' @ shlex_quote u @ '' 2>&1''"
definition id_cmd :: "string \<Rightarrow> string" where "id_cmd u = ''id '' @ shlex_quote u"
definition shell_cmd :: "string \<Rightarrow> string" where
  "shell_cmd u = ''getent passwd '' @ shlex_quote u @ '' | cut -d: -f7''"
definition stat_cmd :: "string \<Rightarrow> string \<Rightarrow> string" where
  "stat_cmd format p = ''stat -c '' @ sq format @ '' '' @ shlex_quote p @ '' 2>&1''"
definition grep_cmd :: "string \<Rightarrow> string \<Rightarrow> string" where
  "grep_cmd text p = ''grep -nF -- '' @ shlex_quote text @ '' '' @ shlex_quote p @ '' 2>&1 | head -3''"
definition systemctl_cmd :: "string \<Rightarrow> string \<Rightarrow> string" where
  "systemctl_cmd verb unit = ''systemctl '' @ verb @ '' '' @ shlex_quote unit @ '' 2>&1''"
definition ss_cmd :: "int \<Rightarrow> string" where
  "ss_cmd port = ''ss -Hltnu '' @ sq (''sport = :'' @ show_int port)"
definition sysctl_cmd :: "string \<Rightarrow> string" where "sysctl_cmd k = ''sysctl -n '' @ shlex_quote k @ '' 2>&1''"
definition quoted_words :: "string \<Rightarrow> string" where
  "quoted_words command = join '' '' (map shlex_quote (py_split command))"
definition output_cmd :: "string \<Rightarrow> string" where "output_cmd command = quoted_words command @ '' 2>&1 | head -50''"
definition printenv_cmd :: "string \<Rightarrow> string \<Rightarrow> string" where
  "printenv_cmd u var = ''su - '' @ shlex_quote u @ '' -s /bin/bash -c '' @ sq (''printenv '' @ var) @ '' 2>&1 | tail -3''"

definition probe_script :: "string \<Rightarrow> string \<Rightarrow> string" where
  "probe_script action p =
     (let path = shlex_quote p in
      if action = ''read'' then ''if [ -d '' @ path @ '' ]; then ls '' @ path @ '' >/dev/null; else head -c1 '' @ path @ '' >/dev/null; fi''
      else if action = ''list'' then ''ls '' @ path @ '' >/dev/null''
      else if action = ''execute'' then ''if [ -d '' @ path @ '' ]; then cd '' @ path @ ''; else test -x '' @ path @ ''; fi''
      else ''if [ -d '' @ path @ '' ]; then f='' @ path @ ''/.lab-probe-$$ && touch '' @ dq ''$f'' @ '' && rm -f '' @ dq ''$f'' @
           ''; else test -w '' @ path @ ''; fi'')"

definition as_user_cmd :: "string \<Rightarrow> string \<Rightarrow> string" where
  "as_user_cmd u script = ''su -s /bin/bash '' @ shlex_quote u @ '' -c '' @ shlex_quote script @ '' 2>&1 | tail -2; exit ${PIPESTATUS[0]}''"
definition sudo_list_cmd :: "string \<Rightarrow> string \<Rightarrow> string" where
  "sudo_list_cmd u command = ''sudo -l -U '' @ shlex_quote u @ '' '' @ quoted_words command @ '' 2>&1 | tail -2''"

definition HTTP_SCRIPT :: string where
  "HTTP_SCRIPT = join_lines
     [''import http.client,sys'',
      ''c=http.client.HTTPConnection(sys.argv[1],int(sys.argv[2]),timeout=8)'',
      ''h={'' @ sq ''Host'' @ '':sys.argv[4]} if sys.argv[4] else {}'',
      ''c.request('' @ sq ''GET'' @ '',sys.argv[3],headers=h); r=c.getresponse()'',
      ''print(r.status); print(r.getheader('' @ sq ''Location'' @ '') or '' @ sq [] @ ''); print(r.read(4000).decode('' @ sq ''utf-8'' @ '','' @ sq ''replace'' @ ''))'']"

definition http_cmd :: "string \<Rightarrow> int \<Rightarrow> string \<Rightarrow> string \<Rightarrow> string" where
  "http_cmd target_ip port path host =
     ''python3 -c '' @ shlex_quote HTTP_SCRIPT @ '' '' @ target_ip @ '' '' @ show_int port @ '' '' @ shlex_quote path @ '' '' @ shlex_quote host @ '' 2>&1''"

definition start_unit_cmd :: "string \<Rightarrow> string" where
  "start_unit_cmd unit = ''systemctl reset-failed '' @ shlex_quote unit @ '' 2>/dev/null; systemctl start '' @ shlex_quote unit"
definition show_unit_cmd :: "string \<Rightarrow> string" where
  "show_unit_cmd unit = ''systemctl show -p Result -p ExecMainStatus -p ActiveState '' @ shlex_quote unit"
definition sshd_cmd :: "string \<Rightarrow> string" where
  "sshd_cmd k = ''sshd -T 2>/dev/null | grep -i '' @ sq (''^'' @ py_lower k @ '' '')"
definition port_cmd :: "string \<Rightarrow> int \<Rightarrow> string" where
  "port_cmd target_ip port = ''timeout 3 bash -c '' @ sq (''</dev/tcp/'' @ target_ip @ ''/'' @ show_int port) @ '' 2>&1; echo rc=$?''"

text \<open>\<^verbatim>\<open>sh\<close>: a command as root, its output stripped.\<close>

definition sh :: "vm_world \<Rightarrow> string \<Rightarrow> nat \<Rightarrow> vm_log \<Rightarrow> vm_reply \<times> vm_log" where
  "sh w cmd t h = (let (r, h1) = lab_exec w Root cmd t h in ((fst r, py_strip (snd r)), h1))"

type_synonym seen = "bool option \<times> string"

definition ask :: "vm_world \<Rightarrow> string \<Rightarrow> vm_log \<Rightarrow> (int option \<Rightarrow> string \<Rightarrow> seen) \<Rightarrow> seen \<times> vm_log" where
  "ask w cmd h f = (let (r, h1) = sh w cmd 20 h in (f (fst r) (snd r), h1))"

definition last_chars :: "nat \<Rightarrow> string \<Rightarrow> string" where
  "last_chars n s = drop (length s - n) s"
definition or_else :: "string \<Rightarrow> string \<Rightarrow> string" where
  "or_else s t = (if s = [] then t else s)"
definition squeeze :: "string \<Rightarrow> string" where
  "squeeze s = join '' '' (py_split s)"
definition nth_word :: "nat \<Rightarrow> string list \<Rightarrow> string" where
  "nth_word i ws = (if i < length ws then ws ! i else [])"

definition mode_seen :: "string \<Rightarrow> string \<Rightarrow> bool" where
  "mode_seen m out =
     (let octal = nth_word 0 (py_split out); sym = nth_word 1 (py_split out) in
      if m \<in> {''sticky'', ''setgid'', ''setuid''} then
        length sym = 10 \<and>
        sym ! (if m = ''sticky'' then 9 else if m = ''setgid'' then 6 else 3) \<in> set (if m = ''sticky'' then ''tT'' else ''sS'')
      else if py_isdigit m then lstrip_chars ''0'' octal = lstrip_chars ''0'' m
      else py_in (lstrip_chars ''+'' m) sym)"

definition owner_seen :: "string \<Rightarrow> string \<Rightarrow> bool" where
  "owner_seen want out \<longleftrightarrow>
     out = want \<or> hd (split_on (CHR '':'') out) = hd (split_on (CHR '':'') want) \<and> CHR '':'' \<notin> set want"

definition port_state :: "vm_world \<Rightarrow> string \<Rightarrow> int \<Rightarrow> vm_log \<Rightarrow> string \<times> vm_log" where
  "port_state w target_ip port h =
     (let (r, h1) = lab_exec w Prober (port_cmd target_ip port) 10 h;
          code = (case re_search (re ''rc=(%d+)'') (snd r) of None \<Rightarrow> Some 1 | Some m \<Rightarrow> int_of_text (group_text m 1)) in
      ((if code = Some 0 then ''open'' else if py_in ''refused'' (py_lower (snd r)) then ''refused'' else ''filtered''), h1))"

text \<open>The first two lines of a text and the rest.\<close>

definition three_parts :: "string \<Rightarrow> string \<times> string \<times> string" where
  "three_parts s = (let (a, r) = partition_at newline s; (b, c) = partition_at newline r in (a, b, c))"

definition http_seen :: "check \<Rightarrow> int option \<Rightarrow> string \<Rightarrow> seen" where
  "http_seen c code out =
     (let (l0, l1, body) = three_parts out; status = py_strip l0; location = py_strip l1; want = param c ''status'' in
      if code \<noteq> Some 0 \<or> \<not> py_isdigit status then (Some False, last_chars 160 (py_strip out))
      else
        (Some ((want = [] \<or> status = want \<or> endswith want ''xx'' \<and> hd status = hd want) \<and>
               (param c ''contains'' = [] \<or> py_in (param c ''contains'') body) \<and>
               (param c ''location'' = [] \<or> py_in (param c ''location'') location)),
         ''HTTP '' @ status @ (if location = [] then [] else '', Location: '' @ location)))"

text \<open>The properties that \<^verbatim>\<open>systemctl show\<close> prints, one \<^verbatim>\<open>key=value\<close> a line, the last one of a key.\<close>

definition unit_props :: "string \<Rightarrow> (string \<times> string) list" where
  "unit_props out = rev (map (partition_at (CHR ''='')) (filter (\<lambda>l. CHR ''='' \<in> set l) (splitlines out)))"

definition service_unit :: "string \<Rightarrow> string" where
  "service_unit u =
     (let unit = (if CHR ''.'' \<in> set u then u else u @ ''.service'')
      in if endswith unit ''.timer'' then take (length unit - 6) unit @ ''.service'' else unit)"

definition int_param :: "check \<Rightarrow> string \<Rightarrow> int" where
  "int_param c k = (case int_of_text (param c k) of None \<Rightarrow> 0 | Some n \<Rightarrow> n)"

definition user_check :: "vm_world \<Rightarrow> check \<Rightarrow> vm_log \<Rightarrow> seen \<times> vm_log" where
  "user_check w c h =
     (let k = ck_kind c; u = param c ''user'' in
      if k = ''login_env'' then ask w (printenv_cmd u (param c ''var'')) h
        (\<lambda>code out. (Some (py_in (param c ''contains'') out), last_chars 160 out))
      else
        ask w (as_user_cmd u (probe_script (param c ''action'') (param c ''path''))) h
          (\<lambda>code out. (Some ((code = Some 0) = (k = ''user_can'')),
             or_else (last_chars 160 out) (if code = Some 0 then ''allowed'' else ''refused''))))"

definition run_check :: "vm_world \<Rightarrow> string \<Rightarrow> bool \<Rightarrow> check \<Rightarrow> vm_log \<Rightarrow> seen \<times> vm_log" where
  "run_check w target_ip prober c h =
     (let k = ck_kind c in
      if k = ''user_exists'' then ask w (getent_cmd ''passwd'' (param c ''user'')) h (\<lambda>code out. (Some (code = Some 0), take 120 out))
      else if k = ''group_exists'' then ask w (getent_cmd ''group'' (param c ''group'')) h (\<lambda>code out. (Some (code = Some 0), take 120 out))
      else if k = ''user_in_group'' then ask w (id_groups_cmd (param c ''user'')) h
        (\<lambda>code out. (Some (param c ''group'' \<in> set (py_split out)), take 120 out))
      else if k = ''user_shell'' then ask w (shell_cmd (param c ''user'')) h
        (\<lambda>code out. (Some (out \<in> {param c ''shell'', after_last (CHR ''/'') (param c ''shell'')} \<or> endswith out (''/'' @ param c ''shell'')), out))
      else if k = ''path_exists'' then ask w (stat_cmd ''%F'' (param c ''path'')) h (\<lambda>code out. (Some (code = Some 0), take 120 out))
      else if k = ''path_owner'' then ask w (stat_cmd ''%U:%G'' (param c ''path'')) h (\<lambda>code out. (Some (owner_seen (param c ''owner'') out), out))
      else if k = ''path_mode'' then ask w (stat_cmd ''%a %A'' (param c ''path'')) h (\<lambda>code out. (Some (mode_seen (param c ''mode'') out), out))
      else if k = ''file_contains'' then ask w (grep_cmd (param c ''text'') (param c ''path'')) h
        (\<lambda>code out. (Some (code = Some 0 \<and> out \<noteq> []), take 160 out))
      else if k = ''service_active'' then ask w (systemctl_cmd ''is-active'' (param c ''unit'')) h
        (\<lambda>code out. (Some (take 1 (py_split out) = [''active'']), out))
      else if k = ''service_enabled'' then ask w (systemctl_cmd ''is-enabled'' (param c ''unit'')) h
        (\<lambda>code out. (Some (take 1 (py_split out) = [''enabled'']), out))
      else if k = ''service_disabled'' then ask w (systemctl_cmd ''is-enabled'' (param c ''unit'')) h
        (\<lambda>code out. (Some (take 1 (py_split out) \<in> {[''disabled''], [''masked'']}), out))
      else if k = ''port_listening'' then ask w (ss_cmd (int_param c ''port'')) h (\<lambda>code out. (Some (out \<noteq> []), take 160 out))
      else if k \<in> {''port_open_from_other'', ''port_closed_from_other''} then
        (if \<not> prober then ((None, ''no second machine in this run''), h)
         else (let (st, h1) = port_state w target_ip (int_param c ''port'') h in
               ((Some ((st \<noteq> ''filtered'') = (k = ''port_open_from_other'')), ''connection '' @ st), h1)))
      else if k = ''default_target'' then ask w ''systemctl get-default'' h (\<lambda>code out. (Some (out = param c ''target''), out))
      else if k = ''sysctl'' then ask w (sysctl_cmd (param c ''key'')) h
        (\<lambda>code out. (Some (squeeze out = squeeze (param c ''value'')), take 120 out))
      else if k = ''command_output'' then
        (let (r, h1) = sh w (output_cmd (param c ''command'')) 30 h in
         ((Some (py_in (param c ''contains'') (snd r)), last_chars 160 (snd r)), h1))
      else if k \<in> {''login_env'', ''user_can'', ''user_cannot''} then
        (let (r, h1) = sh w (id_cmd (param c ''user'')) 20 h in
         if fst r \<noteq> Some 0 then ((None, ''user '' @ param c ''user'' @ '' doesn't exist here''), h1) else user_check w c h1)
      else if k \<in> {''sudo_allowed'', ''sudo_denied''} then ask w (sudo_list_cmd (param c ''user'') (param c ''command'')) h
        (\<lambda>code out. (Some ((code = Some 0 \<and> out \<noteq> []) = (k = ''sudo_allowed'')),
           or_else (last_chars 160 out) (if code = Some 0 \<and> out \<noteq> [] then ''allowed'' else ''not allowed'')))
      else if k = ''http_from_other'' then
        (if \<not> prober then ((None, ''no second machine in this run''), h)
         else (let (r, h1) = lab_exec w Prober (http_cmd target_ip (int_param c ''port'') (or_else (param c ''path'') ''/'') (param c ''host'')) 20 h in
               (http_seen c (fst r) (snd r), h1)))
      else if k = ''resolves'' then ask w (getent_cmd ''hosts'' (param c ''name'')) h
        (\<lambda>code out. (Some (param c ''address'' \<in> set (py_split out)), take 120 out))
      else if k = ''unit_runs_ok'' then
        (let unit = service_unit (param c ''unit''); (_, h1) = sh w (start_unit_cmd unit) 120 h in
         ask w (show_unit_cmd unit) h1
           (\<lambda>code out. (Some (map_of (unit_props out) ''Result'' = Some ''success'' \<and>
                (case map_of (unit_props out) ''ExecMainStatus'' of None \<Rightarrow> True | Some s \<Rightarrow> s = ''0'') \<and>
                map_of (unit_props out) ''ActiveState'' \<in> {Some ''active'', Some ''inactive''}), take 160 (squeeze out))))
      else if k = ''sshd_effective'' then ask w (sshd_cmd (param c ''key'')) h
        (\<lambda>code out. (Some (py_lower (join '' '' (tl (py_split out))) = py_lower (squeeze (param c ''value''))), take 120 out))
      else ((None, ''unknown check''), h))"

section \<open>Grading\<close>

definition CLIENT_Q :: rx where
  "CLIENT_Q = re_i ''%b(?:connect|log ?in|ssh|copy|mount)%b[^?]*%b(?:to|into|on|from)%b[^?]*%b(?:server|machine|host)%b''"
definition REACH_Q :: rx where
  "REACH_Q = re_i (''%b(?:another|other|remote)%s+(?:machine|server|host|computer|client)s?%b|%bremote(?:ly)?%s+'' @
     ''(?:connections?|access)%b|%bfrom%s+(?:outside|elsewhere|the network)%b'')"
definition EXISTENCE_CHECKS :: "string list" where
  "EXISTENCE_CHECKS = [''user_exists'', ''group_exists'', ''path_exists'', ''service_active'', ''service_enabled'', ''port_listening'']"
definition EXISTENCE_Q :: rx where
  "EXISTENCE_Q = re_i ''^%s*how (?:do|can) i%s+(?:install|enable|start|create|add|set up|run)%b''"
definition SECOND_GOAL :: rx where
  "SECOND_GOAL = re_i (''%b(?:and|so (?:that|it)|then|to)%b%s+(?:%w+%s+){0,3}?(?:make|change|set|configure|serve|enable|start|mount|activate|'' @
     ''allow|block|limit|listen|redirect|use|point|protect|restrict|reach|keep|check|run)%b'')"
definition QUALIFIER :: rx where "QUALIFIER = re_i ''%b(?:with(?:out)?|who|which|that|whose|so)%b''"
definition PERM_Q :: rx where
  "PERM_Q = re_i (''%b(?:own(?:er|ed|s|ership)?|belongs?|permissions?|perms|mode|chmod|chown|access|readable|'' @
     ''writ(?:e)?able|executable|setgid|setuid|sticky|read|write)%b'')"
definition CUSTOM_PAGE :: rx where "CUSTOM_PAGE = re_i ''%b(?:custom|own|my|message|says|saying|text)%b''"
definition NOPASSWD_Q :: rx where
  "NOPASSWD_Q = re_i (''%b(?:without%s+(?:typing%s+|entering%s+|a%s+)*(?:a%s+|their%s+|his%s+|her%s+)?password|'' @
     ''no%s+password|passwordless|nopasswd)%b'')"

definition existence_question :: "string \<Rightarrow> bool" where
  "existence_question question \<longleftrightarrow> found_in EXISTENCE_Q question \<and> \<not> found_in SECOND_GOAL question \<and>
     \<not> found_in QUALIFIER question \<and> \<not> found_in (re_i ''%band%b(?!%s+(?:then%s+)?(?:start|enable|run)%b)'') question"

definition named_sources :: "string \<Rightarrow> string list" where
  "named_sources question = map (\<lambda>m. group_text m 1) (re_finditer (re ''%b(%d{1,3}(?:%.%d{1,3}){3}(?:/%d{1,2})?)%b'') question)"

text \<open>\<^verbatim>\<open>ip_address(a) in ip_network(s, strict=False)\<close>, false when either is malformed.\<close>

definition ip_address :: "string \<Rightarrow> (ip_version \<times> int) option" where
  "ip_address s = (case parse_ipv4 s of Some a \<Rightarrow> Some (V4, a) | None \<Rightarrow> map_option (Pair V6) (parse_ipv6 s))"

definition in_network_text :: "string \<Rightarrow> string \<Rightarrow> bool" where
  "in_network_text a s =
     (case (ip_address a, ip_network s) of
        (Some (v, x), Some n) \<Rightarrow> v = version n \<and> x AND netmask v (prefixlen n) = net_addr n
      | _ \<Rightarrow> False)"

definition prober_is_source :: "string \<Rightarrow> string list \<Rightarrow> bool" where
  "prober_is_source prober_ip sources \<longleftrightarrow> list_ex (in_network_text prober_ip) sources"

definition SPECIAL_MODES :: "(string \<times> rx) list" where
  "SPECIAL_MODES = [(''setuid'', re ''(?:[ua]*%+[rwx]*s|%b[4-7][0-7]{3}%b)''), (''setgid'', re ''(?:[ga]*%+[rwx]*s|%b[2367][0-7]{3}%b)''),
     (''sticky'', re ''(?:[oa]*%+[rwx]*t|%b[1357][0-7]{3}%b)'')]"

text \<open>The answer runs \<^verbatim>\<open>chmod\<close> or \<^verbatim>\<open>chown\<close> with exactly this value on this path.\<close>

definition sets_directly :: "check \<Rightarrow> string \<Rightarrow> bool" where
  "sets_directly c answer \<longleftrightarrow>
     (let mode = (ck_kind c = ''path_mode''); value = or_else (param c ''mode'') (param c ''owner'');
          word = Seq (re ''%b'') (Seq (lit value) (re ''%b''));
          pattern = (if mode then (case map_of SPECIAL_MODES (py_lower value) of None \<Rightarrow> word | Some r \<Rightarrow> r) else word)
      in found_in (Seq (re (if mode then ''%bchmod%b[^%n]*'' else ''%bchown%b[^%n]*'')) (Seq pattern (Seq (re ''[^%n]*'') (lit (param c ''path''))))) answer)"

definition describe_check :: "check \<Rightarrow> string" where
  "describe_check c =
     (let k = ck_kind c; p = param c; user = p ''user''; path = p ''path''; unit = p ''unit''; command = p ''command'' in
      (if k = ''user_exists'' then ''user '' @ user @ '' exists''
       else if k = ''user_in_group'' then user @ '' is in group '' @ p ''group''
       else if k = ''user_shell'' then user @ [apostrophe] @ ''s login shell is '' @ p ''shell''
       else if k = ''path_exists'' then path @ '' exists''
       else if k = ''path_owner'' then path @ '' is owned by '' @ p ''owner''
       else if k = ''path_mode'' then path @ '' has mode '' @ p ''mode''
       else if k = ''file_contains'' then path @ '' contains '' @ sq (p ''text'')
       else if k = ''service_active'' then unit @ '' is running''
       else if k = ''service_enabled'' then unit @ '' starts at boot''
       else if k = ''service_disabled'' then unit @ '' does not start at boot''
       else if k = ''port_listening'' then ''something listens on port '' @ p ''port''
       else if k = ''port_open_from_other'' then ''port '' @ p ''port'' @ '' is reachable from another machine''
       else if k = ''port_closed_from_other'' then ''port '' @ p ''port'' @ '' is blocked for another machine''
       else if k = ''default_target'' then ''the machine boots to '' @ p ''target''
       else if k = ''sysctl'' then p ''key'' @ '' = '' @ p ''value''
       else if k = ''command_output'' then ''`'' @ command @ ''` shows '' @ sq (p ''contains'')
       else if k = ''login_env'' then ''in a new login as '' @ user @ '', '' @ p ''var'' @ '' contains '' @ sq (p ''contains'')
       else if k = ''user_can'' then user @ '' can '' @ p ''action'' @ '' '' @ path
       else if k = ''user_cannot'' then user @ '' cannot '' @ p ''action'' @ '' '' @ path
       else if k = ''sudo_allowed'' then ''sudo lets '' @ user @ '' run '' @ sq command
       else if k = ''sudo_denied'' then ''sudo refuses '' @ user @ '' '' @ sq command
       else if k = ''http_from_other'' then ''another machine gets http://'' @ or_else (p ''host'') ''this machine'' @ '':'' @ p ''port'' @
          or_else path ''/'' @ (if p ''status'' = [] then [] else '' -> '' @ p ''status'') @
          (if p ''contains'' = [] then [] else '' containing '' @ sq (p ''contains'')) @
          (if p ''location'' = [] then [] else '' redirecting to '' @ sq (p ''location''))
       else if k = ''resolves'' then p ''name'' @ '' resolves to '' @ p ''address''
       else if k = ''unit_runs_ok'' then unit @ '' runs and succeeds''
       else if k = ''sshd_effective'' then ''sshd actually uses '' @ p ''key'' @ '' '' @ p ''value''
       else ''group '' @ p ''group'' @ '' exists'') @
      (if ck_after_reboot c then '' (after a reboot)'' else []))"

text \<open>One line of a run's report.  \<open>fd_plan\<close> is the position of the planned check it comes from.\<close>

record finding =
  fd_kind :: string
  fd_subject :: string
  fd_ok :: bool
  fd_detail :: string
  fd_decisive :: bool
  fd_evidence :: bool
  fd_plan :: "nat option"

definition goal_finding :: "nat \<Rightarrow> string \<Rightarrow> bool \<Rightarrow> string \<Rightarrow> bool \<Rightarrow> finding" where
  "goal_finding i subject k seen decisive =
     \<lparr>fd_kind = ''goal'', fd_subject = subject, fd_ok = k, fd_detail = seen, fd_decisive = decisive, fd_evidence = True, fd_plan = Some i\<rparr>"

definition no_password_cmd :: "check \<Rightarrow> string" where
  "no_password_cmd c = ''su -s /bin/bash '' @ shlex_quote (param c ''user'') @ '' -c '' @
     shlex_quote (''sudo -n '' @ quoted_words (param c ''command'') @ '' </dev/null'') @ '' 2>&1 | tail -1; exit ${PIPESTATUS[0]}''"

text \<open>Why a check that passes does not decide, if so: the branches of the code in their order.\<close>

definition why_indecisive :: "string \<Rightarrow> string \<Rightarrow> string \<Rightarrow> bool option \<Rightarrow> check \<Rightarrow> string option" where
  "why_indecisive question prober_ip answer was c =
     (let k = ck_kind c; other = endswith k ''_from_other''; sources = named_sources question in
      if was = Some True then Some '' (already true before the answer)''
      else if k \<in> set EXISTENCE_CHECKS \<and> \<not> existence_question question
      then Some '' (shows it exists, not that the question's change was made)''
      else if k = ''file_contains'' \<and> py_in (squeeze (param c ''text'')) (squeeze answer)
      then Some '' (the answer wrote this itself; that shows it was written, not that it works)''
      else if k \<in> {''path_mode'', ''path_owner''} \<and> sets_directly c answer \<and>
              \<not> py_in (hd (split_on (CHR '':'') (param c (if k = ''path_mode'' then ''mode'' else ''owner'')))) question
      then Some '' (the answer set this directly; a means, not the question's goal)''
      else if k \<in> {''path_mode'', ''path_owner''} \<and> \<not> found_in PERM_Q question
      then Some '' (the question isn't about ownership or permissions)''
      else if k = ''http_from_other'' \<and> param c ''contains'' \<noteq> [] \<and>
              \<not> py_in (squeeze (py_lower (param c ''contains''))) (squeeze (py_lower (answer @ '' '' @ question)))
      then Some '' (text a default page shows too; not from the answer or the question)''
      else if k = ''http_from_other'' \<and> param c ''contains'' = [] \<and> param c ''location'' = [] \<and> found_in CUSTOM_PAGE question
      then Some '' (a status code alone doesn't show the page the question asks for)''
      else if found_in REACH_Q question \<and> \<not> found_in CLIENT_Q question \<and> \<not> other
      then Some '' (a step towards it; the question is about another machine reaching this one)''
      else if other \<and> sources \<noteq> [] \<and> \<not> prober_is_source prober_ip sources
      then Some ('' (the other machine isn't '' @ join '', '' sources @ '', which the question is about)'')
      else None)"

definition grade ::
    "vm_world \<Rightarrow> string \<Rightarrow> string \<Rightarrow> string \<Rightarrow> bool option \<Rightarrow> nat \<Rightarrow> check \<Rightarrow> string \<Rightarrow> vm_log \<Rightarrow> finding \<times> vm_log" where
  "grade w question prober_ip answer was i c seen h =
     (case why_indecisive question prober_ip answer was c of
        Some why \<Rightarrow> (goal_finding i (describe_check c @ why) True seen False, h)
      | None \<Rightarrow>
          if ck_kind c = ''sudo_allowed'' \<and> found_in NOPASSWD_Q question then
            (let (r, h1) = lab_exec w Root (no_password_cmd c) 30 h; k = (fst r = Some 0) in
             (goal_finding i (describe_check c @ '', without a password'') k
                (or_else (last_chars 120 (py_strip (snd r))) (if k then ''ran'' else ''asked for a password'')) k, h1))
          else (goal_finding i (describe_check c) True seen True, h))"

text \<open>\<open>before\<close> is what each planned check gave before the answer ran.\<close>

fun goal_loop ::
    "vm_world \<Rightarrow> string \<Rightarrow> bool \<Rightarrow> string \<Rightarrow> string \<Rightarrow> string \<Rightarrow> (nat \<Rightarrow> bool option) \<Rightarrow> nat \<Rightarrow> check list \<Rightarrow> vm_log \<Rightarrow>
     finding list \<times> vm_log" where
  "goal_loop w target_ip prober question prober_ip answer before i [] h = ([], h)"
| "goal_loop w target_ip prober question prober_ip answer before i (c # cs) h =
     (case run_check w target_ip prober c h of ((r, seen), h1) \<Rightarrow>
        (case r of
           None \<Rightarrow> goal_loop w target_ip prober question prober_ip answer before (i + 1) cs h1
         | Some False \<Rightarrow>
             apfst (Cons (goal_finding i (describe_check c @ '' (not confirmed)'') False seen False))
               (goal_loop w target_ip prober question prober_ip answer before (i + 1) cs h1)
         | Some True \<Rightarrow>
             (case grade w question prober_ip answer (before i) i c seen h1 of (f, h2) \<Rightarrow>
                apfst (Cons f) (goal_loop w target_ip prober question prober_ip answer before (i + 1) cs h2))))"

definition model_goal_checks ::
    "vm_world \<Rightarrow> string \<Rightarrow> bool \<Rightarrow> check list \<Rightarrow> (nat \<Rightarrow> bool option) \<Rightarrow> string \<Rightarrow> string \<Rightarrow> string \<Rightarrow> vm_log \<Rightarrow> finding list \<times> vm_log" where
  "model_goal_checks w target_ip prober planned before question prober_ip answer h =
     goal_loop w target_ip prober question prober_ip answer before 0 planned h"

end
