(* ===== verification/Advice_Goals.thy ===== *)
theory Advice_Goals
  imports Advice_Confined Advice_Checks
begin

text \<open>
  What the goal checks promise: the plan is well typed, the commands of a check have the shape of the menu whatever the
  model proposed, and a check decides only when it was not true before the answer.
\<close>

section \<open>The plan is well typed\<close>



lemma set_param_keys [simp]: "map fst (set_param k f ps) = map fst ps"
  by (induction ps) (auto simp: set_param_def)








section \<open>The shape of the commands\<close>













subsection \<open>Words, numbers and names in the lines\<close>












subsection \<open>Every line of the menu\<close>














section \<open>Running the plan\<close>








section \<open>What decides\<close>




section \<open>A plan\<close>

definition demo_proposal :: jdict where
  "demo_proposal = [(''checks'', JList
     [JObj [(''kind'', JStr ''command_output''), (''command'', JStr ''sudo env reboot''), (''contains'', JStr ''x'')],
      JObj [(''kind'', JStr ''command_output''), (''command'', JStr ''ls;reboot''), (''contains'', JStr ''x'')],
      JObj [(''kind'', JStr ''shell''), (''command'', JStr ''reboot'')]])]"

definition demo_check :: check where
  "demo_check = \<lparr>ck_kind = ''command_output'', ck_params = [(''command'', ''env reboot''), (''contains'', ''x'')], ck_after_reboot = False\<rparr>"

lemma demo_command_words: "py_split ''env reboot'' = [''env'', ''reboot'']" "py_split ''ls;reboot'' = [''ls;reboot'']"
  by code_simp+

lemma demo_metas: "\<not> found_in SHELL_META ''env reboot''"
  by code_simp

lemma demo_values: "readonly_command ''env reboot''" "\<not> readonly_command ''ls;reboot''" "one_line ''x''"
  by (simp_all add: readonly_command_def demo_command_words demo_metas READONLY_PROGRAMS_def READONLY_SUB_def one_line_def newline_def)

lemma demo_texts: "startswith ''sudo env reboot'' ''sudo ''" "\<not> startswith ''ls;reboot'' ''sudo ''" "\<not> startswith ''reboot'' ''sudo ''"
  "py_strip ''env reboot'' = ''env reboot''" "py_strip ''ls;reboot'' = ''ls;reboot''" "py_strip ''x'' = ''x''"
  by code_simp+

lemma demo_proposal_plan:
  "plan_checks (\<lambda>_. []) demo_proposal = Some ([demo_check],
     [BadParams ''command_output'' [''command''], NotACheck (JObj [(''kind'', JStr ''shell''), (''command'', JStr ''reboot'')])])"
  by (simp add: plan_checks_def demo_proposal_def demo_check_def jget_def first_items_def plan_check_def hashable_def unaliased_def
      alias_of_def CHECK_ALIASES_def unsudoed_def demo_texts CHECK_PARAMS_def params_of_def raw_params_def CHECK_OPTIONAL_def item_text_def
      check_ok_value_def demo_values bad_path_def lab_params_def set_param_def Let_def inrs_def inls_def map_filter_def)







text \<open>The menu admits \<^verbatim>\<open>env\<close> with any program: a command that is not read-only passes and is run as root.\<close>

lemma env_is_admitted:
  "\<exists>refused. plan_checks (\<lambda>_. []) demo_proposal = Some ([demo_check], refused)"
  "snd (run_check w ip prober demo_check []) = [(Root, ''env reboot 2>&1 | head -50'', 30)]"
proof -
  show "\<exists>refused. plan_checks (\<lambda>_. []) demo_proposal = Some ([demo_check], refused)" using demo_proposal_plan by blast
  have "output_cmd ''env reboot'' = ''env reboot 2>&1 | head -50''" by code_simp
  then show "snd (run_check w ip prober demo_check []) = [(Root, ''env reboot 2>&1 | head -50'', 30)]"
    by (simp add: run_check_def demo_check_def param_def sh_def lab_exec_def Let_def)
qed

text \<open>A kind that is a list is not hashable: the run ends in an exception instead of a refused check.\<close>

lemma malformed_kind_raises: "plan_checks rep [(''checks'', JList [JObj [(''kind'', JList [])]])] = None"
  by (simp add: plan_checks_def jget_def first_items_def plan_check_def hashable_def)



end
