(* ===== verification/Difflib.thy ===== *)
theory Difflib
  imports Prelude
begin

text \<open>
  \<^verbatim>\<open>difflib.SequenceMatcher(None, a, b).ratio()\<close> of Python's library: the longest common block, then the same to its
  left and to its right.  A character that is frequent in a long \<open>b\<close> (200 characters or more) starts no block but
  may extend one.
\<close>

definition popular :: "string \<Rightarrow> char \<Rightarrow> bool" where
  "popular b c \<longleftrightarrow> 200 \<le> length b \<and> length b div 100 + 1 < count_list b c"

text \<open>For one character of \<open>a\<close>: the length of the common block that ends at each place of \<open>b\<close>, from those of the
  character before.\<close>

fun block_row :: "(char \<Rightarrow> bool) \<Rightarrow> char \<Rightarrow> string \<Rightarrow> nat \<Rightarrow> nat list \<Rightarrow> nat list" where
  "block_row pop x [] d prev = []"
| "block_row pop x (y # ys) d prev =
     (if x = y \<and> \<not> pop y then d + 1 else 0) #
       block_row pop x ys (case prev of [] \<Rightarrow> 0 | p # _ \<Rightarrow> p) (case prev of [] \<Rightarrow> [] | _ # ps \<Rightarrow> ps)"

text \<open>The first longest block so far: its ends in \<open>a\<close> and \<open>b\<close>, and its length.\<close>

fun best_in_row :: "nat \<Rightarrow> nat \<Rightarrow> nat list \<Rightarrow> nat \<times> nat \<times> nat \<Rightarrow> nat \<times> nat \<times> nat" where
  "best_in_row i j [] best = best"
| "best_in_row i j (k # ks) best =
     best_in_row i (j + 1) ks (if snd (snd best) < k then (i + 1 - k, j + 1 - k, k) else best)"

fun best_block :: "(char \<Rightarrow> bool) \<Rightarrow> string \<Rightarrow> nat \<Rightarrow> string \<Rightarrow> nat list \<Rightarrow> nat \<times> nat \<times> nat \<Rightarrow> nat \<times> nat \<times> nat" where
  "best_block pop b i [] prev best = best"
| "best_block pop b i (x # xs) prev best =
     (let ks = block_row pop x b 0 prev in best_block pop b (i + 1) xs ks (best_in_row i 0 ks best))"

text \<open>The block is then extended to both sides.\<close>

fun extend_left :: "string \<Rightarrow> string \<Rightarrow> nat \<Rightarrow> nat \<Rightarrow> nat \<Rightarrow> nat \<times> nat \<times> nat" where
  "extend_left a b (Suc i) (Suc j) k = (if a ! i = b ! j then extend_left a b i j (k + 1) else (Suc i, Suc j, k))"
| "extend_left a b i j k = (i, j, k)"

fun common_prefix :: "string \<Rightarrow> string \<Rightarrow> nat" where
  "common_prefix (x # xs) (y # ys) = (if x = y then common_prefix xs ys + 1 else 0)"
| "common_prefix _ _ = 0"

definition longest_match :: "(char \<Rightarrow> bool) \<Rightarrow> string \<Rightarrow> string \<Rightarrow> nat \<times> nat \<times> nat" where
  "longest_match pop a b =
     (let (i0, j0, k0) = best_block pop b 0 a [] (0, 0, 0); (i, j, k) = extend_left a b i0 j0 k0
      in (i, j, k + common_prefix (drop (i + k) a) (drop (j + k) b)))"

section \<open>A block lies in both texts\<close>

text \<open>A row for the \<open>i\<close>-th character holds blocks of at most \<open>i + 1\<close> characters, and of at most \<open>j + 1\<close> at place \<open>j\<close>.\<close>

definition row_ok :: "nat \<Rightarrow> nat \<Rightarrow> nat list \<Rightarrow> bool" where
  "row_ok i j ks \<longleftrightarrow> (\<forall>n < length ks. ks ! n \<le> i \<and> ks ! n \<le> j + n)"

lemma row_ok_simps [simp]:
  "row_ok i j []" "row_ok i j (k # ks) \<longleftrightarrow> k \<le> i \<and> k \<le> j \<and> row_ok i (j + 1) ks"
  by (auto simp: row_ok_def nth_Cons less_Suc_eq_0_disj split: nat.splits)

lemma block_row_ok: "d \<le> i \<Longrightarrow> d \<le> j \<Longrightarrow> row_ok i (j + 1) prev \<Longrightarrow> row_ok (i + 1) (j + 1) (block_row pop x ys d prev)"
  by (induction pop x ys d prev arbitrary: j rule: block_row.induct) (auto split: list.splits)

lemma length_block_row [simp]: "length (block_row pop x ys d prev) = length ys"
  by (induction pop x ys d prev rule: block_row.induct) auto

definition block_ok :: "nat \<Rightarrow> nat \<Rightarrow> nat \<times> nat \<times> nat \<Rightarrow> bool" where
  "block_ok n m best \<longleftrightarrow> fst best + snd (snd best) \<le> n \<and> fst (snd best) + snd (snd best) \<le> m"

lemma best_in_row_ok:
  "row_ok (i + 1) (j + 1) ks \<Longrightarrow> j + length ks = m \<Longrightarrow> i < n \<Longrightarrow> block_ok n m best \<Longrightarrow> block_ok n m (best_in_row i j ks best)"
  by (induction i j ks best rule: best_in_row.induct) (auto simp: block_ok_def)

lemma best_block_ok:
  "row_ok i 1 prev \<Longrightarrow> i + length xs = n \<Longrightarrow> block_ok n (length b) best \<Longrightarrow> block_ok n (length b) (best_block pop b i xs prev best)"
proof (induction pop b i xs prev best rule: best_block.induct)
  case (2 pop b i x xs prev best)
  have "row_ok (i + 1) 1 (block_row pop x b 0 prev)" using block_row_ok [of 0 i 0 prev pop x b] 2(2) by simp
  then show ?case using 2(1) [OF refl] best_in_row_ok [of i 0 "block_row pop x b 0 prev" "length b" n best] 2(3,4) by (simp add: Let_def)
qed simp

lemma extend_left_ok: "block_ok n m (i, j, k) \<Longrightarrow> block_ok n m (extend_left a b i j k)"
  by (induction a b i j k rule: extend_left.induct) (auto simp: block_ok_def)

lemma common_prefix_le: "common_prefix xs ys \<le> length xs" "common_prefix xs ys \<le> length ys"
  by (induction xs ys rule: common_prefix.induct) auto

lemma longest_match_ok: "block_ok (length a) (length b) (longest_match pop a b)"
proof -
  obtain i0 j0 k0 where best: "best_block pop b 0 a [] (0, 0, 0) = (i0, j0, k0)" by (metis surj_pair)
  obtain i j k where ext: "extend_left a b i0 j0 k0 = (i, j, k)" by (metis surj_pair)
  have "block_ok (length a) (length b) (i0, j0, k0)"
    using best_block_ok [of 0 "[]" a "length a" b "(0, 0, 0)" pop] best by (simp add: block_ok_def)
  then have "block_ok (length a) (length b) (i, j, k)" using extend_left_ok ext by metis
  then have fits: "i + k \<le> length a" "j + k \<le> length b" by (simp_all add: block_ok_def)
  define c where "c = common_prefix (drop (i + k) a) (drop (j + k) b)"
  have "c \<le> length a - (i + k)" "c \<le> length b - (j + k)"
    using common_prefix_le [of "drop (i + k) a" "drop (j + k) b"] by (simp_all add: c_def)
  then have "i + (k + c) \<le> length a" "j + (k + c) \<le> length b" using fits by linarith+
  then show ?thesis using best ext by (simp add: longest_match_def block_ok_def c_def)
qed

section \<open>The ratio\<close>

text \<open>The number of matched characters.\<close>

function matched :: "(char \<Rightarrow> bool) \<Rightarrow> string \<Rightarrow> string \<Rightarrow> nat" where
  "matched pop a b =
     (let m = longest_match pop a b in
      if snd (snd m) = 0 then 0
      else snd (snd m) + matched pop (take (fst m) a) (take (fst (snd m)) b) +
        matched pop (drop (fst m + snd (snd m)) a) (drop (fst (snd m) + snd (snd m)) b))"
  by pat_completeness auto
termination
proof (relation "measure (\<lambda>(pop, a, b). length a)")
  fix pop a b m
  assume "m = longest_match pop a b" "snd (snd m) \<noteq> 0"
  then have "fst m + snd (snd m) \<le> length a" "0 < snd (snd m)" using longest_match_ok [of a b pop] by (auto simp: block_ok_def)
  then show "((pop, take (fst m) a, take (fst (snd m)) b), pop, a, b) \<in> measure (\<lambda>(pop, a, b). length a)"
    "((pop, drop (fst m + snd (snd m)) a, drop (fst (snd m) + snd (snd m)) b), pop, a, b) \<in> measure (\<lambda>(pop, a, b). length a)"
    by auto
qed simp

declare matched.simps [simp del]

text \<open>\<^verbatim>\<open>ratio() >= 0.6\<close>, as an exact comparison: twice the matches over the lengths, 1 for two empty texts.\<close>

definition similar :: "string \<Rightarrow> string \<Rightarrow> bool" where
  "similar a b \<longleftrightarrow> 6 * (length a + length b) \<le> 20 * matched (popular b) a b"

end
