(* ===== verification/Lfs_Policy.thy ===== *)
theory Lfs_Policy
  imports Shell Json Difflib
begin

text \<open>
  What the LFS worker (\<^verbatim>\<open>examples/llm-chat/files/lfs_worker.py\<close>) accepts from its language model: the patterns of commands
  that may not run, the comparison of a changed command with the book's, and the small readers of commands, lessons and
  file names that the planning and repairing of \<open>Lfs_Plan\<close> and \<open>Lfs_Worker\<close> use.
\<close>

section \<open>Commands that may not run\<close>

definition DANGER :: rx where
  "DANGER = re (''/dev/(?:sda|vda)%b|%bdd%b[^%n]*%bof=/dev/(?!sdb)|%bmkfs(?:%.%w+)?%b(?![^%n]*/dev/sdb)[^%n]*/dev/|'' @
     ''%brm%s+-rf?%s+/(?:%s|$)|%bwipefs%b(?![^%n]*/dev/sdb)'')"
definition DOWNLOAD :: rx where
  "DOWNLOAD = re ''%b(?:wget|curl)%b[^%n]*%b(?:https?|ftp)://''"
definition SYSTEM :: rx where
  "SYSTEM = re (''%b(grub-install|grub-mkconfig|efibootmgr|mount|umount|mkfs(?:%.%w+)?|sgdisk|fdisk|parted|'' @
     ''mkswap|swapon|sudo|apt-get|apt|dnf|yum|chroot)%b'')"
definition CREDENTIAL :: rx where
  "CREDENTIAL = re (''(?<![/%w.-])chpasswd%b|(?<![/%w.-])passwd%b[^%n]*(?:--stdin|<<)|%|%s*(?:passwd|chpasswd)%b|'' @
     ''%busermod%b[^%n]*%s-p%s|%bopenssl%s+passwd%b'')"
definition NEVER :: rx where "NEVER = re ''%b(sudo|apt-get|apt|dnf|yum)%b''"
definition CHECK :: rx where
  "CHECK = re ''%bmake%b[^%n]*%b(?:check|test)s?%b|%bctest%b|%bninja%b[^%n]*%btest%b''"
definition REPORTED_PROBLEM :: rx where
  "REPORTED_PROBLEM = re_m ''^%s*(?:ERROR|FAIL(?:ED)?)%b|%bERROR:''"

definition system_words :: "string \<Rightarrow> string list" where
  "system_words s = map (\<lambda>m. group_text m 1) (re_finditer SYSTEM s)"

section \<open>Comparing commands\<close>

definition continuation :: string where "continuation = [backslash, newline]"

definition norm :: "string \<Rightarrow> string" where
  "norm s = py_strip (re_sub (re ''%s+'') (\<lambda>_. '' '') (py_replace continuation '' '' s))"

text \<open>A line with its version numbers blotted out.\<close>

definition line_key :: "string \<Rightarrow> string" where
  "line_key line = re_sub (re ''%d+(?:%.%d+)*'') (\<lambda>_. ''N'') (norm line)"

definition shell_words :: "string \<Rightarrow> string list" where
  "shell_words s = map m_text (re_finditer (re ''[^%s;|&()]+'') s)"

text \<open>\<^verbatim>\<open>it = iter(xs); all(w in it for w in ws)\<close>: the words occur in that order.\<close>

fun in_order :: "'a list \<Rightarrow> 'a list \<Rightarrow> bool" where
  "in_order [] xs = True"
| "in_order (w # ws) [] = False"
| "in_order (w # ws) (x # xs) = (if w = x then in_order ws xs else in_order (w # ws) xs)"

lemma in_order_subseq: "in_order ws xs \<longleftrightarrow> subseq ws xs"
  by (induction ws xs rule: in_order.induct) auto

text \<open>A template line that is filled in by the lines of the change.\<close>

definition setting_name :: "string \<Rightarrow> string option" where
  "setting_name n = map_option (\<lambda>m. group_text m 1) (re_match (re ''([A-Za-z_][%w.-]*)%s*='') n)"

definition filled_line :: "string list \<Rightarrow> string \<Rightarrow> bool" where
  "filled_line have line \<longleftrightarrow>
     (let n = norm line; lead = py_strip (takeWhile (\<lambda>c. c \<noteq> CHR ''<'') n) in
      re_sub (re ''<[^<>]+>|%[[^%]]*%]|%.%.%.|%s'') (\<lambda>_. []) n = [] \<or>
      found_in (re ''<[a-zA-Z][^<>]*>'') n \<or>
      found_in (re ''/dev/sd[a-z]%d*%b|%(hd%d+,%d+%)'') n \<or>
      CHR ''<'' \<in> set n \<and> lead \<noteq> [] \<and> list_ex (\<lambda>h. startswith (norm h) lead) have \<or>
      (case setting_name n of None \<Rightarrow> False | Some name \<Rightarrow> list_ex (\<lambda>h. matches (Seq (lit name) (re ''%s*='')) (norm h)) have))"

text \<open>\<^verbatim>\<open>_dropped_lines\<close>: the book's lines that a changed command does not keep.\<close>

definition kept_line :: "string list \<Rightarrow> string \<Rightarrow> bool" where
  "kept_line keys k \<longleftrightarrow> list_ex (\<lambda>h. py_in k h \<or> in_order (shell_words k) (shell_words h) \<or> similar k h) keys"

definition dropped_lines :: "string \<Rightarrow> string \<Rightarrow> string list" where
  "dropped_lines book run =
     (let keys = map line_key (filter (\<lambda>x. py_strip x \<noteq> []) (splitlines (py_replace continuation '' '' run))) in
      map (\<lambda>line. take 60 (norm line))
        (filter (\<lambda>line. line_key line \<noteq> [] \<and> \<not> filled_line (splitlines run) line \<and> \<not> kept_line keys (line_key line))
          (splitlines (py_replace continuation '' '' book))))"

text \<open>\<^verbatim>\<open>_keeps_words\<close>: every word of the book's command, in order.\<close>

definition book_words :: "string \<Rightarrow> string list" where
  "book_words book =
     concat (map (\<lambda>line. filter (\<lambda>w. w \<noteq> [backslash]) (py_split line))
       (filter (\<lambda>line. py_strip line \<noteq> [] \<and> \<not> startswith (py_lstrip line) ''#'') (splitlines book)))"

definition keeps_words :: "string \<Rightarrow> string \<Rightarrow> bool" where
  "keeps_words book replacement = in_order (book_words book) (filter (\<lambda>w. w \<noteq> [backslash]) (py_split replacement))"

lemma keeps_words_subseq: "keeps_words book replacement \<longleftrightarrow> subseq (book_words book) (filter (\<lambda>w. w \<noteq> [backslash]) (py_split replacement))"
  by (simp add: keeps_words_def in_order_subseq)

section \<open>Reading commands\<close>

text \<open>The file of \<^verbatim>\<open>/etc\<close> or \<^verbatim>\<open>/boot\<close> that a command writes.\<close>

definition writes_config :: "string \<Rightarrow> string" where
  "writes_config cmd =
     (case re_search (re (''(>>?)%s*'' @ [dquote] @ ''?(/(?:etc|boot)/[^%s'' @ [dquote] @ ''<>;&|]+)'')) cmd of
        None \<Rightarrow> []
      | Some m \<Rightarrow> group_text m 1 @ '' '' @ group_text m 2)"

text \<open>\<^verbatim>\<open>_deletes_outside\<close>: \<open>None\<close> when a quotation in the arguments of an \<^verbatim>\<open>rm\<close> does not end.\<close>

definition deletes_target :: "string \<Rightarrow> bool \<Rightarrow> string \<Rightarrow> bool" where
  "deletes_target srcdir in_tree t \<longleftrightarrow>
     (if startswith t ''/'' then \<not> (startswith t ''/tmp/'' \<or> srcdir \<noteq> [] \<and> py_in (''/'' @ srcdir) t) else \<not> in_tree)"

fun deletes_any :: "string \<Rightarrow> bool \<Rightarrow> string list \<Rightarrow> bool option" where
  "deletes_any srcdir in_tree [] = Some False"
| "deletes_any srcdir in_tree (a # rest) =
     (if py_strip a = [] then deletes_any srcdir in_tree rest
      else
        (case shlex_split a of
           None \<Rightarrow> None
         | Some ws \<Rightarrow>
             if list_ex (deletes_target srcdir in_tree) (filter (\<lambda>w. \<not> startswith w ''-'') ws) then Some True
             else deletes_any srcdir in_tree rest))"

definition deletes_outside :: "string \<Rightarrow> string \<Rightarrow> string \<Rightarrow> bool option" where
  "deletes_outside cmds srcdir cwd =
     deletes_any srcdir (srcdir \<noteq> [] \<and> py_in (''/'' @ srcdir) cwd)
       (map (\<lambda>m. group_text m 1) (re_finditer (re ''(?:^|[;&|%s(])rm%s+([^;&|%n]*)'') cmds))"

text \<open>The directory that a step reports at its end.\<close>

definition CWD_MARK :: string where "CWD_MARK = ''@@lfs-cwd=''"
definition CWD_RX :: rx where "CWD_RX = re (''%n?'' @ CWD_MARK @ ''(%S[^%n]*)%n?'')"

definition nothing_found :: "string \<Rightarrow> int \<Rightarrow> string \<Rightarrow> bool" where
  "nothing_found run code output \<longleftrightarrow>
     code = 1 \<and> matches (re ''%s*(?:grep|egrep|fgrep|zgrep)%b'') run \<and> newline \<notin> set (py_strip run) \<and>
     py_strip (re_sub CWD_RX (\<lambda>_. []) output) = []"

section \<open>The model's replies and prompts\<close>

text \<open>\<^verbatim>\<open>_json_reply\<close>: \<open>loads\<close> is \<^verbatim>\<open>json.loads\<close>, \<open>None\<close> its \<^verbatim>\<open>ValueError\<close>.\<close>

definition json_reply :: "(string \<Rightarrow> jdict option) \<Rightarrow> string \<Rightarrow> jdict option" where
  "json_reply loads text =
     (let s = takeWhile (\<lambda>c. c \<noteq> CHR ''{'') text; r = drop (length s) text; e = rev (dropWhile (\<lambda>c. c \<noteq> CHR ''}'') (rev r)) in
      if r = [] \<or> e = [] then None else loads e)"

text \<open>\<^verbatim>\<open>_fit\<close>: a prompt trimmed from the middle.  Three characters count as a token.\<close>

definition MARKER :: string where
  "MARKER = [newline, newline] @ ''[... cut to fit the model's context ...]'' @ [newline, newline]"

definition fit :: "string \<Rightarrow> string \<Rightarrow> int \<Rightarrow> int \<Rightarrow> string" where
  "fit system user max_tokens n_ctx =
     (let room0 = (n_ctx - max_tokens - 64) * 3 - int (length system) in
      if int (length user) \<le> room0 then user
      else
        (let room = nat (max room0 2000); head = (room - length MARKER) * 2 div 3; tail = room - length MARKER - head
         in take head user @ MARKER @ drop (length user - tail) user))"

text \<open>The lessons of a section; one that supersedes retires those before it.  \<open>le_data\<close> is the entry's data read as
  JSON, \<open>None\<close> if it is none.  Data that is not an object raises, \<open>None\<close> as the result.\<close>

record lesson =
  le_who :: string
  le_kind :: string
  le_text :: string
  le_data :: "jval option"

fun notes_from :: "string list \<Rightarrow> lesson list \<Rightarrow> string list option" where
  "notes_from notes [] = Some notes"
| "notes_from notes (j # js) =
     (if le_who j \<notin> {''claude'', ''sentinel''} \<or> le_kind j \<noteq> ''lesson'' then notes_from notes js
      else
        (let said = ''('' @ (if le_who j = ''claude'' then ''tutor'' else ''Sentinel, from the knowledge base'') @ '') '' @ le_text j in
         (case le_data j of
            None \<Rightarrow> notes_from (notes @ [said]) js
          | Some v \<Rightarrow>
              if \<not> jtruthy v then notes_from (notes @ [said]) js
              else (case v of
                  JObj d \<Rightarrow> notes_from ((if jtruthy (jget d ''supersedes'') then [] else notes) @ [said]) js
                | _ \<Rightarrow> None))))"

definition tutor_notes :: "lesson list \<Rightarrow> string list option" where
  "tutor_notes entries = notes_from [] entries"

text \<open>The paragraphs of a section about tests and failures.\<close>

definition failure_passages :: "string \<Rightarrow> nat \<Rightarrow> string" where
  "failure_passages text limit =
     (let paras = filter (\<lambda>p. p \<noteq> []) (map py_strip (re_split (re ''%n%s*%n'') text));
          hits = filter (found_in (re_i ''%b(?:fail|failure|failures|test suite|tests?|timeout|known)%b'')) paras;
          out = join [newline, newline] (map (\<lambda>p. join '' '' (py_split p)) hits)
      in if take limit out \<noteq> [] then take limit out else take limit text)"

section \<open>The source of a package\<close>

record source_entry =
  se_file :: string
  se_kind :: string
  se_set :: string

text \<open>\<^verbatim>\<open>s.split(p, 1)[0]\<close>.\<close>

fun before_first :: "string \<Rightarrow> string \<Rightarrow> string" where
  "before_first p [] = []"
| "before_first p (c # cs) = (if startswith (c # cs) p then [] else c # before_first p cs)"

fun after_first :: "string \<Rightarrow> string \<Rightarrow> string option" where
  "after_first p [] = (if p = [] then Some [] else None)"
| "after_first p (c # cs) = (if startswith (c # cs) p then Some (drop (length p) (c # cs)) else after_first p cs)"

definition flat :: "string \<Rightarrow> string" where
  "flat s = re_sub (re ''[^a-z0-9]'') (\<lambda>_. []) s"

text \<open>\<open>None\<close> is the exception of splitting at an empty version.\<close>

fun find_source :: "string \<Rightarrow> string \<Rightarrow> string option \<Rightarrow> source_entry list \<Rightarrow> string option option" where
  "find_source pkg ver best [] = Some best"
| "find_source pkg ver best (f # fs) =
     (let name = py_lower (se_file f) in
      if se_kind f \<noteq> ''source'' \<or> se_set f \<in> {''books'', ''blfs-common''} \<or> \<not> found_in (re ''%.tar(%.%w+)?$|%.tgz$'') name
      then find_source pkg ver best fs
      else if startswith name (pkg @ ''-'' @ ver) \<or> startswith name (pkg @ ver) \<or> pkg = ''linux'' \<and> name = ''linux-'' @ ver @ ''.tar.xz''
      then Some (Some (se_file f))
      else if py_in ver name \<and> ver = [] then None
      else
        (let stem = (if py_in ver name then flat (before_first ver name) else []) in
         if stem \<noteq> [] \<and> (stem = flat pkg \<or> startswith stem (flat pkg) \<and> length stem - length (flat pkg) \<le> 9)
         then find_source pkg ver (if best = None then Some (se_file f) else best) fs
         else find_source pkg ver best fs))"

definition source_file :: "string \<Rightarrow> string \<Rightarrow> string \<Rightarrow> source_entry list \<Rightarrow> string option option" where
  "source_file package version version_override files =
     (if package = [] then Some None
      else
        (let ver = (if version_override \<noteq> [] then version_override else version); pkg = py_lower package;
             pkg1 = (case after_first '' from '' pkg of None \<Rightarrow> pkg | Some r \<Rightarrow> py_strip r)
         in find_source pkg1 ver None files))"

end
