(* ===== verification/Lfs_Plan.thy ===== *)
theory Lfs_Plan
  imports Lfs_Policy "HOL-Library.AList"
begin

text \<open>
  \<^verbatim>\<open>plan\<close> of \<^verbatim>\<open>examples/llm-chat/files/lfs_worker.py\<close>: the steps of a section are the book's commands with the changes that a
  language model asks for, each of them checked; with any problem there is no plan.

  The texts of the problems (feedback for the model) are left out.  \<open>None\<close> is an exception: a value that is not
  hashable is looked up among the command numbers.
\<close>

section \<open>Sections and steps\<close>

record command =
  c_index :: int
  c_text :: string
  c_subsection :: string
  c_as_root :: bool
  c_skipped :: string             \<comment> \<open>the reason, empty if the command is not skipped\<close>

record wtask =
  w_number :: string
  w_title :: string
  w_seq :: nat
  w_context :: string             \<comment> \<open>\<open>host-root\<close>, \<open>host-lfs\<close> or \<open>chroot\<close>\<close>
  w_package :: string
  w_version :: string
  w_version_override :: string
  w_attempts :: nat
  w_checkpoint_before :: bool
  w_checkpoint_after :: bool
  w_commands :: "command list"
  w_journal :: "lesson list"

text \<open>Where an added step stands.\<close>

datatype place = After int | AtEnd

record step =
  s_book :: "int option"
  s_run :: string
  s_as :: "string option"
  s_why :: string
  s_changed :: bool
  s_omitted :: bool
  s_added_after :: "place option"

datatype problem = NotTheJson | SetsPassword | ForeignCommand | RunsAsRoot | NoReason | TouchesDisk | Downloads | NothingToRun
  | RepeatsBook | NoSuchCommand | DropsLines | LeavesOutFile | PlaceholderLeft | NothingWouldRun

definition by_index :: "command list \<Rightarrow> (int \<times> command) list" where
  "by_index cmds = fold (\<lambda>c d. AList.update (c_index c) c d) cmds []"

definition book_step :: "string \<Rightarrow> int \<times> command \<Rightarrow> step" where
  "book_step context ic = \<lparr>s_book = Some (fst ic), s_run = c_text (snd ic),
     s_as = (if c_as_root (snd ic) \<and> context = ''host-lfs'' then Some ''root'' else None),
     s_why = [], s_changed = False, s_omitted = False, s_added_after = None\<rparr>"

definition book_steps :: "string \<Rightarrow> (int \<times> command) list \<Rightarrow> step list" where
  "book_steps context d = map (book_step context) (filter (\<lambda>ic. c_skipped (snd ic) = []) d)"

definition book_system :: "(int \<times> command) list \<Rightarrow> string list" where
  "book_system d = concat (map (\<lambda>ic. system_words (c_text (snd ic))) d)"

section \<open>Changes\<close>

text \<open>A value looked up among integers: \<open>None\<close> if it is not hashable; true, false and whole floats are integers.\<close>

definition as_index :: "jval \<Rightarrow> int option option" where
  "as_index v =
     (case v of
        JInt i \<Rightarrow> Some (Some i)
      | JBool b \<Rightarrow> Some (Some (if b then 1 else 0))
      | JFloat r \<Rightarrow> Some (if r = of_int \<lfloor>r\<rfloor> then Some \<lfloor>r\<rfloor> else None)
      | JNull \<Rightarrow> Some None
      | JStr s \<Rightarrow> Some None
      | _ \<Rightarrow> None)"

definition lookup :: "(int \<times> command) list \<Rightarrow> jval \<Rightarrow> command option option" where
  "lookup d v = map_option (\<lambda>i. Option.bind i (map_of d)) (as_index v)"

definition foreign_words :: "(int \<times> command) list \<Rightarrow> string \<Rightarrow> string list" where
  "foreign_words d run = filter (\<lambda>w. full_matches NEVER w \<or> d \<noteq> [] \<and> w \<notin> set (book_system d)) (system_words run)"

definition as_value :: "jval \<Rightarrow> string option" where
  "as_value v = (case v of JStr s \<Rightarrow> if s \<in> {''root'', ''lfs''} then Some s else None | _ \<Rightarrow> None)"

text \<open>The place of an added step: its index in the steps, and what it is remembered by.\<close>

fun place_after :: "int \<Rightarrow> nat \<Rightarrow> step list \<Rightarrow> nat option" where
  "place_after i n [] = None"
| "place_after i n (s # ss) = (if s_book s = Some i then Some (n + 1) else place_after i (n + 1) ss)"

definition added_place :: "(int \<times> command) list \<Rightarrow> step list \<Rightarrow> jval \<Rightarrow> (nat \<times> place) option" where
  "added_place d steps after =
     (if as_index after = Some (Some (-1)) then Some (0, After (-1))
      else
        (case lookup d after of
           None \<Rightarrow> None
         | Some None \<Rightarrow> Some (length steps, AtEnd)
         | Some (Some c) \<Rightarrow>
             (case as_index after of
                Some (Some i) \<Rightarrow> Some ((case place_after i 0 steps of Some n \<Rightarrow> n | None \<Rightarrow> length steps), After i)
              | _ \<Rightarrow> None)))"

text \<open>Several steps added at the same place keep their order.\<close>

definition insert_step :: "nat \<Rightarrow> step \<Rightarrow> step list \<Rightarrow> step list" where
  "insert_step pos s steps =
     (let later = drop pos steps; same = takeWhile (\<lambda>x. s_added_after x = s_added_after s) later
      in take pos steps @ same @ s # drop (length same) later)"

definition repeats_book :: "(int \<times> command) list \<Rightarrow> string \<Rightarrow> bool" where
  "repeats_book d run \<longleftrightarrow>
     list_ex (\<lambda>ic. c_skipped (snd ic) = [] \<and> 12 \<le> length (norm (c_text (snd ic))) \<and> py_in (norm (c_text (snd ic))) (norm run)) d"

fun update_step :: "int \<Rightarrow> (step \<Rightarrow> step) \<Rightarrow> step list \<Rightarrow> step list" where
  "update_step i f [] = []"
| "update_step i f (s # ss) = (if s_book s = Some i then f s # ss else s # update_step i f ss)"

type_synonym draft = "step list \<times> problem list"

definition refuse :: "problem \<Rightarrow> draft \<Rightarrow> draft" where
  "refuse p x = (fst x, snd x @ [p])"

text \<open>A change to one of the book's commands.\<close>

definition change_command :: "jdict \<Rightarrow> string \<Rightarrow> string \<Rightarrow> int \<Rightarrow> command \<Rightarrow> draft \<Rightarrow> draft" where
  "change_command ch why run i c x =
     (if c_skipped c \<noteq> [] then x
      else
        (let x1 = (if jtruthy (jget ch ''omit'')
                   then apfst (update_step i (\<lambda>s. s\<lparr>s_run := [], s_omitted := True, s_why := why\<rparr>)) x else x) in
         if run \<noteq> [] \<and> dropped_lines (c_text c) run \<noteq> [] then refuse DropsLines x1
         else
           (let x2 = (if run \<noteq> []
                      then apfst (update_step i (\<lambda>s. s\<lparr>s_run := run, s_changed := (norm run \<noteq> norm (c_text c)), s_why := why\<rparr>)) x1
                      else x1) in
            (case as_value (jget ch ''as'') of
               None \<Rightarrow> x2
             | Some u \<Rightarrow> apfst (update_step i (\<lambda>s. s\<lparr>s_as := Some u, s_why := (if why \<noteq> [] then why else s_why s)\<rparr>)) x2))))"

definition add_step :: "(int \<times> command) list \<Rightarrow> jdict \<Rightarrow> string \<Rightarrow> string \<Rightarrow> draft \<Rightarrow> draft option" where
  "add_step d ch why run x =
     (if run = [] then Some (refuse NothingToRun x)
      else if repeats_book d run then Some (refuse RepeatsBook x)
      else
        map_option (\<lambda>(pos, pl). apfst (insert_step pos \<lparr>s_book = None, s_run = run, s_as = as_value (jget ch ''as''), s_why = why,
            s_changed = True, s_omitted = False, s_added_after = Some pl\<rparr>) x)
          (added_place d (fst x) (jget ch ''after'')))"

definition is_remark :: "jdict \<Rightarrow> string \<Rightarrow> bool" where
  "is_remark ch run \<longleftrightarrow> jget ch ''book'' = JNull \<and> run = [] \<and> \<not> jtruthy (jget ch ''omit'') \<and> \<not> jtruthy (jget ch ''as'') \<and>
     jget ch ''after'' = JNull"

text \<open>In a section of the \<^verbatim>\<open>lfs\<close> user, only the book's own commands run as root.\<close>

definition unbidden_root :: "string \<Rightarrow> (int \<times> command) list \<Rightarrow> jdict \<Rightarrow> bool option" where
  "unbidden_root context d ch =
     (if jget ch ''as'' = JStr ''root'' \<and> context = ''host-lfs''
      then map_option (\<lambda>c. case c of None \<Rightarrow> True | Some c \<Rightarrow> \<not> c_as_root c) (lookup d (jget ch ''book''))
      else Some False)"

definition make_change :: "(jval \<Rightarrow> string) \<Rightarrow> string \<Rightarrow> (int \<times> command) list \<Rightarrow> jdict \<Rightarrow> draft \<Rightarrow> draft option" where
  "make_change rep context d ch x =
     (let why = or_text rep (jget ch ''why''); run = or_text rep (jget ch ''run'') in
      if is_remark ch run then Some x
      else if found_in CREDENTIAL run then Some (refuse SetsPassword x)
      else if foreign_words d run \<noteq> [] then Some (refuse ForeignCommand x)
      else
        (case unbidden_root context d ch of
           None \<Rightarrow> None
         | Some True \<Rightarrow> Some (refuse RunsAsRoot x)
         | Some False \<Rightarrow>
             (let x1 = (if why = [] then refuse NoReason x else x) in
              if run \<noteq> [] \<and> found_in DANGER run then Some (refuse TouchesDisk x1)
              else if run \<noteq> [] \<and> found_in DOWNLOAD run then Some (refuse Downloads x1)
              else if jget ch ''book'' = JNull then add_step d ch why run x1
              else
                (case lookup d (jget ch ''book'') of
                   None \<Rightarrow> None
                 | Some None \<Rightarrow> Some (refuse NoSuchCommand x1)
                 | Some (Some c) \<Rightarrow> Some (change_command ch why run (the (the (as_index (jget ch ''book'')))) c x1)))))"

fun make_changes :: "(jval \<Rightarrow> string) \<Rightarrow> string \<Rightarrow> (int \<times> command) list \<Rightarrow> jval list \<Rightarrow> draft \<Rightarrow> draft option" where
  "make_changes rep context d [] x = Some x"
| "make_changes rep context d (JObj ch # chs) x = Option.bind (make_change rep context d ch x) (make_changes rep context d chs)"
| "make_changes rep context d (_ # chs) x = make_changes rep context d chs x"

section \<open>The whole plan\<close>

text \<open>A command that writes a file of \<^verbatim>\<open>/etc\<close> or \<^verbatim>\<open>/boot\<close> may be left out only if a kept step writes it too.\<close>

definition unwritten :: "(int \<times> command) list \<Rightarrow> step list \<Rightarrow> step \<Rightarrow> bool" where
  "unwritten d steps s \<longleftrightarrow>
     s_omitted s \<and>
     (case s_book s of None \<Rightarrow> False
      | Some i \<Rightarrow>
          (let t = writes_config (c_text (the (map_of d i))) in
           t \<noteq> [] \<and> t \<notin> (\<lambda>s. writes_config (s_run s)) ` set (filter (\<lambda>s. \<not> s_omitted s) steps)))"

definition has_placeholder :: "step \<Rightarrow> bool" where
  "has_placeholder s \<longleftrightarrow> \<not> s_omitted s \<and> found_in (re ''/dev/<|<[a-z][a-z_-]{1,24}>'') (s_run s)"

definition plan_problems :: "(int \<times> command) list \<Rightarrow> step list \<Rightarrow> problem list" where
  "plan_problems d steps =
     map (\<lambda>_. LeavesOutFile) (filter (unwritten d steps) steps) @
     (if list_ex has_placeholder steps then [PlaceholderLeft] else []) @
     (if list_all s_omitted steps then [NothingWouldRun] else [])"

text \<open>The reply; if it begins with \<^verbatim>\<open>{"as_the_book": true\<close>, it has no changes, whatever follows.\<close>

definition AS_THE_BOOK :: rx where
  "AS_THE_BOOK = re (''%s*%{%s*'' @ [dquote] @ ''as_the_book'' @ [dquote] @ ''%s*:%s*true%b'')"

definition reply_data :: "(string \<Rightarrow> jdict option) \<Rightarrow> string \<Rightarrow> jdict option" where
  "reply_data loads reply =
     (let data = json_reply loads reply in
      if matches AS_THE_BOOK reply
      then Some [(''as_the_book'', JBool True), (''changes'', JList []),
        (''expect'', (case data of None \<Rightarrow> JStr [] | Some d \<Rightarrow> jget_default d ''expect'' (JStr [])))]
      else data)"

definition plan_steps :: "(jval \<Rightarrow> string) \<Rightarrow> (string \<Rightarrow> jdict option) \<Rightarrow> wtask \<Rightarrow> string \<Rightarrow> (step list \<times> problem list) option" where
  "plan_steps rep loads task reply =
     (let d = by_index (w_commands task) in
      (case reply_data loads reply of
         None \<Rightarrow> Some ([], [NotTheJson])
       | Some data \<Rightarrow>
           (case jget data ''changes'' of
              JList changes \<Rightarrow>
                map_option
                  (\<lambda>(steps, problems).
                     (let all = problems @ plan_problems d steps in (if all = [] then steps else [], all)))
                  (make_changes rep (w_context task) d changes (book_steps (w_context task) d, []))
            | _ \<Rightarrow> Some ([], [NotTheJson]))))"

end
