(* ===== verification/Lfs_Worker.thy ===== *)
theory Lfs_Worker
  imports Lfs_Plan
begin

text \<open>
  \<^verbatim>\<open>run_task\<close> of \<^verbatim>\<open>examples/llm-chat/files/lfs_worker.py\<close>: the steps of a plan are run on the build machine, a failed one is
  judged or repaired with the language model, and a marker on the machine lets a later attempt resume.

  Everything the worker does is an event of its log; what the machine, the model and the API answer are functions of
  the log so far (\<open>world\<close>).  Journal texts, prompts, heartbeats and reads that only feed prompts are left out.  An
  exception ends the task; main catches it and marks the task stuck, except for an \<^verbatim>\<open>IndexError\<close> or an \<^verbatim>\<open>AttributeError\<close>,
  which end the worker.  The directory of a marker is taken to be the text that the worker wrote.
\<close>

section \<open>Events\<close>

datatype run_kind = StepRun | FixRun | OwnRun
datatype ask_kind = AskPlan | AskOutputJudge | AskTestJudge | AskRepair

datatype event =
    Ran run_kind nat string string string        \<comment> \<open>of which step: what, in which script, launched how\<close>
  | Asked ask_kind
  | Shell string
  | Journal string string
  | SetState string
  | Marker nat "string list" string
  | Delivered
  | Checkpoint string
  | Mounted

type_synonym worker_log = "event list"

record world =
  on_run :: "worker_log \<Rightarrow> int \<times> string"
  on_ask :: "worker_log \<Rightarrow> string"
  on_shell :: "worker_log \<Rightarrow> int \<times> string"
  on_deliver :: "worker_log \<Rightarrow> bool"
  on_checkpoint :: "worker_log \<Rightarrow> bool"

text \<open>The parts of a task's run that stay the same: \<open>digest\<close> is the first sixteen digits of the SHA-1 of a value's JSON.\<close>

record env =
  e_world :: world
  e_rep :: "jval \<Rightarrow> string"
  e_loads :: "string \<Rightarrow> jdict option"
  e_digest :: "jval \<Rightarrow> string"
  e_task :: wtask
  e_srcdir :: string

definition REPAIRS_PER_STEP :: nat where "REPAIRS_PER_STEP = 2"
definition REPAIRS_PER_TASK :: nat where "REPAIRS_PER_TASK = 4"
definition LFS :: string where "LFS = ''/mnt/lfs''"

section \<open>Scripts\<close>

definition nl :: string where "nl = [newline]"
definition in_sq :: "string \<Rightarrow> string" where "in_sq s = [apostrophe] @ s @ [apostrophe]"
definition in_dq :: "string \<Rightarrow> string" where "in_dq s = [dquote] @ s @ [dquote]"

definition CWD_TRAP :: string where
  "CWD_TRAP = ''trap '' @ in_sq (''printf '' @ in_dq ([backslash] @ ''n'' @ CWD_MARK @ ''%s'' @ [backslash] @ ''n'') @ '' '' @ in_dq ''$PWD'') @ '' EXIT'' @ nl"

definition STEP_FILE :: string where "STEP_FILE = ''/var/log/lfs-build/current-step.sh''"

definition launcher :: "string \<Rightarrow> string option \<Rightarrow> string \<Rightarrow> string \<times> string" where
  "launcher context as_user cwd =
     (let user = (case as_user of Some u \<Rightarrow> u | None \<Rightarrow> if context = ''host-lfs'' then ''lfs'' else ''root'') in
      if context = ''chroot'' then
        (''set -e'' @ nl @ ''cd '' @ shlex_quote cwd @ nl @ CWD_TRAP,
         ''export LFS='' @ LFS @ ''; install -d -m 1777 $LFS/tmp && cp '' @ STEP_FILE @ '' $LFS/tmp/lfs-step.sh && chroot '' @ in_dq ''$LFS'' @
         '' /usr/bin/env -i HOME=/root TERM=xterm PATH=/usr/bin:/usr/sbin MAKEFLAGS='' @ in_dq ''-j$(nproc)'' @
         '' TESTSUITEFLAGS='' @ in_dq ''-j$(nproc)'' @ '' /bin/bash -e /tmp/lfs-step.sh'')
      else if user = ''lfs'' then
        (''set -e'' @ nl @ ''set +h'' @ nl @ ''cd '' @ shlex_quote cwd @ nl @ CWD_TRAP,
         ''chmod 755 '' @ STEP_FILE @ ''; su lfs -s /bin/bash -c '' @ in_sq (''source ~/.bashrc 2>/dev/null; bash -e '' @ STEP_FILE))
      else
        (''set -e'' @ nl @ ''export LFS='' @ LFS @ nl @ ''umask 022'' @ nl @ ''cd '' @ shlex_quote cwd @ nl @ CWD_TRAP, ''bash -e '' @ STEP_FILE))"

text \<open>A step that installs a BLFS unit runs in the tree of the units.\<close>

definition command_at :: "wtask \<Rightarrow> int option \<Rightarrow> command option" where
  "command_at task i = find (\<lambda>c. Some (c_index c) = i) (w_commands task)"

definition in_units_tree :: "wtask \<Rightarrow> step \<Rightarrow> string \<Rightarrow> string" where
  "in_units_tree task s run =
     (case command_at task (s_book s) of
        None \<Rightarrow> run
      | Some c \<Rightarrow>
          if \<not> py_in ''Systemd Unit'' (c_subsection c) \<or> \<not> matches (re ''%s*make install-[%w-]+%s*$'') (c_text c) then run
          else ''U=$(ls /sources/blfs-systemd-units-*.tar.xz | tail -1); D=/tmp/blfs-systemd-units'' @ nl @
            ''rm -rf '' @ in_dq ''$D'' @ '' && mkdir -p '' @ in_dq ''$D'' @ '' && tar -xf '' @ in_dq ''$U'' @ '' -C '' @ in_dq ''$D'' @
            '' --strip-components=1'' @ nl @ ''(cd '' @ in_dq ''$D'' @ '' && '' @ py_strip run @ '')'' @ nl @ ''rm -rf '' @ in_dq ''$D'')"

text \<open>\<^verbatim>\<open>s.replace(p, q, 1)\<close>.\<close>

definition replace_once :: "string \<Rightarrow> string \<Rightarrow> string \<Rightarrow> string" where
  "replace_once p q s = (case after_first p s of None \<Rightarrow> s | Some r \<Rightarrow> before_first p s @ q @ r)"

definition ERRORS_EXPECTED :: "string list" where "ERRORS_EXPECTED = [''8.84'']"

definition lenient :: "wtask \<Rightarrow> step \<Rightarrow> nat \<Rightarrow> bool" where
  "lenient task s attempt \<longleftrightarrow> w_number task \<in> set ERRORS_EXPECTED \<and> s_book s \<noteq> None \<and> attempt = 0"

text \<open>What is run for a step: the body, the script around it, the command that launches it.\<close>

definition step_event :: "wtask \<Rightarrow> nat \<Rightarrow> step \<Rightarrow> string \<Rightarrow> nat \<Rightarrow> string \<Rightarrow> event" where
  "step_event task n s cwd attempt run =
     (let (pro, launch) = launcher (w_context task) (s_as s) cwd; body = in_units_tree task s run in
      if lenient task s attempt
      then Ran StepRun n run (replace_once (''set -e'' @ nl) [] pro @ body @ nl @ ''true'' @ nl) (py_replace ''bash -e '' ''bash '' launch)
      else Ran StepRun n run (pro @ body @ nl) launch)"

definition fix_event :: "wtask \<Rightarrow> nat \<Rightarrow> step \<Rightarrow> string \<Rightarrow> string \<Rightarrow> event" where
  "fix_event task n s cwd before =
     (let (pro, launch) = launcher (w_context task) (s_as s) cwd in Ran FixRun n before (pro @ before @ nl) launch)"

section \<open>Repairs\<close>

record repair =
  r_before :: string
  r_instead :: string

definition repair_text :: "repair \<Rightarrow> string" where
  "repair_text r = r_before r @ nl @ r_instead r"

definition no_repair :: repair where "no_repair = \<lparr>r_before = [], r_instead = []\<rparr>"

text \<open>A refusal drops the repair and is noted; the notes are counted.\<close>

definition drop_if :: "(repair \<Rightarrow> bool) \<Rightarrow> repair \<times> nat \<Rightarrow> repair \<times> nat" where
  "drop_if refused x = (if refused (fst x) then (no_repair, snd x + 1) else x)"

text \<open>What the model proposes; \<open>None\<close> when its commands cannot be iterated.\<close>

definition proposed :: "(jval \<Rightarrow> string) \<Rightarrow> jdict \<Rightarrow> repair option" where
  "proposed rep fix =
     map_option
       (\<lambda>vs. \<lparr>r_before = join nl (filter (\<lambda>t. py_strip t \<noteq> []) (map (py_str rep) vs)),
          r_instead = (if jget fix ''then'' = JStr ''run this instead'' then or_text rep (jget fix ''instead'') else [])\<rparr>)
       (iterated (jget fix ''commands''))"

definition runs_later :: "wtask \<Rightarrow> int \<Rightarrow> repair \<Rightarrow> bool" where
  "runs_later task i r \<longleftrightarrow>
     list_ex (\<lambda>c. i < c_index c \<and> c_skipped c = [] \<and> 8 \<le> length (norm (c_text c)) \<and> py_in (norm (c_text c)) (norm (repair_text r)))
       (w_commands task)"

definition section_words :: "wtask \<Rightarrow> string list" where
  "section_words task = concat (map (\<lambda>c. system_words (c_text c)) (w_commands task))"

definition bad_words :: "wtask \<Rightarrow> string \<Rightarrow> string list" where
  "bad_words task t = filter (\<lambda>w. w \<notin> set (section_words task) \<or> full_matches NEVER w) (system_words t)"

definition keep_command :: "wtask \<Rightarrow> step \<Rightarrow> repair \<times> nat \<Rightarrow> repair \<times> nat" where
  "keep_command task s x =
     (case s_book s of None \<Rightarrow> x
      | Some i \<Rightarrow>
          (case command_at task (Some i) of None \<Rightarrow> x
           | Some c \<Rightarrow>
               if r_instead (fst x) \<noteq> [] \<and> c_text c \<noteq> [] \<and> \<not> keeps_words (c_text c) (r_instead (fst x))
               then ((fst x)\<lparr>r_instead := []\<rparr>, snd x + 1) else x))"

definition out_of_order :: "wtask \<Rightarrow> step \<Rightarrow> repair \<Rightarrow> bool" where
  "out_of_order task s r \<longleftrightarrow> (case s_book s of None \<Rightarrow> False | Some i \<Rightarrow> runs_later task i r)"

text \<open>The refusals, in the order of the code.\<close>

definition filter_repair :: "wtask \<Rightarrow> string \<Rightarrow> string \<Rightarrow> step \<Rightarrow> repair \<Rightarrow> (repair \<times> nat) option" where
  "filter_repair task srcdir cwd s r =
     map_option
       (\<lambda>deletes.
          drop_if (\<lambda>r. found_in DANGER (repair_text r))
            (drop_if (\<lambda>r. found_in DOWNLOAD (repair_text r))
              (drop_if (\<lambda>r. bad_words task (repair_text r) \<noteq> [])
                (drop_if (\<lambda>r. found_in CREDENTIAL (repair_text r))
                  (drop_if (out_of_order task s)
                    (keep_command task s (drop_if (\<lambda>_. deletes) (r, 0))))))))
       (deletes_outside (repair_text r) srcdir cwd)"

text \<open>\<^verbatim>\<open>_really_done\<close>.\<close>

definition test_dir :: "string \<Rightarrow> string" where "test_dir t = ''export LFS='' @ LFS @ ''; test -d '' @ t"

fun all_there :: "world \<Rightarrow> string list \<Rightarrow> worker_log \<Rightarrow> bool \<times> worker_log" where
  "all_there w [] h = (True, h)"
| "all_there w (t # ts) h =
     (let h1 = h @ [Shell (test_dir t)] in if fst (on_shell w h1) \<noteq> 0 then (False, h1) else all_there w ts h1)"

definition really_done :: "world \<Rightarrow> string \<Rightarrow> string \<Rightarrow> worker_log \<Rightarrow> bool \<times> worker_log" where
  "really_done w run output h =
     (if \<not> found_in (re ''File exists|already exists|already mounted'') output then (False, h)
      else all_there w (map (\<lambda>m. group_text m 1) (re_finditer (re ''%bmkdir%s+(?:-%w+%s+)*(%S+)'') run)) h)"

section \<open>One step\<close>

text \<open>A run of the step with its judges: whether it counts as done, the directories it reported, its output.\<close>

definition verdict :: "env \<Rightarrow> ask_kind \<Rightarrow> string \<Rightarrow> worker_log \<Rightarrow> bool \<times> worker_log" where
  "verdict E kind key h =
     (let h1 = h @ [Asked kind];
          data = (case json_reply (e_loads E) (on_ask (e_world E) h1) of None \<Rightarrow> [] | Some d \<Rightarrow> d)
      in (jtruthy (jget data key), h1 @ [Journal ''llm-chat'' ''lesson'']))"

definition judge_output :: "env \<Rightarrow> int \<Rightarrow> string \<Rightarrow> worker_log \<Rightarrow> bool \<times> worker_log" where
  "judge_output E code tail h =
     (if code \<noteq> 0 then (False, h)
      else if found_in REPORTED_PROBLEM tail then verdict E AskOutputJudge ''ok'' h
      else (True, h))"

definition judge_tests :: "env \<Rightarrow> string \<Rightarrow> worker_log \<Rightarrow> bool \<times> worker_log" where
  "judge_tests E run h = (if found_in CHECK run then verdict E AskTestJudge ''acceptable'' h else (False, h))"

definition run_once :: "env \<Rightarrow> nat \<Rightarrow> step \<Rightarrow> string \<Rightarrow> nat \<Rightarrow> string \<Rightarrow> worker_log \<Rightarrow> bool \<times> string list \<times> string \<times> worker_log" where
  "run_once E n s cwd attempt run h =
     (let h1 = h @ [Journal ''controller'' ''command'', step_event (e_task E) n s cwd attempt run];
          (code0, out) = on_run (e_world E) h1;
          ends = map (\<lambda>m. group_text m 1) (re_finditer CWD_RX out);
          nothing = nothing_found run code0 out;
          code = (if nothing then 0 else code0);
          tail = rstrip_chars nl (re_sub CWD_RX (\<lambda>_. nl) out);
          h2 = h1 @ (if nothing then [Journal ''controller'' ''note''] else []) @ [Journal ''lab'' ''result''];
          (fine, h3) = judge_output E code tail h2
      in if fine then (True, ends, tail, h3)
         else (let (acceptable, h4) = judge_tests E run h3 in (acceptable, ends, tail, h4)))"

text \<open>Asking for a repair: \<open>None\<close> an exception, else \<open>Inl ()\<close> when the step's work is already done and \<open>Inr\<close> what to run
  from now on.\<close>

definition repair_step :: "env \<Rightarrow> nat \<Rightarrow> step \<Rightarrow> string \<Rightarrow> string \<Rightarrow> string \<Rightarrow> worker_log \<Rightarrow> (unit + string) option \<times> worker_log" where
  "repair_step E n s cwd run tail h =
     (let h1 = h @ [Asked AskRepair];
          fix = (case json_reply (e_loads E) (on_ask (e_world E) h1) of None \<Rightarrow> [] | Some d \<Rightarrow> d)
      in (case proposed (e_rep E) fix of
            None \<Rightarrow> (None, h1)
          | Some r \<Rightarrow>
              (let (ok, h2) =
                     (if jget fix ''then'' = JStr ''the step's work is already done'' \<and> r_before r = []
                      then (case really_done (e_world E) run tail (h1 @ [Journal ''llm-chat'' ''proposal'']) of
                              (ok, h') \<Rightarrow> (ok, h' @ [Journal ''controller'' ''note'']))
                      else (False, h1))
               in if ok then (Some (Inl ()), h2)
                  else
                    (case filter_repair (e_task E) (e_srcdir E) cwd s r of
                       None \<Rightarrow> (None, h2)
                     | Some (r', notes) \<Rightarrow>
                         (Some (Inr (if r_instead r' \<noteq> [] then r_instead r' else run)),
                          h2 @ replicate notes (Journal ''controller'' ''note'') @ [Journal ''llm-chat'' ''proposal''] @
                          (if r_before r' \<noteq> [] then [fix_event (e_task E) n s cwd (r_before r'), Journal ''lab'' ''result''] else []))))))"

datatype outcome = StepDone string | StepStuck | StepRaised

text \<open>The directory after a step: the last one it reported.\<close>

definition last_dir :: "string list \<Rightarrow> string \<Rightarrow> string" where
  "last_dir ends cwd = (if ends = [] then cwd else last ends)"

text \<open>\<^verbatim>\<open>run.strip().splitlines()[0]\<close>, for the heartbeat, raises for a blank text.\<close>

function step_loop :: "env \<Rightarrow> nat \<Rightarrow> step \<Rightarrow> string \<Rightarrow> nat \<Rightarrow> nat \<Rightarrow> string \<Rightarrow> worker_log \<Rightarrow> outcome \<times> nat \<times> worker_log" where
  "step_loop E n s cwd attempt repairs run h =
     (if py_strip run = [] then (StepRaised, repairs, h)
      else case run_once E n s cwd attempt run h of (passed, ends, tail, h1) \<Rightarrow>
        if passed then (StepDone (last_dir ends cwd), repairs, h1)
        else if REPAIRS_PER_STEP < attempt + 1 \<or> REPAIRS_PER_TASK < repairs + 1
        then (StepStuck, repairs + 1, h1 @ [Journal ''controller'' ''escalation'', SetState ''stuck''])
        else
          (case repair_step E n s cwd run tail h1 of (r, h2) \<Rightarrow>
            (case r of
               None \<Rightarrow> (StepRaised, repairs + 1, h2)
             | Some (Inl _) \<Rightarrow> (StepDone (last_dir ends cwd), repairs + 1, h2)
             | Some (Inr run') \<Rightarrow> step_loop E n s cwd (attempt + 1) (repairs + 1) run' h2)))"
  by pat_completeness auto
termination
  by (relation "measure (\<lambda>(E, n, s, cwd, attempt, repairs, run, h). REPAIRS_PER_STEP + 1 - attempt)") auto

declare step_loop.simps [simp del]

section \<open>Resuming\<close>

definition step_key :: "(jval \<Rightarrow> string) \<Rightarrow> step \<Rightarrow> string" where
  "step_key digest s = digest (JList [JStr (norm (s_run s)), (case s_as s of None \<Rightarrow> JNull | Some u \<Rightarrow> JStr u), JBool (s_omitted s)])"

text \<open>\<^verbatim>\<open>int(v or 0)\<close>: \<open>None\<close> an exception.\<close>

definition int_or_zero :: "jval \<Rightarrow> int option" where
  "int_or_zero v =
     (if \<not> jtruthy v then Some 0
      else (case v of JInt i \<Rightarrow> Some i | JBool b \<Rightarrow> Some 1 | JStr s \<Rightarrow> py_int s
        | JFloat r \<Rightarrow> Some (if r < 0 then - \<lfloor>- r\<rfloor> else \<lfloor>r\<rfloor>) | _ \<Rightarrow> None))"

definition same_keys :: "(jval \<Rightarrow> string) \<Rightarrow> step list \<Rightarrow> jval list \<Rightarrow> nat \<Rightarrow> bool" where
  "same_keys digest steps ks n \<longleftrightarrow> list_all (\<lambda>i. JStr (step_key digest (steps ! i)) = ks ! i) [0..<n]"

text \<open>The progress read from the machine is an object, or \<open>None\<close>.\<close>

definition resume_point :: "(jval \<Rightarrow> string) \<Rightarrow> jdict option \<Rightarrow> step list \<Rightarrow> nat option" where
  "resume_point digest progress steps =
     (case progress of
        None \<Rightarrow> Some 0
      | Some p \<Rightarrow>
          if p = [] then Some 0
          else
            (case int_or_zero (jget p ''done'') of
               None \<Rightarrow> None
             | Some n \<Rightarrow>
                 if n \<le> 0 \<or> int (length steps) < n then Some 0
                 else if \<not> jtruthy (jget p ''keys'') then Some 0
                 else
                   (case jget p ''keys'' of
                      JList ks \<Rightarrow> Some (if int (length ks) < n \<or> \<not> same_keys digest steps ks (nat n) then 0 else nat n)
                    | JStr t \<Rightarrow> Some (if int (length t) < n \<or> \<not> same_keys digest steps (chars_of t) (nat n) then 0 else nat n)
                    | JObj kvs \<Rightarrow> if int (length kvs) < n then Some 0 else None
                    | _ \<Rightarrow> None)))"

definition marker :: "(jval \<Rightarrow> string) \<Rightarrow> step list \<Rightarrow> nat \<Rightarrow> string \<Rightarrow> event" where
  "marker digest steps n cwd = Marker n (map (step_key digest) (take n steps)) cwd"

text \<open>The JSON of a marker, as a later attempt reads it.\<close>

definition marker_json :: "nat \<Rightarrow> string list \<Rightarrow> string \<Rightarrow> jdict" where
  "marker_json n keys cwd = [(''done'', JInt (int n)), (''keys'', JList (map JStr keys)), (''cwd'', JStr cwd)]"

section \<open>The steps of a task\<close>

text \<open>\<open>wget_at\<close> is the number of the book's download command in section 3.1, which the delivery of the sources stands for.
  The result is \<open>None\<close> for an exception, and whether all steps were done.\<close>

fun run_steps :: "env \<Rightarrow> step list \<Rightarrow> nat \<Rightarrow> int option \<Rightarrow> nat \<Rightarrow> step list \<Rightarrow> string \<Rightarrow> nat \<Rightarrow> bool \<Rightarrow> worker_log \<Rightarrow>
    bool option \<times> bool \<times> worker_log" where
  "run_steps E steps resume wget_at n [] cwd repairs delivered h = (Some True, delivered, h)"
| "run_steps E steps resume wget_at n (s # rest) cwd repairs delivered h =
     (if n < resume then run_steps E steps resume wget_at (n + 1) rest cwd repairs delivered h
      else
        (let due = (\<not> delivered \<and> (case s_book s of None \<Rightarrow> True | Some i \<Rightarrow> (case wget_at of None \<Rightarrow> False | Some k \<Rightarrow> k < i)));
             h0 = (if due then h @ [Delivered] else h); given = (delivered \<or> due) in
         if due \<and> \<not> on_deliver (e_world E) h0 then (None, False, h0)
         else if s_omitted s then run_steps E steps resume wget_at (n + 1) rest cwd repairs given h0
         else
           (case step_loop E n s cwd 0 repairs (s_run s) h0 of (out, repairs', h1) \<Rightarrow>
             (case out of
                StepDone cwd' \<Rightarrow>
                  run_steps E steps resume wget_at (n + 1) rest cwd' repairs' given (h1 @ [marker (e_digest E) steps (n + 1) cwd'])
              | StepStuck \<Rightarrow> (Some False, given, h1)
              | StepRaised \<Rightarrow> (None, given, h1)))))"

section \<open>A task\<close>

definition shell :: "world \<Rightarrow> string \<Rightarrow> worker_log \<Rightarrow> (int \<times> string) \<times> worker_log" where
  "shell w cmd h = (let h1 = h @ [Shell cmd] in (on_shell w h1, h1))"

definition checkpoint :: "world \<Rightarrow> string \<Rightarrow> worker_log \<Rightarrow> bool \<times> worker_log" where
  "checkpoint w when h = (let h1 = h @ [Checkpoint when] in (on_checkpoint w h1, h1 @ [Journal ''controller'' ''checkpoint'']))"

definition three_digits :: "nat \<Rightarrow> string" where
  "three_digits n = (let t = show_int (int n) in replicate (3 - length t) (CHR ''0'') @ t)"

definition progress_path :: "wtask \<Rightarrow> string" where
  "progress_path task = ''/var/log/lfs-build/task'' @ three_digits (w_seq task) @ ''.progress''"

definition read_progress :: "env \<Rightarrow> worker_log \<Rightarrow> jdict option \<times> worker_log" where
  "read_progress E h =
     (case shell (e_world E) (''cat '' @ progress_path (e_task E) @ '' 2>/dev/null'') h of ((code, out), h1) \<Rightarrow>
        ((if code = 0 \<and> py_strip out \<noteq> [] then e_loads E out else None), h1))"

definition unpack_cmd :: "wtask \<Rightarrow> string \<Rightarrow> string \<Rightarrow> string" where
  "unpack_cmd task src srcdir =
     ''cd '' @ LFS @ ''/sources && rm -rf '' @ shlex_quote srcdir @ '' && tar -xf '' @ shlex_quote src @ '' && chown -R '' @
     (if w_context task = ''host-lfs'' then ''lfs:lfs'' else ''root:root'') @ '' '' @ shlex_quote srcdir"

definition unpack :: "env \<Rightarrow> string \<Rightarrow> worker_log \<Rightarrow> bool \<times> worker_log" where
  "unpack E src h =
     (case shell (e_world E) (unpack_cmd (e_task E) src (e_srcdir E)) h of ((code, _), h1) \<Rightarrow>
        if code \<noteq> 0 then (False, h1 @ [Journal ''controller'' ''result'', SetState ''stuck''])
        else (True, h1 @ [Journal ''controller'' ''note'']))"

definition progressed :: "jdict option \<Rightarrow> bool" where
  "progressed p \<longleftrightarrow> (case p of None \<Rightarrow> False | Some d \<Rightarrow> jtruthy (jget d ''done''))"

text \<open>The source is looked at and unpacked, unless an earlier attempt left its tree: the directory of the source, the
  progress that still counts, and whether the unpacking is put off.\<close>

definition prepare_source :: "env \<Rightarrow> string option \<Rightarrow> jdict option \<Rightarrow> worker_log \<Rightarrow>
    (env \<times> string \<times> jdict option \<times> bool) option \<times> worker_log" where
  "prepare_source E src progress h =
     (let context = w_context (e_task E) in
      (case src of
         None \<Rightarrow> (Some (E, (if context = ''chroot'' then ''/'' else if context = ''host-lfs'' then LFS @ ''/sources'' else ''/root''), progress, False), h)
       | Some f \<Rightarrow>
           (case shell (e_world E) (''cd '' @ LFS @ ''/sources && tar -tf '' @ shlex_quote f @ '' | head -1 | cut -d/ -f1'') h of ((_, listed), h1) \<Rightarrow>
             (let dir = py_strip listed; E1 = E\<lparr>e_srcdir := dir\<rparr>;
                  cwd = (if context = ''chroot'' then ''/sources'' else LFS @ ''/sources'') @ ''/'' @ dir in
              (case shell (e_world E) (''test -d '' @ LFS @ ''/sources/'' @ shlex_quote dir) h1 of ((code, _), h2) \<Rightarrow>
                 if progressed progress \<and> code = 0 then (Some (E1, cwd, progress, True), h2)
                 else (case unpack E1 f h2 of (ok, h3) \<Rightarrow> ((if ok then Some (E1, cwd, None, False) else None), h3)))))))"

text \<open>The plan, asked for a second time if the first reply is of no use.  \<open>None\<close> is an exception.\<close>

definition ask_plan :: "env \<Rightarrow> worker_log \<Rightarrow> step list option \<times> worker_log" where
  "ask_plan E h =
     (let h1 = h @ [Asked AskPlan] in
      (map_option fst (plan_steps (e_rep E) (e_loads E) (e_task E) (on_ask (e_world E) h1)), h1 @ [Journal ''llm-chat'' ''proposal'']))"

definition plan_twice :: "env \<Rightarrow> worker_log \<Rightarrow> step list option \<times> worker_log" where
  "plan_twice E h = (case ask_plan E h of (p, h1) \<Rightarrow> if p = Some [] then ask_plan E h1 else (p, h1))"

definition wget_index :: "wtask \<Rightarrow> int option" where
  "wget_index task =
     (if w_number task = ''3.1''
      then map_option c_index (find (\<lambda>c. c_skipped c \<noteq> [] \<and> py_in ''wget'' (c_text c)) (w_commands task))
      else None)"

text \<open>What follows the steps.\<close>

definition lock_root :: "wtask \<Rightarrow> event" where
  "lock_root task = (let (pro, launch) = launcher (w_context task) None ''/'' in Ran OwnRun 0 ''usermod -L root'' (pro @ ''usermod -L root'' @ nl) launch)"

definition record_mounts_cmd :: string where
  "record_mounts_cmd = ''mkdir -p /var/lib/lfs-build && findmnt -rno SOURCE,TARGET | awk '' @ in_sq (''$2 ~ '' @ in_dq (''^'' @ LFS @ ''(/|$)'')) @
     '' | sort -k2 > /var/lib/lfs-build/mounts''"

definition finish_task :: "env \<Rightarrow> string \<Rightarrow> worker_log \<Rightarrow> worker_log" where
  "finish_task E vm_id h =
     (let task = e_task E in
      (let h1 = h @
        (if list_ex (\<lambda>c. c_skipped c \<noteq> [] \<and> matches (re ''%s*passwd root%s*$'') (c_text c)) (w_commands task)
         then [lock_root task, Journal ''controller'' ''note''] else []) @
        (if w_number task = ''2.7'' then [Shell record_mounts_cmd] else []) @
        [Shell (''rm -f '' @ progress_path task)] @
        (if e_srcdir E \<noteq> [] then [Shell (''cd '' @ LFS @ ''/sources && rm -rf '' @ shlex_quote (e_srcdir E))] else []) @
        [SetState ''done'']
       in if w_checkpoint_after task \<and> vm_id \<noteq> [] then snd (checkpoint (e_world E) ''after'' h1) else h1))"

definition run_plan :: "env \<Rightarrow> string \<Rightarrow> step list \<Rightarrow> nat \<Rightarrow> string \<Rightarrow> worker_log \<Rightarrow> bool option \<times> worker_log" where
  "run_plan E vm_id steps resume cwd h =
     (let wget_at = wget_index (e_task E) in
      (case run_steps E steps resume wget_at 0 steps cwd 0 (wget_at = None \<or> 0 < resume) (h @ [marker (e_digest E) steps resume cwd]) of
         (r, delivered, h1) \<Rightarrow>
           if r \<noteq> Some True then (r, h1)
           else
             (let h2 = (if delivered then h1 else h1 @ [Delivered]) in
              if \<not> delivered \<and> \<not> on_deliver (e_world E) h2 then (None, h2)
              else (Some True, finish_task E vm_id h2))))"

definition resume_and_run :: "env \<Rightarrow> string \<Rightarrow> string option \<Rightarrow> step list \<Rightarrow> jdict option \<Rightarrow> bool \<Rightarrow> string \<Rightarrow> worker_log \<Rightarrow> bool option \<times> worker_log" where
  "resume_and_run E vm_id src steps progress unpack_later cwd h =
     (case resume_point (e_digest E) progress steps of
        None \<Rightarrow> (None, h)
      | Some resume \<Rightarrow>
          if progressed progress \<and> resume = 0 then
            (let h1 = h @ [Journal ''controller'' ''note''] in
             (case (if unpack_later then unpack E (case src of None \<Rightarrow> [] | Some f \<Rightarrow> f) h1 else (True, h1)) of (ok, h2) \<Rightarrow>
                if ok then run_plan E vm_id steps 0 cwd h2 else (Some False, h2)))
          else if 0 < resume then
            (let dir = (case progress of None \<Rightarrow> JNull | Some p \<Rightarrow> jget p ''cwd'') in
             run_plan E vm_id steps resume (if jtruthy dir then py_str (e_rep E) dir else cwd) (h @ [Journal ''controller'' ''note'']))
          else run_plan E vm_id steps 0 cwd h)"

definition plan_and_run :: "env \<Rightarrow> bool \<Rightarrow> string \<Rightarrow> string option \<Rightarrow> jdict option \<Rightarrow> bool \<Rightarrow> string \<Rightarrow> worker_log \<Rightarrow> bool option \<times> worker_log" where
  "plan_and_run E plan_only vm_id src progress unpack_later cwd h =
     (case plan_twice E h of (p, h1) \<Rightarrow>
        (case p of
           None \<Rightarrow> (None, h1)
         | Some steps \<Rightarrow>
             if steps = [] then (Some False, h1 @ [Journal ''controller'' ''escalation'', SetState ''stuck''])
             else if plan_only then (Some True, h1 @ [SetState ''waiting''])
             else resume_and_run E vm_id src steps progress unpack_later cwd h1))"

definition controllers_own :: "wtask \<Rightarrow> bool" where
  "controllers_own task \<longleftrightarrow> w_commands task \<noteq> [] \<and> list_all (\<lambda>c. c_skipped c \<noteq> []) (w_commands task)"

definition do_controllers_own :: "env \<Rightarrow> string \<Rightarrow> worker_log \<Rightarrow> worker_log" where
  "do_controllers_own E vm_id h =
     (let h1 = h @ [Journal ''controller'' ''note'', SetState ''done''] in
      if w_checkpoint_after (e_task E) \<and> vm_id \<noteq> [] then snd (checkpoint (e_world E) ''after'' h1) else h1)"

definition run_sourced :: "env \<Rightarrow> bool \<Rightarrow> string \<Rightarrow> string option \<Rightarrow> worker_log \<Rightarrow> bool option \<times> worker_log" where
  "run_sourced E plan_only vm_id src h =
     (let (progress, h1) = (if 1 \<le> w_attempts (e_task E) \<and> \<not> plan_only then read_progress E h else (None, h));
          (prepared, h2) = prepare_source E src progress h1 in
      (case prepared of
         None \<Rightarrow> (Some False, h2)
       | Some (E1, cwd, progress1, unpack_later) \<Rightarrow>
           if controllers_own (e_task E) then (Some True, do_controllers_own E1 vm_id h2)
           else plan_and_run E1 plan_only vm_id src progress1 unpack_later cwd h2))"

definition run_task :: "env \<Rightarrow> source_entry list \<Rightarrow> bool \<Rightarrow> string \<Rightarrow> worker_log \<Rightarrow> bool option \<times> worker_log" where
  "run_task E files plan_only vm_id h =
     (let task = e_task E; h0 = h @ [SetState ''running'', Mounted];
          (ready, h1) = (if w_checkpoint_before task \<and> w_attempts task \<le> 1 \<and> \<not> plan_only \<and> vm_id \<noteq> []
                         then checkpoint (e_world E) ''before'' h0 else (True, h0)) in
      if \<not> ready then (Some False, h1 @ [SetState ''stuck''])
      else
        (case source_file (w_package task) (w_version task) (w_version_override task) files of
           None \<Rightarrow> (None, h1)
         | Some src \<Rightarrow> run_sourced E plan_only vm_id src h1))"

end
