(* ===== verification/Lfs_Plan_Props.thy ===== *)
theory Lfs_Plan_Props
  imports Lfs_Plan
begin

text \<open>
  What a plan of \<open>Lfs_Plan\<close> without problems guarantees, whatever the model replied: every command of the book in the
  book's order, each as the book has it or changed with a reason, and nothing that the policy forbids.
\<close>

section \<open>Sound steps\<close>

definition policy_ok :: "(int \<times> command) list \<Rightarrow> string \<Rightarrow> bool" where
  "policy_ok d run \<longleftrightarrow> \<not> found_in CREDENTIAL run \<and> foreign_words d run = [] \<and>
     (run \<noteq> [] \<longrightarrow> \<not> found_in DANGER run \<and> \<not> found_in DOWNLOAD run)"

definition as_root_in_lfs :: "string \<Rightarrow> step \<Rightarrow> bool" where
  "as_root_in_lfs context s \<longleftrightarrow> context = ''host-lfs'' \<and> s_as s = Some ''root''"

definition sound_added :: "string \<Rightarrow> (int \<times> command) list \<Rightarrow> step \<Rightarrow> bool" where
  "sound_added context d s \<longleftrightarrow> s_run s \<noteq> [] \<and> policy_ok d (s_run s) \<and> \<not> repeats_book d (s_run s) \<and> s_why s \<noteq> [] \<and>
     \<not> s_omitted s \<and> \<not> as_root_in_lfs context s"

definition sound_book :: "string \<Rightarrow> (int \<times> command) list \<Rightarrow> command \<Rightarrow> step \<Rightarrow> bool" where
  "sound_book context d c s \<longleftrightarrow> c_skipped c = [] \<and>
     (s_run s = c_text c \<or> s_why s \<noteq> [] \<and> (s_omitted s \<or> policy_ok d (s_run s) \<and> dropped_lines (c_text c) (s_run s) = [])) \<and>
     (s_omitted s \<longrightarrow> s_why s \<noteq> []) \<and> (as_root_in_lfs context s \<longrightarrow> c_as_root c)"

definition sound_step :: "string \<Rightarrow> (int \<times> command) list \<Rightarrow> step \<Rightarrow> bool" where
  "sound_step context d s \<longleftrightarrow>
     (case s_book s of None \<Rightarrow> sound_added context d s
      | Some i \<Rightarrow> (case map_of d i of None \<Rightarrow> False | Some c \<Rightarrow> sound_book context d c s))"

definition books :: "step list \<Rightarrow> int list" where
  "books steps = List.map_filter s_book steps"

definition wanted :: "(int \<times> command) list \<Rightarrow> int list" where
  "wanted d = map fst (filter (\<lambda>ic. c_skipped (snd ic) = []) d)"

definition plan_inv :: "string \<Rightarrow> (int \<times> command) list \<Rightarrow> step list \<Rightarrow> bool" where
  "plan_inv context d steps \<longleftrightarrow> books steps = wanted d \<and> list_all (sound_step context d) steps"

lemma books_simps [simp]:
  "books [] = []" "books (s # ss) = (case s_book s of None \<Rightarrow> books ss | Some i \<Rightarrow> i # books ss)" "books (xs @ ys) = books xs @ books ys"
  by (simp_all add: books_def map_filter_def split: option.split)

lemma distinct_by_index: "distinct (map fst (by_index cmds))"
proof -
  have "distinct (map fst (fold (\<lambda>c d. AList.update (c_index c) c d) cs d))" if "distinct (map fst d)" for cs and d :: "(int \<times> command) list"
    using that by (induction cs arbitrary: d) (simp_all add: distinct_update)
  then show ?thesis by (simp add: by_index_def)
qed

section \<open>The operations on steps\<close>

lemma plan_inv_start: "distinct (map fst d) \<Longrightarrow> plan_inv context d (book_steps context d)"
proof -
  assume d: "distinct (map fst d)"
  have "books (map (book_step context) xs) = map fst xs" for xs by (induction xs) (auto simp: book_step_def)
  moreover have "sound_step context d (book_step context ic)" if "ic \<in> set d" "c_skipped (snd ic) = []" for ic
  proof -
    have "map_of d (fst ic) = Some (snd ic)" using d that(1) by simp
    then show ?thesis using that(2) by (simp add: sound_step_def sound_book_def book_step_def as_root_in_lfs_def)
  qed
  ultimately show ?thesis by (auto simp: plan_inv_def book_steps_def wanted_def list_all_iff)
qed

lemma insert_step_split: "\<exists>xs ys. insert_step pos s steps = xs @ s # ys \<and> steps = xs @ ys"
proof -
  define same where "same = takeWhile (\<lambda>x. s_added_after x = s_added_after s) (drop pos steps)"
  have "drop pos steps = same @ drop (length same) (drop pos steps)"
    unfolding same_def by (metis dropWhile_eq_drop takeWhile_dropWhile_id)
  then have "insert_step pos s steps = (take pos steps @ same) @ s # drop (length same) (drop pos steps) \<and>
      steps = (take pos steps @ same) @ drop (length same) (drop pos steps)"
    unfolding insert_step_def Let_def same_def [symmetric] by (metis append.assoc append_take_drop_id)
  then show ?thesis by blast
qed

lemma plan_inv_insert:
  assumes "plan_inv context d steps" "s_book s = None" "sound_added context d s"
  shows "plan_inv context d (insert_step pos s steps)"
proof -
  obtain xs ys where "insert_step pos s steps = xs @ s # ys" "steps = xs @ ys" using insert_step_split by blast
  then show ?thesis using assms by (auto simp: plan_inv_def sound_step_def)
qed

lemma books_update: "(\<And>s. s_book (f s) = s_book s) \<Longrightarrow> books (update_step i f steps) = books steps"
  by (induction i f steps rule: update_step.induct) (auto split: option.split)

lemma plan_inv_update:
  assumes "plan_inv context d steps" "map_of d i = Some c" "\<And>s. s_book (f s) = s_book s"
    "\<And>s. sound_book context d c s \<Longrightarrow> sound_book context d c (f s)"
  shows "plan_inv context d (update_step i f steps)"
proof -
  have "list_all (sound_step context d) (update_step i f steps)" if "list_all (sound_step context d) steps"
    using that assms(2-4) by (induction steps) (auto simp: sound_step_def)
  then show ?thesis using assms(1,3) by (simp add: plan_inv_def books_update)
qed

section \<open>Changes\<close>

lemma refuse_simps [simp]: "snd (refuse p x) \<noteq> []" "fst (refuse p x) = fst x" "snd (refuse p x) = snd x @ [p]"
  by (simp_all add: refuse_def)

lemma change_command_sound:
  assumes "snd (change_command ch why run i c x) = []" "map_of d i = Some c" "why \<noteq> []" "policy_ok d run"
    "\<not> (jget ch ''as'' = JStr ''root'' \<and> context = ''host-lfs'') \<or> c_as_root c"
  shows "plan_inv context d (fst x) \<Longrightarrow> plan_inv context d (fst (change_command ch why run i c x))" "snd x = []"
proof -
  have omit: "plan_inv context d (update_step i (\<lambda>s. s\<lparr>s_run := [], s_omitted := True, s_why := why\<rparr>) ss)"
    if "plan_inv context d ss" for ss
    by (rule plan_inv_update [OF that assms(2)]) (use assms(3) in \<open>auto simp: sound_book_def as_root_in_lfs_def\<close>)
  have rerun: "plan_inv context d (update_step i (\<lambda>s. s\<lparr>s_run := run, s_changed := b, s_why := why\<rparr>) ss)"
    if "plan_inv context d ss" "dropped_lines (c_text c) run = []" for ss b
    by (rule plan_inv_update [OF that(1) assms(2)]) (use assms(3,4) that(2) in \<open>auto simp: sound_book_def as_root_in_lfs_def\<close>)
  have user: "plan_inv context d (update_step i (\<lambda>s. s\<lparr>s_as := Some u, s_why := (if why \<noteq> [] then why else s_why s)\<rparr>) ss)"
    if "plan_inv context d ss" "as_value (jget ch ''as'') = Some u" for ss u
  proof (rule plan_inv_update [OF that(1) assms(2)])
    have "u = ''root'' \<Longrightarrow> jget ch ''as'' = JStr ''root''" using that(2) by (auto simp: as_value_def split: jval.splits if_splits)
    then show "sound_book context d c (s\<lparr>s_as := Some u, s_why := (if why \<noteq> [] then why else s_why s)\<rparr>)" if "sound_book context d c s" for s
      using that assms(3,5) by (auto simp: sound_book_def as_root_in_lfs_def)
  qed simp
  show "plan_inv context d (fst x) \<Longrightarrow> plan_inv context d (fst (change_command ch why run i c x))" "snd x = []"
    using assms(1) omit rerun user by (auto simp: change_command_def Let_def split: if_splits option.splits)
qed

lemma add_step_sound:
  assumes "add_step d ch why run x = Some y" "snd y = []" "why \<noteq> []" "policy_ok d run"
    "\<not> (jget ch ''as'' = JStr ''root'' \<and> context = ''host-lfs'')"
  shows "plan_inv context d (fst x) \<Longrightarrow> plan_inv context d (fst y)" "snd x = []"
proof -
  obtain pos pl where y: "run \<noteq> []" "\<not> repeats_book d run" "y = apfst (insert_step pos \<lparr>s_book = None, s_run = run,
      s_as = as_value (jget ch ''as''), s_why = why, s_changed = True, s_omitted = False, s_added_after = Some pl\<rparr>) x"
    using assms(1,2) by (auto simp: add_step_def split: if_splits)
  have "as_value (jget ch ''as'') = Some ''root'' \<Longrightarrow> jget ch ''as'' = JStr ''root''"
    by (auto simp: as_value_def split: jval.splits if_splits)
  then have "sound_added context d \<lparr>s_book = None, s_run = run, s_as = as_value (jget ch ''as''), s_why = why, s_changed = True,
      s_omitted = False, s_added_after = Some pl\<rparr>"
    using assms(3-5) y(1,2) by (auto simp: sound_added_def as_root_in_lfs_def)
  then show "plan_inv context d (fst x) \<Longrightarrow> plan_inv context d (fst y)" "snd x = []"
    using plan_inv_insert y(3) assms(2) by simp_all
qed

lemma make_change_sound:
  assumes "make_change rep context d ch x = Some y" "snd y = []"
  shows "snd x = [] \<and> (plan_inv context d (fst x) \<longrightarrow> plan_inv context d (fst y))"
proof -
  define why run where "why = or_text rep (jget ch ''why'')" and "run = or_text rep (jget ch ''run'')"
  note step = assms(1) [unfolded make_change_def Let_def, folded why_def run_def]
  show ?thesis
  proof (cases "is_remark ch run")
    case True
    then show ?thesis using step assms(2) by simp
  next
    case False
    have root: "unbidden_root context d ch = Some False" and why: "why \<noteq> []"
      using step assms(2) False by (auto split: if_splits option.splits bool.splits dest!: add_step_sound(2) simp: change_command_def Let_def add_step_def)
    have policy: "policy_ok d run"
      using step assms(2) False root by (auto simp: policy_ok_def split: if_splits)
    have safe: "\<not> found_in CREDENTIAL run" "foreign_words d run = []" "\<not> (run \<noteq> [] \<and> found_in DANGER run)" "\<not> (run \<noteq> [] \<and> found_in DOWNLOAD run)"
      using policy by (auto simp: policy_ok_def)
    show ?thesis
    proof (cases "jget ch ''book'' = JNull")
      case True
      then have "add_step d ch why run x = Some y" using step False root why safe by simp
      moreover have "\<not> (jget ch ''as'' = JStr ''root'' \<and> context = ''host-lfs'')"
        using root True by (auto simp: unbidden_root_def lookup_def as_index_def split: if_splits)
      ultimately show ?thesis using add_step_sound assms(2) why policy by blast
    next
      case book: False
      obtain c where c: "lookup d (jget ch ''book'') = Some (Some c)" "y = change_command ch why run (the (the (as_index (jget ch ''book'')))) c x"
        using step False root why safe book assms(2) by (auto split: option.splits)
      have "map_of d (the (the (as_index (jget ch ''book'')))) = Some c" using c(1) by (auto simp: lookup_def split: Option.bind_splits)
      moreover have "\<not> (jget ch ''as'' = JStr ''root'' \<and> context = ''host-lfs'') \<or> c_as_root c"
        using root c(1) by (auto simp: unbidden_root_def split: if_splits)
      ultimately show ?thesis using change_command_sound [where ch = ch and why = why and run = run and c = c and x = x and d = d] c(2) assms(2) why policy by blast
    qed
  qed
qed

lemma make_changes_sound:
  "make_changes rep cx d chs x = Some y \<Longrightarrow> snd y = [] \<Longrightarrow> snd x = [] \<and> (plan_inv cx d (fst x) \<longrightarrow> plan_inv cx d (fst y))"
proof (induction rep cx d chs x rule: make_changes.induct)
  case (2 rep cx d ch chs x)
  obtain z where z: "make_change rep cx d ch x = Some z" "make_changes rep cx d chs z = Some y"
    using 2(2) by (auto split: Option.bind_splits)
  show ?case using 2(1) [OF z 2(3)] make_change_sound [OF z(1)] by blast
qed simp_all

section \<open>Accepted plans\<close>

lemma plan_steps_sound:
  assumes "plan_steps rep loads task reply = Some (steps, [])"
  shows "plan_inv (w_context task) (by_index (w_commands task)) steps \<and> plan_problems (by_index (w_commands task)) steps = []"
proof -
  let ?d = "by_index (w_commands task)"
  obtain data changes x where o: "reply_data loads reply = Some data" "jget data ''changes'' = JList changes"
    "make_changes rep (w_context task) ?d changes (book_steps (w_context task) ?d, []) = Some x" "snd x = []" "plan_problems ?d (fst x) = []" "steps = fst x"
    using assms by (auto simp: plan_steps_def Let_def split: option.splits jval.splits if_splits)
  then show ?thesis using make_changes_sound [OF o(3,4)] plan_inv_start [OF distinct_by_index] by simp
qed

text \<open>
  C7: A plan without problems is the book's section: it has exactly the commands that are not skipped, in the book's order;
  each runs as the book has it, or is left out or changed for a reason, and a change keeps every line; no changed or
  added step sets a password, downloads, touches another disk or uses a system command that the section does not;
  as root run only the book's own root commands in a section of the \<^verbatim>\<open>lfs\<close> user; no placeholder is left; no file of \<^verbatim>\<open>/etc\<close> or
  \<^verbatim>\<open>/boot\<close> is lost by leaving out its command; and something runs.
\<close>

theorem plan_follows_book:
  assumes "plan_steps rep loads task reply = Some (steps, [])"
  shows "books steps = wanted (by_index (w_commands task)) \<and> list_all (sound_step (w_context task) (by_index (w_commands task))) steps \<and>
    \<not> list_ex has_placeholder steps \<and> \<not> list_ex (unwritten (by_index (w_commands task)) steps) steps \<and> \<not> list_all s_omitted steps"
  using plan_steps_sound [OF assms]
  by (auto simp: plan_inv_def plan_problems_def filter_empty_conv list_ex_iff split: if_splits)

section \<open>A plan\<close>

definition demo_command :: "int \<Rightarrow> string \<Rightarrow> command" where
  "demo_command i t = \<lparr>c_index = i, c_text = t, c_subsection = [], c_as_root = False, c_skipped = []\<rparr>"

definition demo_task :: wtask where
  "demo_task = \<lparr>w_number = ''5.4'', w_title = ''M4'', w_seq = 7, w_context = ''host-lfs'', w_package = [], w_version = [], w_version_override = [],
     w_attempts = 0, w_checkpoint_before = False, w_checkpoint_after = False,
     w_commands = [demo_command 0 ''make'', demo_command 1 ''make doc''], w_journal = []\<rparr>"

definition demo_changes :: "jval list" where
  "demo_changes =
     [JObj [(''book'', JInt 0), (''run'', JStr ''make -k''), (''why'', JStr ''slow'')],
      JObj [(''book'', JInt 1), (''omit'', JBool True), (''why'', JStr ''no'')],
      JObj [(''after'', JInt 0), (''run'', JStr ''ls''), (''why'', JStr ''look'')]]"

definition demo_data :: jdict where "demo_data = [(''changes'', JList demo_changes)]"

definition demo_steps :: "step list" where
  "demo_steps =
     [\<lparr>s_book = Some 0, s_run = ''make -k'', s_as = None, s_why = ''slow'', s_changed = True, s_omitted = False, s_added_after = None\<rparr>,
      \<lparr>s_book = None, s_run = ''ls'', s_as = None, s_why = ''look'', s_changed = True, s_omitted = False, s_added_after = Some (After 0)\<rparr>,
      \<lparr>s_book = Some 1, s_run = [], s_as = None, s_why = ''no'', s_changed = False, s_omitted = True, s_added_after = None\<rparr>]"

lemma demo_reply: "json_reply (\<lambda>_. Some demo_data) ''{}'' = Some demo_data" "\<not> matches AS_THE_BOOK ''{}''"
  by code_simp+

lemma demo_clean: "\<not> found_in CREDENTIAL ''make -k''" "\<not> found_in CREDENTIAL ''ls''" "\<not> found_in CREDENTIAL []"
  "\<not> found_in DANGER ''make -k''" "\<not> found_in DANGER ''ls''" "\<not> found_in DOWNLOAD ''make -k''" "\<not> found_in DOWNLOAD ''ls''"
  "system_words ''make -k'' = []" "system_words ''ls'' = []" "system_words [] = []"
  by code_simp+

lemma demo_norms: "norm ''make'' = ''make''" "norm ''make -k'' = ''make -k''" "norm ''ls'' = ''ls''" "norm ''make doc'' = ''make doc''"
  "dropped_lines ''make'' ''make -k'' = []" "writes_config ''make doc'' = []"
  by code_simp+

lemma demo_no_placeholder: "\<not> list_ex has_placeholder demo_steps"
  by code_simp

lemma demo_lfs_plan: "plan_steps (\<lambda>_. []) (\<lambda>_. Some demo_data) demo_task ''{}'' = Some (demo_steps, [])"
proof -
  let ?d = "[(0, demo_command 0 ''make''), (1, demo_command 1 ''make doc'')]"
  have d: "by_index (w_commands demo_task) = ?d" by (simp add: by_index_def demo_task_def demo_command_def)
  have "make_changes (\<lambda>_. []) ''host-lfs'' ?d demo_changes (book_steps ''host-lfs'' ?d, []) = Some (demo_steps, [])"
    by (simp add: demo_changes_def make_change_def is_remark_def jget_def or_text_def demo_clean foreign_words_def unbidden_root_def
        lookup_def as_index_def change_command_def demo_command_def demo_norms add_step_def repeats_book_def added_place_def
        insert_step_def book_steps_def book_step_def as_value_def demo_steps_def Let_def)
  moreover have "plan_problems ?d demo_steps = []"
    using demo_no_placeholder by (simp add: plan_problems_def) (simp add: demo_steps_def unwritten_def demo_command_def demo_norms)
  ultimately show ?thesis
    using d by (simp add: plan_steps_def reply_data_def demo_reply) (simp add: demo_data_def jget_def demo_task_def)
qed

theorem plan_follows_book_witness:
  "books demo_steps = wanted (by_index (w_commands demo_task)) \<and> list_all (sound_step ''host-lfs'' (by_index (w_commands demo_task))) demo_steps"
  using plan_follows_book [OF demo_lfs_plan] by (simp add: demo_task_def)

end
