(* ===== verification/Lfs_Worker_Props.thy ===== *)
theory Lfs_Worker_Props
  imports Lfs_Worker Lfs_Plan_Props
begin

text \<open>
  What holds of the worker of \<open>Lfs_Worker\<close> for every behaviour of the build machine and of the language model: only
  steps of an accepted plan and admitted repairs are run, the number of runs is bounded, and attempts at a task neither
  repeat a finished step nor skip an unfinished one.
\<close>

section \<open>Repairs that are admitted\<close>

definition safe_text :: "wtask \<Rightarrow> string \<Rightarrow> bool" where
  "safe_text task t \<longleftrightarrow> \<not> found_in CREDENTIAL t \<and> bad_words task t = [] \<and> \<not> found_in DOWNLOAD t \<and> \<not> found_in DANGER t"

definition keeps_command :: "wtask \<Rightarrow> step \<Rightarrow> repair \<Rightarrow> bool" where
  "keeps_command task s r \<longleftrightarrow>
     (case Option.bind (s_book s) (\<lambda>i. command_at task (Some i)) of
        None \<Rightarrow> True
      | Some c \<Rightarrow> r_instead r = [] \<or> c_text c = [] \<or> subseq (book_words (c_text c)) (filter (\<lambda>w. w \<noteq> [backslash]) (py_split (r_instead r))))"

definition deletes_inside :: "string \<Rightarrow> repair \<Rightarrow> bool" where
  "deletes_inside srcdir r \<longleftrightarrow>
     (\<exists>r0 cwd. deletes_outside (repair_text r0) srcdir cwd = Some False \<and> r_before r = r_before r0 \<and> (r_instead r = [] \<or> r_instead r = r_instead r0))"

definition admitted :: "wtask \<Rightarrow> string \<Rightarrow> step \<Rightarrow> repair \<Rightarrow> bool" where
  "admitted task srcdir s r \<longleftrightarrow> safe_text task (repair_text r) \<and> keeps_command task s r \<and> \<not> out_of_order task s r \<and>
     (r = no_repair \<or> deletes_inside srcdir r)"

lemma nl_safe: "\<not> found_in CREDENTIAL nl" "system_words nl = []" "\<not> found_in DOWNLOAD nl" "\<not> found_in DANGER nl" "norm nl = []"
  by code_simp+

lemma no_repair_text: "repair_text no_repair = nl"
  by (simp add: repair_text_def no_repair_def)

lemma no_repair_safe: "safe_text task (repair_text no_repair)" "\<not> out_of_order task s no_repair" "keeps_command task s no_repair"
proof -
  show "safe_text task (repair_text no_repair)" by (simp add: no_repair_text safe_text_def nl_safe bad_words_def)
  have "\<not> py_in w []" if "8 \<le> length w" for w using that by (auto simp: py_in_iff)
  then show "\<not> out_of_order task s no_repair"
    by (auto simp: out_of_order_def runs_later_def no_repair_text nl_safe list_ex_iff split: option.splits)
  show "keeps_command task s no_repair" by (simp add: keeps_command_def no_repair_def split: option.split)
qed

text \<open>A refusal keeps what holds of no repair, and establishes that it would not refuse.\<close>

lemma drop_if_keeps: "P (fst x) \<Longrightarrow> P no_repair \<Longrightarrow> P (fst (drop_if refused x))"
  by (simp add: drop_if_def)

lemma drop_if_clears: "\<not> refused no_repair \<Longrightarrow> \<not> refused (fst (drop_if refused x))"
  by (simp add: drop_if_def)

lemma keep_command_keeps: "keeps_command task s (fst (keep_command task s x))"
  by (auto simp: keep_command_def keeps_command_def keeps_words_subseq split: option.split)

lemma keep_command_parts:
  "r_before (fst (keep_command task s x)) = r_before (fst x)"
  "r_instead (fst (keep_command task s x)) = [] \<or> r_instead (fst (keep_command task s x)) = r_instead (fst x)"
  by (auto simp: keep_command_def split: option.split)

lemma filter_repair_admits:
  assumes "filter_repair task srcdir cwd s r = Some (r', k)"
  shows "admitted task srcdir s r'"
proof -
  obtain deletes where del: "deletes_outside (repair_text r) srcdir cwd = Some deletes" using assms by (auto simp: filter_repair_def)
  define x0 where "x0 = drop_if (\<lambda>_. deletes) (r, 0)"
  define x1 where "x1 = keep_command task s x0"
  define x2 where "x2 = drop_if (out_of_order task s) x1"
  define x3 where "x3 = drop_if (\<lambda>r. found_in CREDENTIAL (repair_text r)) x2"
  define x4 where "x4 = drop_if (\<lambda>r. bad_words task (repair_text r) \<noteq> []) x3"
  define x5 where "x5 = drop_if (\<lambda>r. found_in DOWNLOAD (repair_text r)) x4"
  define x6 where "x6 = drop_if (\<lambda>r. found_in DANGER (repair_text r)) x5"
  note xs = x6_def x5_def x4_def x3_def x2_def
  have r': "r' = fst x6" using assms del by (simp add: filter_repair_def x0_def x1_def xs)
  have blank: "\<not> found_in CREDENTIAL (repair_text no_repair)" "bad_words task (repair_text no_repair) = []"
    "\<not> found_in DOWNLOAD (repair_text no_repair)" "\<not> found_in DANGER (repair_text no_repair)"
    using no_repair_safe(1) by (simp_all add: safe_text_def)
  let ?inside = "\<lambda>r. r = no_repair \<or> deletes_inside srcdir r"
  have "?inside (fst x1)"
  proof (cases deletes)
    case True
    then have "fst x1 = no_repair"
      using keep_command_parts [of task s x0] by (simp add: x1_def x0_def drop_if_def no_repair_def)
    then show ?thesis ..
  next
    case False
    then have "fst x0 = r" by (simp add: x0_def drop_if_def)
    then have "r_before (fst x1) = r_before r \<and> (r_instead (fst x1) = [] \<or> r_instead (fst x1) = r_instead r)"
      using keep_command_parts [of task s x0] by (simp add: x1_def)
    moreover have "deletes_outside (repair_text r) srcdir cwd = Some False" using del False by simp
    ultimately show ?thesis unfolding deletes_inside_def by blast
  qed
  then have "?inside (fst x6)" unfolding xs by (intro drop_if_keeps [where P = ?inside]) simp_all
  moreover have "keeps_command task s (fst x6)" unfolding xs
    by (intro drop_if_keeps [where P = "keeps_command task s"] no_repair_safe(3)) (simp add: x1_def keep_command_keeps)
  moreover have "\<not> out_of_order task s (fst x6)" unfolding x6_def x5_def x4_def x3_def
    by (intro drop_if_keeps [where P = "\<lambda>r. \<not> out_of_order task s r"] no_repair_safe(2)) (simp add: x2_def drop_if_clears no_repair_safe(2))
  moreover have "\<not> found_in CREDENTIAL (repair_text (fst x6))" unfolding x6_def x5_def x4_def
    by (intro drop_if_keeps [where P = "\<lambda>r. \<not> found_in CREDENTIAL (repair_text r)"] blank(1)) (simp add: x3_def drop_if_def blank(1))
  moreover have "bad_words task (repair_text (fst x6)) = []" unfolding x6_def x5_def
    by (intro drop_if_keeps [where P = "\<lambda>r. bad_words task (repair_text r) = []"] blank(2))
      (simp add: x4_def drop_if_def blank(2))
  moreover have "\<not> found_in DOWNLOAD (repair_text (fst x6))" unfolding x6_def
    by (intro drop_if_keeps [where P = "\<lambda>r. \<not> found_in DOWNLOAD (repair_text r)"] blank(3)) (simp add: x5_def drop_if_def blank(3))
  moreover have "\<not> found_in DANGER (repair_text (fst x6))" by (simp add: x6_def drop_if_def blank(4))
  ultimately show ?thesis by (simp add: admitted_def safe_text_def r')
qed

section \<open>Runs in a log\<close>

fun run_of :: "event \<Rightarrow> (run_kind \<times> nat) option" where
  "run_of (Ran k n body script launch) = Some (k, n)"
| "run_of _ = None"

definition runs :: "run_kind \<Rightarrow> worker_log \<Rightarrow> nat" where
  "runs k h = length (filter (\<lambda>e. map_option fst (run_of e) = Some k) h)"

definition ran :: "nat \<Rightarrow> worker_log \<Rightarrow> bool" where
  "ran n h \<longleftrightarrow> Some (StepRun, n) \<in> run_of ` set h"

text \<open>The events inside a step that are not runs.\<close>

fun aside :: "event \<Rightarrow> bool" where
  "aside (Asked k) = True"
| "aside (Shell c) = True"
| "aside (Journal who kind) = True"
| "aside (SetState st) = True"
| "aside _ = False"

abbreviation quiet :: "worker_log \<Rightarrow> bool" where
  "quiet h \<equiv> list_all aside h"

lemma aside_run_of: "aside e \<Longrightarrow> run_of e = None"
  by (cases e) simp_all

lemma runs_simps [simp]: "runs k [] = 0" "runs k (e # h) = (if map_option fst (run_of e) = Some k then 1 else 0) + runs k h"
  "runs k (g @ h) = runs k g + runs k h"
  by (simp_all add: runs_def)

lemma ran_simps [simp]: "\<not> ran n []" "ran n (e # h) \<longleftrightarrow> run_of e = Some (StepRun, n) \<or> ran n h" "ran n (g @ h) \<longleftrightarrow> ran n g \<or> ran n h"
  by (auto simp: ran_def)

lemma quiet_runs: "quiet h \<Longrightarrow> runs k h = 0" "quiet h \<Longrightarrow> \<not> ran n h"
  by (induction h) (auto simp: aside_run_of)

lemma run_of_step_event [simp]: "run_of (step_event task n s cwd a run) = Some (StepRun, n)"
  by (simp add: step_event_def Let_def split_beta)

lemma run_of_fix_event [simp]: "run_of (fix_event task n s cwd before) = Some (FixRun, n)"
  by (simp add: fix_event_def Let_def split_beta)

lemma run_of_marker [simp]: "run_of (marker digest steps n cwd) = None"
  by (simp add: marker_def)

text \<open>What a step may run: what the plan says or an admitted replacement, and admitted repairs.\<close>

definition may_run :: "env \<Rightarrow> step \<Rightarrow> string \<Rightarrow> bool" where
  "may_run E s run \<longleftrightarrow> run = s_run s \<or> (\<exists>r. admitted (e_task E) (e_srcdir E) s r \<and> run = r_instead r)"

definition step_event_ok :: "env \<Rightarrow> nat \<Rightarrow> step \<Rightarrow> event \<Rightarrow> bool" where
  "step_event_ok E n s e \<longleftrightarrow> aside e \<or>
     (\<exists>cwd a run. may_run E s run \<and> e = step_event (e_task E) n s cwd a run) \<or>
     (\<exists>cwd r. admitted (e_task E) (e_srcdir E) s r \<and> e = fix_event (e_task E) n s cwd (r_before r))"

lemma quiet_event_ok [simp]: "aside e \<Longrightarrow> step_event_ok E n s e"
  by (simp add: step_event_ok_def)

lemma quiet_ok: "quiet h \<Longrightarrow> list_all (step_event_ok E n s) h"
  by (auto simp: list_all_iff step_event_ok_def)

section \<open>One step\<close>

lemma verdict_log: "\<exists>evs. snd (verdict E k key h) = h @ evs \<and> quiet evs"
  by (simp add: verdict_def Let_def)

lemma judge_output_log: "\<exists>evs. snd (judge_output E code tail h) = h @ evs \<and> quiet evs"
  using verdict_log by (simp add: judge_output_def)

lemma judge_tests_log: "\<exists>evs. snd (judge_tests E run h) = h @ evs \<and> quiet evs"
  using verdict_log by (simp add: judge_tests_def)

lemma run_once_log:
  assumes "run_once E n s cwd a run h = (passed, ends, tail, h1)"
  shows "\<exists>evs. h1 = h @ Journal ''controller'' ''command'' # step_event (e_task E) n s cwd a run # evs \<and> quiet evs"
proof -
  define h0 where "h0 = h @ [Journal ''controller'' ''command'', step_event (e_task E) n s cwd a run]"
  obtain code0 out where r: "on_run (e_world E) h0 = (code0, out)" by fastforce
  define pre where "pre = (if nothing_found run code0 out then [Journal ''controller'' ''note''] else []) @ [Journal ''lab'' ''result'']"
  define code where "code = (if nothing_found run code0 out then 0 else code0)"
  define said where "said = rstrip_chars nl (re_sub CWD_RX (\<lambda>_. nl) out)"
  obtain fine h3 where j: "judge_output E code said (h0 @ pre) = (fine, h3)" by fastforce
  obtain ok h4 where t: "judge_tests E run h3 = (ok, h4)" by fastforce
  have "h1 = (if fine then h3 else h4)"
    using assms r j t by (auto simp: run_once_def Let_def h0_def pre_def code_def said_def)
  moreover have "\<exists>evs. h3 = h0 @ evs \<and> quiet evs"
    using judge_output_log [of E code said "h0 @ pre"] j by (auto simp: pre_def)
  moreover have "\<exists>evs. h4 = h3 @ evs \<and> quiet evs" using judge_tests_log [of E run h3] t by simp
  ultimately show ?thesis by (auto simp: h0_def)
qed

lemma all_there_log: "\<exists>evs. snd (all_there w ts h) = h @ evs \<and> quiet evs"
proof (induction ts arbitrary: h)
  case (Cons t ts)
  obtain evs where "snd (all_there w ts (h @ [Shell (test_dir t)])) = (h @ [Shell (test_dir t)]) @ evs" "quiet evs" using Cons by blast
  then show ?case by (simp add: Let_def)
qed simp

lemma really_done_log: "\<exists>evs. snd (really_done w run out h) = h @ evs \<and> quiet evs"
  using all_there_log by (simp add: really_done_def)

lemma repair_step_log:
  assumes "repair_step E n s cwd run tail h = (res, h1)"
  shows "\<exists>evs. h1 = h @ evs \<and> list_all (step_event_ok E n s) evs \<and> runs StepRun evs = 0 \<and> runs FixRun evs \<le> (if \<exists>x. res = Some (Inr x) then 1 else 0) \<and>
    (\<forall>x. res = Some (Inr x) \<longrightarrow> may_run E s run \<longrightarrow> may_run E s x)"
proof -
  define h0 where "h0 = h @ [Asked AskRepair]"
  define d where "d = (case json_reply (e_loads E) (on_ask (e_world E) h0) of None \<Rightarrow> [] | Some d \<Rightarrow> d)"
  note r = assms [unfolded repair_step_def Let_def, folded h0_def, folded d_def]
  show ?thesis
  proof (cases "proposed (e_rep E) d")
    case None
    then show ?thesis using r by (auto simp: h0_def)
  next
    case (Some r0)
    obtain ok h2 where ok: "(if jget d ''then'' = JStr ''the step's work is already done'' \<and> r_before r0 = []
        then (case really_done (e_world E) run tail (h0 @ [Journal ''llm-chat'' ''proposal'']) of (ok, h') \<Rightarrow> (ok, h' @ [Journal ''controller'' ''note'']))
        else (False, h0)) = (ok, h2)" by fastforce
    have "\<exists>evs. h2 = h @ evs \<and> quiet evs"
      using ok really_done_log [of "e_world E" run tail "h0 @ [Journal ''llm-chat'' ''proposal'']"]
      by (auto simp: h0_def split: if_splits prod.splits)
    then obtain evs where evs: "h2 = h @ evs" "quiet evs" by blast
    show ?thesis
    proof (cases "ok \<or> filter_repair (e_task E) (e_srcdir E) cwd s r0 = None")
      case True
      have "(res = Some (Inl ()) \<or> res = None) \<and> h1 = h2" using r Some ok True by (cases ok) auto
      then show ?thesis using evs quiet_runs(1) [OF evs(2)] quiet_ok [OF evs(2)] by auto
    next
      case False
      then obtain r1 cnt where f: "filter_repair (e_task E) (e_srcdir E) cwd s r0 = Some (r1, cnt)" by fastforce
      have adm: "admitted (e_task E) (e_srcdir E) s r1" using filter_repair_admits [OF f] .
      define ex where "ex = replicate cnt (Journal ''controller'' ''note'') @ [Journal ''llm-chat'' ''proposal''] @
        (if r_before r1 \<noteq> [] then [fix_event (e_task E) n s cwd (r_before r1), Journal ''lab'' ''result''] else [])"
      have res: "res = Some (Inr (if r_instead r1 \<noteq> [] then r_instead r1 else run))" "h1 = h @ evs @ ex"
        using r Some ok False f evs(1) by (auto simp: ex_def)
      have "list_all (step_event_ok E n s) ex" using adm by (auto simp: ex_def step_event_ok_def list_all_iff)
      moreover have "runs StepRun ex = 0" "runs FixRun ex \<le> 1"
        using quiet_runs(1) [of "replicate cnt (Journal ''controller'' ''note'')"] by (auto simp: ex_def list_all_iff)
      moreover have "may_run E s run \<longrightarrow> may_run E s (if r_instead r1 \<noteq> [] then r_instead r1 else run)"
        using adm by (auto simp: may_run_def)
      ultimately show ?thesis using res evs quiet_runs(1) [OF evs(2)] quiet_ok [OF evs(2)] by (intro exI [of _ "evs @ ex"]) auto
    qed
  qed
qed

text \<open>What the loop of a step adds to the log, and what it costs.\<close>

definition step_cost :: "outcome \<Rightarrow> nat \<Rightarrow> nat \<Rightarrow> worker_log \<Rightarrow> bool" where
  "step_cost out before after evs \<longleftrightarrow>
     (case out of
        StepDone _ \<Rightarrow> before + runs StepRun evs \<le> after + 1 \<and> before + runs FixRun evs \<le> after \<and> after \<le> REPAIRS_PER_TASK
      | StepStuck \<Rightarrow> before + runs StepRun evs \<le> after \<and> before + runs FixRun evs < after \<and> after \<le> REPAIRS_PER_TASK + 1
      | StepRaised \<Rightarrow> before + runs StepRun evs \<le> after \<and> before + runs FixRun evs \<le> after \<and> after \<le> REPAIRS_PER_TASK)"

lemma step_loop_log:
  assumes "step_loop E n s cwd a repairs run h = (out, repairs', h1)" "may_run E s run" "repairs \<le> REPAIRS_PER_TASK"
  shows "\<exists>evs. h1 = h @ evs \<and> list_all (step_event_ok E n s) evs \<and> ((\<exists>d. out = StepDone d) \<longrightarrow> ran n evs) \<and> step_cost out repairs repairs' evs"
  using assms
proof (induction E n s cwd a repairs run h arbitrary: out repairs' h1 rule: step_loop.induct)
  case (1 E n s cwd a repairs run h)
  obtain passed ends tail h2 where once: "run_once E n s cwd a run h = (passed, ends, tail, h2)" by (metis surj_pair)
  then obtain evs where evs: "h2 = h @ Journal ''controller'' ''command'' # step_event (e_task E) n s cwd a run # evs" "quiet evs"
    using run_once_log by blast
  define first where "first = Journal ''controller'' ''command'' # step_event (e_task E) n s cwd a run # evs"
  have first: "h2 = h @ first" "list_all (step_event_ok E n s) first" "ran n first" "runs StepRun first = 1" "runs FixRun first = 0"
    using evs quiet_runs(1) [OF evs(2)] quiet_ok [OF evs(2)] "1.prems"(2) by (auto simp: first_def step_event_ok_def)
  note loop = "1.prems"(1) [unfolded step_loop.simps [of E n s cwd a repairs run h] once, simplified]
  consider (blank) "py_strip run = []" | (passed) "py_strip run \<noteq> []" passed | (failed) "py_strip run \<noteq> []" "\<not> passed" by blast
  then show ?case
  proof cases
    case blank
    then show ?thesis using loop "1.prems"(3) by (auto simp: step_cost_def)
  next
    case passed
    then show ?thesis using loop first "1.prems"(3) by (auto simp: step_cost_def)
  next
    case failed
    show ?thesis
    proof (cases "REPAIRS_PER_STEP < a + 1 \<or> REPAIRS_PER_TASK < repairs + 1")
      case True
      then have "out = StepStuck" "repairs' = repairs + 1" "h1 = h @ first @ [Journal ''controller'' ''escalation'', SetState ''stuck'']"
        using loop failed first(1) by auto
      then show ?thesis using first "1.prems"(3)
        by (intro exI [of _ "first @ [Journal ''controller'' ''escalation'', SetState ''stuck'']"]) (auto simp: step_cost_def)
    next
      case more: False
      obtain res h3 where rep: "repair_step E n s cwd run tail h2 = (res, h3)" by fastforce
      then obtain evs2 where evs2: "h3 = h2 @ evs2" "list_all (step_event_ok E n s) evs2" "runs StepRun evs2 = 0"
          "runs FixRun evs2 \<le> (if \<exists>x. res = Some (Inr x) then 1 else 0)" "\<And>x. res = Some (Inr x) \<Longrightarrow> may_run E s run \<Longrightarrow> may_run E s x"
        using repair_step_log [OF rep] by blast
      show ?thesis
      proof (cases "\<exists>x. res = Some (Inr x)")
        case True
        then obtain x where x: "res = Some (Inr x)" by blast
        then have "step_loop E n s cwd (a + 1) (repairs + 1) x h3 = (out, repairs', h1)" using loop failed more rep by simp
        then obtain evs3 where evs3: "h1 = h3 @ evs3" "list_all (step_event_ok E n s) evs3" "step_cost out (repairs + 1) repairs' evs3"
          using "1.IH" [OF failed(1) once [symmetric] refl refl failed(2) more rep [symmetric] x refl] evs2(5) [OF x] "1.prems"(2) more by force
        then show ?thesis using first evs2 by (intro exI [of _ "first @ evs2 @ evs3"]) (auto simp: step_cost_def split: outcome.splits if_splits)
      next
        case False
        then have "(out = StepDone (last_dir ends cwd) \<or> out = StepRaised) \<and> repairs' = repairs + 1 \<and> h1 = h3"
          using loop failed more rep by (auto split: option.splits sum.splits)
        then show ?thesis using first evs2 more False by (intro exI [of _ "first @ evs2"]) (auto simp: step_cost_def split: if_splits)
      qed
    qed
  qed
qed

section \<open>The steps of a plan\<close>

definition plan_event_ok :: "env \<Rightarrow> step list \<Rightarrow> event \<Rightarrow> bool" where
  "plan_event_ok E steps e \<longleftrightarrow> run_of e = None \<or> (\<exists>n < length steps. \<not> s_omitted (steps ! n) \<and> step_event_ok E n (steps ! n) e)"

lemma step_event_ok_run_of: "step_event_ok E n s e \<Longrightarrow> run_of e = Some (k, m) \<Longrightarrow> m = n"
  by (auto simp: step_event_ok_def aside_run_of)

lemma step_event_ok_not: "\<not> step_event_ok E n s (Marker m keys dir)" "\<not> step_event_ok E n s Delivered"
  by (auto simp: step_event_ok_def step_event_def fix_event_def Let_def split_beta split: if_splits)

lemma step_events_ran: "list_all (step_event_ok E n s) evs \<Longrightarrow> ran m evs \<Longrightarrow> m = n"
  by (auto simp: ran_def list_all_iff dest: step_event_ok_run_of [OF _ sym])

definition kept :: "step list \<Rightarrow> nat \<Rightarrow> bool" where
  "kept steps i \<longleftrightarrow> i < length steps \<and> \<not> s_omitted (steps ! i)"

text \<open>A marker says how many steps are finished, and each kept one of them has been run.\<close>

definition marker_ok :: "env \<Rightarrow> step list \<Rightarrow> nat \<Rightarrow> nat \<Rightarrow> worker_log \<Rightarrow> bool" where
  "marker_ok E steps first resume evs \<longleftrightarrow>
     (\<forall>m keys dir. Marker m keys dir \<in> set evs \<longrightarrow>
        m \<le> length steps \<and> resume < m \<and> keys = map (step_key (e_digest E)) (take m steps) \<and>
        (\<forall>i < m. first \<le> i \<longrightarrow> resume \<le> i \<longrightarrow> kept steps i \<longrightarrow> ran i evs))"

definition steps_log_ok :: "env \<Rightarrow> step list \<Rightarrow> nat \<Rightarrow> nat \<Rightarrow> nat \<Rightarrow> bool \<Rightarrow> bool option \<Rightarrow> worker_log \<Rightarrow> bool" where
  "steps_log_ok E steps first resume repairs delivered res evs \<longleftrightarrow>
     list_all (plan_event_ok E steps) evs \<and> (\<forall>i. ran i evs \<longrightarrow> resume \<le> i) \<and>
     (res = Some True \<longrightarrow> (\<forall>i. first \<le> i \<longrightarrow> resume \<le> i \<longrightarrow> kept steps i \<longrightarrow> ran i evs)) \<and>
     marker_ok E steps first resume evs \<and>
     repairs + runs StepRun evs \<le> REPAIRS_PER_TASK + (length steps - first) \<and> repairs + runs FixRun evs \<le> REPAIRS_PER_TASK \<and>
     (delivered \<longrightarrow> Delivered \<notin> set evs)"

lemma steps_log_parts:
  assumes "steps_log_ok E steps first resume repairs delivered res evs"
  shows "list_all (plan_event_ok E steps) evs" "\<And>i. ran i evs \<Longrightarrow> resume \<le> i"
    "\<And>i. res = Some True \<Longrightarrow> first \<le> i \<Longrightarrow> resume \<le> i \<Longrightarrow> kept steps i \<Longrightarrow> ran i evs" "marker_ok E steps first resume evs"
    "repairs + runs StepRun evs \<le> REPAIRS_PER_TASK + (length steps - first)" "repairs + runs FixRun evs \<le> REPAIRS_PER_TASK"
    "delivered \<Longrightarrow> Delivered \<notin> set evs"
  using assms unfolding steps_log_ok_def by blast+

text \<open>A step that is not run.\<close>

lemma steps_log_skip:
  assumes "steps_log_ok E steps (first + 1) resume repairs delivered res evs" "first < resume \<or> \<not> kept steps first"
  shows "steps_log_ok E steps first resume repairs delivered res evs"
proof -
  note a = steps_log_parts [OF assms(1)]
  have skip: "first + 1 \<le> i" if "first \<le> i" "resume \<le> i" "kept steps i" for i
    using assms(2) that by (cases "i = first") auto
  have "marker_ok E steps first resume evs" using a(4) skip unfolding marker_ok_def by blast
  moreover have "\<forall>i. first \<le> i \<longrightarrow> resume \<le> i \<longrightarrow> kept steps i \<longrightarrow> ran i evs" if "res = Some True" using a(3) [OF that] skip by blast
  moreover have "repairs + runs StepRun evs \<le> REPAIRS_PER_TASK + (length steps - first)" using a(5) by linarith
  ultimately show ?thesis using a(1,2,6,7) by (simp add: steps_log_ok_def)
qed

text \<open>A delivery before.\<close>

lemma steps_log_deliver:
  assumes "steps_log_ok E steps first resume repairs True res evs"
  shows "steps_log_ok E steps first resume repairs False res (Delivered # evs)"
  using steps_log_parts [OF assms] by (simp add: steps_log_ok_def marker_ok_def plan_event_ok_def)

text \<open>A finished step with its marker.\<close>

lemma steps_log_done:
  assumes "steps_log_ok E steps (first + 1) resume repairs' delivered res evs" "list_all (step_event_ok E first (steps ! first)) now" "ran first now"
    "repairs + runs StepRun now \<le> repairs' + 1" "repairs + runs FixRun now \<le> repairs'" "kept steps first" "resume \<le> first"
  shows "steps_log_ok E steps first resume repairs delivered res (now @ marker (e_digest E) steps (first + 1) dir # evs)"
    (is "steps_log_ok _ _ _ _ _ _ _ ?evs")
proof -
  note a = steps_log_parts [OF assms(1)]
  have now: "list_all (plan_event_ok E steps) now" using assms(2,6) by (auto simp: list_all_iff plan_event_ok_def kept_def)
  have only: "i = first" if "ran i now" for i using step_events_ran [OF assms(2) that] .
  have none: "Marker m keys d \<notin> set now" "Delivered \<notin> set now" for m keys d
    using assms(2) step_event_ok_not by (auto simp: list_all_iff)
  have later: "ran i ?evs" if "first \<le> i" "first + 1 \<le> i \<Longrightarrow> ran i evs" for i
    using that assms(3) by (cases "i = first") auto
  have "marker_ok E steps first resume ?evs"
    unfolding marker_ok_def
  proof (intro allI impI)
    fix m keys d
    assume m: "Marker m keys d \<in> set ?evs"
    show "m \<le> length steps \<and> resume < m \<and> keys = map (step_key (e_digest E)) (take m steps) \<and>
        (\<forall>i<m. first \<le> i \<longrightarrow> resume \<le> i \<longrightarrow> kept steps i \<longrightarrow> ran i ?evs)"
    proof (cases "Marker m keys d = marker (e_digest E) steps (first + 1) dir")
      case True
      then show ?thesis using assms(3,6,7) by (auto simp: marker_def kept_def less_Suc_eq_le)
    next
      case False
      then have "Marker m keys d \<in> set evs" using m none by auto
      then show ?thesis using a(4) later unfolding marker_ok_def by (metis Suc_eq_plus1 not_less_eq_eq)
    qed
  qed
  moreover have "\<forall>i. ran i ?evs \<longrightarrow> resume \<le> i" using a(2) only assms(7) by auto
  moreover have "res = Some True \<longrightarrow> (\<forall>i. first \<le> i \<longrightarrow> resume \<le> i \<longrightarrow> kept steps i \<longrightarrow> ran i ?evs)" using a(3) later by blast
  moreover have "repairs + runs StepRun ?evs \<le> REPAIRS_PER_TASK + (length steps - first)"
  proof -
    have "first < length steps" "runs StepRun ?evs = runs StepRun now + runs StepRun evs" using assms(6) by (simp_all add: kept_def marker_def)
    then show ?thesis using a(5) assms(4) by arith
  qed
  moreover have "repairs + runs FixRun ?evs \<le> REPAIRS_PER_TASK" using a(6) assms(5) by simp
  ultimately show ?thesis using a(1,7) now none(2) by (auto simp: steps_log_ok_def plan_event_ok_def marker_def)
qed

text \<open>A step that ends the task.\<close>

lemma steps_log_failed:
  assumes "list_all (step_event_ok E first (steps ! first)) now" "repairs + runs StepRun now \<le> REPAIRS_PER_TASK + 1" "repairs + runs FixRun now \<le> REPAIRS_PER_TASK"
    "kept steps first" "resume \<le> first" "res \<noteq> Some True"
  shows "steps_log_ok E steps first resume repairs delivered res now"
proof -
  have "list_all (plan_event_ok E steps) now" using assms(1,4) by (auto simp: list_all_iff plan_event_ok_def kept_def)
  moreover have "\<forall>i. ran i now \<longrightarrow> resume \<le> i" using step_events_ran [OF assms(1)] assms(5) by blast
  moreover have "Marker m keys d \<notin> set now" "Delivered \<notin> set now" for m keys d
    using assms(1) step_event_ok_not by (auto simp: list_all_iff)
  ultimately show ?thesis using assms(2-4,6) by (auto simp: steps_log_ok_def marker_ok_def kept_def)
qed

lemma run_steps_log:
  assumes "run_steps E steps resume wget_at first rest cwd repairs delivered h = (res, dl, h1)" "rest = drop first steps" "first \<le> length steps"
    "repairs \<le> REPAIRS_PER_TASK"
  shows "\<exists>evs. h1 = h @ evs \<and> steps_log_ok E steps first resume repairs delivered res evs"
  using assms
proof (induction E steps resume wget_at first rest cwd repairs delivered h arbitrary: res dl h1 rule: run_steps.induct)
  case (1 E steps resume wget_at n cwd repairs delivered h)
  then show ?case by (auto simp: steps_log_ok_def marker_ok_def kept_def)
next
  case (2 E steps resume wget_at n s rest cwd repairs delivered h)
  have at: "drop n steps = s # rest" using "2.prems"(2) by simp
  have n: "n < length steps" using at by (metis drop_all linorder_not_le list.distinct(1))
  have s: "s = steps ! n" using at n by (metis hd_drop_conv_nth list.sel(1))
  have rest: "rest = drop (n + 1) steps" using at by (metis Suc_eq_plus1 drop_Suc list.sel(3) tl_drop)
  show ?case
  proof (cases "n < resume")
    case True
    then have "run_steps E steps resume wget_at (n + 1) rest cwd repairs delivered h = (res, dl, h1)" using "2.prems"(1) by simp
    then obtain evs where "h1 = h @ evs" "steps_log_ok E steps (n + 1) resume repairs delivered res evs"
      using "2.IH"(1) [OF True] n rest "2.prems"(4) by force
    then show ?thesis using steps_log_skip True by blast
  next
    case from_here: False
    define due where "due = (\<not> delivered \<and> (case s_book s of None \<Rightarrow> True | Some i \<Rightarrow> (case wget_at of None \<Rightarrow> False | Some k \<Rightarrow> k < i)))"
    define h0 where "h0 = (if due then h @ [Delivered] else h)"
    note ih = "2.IH"(2,3) [OF from_here due_def h0_def refl]
    note loop = "2.prems"(1) [unfolded run_steps.simps Let_def, folded due_def, folded h0_def]
    have "\<exists>evs. h1 = h0 @ evs \<and> steps_log_ok E steps n resume repairs (delivered \<or> due) res evs"
    proof (cases "due \<and> \<not> on_deliver (e_world E) h0")
      case True
      then have "h1 = h0" "res = None" using loop from_here by auto
      then show ?thesis using "2.prems"(4) by (auto simp: steps_log_ok_def marker_ok_def)
    next
      case go: False
      show ?thesis
      proof (cases "s_omitted s")
        case True
        then have "run_steps E steps resume wget_at (n + 1) rest cwd repairs (delivered \<or> due) h0 = (res, dl, h1)"
          using loop from_here go by auto
        then obtain evs where "h1 = h0 @ evs" "steps_log_ok E steps (n + 1) resume repairs (delivered \<or> due) res evs"
          using ih(1) [OF go True] n rest "2.prems"(4) by force
        then show ?thesis using steps_log_skip True s unfolding kept_def by blast
      next
        case run: False
        then have kept: "kept steps n" using n s by (simp add: kept_def)
        obtain out repairs' h2 where l: "step_loop E n s cwd 0 repairs (s_run s) h0 = (out, repairs', h2)" by (metis surj_pair)
        then obtain now where now: "h2 = h0 @ now" "list_all (step_event_ok E n s) now" "(\<exists>d. out = StepDone d) \<longrightarrow> ran n now" "step_cost out repairs repairs' now"
          using step_loop_log [OF l _ "2.prems"(4)] by (auto simp: may_run_def)
        show ?thesis
        proof (cases out)
          case (StepDone cwd')
          then have "run_steps E steps resume wget_at (n + 1) rest cwd' repairs' (delivered \<or> due) (h2 @ [marker (e_digest E) steps (n + 1) cwd']) = (res, dl, h1)"
            using loop from_here go run l by auto
          then obtain evs where "h1 = (h2 @ [marker (e_digest E) steps (n + 1) cwd']) @ evs"
              "steps_log_ok E steps (n + 1) resume repairs' (delivered \<or> due) res evs"
            using ih(2) [OF go run l [symmetric] refl StepDone] n rest now(4) StepDone by (force simp: step_cost_def)
          then show ?thesis
            using steps_log_done [of E steps n resume repairs' "delivered \<or> due" res evs now repairs cwd'] now kept from_here StepDone s
            by (auto simp: step_cost_def)
        next
          case StepStuck
          then have "h1 = h2" "res = Some False" using loop from_here go run l by auto
          then show ?thesis using steps_log_failed [of E n steps now repairs resume res] now kept from_here StepStuck s
            by (auto simp: step_cost_def)
        next
          case StepRaised
          then have "h1 = h2" "res = None" using loop from_here go run l by auto
          then show ?thesis using steps_log_failed [of E n steps now repairs resume res] now kept from_here StepRaised s
            by (auto simp: step_cost_def)
        qed
      qed
    qed
    then obtain evs where evs: "h1 = h0 @ evs" "steps_log_ok E steps n resume repairs (delivered \<or> due) res evs" by blast
    show ?thesis
    proof (cases due)
      case True
      then have "\<not> delivered" by (simp add: due_def)
      then show ?thesis using evs True steps_log_deliver by (auto simp: h0_def)
    next
      case False
      then show ?thesis using evs by (auto simp: h0_def)
    qed
  qed
qed

end
