(* ===== verification/Lfs_Attempts.thy ===== *)
theory Lfs_Attempts
  imports Lfs_Worker_Props
begin

text \<open>
  The theorems about a whole task of the LFS worker: what is run in it, how often, and how two attempts at it share
  the work; and four places where the worker does not do what its comments promise.
\<close>

section \<open>A whole attempt\<close>

lemma steps_log_start:
  "\<exists>res dl evs. run_steps E steps resume wget_at 0 steps cwd 0 delivered h = (res, dl, h @ evs) \<and> steps_log_ok E steps 0 resume 0 delivered res evs"
proof -
  obtain res dl h1 where r: "run_steps E steps resume wget_at 0 steps cwd 0 delivered h = (res, dl, h1)" by (metis surj_pair)
  then obtain evs where "h1 = h @ evs" "steps_log_ok E steps 0 resume 0 delivered res evs"
    using run_steps_log [OF r] by (auto simp: REPAIRS_PER_TASK_def)
  then show ?thesis using r by blast
qed

lemma finish_task_log:
  "\<exists>evs. finish_task E vm_id h = h @ evs \<and> list_all (\<lambda>e. run_of e = None \<or> e = lock_root (e_task E)) evs \<and> Delivered \<notin> set evs \<and>
     (\<forall>m keys dir. Marker m keys dir \<notin> set evs)"
  by (auto simp: finish_task_def checkpoint_def Let_def lock_root_def split_beta)

lemma lock_root_run_of [simp]: "run_of (lock_root task) = Some (OwnRun, 0)"
  by (simp add: lock_root_def Let_def split_beta)

lemma own_runs: "list_all (\<lambda>e. run_of e = None \<or> e = lock_root task) evs \<Longrightarrow> \<not> ran i evs \<and> runs StepRun evs = 0 \<and> runs FixRun evs = 0"
  by (induction evs) auto

lemma run_plan_log:
  assumes "run_plan E vm_id steps resume cwd h = (res, h1)"
  shows "\<exists>evs tail. h1 = h @ marker (e_digest E) steps resume cwd # evs @ tail \<and>
    steps_log_ok E steps 0 resume 0 (wget_index (e_task E) = None \<or> 0 < resume) (if res = Some True then Some True else None) evs \<and>
    list_all (\<lambda>e. run_of e = None \<or> e = lock_root (e_task E)) tail \<and> (\<forall>m keys dir. Marker m keys dir \<notin> set tail)"
proof -
  let ?given = "wget_index (e_task E) = None \<or> 0 < resume"
  let ?h = "h @ [marker (e_digest E) steps resume cwd]"
  obtain r dl evs where r: "run_steps E steps resume (wget_index (e_task E)) 0 steps cwd 0 ?given ?h = (r, dl, ?h @ evs)"
    "steps_log_ok E steps 0 resume 0 ?given r evs" using steps_log_start by blast
  have any: "steps_log_ok E steps 0 resume 0 ?given None evs" using r(2) by (simp add: steps_log_ok_def)
  consider (failed) "r \<noteq> Some True" | (undelivered) "r = Some True" "\<not> dl" "\<not> on_deliver (e_world E) (?h @ evs @ [Delivered])"
    | (finished) "r = Some True" "dl \<or> on_deliver (e_world E) (?h @ evs @ [Delivered])" by blast
  then show ?thesis
  proof cases
    case failed
    then have "res = r" "h1 = ?h @ evs" using assms r(1) by (simp_all add: run_plan_def Let_def)
    then show ?thesis using any failed by (intro exI [of _ evs] exI [of _ "[]"]) simp
  next
    case undelivered
    then have "res = None" "h1 = ?h @ evs @ [Delivered]" using assms r(1) by (simp_all add: run_plan_def Let_def)
    then show ?thesis using any by (intro exI [of _ evs] exI [of _ "[Delivered]"]) simp
  next
    case finished
    let ?pre = "if dl then [] else [Delivered]"
    have "res = Some True" "h1 = finish_task E vm_id (?h @ evs @ ?pre)" using assms r(1) finished by (auto simp: run_plan_def Let_def split: if_splits)
    moreover obtain fin where "finish_task E vm_id (?h @ evs @ ?pre) = (?h @ evs @ ?pre) @ fin"
      "list_all (\<lambda>e. run_of e = None \<or> e = lock_root (e_task E)) fin" "\<forall>m keys dir. Marker m keys dir \<notin> set fin"
      using finish_task_log by blast
    ultimately show ?thesis using r(2) finished(1) by (intro exI [of _ evs] exI [of _ "?pre @ fin"]) auto
  qed
qed

lemma run_steps_given: "run_steps E steps resume wget_at n rest cwd repairs True h = (res, dl, h1) \<Longrightarrow> dl"
proof (induction E steps resume wget_at n rest cwd repairs True h arbitrary: res dl h1 rule: run_steps.induct)
  case (2 E steps resume wget_at n s rest cwd repairs h)
  then show ?case by (auto simp: Let_def split: if_splits prod.splits outcome.splits)
qed simp


section \<open>Only the plan and admitted repairs\<close>

text \<open>An event of a task: no run, the locking of root's password, or a run for a kept step of a plan that was accepted.\<close>

definition task_event_ok :: "env \<Rightarrow> event \<Rightarrow> bool" where
  "task_event_ok E e \<longleftrightarrow> run_of e = None \<or> e = lock_root (e_task E) \<or>
     (\<exists>reply steps srcdir. plan_steps (e_rep E) (e_loads E) (e_task E) reply = Some (steps, []) \<and> plan_event_ok (E\<lparr>e_srcdir := srcdir\<rparr>) steps e)"

lemma quiet_task_event [simp]: "run_of e = None \<Longrightarrow> task_event_ok E e"
  by (simp add: task_event_ok_def)

















section \<open>How often\<close>

text \<open>
  C10: However the machine and the model behave, the steps of a plan end, after at most four runs more than the plan has
  steps, and at most four repairs: two for a step, four for a task.
\<close>

theorem task_runs_bounded:
  "runs StepRun (snd (run_plan E vm_id steps resume cwd [])) \<le> length steps + REPAIRS_PER_TASK \<and>
   runs FixRun (snd (run_plan E vm_id steps resume cwd [])) \<le> REPAIRS_PER_TASK"
proof -
  obtain res h1 where r: "run_plan E vm_id steps resume cwd [] = (res, h1)" by fastforce
  then obtain evs tail where l: "h1 = marker (e_digest E) steps resume cwd # evs @ tail"
    "steps_log_ok E steps 0 resume 0 (wget_index (e_task E) = None \<or> 0 < resume) (if res = Some True then Some True else None) evs"
    "list_all (\<lambda>e. run_of e = None \<or> e = lock_root (e_task E)) tail"
    using run_plan_log [OF r] by auto
  have "runs k h1 = runs k evs" if "k \<in> {StepRun, FixRun}" for k using l(1) own_runs [OF l(3)] that by auto
  then show ?thesis using steps_log_parts(5,6) [OF l(2)] r by simp
qed

section \<open>Two attempts at a task\<close>

lemma length_same_prefix: "take n xs = take n ys \<Longrightarrow> n \<le> length ys \<Longrightarrow> n \<le> length xs"
  by (metis length_take min.absorb_iff2)






text \<open>Two steps: the first attempt fails in the second of them, with a repair that cannot be read; the second attempt finishes.\<close>

definition demo_run :: "string \<Rightarrow> step" where
  "demo_run t = \<lparr>s_book = None, s_run = t, s_as = None, s_why = [], s_changed = False, s_omitted = False, s_added_after = None\<rparr>"


definition demo_world :: "nat \<Rightarrow> world" where
  "demo_world n = \<lparr>on_run = (\<lambda>h. (if length h < n then 0 else 2, [])), on_ask = (\<lambda>_. ''{}''), on_shell = (\<lambda>_. (0, [])),
     on_deliver = (\<lambda>_. True), on_checkpoint = (\<lambda>_. True)\<rparr>"

definition demo_env :: "nat \<Rightarrow> env" where
  "demo_env n = \<lparr>e_world = demo_world n, e_rep = (\<lambda>_. []), e_loads = (\<lambda>_. Some [(''commands'', JInt 5)]),
     e_digest = (\<lambda>v. case v of JList (JStr t # vs) \<Rightarrow> t | _ \<Rightarrow> []), e_task = demo_task, e_srcdir = []\<rparr>"

lemma demo_env_parts [simp]:
  "e_world (demo_env n) = demo_world n" "e_task (demo_env n) = demo_task" "e_rep (demo_env n) = (\<lambda>_. [])"
  "e_loads (demo_env n) = (\<lambda>_. Some [(''commands'', JInt 5)])" "e_srcdir (demo_env n) = []"
  "on_run (demo_world n) h = (if length h < n then 0 else 2, [])" "on_ask (demo_world n) h = ''{}''" "s_run (demo_run t) = t"
  "s_omitted (demo_run t) = False" "s_book (demo_run t) = None"
  by (simp_all add: demo_env_def demo_world_def demo_run_def)








lemma demo_no_wget [simp]: "wget_index demo_task = None"
  by (simp add: wget_index_def demo_task_def)





section \<open>Where the worker is not what it says\<close>

text \<open>
  Section 3.1, resumed: the sources count as delivered as soon as one step is finished, also when the delivery is what
  failed the first attempt.
\<close>

lemma resumed_never_delivers:
  assumes "0 < resume" "Delivered \<notin> set h"
  shows "Delivered \<notin> set (snd (run_plan E vm_id steps resume cwd h))"
proof -
  let ?h = "h @ [marker (e_digest E) steps resume cwd]"
  obtain r dl evs where r: "run_steps E steps resume (wget_index (e_task E)) 0 steps cwd 0 True ?h = (r, dl, ?h @ evs)"
    "steps_log_ok E steps 0 resume 0 True r evs" using steps_log_start by blast
  have given: "dl" using run_steps_given [OF r(1)] .
  have pre: "Delivered \<notin> set (?h @ evs)" using r(2) assms(2) by (auto simp: steps_log_ok_def marker_def)
  show ?thesis
  proof (cases "r = Some True")
    case True
    obtain fin where "finish_task E vm_id (?h @ evs) = (?h @ evs) @ fin" "Delivered \<notin> set fin" using finish_task_log by blast
    then show ?thesis using True given r(1) assms(1) pre by (simp add: run_plan_def)
  next
    case False
    then show ?thesis using r(1) assms(1) pre by (simp add: run_plan_def)
  qed
qed

text \<open>A path that goes through \<^verbatim>\<open>/tmp\<close> leads anywhere.\<close>

lemma deletes_through_tmp:
  "deletes_outside ''rm -rf /tmp/../etc'' [] ''/root'' = Some False" "deletes_outside ''rm -rf /etc'' [] ''/root'' = Some True"
  by code_simp+

text \<open>A lesson of the tutor whose data is JSON but not an object ends the worker: main does not catch it.\<close>

lemma tutor_notes_raise: "le_who l = ''claude'' \<Longrightarrow> le_kind l = ''lesson'' \<Longrightarrow> le_data l = Some (JInt 1) \<Longrightarrow> tutor_notes (l # ls) = None"
  by (simp add: tutor_notes_def Let_def)

text \<open>A repair of an added step that is blank passes every check and raises in the next round.\<close>

lemma blank_repair_raises: "filter_repair task srcdir cwd (demo_run t) \<lparr>r_before = [], r_instead = '' ''\<rparr> = Some (\<lparr>r_before = [], r_instead = '' ''\<rparr>, 0)"
    "fst (step_loop E n s cwd attempt repairs '' '' h) = StepRaised"
proof -
  have clean: "deletes_outside (nl @ '' '') srcdir cwd = Some False" "\<not> found_in CREDENTIAL (nl @ '' '')" "\<not> found_in DANGER (nl @ '' '')"
    "\<not> found_in DOWNLOAD (nl @ '' '')" "system_words (nl @ '' '') = []"
    by code_simp+
  show "filter_repair task srcdir cwd (demo_run t) \<lparr>r_before = [], r_instead = '' ''\<rparr> = Some (\<lparr>r_before = [], r_instead = '' ''\<rparr>, 0)"
    using clean by (simp add: filter_repair_def repair_text_def drop_if_def keep_command_def out_of_order_def bad_words_def)
  have "py_strip '' '' = []" by code_simp
  then show "fst (step_loop E n s cwd attempt repairs '' '' h) = StepRaised" by (simp add: step_loop.simps)
qed

text \<open>With room for 2000 characters a prompt is cut to the room there is.\<close>

lemma fit_bound:
  assumes "2000 \<le> (n_ctx - max_tokens - 64) * 3 - int (length system)"
  shows "int (length (fit system user max_tokens n_ctx)) \<le> (n_ctx - max_tokens - 64) * 3 - int (length system)"
  using assms by (auto simp: fit_def Let_def MARKER_def)

text \<open>With less room it is cut to 2000 characters, whatever the room is, and a shorter one grows.\<close>

lemma fit_grows: "10 < length (fit [] (replicate 10 (CHR ''x'')) 1024 1000)"
  by (simp add: fit_def MARKER_def)

end
