(* ===== verification/Lfs_Main.thy ===== *)
theory Lfs_Main
  imports Lfs_Build Lfs_Worker
begin

text \<open>
  The two ends of an LFS build together: the task as \<^verbatim>\<open>get_task\<close> of \<^verbatim>\<open>api/lfs_build.py\<close> shows it, and \<^verbatim>\<open>main\<close> of
  \<^verbatim>\<open>examples/llm-chat/files/lfs_worker.py\<close>, which works the queue of \<open>Lfs_Build\<close> through the routes of the API.
\<close>

section \<open>The view of a task\<close>

definition READING_SECTIONS :: "(string \<times> string) list" where
  "READING_SECTIONS =
     [(''8.2'', ''a reading section: the book illustrates package-management styles with a made-up '' @
         ''libfoo; LFS installs each package directly, so there is nothing to run (LFS-029)''),
      (''11.3'', ''logging out of the chroot and unmounting: the controller does this itself when it '' @
         ''makes the disk image for the first boot (D6) (LFS-043)''),
      (''9.4'', ''examples for duplicate devices (a webcam, a TV tuner); this machine has none (LFS-040)''),
      (''9.5'', ''for a hardware clock kept in local time, or set by hand: a VM'' @ [apostrophe] @ ''s clock is UTC, the time '' @
         ''zone is already set (8.5, Europe/London), and systemd-timesyncd stays on (LFS-040)'')]"

definition EXAMPLE_DOTS :: rx where "EXAMPLE_DOTS = re ''(?:^|%s)%.%.%.(?:%s|$)''"

definition EXAMPLE_WHY :: "string \<Rightarrow> string" where
  "EXAMPLE_WHY note =
     ''an example in the book'' @ [apostrophe] @ ''s note ('' @ note @ ''): its '' @ [apostrophe] @ ''...'' @ [apostrophe] @ '' stands for the rest '' @
     ''of a command, and the note'' @ [apostrophe] @ ''s case doesn'' @ [apostrophe] @ ''t apply to this build (LFS-034)''"

text \<open>Why command \<open>n\<close> is skipped: as planned, or by a rule added since.\<close>

definition skip_reason :: "book_rules \<Rightarrow> task \<Rightarrow> nat \<Rightarrow> book_command \<Rightarrow> string option" where
  "skip_reason rules t n c =
     (case map_of (rev (tk_skip_commands t)) n of
        Some why \<Rightarrow> Some why
      | None \<Rightarrow>
          (case (if bs_book (tk_section t) = ''lfs'' then map_of READING_SECTIONS (bs_number (tk_section t)) else None) of
             Some why \<Rightarrow> Some why
           | None \<Rightarrow>
               if cm_note c \<noteq> [] \<and> found_in EXAMPLE_DOTS (cm_text c) then Some (EXAMPLE_WHY (cm_note c))
               else if cm_subsection c \<notin> set (tk_skip_subsections t)
               then map_option snd (find (\<lambda>(rx, why). rx (cm_text c)) (br_skip_commands rules)) else None))"

definition view_command :: "book_rules \<Rightarrow> task \<Rightarrow> nat \<Rightarrow> book_command \<Rightarrow> command" where
  "view_command rules t n c =
     \<lparr>c_index = int n, c_text = cm_text c, c_subsection = (case cm_subsection c of None \<Rightarrow> [] | Some s \<Rightarrow> s), c_as_root = cm_as_root c,
       c_skipped = (case skip_reason rules t n c of None \<Rightarrow> [] | Some why \<Rightarrow> why)\<rparr>"

text \<open>\<open>section\<close> is the one that the file of the book has now at the task's path.\<close>

definition view_commands :: "book_rules \<Rightarrow> task \<Rightarrow> book_section option \<Rightarrow> command list" where
  "view_commands rules t sec =
     (case sec of None \<Rightarrow> []
      | Some s \<Rightarrow> map (\<lambda>(n, c). view_command rules t n c)
          (filter (\<lambda>(n, c). cm_subsection c \<notin> set (tk_skip_subsections t)) (enumerate 0 (bs_commands s))))"

definition task_view :: "book_rules \<Rightarrow> (string \<Rightarrow> book_section list) \<Rightarrow> lesson list \<Rightarrow> lfs_task \<Rightarrow> wtask" where
  "task_view rules books lessons row =
     (let t = lt_task row; s = tk_section t in
      \<lparr>w_number = bs_number s, w_title = bs_title s, w_seq = tk_seq t, w_context = tk_context t, w_package = bs_package s, w_version = bs_version s,
        w_version_override = tk_version_override t, w_attempts = lt_attempts row, w_checkpoint_before = tk_high t,
        w_checkpoint_after = tk_checkpoint_after t,
        w_commands = view_commands rules t (find (\<lambda>x. bs_path x = bs_path s) (books (bs_book s))), w_journal = lessons\<rparr>)"

section \<open>What a run does to the queue\<close>

text \<open>The events of a task's log that are requests to the API.  \<open>say\<close> gives the texts, which nothing here depends on.\<close>

fun post_event :: "nat \<Rightarrow> (event \<Rightarrow> string) \<Rightarrow> string \<Rightarrow> event \<Rightarrow> lfs_db \<Rightarrow> lfs_db" where
  "post_event tid say now (SetState s) db = fst (set_task_state tid s ''controller'' (say (SetState s)) now db)"
| "post_event tid say now (Journal who kind) db = fst (add_journal tid who kind (say (Journal who kind)) now db)"
| "post_event tid say now e db = db"

definition post_events :: "nat \<Rightarrow> (event \<Rightarrow> string) \<Rightarrow> string \<Rightarrow> worker_log \<Rightarrow> lfs_db \<Rightarrow> lfs_db" where
  "post_events tid say now h db = fold (post_event tid say now) h db"

section \<open>The loop\<close>

record main_args =
  ma_build :: nat
  ma_until :: string
  ma_max_tasks :: nat
  ma_plan_only :: bool
  ma_follow :: bool

text \<open>What is not the worker: the answers during the \<open>n\<close>-th task, whether main catches an exception of it, the clock.\<close>

record surroundings =
  su_env :: "nat \<Rightarrow> env"
  su_files :: "source_entry list"
  su_vm_id :: string
  su_rules :: book_rules
  su_books :: "string \<Rightarrow> book_section list"
  su_lessons :: "lfs_db \<Rightarrow> nat \<Rightarrow> lesson list"
  su_caught :: "nat \<Rightarrow> bool"
  su_say :: "event \<Rightarrow> string"
  su_now :: "nat \<Rightarrow> string"

datatype ending =
    Finished            \<comment> \<open>exit 0: nothing is left\<close>
  | NeedsHelp           \<comment> \<open>exit 1, or asleep when following: the next task is stuck or the build paused\<close>
  | TaskFailed          \<comment> \<open>exit 1\<close>
  | Stopped             \<comment> \<open>exit 0: as asked\<close>
  | Died                \<comment> \<open>an exception that main does not catch\<close>

definition task_env :: "surroundings \<Rightarrow> nat \<Rightarrow> lfs_task \<Rightarrow> lfs_db \<Rightarrow> env" where
  "task_env S n row db = (su_env S n)\<lparr>e_task := task_view (su_rules S) (su_books S) (su_lessons S db (lt_id row)) row, e_srcdir := []\<rparr>"

definition attempt_task :: "surroundings \<Rightarrow> bool \<Rightarrow> nat \<Rightarrow> lfs_task \<Rightarrow> lfs_db \<Rightarrow> bool option \<times> worker_log" where
  "attempt_task S plan_only n row db = run_task (task_env S n row db) (su_files S) plan_only (su_vm_id S) []"

text \<open>The task and its result, with what main itself writes after an exception that it catches.\<close>

definition work_task :: "surroundings \<Rightarrow> bool \<Rightarrow> nat \<Rightarrow> lfs_task \<Rightarrow> lfs_db \<Rightarrow> bool option \<times> lfs_db" where
  "work_task S plan_only n row db =
     (let (r, h) = attempt_task S plan_only n row db;
          h1 = (if r = None \<and> su_caught S n then h @ [Journal ''controller'' ''escalation'', SetState ''stuck''] else h)
      in (if r = None \<and> su_caught S n then Some False else r, post_events (lt_id row) (su_say S) (su_now S n) h1 db))"

definition paused :: "nat \<Rightarrow> lfs_db \<Rightarrow> bool" where
  "paused bid db \<longleftrightarrow> (case find_build db bid of None \<Rightarrow> False | Some b \<Rightarrow> lb_bstatus b = ''paused'')"

definition last_asked :: "main_args \<Rightarrow> lfs_task \<Rightarrow> nat \<Rightarrow> bool" where
  "last_asked A row finished \<longleftrightarrow>
     ma_plan_only A \<or> ma_until A \<noteq> [] \<and> bs_number (tk_section (lt_task row)) = ma_until A \<or> ma_max_tasks A \<noteq> 0 \<and> ma_max_tasks A \<le> finished"

text \<open>Rows that the loop may still start.\<close>

definition workable :: "nat \<Rightarrow> lfs_db \<Rightarrow> lfs_task list" where
  "workable bid db = filter (\<lambda>t. lt_build_id t = bid \<and> lt_state t \<notin> {''done'', ''skipped'', ''stuck'', ''escalated''}) (lfs_tasks db)"

section \<open>The states that a run posts\<close>

definition states :: "worker_log \<Rightarrow> string list" where
  "states h = concat (map (\<lambda>e. case e of SetState s \<Rightarrow> [s] | _ \<Rightarrow> []) h)"

lemma states_simps [simp]:
  "states [] = []" "states (h @ h') = states h @ states h'" "states (SetState s # h) = s # states h" "states (Ran k n run script launch # h) = states h"
  "states (Asked a # h) = states h" "states (Shell c # h) = states h" "states (Journal who kind # h) = states h"
  "states (Marker n keys dir # h) = states h" "states (Delivered # h) = states h" "states (Checkpoint w # h) = states h" "states (Mounted # h) = states h"
  by (simp_all add: states_def)

lemma states_replicate [simp]: "states (replicate n (Journal who kind)) = []"
  by (induction n) simp_all

lemma states_run_events [simp]: "states (step_event task n s cwd a run # h) = states h" "states (fix_event task n s cwd before # h) = states h"
    "states (marker digest steps n cwd # h) = states h" "states (lock_root task # h) = states h"
  by (simp_all add: step_event_def fix_event_def marker_def lock_root_def Let_def split_beta)

lemma states_shell [simp]: "states (snd (shell w cmd h)) = states h"
  by (simp add: shell_def Let_def)

lemma states_checkpoint [simp]: "states (snd (checkpoint w when h)) = states h"
  by (simp add: checkpoint_def Let_def)

lemma states_unpack: "states (snd (unpack E src h)) = states h @ (if fst (unpack E src h) then [] else [''stuck''])"
  by (simp add: unpack_def shell_def Let_def split_beta)

lemma states_verdict [simp]: "states (snd (verdict E kind key h)) = states h"
  by (simp add: verdict_def Let_def)

lemma states_once: "states (snd (snd (snd (run_once E n s cwd a run h)))) = states h"
  by (simp add: run_once_def judge_output_def judge_tests_def Let_def split_beta)

lemma states_all_there [simp]: "states (snd (all_there w ts h)) = states h"
  by (induction ts arbitrary: h) (simp_all add: Let_def)

lemma states_really_done [simp]: "states (snd (really_done w run out h)) = states h"
  by (simp add: really_done_def)

lemma states_repair: "states (snd (repair_step E n s cwd run tail h)) = states h"
  by (simp add: repair_step_def Let_def split_beta split: option.split)

lemma states_step_loop:
  "step_loop E n s cwd a repairs run h = (out, repairs', h1) \<Longrightarrow> states h1 = states h @ (if out = StepStuck then [''stuck''] else [])"
proof (induction E n s cwd a repairs run h arbitrary: out repairs' h1 rule: step_loop.induct)
  case (1 E n s cwd a repairs run h)
  obtain passed ends tail h2 where once: "run_once E n s cwd a run h = (passed, ends, tail, h2)" by (metis surj_pair)
  obtain r h3 where rep: "repair_step E n s cwd run tail h2 = (r, h3)" by fastforce
  have h3: "states h3 = states h" using states_once [of E n s cwd a run h] states_repair [of E n s cwd run tail h2] once rep by simp
  note loop = "1.prems" [unfolded step_loop.simps [of E n s cwd a repairs run h] once, simplified]
  show ?case
  proof (cases "py_strip run \<noteq> [] \<and> \<not> passed \<and> \<not> (REPAIRS_PER_STEP < a + 1 \<or> REPAIRS_PER_TASK < repairs + 1) \<and> (\<exists>x. r = Some (Inr x))")
    case True
    then obtain x where x: "r = Some (Inr x)" "py_strip run \<noteq> []" "\<not> passed" "\<not> (REPAIRS_PER_STEP < a + 1 \<or> REPAIRS_PER_TASK < repairs + 1)" by blast
    then have "step_loop E n s cwd (a + 1) (repairs + 1) x h3 = (out, repairs', h1)" using loop rep by simp
    then show ?thesis using "1.IH" [OF x(2) once [symmetric] refl refl x(3,4) rep [symmetric] x(1) refl] h3 by simp
  next
    case False
    then show ?thesis using loop rep h3 once states_once [of E n s cwd a run h] by (auto split: if_splits option.splits sum.splits)
  qed
qed

definition failed_state :: "bool option \<Rightarrow> string list" where
  "failed_state r = (if r = Some False then [''stuck''] else [])"

lemma states_run_steps:
  "run_steps E steps resume wget_at n rest cwd repairs delivered h = (r, dl, h1) \<Longrightarrow> states h1 = states h @ failed_state r"
proof (induction E steps resume wget_at n rest cwd repairs delivered h arbitrary: r dl h1 rule: run_steps.induct)
  case (2 E steps resume wget_at n s rest cwd repairs delivered h)
  show ?case
    using "2.prems" "2.IH" by (auto simp: failed_state_def Let_def dest!: states_step_loop split: if_splits prod.splits outcome.splits)
qed (simp add: failed_state_def)

text \<open>The state after a run, by its result.\<close>

definition task_state :: "string \<Rightarrow> bool option \<Rightarrow> string list" where
  "task_state good r = (case r of None \<Rightarrow> [] | Some ok \<Rightarrow> [if ok then good else ''stuck''])"

lemma states_finish: "states (finish_task E vm_id h) = states h @ [''done'']"
  by (simp add: finish_task_def Let_def)

lemma states_run_plan: "run_plan E vm_id steps resume cwd h = (r, h1) \<Longrightarrow> states h1 = states h @ task_state ''done'' r"
  by (auto simp: run_plan_def Let_def task_state_def failed_state_def states_finish dest!: states_run_steps split: if_splits prod.splits option.splits)

lemma states_resume_and_run:
  "resume_and_run E vm_id src steps progress later cwd h = (r, h1) \<Longrightarrow> states h1 = states h @ task_state ''done'' r"
  by (auto simp: resume_and_run_def Let_def task_state_def states_unpack split_beta dest!: states_run_plan split: if_splits option.splits)

lemma states_plan_twice [simp]: "states (snd (plan_twice E h)) = states h"
  by (simp add: plan_twice_def ask_plan_def Let_def)

lemma states_plan_and_run:
  "plan_and_run E plan_only vm_id src progress later cwd h = (r, h1) \<Longrightarrow> states h1 = states h @ task_state (if plan_only then ''waiting'' else ''done'') r"
  using states_plan_twice [of E h]
  by (auto simp: plan_and_run_def task_state_def split_beta dest!: states_resume_and_run split: if_splits option.splits)

lemma states_prepare:
  "states (snd (prepare_source E src progress h)) = states h @ (if fst (prepare_source E src progress h) = None then [''stuck''] else [])"
  by (simp add: prepare_source_def Let_def split_beta states_unpack split: option.split)

lemma states_read [simp]: "states (snd (read_progress E h)) = states h"
  by (simp add: read_progress_def split_beta)

lemma prepare_source_task: "fst (prepare_source E src progress h) = Some (E1, cwd, progress1, later) \<Longrightarrow> e_task E1 = e_task E"
  by (auto simp: prepare_source_def Let_def split_beta split: option.splits if_splits)

text \<open>A section whose commands are all the controller's own is done, even if only a plan was asked for.\<close>

definition good_state :: "wtask \<Rightarrow> bool \<Rightarrow> string" where
  "good_state task plan_only = (if plan_only \<and> \<not> controllers_own task then ''waiting'' else ''done'')"

lemma states_run_sourced:
  assumes "run_sourced E plan_only vm_id src h = (r, h1)"
  shows "states h1 = states h @ task_state (good_state (e_task E) plan_only) r"
proof -
  obtain progress h2 where p: "(if 1 \<le> w_attempts (e_task E) \<and> \<not> plan_only then read_progress E h else (None, h)) = (progress, h2)" by fastforce
  then have h2: "states h2 = states h" by (auto split: if_splits) (metis snd_conv states_read)
  obtain prepared h3 where q: "prepare_source E src progress h2 = (prepared, h3)" by fastforce
  then have h3: "states h3 = states h @ (if prepared = None then [''stuck''] else [])" using states_prepare [of E src progress h2] h2 by simp
  note def = assms [unfolded run_sourced_def p Let_def prod.case q]
  show ?thesis
  proof (cases prepared)
    case None
    then show ?thesis using def h3 by (auto simp: task_state_def)
  next
    case (Some x)
    then obtain E1 cwd progress1 later where x: "prepared = Some (E1, cwd, progress1, later)" by (metis surj_pair)
    then have "e_task E1 = e_task E" using prepare_source_task q by (metis fst_conv)
    then show ?thesis using def h3 x states_plan_and_run [of E1 plan_only vm_id src progress1 later cwd h3]
      by (auto simp: do_controllers_own_def task_state_def good_state_def Let_def split: if_splits)
  qed
qed

lemma states_run_task:
  "states (snd (run_task E files plan_only vm_id h)) =
     states h @ ''running'' # task_state (good_state (e_task E) plan_only) (fst (run_task E files plan_only vm_id h))"
proof -
  obtain r h1 where "run_task E files plan_only vm_id h = (r, h1)" by fastforce
  then show ?thesis
    by (auto simp: run_task_def Let_def task_state_def split_beta dest!: states_run_sourced split: if_splits option.splits)
qed

section \<open>Posting to the queue\<close>

lemma tasks_of_add_journal [simp]: "lfs_tasks (fst (add_journal tid who kind text now db)) = lfs_tasks db"
  by (simp add: add_journal_def journal_def Let_def split: option.split)

lemma tasks_of_set_state:
  "s \<in> set STATES \<Longrightarrow> find_task db tid = Some r \<Longrightarrow>
     lfs_tasks (fst (set_task_state tid s ''controller'' why now db)) = map (\<lambda>t. if lt_id t = tid then move_task s now r else t) (lfs_tasks db)"
  by (simp add: set_task_state_def WHO_def journal_def set_build_def)

lemma find_map_task: "find (\<lambda>t. lt_id t = tid) ts = Some r \<Longrightarrow> lt_id r' = tid \<Longrightarrow>
    find (\<lambda>t. lt_id t = tid) (map (\<lambda>t. if lt_id t = tid then r' else t) ts) = Some r'"
  by (induction ts) (auto split: if_splits)

lemma post_events_tasks:
  assumes "find_task db tid = Some r" "set (states h) \<subseteq> set STATES"
  shows "\<exists>r'. lt_id r' = tid \<and> lt_build_id r' = lt_build_id r \<and> lt_task r' = lt_task r \<and> lt_state r' = last (lt_state r # states h) \<and>
     lfs_tasks (post_events tid say now h db) =
       (if states h = [] then lfs_tasks db else map (\<lambda>t. if lt_id t = tid then r' else t) (lfs_tasks db))"
  using assms
proof (induction h arbitrary: db r)
  case Nil
  then have "lt_id r = tid" by (auto simp: find_task_def dest: find_Some_in)
  then show ?case by (intro exI [of _ r]) (simp add: post_events_def)
next
  case (Cons e h)
  let ?db = "post_event tid say now e db"
  have rest: "post_events tid say now (e # h) db = post_events tid say now h ?db" by (simp add: post_events_def)
  have r: "lt_id r = tid" using Cons.prems(1) by (auto simp: find_task_def dest: find_Some_in)
  show ?case
  proof (cases "\<exists>s. e = SetState s")
    case True
    then obtain s where s: "e = SetState s" by blast
    let ?m = "move_task s now r"
    have m: "lt_id ?m = tid" "lt_build_id ?m = lt_build_id r" "lt_task ?m = lt_task r" "lt_state ?m = s"
      using r by (simp_all add: move_task_def Let_def)
    have db: "lfs_tasks ?db = map (\<lambda>t. if lt_id t = tid then ?m else t) (lfs_tasks db)"
      using Cons.prems s by (simp add: tasks_of_set_state)
    then have "find_task ?db tid = Some ?m" using Cons.prems(1) m(1) find_map_task by (simp add: find_task_def)
    from Cons.IH [OF this] Cons.prems(2) s obtain r' where r': "lt_id r' = tid" "lt_build_id r' = lt_build_id ?m" "lt_task r' = lt_task ?m"
      "lt_state r' = last (lt_state ?m # states h)"
      "lfs_tasks (post_events tid say now h ?db) = (if states h = [] then lfs_tasks ?db else map (\<lambda>t. if lt_id t = tid then r' else t) (lfs_tasks ?db))"
      by auto
    show ?thesis
    proof (cases "states h = []")
      case True
      then show ?thesis using r' m s db rest by (intro exI [of _ ?m]) simp
    next
      case False
      then show ?thesis using r' m s db rest by (intro exI [of _ r']) (auto simp: r)
    qed
  next
    case False
    then have same: "lfs_tasks ?db = lfs_tasks db" "states (e # h) = states h" by (cases e; simp)+
    then have "find_task ?db tid = Some r" "set (states h) \<subseteq> set STATES" using Cons.prems by (simp_all add: find_task_def)
    from Cons.IH [OF this] show ?thesis unfolding rest same .
  qed
qed

definition state_after :: "wtask \<Rightarrow> bool \<Rightarrow> bool option \<Rightarrow> string" where
  "state_after task plan_only r = (case r of None \<Rightarrow> ''running'' | Some ok \<Rightarrow> if ok then good_state task plan_only else ''stuck'')"

lemma work_task_row:
  assumes "work_task S plan_only n row db = (r, db1)" "find_task db (lt_id row) = Some r0"
  shows "\<exists>r'. lt_id r' = lt_id row \<and> lt_build_id r' = lt_build_id r0 \<and> lt_task r' = lt_task r0 \<and>
     lt_state r' = state_after (e_task (task_env S n row db)) plan_only r \<and>
     lfs_tasks db1 = map (\<lambda>t. if lt_id t = lt_id row then r' else t) (lfs_tasks db)"
proof -
  obtain ok h where a: "attempt_task S plan_only n row db = (ok, h)" by fastforce
  let ?good = "good_state (e_task (task_env S n row db)) plan_only"
  let ?h = "if ok = None \<and> su_caught S n then h @ [Journal ''controller'' ''escalation'', SetState ''stuck''] else h"
  have good: "?good \<in> set STATES" by (simp add: good_state_def STATES_def)
  have "states h = ''running'' # task_state ?good ok"
    using a states_run_task [of "task_env S n row db" "su_files S" plan_only "su_vm_id S" "[]"] by (simp add: attempt_task_def)
  then have h: "states ?h = ''running'' # task_state ?good r"
    using assms(1) a by (auto simp: work_task_def task_state_def split: if_splits)
  then have "set (states ?h) \<subseteq> set STATES" using good by (auto simp: task_state_def STATES_def split: option.split)
  from post_events_tasks [OF assms(2) this, of "su_say S" "su_now S n"]
  obtain r' where "lt_id r' = lt_id row" "lt_build_id r' = lt_build_id r0" "lt_task r' = lt_task r0" "lt_state r' = last (lt_state r0 # states ?h)"
    "lfs_tasks (post_events (lt_id row) (su_say S) (su_now S n) ?h db) = map (\<lambda>t. if lt_id t = lt_id row then r' else t) (lfs_tasks db)"
    unfolding h by auto
  moreover have "last (lt_state r0 # states ?h) = state_after (e_task (task_env S n row db)) plan_only r"
    by (auto simp: h state_after_def task_state_def split: option.split)
  ultimately show ?thesis using assms(1) a by (intro exI [of _ r']) (auto simp: work_task_def split: if_splits)
qed

lemma next_task_row:
  assumes "next_task bid db = Some row"
  shows "row \<in> set (lfs_tasks db) \<and> lt_build_id row = bid \<and> \<not> closed_state (lt_state row)"
proof -
  obtain rows where "sort_key (\<lambda>t. tk_seq (lt_task t)) (filter (\<lambda>t. lt_build_id t = bid \<and> \<not> closed_state (lt_state t)) (lfs_tasks db)) = row # rows"
    using assms by (auto simp: next_task_def split: list.splits)
  then have "row \<in> set (filter (\<lambda>t. lt_build_id t = bid \<and> \<not> closed_state (lt_state t)) (lfs_tasks db))"
    by (metis list.set_intros(1) set_sort)
  then show ?thesis by simp
qed

lemma row_found: "row \<in> set (lfs_tasks db) \<Longrightarrow> \<exists>r. find_task db (lt_id row) = Some r"
  unfolding find_task_def by (metis (mono_tags, lifting) find_None_iff not_None_eq)

lemma filter_map_le: "(\<And>y. y \<in> set xs \<Longrightarrow> P (f y) \<Longrightarrow> P y) \<Longrightarrow> length (filter P (map f xs)) \<le> length (filter P xs)"
proof (induction xs)
  case (Cons x xs)
  then have "length (filter P (map f xs)) \<le> length (filter P xs)" by simp
  then show ?case using Cons.prems [of x] by simp
qed simp

lemma filter_map_less:
  assumes "x \<in> set xs" "P x" "\<not> P (f x)" "\<And>y. y \<in> set xs \<Longrightarrow> P (f y) \<Longrightarrow> P y"
  shows "length (filter P (map f xs)) < length (filter P xs)"
proof -
  obtain as bs where xs: "xs = as @ x # bs" using assms(1) by (meson split_list)
  have "length (filter P (map f as)) \<le> length (filter P as)" "length (filter P (map f bs)) \<le> length (filter P bs)"
    using assms(4) xs by (intro filter_map_le; simp)+
  then show ?thesis using assms(2,3) by (simp add: xs)
qed

lemma work_task_workable:
  assumes "work_task S plan_only n row db = (Some ok, db1)" "row \<in> set (workable bid db)" "ok \<longrightarrow> \<not> plan_only"
  shows "length (workable bid db1) < length (workable bid db)"
proof -
  have row: "row \<in> set (lfs_tasks db)" "lt_build_id row = bid" using assms(2) by (auto simp: workable_def)
  obtain r0 where r0: "find_task db (lt_id row) = Some r0" using row_found row(1) by blast
  obtain r' where r': "lt_id r' = lt_id row" "lt_state r' = state_after (e_task (task_env S n row db)) plan_only (Some ok)"
    "lfs_tasks db1 = map (\<lambda>t. if lt_id t = lt_id row then r' else t) (lfs_tasks db)"
    using work_task_row [OF assms(1) r0] by blast
  have "lt_state r' \<in> {''done'', ''stuck''}" using r'(2) assms(3) by (auto simp: state_after_def good_state_def)
  then show ?thesis unfolding workable_def r'(3) using assms(2) by (intro filter_map_less [of row]) (auto simp: workable_def split: if_splits)
qed

lemma started_workable: "next_task bid db = Some row \<Longrightarrow> lt_state row \<notin> {''stuck'', ''escalated''} \<Longrightarrow> row \<in> set (workable bid db)"
  using next_task_row [of bid db row] by (simp add: workable_def closed_state_def)

function main_loop :: "main_args \<Rightarrow> surroundings \<Rightarrow> nat \<Rightarrow> nat \<Rightarrow> lfs_db \<Rightarrow> ending \<times> lfs_task list \<times> lfs_db" where
  "main_loop A S n finished db =
     (case next_task (ma_build A) db of
        None \<Rightarrow> (Finished, [], db)
      | Some row \<Rightarrow>
          if lt_state row \<in> {''stuck'', ''escalated''} \<or> paused (ma_build A) db then (NeedsHelp, [], db)
          else
            (case work_task S (ma_plan_only A) n row db of (r, db1) \<Rightarrow>
              (case r of
                 None \<Rightarrow> (Died, [row], db1)
               | Some ok \<Rightarrow>
                   if \<not> ok then
                     (if ma_follow A then (case main_loop A S (n + 1) finished db1 of (why, rows, db2) \<Rightarrow> (why, row # rows, db2))
                      else (TaskFailed, [row], db1))
                   else if last_asked A row (finished + 1) then (Stopped, [row], db1)
                   else (case main_loop A S (n + 1) (finished + 1) db1 of (why, rows, db2) \<Rightarrow> (why, row # rows, db2)))))"
  by pat_completeness auto
termination
proof (relation "measure (\<lambda>(A, S, n, finished, db). length (workable (ma_build A) db))", goal_cases)
  case (2 A S n finished db row r db1 ok)
  then have "work_task S (ma_plan_only A) n row db = (Some ok, db1)" "row \<in> set (workable (ma_build A) db)" "\<not> ok"
    using started_workable by auto
  then show ?case using work_task_workable by simp
next
  case (3 A S n finished db row r db1 ok)
  then have "work_task S (ma_plan_only A) n row db = (Some ok, db1)" "row \<in> set (workable (ma_build A) db)" "\<not> ma_plan_only A"
    using started_workable by (auto simp: last_asked_def)
  then show ?case using work_task_workable by simp
qed simp

declare main_loop.simps [simp del]

end
