(* ===== verification/Lfs_Main_Props.thy ===== *)
theory Lfs_Main_Props
  imports Lfs_Main Lfs_Props
begin

text \<open>
  The LFS worker on its queue: a run leaves its task in the state that its result says, and a worker that is alone with a
  build works the book in order.
\<close>

section \<open>The state that a run leaves\<close>


section \<open>Requests of the worker\<close>





section \<open>The queue\<close>



































section \<open>A plan only\<close>

text \<open>
  Asking for a plan only is not harmless: it unpacks the source over the tree of an earlier attempt, whose marker stays, so
  that the next attempt resumes in the fresh tree; and it counts a section of the controller's own as done.
\<close>

lemma plan_only_unpacks: "\<exists>d. Shell (unpack_cmd (e_task E) f d) \<in> set (snd (run_sourced E True vm_id (Some f) h))"
proof -
  obtain p h2 where p: "prepare_source E (Some f) None h = (p, h2)" by fastforce
  then have "\<exists>d. Shell (unpack_cmd (e_task E) f d) \<in> set h2"
    by (auto simp: prepare_source_def progressed_def unpack_def shell_def Let_def split_beta split: if_splits)
  moreover have "set h2 \<subseteq> set (snd (run_sourced E True vm_id (Some f) h))"
    by (auto simp: run_sourced_def p do_controllers_own_def plan_and_run_def plan_twice_def ask_plan_def checkpoint_def Let_def split: option.split)
  ultimately show ?thesis by blast
qed

lemma plan_only_finishes:
  assumes "controllers_own (e_task E)" "w_package (e_task E) = []"
  shows "states (snd (run_task E files True [] [])) = [''running'', ''done'']"
proof -
  have "fst (run_task E files True [] []) = Some True"
    using assms by (simp add: run_task_def source_file_def run_sourced_def prepare_source_def Let_def)
  then show ?thesis using states_run_task [of E files True "[]" "[]"] assms(1) by (simp add: task_state_def good_state_def)
qed

end
