(* ===== verification/Scheduler_Routes.thy ===== *)
theory Scheduler_Routes
  imports Scheduler Host Regex
begin

text \<open>
  \<^verbatim>\<open>api/scheduler_routes.py\<close>, with the validation of the jobs' options in \<^verbatim>\<open>api/repo_sync.py\<close> and
  \<^verbatim>\<open>api/host_backup.py\<close>.  A request has passed the gates of \<open>Authz\<close> before it comes here.

  A body is the object of \<^verbatim>\<open>request.get_json\<close>.  Its \<^verbatim>\<open>var_overrides\<close> are absent or an object.  \<open>Inl ()\<close> is an
  exception that the route does not catch.
\<close>

section \<open>The routes' own check\<close>

definition scheduler_auth :: "string \<Rightarrow> request \<Rightarrow> bool" where
  "scheduler_auth API_TOKEN q \<longleftrightarrow>
     (let t = (if startswith (q_auth q) bearer_prefix then removeprefix (q_auth q) bearer_prefix else q_auth q)
      in (if t \<noteq> [] then t else q_token_arg q) = API_TOKEN)"

text \<open>The wrapper of every route.\<close>

definition authed :: "string \<Rightarrow> request \<Rightarrow> 'd \<Rightarrow> unit + 'd \<times> 'b reply \<Rightarrow> unit + 'd \<times> 'b reply" where
  "authed API_TOKEN q db result = (if scheduler_auth API_TOKEN q then result else Inr (db, Problem 401 ''Unauthorized''))"

section \<open>Options of the jobs\<close>

definition sync_options_ok :: "(jval \<Rightarrow> string) \<Rightarrow> jdict \<Rightarrow> bool" where
  "sync_options_ok rep options \<longleftrightarrow>
     (let mode = jget options ''mode''; source = or_text rep (jget options ''source'') in
      mode \<in> {JStr ''index'', JStr ''pull''} \<and>
      (mode = JStr ''pull'' \<longrightarrow> startswith source ''http://'' \<or> startswith source ''https://''))"

definition BACKUP_TARGET :: rx where "BACKUP_TARGET = re ''^[a-z_][a-z0-9_-]*@[A-Za-z0-9.-]+$''"

text \<open>\<^verbatim>\<open>isinstance(keep, int) and 1 <= keep <= 60\<close>, where \<^verbatim>\<open>True\<close> is 1.\<close>

definition keep_ok :: "jval \<Rightarrow> bool" where
  "keep_ok v \<longleftrightarrow> (case v of JInt i \<Rightarrow> 1 \<le> i \<and> i \<le> 60 | JBool b \<Rightarrow> b | _ \<Rightarrow> False)"

definition backup_options_ok :: "(jval \<Rightarrow> string) \<Rightarrow> jdict \<Rightarrow> bool" where
  "backup_options_ok rep options \<longleftrightarrow>
     matches BACKUP_TARGET (or_text rep (jget options ''to'')) \<and> keep_ok (jget_default options ''keep'' (JInt 7))"

definition options_ok :: "(jval \<Rightarrow> string) \<Rightarrow> string \<Rightarrow> jdict \<Rightarrow> bool" where
  "options_ok rep kind options \<longleftrightarrow>
     (kind = ''repo_sync'' \<longrightarrow> sync_options_ok rep options) \<and> (kind = ''host_backup'' \<longrightarrow> backup_options_ok rep options)"

section \<open>Bodies\<close>

definition body_options :: "jdict \<Rightarrow> jdict option" where
  "body_options body = (case map_of body ''var_overrides'' of Some (JObj d) \<Rightarrow> Some d | _ \<Rightarrow> None)"

text \<open>\<^verbatim>\<open>(body.get("name") or "").strip()\<close>.\<close>

definition body_name :: "jdict \<Rightarrow> string option" where
  "body_name body = (let v = jget body ''name'' in
     if \<not> jtruthy v then Some [] else (case v of JStr s \<Rightarrow> Some (py_strip s) | _ \<Rightarrow> None))"

text \<open>\<^verbatim>\<open>not recurrence or "mode" not in recurrence\<close>; the membership test of a number raises, and so does later the
  use of a list or a text as a dictionary.\<close>

definition body_recurrence :: "jdict \<Rightarrow> unit + jdict option" where
  "body_recurrence body =
     (let v = jget body ''recurrence'' in
      if \<not> jtruthy v then Inr None
      else (case v of
          JObj d \<Rightarrow> Inr (if ''mode'' \<in> fst ` set d then Some d else None)
        | JList vs \<Rightarrow> if JStr ''mode'' \<in> set vs then Inl () else Inr None
        | JStr s \<Rightarrow> if py_in ''mode'' s then Inl () else Inr None
        | _ \<Rightarrow> Inl ()))"

text \<open>A text bound to a column: SQLite stores a number as its text, \<^verbatim>\<open>NULL\<close> violates the constraint of the column and a list
  or object cannot be bound.\<close>

definition bound_text :: "(jval \<Rightarrow> string) \<Rightarrow> jval \<Rightarrow> string option" where
  "bound_text rep v =
     (case v of JStr s \<Rightarrow> Some s | JInt i \<Rightarrow> Some (show_int i) | JBool b \<Rightarrow> Some (if b then ''1'' else ''0'') | JFloat r \<Rightarrow> Some (rep v) | _ \<Rightarrow> None)"

text \<open>The engine and the template of each kind, or why there are none: \<open>Inl True\<close> is 400, \<open>Inl False\<close> an exception.\<close>

definition pool_given :: "jdict \<Rightarrow> bool" where
  "pool_given options \<longleftrightarrow> (case jget options ''worker_peer_pool'' of JList ps \<Rightarrow> ps \<noteq> [] | _ \<Rightarrow> False)"

definition engine_template :: "(jval \<Rightarrow> string) \<Rightarrow> string \<Rightarrow> jdict \<Rightarrow> bool + string \<times> string" where
  "engine_template rep kind body =
     (let options = (case body_options body of None \<Rightarrow> [] | Some d \<Rightarrow> d) in
      if kind = ''llm_ingest'' then (if pool_given options then Inr (''tofu'', ''distributed-llm'') else Inl True)
      else if kind = ''kiwix_update'' then Inr (''tofu'', ''llm-chat'')
      else if kind = ''lfs_update'' then Inr (''tofu'', ''lfs'')
      else if kind = ''repo_sync'' then (if sync_options_ok rep options then Inr (''tofu'', ''package-repo'') else Inl True)
      else if kind = ''host_backup'' then (if backup_options_ok rep options then Inr (''tofu'', ''host-backup'') else Inl True)
      else
        (let engine = jget body ''engine''; template = jget body ''template'' in
         if engine \<notin> {JStr ''tofu'', JStr ''ansible''} \<or> \<not> jtruthy template then Inl True
         else (case bound_text rep template of None \<Rightarrow> Inl False | Some t \<Rightarrow> Inr (if engine = JStr ''tofu'' then ''tofu'' else ''ansible'', t))))"

text \<open>\<^verbatim>\<open>except (croncalc.InvalidCron, ValueError)\<close>.\<close>

definition caught :: "sched_error \<Rightarrow> bool" where
  "caught e \<longleftrightarrow> e \<noteq> TimestampType"

section \<open>Routes\<close>

definition post_schedule ::
    "(jval \<Rightarrow> string) \<Rightarrow> (string \<Rightarrow> bool) \<Rightarrow> string \<Rightarrow> moment \<Rightarrow> jdict \<Rightarrow> sched_db \<Rightarrow> unit + sched_db \<times> schedule reply" where
  "post_schedule rep fromisoformat new_id now body db =
     (case body_name body of
        None \<Rightarrow> Inl ()
      | Some name \<Rightarrow>
          if name = [] then Inr (db, Problem 400 ''Bad Request'')
          else (case find (\<lambda>k. jget body ''kind'' = JStr k) KINDS of
              None \<Rightarrow> Inr (db, Problem 400 ''Bad Request'')
            | Some kind \<Rightarrow>
                (case body_recurrence body of
                   Inl () \<Rightarrow> Inl ()
                 | Inr None \<Rightarrow> Inr (db, Problem 400 ''Bad Request'')
                 | Inr (Some rec) \<Rightarrow>
                     (case engine_template rep kind body of
                        Inl True \<Rightarrow> Inr (db, Problem 400 ''Bad Request'')
                      | Inl False \<Rightarrow> Inl ()
                      | Inr (engine, template) \<Rightarrow>
                          (case create_schedule fromisoformat new_id now name kind engine template
                                  (case body_options body of None \<Rightarrow> [] | Some d \<Rightarrow> d) rec ''ui'' db of
                             Inl e \<Rightarrow> if caught e then Inr (db, Problem 400 ''Bad Request'') else Inl ()
                           | Inr (db', s) \<Rightarrow> Inr (db', Reply 201 s))))))"

text \<open>The fields of an update, those that are in the body; a recurrence that is no object raises.  \<open>name_bound\<close> is false if
  the statement cannot be executed with the name of the body.\<close>

definition body_fields :: "(jval \<Rightarrow> string) \<Rightarrow> jdict \<Rightarrow> schedule_fields option" where
  "body_fields rep body =
     (let f = \<lparr>sf_name = Option.bind (map_of body ''name'') (bound_text rep), sf_enabled = map_option jtruthy (map_of body ''enabled''),
                sf_var_overrides = body_options body, sf_recurrence = None\<rparr> in
      (case map_of body ''recurrence'' of
         None \<Rightarrow> Some f
       | Some (JObj d) \<Rightarrow> Some (f\<lparr>sf_recurrence := Some d\<rparr>)
       | _ \<Rightarrow> None))"

definition name_bound :: "(jval \<Rightarrow> string) \<Rightarrow> jdict \<Rightarrow> bool" where
  "name_bound rep body \<longleftrightarrow> (case map_of body ''name'' of None \<Rightarrow> True | Some v \<Rightarrow> bound_text rep v \<noteq> None)"

definition put_schedule ::
    "(jval \<Rightarrow> string) \<Rightarrow> (string \<Rightarrow> bool) \<Rightarrow> string \<Rightarrow> moment \<Rightarrow> jdict \<Rightarrow> sched_db \<Rightarrow> unit + sched_db \<times> schedule option reply" where
  "put_schedule rep fromisoformat schedule_id now body db =
     (case get_schedule db schedule_id of
        None \<Rightarrow> Inr (db, Problem 404 ''Not Found'')
      | Some existing \<Rightarrow>
          (case (case body_options body of None \<Rightarrow> True | Some d \<Rightarrow> options_ok rep (sc_kind existing) d) of
             False \<Rightarrow> Inr (db, Problem 400 ''Bad Request'')
           | True \<Rightarrow>
               (case body_fields rep body of
                  None \<Rightarrow> Inl ()
                | Some f \<Rightarrow>
                    (case update_schedule fromisoformat now schedule_id f db of
                       Inl e \<Rightarrow> if caught e then Inr (db, Problem 400 ''Bad Request'') else Inl ()
                     | Inr (db', s) \<Rightarrow> if name_bound rep body then Inr (db', Reply 200 s) else Inl ()))))"

definition remove_schedule :: "string \<Rightarrow> sched_db \<Rightarrow> sched_db \<times> unit reply" where
  "remove_schedule schedule_id db =
     (case delete_schedule schedule_id db of (db', found) \<Rightarrow> if found then (db', NoContent 204) else (db', Problem 404 ''Not Found''))"

definition show_schedule :: "string \<Rightarrow> sched_db \<Rightarrow> schedule reply" where
  "show_schedule schedule_id db = (case get_schedule db schedule_id of None \<Rightarrow> Problem 404 ''Not Found'' | Some s \<Rightarrow> Reply 200 s)"

definition show_runs :: "string \<Rightarrow> sched_db \<Rightarrow> (schedule_run \<times> llm_ingestion option) list reply" where
  "show_runs schedule_id db =
     (if get_schedule db schedule_id = None then Problem 404 ''Not Found'' else Reply 200 (list_runs db schedule_id 50))"

definition post_run_now :: "string \<Rightarrow> sched_db \<Rightarrow> string list \<times> unit reply" where
  "post_run_now schedule_id db =
     (case run_now schedule_id db of (jobs, found) \<Rightarrow> if found then (jobs, NoContent 202) else (jobs, Problem 404 ''Not Found''))"

text \<open>\<^verbatim>\<open>min(int(request.args.get("limit", 50)), 200)\<close>: \<open>None\<close> is the \<^verbatim>\<open>ValueError\<close>; SQLite reads a negative limit as none.\<close>

definition show_performance :: "string option \<Rightarrow> sched_db \<Rightarrow> (llm_ingestion \<times> string \<times> string) list reply option" where
  "show_performance arg db =
     map_option (\<lambda>i. let n = min i 200 in
         Reply 200 (list_llm_ingestions db (if n < 0 then length (llm_ingestions db) else nat n)))
       (case arg of None \<Rightarrow> Some 50 | Some s \<Rightarrow> py_int s)"

section \<open>The jobs' commands\<close>

text \<open>The arguments of the scripts, after the interpreter and the script; \<open>None\<close> when the options are refused again.\<close>

definition sync_argv :: "(jval \<Rightarrow> string) \<Rightarrow> jdict \<Rightarrow> string list option" where
  "sync_argv rep options =
     (if \<not> sync_options_ok rep options then None
      else
        (let codename = (if jtruthy (jget options ''codename'') then py_str rep (jget options ''codename'') else ''jammy'') in
         if jget options ''mode'' = JStr ''index'' then Some [''checksums'', ''--codename'', codename]
         else Some ([''pull'', ''--from'', or_text rep (jget options ''source''), ''--codename'', codename] @
                (if jtruthy (jget options ''prune'') then [''--prune''] else []))))"

definition backup_argv :: "(jval \<Rightarrow> string) \<Rightarrow> jdict \<Rightarrow> string list option" where
  "backup_argv rep options =
     (if \<not> backup_options_ok rep options then None
      else Some [''--to'', or_text rep (jget options ''to''), ''--keep'', py_str rep (jget_default options ''keep'' (JInt 7))])"

definition job_argv :: "(jval \<Rightarrow> string) \<Rightarrow> schedule \<Rightarrow> string list option" where
  "job_argv rep s = (if sc_kind s = ''repo_sync'' then sync_argv rep (sc_var_overrides s) else backup_argv rep (sc_var_overrides s))"

section \<open>Stored options\<close>

inductive routes_step :: "(jval \<Rightarrow> string) \<Rightarrow> sched_db \<Rightarrow> sched_db \<Rightarrow> bool" for rep where
  Post: "post_schedule rep fromisoformat new_id now body db = Inr (db', r) \<Longrightarrow> new_id \<notin> sc_id ` set (schedules db) \<Longrightarrow> routes_step rep db db'"
| Put: "put_schedule rep fromisoformat i now body db = Inr (db', r') \<Longrightarrow> routes_step rep db db'"
| Remove: "routes_step rep db (fst (remove_schedule i db))"
| Tick: "routes_step rep db (fst (tick now clock db))"
| NewRun: "new_run run_id now i db = Some db' \<Longrightarrow> routes_step rep db db'"
| FinishRun: "routes_step rep db (finish_run run_id i status summary lines now db)"

definition schedule_ok :: "(jval \<Rightarrow> string) \<Rightarrow> schedule \<Rightarrow> bool" where
  "schedule_ok rep s \<longleftrightarrow> sc_kind s \<in> set KINDS \<and> options_ok rep (sc_kind s) (sc_var_overrides s)"

text \<open>The identifiers are a primary key, and new ones are fresh.\<close>

definition schedules_ok :: "(jval \<Rightarrow> string) \<Rightarrow> sched_db \<Rightarrow> bool" where
  "schedules_ok rep db \<longleftrightarrow> distinct (map sc_id (schedules db)) \<and> list_all (schedule_ok rep) (schedules db)"

lemma schedules_ok_set:
  assumes "schedules_ok rep db" "\<And>s. sc_id (f s) = sc_id s" "\<And>s. get_schedule db i = Some s \<Longrightarrow> schedule_ok rep s \<Longrightarrow> schedule_ok rep (f s)"
  shows "schedules_ok rep (set_schedule i f db)"
proof -
  have "get_schedule db i = Some s" if "s \<in> set (schedules db)" "sc_id s = i" for s
    using find_wf [where key = sc_id and t = "schedules db" and Q = "\<lambda>_. True"] that assms(1)
    by (simp add: schedules_ok_def wf_table_def get_schedule_def)
  then have "list_all (schedule_ok rep) (schedules (set_schedule i f db))"
    using assms by (auto simp: schedules_ok_def set_schedule_def update_where_def list_all_iff)
  moreover have "map sc_id (schedules (set_schedule i f db)) = map sc_id (schedules db)"
    using assms(2) by (simp add: set_schedule_def update_where_def)
  ultimately show ?thesis using assms(1) by (simp add: schedules_ok_def)
qed

lemma engine_template_ok: "engine_template rep kind body = Inr et \<Longrightarrow> options_ok rep kind (case body_options body of None \<Rightarrow> [] | Some d \<Rightarrow> d)"
  by (auto simp: engine_template_def options_ok_def Let_def split: if_splits)

lemma post_schedule_Inr:
  assumes "post_schedule rep fromisoformat new_id now body db = Inr (db', r)"
  shows "db' = db \<or> (\<exists>s. schedules db' = schedules db @ [s] \<and> sc_id s = new_id \<and> schedule_ok rep s)"
proof (cases "\<exists>s. r = Reply 201 s")
  case True
  then obtain s where "r = Reply 201 s" by blast
  then obtain name kind rec et where o: "find (\<lambda>k. jget body ''kind'' = JStr k) KINDS = Some kind" "engine_template rep kind body = Inr et"
    "create_schedule fromisoformat new_id now name kind (fst et) (snd et) (case body_options body of None \<Rightarrow> [] | Some d \<Rightarrow> d) rec ''ui'' db = Inr (db', s)"
    using assms by (auto simp: post_schedule_def split: option.splits if_splits sum.splits bool.splits unit.splits)
  have "kind \<in> set KINDS" using o(1) by (meson find_Some_in)
  then have "schedules db' = schedules db @ [s] \<and> sc_id s = new_id \<and> schedule_ok rep s"
    using o(3) engine_template_ok [OF o(2)] by (auto simp: create_schedule_def raise_bind_Inr_iff Let_def schedule_ok_def)
  then show ?thesis by blast
next
  case False
  then show ?thesis using assms by (auto simp: post_schedule_def split: option.splits if_splits sum.splits bool.splits unit.splits)
qed

lemma apply_fields_frame [simp]: "sc_id (apply_fields f s) = sc_id s" "sc_kind (apply_fields f s) = sc_kind s"
    "sc_var_overrides (apply_fields f s) = (case sf_var_overrides f of None \<Rightarrow> sc_var_overrides s | Some v \<Rightarrow> v)"
  by (simp_all add: apply_fields_def Let_def split: option.split)

lemma update_schedule_ok:
  assumes "update_schedule fromisoformat now i f db = Inr (db', s')" "schedules_ok rep db"
    "\<And>s v. get_schedule db i = Some s \<Longrightarrow> sf_var_overrides f = Some v \<Longrightarrow> options_ok rep (sc_kind s) v"
  shows "schedules_ok rep db'"
proof -
  have step: "schedules_ok rep (set_schedule i (\<lambda>s. g (apply_fields f s)) db)"
    if "\<And>s. sc_id (g s) = sc_id s \<and> sc_kind (g s) = sc_kind s \<and> sc_var_overrides (g s) = sc_var_overrides s" for g
    using that assms(2,3) by (intro schedules_ok_set) (auto simp: schedule_ok_def split: option.splits)
  show ?thesis
    using assms(1,2) step [of "\<lambda>s. s"] step [of "\<lambda>s. s\<lparr>sc_recurrence_type := t, sc_run_at := ra, sc_cron_expr := ce, sc_next_run_at := nr\<rparr>" for t ra ce nr]
    by (auto simp: update_schedule_def raise_bind_Inr_iff Let_def split: if_splits option.splits)
qed

lemma schedules_ok_same: "schedules_ok rep db \<Longrightarrow> schedules db' = schedules db \<Longrightarrow> schedules_ok rep db'"
  by (simp add: schedules_ok_def)

lemma schedules_ok_plain: "schedules_ok rep db \<Longrightarrow> (\<And>s. sc_id (f s) = sc_id s \<and> sc_kind (f s) = sc_kind s \<and> sc_var_overrides (f s) = sc_var_overrides s) \<Longrightarrow>
    schedules_ok rep (set_schedule i f db)"
  by (intro schedules_ok_set) (auto simp: schedule_ok_def)

lemma advance_all_options: "advance_all clock is db = (db', e) \<Longrightarrow> schedules_ok rep db \<Longrightarrow> schedules_ok rep db'"
proof (induction clock "is" db rule: advance_all.induct)
  case (2 clock i "is" db)
  then show ?case
    by (auto simp: advance_before_run_def schedules_ok_plain split: sum.splits option.splits if_splits)
qed simp

lemma put_schedule_ok:
  assumes "put_schedule rep fromisoformat i now body db = Inr (db', r)" "schedules_ok rep db"
  shows "schedules_ok rep db'"
proof (cases "db' = db")
  case False
  then obtain s f s' where o: "get_schedule db i = Some s" "case body_options body of None \<Rightarrow> True | Some d \<Rightarrow> options_ok rep (sc_kind s) d"
    "body_fields rep body = Some f" "update_schedule fromisoformat now i f db = Inr (db', s')"
    using assms(1) by (auto simp: put_schedule_def split: option.splits bool.splits sum.splits if_splits)
  have "sf_var_overrides f = body_options body" using o(3) by (auto simp: body_fields_def Let_def split: option.splits jval.splits)
  then show ?thesis using update_schedule_ok [OF o(4) assms(2)] o(1,2) by (auto split: option.splits)
qed (use assms in simp)

lemma routes_step_ok: "routes_step rep db db' \<Longrightarrow> schedules_ok rep db \<Longrightarrow> schedules_ok rep db'"
proof (induction rule: routes_step.induct)
  case (Post fromisoformat new_id now body db db' r)
  then show ?case using post_schedule_Inr by (fastforce simp: schedules_ok_def)
next
  case (Put fromisoformat i now body db db' r')
  then show ?case using put_schedule_ok by blast
next
  case (Remove db i)
  then show ?case by (auto simp: remove_schedule_def delete_schedule_def schedules_ok_def list_all_iff distinct_map_filter)
next
  case (Tick db now clock)
  then show ?case using advance_all_options by (auto simp: tick_def split: prod.splits option.splits)
next
  case (NewRun run_id now i db db')
  then show ?case by (auto simp: new_run_def split: if_splits intro: schedules_ok_same)
next
  case (FinishRun db run_id i status summary lines now)
  then show ?case by (auto simp: finish_run_def intro!: schedules_ok_plain intro: schedules_ok_same)
qed

definition no_schedules :: sched_db where
  "no_schedules = \<lparr>schedules = [], schedule_runs = [], llm_ingestions = [], failed_build_logs = []\<rparr>"

text \<open>
  Whatever requests and runs come, a stored schedule is of a known kind, and the job of a repository sync or a host backup is
  never refused for its options: its command exists.
\<close>

lemma jobs_have_commands:
  assumes "(routes_step rep)\<^sup>*\<^sup>* no_schedules db" "s \<in> set (schedules db)"
  shows "sc_kind s \<in> set KINDS \<and> (sc_kind s \<in> {''repo_sync'', ''host_backup''} \<longrightarrow> job_argv rep s \<noteq> None)"
proof -
  have "schedules_ok rep no_schedules" by (simp add: no_schedules_def schedules_ok_def)
  with assms(1) have "schedules_ok rep db" by (induction rule: rtranclp_induct) (auto intro: routes_step_ok)
  then have "schedule_ok rep s" using assms(2) by (simp add: schedules_ok_def list_all_iff)
  then show ?thesis by (auto simp: schedule_ok_def options_ok_def job_argv_def sync_argv_def backup_argv_def Let_def)
qed

section \<open>Where the routes fall short\<close>

text \<open>The pool of an ingest schedule is required when it is created, and may be dropped by an update.\<close>

lemma update_drops_pool:
  assumes "get_schedule db i = Some s" "sc_kind s = ''llm_ingest''"
  shows "\<exists>db'. put_schedule rep fromisoformat i now [(''var_overrides'', JObj [])] db = Inr (db', Reply 200 (Some (s\<lparr>sc_var_overrides := []\<rparr>)))"
    "\<not> pool_given []"
proof -
  have "get_schedule (set_schedule i f db) i = Some (f s)" if "\<And>s. sc_id (f s) = sc_id s" for f
  proof -
    have "find (\<lambda>s. sc_id s = i) ss = Some s \<Longrightarrow> find (\<lambda>s. sc_id s = i) (map (\<lambda>r. if sc_id r = i then f r else r) ss) = Some (f s)" for ss
      by (induction ss) (auto simp: that split: if_splits)
    then show ?thesis using assms(1) by (simp add: get_schedule_def set_schedule_def update_where_def)
  qed
  then show "\<exists>db'. put_schedule rep fromisoformat i now [(''var_overrides'', JObj [])] db = Inr (db', Reply 200 (Some (s\<lparr>sc_var_overrides := []\<rparr>)))"
    using assms by (auto simp: put_schedule_def body_options_def options_ok_def body_fields_def name_bound_def update_schedule_def apply_fields_def Let_def)
  show "\<not> pool_given []" by (simp add: pool_given_def jget_def)
qed

text \<open>The pattern of a backup's target also matches before a final newline.\<close>

lemma target_with_newline: "matches BACKUP_TARGET (''me@host'' @ [newline])"
  by code_simp

text \<open>The routes admit only the master token, although the gate also admits named tokens of the same scope.\<close>

lemma named_admin_refused:
  assumes "q_auth q = bearer_prefix @ t" "t \<noteq> []" "t \<noteq> API_TOKEN"
  shows "authed API_TOKEN q db result = Inr (db, Problem 401 ''Unauthorized'')"
  using assms by (simp add: authed_def scheduler_auth_def Let_def)

end
