(* ===== verification/Nfs.thy ===== *)
theory Nfs
  imports Store Host Json Regex Shell_Shape
begin

text \<open>
  \<^verbatim>\<open>api/nfs_store.py\<close>, \<^verbatim>\<open>api/nfs_routes.py\<close> and the part of \<^verbatim>\<open>api/nfs.py\<close> that decides what is run on an NFS server: the
  table of servers, their shares, the lines of \<^verbatim>\<open>/etc/exports\<close> and the commands sent over SSH.  A share is the
  object that the client sent.  Disks, the cloud-init image and libvirt are left out; what they answer is an argument.
\<close>

section \<open>The table\<close>

datatype nfs_status = NfsPending | NfsRunning | NfsStopped | NfsDeleted | NfsError

record nfs_server =
  n_id :: string
  n_name :: string
  n_vpc_id :: string
  n_flavor :: string
  n_disk_gb :: int
  n_status :: nfs_status
  n_private_ip :: string
  n_ssh_host_port :: int
  n_domain_name :: string
  n_shares :: "jdict list"
  n_created_at :: string
  n_tags :: jdict

definition n_live :: "nfs_server \<Rightarrow> bool" where "n_live s \<longleftrightarrow> n_status s \<noteq> NfsDeleted"

definition nfs_get :: "nfs_server list \<Rightarrow> string \<Rightarrow> nfs_server option" where
  "nfs_get t i = live_get n_id n_live t i"

definition nfs_find_by_name :: "nfs_server list \<Rightarrow> string \<Rightarrow> nfs_server option" where
  "nfs_find_by_name t n = find (\<lambda>s. n_name s = n \<and> n_live s) t"

definition nfs_list_all :: "nfs_server list \<Rightarrow> nfs_server list" where
  "nfs_list_all t = filter n_live t"

definition nfs_merge :: "nfs_server \<Rightarrow> nfs_server \<Rightarrow> nfs_server" where
  "nfs_merge old new = new\<lparr>n_vpc_id := n_vpc_id old, n_flavor := n_flavor old, n_disk_gb := n_disk_gb old, n_created_at := n_created_at old\<rparr>"

definition nfs_put :: "nfs_server list \<Rightarrow> nfs_server \<Rightarrow> nfs_server list" where
  "nfs_put t s = upsert n_id nfs_merge s t"

definition nfs_delete :: "nfs_server list \<Rightarrow> string \<Rightarrow> nfs_server list \<times> bool" where
  "nfs_delete t i = live_delete n_id n_live (\<lambda>s. s\<lparr>n_status := NfsDeleted\<rparr>) t i"

definition stored_nfs :: "nfs_server list \<Rightarrow> nfs_server \<Rightarrow> nfs_server" where
  "stored_nfs = stored_row n_id nfs_merge"

interpretation nfs_servers: resource_store n_id n_live nfs_get nfs_list_all nfs_put nfs_delete stored_nfs
  unfolding nfs_get_def [abs_def] nfs_list_all_def [abs_def] nfs_put_def [abs_def] nfs_delete_def [abs_def] stored_nfs_def
  by (rule resource_store_live) (simp_all add: n_live_def nfs_merge_def)

section \<open>What is run on a server\<close>

text \<open>The endpoint of a server: port and host.\<close>

definition ssh_target :: "nfs_server \<Rightarrow> (int \<times> string) option" where
  "ssh_target s =
     (if n_ssh_host_port s = 0 \<and> n_private_ip s = [] then None
      else Some (if n_ssh_host_port s \<noteq> 0 then n_ssh_host_port s else 22, if n_ssh_host_port s \<noteq> 0 then ''127.0.0.1'' else n_private_ip s))"

definition ssh_base_cmd :: "string \<Rightarrow> nfs_server \<Rightarrow> string list option" where
  "ssh_base_cmd key s =
     map_option (\<lambda>(port, host). [''ssh'', ''-i'', key, ''-p'', show_int port, ''-o'', ''StrictHostKeyChecking=no'',
        ''-o'', ''UserKnownHostsFile=/dev/null'', ''-o'', ''ConnectTimeout=10'', ''ubuntu@'' @ host]) (ssh_target s)"

definition share_name :: "(jval \<Rightarrow> string) \<Rightarrow> jdict \<Rightarrow> string" where
  "share_name rep s = py_str rep (jget s ''name'')"

text \<open>\<open>vpc_hosts\<close> stands for the clients of the network; \<open>None\<close> is the \<^verbatim>\<open>TypeError\<close> of joining what is no text.\<close>

definition host_spec :: "(jval \<Rightarrow> string) \<Rightarrow> string \<Rightarrow> jdict \<Rightarrow> string option" where
  "host_spec rep vpc_hosts s =
     (let clients = jget_default s ''clients'' (JStr ''vpc'') in
      if clients = JStr ''vpc'' then Some vpc_hosts
      else (case clients of
          JList cs \<Rightarrow> map_option (join '' '') (all_some (map (\<lambda>c. case c of JStr t \<Rightarrow> Some t | _ \<Rightarrow> None) cs))
        | v \<Rightarrow> Some (py_str rep v)))"

definition export_line :: "(jval \<Rightarrow> string) \<Rightarrow> string \<Rightarrow> jdict \<Rightarrow> string option" where
  "export_line rep vpc_hosts s =
     map_option (\<lambda>h. ''/exports/'' @ share_name rep s @ '' '' @ h @ ''(rw,sync,no_subtree_check,no_root_squash)'') (host_spec rep vpc_hosts s)"

definition reload_cmd :: "(jval \<Rightarrow> string) \<Rightarrow> string \<Rightarrow> nfs_server \<Rightarrow> string option" where
  "reload_cmd rep vpc_hosts s =
     map_option (\<lambda>ls. ''echo '' @ [apostrophe] @ join [newline] ls @ [newline] @ [apostrophe] @ '' | sudo tee /etc/exports > /dev/null && sudo exportfs -ra'')
       (all_some (map (export_line rep vpc_hosts) (n_shares s)))"

definition mkdir_cmds :: "(jval \<Rightarrow> string) \<Rightarrow> jdict list \<Rightarrow> string" where
  "mkdir_cmds rep shares =
     (let ls = join ([newline] @ ''  '')
        (map (\<lambda>s. ''- mkdir -p /exports/'' @ share_name rep s @ '' && chmod 777 /exports/'' @ share_name rep s) shares)
      in if ls = [] then ''- true'' else ls)"

definition FILENAME_RE :: rx where "FILENAME_RE = re ''^[A-Za-z0-9][A-Za-z0-9._-]{0,254}$''"

definition valid_filename :: "string \<Rightarrow> bool" where
  "valid_filename f \<longleftrightarrow> f \<noteq> ''.'' \<and> f \<noteq> ''..'' \<and> matches FILENAME_RE f"

definition share_dir :: "string \<Rightarrow> string" where "share_dir share = ''/exports/'' @ share"
definition file_path :: "string \<Rightarrow> string \<Rightarrow> string" where "file_path share f = share_dir share @ ''/'' @ f"

definition list_cmd :: "string \<Rightarrow> string" where
  "list_cmd share =
     ''sudo mkdir -p '' @ shlex_quote (share_dir share) @ '' && find '' @ shlex_quote (share_dir share) @ '' -mindepth 1 -maxdepth 1 -printf '' @
     [apostrophe] @ ''%f'' @ [backslash] @ ''t%s'' @ [backslash] @ ''t%T@'' @ [backslash] @ ''n'' @ [apostrophe] @ '' 2>/dev/null | sort''"

definition upload_cmd :: "string \<Rightarrow> string \<Rightarrow> string" where
  "upload_cmd share f = ''sudo mkdir -p '' @ shlex_quote (share_dir share) @ '' && sudo tee '' @ shlex_quote (file_path share f) @ '' > /dev/null''"

definition delete_cmd :: "string \<Rightarrow> string \<Rightarrow> string" where
  "delete_cmd share f = ''sudo rm -f '' @ shlex_quote (file_path share f)"

definition mount_command :: "nfs_server \<Rightarrow> string \<Rightarrow> string \<Rightarrow> string" where
  "mount_command s share mount_point = ''mount -t nfs '' @ n_private_ip s @ '':/exports/'' @ share @ '' '' @ mount_point"

definition cloud_init_mount_entry :: "string \<Rightarrow> string \<Rightarrow> string \<Rightarrow> string list" where
  "cloud_init_mount_entry nfs_ip share mount_point =
     [nfs_ip @ '':/exports/'' @ share, mount_point, ''nfs'', ''defaults,_netdev,nofail'', ''0'', ''0'']"

section \<open>Servers\<close>

record nfs_body =
  nb_name :: string
  nb_vpc_id :: string
  nb_flavor :: string
  nb_disk_gb :: "int option"      \<comment> \<open>\<open>None\<close>: not a number\<close>
  nb_shares :: "jdict list"
  nb_tags :: jdict

text \<open>The threads that a request starts.\<close>

datatype nfs_job = Launch nfs_server string | Destroy nfs_server | Reload nfs_server

text \<open>\<open>None\<close> is an exception that the route does not catch.\<close>

definition create_server :: "string \<Rightarrow> string \<Rightarrow> nfs_body \<Rightarrow> vpc list \<Rightarrow> nfs_server list \<Rightarrow> (nfs_server list \<times> nfs_job list \<times> nfs_server reply) option" where
  "create_server new_id now body vpcs t =
     (let name = py_strip (nb_name body) in
      if name = [] \<or> nb_vpc_id body = [] then Some (t, [], Problem 400 ''Bad Request'')
      else if nfs_find_by_name t name \<noteq> None then Some (t, [], Problem 409 ''Conflict'')
      else (case store_get_vpc vpcs (nb_vpc_id body) of
          None \<Rightarrow> Some (t, [], Problem 404 ''Not Found'')
        | Some vpc \<Rightarrow>
            if list_ex (\<lambda>s. \<not> jtruthy (jget s ''name'')) (nb_shares body) then Some (t, [], Problem 400 ''Bad Request'')
            else
              map_option
                (\<lambda>gb. let s = \<lparr>n_id = new_id, n_name = name, n_vpc_id = nb_vpc_id body, n_flavor = nb_flavor body, n_disk_gb = gb,
                              n_status = NfsPending, n_private_ip = [], n_ssh_host_port = 0, n_domain_name = [], n_shares = nb_shares body,
                              n_created_at = now, n_tags = nb_tags body\<rparr>
                      in (nfs_put t s, [Launch s (v_cidr_block vpc)], Reply 202 s))
                (nb_disk_gb body)))"

text \<open>How far a launch comes: the flavour is unknown, the disks or the image fail, libvirt fails, or it runs and has the
  address that libvirt then gives.  It works on the object of the request, not on the row of the table.\<close>

datatype launch = UnknownFlavor | NoDisk | NoDomain int | Launched int string

definition nfs_domain_name :: "nfs_server \<Rightarrow> string" where "nfs_domain_name s = ''ccnfs-'' @ take 8 (n_id s)"

definition with_port :: "bool \<Rightarrow> int \<Rightarrow> nfs_server \<Rightarrow> nfs_server" where
  "with_port bridged port s =
     s\<lparr>n_domain_name := nfs_domain_name s, n_ssh_host_port := (if bridged then 0 else port), n_private_ip := (if bridged then [] else ''10.0.2.15'')\<rparr>"

definition launched :: "bool \<Rightarrow> launch \<Rightarrow> nfs_server \<Rightarrow> nfs_server" where
  "launched bridged l s =
     (case l of
        UnknownFlavor \<Rightarrow> s\<lparr>n_status := NfsError\<rparr>
      | NoDisk \<Rightarrow> s\<lparr>n_domain_name := nfs_domain_name s, n_status := NfsError\<rparr>
      | NoDomain port \<Rightarrow> (with_port bridged port s)\<lparr>n_status := NfsError\<rparr>
      | Launched port ip \<Rightarrow> (with_port bridged port s)\<lparr>n_status := NfsRunning, n_private_ip := ip\<rparr>)"

definition finish_launch :: "bool \<Rightarrow> launch \<Rightarrow> nfs_server \<Rightarrow> nfs_server list \<Rightarrow> nfs_server list" where
  "finish_launch bridged l s t = nfs_put t (launched bridged l s)"

definition nfs_status_of :: "instance_status \<Rightarrow> nfs_status" where
  "nfs_status_of st =
     (case st of Running \<Rightarrow> NfsRunning | Stopped \<Rightarrow> NfsStopped | Pending \<Rightarrow> NfsPending | IDeleted \<Rightarrow> NfsDeleted | _ \<Rightarrow> NfsError)"

definition get_server :: "(string \<Rightarrow> instance_status) \<Rightarrow> (string \<Rightarrow> string) \<Rightarrow> string \<Rightarrow> nfs_server list \<Rightarrow> nfs_server list \<times> nfs_server reply" where
  "get_server libvirt_status libvirt_ip nfs_id t =
     (case nfs_get t nfs_id of
        None \<Rightarrow> (t, Problem 404 ''Not Found'')
      | Some s \<Rightarrow>
          if n_domain_name s = [] then (t, Reply 200 s)
          else
            (let s1 = s\<lparr>n_status := nfs_status_of (libvirt_status (n_domain_name s)),
                        n_private_ip := (if n_private_ip s = [] then libvirt_ip (n_domain_name s) else n_private_ip s)\<rparr>
             in (nfs_put t s1, Reply 200 s1)))"

definition delete_server :: "string \<Rightarrow> nfs_server list \<Rightarrow> nfs_server list \<times> nfs_job list \<times> unit reply" where
  "delete_server nfs_id t =
     (case nfs_get t nfs_id of
        None \<Rightarrow> (t, [], Problem 404 ''Not Found'')
      | Some s \<Rightarrow> (fst (nfs_delete t nfs_id), [Destroy s], NoContent 204))"

section \<open>Shares\<close>

definition named :: "string \<Rightarrow> jdict \<Rightarrow> bool" where
  "named n s \<longleftrightarrow> jget s ''name'' = JStr n"

definition reload_if_running :: "nfs_server \<Rightarrow> nfs_job list" where
  "reload_if_running s = (if n_status s = NfsRunning then [Reload s] else [])"

definition add_share :: "string \<Rightarrow> string \<Rightarrow> jval option \<Rightarrow> nfs_server list \<Rightarrow> nfs_server list \<times> nfs_job list \<times> jdict reply" where
  "add_share nfs_id raw_name clients t =
     (case nfs_get t nfs_id of
        None \<Rightarrow> (t, [], Problem 404 ''Not Found'')
      | Some s \<Rightarrow>
          (let name = py_strip raw_name in
           if name = [] then (t, [], Problem 400 ''Bad Request'')
           else if list_ex (named name) (n_shares s) then (t, [], Problem 409 ''Conflict'')
           else
             (let share = [(''name'', JStr name), (''clients'', case clients of None \<Rightarrow> JStr ''vpc'' | Some c \<Rightarrow> c), (''path'', JStr (''/exports/'' @ name))];
                  s1 = s\<lparr>n_shares := n_shares s @ [share]\<rparr>
              in (nfs_put t s1, reload_if_running s1, Reply 201 share))))"

fun set_first :: "('a \<Rightarrow> bool) \<Rightarrow> ('a \<Rightarrow> 'a) \<Rightarrow> 'a list \<Rightarrow> 'a list" where
  "set_first P f [] = []"
| "set_first P f (x # xs) = (if P x then f x # xs else x # set_first P f xs)"

definition update_share :: "string \<Rightarrow> string \<Rightarrow> jval option \<Rightarrow> nfs_server list \<Rightarrow> nfs_server list \<times> nfs_job list \<times> jdict reply" where
  "update_share nfs_id name clients t =
     (case nfs_get t nfs_id of
        None \<Rightarrow> (t, [], Problem 404 ''Not Found'')
      | Some s \<Rightarrow>
          (case find (named name) (n_shares s) of
             None \<Rightarrow> (t, [], Problem 404 ''Not Found'')
           | Some share \<Rightarrow>
               (let change = (case clients of None \<Rightarrow> id | Some c \<Rightarrow> (\<lambda>d. jset d ''clients'' c));
                    s1 = s\<lparr>n_shares := set_first (named name) change (n_shares s)\<rparr>
                in (nfs_put t s1, reload_if_running s1, Reply 200 (change share)))))"

definition remove_share :: "string \<Rightarrow> string \<Rightarrow> nfs_server list \<Rightarrow> nfs_server list \<times> nfs_job list \<times> unit reply" where
  "remove_share nfs_id name t =
     (case nfs_get t nfs_id of
        None \<Rightarrow> (t, [], Problem 404 ''Not Found'')
      | Some s \<Rightarrow>
          if \<not> list_ex (named name) (n_shares s) then (t, [], Problem 404 ''Not Found'')
          else
            (let s1 = s\<lparr>n_shares := filter (\<lambda>x. \<not> named name x) (n_shares s)\<rparr>
             in (nfs_put t s1, reload_if_running s1, NoContent 204)))"

section \<open>Files\<close>

text \<open>What is run on the server for a request on a share's files, before the reply is known: \<open>Inl\<close> a refusal.\<close>

definition on_share :: "string \<Rightarrow> string \<Rightarrow> nfs_server list \<Rightarrow> (nfs_server \<Rightarrow> (nat \<times> string) + 'c) \<Rightarrow> (nat \<times> string) + 'c" where
  "on_share nfs_id share t f =
     (case nfs_get t nfs_id of
        None \<Rightarrow> Inl (404, ''Not Found'')
      | Some s \<Rightarrow> if list_ex (named share) (n_shares s) then f s else Inl (404, ''Not Found''))"

definition at_server :: "nfs_server \<Rightarrow> string \<Rightarrow> (nat \<times> string) + (int \<times> string) \<times> string" where
  "at_server s cmd = (case ssh_target s of None \<Rightarrow> Inl (502, ''Bad Gateway'') | Some e \<Rightarrow> Inr (e, cmd))"

definition list_share_files :: "string \<Rightarrow> string \<Rightarrow> nfs_server list \<Rightarrow> (nat \<times> string) + (int \<times> string) \<times> string" where
  "list_share_files nfs_id share t = on_share nfs_id share t (\<lambda>s. at_server s (list_cmd share))"

definition upload_share_file :: "string \<Rightarrow> string \<Rightarrow> string \<Rightarrow> nfs_server list \<Rightarrow> (nat \<times> string) + (int \<times> string) \<times> string" where
  "upload_share_file nfs_id share f t =
     on_share nfs_id share t (\<lambda>s. if valid_filename f then at_server s (upload_cmd share f) else Inl (400, ''Bad Request''))"

definition delete_share_file :: "string \<Rightarrow> string \<Rightarrow> string \<Rightarrow> nfs_server list \<Rightarrow> (nat \<times> string) + (int \<times> string) \<times> string" where
  "delete_share_file nfs_id share f t =
     on_share nfs_id share t (\<lambda>s. if valid_filename f then at_server s (delete_cmd share f) else Inl (400, ''Bad Request''))"

definition mount_config :: "(jval \<Rightarrow> string) \<Rightarrow> string \<Rightarrow> string \<Rightarrow> nfs_server list \<Rightarrow> (string \<times> string \<times> string \<times> string \<times> string list) reply" where
  "mount_config rep nfs_id share t =
     (case nfs_get t nfs_id of
        None \<Rightarrow> Problem 404 ''Not Found''
      | Some s \<Rightarrow>
          (case find (named share) (n_shares s) of
             None \<Rightarrow> Problem 404 ''Not Found''
           | Some x \<Rightarrow>
               (let mount_point = ''/mnt/'' @ share;
                    path = (if jtruthy (jget x ''path'') then py_str rep (jget x ''path'') else share_dir share)
                in Reply 200 (n_private_ip s, path, mount_point, mount_command s share mount_point,
                     cloud_init_mount_entry (n_private_ip s) share mount_point))))"

end
