(* ===== verification/Nfs_Props.thy ===== *)
theory Nfs_Props
  imports Nfs
begin

text \<open>
  The NFS servers: what the shell of a server reads when files are moved, the names of the shares, and what goes wrong
  when a server is launched, looked at or reloaded.
\<close>

section \<open>File names\<close>

lemma FILENAME_rx: "FILENAME_RE = Seq (Bol False) (Seq (Cls False False [Range CHR ''A'' CHR ''Z'', Range CHR ''a'' CHR ''z'', Range CHR ''0'' CHR ''9''])
     (Seq (Rep (Cls False False [Range CHR ''A'' CHR ''Z'', Range CHR ''a'' CHR ''z'', Range CHR ''0'' CHR ''9'', One CHR ''.'', One CHR ''_'', One CHR ''-''])
       0 (Some 254) True) (Eol False)))"
  unfolding FILENAME_RE_def by code_simp

lemma filename_one_segment:
  assumes "valid_filename f"
  shows "CHR ''/'' \<notin> set f"
proof -
  have m: "matches FILENAME_RE f" using assms by (simp add: valid_filename_def)
  have e: "fst (snd y) = [] \<or> fst (snd y) = [newline]" if "y \<in> set (rx_run FILENAME_RE ([], f, []))" for y
    using that unfolding FILENAME_rx by (auto split: if_splits)
  have "\<not> in_cls False False [Range CHR ''A'' CHR ''Z'', Range CHR ''a'' CHR ''z'', Range CHR ''0'' CHR ''9''] CHR ''/''"
    "\<not> in_cls False False [Range CHR ''A'' CHR ''Z'', Range CHR ''a'' CHR ''z'', Range CHR ''0'' CHR ''9'', One CHR ''.'', One CHR ''_'', One CHR ''-''] CHR ''/''"
    by code_simp+
  then have "only_chars (\<lambda>c. c \<noteq> CHR ''/'') FILENAME_RE" unfolding FILENAME_rx only_chars.simps by metis
  then obtain w where w: "list_all (\<lambda>c. c \<noteq> CHR ''/'') w" "f = w \<or> f = w @ [newline]" using matches_anchored [OF m e] by blast
  have "CHR ''/'' \<notin> set w" using w(1) unfolding list_all_iff by blast
  moreover have "CHR ''/'' \<noteq> newline" unfolding newline_def by simp
  ultimately show ?thesis using w(2) by (metis UnE set_append set_ConsD set_empty2 emptyE empty_set)
qed

section \<open>What the shell reads\<close>

text \<open>Literal words and operators between blanks.\<close>

definition blank :: shtok where "blank = Act (CHR '' '')"

lemma operators: "acts_plain (CHR '' '')" "acts_plain (CHR ''&'')" "acts_plain (CHR ''>'')"
  by (simp_all add: acts_plain_def)

lemma flush_put: "flush (put None w) Lit = [Lit w]"
  by (simp add: flush_def put_def)

lemma read_word: "list_all inert w \<Longrightarrow> w \<noteq> [] \<Longrightarrow> sh_read Plain None (w @ CHR '' '' # s) = map_option (append [Lit w, blank]) (sh_read Plain None s)"
  using read_inert [of w None "CHR '' '' # s"] read_act [OF operators(1), of "put None w" s]
  unfolding flush_put append.simps blank_def by metis

lemma read_quoted: "sh_read Plain None (shlex_quote v @ CHR '' '' # s) = map_option (append [Lit v, blank]) (sh_read Plain None s)"
  by (simp only: read_quote read_act [OF operators(1)] flush_put append.simps blank_def)

lemma read_operators:
  "sh_read Plain None (CHR ''&'' # s) = map_option (append [Act (CHR ''&'')]) (sh_read Plain None s)"
  "sh_read Plain None (CHR ''>'' # s) = map_option (append [Act (CHR ''>'')]) (sh_read Plain None s)"
  "sh_read Plain None (CHR '' '' # s) = map_option (append [blank]) (sh_read Plain None s)"
  by (simp_all only: operators [THEN read_act] flush_simps append.simps blank_def)

lemma read_last: "list_all inert w \<Longrightarrow> w \<noteq> [] \<Longrightarrow> sh_read Plain None w = Some [Lit w]" "sh_read Plain None (shlex_quote v) = Some [Lit v]"
  using read_inert [of w None "[]"] read_quote [of None v "[]"] by (simp_all add: put_def flush_def)

lemma inert_words: "list_all inert ''sudo''" "list_all inert ''mkdir''" "list_all inert ''-p''" "list_all inert ''tee''" "list_all inert ''rm''"
    "list_all inert ''-f''" "list_all inert ''/dev/null''" "list_all inert ''/etc/exports''" "list_all inert ''exportfs''" "list_all inert ''-ra''" "list_all inert ''echo''"
  by code_simp+

lemmas reading = read_word read_quoted read_operators read_last inert_words list.distinct not_False_eq_True option.map

lemma upload_read:
  "sh_parse (upload_cmd share f) = Some [Lit ''sudo'', blank, Lit ''mkdir'', blank, Lit ''-p'', blank, Lit (share_dir share), blank,
     Act (CHR ''&''), Act (CHR ''&''), blank, Lit ''sudo'', blank, Lit ''tee'', blank, Lit (file_path share f), blank, Act (CHR ''>''), blank, Lit ''/dev/null'']"
proof -
  have "upload_cmd share f = ''sudo'' @ CHR '' '' # ''mkdir'' @ CHR '' '' # ''-p'' @ CHR '' '' # shlex_quote (share_dir share) @ CHR '' '' #
      CHR ''&'' # CHR ''&'' # CHR '' '' # ''sudo'' @ CHR '' '' # ''tee'' @ CHR '' '' # shlex_quote (file_path share f) @ CHR '' '' # CHR ''>'' # CHR '' '' # ''/dev/null''"
    by (simp add: upload_cmd_def)
  then show ?thesis unfolding sh_parse_def by (simp only: reading) (simp only: append.simps)
qed

lemma delete_read:
  "sh_parse (delete_cmd share f) = Some [Lit ''sudo'', blank, Lit ''rm'', blank, Lit ''-f'', blank, Lit (file_path share f)]"
proof -
  have "delete_cmd share f = ''sudo'' @ CHR '' '' # ''rm'' @ CHR '' '' # ''-f'' @ CHR '' '' # shlex_quote (file_path share f)"
    by (simp add: delete_cmd_def)
  then show ?thesis unfolding sh_parse_def by (simp only: reading) (simp only: append.simps)
qed

text \<open>
  C40: Files of a share are moved confined.  For a file name that passes, whatever the share is called, the shell of the server
  reads exactly one \<^verbatim>\<open>mkdir\<close> and one \<^verbatim>\<open>tee\<close>, or one \<^verbatim>\<open>rm\<close>, each with one literal path: the share's directory, or
  in it a single name that is neither \<^verbatim>\<open>.\<close> nor \<^verbatim>\<open>..\<close>.
\<close>

theorem nfs_files_confined:
  assumes "upload_share_file nfs_id share f t = Inr (e, up)" "delete_share_file nfs_id share f t = Inr (e', del)"
  shows "sh_parse up = Some [Lit ''sudo'', blank, Lit ''mkdir'', blank, Lit ''-p'', blank, Lit (''/exports/'' @ share), blank,
       Act (CHR ''&''), Act (CHR ''&''), blank, Lit ''sudo'', blank, Lit ''tee'', blank, Lit (''/exports/'' @ share @ ''/'' @ f), blank, Act (CHR ''>''), blank, Lit ''/dev/null'']
    \<and> sh_parse del = Some [Lit ''sudo'', blank, Lit ''rm'', blank, Lit ''-f'', blank, Lit (''/exports/'' @ share @ ''/'' @ f)]
    \<and> CHR ''/'' \<notin> set f \<and> f \<noteq> ''.'' \<and> f \<noteq> ''..''"
proof -
  have "up = upload_cmd share f" "del = delete_cmd share f" "valid_filename f"
    using assms by (auto simp: upload_share_file_def delete_share_file_def on_share_def at_server_def split: option.splits if_splits)
  then show ?thesis
    using upload_read [of share f] delete_read [of share f] filename_one_segment [of f]
    by (simp add: file_path_def share_dir_def valid_filename_def)
qed

definition demo_server :: nfs_server where
  "demo_server = \<lparr>n_id = ''n1'', n_name = ''files'', n_vpc_id = ''v1'', n_flavor = ''standard.medium'', n_disk_gb = 20, n_status = NfsRunning,
     n_private_ip = ''10.0.0.9'', n_ssh_host_port = 0, n_domain_name = ''ccnfs-n1'', n_shares = [[(''name'', JStr (''a'' @ [apostrophe] @ ''; reboot''))]],
     n_created_at = ''t0'', n_tags = []\<rparr>"

lemma demo_uploads:
  "upload_share_file ''n1'' (''a'' @ [apostrophe] @ ''; reboot'') ''x.iso'' [demo_server] = Inr ((22, ''10.0.0.9''), upload_cmd (''a'' @ [apostrophe] @ ''; reboot'') ''x.iso'')"
  "delete_share_file ''n1'' (''a'' @ [apostrophe] @ ''; reboot'') ''x.iso'' [demo_server] = Inr ((22, ''10.0.0.9''), delete_cmd (''a'' @ [apostrophe] @ ''; reboot'') ''x.iso'')"
proof -
  have "matches FILENAME_RE ''x.iso''" by code_simp
  then have "valid_filename ''x.iso''" by (simp add: valid_filename_def)
  moreover have "nfs_get [demo_server] ''n1'' = Some demo_server" by (simp add: nfs_get_def live_get_def n_live_def demo_server_def)
  moreover have "list_ex (named (''a'' @ [apostrophe] @ ''; reboot'')) (n_shares demo_server)" by (simp add: demo_server_def named_def jget_def)
  moreover have "ssh_target demo_server = Some (22, ''10.0.0.9'')" by (simp add: ssh_target_def demo_server_def)
  ultimately show "upload_share_file ''n1'' (''a'' @ [apostrophe] @ ''; reboot'') ''x.iso'' [demo_server] = Inr ((22, ''10.0.0.9''), upload_cmd (''a'' @ [apostrophe] @ ''; reboot'') ''x.iso'')"
    "delete_share_file ''n1'' (''a'' @ [apostrophe] @ ''; reboot'') ''x.iso'' [demo_server] = Inr ((22, ''10.0.0.9''), delete_cmd (''a'' @ [apostrophe] @ ''; reboot'') ''x.iso'')"
    by (simp_all add: upload_share_file_def delete_share_file_def on_share_def at_server_def)
qed

theorem nfs_files_confined_witness:
  "sh_parse (delete_cmd (''a'' @ [apostrophe] @ ''; reboot'') ''x.iso'') =
     Some [Lit ''sudo'', blank, Lit ''rm'', blank, Lit ''-f'', blank, Lit (''/exports/a'' @ [apostrophe] @ ''; reboot/x.iso'')]"
  using nfs_files_confined [OF demo_uploads] by simp

section \<open>Names of shares\<close>

definition share_names :: "nfs_server \<Rightarrow> jval list" where
  "share_names s = map (\<lambda>x. jget x ''name'') (n_shares s)"

definition names_distinct :: "nfs_server list \<Rightarrow> bool" where
  "names_distinct t \<longleftrightarrow> wf_table n_id t \<and> (\<forall>i s. nfs_get t i = Some s \<longrightarrow> distinct (share_names s))"

lemma names_distinct_put:
  assumes "names_distinct t" "distinct (share_names s)"
  shows "names_distinct (nfs_put t s)"
proof -
  have "share_names (stored_nfs t s) = share_names s"
    by (simp add: stored_nfs_def stored_row_def nfs_merge_def share_names_def split: option.split)
  then show ?thesis using assms nfs_servers.get_put [of t s] nfs_servers.wf_put [of t s] by (auto simp: names_distinct_def)
qed

lemma names_set_first: "(\<And>x. jget (g x) ''name'' = jget x ''name'') \<Longrightarrow> map (\<lambda>x. jget x ''name'') (set_first P g xs) = map (\<lambda>x. jget x ''name'') xs"
  by (induction xs) auto

lemma name_of_new: "jget ((''name'', v) # d) ''name'' = v"
  by (simp add: jget_def)

lemma fresh_name: "\<not> list_ex (named n) xs \<Longrightarrow> JStr n \<notin> (\<lambda>x. jget x ''name'') ` set xs"
  by (simp add: list_ex_iff named_def image_iff eq_commute [of "JStr n"])

text \<open>Adding, changing and removing shares keeps their names distinct.\<close>

lemma shares_keep_names:
  assumes "names_distinct t"
  shows "names_distinct (fst (add_share i raw clients t))" "names_distinct (fst (update_share i name clients t))"
    "names_distinct (fst (remove_share i name t))" "names_distinct (fst (delete_server i t))"
proof -
  have s: "distinct (share_names s)" if "nfs_get t i = Some s" for s using assms that by (simp add: names_distinct_def)
  show "names_distinct (fst (add_share i raw clients t))"
    using assms s by (auto simp: add_share_def Let_def share_names_def fresh_name name_of_new intro!: names_distinct_put split: option.split)
  show "names_distinct (fst (update_share i name clients t))"
    using assms s by (auto simp: update_share_def Let_def share_names_def names_set_first intro!: names_distinct_put split: option.split)
  show "names_distinct (fst (remove_share i name t))"
    using assms s by (auto simp: remove_share_def Let_def share_names_def distinct_map_filter intro!: names_distinct_put split: option.split)
  show "names_distinct (fst (delete_server i t))"
    using assms nfs_servers.get_del [of t i] nfs_servers.wf_del [of t i] by (auto simp: delete_server_def names_distinct_def split: option.split)
qed

section \<open>Surprises\<close>

definition demo_pending :: nfs_server where
  "demo_pending = demo_server\<lparr>n_status := NfsPending, n_private_ip := [], n_domain_name := [], n_shares := []\<rparr>"

text \<open>A launch ends by writing back the object of its request: a share that was added while the machine came up was
  confirmed with 201 and is gone, and a server that was deleted meanwhile is back.\<close>

lemma launch_drops_shares:
  "(case add_share ''n1'' ''data'' None [demo_pending] of
      (t, _, r) \<Rightarrow> r = Reply 201 [(''name'', JStr ''data''), (''clients'', JStr ''vpc''), (''path'', JStr ''/exports/data'')]
        \<and> map_option n_shares (nfs_get (finish_launch True (Launched 0 ''10.0.0.9'') demo_pending t) ''n1'') = Some [])"
  by code_simp

lemma launch_revives_server:
  "(case delete_server ''n1'' [demo_pending] of
      (t, _, r) \<Rightarrow> r = NoContent 204 \<and> nfs_get t ''n1'' = None
        \<and> map_option n_status (nfs_get (finish_launch True (Launched 0 ''10.0.0.9'') demo_pending t) ''n1'') = Some NfsRunning)"
  by code_simp

text \<open>Looking at a server whose machine libvirt does not know deletes its record.\<close>

lemma look_deletes:
  assumes "nfs_get t i = Some s" "n_domain_name s \<noteq> []" "libvirt_status (n_domain_name s) = IDeleted" "wf_table n_id t"
  shows "nfs_get (fst (get_server libvirt_status libvirt_ip i t)) i = None"
proof -
  have "n_id s = i" using assms(1) by (auto simp: nfs_get_def live_get_def find_Some_iff split: option.splits)
  moreover have "nfs_get (nfs_put t r) i = None" if "n_id r = i" "\<not> n_live r" for r
    using nfs_servers.get_put_dead [OF assms(4) that(2)] that(1) by simp
  ultimately show ?thesis using assms(1-3) by (simp add: get_server_def nfs_status_of_def n_live_def Let_def)
qed

text \<open>A server is created with two shares of one name; the routes then only reach the first.\<close>

definition demo_body :: nfs_body where
  "demo_body = \<lparr>nb_name = ''files'', nb_vpc_id = ''v1'', nb_flavor = ''standard.medium'', nb_disk_gb = Some 20,
     nb_shares = [[(''name'', JStr ''d'')], [(''name'', JStr ''d'')]], nb_tags = []\<rparr>"

definition demo_net :: "instant \<Rightarrow> vpc" where
  "demo_net now = \<lparr>v_id = ''v1'', v_name = ''net'', v_cidr_block = ''10.0.0.0/16'', v_dns_support = True, v_status = Active, v_created_at = now,
     v_tags = [], v_host_id = None\<rparr>"

definition demo_twice :: nfs_server where
  "demo_twice = \<lparr>n_id = ''n1'', n_name = ''files'', n_vpc_id = ''v1'', n_flavor = ''standard.medium'', n_disk_gb = 20, n_status = NfsPending,
     n_private_ip = [], n_ssh_host_port = 0, n_domain_name = [], n_shares = [[(''name'', JStr ''d'')], [(''name'', JStr ''d'')]],
     n_created_at = ''t0'', n_tags = []\<rparr>"

lemma same_share_twice:
  "create_server ''n1'' ''t0'' demo_body [demo_net now] [] = Some ([demo_twice], [Launch demo_twice ''10.0.0.0/16''], Reply 202 demo_twice)
     \<and> \<not> names_distinct [demo_twice]"
proof
  have "py_strip ''files'' = ''files''" by (simp add: py_strip_def is_space_def)
  then show "create_server ''n1'' ''t0'' demo_body [demo_net now] [] = Some ([demo_twice], [Launch demo_twice ''10.0.0.0/16''], Reply 202 demo_twice)"
    by (simp add: create_server_def demo_body_def demo_net_def demo_twice_def store_get_vpc_def live_get_def v_live_def nfs_find_by_name_def nfs_put_def
        upsert_def jget_def Let_def)
  have "nfs_get [demo_twice] ''n1'' = Some demo_twice" "\<not> distinct (share_names demo_twice)"
    by (simp_all add: nfs_get_def live_get_def n_live_def demo_twice_def share_names_def)
  then show "\<not> names_distinct [demo_twice]" unfolding names_distinct_def by blast
qed

text \<open>The name of a share is not checked: an apostrophe in it ends the quotes around the exports, and what follows is run.\<close>

definition demo_evil :: nfs_server where
  "demo_evil = demo_server\<lparr>n_shares := [[(''name'', JStr (''a'' @ [apostrophe] @ ''; reboot; '' @ [apostrophe]))]]\<rparr>"

lemma reload_runs_share_name:
  "map_option (\<lambda>c. map_option (take 6) (sh_parse c)) (reload_cmd (\<lambda>_. []) ''10.0.0.0/8'' demo_evil) =
     Some (Some [Lit ''echo'', blank, Lit ''/exports/a'', Act (CHR '';''), blank, Lit ''reboot''])"
  by code_simp

text \<open>With a list of clients, only the last one gets the options.\<close>

lemma export_options_last:
  "export_line (\<lambda>_. []) ''10.0.0.0/8'' [(''name'', JStr ''d''), (''clients'', JList [JStr ''a'', JStr ''b''])] =
     Some ''/exports/d a b(rw,sync,no_subtree_check,no_root_squash)''"
  by (simp add: export_line_def host_spec_def jget_default_def share_name_def jget_def)

end
