(* ===== verification/Template_Vars.thy ===== *)
theory Template_Vars
  imports Json Pytext Regex Shell
begin

text \<open>
  How the build engines find the variables of a template: \<^verbatim>\<open>extract_template_vars\<close> of \<^verbatim>\<open>api/tofu_engine.py\<close>, which reads
  HCL with regular expressions and counts brackets, and of \<^verbatim>\<open>api/build_engine.py\<close>, which reads a playbook that the YAML
  library has parsed.
\<close>

section \<open>Brackets\<close>

text \<open>The text up to the bracket that brings the depth to zero; \<open>None\<close> where there is none.\<close>

fun upto_close :: "char \<Rightarrow> char \<Rightarrow> int \<Rightarrow> string \<Rightarrow> string option" where
  "upto_close open_ch close_ch depth [] = None"
| "upto_close open_ch close_ch depth (c # cs) =
     (if c = open_ch then map_option (Cons c) (upto_close open_ch close_ch (depth + 1) cs)
      else if c = close_ch then
        (if depth - 1 = 0 then Some [] else map_option (Cons c) (upto_close open_ch close_ch (depth - 1) cs))
      else map_option (Cons c) (upto_close open_ch close_ch depth cs))"

text \<open>The argument is the text from the opening brace on.\<close>

definition extract_balanced_block :: "string \<Rightarrow> string" where
  "extract_balanced_block s = (case upto_close (CHR ''{'') (CHR ''}'') 0 s of Some t \<Rightarrow> drop 1 t | None \<Rightarrow> drop 1 s)"

section \<open>The variables of an OpenTofu template\<close>

definition DEFAULT_QUOTED :: rx where "DEFAULT_QUOTED = re (''default%s*=%s*'' @ [dquote])"
definition QUOTED :: rx where "QUOTED = re ([dquote] @ ''([^'' @ [dquote] @ '']*)'' @ [dquote])"
definition DEFAULT_BRACKET :: rx where "DEFAULT_BRACKET = re ''default%s*=%s*([%[{])''"
definition DEFAULT_BARE :: rx where "DEFAULT_BARE = re ''default%s*=%s*(%S+)''"
definition TYPE_RE :: rx where "TYPE_RE = re ''type%s*=%s*(%w+)''"
definition VARIABLE_RE :: rx where "VARIABLE_RE = re (''variable%s+'' @ [dquote] @ ''(%w+)'' @ [dquote] @ ''%s*%{'')"

definition bracket_value :: "rx_match \<Rightarrow> string" where
  "bracket_value m =
     (let open_ch = (if group_text m 1 = ''['' then CHR ''['' else CHR ''{'');
          close_ch = (if open_ch = CHR ''['' then CHR '']'' else CHR ''}'');
          s = open_ch # m_after m
      in case upto_close open_ch close_ch 0 s of Some t \<Rightarrow> t @ [close_ch] | None \<Rightarrow> s)"

definition quoted_value :: "string \<Rightarrow> string option" where
  "quoted_value body =
     (case re_search DEFAULT_QUOTED body of
        None \<Rightarrow> None
      | Some m \<Rightarrow> map_option (\<lambda>m2. group_text m2 1) (re_match QUOTED (dquote # m_after m)))"

definition extract_default_value :: "string \<Rightarrow> string option" where
  "extract_default_value body =
     (case quoted_value body of
        Some v \<Rightarrow> Some v
      | None \<Rightarrow>
          (case re_search DEFAULT_BRACKET body of
             Some m \<Rightarrow> Some (bracket_value m)
           | None \<Rightarrow> map_option (\<lambda>m. py_strip (group_text m 1)) (re_search DEFAULT_BARE body)))"

definition extract_type_value :: "string \<Rightarrow> string" where
  "extract_type_value body = (case re_search TYPE_RE body of Some m \<Rightarrow> group_text m 1 | None \<Rightarrow> ''string'')"

definition var_schema :: "string \<Rightarrow> bool \<Rightarrow> string \<Rightarrow> jval" where
  "var_schema v required var_type =
     JObj [(''default'', JStr v), (''derived'', JBool False), (''required'', JBool required), (''type'', JStr var_type)]"

definition body_schema :: "string \<Rightarrow> jval" where
  "body_schema body =
     (case extract_default_value body of
        Some d \<Rightarrow> var_schema (py_strip d) False (extract_type_value body)
      | None \<Rightarrow> var_schema [] True (extract_type_value body))"

definition connection_vars :: "string \<Rightarrow> jdict" where
  "connection_vars master =
     [(''cloudcore_api_url'', var_schema ''http://127.0.0.1:8080'' False ''string''),
      (''cloudcore_api_token'', var_schema master False ''string'')]"

definition jupdate :: "jdict \<Rightarrow> jdict \<Rightarrow> jdict" where
  "jupdate d e = foldl (\<lambda>acc (k, v). jset acc k v) d e"

definition tofu_template_vars :: "string \<Rightarrow> string option \<Rightarrow> string option \<Rightarrow> jdict" where
  "tofu_template_vars master variables_tf main_tf =
     (case (case variables_tf of None \<Rightarrow> main_tf | some \<Rightarrow> some) of
        None \<Rightarrow> connection_vars master
      | Some content \<Rightarrow>
          jupdate
            (foldl (\<lambda>schema h. jset schema (group_text h 1) (body_schema (extract_balanced_block (CHR ''{'' # m_after h))))
               [] (re_finditer VARIABLE_RE content))
            (connection_vars master))"

text \<open>The variables that a build has to give.\<close>

definition missing_vars :: "(jval \<Rightarrow> string) \<Rightarrow> jdict \<Rightarrow> jdict \<Rightarrow> string list" where
  "missing_vars rep schema overrides =
     map fst (filter (\<lambda>(k, meta). (case meta of JObj m \<Rightarrow> jtruthy (jget m ''required'') | _ \<Rightarrow> False)
        \<and> py_strip (py_str rep (jget_default overrides k (JStr []))) = []) schema)"

section \<open>The variables of a playbook\<close>

fun has_jinja :: "jval \<Rightarrow> bool" where
  "has_jinja (JStr s) = py_in ''{{'' s"
| "has_jinja (JList vs) = list_ex has_jinja vs"
| "has_jinja (JObj kvs) = list_ex (\<lambda>kv. has_jinja (snd kv)) kvs"
| "has_jinja v = False"

definition DEFAULT_CALL :: rx where
  "DEFAULT_CALL = re (''default%('' @ [apostrophe] @ ''([^'' @ [apostrophe] @ '']+)'' @ [apostrophe])"

definition JINJA_VAR :: rx where "JINJA_VAR = re ''%{%{%s*(%w+)%s*%}%}''"

definition load_group_defaults :: "jdict \<Rightarrow> jdict" where
  "load_group_defaults raw =
     foldl (\<lambda>acc (k, v).
        (case v of
           JStr s \<Rightarrow>
             if py_in ''{{'' s
             then (case re_search DEFAULT_CALL s of None \<Rightarrow> acc | Some m \<Rightarrow> jset acc k (JStr (group_text m 1)))
             else jset acc k v
         | _ \<Rightarrow> jset acc k v)) [] raw"

definition resolve_jinja_var :: "(jval \<Rightarrow> string) \<Rightarrow> string \<Rightarrow> jdict \<Rightarrow> string" where
  "resolve_jinja_var rep expr ctx =
     re_sub JINJA_VAR (\<lambda>m. py_str rep (jget_default ctx (py_strip (group_text m 1)) (JStr (m_text m)))) expr"

definition play_var :: "(jval \<Rightarrow> string) \<Rightarrow> jdict \<Rightarrow> jval \<Rightarrow> jval" where
  "play_var rep ctx v =
     (if has_jinja v
      then JObj [(''default'', case v of JStr s \<Rightarrow> JStr (resolve_jinja_var rep s ctx) | _ \<Rightarrow> v), (''derived'', JBool True)]
      else JObj [(''default'', v), (''derived'', JBool False)])"

definition plain_default :: "jval \<Rightarrow> jval" where
  "plain_default v = JObj [(''default'', v), (''derived'', JBool False)]"

definition exposed_vars :: "jdict \<Rightarrow> string \<Rightarrow> string \<Rightarrow> jdict" where
  "exposed_vars defaults master sfx =
     [(''default_project'', plain_default (jget_default defaults ''default_project'' (JStr ''cloudcore-examples''))),
      (''default_environment'', plain_default (jget_default defaults ''default_environment'' (JStr ''dev''))),
      (''cloudcore_api_url'', plain_default (jget_default defaults ''cloudcore_api_url'' (JStr ''http://127.0.0.1:8080''))),
      (''cloudcore_api_token'', plain_default (let t = jget defaults ''cloudcore_api_token'' in if jtruthy t then t else JStr master)),
      (''build_suffix'', plain_default (JStr sfx))]"

text \<open>\<open>None\<close>: the playbook's first play is no mapping, or its variables are none.\<close>

definition playbook_vars :: "(jval \<Rightarrow> string) \<Rightarrow> jdict \<Rightarrow> string \<Rightarrow> string \<Rightarrow> jval \<Rightarrow> jdict option" where
  "playbook_vars rep defaults master sfx plays =
     (case plays of
        JList (JObj play # _) \<Rightarrow>
          (case jget_default play ''vars'' (JObj []) of
             JObj raw_vars \<Rightarrow>
               Some (jupdate (foldl (\<lambda>acc (k, v). jset acc k (play_var rep (jupdate defaults raw_vars) v)) [] raw_vars)
                 (exposed_vars defaults master sfx))
           | _ \<Rightarrow> None)
      | JList (_ # _) \<Rightarrow> None
      | _ \<Rightarrow> Some [])"

definition build_extra_vars :: "jdict \<Rightarrow> string \<Rightarrow> jdict \<Rightarrow> jdict" where
  "build_extra_vars defaults sfx var_overrides =
     (let merged = jupdate defaults var_overrides
      in if jtruthy (jget merged ''build_suffix'') then merged else jset merged ''build_suffix'' (JStr sfx))"

section \<open>What the extraction finds\<close>

text \<open>A text is nested if its brackets match; the extraction of a block gives back what stands between its braces.\<close>

inductive nested :: "char \<Rightarrow> char \<Rightarrow> string \<Rightarrow> bool" for o_ch c_ch where
  nested_empty: "nested o_ch c_ch []"
| nested_char: "x \<noteq> o_ch \<Longrightarrow> x \<noteq> c_ch \<Longrightarrow> nested o_ch c_ch s \<Longrightarrow> nested o_ch c_ch (x # s)"
| nested_block: "nested o_ch c_ch s \<Longrightarrow> nested o_ch c_ch t \<Longrightarrow> nested o_ch c_ch (o_ch # s @ c_ch # t)"

lemma upto_close_nested:
  "nested o_ch c_ch s \<Longrightarrow> o_ch \<noteq> c_ch \<Longrightarrow> 0 < d \<Longrightarrow>
     upto_close o_ch c_ch d (s @ r) = map_option (append s) (upto_close o_ch c_ch d r)"
proof (induction arbitrary: d r rule: nested.induct)
  case nested_empty
  then show ?case by (cases "upto_close o_ch c_ch d r") simp_all
next
  case (nested_char x s)
  then show ?case by (cases "upto_close o_ch c_ch d r") simp_all
next
  case (nested_block s t)
  then show ?case by (cases "upto_close o_ch c_ch d r") simp_all
qed

lemma extract_balanced_block_spec: "nested (CHR ''{'') (CHR ''}'') s \<Longrightarrow> extract_balanced_block (CHR ''{'' # s @ CHR ''}'' # r) = s"
  by (simp add: extract_balanced_block_def upto_close_nested)

lemma bracket_value_list:
  "nested (CHR ''['') (CHR '']'') s \<Longrightarrow> group_text m 1 = ''['' \<Longrightarrow> m_after m = s @ CHR '']'' # r \<Longrightarrow>
     bracket_value m = CHR ''['' # s @ '']''"
  by (simp add: bracket_value_def upto_close_nested Let_def)

text \<open>The token of a template's form is this host's own, whatever the template says.\<close>

lemma tofu_template_token: "jget (tofu_template_vars master v m) ''cloudcore_api_token'' = var_schema master False ''string''"
proof -
  have "jget (jupdate d (connection_vars master)) ''cloudcore_api_token'' = var_schema master False ''string''" for d
    by (simp add: jupdate_def connection_vars_def)
  moreover have "jget (connection_vars master) ''cloudcore_api_token'' = var_schema master False ''string''"
    by (simp add: connection_vars_def jget_def)
  ultimately show ?thesis by (simp add: tofu_template_vars_def split: option.split)
qed

section \<open>Surprises\<close>

text \<open>A quoted default ends at its first inner quote, though HCL escapes it; a variable that is only mentioned in a
  comment has to be given; and the word default in a description is taken for the default.\<close>

lemma escaped_quote_cut:
  "extract_default_value (''default = '' @ [dquote] @ ''a'' @ [backslash, dquote] @ ''b'' @ [dquote]) = Some (''a'' @ [backslash])"
  by code_simp

lemma comment_is_required:
  "map fst (filter (\<lambda>(k, s). s = var_schema [] True ''string'') (tofu_template_vars ''t'' (Some (''# variable '' @ [dquote] @ ''old'' @ [dquote] @ '' { }'')) None)) = [''old'']"
  by code_simp

lemma description_is_default:
  "extract_default_value (''description = '' @ [dquote] @ ''no default = ask'' @ [dquote, newline] @ ''type = string'') = Some (''ask'' @ [dquote])"
  by code_simp

end
