(* ===== verification/Builds.thy ===== *)
theory Builds
  imports Template_Vars Failure_Queue Capacity Authz "HOL-Library.AList"
begin

text \<open>
  The build engines: \<^verbatim>\<open>api/tofu_engine.py\<close> with \<^verbatim>\<open>api/tofu_routes.py\<close>, and \<^verbatim>\<open>api/build_engine.py\<close> with
  \<^verbatim>\<open>api/build_manager_routes.py\<close>.  OpenTofu and Ansible are functions that the model is given.  The log of a build is left
  out; where it is queued, it is an argument.
\<close>

section \<open>Builds and where they are kept\<close>

datatype build_status = BPending | BRunning | BSuccess | BFailed | BDestroyed

record build =
  b_id :: string
  b_template :: string
  b_status :: build_status
  b_created_at :: string
  b_started_at :: "string option"
  b_finished_at :: "string option"
  b_created_by :: string
  b_var_overrides :: jdict
  b_exit_code :: "int option"
  b_provisioned :: "(string \<times> jval \<times> jval) list"

text \<open>Builds that have not ended are in memory, in the order of submission; the others are rows of a table.\<close>

record build_store =
  bs_running :: "build list"
  bs_rows :: "build list"

definition merge_build :: "build \<Rightarrow> build \<Rightarrow> build" where
  "merge_build old new =
     new\<lparr>b_template := b_template old, b_created_at := b_created_at old, b_created_by := b_created_by old, b_var_overrides := b_var_overrides old\<rparr>"

definition save_build :: "build \<Rightarrow> build_store \<Rightarrow> build_store" where
  "save_build b st =
     (if b_status b \<in> {BPending, BRunning} then st
      else st\<lparr>bs_rows := upsert b_id merge_build b (bs_rows st), bs_running := filter (\<lambda>x. b_id x \<noteq> b_id b) (bs_running st)\<rparr>)"

definition new_build :: "string \<Rightarrow> string \<Rightarrow> string \<Rightarrow> jdict \<Rightarrow> string \<Rightarrow> build" where
  "new_build build_id now template var_overrides created_by =
     \<lparr>b_id = build_id, b_template = template, b_status = BPending, b_created_at = now, b_started_at = None, b_finished_at = None,
      b_created_by = created_by, b_var_overrides = var_overrides, b_exit_code = None, b_provisioned = []\<rparr>"

definition submit_build :: "build \<Rightarrow> build_store \<Rightarrow> build_store" where
  "submit_build b st = st\<lparr>bs_running := bs_running st @ [b]\<rparr>"

definition mark_build_destroyed :: "string \<Rightarrow> build_store \<Rightarrow> build_store" where
  "mark_build_destroyed build_id st = st\<lparr>bs_rows := map (\<lambda>b. if b_id b = build_id then b\<lparr>b_status := BDestroyed\<rparr> else b) (bs_rows st)\<rparr>"

definition get_build :: "string \<Rightarrow> build_store \<Rightarrow> build option" where
  "get_build build_id st =
     (case find (\<lambda>b. b_id b = build_id) (bs_running st) of Some b \<Rightarrow> Some b | None \<Rightarrow> find (\<lambda>b. b_id b = build_id) (bs_rows st))"

definition list_builds :: "build_store \<Rightarrow> build list" where
  "list_builds st =
     (let run = rev (order_by b_created_at (rev (bs_running st)))
      in run @ filter (\<lambda>b. b_id b \<notin> b_id ` set run) (rev (order_by b_created_at (bs_rows st))))"

section \<open>What a build made\<close>

type_synonym snapshot = "(string \<times> (jval \<times> jval) list) list"

definition SNAPSHOT_TYPES :: "string list" where
  "SNAPSHOT_TYPES = [''vpc'', ''instance'', ''lb'', ''dns_zone'', ''nfs_server'', ''security_group'']"

definition item_entry :: "jdict \<Rightarrow> jval \<times> jval" where
  "item_entry i =
     (jget i (if ''id'' \<in> fst ` set i then ''id'' else ''name''), jget_default i ''name'' (jget_default i ''id'' (JStr [])))"

text \<open>The lists that the API gives, per type; \<open>None\<close> when one of the requests fails.\<close>

definition snapshot_of :: "(string \<Rightarrow> jdict list option) \<Rightarrow> snapshot option" where
  "snapshot_of listing =
     all_some (map (\<lambda>t. map_option (\<lambda>items. (t, foldl (\<lambda>d i. case item_entry i of (k, v) \<Rightarrow> AList.update k v d) [] items)) (listing t)) SNAPSHOT_TYPES)"

definition before_ids :: "snapshot \<Rightarrow> string \<Rightarrow> jval list" where
  "before_ids before rtype = (case map_of before rtype of None \<Rightarrow> [] | Some d \<Rightarrow> map fst d)"

definition diff_snapshots :: "snapshot \<Rightarrow> snapshot \<Rightarrow> (string \<times> jval \<times> jval) list" where
  "diff_snapshots before after =
     concat (map (\<lambda>(rtype, items). map (\<lambda>(rid, name). (rtype, rid, name)) (filter (\<lambda>(rid, name). rid \<notin> set (before_ids before rtype)) items)) after)"

definition provisioned_by :: "snapshot option \<Rightarrow> snapshot option \<Rightarrow> build \<Rightarrow> build" where
  "provisioned_by before after b =
     (case (before, after) of (Some (x # xs), Some a) \<Rightarrow> b\<lparr>b_provisioned := diff_snapshots (x # xs) a\<rparr> | _ \<Rightarrow> b)"

section \<open>OpenTofu\<close>

text \<open>A template's directory: its state file, whether the modules are installed, and the resources that live.  A command
  gives its exit code (\<open>None\<close>: it could not be started) and what it leaves; the number counts the calls.\<close>

datatype tf_state = Unreadable | Resources "string list"

record workdir =
  wd_exists :: bool
  wd_state :: "tf_state option"
  wd_modules :: bool
  wd_live :: "string list"

datatype tofu_cmd = TofuGet | TofuInit | TofuApply | TofuDestroy

type_synonym tofu = "nat \<Rightarrow> tofu_cmd \<Rightarrow> workdir \<Rightarrow> int option \<times> workdir"
type_synonym tofu_run = "nat \<times> workdir"

definition parallelism_args :: "string \<Rightarrow> string list" where
  "parallelism_args val = (if val = [] then [] else [''-parallelism='' @ val])"

definition tofu_argv :: "string \<Rightarrow> string \<Rightarrow> tofu_cmd \<Rightarrow> string list" where
  "tofu_argv tofu val c =
     (case c of
        TofuGet \<Rightarrow> [tofu, ''get'', ''-no-color'']
      | TofuInit \<Rightarrow> [tofu, ''init'', ''-no-color'']
      | TofuApply \<Rightarrow> [tofu, ''apply'', ''-auto-approve'', ''-no-color''] @ parallelism_args val
      | TofuDestroy \<Rightarrow> [tofu, ''destroy'', ''-auto-approve'', ''-no-color''] @ parallelism_args val)"

record tofu_env =
  te_tofu :: tofu
  te_found :: bool
  te_dev_overrides :: bool

definition run_cmd :: "tofu_env \<Rightarrow> tofu_cmd \<Rightarrow> tofu_run \<Rightarrow> int option \<times> tofu_run" where
  "run_cmd e c r = (case te_tofu e (fst r) c (snd r) of (rc, w) \<Rightarrow> (rc, Suc (fst r), w))"

text \<open>A command of the run: \<open>Inl\<close> the exception that it raises.\<close>

datatype tofu_end = Raised | Ended int build_status

definition then_cmd :: "tofu_env \<Rightarrow> tofu_cmd \<Rightarrow> tofu_run \<Rightarrow> (int \<Rightarrow> tofu_run \<Rightarrow> tofu_end \<times> tofu_run) \<Rightarrow> tofu_end \<times> tofu_run" where
  "then_cmd e c r k = (case run_cmd e c r of (None, r1) \<Rightarrow> (Raised, r1) | (Some rc, r1) \<Rightarrow> k rc r1)"

definition drop_state :: "tofu_run \<Rightarrow> tofu_run" where
  "drop_state r = (fst r, (snd r)\<lparr>wd_state := None\<rparr>)"

text \<open>The second part of a build: the old state is removed, then the modules and the plan.\<close>

definition fresh_apply :: "tofu_env \<Rightarrow> tofu_run \<Rightarrow> tofu_end \<times> tofu_run" where
  "fresh_apply e r0 =
     (let r = drop_state r0 in
      then_cmd e TofuGet r (\<lambda>_ r1.
      then_cmd e TofuInit r1 (\<lambda>rc r2.
        if rc \<noteq> 0 \<and> \<not> (te_dev_overrides e \<and> wd_modules (snd r2)) then (Ended rc BFailed, r2)
        else then_cmd e TofuApply r2 (\<lambda>rc r3. (Ended rc (if rc = 0 then BSuccess else BFailed), r3)))))"

text \<open>The first part: what an earlier build left is destroyed.  \<open>Inr\<close>: the build goes on.\<close>

definition pre_apply :: "tofu_env \<Rightarrow> tofu_run \<Rightarrow> (tofu_end \<times> tofu_run) + tofu_run" where
  "pre_apply e r =
     (case wd_state (snd r) of
        Some Unreadable \<Rightarrow> Inl (Ended 1 BFailed, r)
      | Some (Resources (x # xs)) \<Rightarrow>
          (case run_cmd e TofuGet r of
             (None, r1) \<Rightarrow> Inl (Ended 1 BFailed, r1)
           | (Some _, r1) \<Rightarrow>
               (case run_cmd e TofuDestroy r1 of
                  (None, r2) \<Rightarrow> Inl (Ended 1 BFailed, r2)
                | (Some rc, r2) \<Rightarrow> if rc \<noteq> 0 then Inl (Ended rc BFailed, r2) else Inr r2))
      | _ \<Rightarrow> Inr r)"

definition execute_tofu :: "tofu_env \<Rightarrow> tofu_run \<Rightarrow> tofu_end \<times> tofu_run" where
  "execute_tofu e r =
     (if \<not> wd_exists (snd r) \<or> \<not> te_found e then (Raised, r)
      else (case pre_apply e r of Inl out \<Rightarrow> out | Inr r1 \<Rightarrow> fresh_apply e r1))"

definition cleanup_tofu :: "tofu_env \<Rightarrow> tofu_run \<Rightarrow> tofu_run" where
  "cleanup_tofu e r =
     (case wd_state (snd r) of
        Some (Resources (x # xs)) \<Rightarrow> if te_found e then snd (run_cmd e TofuDestroy r) else r
      | _ \<Rightarrow> r)"

text \<open>A build's thread, from its start to what is saved; the last part says whether its log is queued for the analysis.\<close>

definition ended :: "string \<Rightarrow> string \<Rightarrow> tofu_end \<Rightarrow> build \<Rightarrow> build" where
  "ended t0 t1 out b =
     (let b1 = b\<lparr>b_started_at := Some t0, b_finished_at := Some t1\<rparr>
      in case out of Raised \<Rightarrow> b1\<lparr>b_status := BFailed, b_exit_code := Some (-1)\<rparr>
         | Ended rc st \<Rightarrow> b1\<lparr>b_status := st, b_exit_code := Some rc\<rparr>)"

record build_times =
  bt_start :: string
  bt_end :: string
  bt_before :: "snapshot option"
  bt_after :: "snapshot option"

definition run_tofu_build :: "tofu_env \<Rightarrow> build_times \<Rightarrow> build \<Rightarrow> tofu_run \<Rightarrow> build \<times> bool \<times> tofu_run" where
  "run_tofu_build e t b r =
     (case execute_tofu e r of (out, r1) \<Rightarrow>
        (let b1 = provisioned_by (bt_before t) (bt_after t) (ended (bt_start t) (bt_end t) out b) in
         if b_status b1 = BFailed then (b1, True, cleanup_tofu e r1) else (b1, False, r1)))"

text \<open>\<open>None\<close> is the exception of a missing build or of a command that cannot be started.\<close>

definition run_tofu_destroy :: "tofu_env \<Rightarrow> string \<Rightarrow> build_store \<Rightarrow> (string \<Rightarrow> tofu_run) \<Rightarrow> (bool \<times> build_store) option \<times> (string \<times> tofu_run) option" where
  "run_tofu_destroy e build_id st dirs =
     (case get_build build_id st of
        None \<Rightarrow> (None, None)
      | Some b \<Rightarrow>
          (let r = dirs (b_template b) in
           if \<not> wd_exists (snd r) then (Some (False, st), None)
           else if wd_state (snd r) = None then (Some (True, mark_build_destroyed build_id st), None)
           else if \<not> te_found e then (None, None)
           else (case run_cmd e TofuGet r of
               (None, r1) \<Rightarrow> (None, Some (b_template b, r1))
             | (Some _, r1) \<Rightarrow>
                 (case run_cmd e TofuDestroy r1 of
                    (None, r2) \<Rightarrow> (None, Some (b_template b, r2))
                  | (Some rc, r2) \<Rightarrow>
                      (Some (if rc = 0 then (True, mark_build_destroyed build_id st) else (False, st)), Some (b_template b, r2))))))"

section \<open>The environment of OpenTofu\<close>

record tofu_tokens =
  tt_master :: string
  tt_examples :: string
  tt_labvm :: string

definition retired_value :: "jval \<Rightarrow> bool" where
  "retired_value v \<longleftrightarrow> (case v of JStr s \<Rightarrow> is_retired s | _ \<Rightarrow> False)"

definition api_token :: "string \<Rightarrow> jdict \<Rightarrow> jval" where
  "api_token master var_overrides =
     (let token = jget var_overrides ''cloudcore_api_token''
      in if jtruthy token \<and> \<not> retired_value token then token else JStr master)"

definition set_var :: "(jval \<Rightarrow> string) \<Rightarrow> (string \<rightharpoonup> jval) \<Rightarrow> string \<times> jval \<Rightarrow> (string \<rightharpoonup> jval)" where
  "set_var dumps env kv =
     (case kv of (k, v) \<Rightarrow>
        if endswith k ''_token'' \<and> retired_value v then env
        else if k \<in> {''cloudcore_api_url'', ''cloudcore_api_token''} then env
        else env(''TF_VAR_'' @ k \<mapsto> JStr (case v of JStr s \<Rightarrow> s | _ \<Rightarrow> dumps v)))"

definition base_env :: "tofu_tokens \<Rightarrow> (string \<rightharpoonup> string) \<Rightarrow> string option \<Rightarrow> jdict \<Rightarrow> (string \<rightharpoonup> jval)" where
  "base_env tk environ tofurc var_overrides =
     (let url = jget_default var_overrides ''cloudcore_api_url''
                  (JStr (case environ ''CLOUDCORE_API_URL'' of None \<Rightarrow> ''http://127.0.0.1:8080'' | Some u \<Rightarrow> u));
          e0 = (map_option JStr \<circ> environ)(''CLOUDCORE_API_URL'' \<mapsto> url, ''CLOUDCORE_API_TOKEN'' \<mapsto> api_token (tt_master tk) var_overrides,
                 ''TF_INPUT'' \<mapsto> JStr ''0'', ''TF_IN_AUTOMATION'' \<mapsto> JStr ''1'');
          e1 = (if tt_examples tk = [] then e0 else e0(''TF_VAR_examples_ingestion_token'' \<mapsto> JStr (tt_examples tk)));
          e2 = (if tt_labvm tk = [] then e1 else e1(''TF_VAR_labvm_broker_token'' \<mapsto> JStr (tt_labvm tk)))
      in (case tofurc of None \<Rightarrow> e2 | Some path \<Rightarrow> e2(''TF_CLI_CONFIG_FILE'' \<mapsto> JStr path)))"

definition build_env :: "(jval \<Rightarrow> string) \<Rightarrow> tofu_tokens \<Rightarrow> (string \<rightharpoonup> string) \<Rightarrow> string option \<Rightarrow> jdict \<Rightarrow> (string \<rightharpoonup> jval)" where
  "build_env dumps tk environ tofurc var_overrides = foldl (set_var dumps) (base_env tk environ tofurc var_overrides) var_overrides"

section \<open>The routes of OpenTofu builds\<close>

definition tofu_auth :: "string \<Rightarrow> string \<Rightarrow> string \<Rightarrow> bool" where
  "tofu_auth API_TOKEN header token_arg \<longleftrightarrow>
     (let t = removeprefix header bearer_prefix in (if t \<noteq> [] then t else token_arg) = API_TOKEN)"

definition MIN_MINUTES :: int where "MIN_MINUTES = 30"
definition STEP_MINUTES :: int where "STEP_MINUTES = 30"

text \<open>\<open>None\<close>: \<^verbatim>\<open>int()\<close> raises.\<close>

fun int_of :: "jval \<Rightarrow> int option" where
  "int_of (JInt i) = Some i"
| "int_of (JBool b) = Some (if b then 1 else 0)"
| "int_of (JFloat q) = Some (if q < 0 then - \<lfloor>- q\<rfloor> else \<lfloor>q\<rfloor>)"
| "int_of (JStr s) = py_int s"
| "int_of v = None"

definition idle_minutes :: "jval option \<Rightarrow> int option option" where
  "idle_minutes v =
     (case v of
        None \<Rightarrow> Some None
      | Some JNull \<Rightarrow> Some None
      | Some v \<Rightarrow> (case int_of v of None \<Rightarrow> None | Some m \<Rightarrow> if m < MIN_MINUTES \<or> m mod STEP_MINUTES \<noteq> 0 then None else Some (Some m)))"

record build_body =
  bb_template :: string
  bb_vars :: jdict
  bb_created_by :: string
  bb_idle :: "jval option"

text \<open>The schema is \<open>None\<close> when the playbook does not exist; OpenTofu's always exists.  The answer is the build.\<close>

definition placement_refusal :: "(jval \<Rightarrow> host_view option) \<Rightarrow> jdict \<Rightarrow> jdict \<Rightarrow> 'b reply option" where
  "placement_refusal peers vars schema =
     (if check_no_coordinator_worker_overlap vars \<noteq> None then Some (Problem 400 ''Invalid peer placement'')
      else if check_worker_peers peers vars schema \<noteq> None \<or> check_coordinator_peer peers vars schema \<noteq> None
        then Some (Problem 400 ''Insufficient peer capacity'')
      else None)"

definition post_tofu_build ::
    "(jval \<Rightarrow> string) \<Rightarrow> split_env \<Rightarrow> (string \<Rightarrow> jdict) \<Rightarrow> string \<Rightarrow> string \<Rightarrow> build_body \<Rightarrow> build_store \<Rightarrow> build_store \<times> (build \<times> int option) reply" where
  "post_tofu_build rep env schema_of build_id now body st =
     (let template = py_strip (bb_template body); schema = schema_of template in
      if template = [] then (st, Problem 400 ''Bad Request'')
      else if missing_vars rep schema (bb_vars body) \<noteq> [] then (st, Problem 400 ''Bad Request'')
      else (case placement_refusal (se_peer_stats env) (bb_vars body) schema of
          Some p \<Rightarrow> (st, p)
        | None \<Rightarrow>
            (let vars = maybe_apply env (bb_vars body) schema in
             case idle_minutes (bb_idle body) of
               None \<Rightarrow> (st, Problem 400 ''Bad Request'')
             | Some idle \<Rightarrow>
                 (let b = new_build build_id now template vars (bb_created_by body) in (submit_build b st, Reply 202 (b, idle))))))"

definition destroy_tofu_build :: "tofu_env \<Rightarrow> string \<Rightarrow> build_store \<Rightarrow> (string \<Rightarrow> tofu_run) \<Rightarrow> (build_store \<times> (string \<times> tofu_run) option) \<times> bool reply" where
  "destroy_tofu_build e build_id st dirs =
     (case get_build build_id st of
        None \<Rightarrow> ((st, None), Problem 404 ''Not Found'')
      | Some b \<Rightarrow>
          if b_status b = BDestroyed then ((st, None), Problem 409 ''Already destroyed'')
          else (case run_tofu_destroy e build_id st dirs of
              (None, r) \<Rightarrow> ((st, r), Problem 500 ''Destroy failed'')
            | (Some (success, st1), r) \<Rightarrow> ((st1, r), Reply (if success then 200 else 500) success)))"

section \<open>Arming the idle watch\<close>

text \<open>The load balancer as the API shows it (\<open>None\<close>: the request fails); the answer is what is watched.\<close>

definition start_idle_watcher :: "jdict \<Rightarrow> (jval \<Rightarrow> jdict option) \<Rightarrow> build \<Rightarrow> (jval \<times> string) option" where
  "start_idle_watcher schema get_lb b =
     (case find (\<lambda>r. fst r = ''lb'') (b_provisioned b) of
        None \<Rightarrow> None
      | Some (_, lb_ref, _) \<Rightarrow>
          (let given = jget (b_var_overrides b) ''http_port'';
               default = (case jget schema ''http_port'' of JObj d \<Rightarrow> jget d ''default'' | _ \<Rightarrow> JNull);
               port = (if jtruthy given then given else if jtruthy default then default else JInt 0)
           in (case int_of port of
                 None \<Rightarrow> None
               | Some http_port \<Rightarrow>
                   if http_port = 0 then None
                   else (case get_lb lb_ref of
                       None \<Rightarrow> None
                     | Some lb \<Rightarrow>
                         (case jget lb ''target_groups'' of
                            JList tgs \<Rightarrow>
                              (case find (\<lambda>t. case t of JObj d \<Rightarrow> jget d ''port'' = JInt http_port | _ \<Rightarrow> False) tgs of
                                 Some (JObj d) \<Rightarrow> (case jget d ''id'' of JStr i \<Rightarrow> Some (lb_ref, ''tg-'' @ take 8 i @ ''-back'') | _ \<Rightarrow> None)
                               | _ \<Rightarrow> None)
                          | _ \<Rightarrow> None)))))"

section \<open>Ansible\<close>

definition DESTROY_ORDER :: "string \<Rightarrow> nat" where
  "DESTROY_ORDER t = (if t = ''instance'' then 0 else if t = ''security_group'' then 2 else if t = ''vpc'' then 3 else 1)"

definition destroy_path :: "string \<Rightarrow> string option" where
  "destroy_path t =
     map_of [(''vpc'', ''/v1/vpcs/''), (''instance'', ''/v1/instances/''), (''lb'', ''/v1/load-balancers/''), (''dns_zone'', ''/v1/dns/zones/''),
       (''nfs_server'', ''/v1/nfs-servers/''), (''security_group'', ''/v1/security-groups/'')] t"

definition delete_requests :: "(jval \<Rightarrow> string) \<Rightarrow> (string \<times> jval \<times> jval) list \<Rightarrow> string list" where
  "delete_requests rep rs = List.map_filter (\<lambda>(t, i, _). map_option (\<lambda>p. p @ py_str rep i) (destroy_path t)) rs"

definition cleanup_requests :: "(jval \<Rightarrow> string) \<Rightarrow> build \<Rightarrow> string list" where
  "cleanup_requests rep b = delete_requests rep (sort_key (\<lambda>r. DESTROY_ORDER (fst r)) (b_provisioned b))"

text \<open>The token of an Ansible build: the first of the two that is there and not retired.\<close>

definition ansible_token :: "string \<Rightarrow> jdict \<Rightarrow> jdict \<Rightarrow> jval" where
  "ansible_token master defaults var_overrides =
     (case find (\<lambda>t. jtruthy t \<and> \<not> retired_value t) [jget var_overrides ''cloudcore_api_token'', jget defaults ''cloudcore_api_token''] of
        Some t \<Rightarrow> t | None \<Rightarrow> JStr master)"

definition ansible_argv :: "string \<Rightarrow> string \<Rightarrow> string \<Rightarrow> bool \<Rightarrow> string list" where
  "ansible_argv playbook inventory vars_file bridge_unusable =
     [''ansible-playbook'', playbook, ''-i'', inventory, ''--extra-vars'', CHR ''@'' # vars_file] @ (if bridge_unusable then [''--skip-tags'', ''wait''] else [])"

text \<open>The playbook's exit code; \<open>None\<close>: it does not exist or cannot be started.  The answer ends with the requests of the
  clean-up and whether the log is queued.\<close>

definition playbook_end :: "int option \<Rightarrow> tofu_end" where
  "playbook_end rc = (case rc of None \<Rightarrow> Raised | Some rc \<Rightarrow> Ended rc (if rc = 0 then BSuccess else BFailed))"

definition run_ansible_build :: "(jval \<Rightarrow> string) \<Rightarrow> int option \<Rightarrow> build_times \<Rightarrow> build \<Rightarrow> build \<times> string list \<times> bool" where
  "run_ansible_build rep rc t b =
     (let b1 = provisioned_by (bt_before t) (bt_after t) (ended (bt_start t) (bt_end t) (playbook_end rc) b)
      in if b_status b1 = BFailed then (b1, cleanup_requests rep b1, True) else (b1, [], False))"

definition post_ansible_build ::
    "split_env \<Rightarrow> (string \<Rightarrow> jdict option) \<Rightarrow> string \<Rightarrow> string \<Rightarrow> build_body \<Rightarrow> build_store \<Rightarrow> build_store \<times> build reply" where
  "post_ansible_build env schema_of build_id now body st =
     (let template = py_strip (bb_template body) in
      if template = [] then (st, Problem 400 ''Bad Request'')
      else (case schema_of template of
          None \<Rightarrow> (st, Problem 404 ''Not Found'')
        | Some schema \<Rightarrow>
            (case placement_refusal (se_peer_stats env) (bb_vars body) schema of
               Some p \<Rightarrow> (st, p)
             | None \<Rightarrow>
                 (let b = new_build build_id now template (maybe_apply env (bb_vars body) schema) (bb_created_by body)
                  in (submit_build b st, Reply 202 b)))))"

text \<open>The route that destroys deletes in the order of the list, whatever the answers, and marks the build.\<close>

definition destroy_ansible_build :: "(jval \<Rightarrow> string) \<Rightarrow> string \<Rightarrow> build_store \<Rightarrow> build_store \<times> string list reply" where
  "destroy_ansible_build rep build_id st =
     (case get_build build_id st of
        None \<Rightarrow> (st, Problem 404 ''Not Found'')
      | Some b \<Rightarrow> (mark_build_destroyed build_id st, Reply 200 (delete_requests rep (b_provisioned b))))"

end
