(* ===== verification/Builds_Props.thy ===== *)
theory Builds_Props
  imports Builds
begin

text \<open>
  The build engines: OpenTofu's state file keeps track of everything that lives, over all sequences of builds and
  destructions; builds are never lost and a destroyed one stays destroyed; the clean-up of a failed Ansible build.  And
  what goes wrong when builds of one template overlap.
\<close>

section \<open>What OpenTofu does\<close>










section \<open>The host\<close>

text \<open>Builds of one template run one after the other; the threads of a build are taken as one step.\<close>

record tofu_host =
  th_store :: build_store
  th_dirs :: "string \<Rightarrow> workdir"
  th_calls :: nat
  th_queue :: sched_db

definition runs_of :: "tofu_host \<Rightarrow> string \<Rightarrow> tofu_run" where
  "runs_of h t = (th_calls h, th_dirs h t)"

definition put_run :: "string \<Rightarrow> tofu_run \<Rightarrow> tofu_host \<Rightarrow> tofu_host" where
  "put_run t r h = h\<lparr>th_dirs := (th_dirs h)(t := snd r), th_calls := fst r\<rparr>"

definition put_runs :: "(string \<times> tofu_run) option \<Rightarrow> tofu_host \<Rightarrow> tofu_host" where
  "put_runs change h = (case change of None \<Rightarrow> h | Some (t, r) \<Rightarrow> put_run t r h)"

definition run_on_host :: "tofu_env \<Rightarrow> build_times \<Rightarrow> string \<Rightarrow> moment \<Rightarrow> string list \<Rightarrow> build \<Rightarrow> tofu_host \<Rightarrow> tofu_host" where
  "run_on_host e t queue_id now lines b h =
     (case run_tofu_build e t b (runs_of h (b_template b)) of (b1, queued, r) \<Rightarrow>
        (put_run (b_template b) r h)\<lparr>th_store := save_build b1 (th_store h),
           th_queue := (if queued then queue_failure queue_id now ''tofu'' (b_id b1) (b_template b1) (b_var_overrides b1) lines (b_exit_code b1) (th_queue h)
                        else th_queue h)\<rparr>)"

definition destroy_on_host :: "tofu_env \<Rightarrow> string \<Rightarrow> tofu_host \<Rightarrow> tofu_host \<times> bool reply" where
  "destroy_on_host e build_id h =
     (case destroy_tofu_build e build_id (th_store h) (runs_of h) of ((st, r), rep) \<Rightarrow> ((put_runs r h)\<lparr>th_store := st\<rparr>, rep))"

inductive host_step :: "tofu_env \<Rightarrow> tofu_host \<Rightarrow> tofu_host \<Rightarrow> bool" for e where
  post: "get_build i (th_store h) = None \<Longrightarrow> host_step e h (h\<lparr>th_store := submit_build (new_build i now template vars by) (th_store h)\<rparr>)"
| run: "b \<in> set (bs_running (th_store h)) \<Longrightarrow> host_step e h (run_on_host e t queue_id now lines b h)"
| destroy: "host_step e h (fst (destroy_on_host e i h))"









definition demo_tofu :: "nat \<Rightarrow> tofu" where
  "demo_tofu k n c w =
     (case c of
        TofuApply \<Rightarrow> (Some 0, w\<lparr>wd_state := Some (Resources [''r'']), wd_live := [''r'']\<rparr>)
      | TofuDestroy \<Rightarrow> (Some 0, w\<lparr>wd_state := Some (Resources []), wd_live := []\<rparr>)
      | TofuInit \<Rightarrow> (Some (if n > k then 1 else 0), w)
      | TofuGet \<Rightarrow> (Some 0, w))"

definition demo_tofu_env :: "nat \<Rightarrow> tofu_env" where
  "demo_tofu_env k = \<lparr>te_tofu = demo_tofu k, te_found = True, te_dev_overrides = False\<rparr>"

definition demo_dir :: workdir where
  "demo_dir = \<lparr>wd_exists = True, wd_state = None, wd_modules = True, wd_live = []\<rparr>"

definition demo_times :: build_times where
  "demo_times = \<lparr>bt_start = ''t1'', bt_end = ''t2'', bt_before = None, bt_after = None\<rparr>"

definition demo_build :: "string \<Rightarrow> build" where
  "demo_build i = new_build i ''t0'' ''vpc-only'' [] ''ui''"

definition idle_host :: "sched_db \<Rightarrow> tofu_host" where
  "idle_host q = \<lparr>th_store = \<lparr>bs_running = [], bs_rows = []\<rparr>, th_dirs = (\<lambda>t. demo_dir), th_calls = 0, th_queue = q\<rparr>"

definition posted :: "string \<Rightarrow> tofu_host \<Rightarrow> tofu_host" where
  "posted i h = h\<lparr>th_store := submit_build (demo_build i) (th_store h)\<rparr>"

definition built :: "moment \<Rightarrow> string \<Rightarrow> tofu_host \<Rightarrow> tofu_host" where
  "built now i h = run_on_host (demo_tofu_env 9) demo_times ''q'' now [] (demo_build i) (posted i h)"





section \<open>Builds are kept\<close>

definition store_ok :: "build_store \<Rightarrow> bool" where
  "store_ok st \<longleftrightarrow> wf_table b_id (bs_rows st) \<and> (\<forall>b \<in> set (bs_rows st). b_status b \<in> {BSuccess, BFailed, BDestroyed})
     \<and> (\<forall>b \<in> set (bs_running st). b_status b = BPending) \<and> b_id ` set (bs_running st) \<inter> b_id ` set (bs_rows st) = {}"

lemma find_id: "find (\<lambda>b. b_id b = i) bs = None \<longleftrightarrow> i \<notin> b_id ` set bs"
  by (auto simp: find_None_iff)

lemma get_build_mem: "get_build i st \<noteq> None \<longleftrightarrow> i \<in> b_id ` set (bs_running st) \<union> b_id ` set (bs_rows st)"
proof (cases "find (\<lambda>b. b_id b = i) (bs_running st)")
  case None
  then show ?thesis using find_id [of i "bs_running st"] find_id [of i "bs_rows st"] by (simp add: get_build_def)
next
  case (Some b)
  then have "i \<in> b_id ` set (bs_running st)" using find_id [of i "bs_running st"] by simp
  with Some show ?thesis by (simp add: get_build_def)
qed

lemma key_upsert:
  assumes "\<And>x. key (merge x r) = key r"
  shows "key ` set (upsert key merge r t) = insert (key r) (key ` set t)"
proof (cases "\<exists>x \<in> set t. key x = key r")
  case True
  then have "map key (upsert key merge r t) = map key t" using assms by (auto simp: upsert_def)
  then have "key ` set (upsert key merge r t) = key ` set t" by (metis set_map)
  with True show ?thesis by (metis imageI insert_absorb)
qed (simp add: upsert_def)

lemma find_upsert_other: "(\<And>x. key (merge x r) = key r) \<Longrightarrow> key r \<noteq> i \<Longrightarrow> find (\<lambda>x. key x = i) (upsert key merge r t) = find (\<lambda>x. key x = i) t"
proof -
  assume a: "\<And>x. key (merge x r) = key r" "key r \<noteq> i"
  have "find (\<lambda>x. key x = i) (map (\<lambda>x. if key x = key r then merge x r else x) t) = find (\<lambda>x. key x = i) t"
    using a by (induction t) auto
  moreover have "find (\<lambda>x. key x = i) (t @ [r]) = find (\<lambda>x. key x = i) t" using a(2) by (induction t) auto
  ultimately show ?thesis by (simp add: upsert_def)
qed

definition end_ok :: "tofu_end \<Rightarrow> bool" where
  "end_ok out \<longleftrightarrow> (case out of Raised \<Rightarrow> True | Ended rc st \<Rightarrow> st \<in> {BSuccess, BFailed})"

lemma then_cmd_end: "(\<And>rc r1. end_ok (fst (k rc r1))) \<Longrightarrow> end_ok (fst (then_cmd e c r k))"
  by (simp add: then_cmd_def split_beta end_ok_def split: option.split)

lemma fresh_apply_end: "end_ok (fst (fresh_apply e r))"
  unfolding fresh_apply_def Let_def by (intro then_cmd_end) (simp add: end_ok_def then_cmd_end [unfolded end_ok_def])

lemma pre_apply_end: "pre_apply e r = Inl out \<Longrightarrow> end_ok (fst out)"
  by (auto simp: pre_apply_def split_beta end_ok_def split: option.splits tf_state.splits list.splits if_splits)

lemma execute_tofu_end: "end_ok (fst (execute_tofu e r))"
  using fresh_apply_end pre_apply_end by (auto simp: execute_tofu_def end_ok_def [of Raised] split: sum.splits)

lemma run_tofu_build_row:
  "b_status (fst (run_tofu_build e t b r)) \<in> {BSuccess, BFailed}" "b_id (fst (run_tofu_build e t b r)) = b_id b"
  "fst (snd (run_tofu_build e t b r)) \<longleftrightarrow> b_status (fst (run_tofu_build e t b r)) = BFailed"
  using execute_tofu_end [of e r]
  by (auto simp: run_tofu_build_def Let_def split_beta ended_def provisioned_by_def end_ok_def split: tofu_end.splits option.splits list.splits)

lemma store_ok_save:
  assumes "store_ok st" "b_status b \<in> {BSuccess, BFailed}"
  shows "store_ok (save_build b st)"
proof -
  have m: "b_id (merge_build x b) = b_id b" "b_status (merge_build x b) = b_status b" for x by (simp_all add: merge_build_def)
  have s: "save_build b st = st\<lparr>bs_rows := upsert b_id merge_build b (bs_rows st), bs_running := filter (\<lambda>x. b_id x \<noteq> b_id b) (bs_running st)\<rparr>"
    using assms(2) by (auto simp: save_build_def)
  have "\<forall>x \<in> set (upsert b_id merge_build b (bs_rows st)). b_status x \<in> {BSuccess, BFailed, BDestroyed}"
    using assms m(2) by (auto simp: store_ok_def upsert_def)
  then show ?thesis
    using assms(1) wf_upsert [of b_id merge_build b "bs_rows st"] key_upsert [of b_id merge_build b "bs_rows st"] m(1)
    unfolding store_ok_def s by auto
qed

lemma mark_simps: "bs_running (mark_build_destroyed i st) = bs_running st" "map b_id (bs_rows (mark_build_destroyed i st)) = map b_id (bs_rows st)"
  by (simp_all add: mark_build_destroyed_def)

lemma ids_mark: "b_id ` set (bs_rows (mark_build_destroyed i st)) = b_id ` set (bs_rows st)"
  using arg_cong [OF mark_simps(2), of set i st] by (simp only: set_map)

lemma store_ok_mark:
  assumes "store_ok st"
  shows "store_ok (mark_build_destroyed i st)"
proof -
  have "\<forall>b \<in> set (bs_rows (mark_build_destroyed i st)). b_status b \<in> {BSuccess, BFailed, BDestroyed}"
    using assms by (auto simp: store_ok_def mark_build_destroyed_def)
  then show ?thesis using assms by (simp add: store_ok_def wf_table_def mark_simps ids_mark)
qed

lemma find_both: "find P (xs @ ys) = (case find P xs of None \<Rightarrow> find P ys | Some x \<Rightarrow> Some x)"
  by (induction xs) auto

lemma find_map_same: "(\<And>x. b_id (f x) = b_id x) \<Longrightarrow> find (\<lambda>b. b_id b = i) (map f bs) = map_option f (find (\<lambda>b. b_id b = i) bs)"
  by (induction bs) auto

lemma destroy_store: "th_store (fst (destroy_on_host e i h)) \<in> {th_store h, mark_build_destroyed i (th_store h)}"
  by (auto simp: destroy_on_host_def destroy_tofu_build_def run_tofu_destroy_def Let_def split_beta put_runs_def put_run_def split: option.split)

lemma host_step_store:
  assumes "host_step e h h1"
  obtains (posted) i now template vars by_whom where "get_build i (th_store h) = None" "th_store h1 = submit_build (new_build i now template vars by_whom) (th_store h)"
  | (saved) b b1 where "b \<in> set (bs_running (th_store h))" "b_id b1 = b_id b" "b_status b1 \<in> {BSuccess, BFailed}" "th_store h1 = save_build b1 (th_store h)"
  | (same) "th_store h1 = th_store h"
  | (marked) i where "th_store h1 = mark_build_destroyed i (th_store h)"
  using assms
proof (cases rule: host_step.cases)
  case (run b t qid now lines)
  then show ?thesis using saved [of b "fst (run_tofu_build e t b (runs_of h (b_template b)))"] run_tofu_build_row
    by (simp add: run_on_host_def split_beta)
next
  case (post i now template vars w)
  then show ?thesis using posted by auto
next
  case (destroy i)
  then show ?thesis using destroy_store [of e i h] same marked [of i] by auto
qed

text \<open>A build is never lost, and a destroyed one stays destroyed.\<close>

lemma builds_kept:
  assumes "host_step e h h1" "store_ok (th_store h)"
  shows "store_ok (th_store h1)"
    and "get_build i (th_store h) \<noteq> None \<Longrightarrow> get_build i (th_store h1) \<noteq> None"
    and "map_option b_status (get_build i (th_store h)) = Some BDestroyed \<Longrightarrow> map_option b_status (get_build i (th_store h1)) = Some BDestroyed"
proof -
  have fresh: "find (\<lambda>b. b_id b = i) (bs_running (th_store h)) = None" if "map_option b_status (get_build i (th_store h)) = Some BDestroyed"
    using assms(2) that by (auto simp: get_build_def store_ok_def split: option.splits dest!: find_Some_in)
  from assms(1) have "store_ok (th_store h1) \<and> (get_build i (th_store h) \<noteq> None \<longrightarrow> get_build i (th_store h1) \<noteq> None)
      \<and> (map_option b_status (get_build i (th_store h)) = Some BDestroyed \<longrightarrow> map_option b_status (get_build i (th_store h1)) = Some BDestroyed)"
  proof (cases rule: host_step_store)
    case (posted j now template vars by_whom)
    have "j \<noteq> i" if "get_build i (th_store h) \<noteq> None" using posted(1) that by auto
    then have g: "get_build i (th_store h1) = get_build i (th_store h)" if "get_build i (th_store h) \<noteq> None"
      using that by (auto simp: posted(2) get_build_def submit_build_def new_build_def find_both split: option.splits)
    have "store_ok (th_store h1)"
      using assms(2) posted(1) get_build_mem [of j "th_store h"] by (auto simp: store_ok_def posted(2) submit_build_def new_build_def)
    then show ?thesis using g by (metis option.map_disc_iff option.distinct(1))
  next
    case (saved b b1)
    have m: "b_id (merge_build x b1) = b_id b1" for x by (simp add: merge_build_def)
    have st: "th_store h1 = (th_store h)\<lparr>bs_rows := upsert b_id merge_build b1 (bs_rows (th_store h)),
        bs_running := filter (\<lambda>x. b_id x \<noteq> b_id b1) (bs_running (th_store h))\<rparr>"
      using saved by (auto simp: save_build_def)
    have k: "get_build i (th_store h) \<noteq> None \<longrightarrow> get_build i (th_store h1) \<noteq> None"
      unfolding get_build_mem by (auto simp: st key_upsert [where key = b_id and merge = merge_build, OF m])
    have "map_option b_status (get_build i (th_store h1)) = Some BDestroyed" if d: "map_option b_status (get_build i (th_store h)) = Some BDestroyed"
    proof -
      have n: "find (\<lambda>b. b_id b = i) (bs_running (th_store h)) = None" using fresh [OF d] .
      then have "b_id b1 \<noteq> i" using saved(1,2) unfolding find_id by auto
      moreover have "find (\<lambda>b. b_id b = i) (bs_running (th_store h1)) = None" using n unfolding find_id by (auto simp: st)
      ultimately show ?thesis using d n find_upsert_other [of b_id merge_build b1 i "bs_rows (th_store h)"] m by (simp add: get_build_def st)
    qed
    then show ?thesis using k store_ok_save [OF assms(2) saved(3)] saved(4) by simp
  next
    case same
    then show ?thesis using assms(2) by simp
  next
    case (marked j)
    have "map_option b_status (find (\<lambda>b. b_id b = i) (bs_rows (mark_build_destroyed j st))) =
        map_option (\<lambda>b. if b_id b = j then BDestroyed else b_status b) (find (\<lambda>b. b_id b = i) (bs_rows st))" for st
      using find_map_same [of "\<lambda>b. if b_id b = j then b\<lparr>b_status := BDestroyed\<rparr> else b" i "bs_rows st"]
      by (cases "find (\<lambda>b. b_id b = i) (bs_rows st)") (simp_all add: mark_build_destroyed_def)
    then have "map_option b_status (get_build i (th_store h1)) = Some BDestroyed" if "map_option b_status (get_build i (th_store h)) = Some BDestroyed"
      using fresh [OF that] that by (auto simp: get_build_def marked mark_simps)
    moreover have "get_build i (th_store h) \<noteq> None \<longrightarrow> get_build i (th_store h1) \<noteq> None"
      unfolding get_build_mem by (simp add: marked mark_simps ids_mark)
    ultimately show ?thesis using store_ok_mark [OF assms(2)] marked by simp
  qed
  then show "store_ok (th_store h1)" "get_build i (th_store h) \<noteq> None \<Longrightarrow> get_build i (th_store h1) \<noteq> None"
    "map_option b_status (get_build i (th_store h)) = Some BDestroyed \<Longrightarrow> map_option b_status (get_build i (th_store h1)) = Some BDestroyed"
    by blast+
qed

text \<open>The clean-up of a failed Ansible build deletes what the snapshots show as new, instances first and networks last.\<close>

lemma cleanup_order:
  "\<exists>rs. cleanup_requests rep b = delete_requests rep rs \<and> mset rs = mset (b_provisioned b)
     \<and> sorted_wrt (\<lambda>x y. DESTROY_ORDER (fst x) \<le> DESTROY_ORDER (fst y)) rs"
proof (intro exI conjI)
  show "cleanup_requests rep b = delete_requests rep (sort_key (\<lambda>r. DESTROY_ORDER (fst r)) (b_provisioned b))" by (simp add: cleanup_requests_def)
  show "sorted_wrt (\<lambda>x y. DESTROY_ORDER (fst x) \<le> DESTROY_ORDER (fst y)) (sort_key (\<lambda>r. DESTROY_ORDER (fst r)) (b_provisioned b))"
    using sorted_sort_key [of "\<lambda>r. DESTROY_ORDER (fst r)" "b_provisioned b"] by (simp add: sorted_map)
qed simp

lemma diff_snapshots_spec:
  "(t, i, n) \<in> set (diff_snapshots before after) \<longleftrightarrow>
     (\<exists>items. (t, items) \<in> set after \<and> (i, n) \<in> set items \<and> i \<notin> set (before_ids before t))"
  unfolding diff_snapshots_def by (force simp: split_beta)

section \<open>Tokens\<close>

text \<open>The retired token of old builds is not handed to OpenTofu, unless the host itself is configured with it.\<close>

lemma set_var_token:
  assumes "x = ''TF_VAR_'' @ k" "endswith k ''_token''" "env x \<noteq> Some (JStr ''dev-token'')" "\<forall>v. dumps v \<noteq> ''dev-token''"
  shows "set_var dumps env kv x \<noteq> Some (JStr ''dev-token'')"
proof (cases kv)
  case (Pair k' v)
  show ?thesis
  proof (cases "k' = k \<and> v \<noteq> JStr ''dev-token''")
    case True
    then show ?thesis using assms Pair by (cases v) (simp_all add: set_var_def)
  next
    case False
    then have "set_var dumps env kv x = env x" using assms(1,2) Pair by (auto simp: set_var_def retired_value_def is_retired_def)
    then show ?thesis using assms(3) by simp
  qed
qed

lemma set_vars_token:
  assumes "x = ''TF_VAR_'' @ k" "endswith k ''_token''" "\<forall>v. dumps v \<noteq> ''dev-token''"
  shows "env x \<noteq> Some (JStr ''dev-token'') \<Longrightarrow> foldl (set_var dumps) env kvs x \<noteq> Some (JStr ''dev-token'')"
proof (induction kvs arbitrary: env)
  case (Cons kv kvs)
  then show ?case using set_var_token [where env = env and kv = kv, OF assms(1,2) Cons.prems assms(3)] by simp
qed simp

lemma retired_token_stays:
  assumes "tt_master tk \<noteq> ''dev-token''" "tt_examples tk \<noteq> ''dev-token''" "tt_labvm tk \<noteq> ''dev-token''"
    and "\<And>k. environ (''TF_VAR_'' @ k) \<noteq> Some ''dev-token''" "\<forall>v. dumps v \<noteq> ''dev-token''" "tofurc \<noteq> Some ''dev-token''"
  shows "endswith k ''_token'' \<Longrightarrow> build_env dumps tk environ tofurc vars (''TF_VAR_'' @ k) \<noteq> Some (JStr ''dev-token'')"
    "api_token (tt_master tk) vars \<noteq> JStr ''dev-token''"
proof -
  have base: "base_env tk environ tofurc vars (''TF_VAR_'' @ k) \<noteq> Some (JStr ''dev-token'')"
    using assms(2-4,6) by (auto simp: base_env_def Let_def split: option.splits)
  show "endswith k ''_token'' \<Longrightarrow> build_env dumps tk environ tofurc vars (''TF_VAR_'' @ k) \<noteq> Some (JStr ''dev-token'')"
    unfolding build_env_def by (rule set_vars_token [where k = k and env = "base_env tk environ tofurc vars", OF refl _ assms(5) base])
next
  show "api_token (tt_master tk) vars \<noteq> JStr ''dev-token''"
    using assms(1) by (auto simp: api_token_def Let_def retired_value_def is_retired_def)
qed

section \<open>Surprises\<close>

text \<open>Destroying an old build destroys the newer one of the same template, which goes on to be shown as successful.\<close>

lemma destroy_old_kills_new:
  "let h = built now ''b2'' (built now ''b1'' (idle_host q)); out = destroy_on_host (demo_tofu_env 9) ''b1'' h
   in wd_live (th_dirs h ''vpc-only'') = [''r''] \<and> wd_live (th_dirs (fst out) ''vpc-only'') = []
     \<and> map_option b_status (get_build ''b2'' (th_store (fst out))) = Some BSuccess"
  by code_simp

text \<open>Two builds of one template at the same time: the second passes its check before the first applies, then removes the
  first one's state file; if it fails afterwards, what the first one made lives and no state file knows of it.\<close>

lemma overlapping_builds_orphan:
  "let r = (0, demo_dir); first = execute_tofu (demo_tofu_env 2) r; second = fresh_apply (demo_tofu_env 2) (snd first)
   in pre_apply (demo_tofu_env 2) r = Inr r \<and> fst first = Ended 0 BSuccess \<and> fst second = Ended 1 BFailed
     \<and> wd_live (snd (snd second)) = [''r''] \<and> wd_state (snd (snd second)) = None"
  by code_simp

text \<open>Destroying a build that is still pending is answered with 200, but the build runs and is shown as successful.\<close>

lemma destroy_of_pending_is_lost:
  "let h = posted ''b1'' (idle_host q); out = destroy_on_host (demo_tofu_env 9) ''b1'' h;
       h1 = run_on_host (demo_tofu_env 9) demo_times ''q'' now [] (demo_build ''b1'') (fst out)
   in snd out = Reply 200 True \<and> map_option b_status (get_build ''b1'' (th_store h1)) = Some BSuccess \<and> wd_live (th_dirs h1 ''vpc-only'') = [''r'']"
  by code_simp

text \<open>The route that destroys an Ansible build deletes in the order of the snapshot, networks first, where they are
  refused; the build is marked as destroyed all the same.  And everything that appeared while a build ran counts as the
  build's: its clean-up deletes what others made in the meantime.\<close>

definition demo_before :: snapshot where
  "demo_before = [(''vpc'', []), (''instance'', [])]"

definition demo_after :: snapshot where
  "demo_after = [(''vpc'', [(JStr ''v1'', JStr ''net'')]), (''instance'', [(JStr ''i1'', JStr ''web''), (JStr ''other'', JStr ''of somebody else'')])]"

lemma destroy_deletes_network_first:
  "(let b = provisioned_by (Some demo_before) (Some demo_after) (demo_build ''b1'')
    in destroy_ansible_build (\<lambda>_. []) ''b1'' \<lparr>bs_running = [], bs_rows = [b\<lparr>b_status := BSuccess\<rparr>]\<rparr>) =
     (\<lparr>bs_running = [], bs_rows = [(provisioned_by (Some demo_before) (Some demo_after) (demo_build ''b1''))\<lparr>b_status := BDestroyed\<rparr>]\<rparr>,
      Reply 200 [''/v1/vpcs/v1'', ''/v1/instances/i1'', ''/v1/instances/other''])"
  by code_simp

lemma cleanup_deletes_foreign:
  "snd (run_ansible_build (\<lambda>_. []) (Some 2) \<lparr>bt_start = ''t1'', bt_end = ''t2'', bt_before = Some demo_before, bt_after = Some demo_after\<rparr> (demo_build ''b1'')) =
     ([''/v1/instances/i1'', ''/v1/instances/other'', ''/v1/vpcs/v1''], True)"
  by code_simp

end
