(* ===== verification/Spec2Isabelle.thy ===== *)
theory Spec2Isabelle
  imports Cron_Search Authz_Props Peering_Witness Network_Props Security_Props Instances_Props Lb_Props
    Scheduler_Props Capacity_Props Lfs_Props Idle_Watcher Lab_Reaper Vnc_Props Advice_Goals
    Lfs_Attempts Lfs_Main_Props Scheduler_Routes Nfs_Props Builds_Props
begin

text \<open>
  \<^bold>\<open>CloudCore: a verification development.\<close>

  CloudCore is a small virtualisation platform: one API process per host (\<^verbatim>\<open>src/api\<close>, Flask and SQLite) manages
  virtual networks, security groups, instances, load balancers and DNS, pairs with the processes of other hosts, and
  runs scheduled jobs, builds and an LLM that reads the logs.  This development models the logic of that process and
  proves what its parts promise.

  \<^bold>\<open>Parts and theories.\<close>

  \<^item> Foundations.  \<open>Prelude\<close> has the named collections and results that may be exceptions; \<open>Pytext\<close> Python's string methods,
    \<open>Regex\<close> its regular expressions (a reader of patterns and a backtracking matcher), \<open>Shell\<close> and \<open>Shell_Shape\<close> the
    POSIX shell's reading of a line and \<^verbatim>\<open>shlex\<close>;
    \<open>Civil\<close> the calendar; \<open>Iso\<close> the texts of times and their order; \<open>Json\<close> JSON values; \<open>Tables\<close> SQLite tables as
    lists of rows, with the locale \<open>resource_store\<close> for soft-deleted tables; \<open>Ipaddress\<close> the part of Python's
    \<^verbatim>\<open>ipaddress\<close> that \<^verbatim>\<open>_cidr_contained\<close> of \<^verbatim>\<open>server.py\<close> uses.
  \<^item> Data.  \<open>Models\<close> is \<^verbatim>\<open>models.py\<close>; \<open>Store\<close> is \<^verbatim>\<open>store.py\<close> and \<^verbatim>\<open>sg_store.py\<close>, where \<open>resource_store\<close> is
    interpreted for every table; \<open>Host\<close> has requests, replies, the tables of \<^verbatim>\<open>db.py\<close> and the state of the process,
    with the effects on libvirt, iptables, HAProxy and peers as a list.
  \<^item> Recurrences.  \<open>Croncalc\<close> and \<open>Cron_Search\<close> are \<^verbatim>\<open>croncalc.py\<close>: the search by jumps finds the first matching minute
    of its window, gives up exactly when there is none, and the picker's expressions mean what was picked and fire
    within a week.
  \<^item> Authorisation.  \<open>Authz\<close> and \<open>Authz_Props\<close> are \<^verbatim>\<open>authz.py\<close>, \<^verbatim>\<open>cc_token.py\<close> and the two gates of \<^verbatim>\<open>server.py\<close>: scopes,
    the allowlists of the network-facing binds, token life, the audit log.
  \<^item> Peering.  \<open>Peers\<close>, \<open>Wireguard\<close>, \<open>Pairing\<close>, \<open>Peer_Reconciler\<close>, \<open>Peering\<close>, \<open>Peering_Props\<close>, \<open>Peering_Witness\<close> are
    \<^verbatim>\<open>peers_store.py\<close>, \<^verbatim>\<open>wireguard.py\<close>, \<^verbatim>\<open>peers_routes.py\<close> and \<^verbatim>\<open>peer_reconciler.py\<close>: the handshake between two hosts, the
    invariant of the tokens over all reachable states, revocation, the reconciler, the rate limit.
  \<^item> Networks.  \<open>Dns\<close>, \<open>Network\<close>, \<open>Remote\<close>, \<open>Network_Props\<close>: the VPC, subnet, gateway and route-table routes of
    \<^verbatim>\<open>server.py\<close>, local and on a peer; the locale \<open>remote_delete\<close> is the contract of every proxied delete.
  \<^item> Security groups.  \<open>Security_Groups\<close> and \<open>Security_Props\<close> are \<^verbatim>\<open>sg_routes.py\<close> and \<^verbatim>\<open>sg.py\<close>: validation, the commands
    that enforce the rules, and their re-application to the members.
  \<^item> Instances.  \<open>Compute\<close>, \<open>Instances\<close>, \<open>Instances_Props\<close>: the instance routes, the launch thread, USB devices (no
    device has two owners after any sequence of requests), the poll of remote instances.
  \<^item> Load balancers.  \<open>Load_Balancers\<close>, \<open>Lb_Config\<close>, \<open>Lb_Lock\<close>, \<open>Lb_Props\<close>: the routes as functions of the stored row, the
    HAProxy configuration of \<^verbatim>\<open>lb.py\<close>, and the interleavings of the requests under \<^verbatim>\<open>store.lb_lock\<close>; the locale
    \<open>lb_operation\<close> is interpreted for the eleven operations.
  \<^item> Scheduler.  \<open>Scheduler\<close>, \<open>Scheduler_Routes\<close>, \<open>Failure_Queue\<close>, \<open>Llm_Ingest\<close> are \<^verbatim>\<open>scheduler.py\<close>, \<^verbatim>\<open>scheduler_routes.py\<close>
    (with the options of its script jobs, which are valid in every reachable state) and \<^verbatim>\<open>failure_queue.py\<close>.  The locale
    \<open>calendar\<close> states what the scheduler needs of \<open>Croncalc\<close> and is interpreted for the picker's expressions.
    \<open>Scheduler_Props\<close> has the invariant of the tables over all interleavings of requests, ticks and job threads, and
    the refinement of an abstract calendar by the loop; \<open>Ingest_Props\<close> shows that the ingest job always destroys its
    cluster, moves its checkpoint only over events it asked about, and loses no queued failure.
  \<^item> NFS servers.  \<open>Nfs\<close> and \<open>Nfs_Props\<close> are \<^verbatim>\<open>nfs_store.py\<close>, \<^verbatim>\<open>nfs_routes.py\<close> and the commands of \<^verbatim>\<open>nfs.py\<close>: files of
    a share are moved by commands that the server's shell reads as literal paths inside the share.
  \<^item> Builds.  \<open>Template_Vars\<close>, \<open>Builds\<close> and \<open>Builds_Props\<close> are \<^verbatim>\<open>tofu_engine.py\<close>, \<^verbatim>\<open>build_engine.py\<close> and their routes: the
    variables of a template, the thread of a build, the clean-up of a failed one and destruction.  With laws for OpenTofu
    that its documentation states, nothing that lives is ever without a state file; failed builds reach \<open>Failure_Queue\<close>.
  \<^item> Placement.  \<open>Capacity\<close> and \<open>Capacity_Props\<close> are \<^verbatim>\<open>capacity_gate.py\<close>, \<^verbatim>\<open>layer_split.py\<close>, the traffic lights of
    \<^verbatim>\<open>host_stats.py\<close> and the recommendations of \<^verbatim>\<open>peers_routes.py\<close>: optimality of the best fit, spreading of roles, bounds
    and memory fit of the layer split.  The locale \<open>strict_key_order\<close> carries \<^verbatim>\<open>min\<close> and \<^verbatim>\<open>max\<close> with a key.
  \<^item> LFS builds.  \<open>Lfs_Build\<close> and \<open>Lfs_Props\<close> are \<^verbatim>\<open>lfs_build.py\<close>: the plan is the book in order, the queue is worked
    in that order in every reachable state, the journal is append-only and complete.
  \<^item> Idle watch.  \<open>Idle_Watcher\<close> is \<^verbatim>\<open>idle_watcher.py\<close>: a partial function with an exact condition of termination.
  \<^item> Lab machines.  \<open>Lab_Broker\<close>, \<open>Broker_Props\<close> and \<open>Lab_Reaper\<close> are \<^verbatim>\<open>lab_vm_broker.py\<close>: quotas under every
    interleaving, confinement of the broker to its own machines and templates, the cloud-init document, and the reaper;
    the locale \<open>cloud_api\<close> is what the reaper needs of the API and is interpreted on the instance routes of \<open>Instances\<close>.

  \<^item> Console.  \<open>Vnc_Bridge\<close> and \<open>Vnc_Props\<close> are \<^verbatim>\<open>vnc_bridge.py\<close> and the ticket routes of \<^verbatim>\<open>server.py\<close>: WebSocket frames
    survive any cut of the stream, the relay is transparent, a ticket is used once.
  \<^item> Coordinator, advice runner.  \<open>Advice_Setup\<close> and \<open>Advice_Checks\<close> are the setup stage and the goal checks of
    \<^verbatim>\<open>examples/llm-chat/files/advice_runner.py\<close>, where a model's reading of a question decides what root runs on a lab
    machine; \<open>Advice_Confined\<close> and \<open>Advice_Goals\<close> show that the model can only fill inert words into the lab's own
    lines, that every planned check is well typed, and which checks can decide a verdict.
  \<^item> Coordinator, LFS worker.  \<open>Lfs_Policy\<close>, \<open>Lfs_Plan\<close> and \<open>Lfs_Worker\<close> are
    \<^verbatim>\<open>examples/llm-chat/files/lfs_worker.py\<close>: what a language model's commands may do, its changes to the book's
    commands (with \<open>Difflib\<close> for the likeness of two lines), and the run of a task on the build machine, as a log of
    everything the worker does.  \<open>Lfs_Plan_Props\<close>: an accepted plan is the book's section.  \<open>Lfs_Worker_Props\<close> and
    \<open>Lfs_Attempts\<close>: only the plan and admitted repairs run, they end, and a second attempt resumes where the first one
    stopped.  \<open>Lfs_Main\<close> and \<open>Lfs_Main_Props\<close> join it with \<open>Lfs_Build\<close>: the view of a task that the API gives, and the
    worker's loop, which works the book in order.

  \<^bold>\<open>How the parts interact.\<close>  Every request passes the gates of \<open>Authz\<close> before its handler; handlers read and write the
  tables of \<open>Store\<close> and \<open>Host\<close>; those for resources on a peer call the peer's API through \<open>Remote\<close> with the token
  that \<open>Pairing\<close> stored; security groups, load balancers and DNS follow changes of instances; the scheduler computes times
  with \<open>Croncalc\<close> and starts jobs that place their workers by the traffic lights of \<open>Capacity\<close>;
  the lab-VM broker is a client of the instance, VPC and subnet routes of its own host; the LFS worker works the queue of
  \<open>Lfs_Build\<close> on a machine of the broker.

  \<^bold>\<open>Conventions.\<close>  A handler is a function from the request and the state to the new state and a reply; exceptions are
  \<open>Inl\<close> or \<open>None\<close>.  Reachable states are inductive step relations.  The clock, new identifiers, random tokens, hashes
  and signatures, replies of peers, libvirt, HAProxy, Sentinel, OpenTofu and the language model are arguments; where
  a theorem needs something of them (fresh identifiers, a hash without collisions on the tokens in use, a signature that
  verifies) it is a hypothesis, met by the witness that follows.  Strings are lists of one-byte characters.  Floats are
  exact fractions.  The texts of error details and log lines are left out.

  \<^bold>\<open>Bounds and termination.\<close>  The search of \<open>next_fire\<close> has a termination proof over its 1855-day window.  The polling
  loops are bounded as in the code (240 polls).  Texts of times are compared for years below 10000, and the clock is
  taken to be before the year 9999 where a week is added to it.  The idle watch has no bound and is \<open>None\<close> when it
  does not end.  A step of an LFS task is repaired at most twice, a task four times, as in the code.

  \<^bold>\<open>Not modelled.\<close>  Pure I/O and effects on the host (libvirt domains, disks, HAProxy processes, sockets, NFS exports,
  host backup, package repository and mirror scripts), parsing of binary formats (GGUF), the terminals,
  the build engines that run Ansible and OpenTofu, the stores of LLM examples, deployments and help pages, settings, most of
  the programs installed on the LLM coordinator under \<^verbatim>\<open>examples/llm-chat\<close>, the Ansible modules, the dashboard and the Go
  provider.  Of modelled parts: what the notes of each component say.

  \<^bold>\<open>Plan.\<close>  Next: snapshots, the kiwix update rules, NFS stores
  and routes, the build engines' state machines, then the pure parts of the coordinator programs (routing, verification
  of answers).
\<close>

end
